(* ===== verification/Go_Prelude.thy ===== *)
theory Go_Prelude
  imports Main "HOL-Library.Sublist" "HOL-Library.List_Lexorder" "HOL-Library.Char_ord"
    "HOL-Library.AList"
begin

text \<open>
  What the whole development shares: the Go idioms of the sources as HOL combinators.

  \<^item> An early return of an error is a value of type \<open>'e option\<close> (\<open>None\<close> is Go's nil error, and
    also the pair \<open>(true, "")\<close> of the functions that return a verdict and a reason).
    \<open>seq_err\<close> is a sequence of such checks, \<open>first_err\<close> is a \<open>for ... range\<close> loop whose body
    may return an error.
  \<^item> A Go \<open>map\<close> is an association list. The order of the list is the order in which one run
    iterates over the map, which Go leaves unspecified; \<open>gomap_ok\<close> says that no key is repeated.
    A statement that holds for every list therefore holds for every iteration order.
  \<^item> A Go \<open>string\<close> is a sequence of bytes, that is an Isabelle \<open>string\<close>.
\<close>

named_theorems err_simps \<open>characterisations of when a sequence of checks returns no error\<close>
named_theorems gostr_simps \<open>equations of the Go string functions\<close>

subsection \<open>Early returns and loops that may fail\<close>

fun first_err :: "('a \<Rightarrow> 'e option) \<Rightarrow> 'a list \<Rightarrow> 'e option" where
  "first_err f [] = None"
| "first_err f (x # xs) = (case f x of None \<Rightarrow> first_err f xs | Some e \<Rightarrow> Some e)"

fun seq_err :: "'e option list \<Rightarrow> 'e option" where
  "seq_err [] = None"
| "seq_err (x # xs) = (case x of None \<Rightarrow> seq_err xs | Some e \<Rightarrow> Some e)"

definition fail_if :: "bool \<Rightarrow> 'e \<Rightarrow> 'e option" where
  "fail_if b e = (if b then Some e else None)"

lemma first_err_cong [fundef_cong]:
  "xs = ys \<Longrightarrow> (\<And>x. x \<in> set ys \<Longrightarrow> f x = g x) \<Longrightarrow> first_err f xs = first_err g ys"
  by (induction ys arbitrary: xs) (auto split: option.splits)

lemma first_err_None [err_simps]: "first_err f xs = None \<longleftrightarrow> (\<forall>x \<in> set xs. f x = None)"
  by (induction xs) (auto split: option.splits)

lemma first_err_SomeD: "first_err f xs = Some e \<Longrightarrow> \<exists>x \<in> set xs. f x = Some e"
  by (induction xs) (auto split: option.splits)

lemma first_err_Some_iff:
  "(\<exists>e. first_err f xs = Some e) \<longleftrightarrow> (\<exists>x \<in> set xs. \<exists>e. f x = Some e)"
  by (induction xs) (auto split: option.splits)

lemma first_err_map: "first_err f (map g xs) = first_err (\<lambda>x. f (g x)) xs"
  by (induction xs) (auto split: option.splits)

lemma seq_err_None [err_simps]: "seq_err xs = None \<longleftrightarrow> (\<forall>x \<in> set xs. x = None)"
  by (induction xs) (auto split: option.splits)

lemma seq_err_SomeD: "seq_err xs = Some e \<Longrightarrow> Some e \<in> set xs"
  by (induction xs) (auto split: option.splits)

lemma seq_err_Cons_None [simp]: "seq_err (x # xs) = None \<longleftrightarrow> x = None \<and> seq_err xs = None"
  by (cases x) auto

lemma first_err_Cons_None [simp]:
  "first_err f (x # xs) = None \<longleftrightarrow> f x = None \<and> first_err f xs = None"
  by (cases "f x") auto

declare seq_err.simps(2) [simp del] first_err.simps(2) [simp del]

lemma fail_if_None [err_simps]: "fail_if b e = None \<longleftrightarrow> \<not> b"
  by (simp add: fail_if_def)

lemma fail_if_simps [simp]: "fail_if True e = Some e" "fail_if False e = None"
  by (simp_all add: fail_if_def)

text \<open>A loop that builds a list and returns the first error.\<close>

fun map_err :: "('a \<Rightarrow> 'e + 'b) \<Rightarrow> 'a list \<Rightarrow> 'e + 'b list" where
  "map_err f [] = Inr []"
| "map_err f (x # xs) =
     (case f x of
        Inl e \<Rightarrow> Inl e
      | Inr y \<Rightarrow> (case map_err f xs of Inl e \<Rightarrow> Inl e | Inr ys \<Rightarrow> Inr (y # ys)))"

lemma map_err_cong [fundef_cong]:
  "xs = ys \<Longrightarrow> (\<And>x. x \<in> set ys \<Longrightarrow> f x = g x) \<Longrightarrow> map_err f xs = map_err g ys"
  by (induction ys arbitrary: xs) (auto split: sum.splits)

lemma map_err_Inr:
  "map_err f xs = Inr ys \<longleftrightarrow> list_all2 (\<lambda>x y. f x = Inr y) xs ys"
proof (induction xs arbitrary: ys)
  case Nil
  then show ?case by auto
next
  case (Cons x xs)
  then show ?case
    by (cases "f x"; cases "map_err f xs") (auto simp: list_all2_Cons1)
qed

lemma map_err_range: "map_err f xs = Inr ys \<Longrightarrow> set ys = {y. \<exists>x \<in> set xs. f x = Inr y}"
proof (induction xs arbitrary: ys)
  case (Cons x xs)
  then show ?case by (cases "f x"; cases "map_err f xs") auto
qed simp

lemma find_SomeD: "find P xs = Some x \<Longrightarrow> x \<in> set xs \<and> P x"
  by (induction xs) (auto split: if_splits)

subsection \<open>Go maps\<close>

type_synonym 'v gomap = "(string \<times> 'v) list"

abbreviation gokeys :: "'v gomap \<Rightarrow> string list" where
  "gokeys m \<equiv> map fst m"

definition gomap_ok :: "'v gomap \<Rightarrow> bool" where
  "gomap_ok m \<longleftrightarrow> distinct (gokeys m)"

definition has_key :: "'v gomap \<Rightarrow> string \<Rightarrow> bool" where
  "has_key m k \<longleftrightarrow> map_of m k \<noteq> None"

lemma has_key_iff: "has_key m k \<longleftrightarrow> k \<in> set (gokeys m)"
  by (simp add: has_key_def map_of_eq_None_iff)

lemma has_key_cases: "has_key m k \<Longrightarrow> (\<And>v. map_of m k = Some v \<Longrightarrow> P) \<Longrightarrow> P"
  by (auto simp: has_key_def)

lemma gomap_all_iff:
  "gomap_ok m \<Longrightarrow> (\<forall>x \<in> set m. P (fst x) (snd x)) \<longleftrightarrow> (\<forall>k v. map_of m k = Some v \<longrightarrow> P k v)"
  by (auto simp: gomap_ok_def map_of_eq_Some_iff)

lemma gomap_ok_update: "gomap_ok m \<Longrightarrow> gomap_ok (AList.update k v m)"
  by (simp add: gomap_ok_def AList.distinct_update)

lemma map_of_AList_update:
  "map_of (AList.update k v m) k' = (if k' = k then Some v else map_of m k')"
  by (simp add: update_conv')

subsection \<open>Go strings\<close>

text \<open>\<open>strings.Split\<close> with a one-byte separator, \<open>strings.Join\<close>, \<open>strings.Contains\<close>.\<close>

fun split_on :: "char \<Rightarrow> string \<Rightarrow> string list" where
  "split_on c [] = [[]]"
| "split_on c (x # xs) =
     (if x = c then [] # split_on c xs
      else (case split_on c xs of [] \<Rightarrow> [[x]] | y # ys \<Rightarrow> (x # y) # ys))"

fun join_with :: "string \<Rightarrow> string list \<Rightarrow> string" where
  "join_with sep [] = []"
| "join_with sep [x] = x"
| "join_with sep (x # y # ys) = x @ sep @ join_with sep (y # ys)"

fun contains_sub :: "string \<Rightarrow> string \<Rightarrow> bool" where
  "contains_sub [] sub = (sub = [])"
| "contains_sub (x # xs) sub = (prefix sub (x # xs) \<or> contains_sub xs sub)"

text \<open>\<open>strings.TrimPrefix\<close> and \<open>strings.TrimSuffix\<close>; \<open>strings.TrimSpace\<close> on ASCII white space.\<close>

definition trim_prefix :: "string \<Rightarrow> string \<Rightarrow> string" where
  "trim_prefix p s = (if prefix p s then drop (length p) s else s)"

definition trim_suffix :: "string \<Rightarrow> string \<Rightarrow> string" where
  "trim_suffix p s = (if suffix p s then take (length s - length p) s else s)"

lemma split_on_neq_Nil [simp]: "split_on c s \<noteq> []"
  by (induction s) (auto split: list.splits)

lemma split_on_no_sep: "p \<in> set (split_on c s) \<Longrightarrow> c \<notin> set p"
  by (induction s arbitrary: p) (auto split: if_splits list.splits)

lemma join_split_on: "join_with [c] (split_on c s) = s"
proof (induction s)
  case Nil
  then show ?case by simp
next
  case (Cons x xs)
  obtain y ys where s: "split_on c xs = y # ys"
    by (cases "split_on c xs") auto
  with Cons show ?case by (cases ys) auto
qed

lemma split_on_append_sep:
  "c \<notin> set p \<Longrightarrow> split_on c (p @ c # s) = p # split_on c s"
  by (induction p) auto

lemma split_on_single: "c \<notin> set p \<Longrightarrow> split_on c p = [p]"
  by (induction p) auto

lemma split_on_join:
  "ps \<noteq> [] \<Longrightarrow> \<forall>p \<in> set ps. c \<notin> set p \<Longrightarrow> split_on c (join_with [c] ps) = ps"
  by (induction "[c]" ps rule: join_with.induct) (auto simp: split_on_single split_on_append_sep)

lemma sep_append_eq_iff:
  "c \<notin> set p \<Longrightarrow> c \<notin> set p' \<Longrightarrow> p @ c # q = p' @ c # q' \<longleftrightarrow> p = p' \<and> q = q'"
proof (induction p arbitrary: p')
  case Nil
  then show ?case by (cases p') auto
next
  case (Cons x p)
  then show ?case by (cases p') auto
qed

lemma split_on_inj: "split_on c s = split_on c t \<Longrightarrow> s = t"
  by (metis join_split_on)

lemma contains_sub_iff: "contains_sub s sub \<longleftrightarrow> (\<exists>a b. s = a @ sub @ b)"
proof (induction s)
  case Nil
  then show ?case by auto
next
  case (Cons x xs)
  have "(\<exists>a b. x # xs = a @ sub @ b) \<longleftrightarrow> prefix sub (x # xs) \<or> (\<exists>a b. xs = a @ sub @ b)"
    (is "?l \<longleftrightarrow> ?r")
  proof
    assume ?l
    then obtain a b where ab: "x # xs = a @ sub @ b" by blast
    then show ?r by (cases a) (auto simp: prefix_def)
  next
    assume ?r
    then show ?l
    proof
      assume "prefix sub (x # xs)"
      then show ?l by (auto simp: prefix_def intro: exI [of _ "[]"])
    next
      assume "\<exists>a b. xs = a @ sub @ b"
      then obtain a b where "xs = a @ sub @ b" by blast
      then have "x # xs = (x # a) @ sub @ b" by simp
      then show ?l by blast
    qed
  qed
  with Cons show ?case by simp
qed

lemma contains_char: "contains_sub s [c] \<longleftrightarrow> c \<in> set s"
  by (induction s) auto

subsection \<open>Sorted sets of strings\<close>

text \<open>
  The idiom "collect into a \<open>map[string]bool\<close>, copy the keys, \<open>sort.Strings\<close>". The result does
  not depend on the iteration order: it is the sorted list of the set.
\<close>

definition sorted_set :: "string list \<Rightarrow> string list" where
  "sorted_set xs = sort (remdups xs)"

lemma set_sorted_set [simp]: "set (sorted_set xs) = set xs"
  by (simp add: sorted_set_def)

lemma sorted_sorted_set [simp]: "sorted (sorted_set xs)"
  by (simp add: sorted_set_def)

lemma distinct_sorted_set [simp]: "distinct (sorted_set xs)"
  by (simp add: sorted_set_def)

lemma sorted_set_eq_iff: "sorted_set xs = sorted_set ys \<longleftrightarrow> set xs = set ys"
  by (metis distinct_sorted_set set_sorted_set sorted_distinct_set_unique sorted_sorted_set)

lemma sorted_set_idem [simp]: "sorted_set (sorted_set xs) = sorted_set xs"
  by (simp add: sorted_set_eq_iff)

lemma sorted_set_Nil_iff [simp]: "sorted_set xs = [] \<longleftrightarrow> xs = []"
  by (metis set_empty set_sorted_set)

end
