(* ===== verification/Errors.thy ===== *)
theory Errors
  imports Go_Prelude
begin

text \<open>
  The sentinel errors of package \<open>semantics\<close> (\<open>errors.New\<close>) and the errors built from them.
  \<open>fmt.Errorf("%w: ...", sentinel, args)\<close> is \<open>Errf sentinel format args\<close>: the text is kept
  unformatted, since only the sentinel (\<open>errors.Is\<close>) and the arguments carry information. The
  same type models the reason string of a decision, which the sources obtain from an error by
  \<open>Error()\<close>; \<open>err_text\<close> is the stable code such a string starts with.
\<close>

datatype err =
    ErrUnsupportedWildcard | ErrInvalidCapabilityID | ErrMissingCapabilityID
  | ErrInvalidConstraint | ErrInvalidParamsNull | ErrParamsMissing | ErrParamsUndeclared
  | ErrCapabilityNotAuth | ErrUnknownConstraint | ErrDifferentNamespace | ErrLiteralMismatch
  | ErrWildcardNoTrailing | ErrParamsExceedGrant | ErrEmptyBoundDenies | ErrNotInEnum
  | ErrNoOverlap | ErrAbsentSource | ErrInvalidParamsDupKey | ErrInvalidParamsNumber
  | ErrInvalidParamsSize | ErrInvalidParamsBinding | ErrParamsCardinality | ErrParamsOutOfRange
  | ErrParamsNotMultiple | ErrUnsupportedLangRev | ErrChildExceedsParent | ErrParamsNotNarrower
  | ErrNoDecisions | ErrUnknownCombiningAlgorithm | ErrCombiningWouldDropObligations
  | ErrObligationUnknown | ErrObligationShape | ErrInvalidResolution | ErrInvalidTimestamp

datatype canon_err =
    ErrCanonicalInvalidUTF8 | ErrCanonicalSurrogate | ErrCanonicalNumber
  | EncoderError \<comment> \<open>the error of \<open>encoding/json\<close> on a NaN or an infinity\<close>

fun err_text :: "err \<Rightarrow> string" where
  "err_text ErrUnsupportedWildcard = ''unsupported_wildcard''"
| "err_text ErrInvalidCapabilityID = ''invalid_capability_id''"
| "err_text ErrMissingCapabilityID = ''missing_capability_id''"
| "err_text ErrInvalidConstraint = ''invalid_constraint''"
| "err_text ErrInvalidParamsNull = ''invalid_params_null''"
| "err_text ErrParamsMissing = ''params_missing''"
| "err_text ErrParamsUndeclared = ''undeclared_param''"
| "err_text ErrCapabilityNotAuth = ''capability_not_authorized''"
| "err_text ErrUnknownConstraint = ''unknown_constraint''"
| "err_text ErrDifferentNamespace = ''different_namespace''"
| "err_text ErrLiteralMismatch = ''literal_mismatch''"
| "err_text ErrWildcardNoTrailing = ''wildcard_requires_trailing_segment''"
| "err_text ErrParamsExceedGrant = ''params_exceed_grant''"
| "err_text ErrEmptyBoundDenies = ''empty_bound_denies_class''"
| "err_text ErrNotInEnum = ''not_in_enum''"
| "err_text ErrNoOverlap = ''no_overlap''"
| "err_text ErrAbsentSource = ''absent_source''"
| "err_text ErrInvalidParamsDupKey = ''invalid_params_duplicate_key''"
| "err_text ErrInvalidParamsNumber = ''invalid_params_number''"
| "err_text ErrInvalidParamsSize = ''invalid_params_size''"
| "err_text ErrInvalidParamsBinding = ''invalid_params_binding''"
| "err_text ErrParamsCardinality = ''params_cardinality''"
| "err_text ErrParamsOutOfRange = ''params_out_of_range''"
| "err_text ErrParamsNotMultiple = ''params_not_multiple''"
| "err_text ErrUnsupportedLangRev = ''unsupported_language_revision''"
| "err_text ErrChildExceedsParent = ''child_exceeds_parent''"
| "err_text ErrParamsNotNarrower = ''params_not_narrower''"
| "err_text ErrNoDecisions = ''no_decisions''"
| "err_text ErrUnknownCombiningAlgorithm = ''unknown_combining_algorithm''"
| "err_text ErrCombiningWouldDropObligations = ''combining_would_drop_obligations''"
| "err_text ErrObligationUnknown = ''obligation_unknown''"
| "err_text ErrObligationShape = ''obligation_shape''"
| "err_text ErrInvalidResolution = ''invalid_resolution''"
| "err_text ErrInvalidTimestamp = ''invalid_timestamp''"

datatype error =
    Err err                          \<comment> \<open>the sentinel itself\<close>
  | Errf err string "string list"    \<comment> \<open>\<open>fmt.Errorf("%w: " + format, sentinel, args...)\<close>\<close>
  | Violated string                  \<comment> \<open>\<open>fmt.Errorf("<type>:violated")\<close>\<close>
  | Reason string                    \<comment> \<open>a reason written as a string literal\<close>

fun sentinel :: "error \<Rightarrow> err option" where
  "sentinel (Err e) = Some e"
| "sentinel (Errf e f as) = Some e"
| "sentinel (Violated t) = None"
| "sentinel (Reason s) = None"

text \<open>The beginning of the error's text, up to where formatted arguments follow.\<close>

fun error_head :: "error \<Rightarrow> string" where
  "error_head (Err e) = err_text e"
| "error_head (Errf e f as) = err_text e @ '': ''"
| "error_head (Violated t) = t @ '':violated''"
| "error_head (Reason s) = s"

end
