(* ===== verification/Contracts.thy ===== *)
theory Contracts
  imports Go_Prelude
begin

text \<open>
  The contracts of the components, as locales. \<open>narrowing\<close>: a check
  "the child is within the parent" that may only accept a child admitting no more than its parent.
  \<open>meeting\<close>: an operation that combines two sources into one, or refuses, and whose result may
  admit only what both sources admit. The lemmas on delegation chains and on folds over several
  sources are proved once here; identifiers, parameter values, parameter bounds and whole grants
  interpret the locales. \<open>append_only\<close>: the transitions of a state machine keep its invariant and only
  extend a log; the registry of scheme administration interprets it for its history and for its revocations.
\<close>

locale narrowing =
  fixes narrower :: "'a \<Rightarrow> 'a \<Rightarrow> bool"   \<comment> \<open>child, parent\<close>
    and admits :: "'a \<Rightarrow> 'x \<Rightarrow> bool"
  assumes narrower_sound: "narrower c p \<Longrightarrow> admits c x \<Longrightarrow> admits p x"
begin

text \<open>A chain lists the root first; each link is within its predecessor.\<close>

definition chain :: "'a list \<Rightarrow> bool" where
  "chain gs \<longleftrightarrow> successively (\<lambda>p c. narrower c p) gs"

lemma chain_Cons: "chain (p # c # gs) \<longleftrightarrow> narrower c p \<and> chain (c # gs)"
  by (simp add: chain_def)

lemma chain_head: "chain (g # gs) \<Longrightarrow> admits (last (g # gs)) x \<Longrightarrow> admits g x"
proof (induction gs arbitrary: g)
  case (Cons c gs)
  then show ?case by (auto simp: chain_Cons intro: narrower_sound)
qed simp

theorem chain_sound: "chain gs \<Longrightarrow> gs \<noteq> [] \<Longrightarrow> admits (last gs) x \<Longrightarrow> \<forall>g \<in> set gs. admits g x"
proof (induction gs)
  case (Cons g gs)
  show ?case
  proof (cases gs)
    case (Cons c cs)
    with Cons.prems have "chain gs" and "admits (last gs) x" by (auto simp: chain_Cons)
    with Cons.IH Cons have "\<forall>h \<in> set gs. admits h x" by simp
    moreover have "admits g x" using chain_head [OF Cons.prems(1)] Cons.prems(3) by blast
    ultimately show ?thesis by simp
  qed (use Cons.prems in simp)
qed simp

end

locale meeting =
  fixes meet :: "'a \<Rightarrow> 'a \<Rightarrow> 'e + 'a"
    and good :: "'a \<Rightarrow> bool"
    and admits :: "'a \<Rightarrow> 'x \<Rightarrow> bool"
  assumes meet_sound: "good a \<Longrightarrow> good b \<Longrightarrow> meet a b = Inr m \<Longrightarrow> admits m x \<Longrightarrow> admits a x \<and> admits b x"
    and meet_good: "good a \<Longrightarrow> good b \<Longrightarrow> meet a b = Inr m \<Longrightarrow> good m"
begin

primrec meet_all :: "'a \<Rightarrow> 'a list \<Rightarrow> 'e + 'a" where
  "meet_all a [] = Inr a"
| "meet_all a (b # bs) = (case meet a b of Inl e \<Rightarrow> Inl e | Inr m \<Rightarrow> meet_all m bs)"

theorem meet_all_sound:
  "good a \<Longrightarrow> \<forall>b \<in> set bs. good b \<Longrightarrow> meet_all a bs = Inr m \<Longrightarrow> admits m x \<Longrightarrow>
     admits a x \<and> (\<forall>b \<in> set bs. admits b x)"
proof (induction bs arbitrary: a)
  case (Cons b bs)
  then obtain c where c: "meet a b = Inr c" "meet_all c bs = Inr m"
    by (auto split: sum.splits)
  with Cons.prems have "good c" by (auto intro: meet_good)
  with Cons.IH [OF this] Cons.prems c have "admits c x" "\<forall>d \<in> set bs. admits d x" by auto
  with meet_sound [OF _ _ c(1)] Cons.prems show ?case by auto
qed simp

end

locale append_only =
  fixes step :: "'s \<Rightarrow> 's \<Rightarrow> bool"
    and inv :: "'s \<Rightarrow> bool"
    and log :: "'s \<Rightarrow> 'e list"
  assumes step_inv: "inv s \<Longrightarrow> step s t \<Longrightarrow> inv t"
    and step_prefix: "inv s \<Longrightarrow> step s t \<Longrightarrow> prefix (log s) (log t)"
begin

lemma steps_inv: "step\<^sup>*\<^sup>* s t \<Longrightarrow> inv s \<Longrightarrow> inv t"
  by (induction rule: rtranclp_induct) (auto intro: step_inv)

theorem steps_prefix: "step\<^sup>*\<^sup>* s t \<Longrightarrow> inv s \<Longrightarrow> prefix (log s) (log t)"
proof (induction rule: rtranclp_induct)
  case (step t u)
  then show ?case using step_prefix [OF steps_inv [OF step.hyps(1)]] by (blast intro: prefix_order.trans)
qed simp

end

end
