(* ===== verification/Go_Regexp.thy ===== *)
theory Go_Regexp
  imports Go_Prelude
begin

text \<open>
  The anchored regular expressions of the sources (\<open>regexp.MustCompile(`^...$`)\<close>) and
  \<open>MatchString\<close> on them. Every pattern of the program is anchored at both ends and uses ASCII
  classes only, so that a match is a match of the whole byte string. The matcher is Brzozowski's
  derivative; \<open>rmatch_correct\<close> proves it against the language of the pattern.
\<close>

datatype rx =
    Eps                     \<comment> \<open>the empty string\<close>
  | Cls "char \<Rightarrow> bool"      \<comment> \<open>a character class\<close>
  | Seq rx rx
  | Alt rx rx
  | Star rx
  | Fail                    \<comment> \<open>no string; arises in derivatives only\<close>

fun nullable :: "rx \<Rightarrow> bool" where
  "nullable Eps = True"
| "nullable (Cls p) = False"
| "nullable (Seq r s) = (nullable r \<and> nullable s)"
| "nullable (Alt r s) = (nullable r \<or> nullable s)"
| "nullable (Star r) = True"
| "nullable Fail = False"

text \<open>Smart constructors keep the derivatives small.\<close>

fun seq :: "rx \<Rightarrow> rx \<Rightarrow> rx" where
  "seq Fail s = Fail"
| "seq Eps s = s"
| "seq r s = Seq r s"

fun alt :: "rx \<Rightarrow> rx \<Rightarrow> rx" where
  "alt Fail s = s"
| "alt r Fail = r"
| "alt r s = Alt r s"

fun deriv :: "char \<Rightarrow> rx \<Rightarrow> rx" where
  "deriv c Eps = Fail"
| "deriv c (Cls p) = (if p c then Eps else Fail)"
| "deriv c (Seq r s) =
     (if nullable r then alt (seq (deriv c r) s) (deriv c s) else seq (deriv c r) s)"
| "deriv c (Alt r s) = alt (deriv c r) (deriv c s)"
| "deriv c (Star r) = seq (deriv c r) (Star r)"
| "deriv c Fail = Fail"

fun rmatch :: "rx \<Rightarrow> string \<Rightarrow> bool" where
  "rmatch r [] = nullable r"
| "rmatch r (c # s) = rmatch (deriv c r) s"

subsection \<open>The language of a pattern\<close>

inductive in_lang :: "string \<Rightarrow> rx \<Rightarrow> bool" where
  eps: "in_lang [] Eps"
| cls: "p c \<Longrightarrow> in_lang [c] (Cls p)"
| seqI: "in_lang u r \<Longrightarrow> in_lang v s \<Longrightarrow> in_lang (u @ v) (Seq r s)"
| altL: "in_lang u r \<Longrightarrow> in_lang u (Alt r s)"
| altR: "in_lang u s \<Longrightarrow> in_lang u (Alt r s)"
| star_nil: "in_lang [] (Star r)"
| star_app: "in_lang u r \<Longrightarrow> in_lang v (Star r) \<Longrightarrow> in_lang (u @ v) (Star r)"

inductive_simps in_lang_simps:
  "in_lang u Eps" "in_lang u (Cls p)" "in_lang u (Seq r s)" "in_lang u (Alt r s)" "in_lang u Fail"

lemma nullable_correct: "nullable r \<longleftrightarrow> in_lang [] r"
proof (induction r)
  case (Star r)
  show ?case by (simp add: in_lang.star_nil)
qed (auto simp: in_lang_simps)

lemma in_lang_seq: "in_lang u (seq r s) \<longleftrightarrow> in_lang u (Seq r s)"
  by (cases r) (auto simp: in_lang_simps)

lemma in_lang_alt: "in_lang u (alt r s) \<longleftrightarrow> in_lang u (Alt r s)"
  by (cases "(r, s)" rule: alt.cases) (auto simp: in_lang_simps)

lemma star_ConsD:
  assumes "in_lang w (Star r)" and "w = c # u"
  shows "\<exists>a b. u = a @ b \<and> in_lang (c # a) r \<and> in_lang b (Star r)"
  using assms
proof (induction w "Star r" arbitrary: u rule: in_lang.induct)
  case star_nil
  then show ?case by simp
next
  case (star_app x v)
  show ?case
  proof (cases x)
    case Nil
    with star_app show ?thesis by auto
  next
    case (Cons d y)
    with star_app show ?thesis by auto
  qed
qed

lemma deriv_correct: "in_lang u (deriv c r) \<longleftrightarrow> in_lang (c # u) r"
proof (induction r arbitrary: u)
  case (Seq r s)
  have split: "in_lang (c # u) (Seq r s) \<longleftrightarrow>
      (\<exists>a b. u = a @ b \<and> in_lang (c # a) r \<and> in_lang b s) \<or> in_lang [] r \<and> in_lang (c # u) s"
    by (auto simp: in_lang_simps Cons_eq_append_conv)
  have "in_lang u (deriv c (Seq r s)) \<longleftrightarrow>
      (\<exists>a b. u = a @ b \<and> in_lang (c # a) r \<and> in_lang b s) \<or> in_lang [] r \<and> in_lang (c # u) s"
    by (auto simp: in_lang_seq in_lang_alt Seq.IH nullable_correct in_lang_simps(3,4))
  with split show ?case by (simp only:)
next
  case (Star r)
  have "in_lang (c # u) (Star r) \<longleftrightarrow> (\<exists>a b. u = a @ b \<and> in_lang (c # a) r \<and> in_lang b (Star r))"
    using star_ConsD in_lang.star_app by fastforce
  then show ?case by (auto simp: in_lang_seq Star.IH in_lang_simps(3))
qed (auto simp: in_lang_simps in_lang_alt)

theorem rmatch_correct: "rmatch r u \<longleftrightarrow> in_lang u r"
  by (induction u arbitrary: r) (auto simp: nullable_correct deriv_correct)

subsection \<open>Pattern abbreviations\<close>

definition lit :: "char \<Rightarrow> rx" where
  "lit c = Cls (\<lambda>x. x = c)"

definition plus :: "rx \<Rightarrow> rx" where
  "plus r = Seq r (Star r)"

definition opt :: "rx \<Rightarrow> rx" where
  "opt r = Alt Eps r"

fun seqs :: "rx list \<Rightarrow> rx" where
  "seqs [] = Eps"
| "seqs [r] = r"
| "seqs (r # rs) = Seq r (seqs rs)"

fun repeat :: "nat \<Rightarrow> rx \<Rightarrow> rx" where
  "repeat 0 r = Eps"
| "repeat (Suc n) r = Seq r (repeat n r)"

fun strlit :: "string \<Rightarrow> rx" where
  "strlit [] = Eps"
| "strlit [c] = lit c"
| "strlit (c # cs) = Seq (lit c) (strlit cs)"

definition in_range :: "char \<Rightarrow> char \<Rightarrow> char \<Rightarrow> bool" where
  "in_range a b c \<longleftrightarrow> (of_char a :: int) \<le> of_char c \<and> (of_char c :: int) \<le> of_char b"

definition is_digit :: "char \<Rightarrow> bool" where
  "is_digit c \<longleftrightarrow> in_range (CHR ''0'') (CHR ''9'') c"

definition is_lower :: "char \<Rightarrow> bool" where
  "is_lower c \<longleftrightarrow> in_range (CHR ''a'') (CHR ''z'') c"

definition is_upper :: "char \<Rightarrow> bool" where
  "is_upper c \<longleftrightarrow> in_range (CHR ''A'') (CHR ''Z'') c"

definition is_alnum :: "char \<Rightarrow> bool" where
  "is_alnum c \<longleftrightarrow> is_digit c \<or> is_lower c \<or> is_upper c"

lemmas char_class_defs = in_range_def is_digit_def is_lower_def is_upper_def is_alnum_def

lemma lit_lang [simp]: "in_lang u (lit c) \<longleftrightarrow> u = [c]"
  by (auto simp: lit_def in_lang_simps)

lemma star_cls_lang: "in_lang u (Star (Cls p)) \<longleftrightarrow> list_all p u"
proof
  show "in_lang u (Star (Cls p)) \<Longrightarrow> list_all p u"
    by (induction u "Star (Cls p)" rule: in_lang.induct) (auto simp: in_lang_simps)
next
  show "list_all p u \<Longrightarrow> in_lang u (Star (Cls p))"
  proof (induction u)
    case Nil
    then show ?case by (simp add: in_lang.star_nil)
  next
    case (Cons c u)
    then have "in_lang ([c] @ u) (Star (Cls p))"
      by (intro in_lang.star_app) (auto simp: in_lang_simps)
    then show ?case by simp
  qed
qed

lemma plus_cls_lang: "in_lang u (plus (Cls p)) \<longleftrightarrow> u \<noteq> [] \<and> list_all p u"
proof -
  have "in_lang u (plus (Cls p)) \<longleftrightarrow> (\<exists>c v. u = [c] @ v \<and> p c \<and> list_all p v)"
    unfolding plus_def in_lang_simps(3) in_lang_simps(2) star_cls_lang by blast
  then show ?thesis by (cases u) auto
qed

end
