(* ===== verification/Go_Float.thy ===== *)
theory Go_Float
  imports Complex_Main Go_Prelude
begin

text \<open>
  Go's \<open>float64\<close>: IEEE-754 binary64. A finite number is its exact rational value, so that every
  comparison of the sources is a comparison of rationals; an operation computes the exact
  rational result and rounds it to the nearest binary64 number, ties to even
  (\<open>round_f64\<close>). The two zeros are one value: no operation of the sources tells them apart, and
  \<open>formatCanonicalFloat\<close> prints both as \<open>0\<close>. The sign of a zero divisor is the only place where
  IEEE-754 would; \<open>isMultipleOf\<close> excludes a zero divisor before it divides.
\<close>

datatype f64 = NaN | Inf bool \<comment> \<open>true: negative\<close> | Fin rat

subsection \<open>Powers and logarithms on rationals\<close>

definition pow_int :: "rat \<Rightarrow> int \<Rightarrow> rat" where
  "pow_int b k = (if 0 \<le> k then b ^ nat k else 1 / b ^ nat (- k))"

text \<open>Evaluated by repeated squaring on the exponent's binary representation.\<close>

function sq_power :: "rat \<Rightarrow> int \<Rightarrow> rat" where
  "sq_power b k =
     (if k \<le> 0 then 1
      else let h = sq_power b (k div 2) in if even k then h * h else b * (h * h))"
  by pat_completeness auto
termination
  by (relation "measure (\<lambda>(b, k). nat k)") auto

declare sq_power.simps [simp del]

lemma sq_power_eq: "sq_power b k = b ^ nat k"
proof (induction b k rule: sq_power.induct)
  case (1 b k)
  show ?case
  proof (cases "k \<le> 0")
    case True
    then show ?thesis by (simp add: sq_power.simps [of b k])
  next
    case False
    then have IH: "sq_power b (k div 2) = b ^ nat (k div 2)" by (rule 1)
    have "nat k = (if even k then nat (k div 2) + nat (k div 2)
        else Suc (nat (k div 2) + nat (k div 2)))"
      using False by (auto elim!: evenE oddE)
    then have "b ^ nat k = (if even k then b ^ nat (k div 2) * b ^ nat (k div 2)
        else b * (b ^ nat (k div 2) * b ^ nat (k div 2)))"
      by (simp add: power_add)
    with False IH show ?thesis
      by (simp add: sq_power.simps [of b k] Let_def)
  qed
qed

lemma pow_int_code [code]:
  "pow_int b k = (if 0 \<le> k then sq_power b k else 1 / sq_power b (- k))"
  by (simp add: pow_int_def sq_power_eq)

abbreviation pow2 :: "int \<Rightarrow> rat" where
  "pow2 k \<equiv> pow_int 2 k"

function num_digits :: "int \<Rightarrow> int \<Rightarrow> int" where
  "num_digits b n = (if n \<le> 0 \<or> b \<le> 1 then 0 else 1 + num_digits b (n div b))"
  by pat_completeness auto
termination
  by (relation "measure (\<lambda>(b, n). nat n)") (auto simp: int_div_less_self)

declare num_digits.simps [simp del]

text \<open>\<open>floor_log b x\<close> is the exponent \<open>e\<close> with \<open>b\<^sup>e \<le> x < b\<^sup>e\<^sup>+\<^sup>1\<close>, for positive \<open>x\<close>.\<close>

definition floor_log :: "int \<Rightarrow> rat \<Rightarrow> int" where
  "floor_log b x =
     (let (n, d) = quotient_of x;
          k = num_digits b n - num_digits b d
      in if pow_int (of_int b) k \<le> x then k else k - 1)"

definition round_half_even :: "rat \<Rightarrow> int" where
  "round_half_even x =
     (let f = \<lfloor>x\<rfloor>; d = x - of_int f
      in if d < 1 / 2 then f
         else if 1 / 2 < d then f + 1
         else if even f then f else f + 1)"

subsection \<open>Rounding to binary64\<close>

text \<open>
  A significand \<open>m\<close> of 53 bits and an exponent \<open>e\<close> from \<open>-1074\<close> (subnormal numbers) on; overflow
  to infinity when \<open>m * 2\<^sup>e\<close> reaches \<open>2\<^sup>1\<^sup>0\<^sup>2\<^sup>4\<close>, that is \<open>2\<^sup>5\<^sup>3 * 2\<^sup>9\<^sup>7\<^sup>1\<close>.
\<close>

definition round_f64 :: "rat \<Rightarrow> f64" where
  "round_f64 x =
     (if x = 0 then Fin 0
      else
        let e = max (- 1074) (floor_log 2 \<bar>x\<bar> - 52);
            m = round_half_even (\<bar>x\<bar> / pow2 e)
        in if 971 < e \<or> e = 971 \<and> 9007199254740992 \<le> m then Inf (x < 0)
           else Fin (sgn x * (of_int m * pow2 e)))"

definition representable :: "rat \<Rightarrow> bool" where
  "representable x \<longleftrightarrow> round_f64 x = Fin x"

subsection \<open>Comparison and arithmetic\<close>

fun f64_less :: "f64 \<Rightarrow> f64 \<Rightarrow> bool" where
  "f64_less NaN y = False"
| "f64_less x NaN = False"
| "f64_less (Fin a) (Fin b) = (a < b)"
| "f64_less (Fin a) (Inf n) = (\<not> n)"
| "f64_less (Inf n) (Fin b) = n"
| "f64_less (Inf n) (Inf m) = (n \<and> \<not> m)"

fun f64_eq :: "f64 \<Rightarrow> f64 \<Rightarrow> bool" where
  "f64_eq NaN y = False"
| "f64_eq x NaN = False"
| "f64_eq x y = (x = y)"

fun f64_le :: "f64 \<Rightarrow> f64 \<Rightarrow> bool" where
  "f64_le x y = (f64_less x y \<or> f64_eq x y)"

fun is_finite :: "f64 \<Rightarrow> bool" where
  "is_finite (Fin a) = True"
| "is_finite x = False"

text \<open>\<open>math.Trunc\<close> and \<open>math.Abs\<close>.\<close>

definition rat_trunc :: "rat \<Rightarrow> rat" where
  "rat_trunc a = (if 0 \<le> a then of_int \<lfloor>a\<rfloor> else of_int \<lceil>a\<rceil>)"

fun f64_trunc :: "f64 \<Rightarrow> f64" where
  "f64_trunc (Fin a) = Fin (rat_trunc a)"
| "f64_trunc x = x"

fun f64_abs :: "f64 \<Rightarrow> f64" where
  "f64_abs (Fin a) = Fin \<bar>a\<bar>"
| "f64_abs (Inf n) = Inf False"
| "f64_abs NaN = NaN"

fun f64_mul :: "f64 \<Rightarrow> f64 \<Rightarrow> f64" where
  "f64_mul (Fin a) (Fin b) = round_f64 (a * b)"
| "f64_mul (Inf n) (Fin b) = (if b = 0 then NaN else Inf (n \<noteq> (b < 0)))"
| "f64_mul (Fin a) (Inf n) = (if a = 0 then NaN else Inf (n \<noteq> (a < 0)))"
| "f64_mul (Inf n) (Inf m) = Inf (n \<noteq> m)"
| "f64_mul NaN y = NaN"
| "f64_mul x NaN = NaN"

fun f64_div :: "f64 \<Rightarrow> f64 \<Rightarrow> f64" where
  "f64_div (Fin a) (Fin b) =
     (if b = 0 then (if a = 0 then NaN else Inf (a < 0)) else round_f64 (a / b))"
| "f64_div (Inf n) (Fin b) = Inf (n \<noteq> (b < 0))"
| "f64_div (Fin a) (Inf n) = Fin 0"
| "f64_div (Inf n) (Inf m) = NaN"
| "f64_div NaN y = NaN"
| "f64_div x NaN = NaN"

text \<open>Go's conversion \<open>float64(i)\<close> of an integer.\<close>

definition f64_of_int :: "int \<Rightarrow> f64" where
  "f64_of_int i = round_f64 (of_int i)"

definition integral :: "rat \<Rightarrow> bool" where
  "integral a \<longleftrightarrow> rat_trunc a = a"

subsection \<open>Exactness of rounding\<close>

lemma pow_int_powi: "pow_int b k = b powi k"
  by (simp add: pow_int_def power_int_def divide_inverse power_inverse)

lemma num_digits_nonneg: "0 \<le> num_digits b n"
proof (induction b n rule: num_digits.induct)
  case (1 b n)
  then show ?case by (cases "n \<le> 0 \<or> b \<le> 1") (auto simp: num_digits.simps [of b n])
qed

lemma num_digits_bounds:
  assumes "2 \<le> b" and "0 < n"
  shows "1 \<le> num_digits b n \<and> b ^ nat (num_digits b n - 1) \<le> n \<and> n < b ^ nat (num_digits b n)"
  using assms
proof (induction b n rule: num_digits.induct)
  case (1 b n)
  let ?d = "num_digits b (n div b)"
  have eq: "num_digits b n = 1 + ?d"
    using 1(2,3) by (simp add: num_digits.simps [of b n])
  have nn: "0 \<le> ?d" by (rule num_digits_nonneg)
  show ?case
  proof (cases "n < b")
    case True
    with 1(2,3) have "?d = 0" by (simp add: num_digits.simps [of b 0])
    with True 1(2,3) show ?thesis by (simp add: eq)
  next
    case False
    with 1(2,3) have pos: "0 < n div b" by (simp add: pos_imp_zdiv_pos_iff)
    with 1 have IH: "1 \<le> ?d" "b ^ nat (?d - 1) \<le> n div b" "n div b < b ^ nat ?d"
      by auto
    have suc: "nat ?d = Suc (nat (?d - 1))" "nat (1 + ?d) = Suc (nat ?d)" using IH(1) by auto
    have "b * b ^ nat (?d - 1) \<le> b * (n div b)" using IH(2) 1(2) by simp
    also have "\<dots> \<le> n" using pos_mod_sign [of b n] mult_div_mod_eq [of b n] 1(2) by linarith
    finally have lo: "b ^ nat ?d \<le> n" by (simp add: suc(1))
    have "n < b * (n div b + 1)"
      using pos_mod_bound [of b n] mult_div_mod_eq [of b n] 1(2)
      by (simp only: distrib_left mult_1_right) linarith
    also have "\<dots> \<le> b * b ^ nat ?d" using IH(3) 1(2) by (intro mult_left_mono) auto
    finally have hi: "n < b ^ nat (1 + ?d)" by (simp add: suc(2))
    show ?thesis using lo hi IH(1) by (simp add: eq)
  qed
qed

lemma floor_log_bounds:
  assumes "2 \<le> b" and "0 < x"
  shows "pow_int (of_int b) (floor_log b x) \<le> x \<and> x < pow_int (of_int b) (floor_log b x + 1)"
proof -
  obtain n d where q: "quotient_of x = (n, d)" by fastforce
  define B :: rat where "B = of_int b"
  have B: "1 < B" "B \<noteq> 0" using assms(1) by (auto simp: B_def)
  have x: "x = of_int n / of_int d" and d: "0 < d"
    using q quotient_of_div quotient_of_denom_pos by auto
  with assms(2) have n: "0 < n" by (simp add: zero_less_divide_iff)
  let ?p = "num_digits b n" and ?r = "num_digits b d"
  have pb: "B powi (?p - 1) \<le> of_int n" "of_int n < B powi ?p"
    using num_digits_bounds [OF assms(1) n] unfolding B_def
    by (auto simp: power_int_def simp flip: of_int_power)
  have rb: "B powi (?r - 1) \<le> of_int d" "of_int d < B powi ?r"
    using num_digits_bounds [OF assms(1) d] unfolding B_def
    by (auto simp: power_int_def simp flip: of_int_power)
  have pos: "0 < B powi k" for k using B by simp
  have "x < B powi ?p / B powi (?r - 1)"
    unfolding x using pb rb pos d n
    by (intro frac_less) (auto intro: less_imp_le)
  also have "\<dots> = B powi (?p - ?r + 1)"
    using B by (simp add: power_int_diff [symmetric] algebra_simps)
  finally have up: "x < B powi (?p - ?r + 1)" .
  have "B powi (?p - ?r - 1) = B powi (?p - 1) / B powi ?r"
    using B by (simp add: power_int_diff [symmetric] algebra_simps)
  also have "\<dots> \<le> x"
    unfolding x using pb rb pos d n by (intro frac_le) (auto intro: less_imp_le)
  finally have lo: "B powi (?p - ?r - 1) \<le> x" .
  show ?thesis
    using up lo by (auto simp: floor_log_def q pow_int_powi B_def [symmetric] Let_def)
qed

lemma round_half_even_int [simp]: "round_half_even (of_int i) = i"
  by (simp add: round_half_even_def)

lemma round_half_even_lower:
  assumes "of_int i \<le> x"
  shows "i \<le> round_half_even x"
proof -
  from assms have "i \<le> \<lfloor>x\<rfloor>" by (simp add: le_floor_iff)
  then show ?thesis by (simp add: round_half_even_def Let_def)
qed

lemma round_half_even_error: "\<bar>of_int (round_half_even x) - x\<bar> \<le> 1 / 2"
  by (auto simp: round_half_even_def Let_def abs_if not_less) linarith+

text \<open>A rational whose scaled significand is an integer is exact.\<close>

lemma round_f64_exact:
  assumes "0 < x" and "e = max (- 1074) (floor_log 2 x - 52)" and "x = of_int m * pow2 e"
    and "e \<le> 970"
  shows "round_f64 x = Fin x" and "round_f64 (- x) = Fin (- x)"
proof -
  have q: "x / pow2 e = of_int m" using assms(3) by (simp add: pow_int_powi)
  have xe: "of_int m * pow2 e = x" using assms(3) by simp
  show "round_f64 x = Fin x" "round_f64 (- x) = Fin (- x)"
    using assms(1,4) by (simp_all add: round_f64_def Let_def assms(2) [symmetric] q xe)
qed

text \<open>Integers of at most 53 bits are exact.\<close>

lemma floor_log_int_bounds:
  fixes a :: int
  assumes "0 < a" and "a \<le> 2 ^ 53"
  shows "0 \<le> floor_log 2 (of_int a)" and "floor_log 2 (of_int a) \<le> 52 \<or> a = 2 ^ 53"
proof -
  define L where "L = floor_log 2 (of_int a)"
  have Lb: "2 powi L \<le> (of_int a :: rat)" "(of_int a :: rat) < 2 powi (L + 1)"
    using floor_log_bounds [of 2 "of_int a"] assms by (auto simp: L_def pow_int_powi)
  show "0 \<le> floor_log 2 (of_int a)"
  proof (rule ccontr)
    assume "\<not> 0 \<le> floor_log 2 (of_int a)"
    then have "(2 :: rat) powi (L + 1) \<le> 2 powi 0"
      by (intro power_int_increasing) (auto simp: L_def)
    with Lb(2) assms show False by simp
  qed
  show "floor_log 2 (of_int a) \<le> 52 \<or> a = 2 ^ 53"
  proof (rule ccontr)
    assume c: "\<not> (floor_log 2 (of_int a) \<le> 52 \<or> a = 2 ^ 53)"
    then have "(2 :: rat) powi 53 \<le> 2 powi L"
      by (intro power_int_increasing) (auto simp: L_def)
    with Lb(1) have "of_int (2 ^ 53) \<le> (of_int a :: rat)" by simp
    then have "2 ^ 53 \<le> a" by (simp only: of_int_le_iff)
    with assms c show False by simp
  qed
qed

lemma round_f64_pos_int:
  assumes "0 < a" and "a \<le> 2 ^ 53"
  shows "round_f64 (of_int a) = Fin (of_int a)" and "round_f64 (- of_int a) = Fin (- of_int a)"
proof -
  let ?L = "floor_log 2 (of_int a)"
  have "\<exists>m. (of_int a :: rat) = of_int m * pow2 (max (- 1074) (?L - 52))"
  proof (cases "?L \<le> 52")
    case True
    with floor_log_int_bounds [OF assms] have e: "max (- 1074) (?L - 52) = ?L - 52" by simp
    have "(of_int a :: rat) = of_int a * (2 powi (52 - ?L) * 2 powi (?L - 52))"
      by (simp flip: power_int_add)
    also have "\<dots> = of_int (a * 2 ^ nat (52 - ?L)) * pow2 (?L - 52)"
      using True by (simp add: pow_int_powi power_int_def [of _ "52 - ?L"])
    finally show ?thesis unfolding e by blast
  next
    case False
    with floor_log_int_bounds [OF assms] have a: "a = 9007199254740992" by simp
    have "floor_log 2 9007199254740992 = 53" by code_simp
    then have "(of_int a :: rat) = of_int 4503599627370496 * pow2 (max (- 1074) (?L - 52))"
      by (simp add: a pow_int_def)
    then show ?thesis by blast
  qed
  then obtain m where m: "(of_int a :: rat) = of_int m * pow2 (max (- 1074) (?L - 52))" by blast
  have "?L \<le> 1000"
  proof (cases "?L \<le> 52")
    case False
    with floor_log_int_bounds [OF assms] have a: "a = 9007199254740992" by simp
    have "floor_log 2 9007199254740992 = 53" by code_simp
    then show ?thesis by (simp add: a)
  qed simp
  then show "round_f64 (of_int a) = Fin (of_int a)" and "round_f64 (- of_int a) = Fin (- of_int a)"
    using round_f64_exact [OF _ refl m] assms by auto
qed

lemma round_f64_int: "\<bar>n\<bar> \<le> 2 ^ 53 \<Longrightarrow> round_f64 (of_int n) = Fin (of_int n)"
  using round_f64_pos_int [of n] round_f64_pos_int [of "- n"]
  by (cases n "0 :: int" rule: linorder_cases) (auto simp: round_f64_def)

text \<open>Numbers of magnitude at least \<open>2\<^sup>5\<^sup>3\<close> stay there.\<close>

lemma round_f64_large:
  assumes "2 ^ 53 \<le> \<bar>x\<bar>" and "round_f64 x = Fin y"
  shows "2 ^ 53 \<le> \<bar>y\<bar>" and "integral y"
proof -
  let ?L = "floor_log 2 \<bar>x\<bar>"
  have x: "x \<noteq> 0" using assms(1) by auto
  have Lb: "2 powi ?L \<le> \<bar>x\<bar>" "\<bar>x\<bar> < 2 powi (?L + 1)"
    using floor_log_bounds [of 2 "\<bar>x\<bar>"] x by (auto simp: pow_int_powi)
  have L: "53 \<le> ?L"
  proof (rule ccontr)
    assume "\<not> 53 \<le> ?L"
    then have "(2 :: rat) powi (?L + 1) \<le> 2 powi 53" by (intro power_int_increasing) auto
    with Lb(2) assms(1) show False by simp
  qed
  define e where "e = ?L - 52"
  have e: "max (- 1074) (?L - 52) = e" "1 \<le> e" using L by (auto simp: e_def)
  define m where "m = round_half_even (\<bar>x\<bar> / pow2 e)"
  have "of_int (2 ^ 52) \<le> \<bar>x\<bar> / pow2 e"
  proof -
    have "(2 :: rat) powi (52 + e) = 2 powi 52 * 2 powi e" by (rule power_int_add) simp
    with Lb(1) show ?thesis by (simp add: pow_int_powi pos_le_divide_eq e_def)
  qed
  then have m: "2 ^ 52 \<le> m" unfolding m_def by (rule round_half_even_lower)
  have y: "y = sgn x * (of_int m * pow2 e)"
    using assms(2) x by (auto simp: round_f64_def Let_def e m_def split: if_splits)
  have "(2 :: rat) ^ 53 = of_int (2 ^ 52) * 2 powi 1" by simp
  also have "\<dots> \<le> of_int m * 2 powi e"
    using m e(2) by (intro mult_mono power_int_increasing) (auto simp del: of_int_power)
  also have "\<dots> = \<bar>y\<bar>"
    using m x by (simp add: y abs_mult pow_int_powi)
  finally show "2 ^ 53 \<le> \<bar>y\<bar>" .
  have "pow2 e = of_int (2 ^ nat e)" using e(2) by (simp add: pow_int_def)
  then have "y = of_int (sgn_int * (m * 2 ^ nat e))" if "sgn x = of_int sgn_int" for sgn_int
    using that by (simp add: y)
  moreover have "\<exists>i :: int. sgn x = of_int i" using x
    by (cases "0 < x") (auto intro: exI [of _ 1] exI [of _ "- 1"])
  ultimately obtain i :: int where "y = of_int i" by blast
  then show "integral y" by (simp add: integral_def rat_trunc_def)
qed

lemma integral_iff: "integral a \<longleftrightarrow> (\<exists>i :: int. a = of_int i)"
proof
  assume "integral a"
  then have "a = rat_trunc a" by (simp add: integral_def)
  then show "\<exists>i :: int. a = of_int i" by (auto simp: rat_trunc_def split: if_splits)
next
  assume "\<exists>i :: int. a = of_int i"
  then show "integral a" by (auto simp: integral_def rat_trunc_def)
qed

end
