(* ===== verification/Go_Strconv.thy ===== *)
theory Go_Strconv
  imports Go_Float Go_Regexp
begin

text \<open>
  The parts of \<open>strconv\<close> and \<open>math/big\<close> the sources use on decimal literals: \<open>strconv.Atoi\<close> (64-bit),
  the exact rational value of a JSON number literal (\<open>big.Rat.SetString\<close>) and its nearest binary64
  number (\<open>strconv.ParseFloat\<close>, whose range error is the result \<open>Inf\<close>).
\<close>

definition digit_val :: "char \<Rightarrow> int" where
  "digit_val c = of_char c - 48"

definition digits_val :: "string \<Rightarrow> int" where
  "digits_val s = foldl (\<lambda>a c. 10 * a + digit_val c) 0 s"

definition all_digits :: "string \<Rightarrow> bool" where
  "all_digits s \<longleftrightarrow> s \<noteq> [] \<and> list_all is_digit s"

lemma digit_val_bounds: "is_digit c \<Longrightarrow> 0 \<le> digit_val c \<and> digit_val c \<le> 9"
proof -
  have "of_char (CHR ''0'') = (48 :: int)" "of_char (CHR ''9'') = (57 :: int)"
    by code_simp+
  then show "is_digit c \<Longrightarrow> 0 \<le> digit_val c \<and> digit_val c \<le> 9"
    unfolding digit_val_def is_digit_def in_range_def by linarith
qed

lemma foldl_digits_nonneg:
  "list_all is_digit s \<Longrightarrow> 0 \<le> a \<Longrightarrow> 0 \<le> foldl (\<lambda>a c. 10 * a + digit_val c) a s"
proof (induction s arbitrary: a)
  case Nil
  then show ?case by simp
next
  case (Cons c s)
  then have "0 \<le> 10 * a + digit_val c" using digit_val_bounds [of c] by simp
  with Cons show ?case by simp
qed

lemma digits_val_nonneg: "all_digits s \<Longrightarrow> 0 \<le> digits_val s"
  by (simp add: all_digits_def digits_val_def foldl_digits_nonneg)

text \<open>\<open>strconv.Atoi\<close>: \<open>None\<close> is the syntax or range error.\<close>

definition int64_range :: "int \<Rightarrow> bool" where
  "int64_range n \<longleftrightarrow> - 9223372036854775808 \<le> n \<and> n \<le> 9223372036854775807"

definition atoi :: "string \<Rightarrow> int option" where
  "atoi s =
     (let (neg, ds) = (case s of
                         c # cs \<Rightarrow> if c = CHR ''-'' then (True, cs)
                                   else if c = CHR ''+'' then (False, cs) else (False, s)
                       | [] \<Rightarrow> (False, s));
          n = (if neg then - digits_val ds else digits_val ds)
      in if all_digits ds \<and> int64_range n then Some n else None)"

lemma atoi_range: "atoi s = Some n \<Longrightarrow> int64_range n"
  by (auto simp: atoi_def Let_def split: prod.splits if_splits)

subsection \<open>Number literals\<close>

text \<open>\<open>span p s\<close> splits a string before its first character that satisfies \<open>p\<close>.\<close>

definition span :: "(char \<Rightarrow> bool) \<Rightarrow> string \<Rightarrow> string \<times> string" where
  "span p s = (takeWhile (\<lambda>c. \<not> p c) s, dropWhile (\<lambda>c. \<not> p c) s)"

definition is_exp_mark :: "char \<Rightarrow> bool" where
  "is_exp_mark c \<longleftrightarrow> c = CHR ''e'' \<or> c = CHR ''E''"

text \<open>Sign, mantissa and exponent part of a literal; \<open>unsigned\<close> drops one leading sign.\<close>

definition unsigned :: "string \<Rightarrow> bool \<times> string" where
  "unsigned s =
     (case s of
        c # cs \<Rightarrow> if c = CHR ''-'' then (True, cs) else if c = CHR ''+'' then (False, cs) else (False, s)
      | [] \<Rightarrow> (False, s))"

definition lit_rat :: "string \<Rightarrow> rat option" where
  "lit_rat s =
     (let (neg, body) = unsigned s;
          (mant, ex) = span is_exp_mark body;
          (ip, fp) = span (\<lambda>c. c = CHR ''.'') mant;
          frac = drop 1 fp;
          (eneg, eds) = unsigned (drop 1 ex);
          e = (if ex = [] then 0 else if eneg then - digits_val eds else digits_val eds);
          v = of_int (digits_val (ip @ frac)) * pow_int 10 (e - int (length frac))
      in if all_digits ip \<and> (fp = [] \<or> all_digits frac) \<and> (ex = [] \<or> all_digits eds)
         then Some (if neg then - v else v) else None)"

text \<open>\<open>ParseFloat(lit, 64)\<close> on decimal literals.\<close>

definition parse_float :: "string \<Rightarrow> f64 option" where
  "parse_float s = map_option round_f64 (lit_rat s)"

end
