(* ===== verification/Capability_Id.thy ===== *)
theory Capability_Id
  imports Errors Contracts Go_Regexp Go_Strconv
begin

text \<open>
  Capability identifiers (\<open>semantics/semantics.go\<close>): the grammar of \<open>ValidateCapabilityID\<close>, the
  coverage relation \<open>matchID\<close> with its trailing wildcard, and the language revision check.
\<close>

subsection \<open>Grammar\<close>

text \<open>\<open>^[a-zA-Z0-9-]+/[a-zA-Z0-9-]+-v[0-9]+$\<close>\<close>

definition capabilitySchemeRE :: rx where
  "capabilitySchemeRE =
     (let word = plus (Cls (\<lambda>c. is_alnum c \<or> c = CHR ''-''))
      in seqs [word, lit (CHR ''/''), word, lit (CHR ''-''), lit (CHR ''v''), plus (Cls is_digit)])"

definition ValidateCapabilityID :: "string \<Rightarrow> error option" where
  "ValidateCapabilityID cid =
     (let parts = split_on (CHR '':'') cid
      in seq_err [
        fail_if (cid = []) (Err ErrMissingCapabilityID),
        fail_if (cid = ''*'') (Err ErrUnsupportedWildcard),
        fail_if (contains_sub cid ''**'') (Err ErrUnsupportedWildcard),
        fail_if (contains_sub cid ''{'' \<or> contains_sub cid ''}'') (Err ErrUnsupportedWildcard),
        fail_if (contains_sub cid ''['' \<or> contains_sub cid '']'') (Err ErrUnsupportedWildcard),
        first_err (\<lambda>(i, p).
            if contains_sub p ''*'' then
              if p \<noteq> ''*'' then Some (Err ErrUnsupportedWildcard)
              else fail_if (i \<noteq> length parts - 1) (Err ErrUnsupportedWildcard)
            else None) (enumerate 0 parts),
        fail_if (length parts < 2) (Err ErrInvalidCapabilityID),
        fail_if (\<not> rmatch capabilitySchemeRE (hd parts)) (Err ErrInvalidCapabilityID)])"

subsection \<open>Coverage\<close>

definition namespaceOf :: "string \<Rightarrow> string" where
  "namespaceOf cid =
     (case split_on (CHR '':'') cid of
        p # q # _ \<Rightarrow> p @ '':'' @ q
      | _ \<Rightarrow> cid)"

text \<open>The loop over two identifiers with the same number of segments.\<close>

fun match_segments :: "string list \<Rightarrow> string list \<Rightarrow> error option" where
  "match_segments (g # gs) (p # ps) =
     (if g = ''*'' then (if gs = [] then None else Some (Err ErrLiteralMismatch))
      else if g \<noteq> p then Some (Err ErrLiteralMismatch)
      else match_segments gs ps)"
| "match_segments _ _ = None"

definition matchID :: "string \<Rightarrow> string \<Rightarrow> error option" where
  "matchID grantID opID =
     (let g = split_on (CHR '':'') grantID; p = split_on (CHR '':'') opID
      in if namespaceOf grantID \<noteq> namespaceOf opID then Some (Err ErrDifferentNamespace)
         else if length g \<noteq> length p then
           if last g = ''*'' then
             if length p \<le> length g - 1 then Some (Err ErrWildcardNoTrailing)
             else fail_if (butlast g \<noteq> take (length g - 1) p) (Err ErrLiteralMismatch)
           else Some (Err ErrLiteralMismatch)
         else match_segments g p)"

subsection \<open>Language revision\<close>

definition CLCRevision :: string where
  "CLCRevision = ''CLC-1.19''"

definition parseRevision :: "string \<Rightarrow> (int \<times> int) option" where
  "parseRevision r =
     (if \<not> prefix ''CLC-'' r then None
      else
        let rest = drop 4 r; (a, b) = span (\<lambda>c. c = CHR ''.'') rest
        in if b = [] then None
           else
             case (atoi a, atoi (drop 1 b)) of
               (Some major, Some minor) \<Rightarrow> if major < 0 \<or> minor < 0 then None else Some (major, minor)
             | _ \<Rightarrow> None)"

definition RevisionCompatible :: "string \<Rightarrow> bool" where
  "RevisionCompatible inputRevision =
     (case parseRevision inputRevision of
        None \<Rightarrow> False
      | Some (iMaj, iMin) \<Rightarrow>
          (case parseRevision CLCRevision of
             Some (major, minor) \<Rightarrow> iMaj = major \<and> iMin \<le> minor
           | None \<Rightarrow> False))"

subsection \<open>What the grammar gives\<close>

abbreviation segments :: "string \<Rightarrow> string list" where
  "segments cid \<equiv> split_on (CHR '':'') cid"

text \<open>In a valid identifier a wildcard can only be the whole last segment.\<close>

lemma ValidateCapabilityID_wildcard:
  assumes "ValidateCapabilityID cid = None" and "i < length (segments cid)"
    and "CHR ''*'' \<in> set (segments cid ! i)"
  shows "segments cid ! i = ''*'' \<and> i = length (segments cid) - 1"
proof -
  let ?f = "\<lambda>(i, p). if contains_sub p ''*'' then
              if p \<noteq> ''*'' then Some (Err ErrUnsupportedWildcard)
              else fail_if (i \<noteq> length (segments cid) - 1) (Err ErrUnsupportedWildcard)
            else None"
  have "first_err ?f (enumerate 0 (segments cid)) = None"
    using assms(1) by (simp add: ValidateCapabilityID_def Let_def)
  then have "\<forall>x \<in> set (enumerate 0 (segments cid)). ?f x = None"
    by (simp only: first_err_None)
  moreover have "(i, segments cid ! i) \<in> set (enumerate 0 (segments cid))"
    using assms(2) by (simp add: in_set_enumerate_eq)
  ultimately have "?f (i, segments cid ! i) = None" by blast
  with assms(3) show ?thesis by (auto simp: contains_char fail_if_None split: if_splits)
qed

lemma ValidateCapabilityID_shape:
  assumes "ValidateCapabilityID cid = None"
  shows "2 \<le> length (segments cid)" and "rmatch capabilitySchemeRE (hd (segments cid))"
    and "cid \<noteq> []"
  using assms by (auto simp: ValidateCapabilityID_def Let_def fail_if_None)

lemma segments_two:
  assumes "2 \<le> length (segments cid)"
  obtains p q rest where "segments cid = p # q # rest"
  using assms by (cases "segments cid" rule: remdups_adj.cases) auto

lemma namespaceOf_eq_iff:
  assumes "2 \<le> length (segments a)" and "2 \<le> length (segments b)"
  shows "namespaceOf a = namespaceOf b \<longleftrightarrow> take 2 (segments a) = take 2 (segments b)"
proof -
  obtain p q r where a: "segments a = p # q # r" using assms(1) by (rule segments_two)
  obtain p' q' r' where b: "segments b = p' # q' # r'" using assms(2) by (rule segments_two)
  have nosep: "CHR '':'' \<notin> set p" "CHR '':'' \<notin> set p'"
    using split_on_no_sep [of p "CHR '':''" a] split_on_no_sep [of p' "CHR '':''" b] a b by auto
  then show ?thesis by (simp add: namespaceOf_def a b sep_append_eq_iff)
qed

subsection \<open>The coverage relation, declaratively\<close>

text \<open>
  A grant identifier covers an operation identifier when they are equal, or when the grant ends
  in the wildcard segment and the operation continues the grant's other segments by at least one
  segment; and in both cases they agree on scheme and action class.
\<close>

definition covers_id :: "string \<Rightarrow> string \<Rightarrow> bool" where
  "covers_id g p \<longleftrightarrow>
     namespaceOf g = namespaceOf p \<and>
     (segments g = segments p \<or>
      (\<exists>pre rest. segments g = pre @ [''*''] \<and> segments p = pre @ rest \<and> rest \<noteq> []))"

lemma match_segments_None:
  "length gs = length ps \<Longrightarrow> \<forall>i < length gs. gs ! i = ''*'' \<longrightarrow> i = length gs - 1 \<Longrightarrow>
   match_segments gs ps = None \<longleftrightarrow>
     gs = ps \<or> (\<exists>pre x. gs = pre @ [''*''] \<and> ps = pre @ [x])"
proof (induction gs ps rule: match_segments.induct)
  case (1 g gs p ps)
  show ?case
  proof (cases "g = ''*''")
    case True
    with 1(3) have "gs = []" by (metis length_Cons length_greater_0_conv list.size(3) nth_Cons_0
          diff_Suc_1 zero_less_Suc)
    with True 1(2) show ?thesis by (auto simp: Cons_eq_append_conv)
  next
    case False
    have "\<forall>i < length gs. gs ! i = ''*'' \<longrightarrow> i = length gs - 1"
      using 1(3) by (metis (no_types, lifting) Suc_less_eq diff_Suc_1 length_Cons nth_Cons_Suc
          Suc_pred length_greater_0_conv list.size(3) not_less_zero nat.inject)
    with False 1 show ?thesis by (auto simp: Cons_eq_append_conv)
  qed
qed auto

lemma wildcard_last:
  assumes "ValidateCapabilityID g = None"
  shows "\<forall>i < length (segments g). segments g ! i = ''*'' \<longrightarrow> i = length (segments g) - 1"
proof (intro allI impI)
  fix i
  assume i: "i < length (segments g)" and "segments g ! i = ''*''"
  then have "CHR ''*'' \<in> set (segments g ! i)" by simp
  with ValidateCapabilityID_wildcard [OF assms i] show "i = length (segments g) - 1" by blast
qed

lemma matchID_iff_covers:
  assumes "ValidateCapabilityID g = None"
  shows "matchID g p = None \<longleftrightarrow> covers_id g p"
proof (cases "length (segments g) = length (segments p)")
  case True
  have "(\<exists>pre x. segments g = pre @ [''*''] \<and> segments p = pre @ [x]) \<longleftrightarrow>
      (\<exists>pre rest. segments g = pre @ [''*''] \<and> segments p = pre @ rest \<and> rest \<noteq> [])"
    (is "?l \<longleftrightarrow> ?r")
  proof
    assume ?l
    then show ?r by blast
  next
    assume ?r
    then obtain pre rest where r: "segments g = pre @ [''*'']" "segments p = pre @ rest" by blast
    with True have "length rest = 1" by simp
    then obtain x where "rest = [x]" by (cases rest) auto
    with r show ?l by blast
  qed
  with True match_segments_None [OF True wildcard_last [OF assms]] show ?thesis
    by (auto simp: matchID_def covers_id_def Let_def)
next
  case False
  let ?g = "segments g" and ?p = "segments p"
  have "(last ?g = ''*'' \<and> \<not> length ?p \<le> length ?g - 1 \<and> butlast ?g = take (length ?g - 1) ?p) \<longleftrightarrow>
      (\<exists>pre rest. ?g = pre @ [''*''] \<and> ?p = pre @ rest \<and> rest \<noteq> [])" (is "?l \<longleftrightarrow> ?r")
  proof
    assume l: ?l
    have "?g = butlast ?g @ [''*'']" using l append_butlast_last_id [of ?g] by simp
    moreover have "?p = butlast ?g @ drop (length ?g - 1) ?p"
      using l by (metis append_take_drop_id)
    moreover have "drop (length ?g - 1) ?p \<noteq> []" using l by simp
    ultimately show ?r by blast
  next
    assume ?r
    then show ?l by auto
  qed
  with False show ?thesis
    by (auto simp: matchID_def covers_id_def Let_def fail_if_None split: if_splits)
qed

lemma covers_id_refl: "covers_id g g"
  by (simp add: covers_id_def)

lemma covers_id_trans:
  assumes "covers_id a b" and "covers_id b c"
  shows "covers_id a c"
proof -
  have ns: "namespaceOf a = namespaceOf c" using assms by (simp add: covers_id_def)
  consider "segments a = segments b" | "segments b = segments c"
    | pre rest pre' rest' where "segments a = pre @ [''*'']" "segments b = pre @ rest" "rest \<noteq> []"
        "segments b = pre' @ [''*'']" "segments c = pre' @ rest'" "rest' \<noteq> []"
    using assms unfolding covers_id_def by blast
  then show ?thesis
  proof cases
    case 3
    then have "pre' = pre @ butlast rest" by (metis butlast_append butlast_snoc)
    with 3 have "segments c = pre @ (butlast rest @ rest')" by simp
    with 3 ns show ?thesis unfolding covers_id_def by blast
  qed (use assms ns in \<open>auto simp: covers_id_def\<close>)
qed

text \<open>The scheme of a valid identifier, as \<open>Entails\<close> cuts it out.\<close>

definition scheme_of :: "string \<Rightarrow> string" where
  "scheme_of cid = takeWhile (\<lambda>c. c \<noteq> CHR '':'') cid"

lemma split_on_takeWhile: "hd (split_on c s) = takeWhile (\<lambda>x. x \<noteq> c) s"
proof (induction s)
  case (Cons x s)
  then show ?case by (cases "split_on c s") auto
qed simp

lemma covers_id_scheme:
  assumes "2 \<le> length (segments a)" and "2 \<le> length (segments b)" and "covers_id a b"
  shows "scheme_of a = scheme_of b"
proof -
  have "take 2 (segments a) = take 2 (segments b)"
    using assms by (simp add: covers_id_def namespaceOf_eq_iff)
  then have "hd (segments a) = hd (segments b)"
    using assms(1,2) by (metis hd_take zero_less_numeral)
  then show ?thesis by (simp add: split_on_takeWhile scheme_of_def)
qed

interpretation id_narrowing: narrowing
  "\<lambda>c p. ValidateCapabilityID p = None \<and> ValidateCapabilityID c = None \<and> matchID p c = None"
  "\<lambda>g x. ValidateCapabilityID g = None \<and> matchID g x = None"
  by unfold_locales (auto simp: matchID_iff_covers intro: covers_id_trans)

subsection \<open>Properties\<close>



text \<open>
  Coverage composes: what a valid identifier covers of an identifier it covers, it covers
  itself; so a chain of coverage checks hop by hop cannot widen.
\<close>

theorem matchID_transitive:
  assumes "ValidateCapabilityID a = None" and "ValidateCapabilityID b = None"
    and "matchID a b = None" and "matchID b c = None"
  shows "matchID a c = None"
  using id_narrowing.narrower_sound assms by blast

end
