(* ===== verification/Go_Value.thy ===== *)
theory Go_Value
  imports Go_Float
begin

text \<open>
  The dynamic values (\<open>any\<close>) the sources work on: what \<open>encoding/json\<close> decodes into an \<open>any\<close>,
  and the host integers a caller may put there instead of a \<open>float64\<close>. An object is a Go map
  (see \<open>Go_Prelude\<close>). Then UTF-8 decoding (\<open>unicode/utf8\<close>) and UTF-16 encoding
  (\<open>unicode/utf16\<close>) of byte strings. Not represented: \<open>float32\<close> and the other Go types a value of
  type \<open>any\<close> could hold; no code path of the modelled components constructs them.
\<close>

datatype carrier =
    CInt | CInt8 | CInt16 | CInt32 | CInt64 | CUint | CUint8 | CUint16 | CUint32 | CUint64

datatype json =
    JNull
  | JBool bool
  | JStr string
  | JNum f64
  | JInt carrier int
  | JArr "json list"
  | JObj "(string \<times> json) list"

type_synonym obj = "json gomap"

lemma json_size_obj [termination_simp]:
  "(k, v) \<in> set m \<Longrightarrow> size v < Suc (size_list (size_prod (\<lambda>_. 0) size) m)"
  by (induction m) auto

lemma json_size_map_of [termination_simp]:
  "map_of m k = Some v \<Longrightarrow> size v < Suc (size_list (size_prod (\<lambda>_. 0) size) m)"
  by (blast dest: map_of_SomeD json_size_obj)

lemma json_size_snd [termination_simp]:
  "x \<in> set m \<Longrightarrow> size (snd x) < Suc (size_list (size_prod (\<lambda>_. 0) size) m)"
  by (cases x) (simp add: json_size_obj)

lemma json_size_elem [termination_simp]:
  "x \<in> set m \<Longrightarrow> size (snd x) < size_list (size_prod (\<lambda>_. 0) size) m"
  by (induction m) auto

lemma json_size_sub [termination_simp]:
  "map_of m k = Some (JObj n) \<Longrightarrow>
     size_list (size_prod (\<lambda>_. 0) size) n < Suc (size_list (size_prod (\<lambda>_. 0) size) m)"
  using json_size_map_of [of m k "JObj n"] by simp

lemma json_size_nested [termination_simp]:
  fixes m :: obj
  assumes "map_of m k = Some (JObj n)" and "(a, b) \<in> set n"
  shows "size b < Suc (size_list (\<lambda>x. Suc (size (snd x))) m)"
proof -
  have "size_prod (\<lambda>_. 0) size = (\<lambda>x :: string \<times> json. Suc (size (snd x)))"
    by (auto simp: fun_eq_iff)
  then show ?thesis
    using json_size_map_of [OF assms(1)] json_size_obj [OF assms(2)] by simp
qed

text \<open>Well-formed values: the keys of every map are distinct, at every depth.\<close>

fun json_ok :: "json \<Rightarrow> bool" where
  "json_ok (JArr xs) = (\<forall>x \<in> set xs. json_ok x)"
| "json_ok (JObj m) = (gomap_ok m \<and> (\<forall>x \<in> set m. json_ok (snd x)))"
| "json_ok _ = True"

definition obj_ok :: "obj \<Rightarrow> bool" where
  "obj_ok m \<longleftrightarrow> json_ok (JObj m)"

lemma obj_okD: "obj_ok m \<Longrightarrow> gomap_ok m" "obj_ok m \<Longrightarrow> map_of m k = Some v \<Longrightarrow> json_ok v"
  by (auto simp: obj_ok_def dest!: map_of_SomeD)

subsection \<open>UTF-8\<close>

definition byte_in :: "int \<Rightarrow> int \<Rightarrow> int \<Rightarrow> bool" where
  "byte_in lo hi b \<longleftrightarrow> lo \<le> b \<and> b \<le> hi"

abbreviation cont_byte :: "int \<Rightarrow> bool" where
  "cont_byte \<equiv> byte_in 128 191"

text \<open>
  \<open>utf8.DecodeRuneInString\<close> on a non-empty string: the rune and its width; an invalid or short
  encoding is \<open>(RuneError, 1)\<close>.
\<close>

definition rune_error :: int where
  "rune_error = 65533"

fun decode_rune :: "int list \<Rightarrow> int \<times> nat" where
  "decode_rune [] = (rune_error, 0)"
| "decode_rune (a # bs) =
    (if a < 128 then (a, 1)
     else if byte_in 194 223 a then
       (case bs of
          b # _ \<Rightarrow> if cont_byte b then ((a - 192) * 64 + (b - 128), 2) else (rune_error, 1)
        | _ \<Rightarrow> (rune_error, 1))
     else if byte_in 224 239 a then
       (case bs of
          b # c # _ \<Rightarrow>
            if byte_in (if a = 224 then 160 else 128) (if a = 237 then 159 else 191) b \<and> cont_byte c
            then ((a - 224) * 4096 + (b - 128) * 64 + (c - 128), 3) else (rune_error, 1)
        | _ \<Rightarrow> (rune_error, 1))
     else if byte_in 240 244 a then
       (case bs of
          b # c # d # _ \<Rightarrow>
            if byte_in (if a = 240 then 144 else 128) (if a = 244 then 143 else 191) b
              \<and> cont_byte c \<and> cont_byte d
            then ((a - 240) * 262144 + (b - 128) * 4096 + (c - 128) * 64 + (d - 128), 4)
            else (rune_error, 1)
        | _ \<Rightarrow> (rune_error, 1))
     else (rune_error, 1))"

lemma decode_rune_width: "bs \<noteq> [] \<Longrightarrow> 1 \<le> snd (decode_rune bs)"
  by (cases bs) (auto split: list.splits)

declare decode_rune.simps [simp del]

text \<open>The runes of a string (\<open>[]rune(s)\<close>) and \<open>utf8.ValidString\<close>.\<close>

function runes :: "int list \<Rightarrow> (int \<times> nat) list" where
  "runes [] = []"
| "runes (b # bs) =
     (let (r, w) = decode_rune (b # bs) in (r, w) # runes (drop w (b # bs)))"
  by pat_completeness auto
termination
proof (relation "measure length")
  fix b bs x r w
  assume "x = decode_rune (b # bs)" and "(r, w) = x"
  then have "1 \<le> w" using decode_rune_width [of "b # bs"] by (metis snd_conv list.distinct(1))
  then show "(drop w (b # bs), b # bs) \<in> measure length" by simp
qed simp

lemma runes_ascii: "list_all (\<lambda>b. b < 128) bs \<Longrightarrow> runes bs = map (\<lambda>b. (b, 1)) bs"
  by (induction bs) (simp_all add: decode_rune.simps)

definition bytes :: "string \<Rightarrow> int list" where
  "bytes s = map of_char s"

definition valid_utf8 :: "string \<Rightarrow> bool" where
  "valid_utf8 s \<longleftrightarrow> (\<forall>x \<in> set (runes (bytes s)). x \<noteq> (rune_error, 1))"

subsection \<open>UTF-16\<close>

definition utf16_units :: "int \<Rightarrow> int list" where
  "utf16_units r =
     (if r < 65536 then [r]
      else [55296 + (r - 65536) div 1024, 56320 + (r - 65536) mod 1024])"

text \<open>\<open>utf16.Encode([]rune(s))\<close>.\<close>

definition utf16 :: "string \<Rightarrow> int list" where
  "utf16 s = concat (map (\<lambda>x. utf16_units (fst x)) (runes (bytes s)))"

end
