(* ===== verification/Canonical.thy ===== *)
theory Canonical
  imports Go_Value Errors
begin

text \<open>
  \<open>semantics/canonical.go\<close>: the RFC 8785 (JCS) serialization that every digest, the size limit and
  the equality of enum members rest on.

  \<open>CanonicalJSON\<close> encodes its argument with \<open>encoding/json\<close>, decodes it again into a tree with
  number tokens and writes the tree. On the values of \<open>Go_Value\<close> the encode/decode pass is the
  identity up to the number tokens: valid UTF-8 strings come back unchanged, a \<open>float64\<close> is
  printed so that it parses back to itself, an integer is printed in decimal and parsed to the
  nearest \<open>float64\<close>; a NaN or an infinity is an encoder error. The model writes the tree
  directly and keeps these two effects.
\<close>

subsection \<open>String validation\<close>

text \<open>\<open>checkCanonicalString\<close>: which of the two codes the first invalid byte gets.\<close>

function first_invalid :: "int list \<Rightarrow> canon_err" where
  "first_invalid [] = ErrCanonicalInvalidUTF8"
| "first_invalid (b # bs) =
     (let (r, w) = decode_rune (b # bs)
      in if r = rune_error \<and> w = 1 then
           (case bs of
              b1 # b2 # _ \<Rightarrow>
                if b = 237 \<and> byte_in 160 191 b1 \<and> byte_in 128 191 b2 then ErrCanonicalSurrogate
                else ErrCanonicalInvalidUTF8
            | _ \<Rightarrow> ErrCanonicalInvalidUTF8)
         else first_invalid (drop w (b # bs)))"
  by pat_completeness auto
termination
proof (relation "measure length")
  fix b bs x r w
  assume "x = decode_rune (b # bs)" and "(r, w) = x"
  then have "1 \<le> w" using decode_rune_width [of "b # bs"] by (metis snd_conv list.distinct(1))
  then show "(drop w (b # bs), b # bs) \<in> measure length" by simp
qed simp

definition checkCanonicalString :: "string \<Rightarrow> canon_err option" where
  "checkCanonicalString s = (if valid_utf8 s then None else Some (first_invalid (bytes s)))"

text \<open>The reflective walk, on the dynamic values; depth counts from 0.\<close>

fun validateCanonicalStrings :: "json \<Rightarrow> int \<Rightarrow> canon_err option" where
  "validateCanonicalStrings v depth =
     (if 1000 < depth then Some ErrCanonicalInvalidUTF8
      else
        case v of
          JStr s \<Rightarrow> checkCanonicalString s
        | JArr xs \<Rightarrow> first_err (\<lambda>x. validateCanonicalStrings x (depth + 1)) xs
        | JObj m \<Rightarrow>
            first_err (\<lambda>x. seq_err [checkCanonicalString (fst x),
                                    validateCanonicalStrings (snd x) (depth + 1)]) m
        | _ \<Rightarrow> None)"

declare validateCanonicalStrings.simps [simp del]

subsection \<open>Numbers\<close>

text \<open>Decimal digits (\<open>strconv.Itoa\<close> on a non-negative and on any integer).\<close>

function itoa_nat :: "int \<Rightarrow> string" where
  "itoa_nat n =
     (if n < 10 then [char_of (48 + n)] else itoa_nat (n div 10) @ [char_of (48 + n mod 10)])"
  by pat_completeness auto
termination
  by (relation "measure nat") auto

declare itoa_nat.simps [simp del]

definition itoa :: "int \<Rightarrow> string" where
  "itoa n = (if n < 0 then CHR ''-'' # itoa_nat (- n) else itoa_nat n)"

text \<open>
  The shortest decimal that rounds to a positive binary64 number (precision \<open>-1\<close> of
  \<open>strconv.FormatFloat\<close>): the smallest number \<open>k\<close> of digits for which one of the two \<open>k\<close>-digit
  neighbours of the number reads back as the number; the nearer one when both do. The result
  \<open>(m, x)\<close> stands for \<open>m * 10\<^sup>x\<close>. Seventeen digits always suffice for binary64.
\<close>

definition shortest_at :: "rat \<Rightarrow> nat \<Rightarrow> (int \<times> int) option" where
  "shortest_at r k =
     (let x = floor_log 10 r - int k + 1;
          q = r / pow_int 10 x;
          lo = \<lfloor>q\<rfloor>; hi = \<lceil>q\<rceil>;
          ok = (\<lambda>m. round_f64 (of_int m * pow_int 10 x) = Fin r)
      in if ok lo \<and> ok hi then Some (round_half_even q, x)
         else if ok lo then Some (lo, x)
         else if ok hi then Some (hi, x)
         else None)"

fun shortest_search :: "rat \<Rightarrow> nat list \<Rightarrow> int \<times> int" where
  "shortest_search r [] = (round_half_even (r / pow_int 10 (floor_log 10 r - 16)), floor_log 10 r - 16)"
| "shortest_search r (k # ks) =
     (case shortest_at r k of Some mx \<Rightarrow> mx | None \<Rightarrow> shortest_search r ks)"

definition shortest_decimal :: "rat \<Rightarrow> int \<times> int" where
  "shortest_decimal r = shortest_search r [1 ..< 18]"

text \<open>\<open>strings.TrimRight(s, "0")\<close>.\<close>

definition trim_right_zeros :: "string \<Rightarrow> string" where
  "trim_right_zeros s = rev (dropWhile (\<lambda>c. c = CHR ''0'') (rev s))"

definition formatCanonicalFloat :: "rat \<Rightarrow> string" where
  "formatCanonicalFloat f =
     (if f = 0 then ''0''
      else
        let (m, x) = shortest_decimal \<bar>f\<bar>;
            s = itoa_nat m;
            digits = (if trim_right_zeros s = [] then ''0'' else trim_right_zeros s);
            k = int (length digits);
            n = int (length s) + x;
            sign = (if f < 0 then ''-'' else [])
        in sign @
           (if k \<le> n \<and> n \<le> 21 then digits @ replicate (nat (n - k)) (CHR ''0'')
            else if 0 < n \<and> n \<le> 21 then take (nat n) digits @ ''.'' @ drop (nat n) digits
            else if - 6 < n \<and> n \<le> 0 then ''0.'' @ replicate (nat (- n)) (CHR ''0'') @ digits
            else (if k = 1 then digits else take 1 digits @ ''.'' @ drop 1 digits)
                 @ ''e'' @ (if 0 \<le> n - 1 then ''+'' else []) @ itoa (n - 1)))"

text \<open>\<open>canonicalNumber\<close> on the token \<open>encoding/json\<close> prints for a number.\<close>

fun canonicalNumber :: "f64 \<Rightarrow> canon_err + string" where
  "canonicalNumber (Fin r) = Inr (formatCanonicalFloat r)"
| "canonicalNumber _ = Inl ErrCanonicalNumber"

subsection \<open>Strings\<close>

definition hex_digit :: "int \<Rightarrow> char" where
  "hex_digit n = (if n < 10 then char_of (48 + n) else char_of (87 + n))"

definition escape_char :: "char \<Rightarrow> string" where
  "escape_char c =
     (let n = (of_char c :: int)
      in if n = 34 then [CHR 0x5C, CHR 0x22]
         else if n = 92 then [CHR 0x5C, CHR 0x5C]
         else if n = 8 then [CHR 0x5C, CHR ''b'']
         else if n = 12 then [CHR 0x5C, CHR ''f'']
         else if n = 10 then [CHR 0x5C, CHR ''n'']
         else if n = 13 then [CHR 0x5C, CHR ''r'']
         else if n = 9 then [CHR 0x5C, CHR ''t'']
         else if n < 32 then [CHR 0x5C, CHR ''u'', CHR ''0'', CHR ''0'', hex_digit (n div 16), hex_digit (n mod 16)]
         else [c])"

definition writeCanonicalString :: "string \<Rightarrow> string" where
  "writeCanonicalString s = [CHR 0x22] @ concat (map escape_char s) @ [CHR 0x22]"

subsection \<open>Objects\<close>

text \<open>\<open>utf16Less\<close> is the lexicographic order of the UTF-16 code units; \<open>sortKeysUTF16\<close> sorts by it.\<close>

definition utf16Less :: "string \<Rightarrow> string \<Rightarrow> bool" where
  "utf16Less a b \<longleftrightarrow> utf16 a < utf16 b"

definition sortKeysUTF16 :: "'v gomap \<Rightarrow> 'v gomap" where
  "sortKeysUTF16 m = sort_key (\<lambda>x. utf16 (fst x)) m"

lemma set_sortKeysUTF16 [simp]: "set (sortKeysUTF16 m) = set m"
  by (simp add: sortKeysUTF16_def)

fun writeCanonicalJSON :: "json \<Rightarrow> string" where
  "writeCanonicalJSON JNull = ''null''"
| "writeCanonicalJSON (JBool b) = (if b then ''true'' else ''false'')"
| "writeCanonicalJSON (JStr s) = writeCanonicalString s"
| "writeCanonicalJSON (JNum f) = (case canonicalNumber f of Inr s \<Rightarrow> s | Inl _ \<Rightarrow> [])"
| "writeCanonicalJSON (JInt c i) = (case canonicalNumber (f64_of_int i) of Inr s \<Rightarrow> s | Inl _ \<Rightarrow> [])"
| "writeCanonicalJSON (JArr xs) = ''['' @ join_with '','' (map writeCanonicalJSON xs) @ '']''"
| "writeCanonicalJSON (JObj m) =
     ''{'' @ join_with '',''
       (map (\<lambda>x. writeCanonicalString (fst x) @ '':'' @ writeCanonicalJSON (snd x)) (sortKeysUTF16 m))
     @ ''}''"

text \<open>What \<open>encoding/json\<close> cannot encode.\<close>

fun unencodable :: "json \<Rightarrow> bool" where
  "unencodable (JNum f) = (\<not> is_finite f)"
| "unencodable (JArr xs) = (\<exists>x \<in> set xs. unencodable x)"
| "unencodable (JObj m) = (\<exists>x \<in> set m. unencodable (snd x))"
| "unencodable _ = False"

definition CanonicalJSON :: "json \<Rightarrow> canon_err + string" where
  "CanonicalJSON v =
     (case validateCanonicalStrings v 0 of
        Some e \<Rightarrow> Inl e
      | None \<Rightarrow> if unencodable v then Inl EncoderError else Inr (writeCanonicalJSON v))"

subsection \<open>Which values have a canonical form\<close>

definition canon_ok :: "json \<Rightarrow> bool" where
  "canon_ok v \<longleftrightarrow> validateCanonicalStrings v 0 = None \<and> \<not> unencodable v"

lemma CanonicalJSON_Inr: "CanonicalJSON v = Inr s \<longleftrightarrow> canon_ok v \<and> s = writeCanonicalJSON v"
  by (auto simp: CanonicalJSON_def canon_ok_def split: option.splits if_splits)

lemma CanonicalJSON_Inl: "(\<exists>e. CanonicalJSON v = Inl e) \<longleftrightarrow> \<not> canon_ok v"
  by (auto simp: CanonicalJSON_def canon_ok_def split: option.splits if_splits)

lemma validate_strings_simps:
  "validateCanonicalStrings (JArr xs) d = None \<longleftrightarrow>
     d \<le> 1000 \<and> (\<forall>x \<in> set xs. validateCanonicalStrings x (d + 1) = None)"
  "validateCanonicalStrings (JObj m) d = None \<longleftrightarrow>
     d \<le> 1000 \<and> (\<forall>x \<in> set m. checkCanonicalString (fst x) = None
       \<and> validateCanonicalStrings (snd x) (d + 1) = None)"
  "validateCanonicalStrings (JStr s) d = None \<longleftrightarrow> d \<le> 1000 \<and> checkCanonicalString s = None"
  "validateCanonicalStrings JNull d = None \<longleftrightarrow> d \<le> 1000"
  "validateCanonicalStrings (JBool b) d = None \<longleftrightarrow> d \<le> 1000"
  "validateCanonicalStrings (JNum f) d = None \<longleftrightarrow> d \<le> 1000"
  "validateCanonicalStrings (JInt c i) d = None \<longleftrightarrow> d \<le> 1000"
  by (auto simp: validateCanonicalStrings.simps first_err_None)

lemma validateCanonicalStrings_depth:
  "validateCanonicalStrings v d = None \<Longrightarrow> d' \<le> d \<Longrightarrow> validateCanonicalStrings v d' = None"
proof (induction v arbitrary: d d')
  case (JArr xs)
  then show ?case by (force simp: validate_strings_simps)
next
  case (JObj m)
  then show ?case
    by (fastforce simp: validate_strings_simps snds.simps)
qed (auto simp: validate_strings_simps)

lemma canon_ok_elem: "canon_ok (JArr xs) \<Longrightarrow> x \<in> set xs \<Longrightarrow> canon_ok x"
  by (auto simp: canon_ok_def validate_strings_simps intro: validateCanonicalStrings_depth)

lemma canon_ok_member: "canon_ok (JObj m) \<Longrightarrow> (k, v) \<in> set m \<Longrightarrow> canon_ok v"
  by (fastforce simp: canon_ok_def validate_strings_simps intro: validateCanonicalStrings_depth)

lemma canon_ok_lookup: "canon_ok (JObj m) \<Longrightarrow> map_of m k = Some v \<Longrightarrow> canon_ok v"
  by (blast dest: map_of_SomeD canon_ok_member)

end
