(* ===== verification/Params.thy ===== *)
theory Params
  imports Canonical Contracts
begin

text \<open>
  Parameters (\<open>semantics/semantics.go\<close>): the input boundary checks on decoded parameter objects
  and the value subset relation of CLC-v1 section 5.2. A function of the sources that returns
  \<open>(bool, string)\<close> returns here the reason, or \<open>None\<close> for \<open>(true, "")\<close>.
\<close>

subsection \<open>Input boundary\<close>

definition ijsonMaxInteger :: int where
  "ijsonMaxInteger = 9007199254740991"

fun rejectNonFinite :: "json \<Rightarrow> error option" where
  "rejectNonFinite (JNum f) =
     seq_err [
       fail_if (\<not> is_finite f) (Err ErrInvalidParamsNumber),
       fail_if (f64_eq f (f64_trunc f) \<and> f64_less (Fin (of_int ijsonMaxInteger)) (f64_abs f))
         (Err ErrInvalidParamsNumber)]"
| "rejectNonFinite (JInt c i) =
     (case c of
        CInt \<Rightarrow> fail_if (ijsonMaxInteger < i \<or> i < - ijsonMaxInteger) (Err ErrInvalidParamsNumber)
      | CInt64 \<Rightarrow> fail_if (ijsonMaxInteger < i \<or> i < - ijsonMaxInteger) (Err ErrInvalidParamsNumber)
      | CUint \<Rightarrow> fail_if (ijsonMaxInteger < i) (Err ErrInvalidParamsNumber)
      | CUint64 \<Rightarrow> fail_if (ijsonMaxInteger < i) (Err ErrInvalidParamsNumber)
      | _ \<Rightarrow> None)"
| "rejectNonFinite (JArr xs) = first_err rejectNonFinite xs"
| "rejectNonFinite (JObj m) = first_err (\<lambda>x. rejectNonFinite (snd x)) m"
| "rejectNonFinite _ = None"

fun paramsDepth :: "json \<Rightarrow> int \<Rightarrow> int" where
  "paramsDepth (JObj m) depth = foldl max depth (map (\<lambda>x. paramsDepth (snd x) (depth + 1)) m)"
| "paramsDepth (JArr xs) depth = foldl max depth (map (\<lambda>x. paramsDepth x (depth + 1)) xs)"
| "paramsDepth _ depth = depth - 1"

definition maxParamsSerializedBytes :: nat where
  "maxParamsSerializedBytes = 512"

definition maxParamsNesting :: int where
  "maxParamsNesting = 32"

definition validateObjectParams :: "obj \<Rightarrow> error option" where
  "validateObjectParams params =
     (if maxParamsNesting < paramsDepth (JObj params) 1 then Some (Err ErrInvalidParamsSize)
      else
        case CanonicalJSON (JObj params) of
          Inl ErrCanonicalInvalidUTF8 \<Rightarrow> Some (Errf ErrInvalidParamsNumber ''%v'' [''canonical_invalid_utf8''])
        | Inl ErrCanonicalSurrogate \<Rightarrow> Some (Errf ErrInvalidParamsNumber ''%v'' [''canonical_lone_surrogate''])
        | Inl ErrCanonicalNumber \<Rightarrow> Some (Errf ErrInvalidParamsNumber ''%v'' [''canonical_invalid_number''])
        | Inl EncoderError \<Rightarrow> Some (Err ErrInvalidParamsNumber)
        | Inr b \<Rightarrow> fail_if (maxParamsSerializedBytes < length b) (Err ErrInvalidParamsSize))"

definition null_error :: "string \<Rightarrow> error" where
  "null_error k = Errf ErrInvalidParamsNull ''%s'' [k]"

definition ValidateGrantParams :: "obj \<Rightarrow> error option" where
  "ValidateGrantParams params =
     seq_err [
       validateObjectParams params,
       first_err (\<lambda>x. seq_err [fail_if (snd x = JNull) (null_error (fst x)),
                               rejectNonFinite (snd x)]) params]"

definition ValidateOperationParams :: "obj \<Rightarrow> error option" where
  "ValidateOperationParams params =
     seq_err [
       validateObjectParams params,
       first_err (\<lambda>x. seq_err [fail_if (snd x = JNull) (null_error (fst x)),
                               rejectNonFinite (snd x)]) params]"

subsection \<open>Equality of JSON values\<close>

text \<open>
  \<open>fmt.Sprintf("%v", x)\<close>, the fallback of \<open>enumEqual\<close> for values without a canonical form. A
  float is printed in the shortest form, with an exponent below \<open>-4\<close> and from 6 on; the keys of a
  map are printed in order.
\<close>

definition sprint_float :: "rat \<Rightarrow> string" where
  "sprint_float f =
     (if f = 0 then ''0''
      else
        let (m, x) = shortest_decimal \<bar>f\<bar>;
            s = itoa_nat m;
            digits = (if trim_right_zeros s = [] then ''0'' else trim_right_zeros s);
            k = int (length digits);
            n = int (length s) + x;
            sign = (if f < 0 then ''-'' else [])
        in sign @
           (if n - 1 < - 4 \<or> 6 \<le> n - 1 then
              (if k = 1 then digits else take 1 digits @ ''.'' @ drop 1 digits) @ ''e''
              @ (if 0 \<le> n - 1 then ''+'' else ''-'')
              @ (if \<bar>n - 1\<bar> < 10 then ''0'' else []) @ itoa_nat \<bar>n - 1\<bar>
            else if k \<le> n then digits @ replicate (nat (n - k)) (CHR ''0'')
            else if 0 < n then take (nat n) digits @ ''.'' @ drop (nat n) digits
            else ''0.'' @ replicate (nat (- n)) (CHR ''0'') @ digits))"

fun sprint_v :: "json \<Rightarrow> string" where
  "sprint_v JNull = ''<nil>''"
| "sprint_v (JBool b) = (if b then ''true'' else ''false'')"
| "sprint_v (JStr s) = s"
| "sprint_v (JNum NaN) = ''NaN''"
| "sprint_v (JNum (Inf n)) = (if n then ''-Inf'' else ''+Inf'')"
| "sprint_v (JNum (Fin r)) = sprint_float r"
| "sprint_v (JInt c i) = itoa i"
| "sprint_v (JArr xs) = ''['' @ join_with '' '' (map sprint_v xs) @ '']''"
| "sprint_v (JObj m) =
     ''map['' @ join_with '' ''
       (map (\<lambda>x. fst x @ '':'' @ sprint_v (snd x)) (sort_key fst m)) @ '']''"

definition enumEqual :: "json \<Rightarrow> json \<Rightarrow> bool" where
  "enumEqual a b =
     (case (CanonicalJSON a, CanonicalJSON b) of
        (Inr ca, Inr cb) \<Rightarrow> ca = cb
      | _ \<Rightarrow> sprint_v a = sprint_v b)"

subsection \<open>The subset relation on values\<close>

fun numericValue :: "json \<Rightarrow> f64 option" where
  "numericValue (JNum f) = Some f"
| "numericValue (JInt c i) = Some (f64_of_int i)"
| "numericValue _ = None"

fun isEmptyBound :: "json \<Rightarrow> bool" where
  "isEmptyBound (JArr xs) = (xs = [])"
| "isEmptyBound (JObj m) = (m = [])"
| "isEmptyBound _ = False"

definition hasEmptyBound :: "obj \<Rightarrow> bool" where
  "hasEmptyBound params \<longleftrightarrow> (\<exists>x \<in> set params. isEmptyBound (snd x))"

text \<open>The elements an array-valued grant is compared with: the request's array, or its scalar.\<close>

fun request_elems :: "json \<Rightarrow> json list" where
  "request_elems (JArr xs) = xs"
| "request_elems v = [v]"

definition enum_check :: "json \<Rightarrow> json list \<Rightarrow> error option" where
  "enum_check opVal gv =
     first_err (\<lambda>e. fail_if (\<not> (\<exists>g \<in> set gv. enumEqual e g)) (Err ErrNotInEnum))
       (request_elems opVal)"

definition undeclared_error :: "string \<Rightarrow> error" where
  "undeclared_error k = Errf ErrParamsUndeclared ''%s'' [k]"

fun valueSubset :: "json \<Rightarrow> json \<Rightarrow> error option" where
  "valueSubset opVal grantVal =
     (if opVal = JNull then Some (Err ErrInvalidParamsNull)
      else
        case grantVal of
          JNull \<Rightarrow> Some (Err ErrEmptyBoundDenies)
        | JStr gv \<Rightarrow> fail_if (opVal \<noteq> JStr gv) (Err ErrParamsExceedGrant)
        | JBool gv \<Rightarrow> fail_if (opVal \<noteq> JBool gv) (Err ErrParamsExceedGrant)
        | JArr gv \<Rightarrow>
            if gv = [] then Some (Err ErrEmptyBoundDenies) else enum_check opVal gv
        | JObj gv \<Rightarrow>
            (case opVal of
               JObj ov \<Rightarrow>
                 if gv = [] then None
                 else seq_err [
                   first_err (\<lambda>x. case map_of ov (fst x) of
                                    None \<Rightarrow> Some (Err ErrParamsMissing)
                                  | Some ovv \<Rightarrow> valueSubset ovv (snd x)) gv,
                   first_err (\<lambda>x. fail_if (\<not> has_key gv (fst x)) (undeclared_error (fst x))) ov]
             | _ \<Rightarrow> Some (Err ErrParamsExceedGrant))
        | _ \<Rightarrow>
            (case numericValue grantVal of
               Some gn \<Rightarrow>
                 (case numericValue opVal of
                    None \<Rightarrow> Some (Err ErrParamsExceedGrant)
                  | Some n \<Rightarrow> fail_if (f64_less gn n) (Err ErrParamsExceedGrant))
             | None \<Rightarrow> fail_if (\<not> enumEqual opVal grantVal) (Err ErrParamsExceedGrant)))"

declare valueSubset.simps [simp del]

text \<open>\<open>ConstraintWithin\<close> and \<open>containsWithin\<close>; \<open>JNull\<close> is Go's nil.\<close>

definition ConstraintWithin :: "json \<Rightarrow> json \<Rightarrow> error option" where
  "ConstraintWithin value bound =
     (if value = JNull then Some (Err ErrInvalidParamsNull)
      else if bound = JNull then None
      else valueSubset value bound)"

definition containsWithin :: "json \<Rightarrow> json \<Rightarrow> error option" where
  "containsWithin childVal parentBound =
     (if childVal = JNull then Some (Err ErrInvalidParamsNull)
      else if parentBound = JNull then None
      else valueSubset childVal parentBound)"

text \<open>
  \<open>paramsSubset\<close>, the comparison without \<open>param_bounds\<close>; a nil map is \<open>None\<close>. (\<open>Entails\<close> calls
  \<open>entailsDeclared\<close>, which must agree with it.)
\<close>

definition paramsSubset :: "obj option \<Rightarrow> obj option \<Rightarrow> error option" where
  "paramsSubset opParams grantParams =
     (case grantParams of
        None \<Rightarrow> None
      | Some g \<Rightarrow>
          if g = [] then None
          else seq_err [
            first_err (\<lambda>x. fail_if (isEmptyBound (snd x)) (Err ErrEmptyBoundDenies)) g,
            first_err (\<lambda>x. fail_if (snd x = JNull) (null_error (fst x))) g,
            (case opParams of
               None \<Rightarrow> Some (Err ErrParamsMissing)
             | Some p \<Rightarrow> seq_err [
                 first_err (\<lambda>x. fail_if (snd x = JNull) (null_error (fst x))) p,
                 first_err (\<lambda>x. fail_if (\<not> has_key p (fst x)) (Err ErrParamsMissing)) g,
                 first_err (\<lambda>x. fail_if (\<not> has_key g (fst x)) (undeclared_error (fst x))) p,
                 first_err (\<lambda>x. case map_of p (fst x) of
                                  None \<Rightarrow> valueSubset JNull (snd x)
                                | Some ov \<Rightarrow> valueSubset ov (snd x)) g])])"

subsection \<open>Laws of equality\<close>

lemma enumEqual_canon:
  "canon_ok a \<Longrightarrow> canon_ok b \<Longrightarrow> enumEqual a b \<longleftrightarrow> writeCanonicalJSON a = writeCanonicalJSON b"
  by (simp add: enumEqual_def CanonicalJSON_def canon_ok_def)

lemma enumEqual_refl [simp]: "enumEqual a a"
  by (simp add: enumEqual_def split: sum.splits)

lemma enumEqual_sym: "enumEqual a b \<Longrightarrow> enumEqual b a"
  by (auto simp: enumEqual_def split: sum.splits)

lemma enumEqual_trans:
  "canon_ok a \<Longrightarrow> canon_ok b \<Longrightarrow> canon_ok c \<Longrightarrow> enumEqual a b \<Longrightarrow> enumEqual b c \<Longrightarrow> enumEqual a c"
  by (simp add: enumEqual_canon)

text \<open>Every element of the request equals a member: the enum rule as a subset relation.\<close>

definition enum_within :: "json list \<Rightarrow> json list \<Rightarrow> bool" where
  "enum_within xs ys \<longleftrightarrow> (\<forall>x \<in> set xs. \<exists>y \<in> set ys. enumEqual x y)"

lemma enum_check_None: "enum_check v gv = None \<longleftrightarrow> enum_within (request_elems v) gv"
  by (simp add: enum_check_def enum_within_def first_err_None fail_if_None)

lemma enum_within_trans:
  assumes "enum_within xs ys" and "enum_within ys zs"
    and "\<forall>x \<in> set xs. canon_ok x" "\<forall>y \<in> set ys. canon_ok y" "\<forall>z \<in> set zs. canon_ok z"
  shows "enum_within xs zs"
  using assms unfolding enum_within_def by (meson enumEqual_trans)

lemma enum_within_refl: "enum_within xs xs"
  unfolding enum_within_def using enumEqual_refl by blast

lemma enum_within_mono: "enum_within xs ys \<Longrightarrow> set ys \<subseteq> set zs \<Longrightarrow> enum_within xs zs"
  unfolding enum_within_def by blast

lemma canon_ok_request_elems: "canon_ok v \<Longrightarrow> x \<in> set (request_elems v) \<Longrightarrow> canon_ok x"
  by (cases v) (auto intro: canon_ok_elem)

subsection \<open>When a value is within a bound\<close>

lemma valueSubset_JNull_left [simp]: "valueSubset JNull g \<noteq> None"
  by (simp add: valueSubset.simps)

lemma valueSubset_JNull_right [simp]: "valueSubset v JNull \<noteq> None"
  by (simp add: valueSubset.simps)

lemma valueSubset_JStr: "valueSubset v (JStr s) = None \<longleftrightarrow> v = JStr s"
  by (auto simp: valueSubset.simps fail_if_None)

lemma valueSubset_JBool: "valueSubset v (JBool b) = None \<longleftrightarrow> v = JBool b"
  by (auto simp: valueSubset.simps fail_if_None)

lemma valueSubset_JArr:
  "valueSubset v (JArr gv) = None \<longleftrightarrow> v \<noteq> JNull \<and> gv \<noteq> [] \<and> enum_within (request_elems v) gv"
  by (auto simp: valueSubset.simps enum_check_None)

lemma valueSubset_JObj:
  "valueSubset v (JObj gv) = None \<longleftrightarrow>
     (\<exists>ov. v = JObj ov \<and>
       (gv = [] \<or>
        (\<forall>(k, g) \<in> set gv. \<exists>w. map_of ov k = Some w \<and> valueSubset w g = None) \<and>
        (\<forall>(k, w) \<in> set ov. has_key gv k)))"
  by (subst valueSubset.simps)
    (auto simp: first_err_None fail_if_None split: json.splits option.splits; fastforce)

lemma valueSubset_number:
  assumes "numericValue g = Some gn"
  shows "valueSubset v g = None \<longleftrightarrow> (\<exists>n. numericValue v = Some n \<and> \<not> f64_less gn n)"
  using assms
  by (cases g; cases v) (auto simp: valueSubset.simps fail_if_None split: option.splits)

lemmas valueSubset_None =
  valueSubset_JStr valueSubset_JBool valueSubset_JArr valueSubset_JObj

subsection \<open>Narrowing of values\<close>

lemma f64_not_less_trans:
  "\<not> f64_less a b \<Longrightarrow> \<not> f64_less b c \<Longrightarrow> b \<noteq> NaN \<Longrightarrow> \<not> f64_less a c"
  by (cases a; cases b; cases c) auto

lemma canon_ok_numericValue: "canon_ok v \<Longrightarrow> numericValue v = Some n \<Longrightarrow> n \<noteq> NaN"
  by (cases v) (auto simp: canon_ok_def f64_of_int_def round_f64_def Let_def split: if_splits)

text \<open>
  The subset relation treats a number as an upper bound, but a member of an enum as an exact
  value. A child that narrows a parent's enum to a bare number (or to an object, whose numbers are
  upper bounds again) therefore admits values the parent does not; \<open>narrowing_safe\<close> excludes
  this case.
\<close>

fun narrowing_safe :: "json \<Rightarrow> json \<Rightarrow> bool" where
  "narrowing_safe c (JArr ps) = (case c of JArr _ \<Rightarrow> True | JStr _ \<Rightarrow> True | JBool _ \<Rightarrow> True | _ \<Rightarrow> False)"
| "narrowing_safe c (JObj pm) =
     (case c of
        JObj cm \<Rightarrow> (\<forall>x \<in> set pm. case map_of cm (fst x) of
                                    Some cv \<Rightarrow> narrowing_safe cv (snd x) | None \<Rightarrow> True)
      | _ \<Rightarrow> True)"
| "narrowing_safe c p = True"

lemma valueSubset_number_trans:
  assumes p: "numericValue p = Some pn" and "valueSubset v c = None" and "valueSubset c p = None"
    and "canon_ok c"
  shows "valueSubset v p = None"
proof -
  obtain cn where c: "numericValue c = Some cn" and cp: "\<not> f64_less pn cn"
    using assms(3) valueSubset_number [OF p] by blast
  obtain n where "numericValue v = Some n" and "\<not> f64_less cn n"
    using assms(2) valueSubset_number [OF c] by blast
  moreover have "cn \<noteq> NaN" using canon_ok_numericValue [OF assms(4) c] .
  ultimately show ?thesis using cp valueSubset_number [OF p] f64_not_less_trans by blast
qed

lemma valueSubset_trans:
  assumes "valueSubset v c = None" and "valueSubset c p = None" and "narrowing_safe c p"
    and "canon_ok v" and "canon_ok c" and "canon_ok p"
  shows "valueSubset v p = None"
  using assms
proof (induction p arbitrary: v c)
  case (JNum f)
  then show ?case by (simp add: valueSubset_number_trans [of _ f])
next
  case (JInt k i)
  then show ?case by (simp add: valueSubset_number_trans [of _ "f64_of_int i"])
next
  case (JArr ps)
  show ?case
  proof (cases c)
    case (JArr cs)
    have "enum_within (request_elems v) cs" and "enum_within cs ps"
      using JArr JArr.prems by (auto simp: valueSubset_JArr)
    then have "enum_within (request_elems v) ps"
      by (rule enum_within_trans)
        (use JArr JArr.prems in \<open>auto intro: canon_ok_elem canon_ok_request_elems\<close>)
    with JArr JArr.prems show ?thesis by (auto simp: valueSubset_JArr)
  qed (use JArr.prems in \<open>auto simp: valueSubset_JStr valueSubset_JBool\<close>)
next
  case (JObj pm)
  then obtain cm where c: "c = JObj cm" by (auto simp: valueSubset_JObj)
  with JObj.prems obtain om where v: "v = JObj om" by (auto simp: valueSubset_JObj)
  show ?case
  proof (cases "pm = []")
    case False
    have pc: "\<exists>w. map_of cm k = Some w \<and> valueSubset w g = None" if "(k, g) \<in> set pm" for k g
      using JObj.prems(2) False that unfolding c by (auto simp: valueSubset_JObj)
    have cp: "has_key pm k" if "has_key cm k" for k
      using JObj.prems(2) False that unfolding c by (auto simp: valueSubset_JObj has_key_iff)
    have "cm \<noteq> []" using pc [of "fst (hd pm)" "snd (hd pm)"] False by auto
    then have oc: "\<exists>w. map_of om k = Some w \<and> valueSubset w g = None" if "map_of cm k = Some g" for k g
      using JObj.prems(1) map_of_SomeD [OF that] unfolding c v by (auto simp: valueSubset_JObj)
    have co: "has_key cm k" if "(k, w) \<in> set om" for k w
      using JObj.prems(1) \<open>cm \<noteq> []\<close> that unfolding c v by (auto simp: valueSubset_JObj)
    have "\<exists>w. map_of om k = Some w \<and> valueSubset w g = None" if kg: "(k, g) \<in> set pm" for k g
    proof -
      obtain cv where cv: "map_of cm k = Some cv" "valueSubset cv g = None" using pc [OF kg] by blast
      obtain w where w: "map_of om k = Some w" "valueSubset w cv = None" using oc [OF cv(1)] by blast
      have "narrowing_safe cv g" using JObj.prems(3) kg cv(1) unfolding c by fastforce
      moreover have "canon_ok w" "canon_ok cv" "canon_ok g"
        using JObj.prems(4-6) w(1) cv(1) kg unfolding c v
        by (auto dest: canon_ok_lookup canon_ok_member)
      ultimately have "valueSubset w g = None"
        using JObj.IH [OF kg] w(2) cv(2) by (auto simp: snds.simps)
      with w(1) show ?thesis by blast
    qed
    then show ?thesis unfolding v using cp co by (fastforce simp: valueSubset_JObj)
  qed (use v in \<open>simp add: valueSubset_JObj\<close>)
qed (auto simp: valueSubset_JStr valueSubset_JBool)

interpretation value_narrowing: narrowing
  "\<lambda>c p. valueSubset c p = None \<and> narrowing_safe c p \<and> canon_ok c \<and> canon_ok p"
  "\<lambda>g v. canon_ok v \<and> valueSubset v g = None"
  by unfold_locales (auto intro: valueSubset_trans)

end
