(* ===== verification/Param_Bounds.thy ===== *)
theory Param_Bounds
  imports Params
begin

text \<open>
  Extended parameter bounds (\<open>semantics/parambounds.go\<close>): the grammar of a \<open>Bound\<close> object, the
  entailment of an operation's parameters over the declared key set, the containment of one
  bound in another and the meet of two bounds. A nil map is the empty map here: the sources
  only look keys up in it or iterate over it.
\<close>

subsection \<open>Grammar\<close>

text \<open>\<open>m[k].(float64)\<close>, \<open>m[k].([]any)\<close>, \<open>m[k].(map[string]any)\<close> with the comma-ok form.\<close>

definition get_num :: "obj \<Rightarrow> string \<Rightarrow> f64 option" where
  "get_num m k = (case map_of m k of Some (JNum f) \<Rightarrow> Some f | _ \<Rightarrow> None)"

definition get_arr :: "obj \<Rightarrow> string \<Rightarrow> json list option" where
  "get_arr m k = (case map_of m k of Some (JArr xs) \<Rightarrow> Some xs | _ \<Rightarrow> None)"

definition get_obj :: "obj \<Rightarrow> string \<Rightarrow> obj option" where
  "get_obj m k = (case map_of m k of Some (JObj n) \<Rightarrow> Some n | _ \<Rightarrow> None)"

fun boundOptional :: "json \<Rightarrow> bool" where
  "boundOptional (JObj m) = (map_of m ''optional'' = Some (JBool True))"
| "boundOptional _ = False"

definition binding_error :: "string \<Rightarrow> string list \<Rightarrow> error" where
  "binding_error f as = Errf ErrInvalidParamsBinding f as"

definition numeric_keys :: "string list" where
  "numeric_keys = [''min'', ''max'', ''step'']"

definition enum_keys :: "string list" where
  "enum_keys = [''enum'', ''min_items'', ''max_items'']"

text \<open>The loop over the members: unknown members and a non-boolean \<open>optional\<close> are refused.\<close>

definition member_error :: "string \<times> json \<Rightarrow> error option" where
  "member_error x =
     (if fst x \<in> set (numeric_keys @ enum_keys @ [''nested'']) then None
      else if fst x = ''optional'' then
        (case snd x of JBool _ \<Rightarrow> None | _ \<Rightarrow> Some (binding_error ''optional is not a boolean'' []))
      else Some (binding_error ''unknown Bound member %q'' [fst x]))"

definition bound_families :: "obj \<Rightarrow> nat" where
  "bound_families m =
     (if \<exists>k \<in> set numeric_keys. has_key m k then 1 else 0)
     + (if \<exists>k \<in> set enum_keys. has_key m k then 1 else 0)
     + (if has_key m ''nested'' then 1 else 0)"

definition number_error :: "obj \<Rightarrow> string \<Rightarrow> error option" where
  "number_error m k = fail_if (has_key m k \<and> get_num m k = None) (binding_error ''%s is not a number'' [k])"

definition item_count_error :: "obj \<Rightarrow> string \<Rightarrow> error option" where
  "item_count_error m k =
     fail_if (has_key m k \<and>
       (case get_num m k of
          None \<Rightarrow> True
        | Some n \<Rightarrow> f64_less n (Fin 0) \<or> \<not> f64_eq n (f64_trunc n)))
       (binding_error ''%s is not a non-negative integer'' [k])"

definition order_error :: "obj \<Rightarrow> string \<Rightarrow> string \<Rightarrow> error option" where
  "order_error m lo hi =
     (case (get_num m lo, get_num m hi) of
        (Some a, Some b) \<Rightarrow> fail_if (f64_less b a) (binding_error ''%s > %s'' [lo, hi])
      | _ \<Rightarrow> None)"

fun validateBound :: "json \<Rightarrow> error option" where
  "validateBound (JObj m) =
     seq_err [
       first_err member_error m,
       fail_if (1 < bound_families m) (binding_error ''mixed bound families'' []),
       first_err (number_error m) numeric_keys,
       (case get_num m ''step'' of
          Some st \<Rightarrow> fail_if (f64_le st (Fin 0)) (binding_error ''step must be positive'' [])
        | None \<Rightarrow> None),
       order_error m ''min'' ''max'',
       fail_if (has_key m ''enum'' \<and> get_arr m ''enum'' = None) (binding_error ''enum is not an array'' []),
       first_err (item_count_error m) [''min_items'', ''max_items''],
       order_error m ''min_items'' ''max_items'',
       (case map_of m ''nested'' of
          None \<Rightarrow> None
        | Some (JObj nm) \<Rightarrow> first_err (\<lambda>x. validateBound (snd x)) nm
        | Some _ \<Rightarrow> Some (binding_error ''nested is not an object'' []))]"
| "validateBound _ = Some (Err ErrInvalidParamsBinding)"

definition ValidateParamBounds :: "obj \<Rightarrow> obj \<Rightarrow> error option" where
  "ValidateParamBounds bounds params =
     seq_err [
       validateObjectParams bounds,
       first_err (\<lambda>x. seq_err [
           fail_if (fst x = []) (binding_error ''empty key'' []),
           fail_if (has_key params (fst x)) (binding_error ''%s in both params and param_bounds'' [fst x]),
           validateBound (snd x)]) bounds]"

subsection \<open>Requests against bounds\<close>

text \<open>The step rule, in binary64 arithmetic.\<close>

definition isMultipleOf :: "f64 \<Rightarrow> f64 \<Rightarrow> bool" where
  "isMultipleOf v step =
     (if f64_eq step (Fin 0) then False
      else let q = f64_div v step in f64_eq q (f64_trunc q) \<and> f64_eq (f64_mul q step) v)"

fun requestCardinality :: "json \<Rightarrow> int" where
  "requestCardinality (JArr xs) = int (length xs)"
| "requestCardinality _ = 1"

definition numericBound :: "json \<Rightarrow> obj \<Rightarrow> error option" where
  "numericBound opVal b =
     (case opVal of
        JNum f \<Rightarrow> seq_err [
          (case get_num b ''min'' of
             Some mn \<Rightarrow> fail_if (f64_less f mn) (Err ErrParamsOutOfRange) | None \<Rightarrow> None),
          (case get_num b ''max'' of
             Some mx \<Rightarrow> fail_if (f64_less mx f) (Err ErrParamsOutOfRange) | None \<Rightarrow> None),
          (case get_num b ''step'' of
             Some st \<Rightarrow> fail_if (\<not> isMultipleOf f st) (Err ErrParamsNotMultiple) | None \<Rightarrow> None)]
      | _ \<Rightarrow> Some (Err ErrParamsExceedGrant))"

definition cardinality_error :: "json \<Rightarrow> obj \<Rightarrow> error option" where
  "cardinality_error opVal b =
     seq_err [
       (case get_num b ''min_items'' of
          Some mn \<Rightarrow> fail_if (f64_less (f64_of_int (requestCardinality opVal)) mn) (Err ErrParamsCardinality)
        | None \<Rightarrow> None),
       (case get_num b ''max_items'' of
          Some mx \<Rightarrow> fail_if (f64_less mx (f64_of_int (requestCardinality opVal))) (Err ErrParamsCardinality)
        | None \<Rightarrow> None)]"

definition enum_error :: "json \<Rightarrow> obj \<Rightarrow> error option" where
  "enum_error opVal b =
     (if has_key b ''enum'' then
        (case get_arr b ''enum'' of
           Some (g # gs) \<Rightarrow> enum_check opVal (g # gs)
         | _ \<Rightarrow> Some (Err ErrEmptyBoundDenies))
      else None)"

function (sequential) boundSubset :: "json \<Rightarrow> json \<Rightarrow> error option"
  and nestedSubset :: "obj \<Rightarrow> obj \<Rightarrow> error option" where
  "boundSubset opVal (JObj b) =
     seq_err [
       enum_error opVal b,
       cardinality_error opVal b,
       (case map_of b ''nested'' of
          Some nested \<Rightarrow>
            (case opVal of
               JObj om \<Rightarrow> (case nested of JObj nm \<Rightarrow> nestedSubset om nm | _ \<Rightarrow> nestedSubset om [])
             | _ \<Rightarrow> Some (Err ErrParamsExceedGrant))
        | None \<Rightarrow>
            if has_key b ''min'' \<or> has_key b ''max'' \<or> has_key b ''step'' then numericBound opVal b
            else None)]"
| "boundSubset opVal _ = Some (Err ErrInvalidParamsBinding)"
| "nestedSubset op nested =
     seq_err [
       first_err (\<lambda>x. case map_of op (fst x) of
                        None \<Rightarrow> fail_if (\<not> boundOptional (snd x)) (Err ErrParamsMissing)
                      | Some ov \<Rightarrow> boundSubset ov (snd x)) nested,
       first_err (\<lambda>x. fail_if (\<not> has_key nested (fst x)) (undeclared_error (fst x))) op]"
  by pat_completeness auto
termination
  by (relation "measure (case_sum (\<lambda>(v, b). size b) (\<lambda>(p, n). size_list (size_prod (\<lambda>_. 0) size) n))")
    (auto simp: json_size_sub json_size_elem)

declare nestedSubset.simps [simp del] boundSubset.simps [simp del]

text \<open>
  Layers 5 to 9 over the declared keys \<open>keys(params) \<union> keys(param_bounds)\<close>.
\<close>

definition entailsDeclared :: "obj \<Rightarrow> obj \<Rightarrow> obj \<Rightarrow> error option" where
  "entailsDeclared opParams grantParams grantBounds =
     seq_err [
       first_err (\<lambda>x. fail_if (isEmptyBound (snd x)) (Err ErrEmptyBoundDenies)) grantParams,
       first_err (\<lambda>x. fail_if (snd x = JNull) (null_error (fst x))) grantParams,
       first_err (\<lambda>x. fail_if (snd x = JNull) (null_error (fst x))) opParams,
       first_err (\<lambda>x. fail_if (\<not> has_key opParams (fst x)) (Err ErrParamsMissing)) grantParams,
       first_err (\<lambda>x. fail_if (\<not> boundOptional (snd x) \<and> \<not> has_key opParams (fst x))
                    (Err ErrParamsMissing)) grantBounds,
       first_err (\<lambda>x. fail_if (\<not> has_key grantParams (fst x) \<and> \<not> has_key grantBounds (fst x))
                    (undeclared_error (fst x))) opParams,
       first_err (\<lambda>x. case map_of opParams (fst x) of
                        None \<Rightarrow> valueSubset JNull (snd x)
                      | Some ov \<Rightarrow> valueSubset ov (snd x)) grantParams,
       first_err (\<lambda>x. case map_of opParams (fst x) of
                        None \<Rightarrow> None
                      | Some ov \<Rightarrow> boundSubset ov (snd x)) grantBounds]"

subsection \<open>Containment of bounds\<close>

definition not_narrower :: error where
  "not_narrower = Err ErrParamsNotNarrower"

text \<open>
  One numeric member: when the parent declares it, the child must declare it and the two values
  must be in the relation \<open>ok\<close> (child first).
\<close>

definition within_num :: "(f64 \<Rightarrow> f64 \<Rightarrow> bool) \<Rightarrow> obj \<Rightarrow> obj \<Rightarrow> string \<Rightarrow> error option" where
  "within_num ok cb pb k =
     (case get_num pb k of
        None \<Rightarrow> None
      | Some pn \<Rightarrow>
          (case get_num cb k of
             None \<Rightarrow> Some not_narrower
           | Some cn \<Rightarrow> fail_if (\<not> ok cn pn) not_narrower))"

definition within_enum :: "obj \<Rightarrow> obj \<Rightarrow> error option" where
  "within_enum cb pb =
     (case get_arr pb ''enum'' of
        None \<Rightarrow> None
      | Some pe \<Rightarrow>
          (case get_arr cb ''enum'' of
             None \<Rightarrow> Some not_narrower
           | Some ce \<Rightarrow> first_err (\<lambda>e. fail_if (\<not> (\<exists>p \<in> set pe. enumEqual e p)) not_narrower) ce))"

fun boundWithin :: "json \<Rightarrow> json \<Rightarrow> error option" where
  "boundWithin (JObj cb) (JObj pb) =
     seq_err [
       fail_if (\<not> boundOptional (JObj pb) \<and> boundOptional (JObj cb)) not_narrower,
       within_num (\<lambda>c p. \<not> f64_less c p) cb pb ''min'',
       within_num (\<lambda>c p. \<not> f64_less p c) cb pb ''max'',
       within_num isMultipleOf cb pb ''step'',
       within_enum cb pb,
       within_num (\<lambda>c p. \<not> f64_less c p) cb pb ''min_items'',
       within_num (\<lambda>c p. \<not> f64_less p c) cb pb ''max_items'',
       (case map_of pb ''nested'' of
          Some (JObj pnr) \<Rightarrow>
            (case map_of cb ''nested'' of
               Some (JObj cnr) \<Rightarrow> seq_err [
                 first_err (\<lambda>x. case map_of cnr (fst x) of
                                  None \<Rightarrow> Some not_narrower
                                | Some cbn \<Rightarrow> boundWithin cbn (snd x)) pnr,
                 first_err (\<lambda>x. fail_if (\<not> has_key pnr (fst x)) not_narrower) cnr]
             | _ \<Rightarrow> Some not_narrower)
        | _ \<Rightarrow> None)]"
| "boundWithin _ _ = Some not_narrower"

subsection \<open>The meet of two bounds\<close>

datatype bound_family = FInvalid | FNested | FEnum | FNumeric | FNone

fun boundFamily :: "json \<Rightarrow> bound_family" where
  "boundFamily (JObj m) =
     (if has_key m ''nested'' then FNested
      else if \<exists>k \<in> set enum_keys. has_key m k then FEnum
      else if \<exists>k \<in> set numeric_keys. has_key m k then FNumeric
      else FNone)"
| "boundFamily _ = FInvalid"

definition canonical_key :: "json \<Rightarrow> string" where
  "canonical_key m = (case CanonicalJSON m of Inr s \<Rightarrow> s | Inl _ \<Rightarrow> sprint_v m)"

text \<open>Keep the first member of each key (\<open>seen\<close> in the source), then sort by key.\<close>

fun dedup_members :: "string list \<Rightarrow> json list \<Rightarrow> json list" where
  "dedup_members seen [] = []"
| "dedup_members seen (m # ms) =
     (if canonical_key m \<in> set seen then dedup_members seen ms
      else m # dedup_members (canonical_key m # seen) ms)"

definition canonicalEnumMembers :: "json list \<Rightarrow> json list" where
  "canonicalEnumMembers members = sort_key canonical_key (dedup_members [] members)"

fun boundDeniesClass :: "json \<Rightarrow> bool" where
  "boundDeniesClass (JObj m) =
     (map_of m ''enum'' = Some (JArr [])
      \<or> (case map_of m ''nested'' of
            Some (JObj nm) \<Rightarrow> \<exists>x \<in> set nm. boundDeniesClass (snd x)
          | _ \<Rightarrow> False))"
| "boundDeniesClass _ = False"

definition boundsDenyClass :: "obj \<Rightarrow> bool" where
  "boundsDenyClass bounds \<longleftrightarrow> (\<exists>x \<in> set bounds. boundDeniesClass (snd x))"

text \<open>A member that is declared on either side: the better of the two values.\<close>

definition pick :: "(f64 \<Rightarrow> f64 \<Rightarrow> bool) \<Rightarrow> f64 option \<Rightarrow> f64 option \<Rightarrow> f64 option" where
  "pick better a b =
     (case (a, b) of
        (Some x, Some y) \<Rightarrow> Some (if better x y then x else y)
      | (Some x, None) \<Rightarrow> Some x
      | (None, y) \<Rightarrow> y)"

definition maxOf :: "f64 option \<Rightarrow> f64 option \<Rightarrow> f64 option" where
  "maxOf a b = pick (\<lambda>x y. f64_less y x) a b"

definition minOf :: "f64 option \<Rightarrow> f64 option \<Rightarrow> f64 option" where
  "minOf a b = pick (\<lambda>x y. f64_less x y) a b"

definition num_member :: "string \<Rightarrow> f64 option \<Rightarrow> obj" where
  "num_member k v = (case v of Some f \<Rightarrow> [(k, JNum f)] | None \<Rightarrow> [])"

definition crossed :: "f64 option \<Rightarrow> f64 option \<Rightarrow> bool" where
  "crossed lo hi = (case (lo, hi) of (Some a, Some b) \<Rightarrow> f64_less b a | _ \<Rightarrow> False)"

definition step_meet :: "f64 option \<Rightarrow> f64 option \<Rightarrow> error + f64 option" where
  "step_meet a b =
     (case (a, b) of
        (Some x, Some y) \<Rightarrow>
          if isMultipleOf x y then Inr (Some x)
          else if isMultipleOf y x then Inr (Some y)
          else Inl (Err ErrInvalidParamsBinding)
      | (Some x, None) \<Rightarrow> Inr (Some x)
      | (None, y) \<Rightarrow> Inr y)"

definition numericMeet :: "obj \<Rightarrow> obj \<Rightarrow> error + obj" where
  "numericMeet a b =
     (let mn = maxOf (get_num a ''min'') (get_num b ''min'');
          mx = minOf (get_num a ''max'') (get_num b ''max'')
      in case step_meet (get_num a ''step'') (get_num b ''step'') of
           Inl e \<Rightarrow> Inl e
         | Inr st \<Rightarrow>
             if crossed mn mx then Inl (Err ErrNoOverlap)
             else Inr (num_member ''min'' mn @ num_member ''max'' mx @ num_member ''step'' st))"

definition enum_inter :: "json list \<Rightarrow> json list \<Rightarrow> json list" where
  "enum_inter xs ys = filter (\<lambda>x. \<exists>y \<in> set ys. enumEqual x y) xs"

definition enum_members_meet :: "json list option \<Rightarrow> json list option \<Rightarrow> error + obj" where
  "enum_members_meet ae be =
     (case (ae, be) of
        (Some xs, Some ys) \<Rightarrow>
          if enum_inter xs ys = [] then Inl (Err ErrNoOverlap)
          else Inr [(''enum'', JArr (canonicalEnumMembers (enum_inter xs ys)))]
      | (Some xs, None) \<Rightarrow> Inr [(''enum'', JArr xs)]
      | (None, Some ys) \<Rightarrow> Inr [(''enum'', JArr ys)]
      | (None, None) \<Rightarrow> Inr [])"

definition enumMeet :: "obj \<Rightarrow> obj \<Rightarrow> error + obj" where
  "enumMeet a b =
     (case enum_members_meet (get_arr a ''enum'') (get_arr b ''enum'') of
        Inl e \<Rightarrow> Inl e
      | Inr res \<Rightarrow>
          let mn = maxOf (get_num a ''min_items'') (get_num b ''min_items'');
              mx = minOf (get_num a ''max_items'') (get_num b ''max_items'')
          in if crossed mn mx then Inl (Err ErrNoOverlap)
             else Inr (res @ num_member ''min_items'' mn @ num_member ''max_items'' mx))"

definition nested_of :: "obj \<Rightarrow> obj" where
  "nested_of m = (case get_obj m ''nested'' of Some n \<Rightarrow> n | None \<Rightarrow> [])"

definition with_optional :: "bool \<Rightarrow> obj \<Rightarrow> obj" where
  "with_optional opt m =
     filter (\<lambda>x. fst x \<noteq> ''optional'') m @ (if opt then [(''optional'', JBool True)] else [])"

lemma nested_of_size [termination_simp]:
  "x \<in> set (nested_of m) \<Longrightarrow> size (snd x) < size_list (size_prod (\<lambda>_. 0) size) m"
proof -
  assume x: "x \<in> set (nested_of m)"
  then obtain n where n: "map_of m ''nested'' = Some (JObj n)" and xn: "x \<in> set n"
    by (auto simp: nested_of_def get_obj_def split: option.splits json.splits)
  have "size (JObj n) < Suc (size_list (size_prod (\<lambda>_. 0) size) m)"
    by (rule json_size_map_of [OF n])
  with json_size_elem [OF xn] show ?thesis by simp
qed

function (sequential) boundMeet :: "json \<Rightarrow> json \<Rightarrow> error + obj"
  and nestedMeet :: "obj \<Rightarrow> obj \<Rightarrow> error + obj" where
  "boundMeet (JObj am) (JObj bm) =
     (let opt = (boundOptional (JObj am) \<and> boundOptional (JObj bm));
          af = boundFamily (JObj am); bf = boundFamily (JObj bm)
      in if af = FNone \<or> bf = FNone then
           Inr (with_optional opt (if af = FNone then bm else am))
         else
           case (if af = FNumeric \<and> bf = FNumeric then numericMeet am bm
                 else if af = FEnum \<and> bf = FEnum then enumMeet am bm
                 else if af = FNested \<and> bf = FNested then nestedMeet am bm
                 else Inl (Err ErrInvalidParamsBinding)) of
             Inl e \<Rightarrow> Inl e
           | Inr res \<Rightarrow> Inr (with_optional opt res))"
| "boundMeet _ _ = Inl (Err ErrInvalidParamsBinding)"
| "nestedMeet a b =
     (if length (nested_of a) \<noteq> length (nested_of b) then Inl (Err ErrNoOverlap)
      else
        case map_err (\<lambda>x. case map_of (nested_of b) (fst x) of
                            None \<Rightarrow> Inl (Err ErrNoOverlap)
                          | Some bv \<Rightarrow>
                              (case boundMeet (snd x) bv of
                                 Inl e \<Rightarrow> Inl e
                               | Inr m \<Rightarrow> Inr (fst x, JObj m))) (nested_of a) of
          Inl e \<Rightarrow> Inl e
        | Inr res \<Rightarrow> Inr [(''nested'', JObj res)])"
  by pat_completeness auto
termination
  by (relation "measure (case_sum (\<lambda>(a, b). size a) (\<lambda>(a, b). size_list (size_prod (\<lambda>_. 0) size) a))")
    (auto dest: nested_of_size)

declare boundMeet.simps [simp del] nestedMeet.simps [simp del]

text \<open>
  Keys are united; a key on both sides meets its two bounds. The loop over \<open>b\<close> updates a copy of
  \<open>a\<close>: first the keys of \<open>a\<close>, then the keys only \<open>b\<close> has.
\<close>

definition intersectBounds :: "obj \<Rightarrow> obj \<Rightarrow> error + obj" where
  "intersectBounds a b =
     (if a = [] then Inr b
      else if b = [] then Inr a
      else
        case map_err (\<lambda>x. case map_of b (fst x) of
                            None \<Rightarrow> Inr x
                          | Some bv \<Rightarrow>
                              (case boundMeet (snd x) bv of
                                 Inl e \<Rightarrow> Inl e
                               | Inr m \<Rightarrow> Inr (fst x, JObj m))) a of
          Inl e \<Rightarrow> Inl e
        | Inr res \<Rightarrow> Inr (res @ filter (\<lambda>x. \<not> has_key a (fst x)) b))"

end
