(* ===== verification/Bound_Laws.thy ===== *)
theory Bound_Laws
  imports Param_Bounds
begin

text \<open>
  Laws of the extended bounds: what the step rule means on integers, and that containment of
  bounds is sound for requests (\<open>boundWithin\<close> against \<open>boundSubset\<close>).
\<close>

subsection \<open>The step rule on integers\<close>

lemma rejectNonFinite_JNum:
  "rejectNonFinite (JNum f) = None \<longleftrightarrow>
     (\<exists>r. f = Fin r \<and> (integral r \<longrightarrow> \<bar>r\<bar> \<le> of_int ijsonMaxInteger))"
  by (cases f) (auto simp: fail_if_None integral_def)

text \<open>
  On numbers the input boundary accepts, with a positive integer step in the exact range of
  binary64, the floating-point rule is divisibility.
\<close>

lemma isMultipleOf_int:
  assumes v: "integral v \<longrightarrow> \<bar>v\<bar> \<le> of_int ijsonMaxInteger" and s: "0 < s" "s \<le> 2 ^ 53"
  shows "isMultipleOf (Fin v) (Fin (of_int s)) \<longleftrightarrow> (\<exists>k :: int. v = of_int (k * s))"
proof
  assume m: "isMultipleOf (Fin v) (Fin (of_int s))"
  let ?q = "round_f64 (v / of_int s)"
  from m s have q: "f64_eq ?q (f64_trunc ?q)" "f64_eq (f64_mul ?q (Fin (of_int s))) (Fin v)"
    by (auto simp: isMultipleOf_def Let_def split: if_splits)
  then obtain y where y: "?q = Fin y" using s by (cases ?q) auto
  with q(1) have "integral y" by (simp add: integral_def)
  then obtain k :: int where k: "y = of_int k" by (auto simp: integral_iff)
  have r: "round_f64 (of_int (k * s)) = Fin v"
    using q(2) y k by (cases "round_f64 (of_int (k * s))") auto
  show "\<exists>k :: int. v = of_int (k * s)"
  proof (cases "\<bar>k * s\<bar> \<le> 2 ^ 53")
    case True
    then show ?thesis using r round_f64_int [of "k * s"] by auto
  next
    case False
    then have "(2 :: rat) ^ 53 \<le> \<bar>of_int (k * s)\<bar>"
      by (metis linorder_not_le nle_le of_int_abs of_int_le_iff of_int_numeral of_int_power)
    from round_f64_large [OF this r] v show ?thesis by (simp add: ijsonMaxInteger_def)
  qed
next
  assume "\<exists>k :: int. v = of_int (k * s)"
  then obtain k :: int where k: "v = of_int (k * s)" by blast
  then have "integral v" unfolding integral_iff by blast
  with v have "\<bar>k * s\<bar> \<le> ijsonMaxInteger" unfolding k by (metis of_int_abs of_int_le_iff)
  then have b: "\<bar>k * s\<bar> \<le> 2 ^ 53" by (simp add: ijsonMaxInteger_def)
  have "\<bar>k\<bar> * 1 \<le> \<bar>k\<bar> * s" using s(1) by (intro mult_left_mono) auto
  with b s(1) have kb: "\<bar>k\<bar> \<le> 2 ^ 53" by (simp add: abs_mult)
  have "v / of_int s = of_int k" using k s(1) by simp
  then have "round_f64 (v / of_int s) = Fin (of_int k)" using round_f64_int [OF kb] by simp
  moreover have "round_f64 (of_int k * of_int s) = Fin v"
    using round_f64_int [OF b] k by simp
  ultimately show "isMultipleOf (Fin v) (Fin (of_int s))"
    using s(1) by (simp add: isMultipleOf_def rat_trunc_def)
qed

text \<open>A step inside the exact range.\<close>

fun step_ok :: "f64 \<Rightarrow> bool" where
  "step_ok (Fin r) = (integral r \<and> 0 < r \<and> r \<le> of_int ijsonMaxInteger)"
| "step_ok _ = False"

lemma step_okE:
  assumes "step_ok s"
  obtains i :: int where "s = Fin (of_int i)" "0 < i" "i \<le> ijsonMaxInteger"
  using assms by (cases s) (auto simp: integral_iff)

lemma isMultipleOf_trans:
  assumes "isMultipleOf f a" and "isMultipleOf a b" and "step_ok a" and "step_ok b"
    and "rejectNonFinite (JNum f) = None"
  shows "isMultipleOf f b"
proof -
  obtain i where i: "a = Fin (of_int i)" "0 < i" "i \<le> ijsonMaxInteger" using assms(3) by (rule step_okE)
  obtain j where j: "b = Fin (of_int j)" "0 < j" "j \<le> ijsonMaxInteger" using assms(4) by (rule step_okE)
  obtain r where r: "f = Fin r" "integral r \<longrightarrow> \<bar>r\<bar> \<le> of_int ijsonMaxInteger"
    using assms(5) unfolding rejectNonFinite_JNum by blast
  have b: "i \<le> 2 ^ 53" "j \<le> 2 ^ 53" using i j by (auto simp: ijsonMaxInteger_def)
  obtain k :: int where k: "r = of_int (k * i)"
    using assms(1) isMultipleOf_int [OF r(2) i(2) b(1)] i(1) r(1) by blast
  have "\<bar>of_int i :: rat\<bar> \<le> of_int ijsonMaxInteger" using i by simp
  then obtain l :: int where l: "(of_int i :: rat) = of_int (l * j)"
    using assms(2) isMultipleOf_int [of "of_int i" j] i(1) j b by auto
  have "i = l * j" using l by (simp only: of_int_eq_iff)
  then have "r = of_int ((k * l) * j)" using k by (simp add: mult.assoc)
  then show ?thesis using isMultipleOf_int [OF r(2) j(2) b(2)] r(1) j(1) by blast
qed

subsection \<open>Well-formed bounds\<close>

text \<open>
  What the laws need of a bound: it passed the grammar check, its numbers are finite, its enum
  members have a canonical form, no key is repeated, and its steps are integers in the exact range.
\<close>

definition item_keys :: "string list" where
  "item_keys = [''min_items'', ''max_items'']"

definition num_members_ok :: "obj \<Rightarrow> bool" where
  "num_members_ok m \<longleftrightarrow>
     (\<forall>k \<in> set (numeric_keys @ item_keys). has_key m k \<longrightarrow>
        (case get_num m k of Some f \<Rightarrow> is_finite f | None \<Rightarrow> False))
     \<and> (case get_num m ''step'' of Some s \<Rightarrow> step_ok s | None \<Rightarrow> True)"

definition enum_member_ok :: "obj \<Rightarrow> bool" where
  "enum_member_ok m \<longleftrightarrow> has_key m ''enum'' \<longrightarrow>
     (case get_arr m ''enum'' of Some xs \<Rightarrow> \<forall>x \<in> set xs. canon_ok x | None \<Rightarrow> False)"

fun bound_good :: "json \<Rightarrow> bool" where
  "bound_good (JObj m) =
     (gomap_ok m \<and> bound_families m \<le> 1 \<and> num_members_ok m \<and> enum_member_ok m \<and>
      (case map_of m ''nested'' of
         None \<Rightarrow> True
       | Some (JObj nm) \<Rightarrow> gomap_ok nm \<and> (\<forall>x \<in> set nm. bound_good (snd x))
       | _ \<Rightarrow> False))"
| "bound_good _ = False"

fun steps_ok :: "json \<Rightarrow> bool" where
  "steps_ok (JObj m) =
     ((case get_num m ''step'' of Some s \<Rightarrow> step_ok s | None \<Rightarrow> True) \<and>
      (case map_of m ''nested'' of Some (JObj nm) \<Rightarrow> (\<forall>x \<in> set nm. steps_ok (snd x)) | _ \<Rightarrow> True))"
| "steps_ok _ = True"

lemma get_num_iff: "get_num m k = Some f \<longleftrightarrow> map_of m k = Some (JNum f)"
  by (auto simp: get_num_def split: option.splits json.splits)

lemma get_arr_iff: "get_arr m k = Some xs \<longleftrightarrow> map_of m k = Some (JArr xs)"
  by (auto simp: get_arr_def split: option.splits json.splits)

lemma canon_ok_get_num: "canon_ok (JObj m) \<Longrightarrow> get_num m k = Some f \<Longrightarrow> is_finite f"
  by (drule get_num_iff [THEN iffD1], drule (1) canon_ok_lookup) (simp add: canon_ok_def)

lemma canon_ok_get_arr: "canon_ok (JObj m) \<Longrightarrow> get_arr m k = Some xs \<Longrightarrow> x \<in> set xs \<Longrightarrow> canon_ok x"
  by (drule get_arr_iff [THEN iffD1], drule (1) canon_ok_lookup) (rule canon_ok_elem)

lemma number_error_None: "number_error m k = None \<longleftrightarrow> (has_key m k \<longrightarrow> get_num m k \<noteq> None)"
  by (simp add: number_error_def fail_if_None)

lemma item_count_error_None:
  "item_count_error m k = None \<Longrightarrow> has_key m k \<Longrightarrow> get_num m k \<noteq> None"
  by (auto simp: item_count_error_def fail_if_None split: option.splits)

text \<open>The grammar check and a canonical form give a well-formed bound, up to the steps.\<close>

lemma validateBound_good:
  "validateBound b = None \<Longrightarrow> canon_ok b \<Longrightarrow> json_ok b \<Longrightarrow> steps_ok b \<Longrightarrow> bound_good b"
proof (induction b rule: bound_good.induct)
  case (1 m)
  note v = "1.prems"(1) [simplified, unfolded fail_if_None first_err_None]
  have num: "get_num m k \<noteq> None" if "k \<in> set (numeric_keys @ item_keys)" "has_key m k" for k
    using v that by (auto simp: number_error_None item_keys_def dest: item_count_error_None)
  have "num_members_ok m"
    using num "1.prems"(4) canon_ok_get_num [OF "1.prems"(2)]
    by (fastforce simp: num_members_ok_def split: option.splits)
  moreover have "enum_member_ok m"
    using v canon_ok_get_arr [OF "1.prems"(2)] by (auto simp: enum_member_ok_def split: option.splits)
  moreover have "gomap_ok m" "bound_families m \<le> 1" using v "1.prems"(3) by auto
  moreover have "\<exists>nm. map_of m ''nested'' = Some (JObj nm) \<and> gomap_ok nm \<and> (\<forall>x \<in> set nm. bound_good (snd x))"
    if n: "map_of m ''nested'' = Some n" for n
  proof -
    obtain nm where nm: "n = JObj nm" and vn: "\<forall>x \<in> set nm. validateBound (snd x) = None"
      using v n by (cases n) (auto simp: first_err_None)
    have mem: "(''nested'', JObj nm) \<in> set m" using n nm by (auto dest: map_of_SomeD)
    have ok: "gomap_ok nm" "\<forall>x \<in> set nm. json_ok (snd x)"
      using "1.prems"(3) mem by fastforce+
    have "canon_ok (snd x)" if "x \<in> set nm" for x
      using that canon_ok_member [OF canon_ok_member [OF "1.prems"(2) mem], of "fst x" "snd x"] by simp
    moreover have "steps_ok (snd x)" if "x \<in> set nm" for x
      using that "1.prems"(4) n nm by auto
    ultimately have "\<forall>x \<in> set nm. bound_good (snd x)"
      using "1.IH" [OF n nm] vn ok(2) by blast
    with ok(1) n nm show ?thesis by blast
  qed
  ultimately show ?case by (auto split: option.splits)
qed auto

subsection \<open>When a request satisfies a bound\<close>

lemma enum_error_None:
  "enum_member_ok b \<Longrightarrow> enum_error v b = None \<longleftrightarrow>
     (\<forall>xs. get_arr b ''enum'' = Some xs \<longrightarrow> xs \<noteq> [] \<and> enum_within (request_elems v) xs)"
  by (auto simp: enum_error_def enum_member_ok_def enum_check_None has_key_def get_arr_def
      split: option.splits list.splits json.splits)

lemma cardinality_error_None:
  "cardinality_error v b = None \<longleftrightarrow>
     (\<forall>n. get_num b ''min_items'' = Some n \<longrightarrow> \<not> f64_less (f64_of_int (requestCardinality v)) n) \<and>
     (\<forall>n. get_num b ''max_items'' = Some n \<longrightarrow> \<not> f64_less n (f64_of_int (requestCardinality v)))"
  by (auto simp: cardinality_error_def fail_if_None split: option.splits)

lemma numericBound_None:
  "numericBound v b = None \<longleftrightarrow>
     (\<exists>f. v = JNum f \<and>
       (\<forall>n. get_num b ''min'' = Some n \<longrightarrow> \<not> f64_less f n) \<and>
       (\<forall>n. get_num b ''max'' = Some n \<longrightarrow> \<not> f64_less n f) \<and>
       (\<forall>n. get_num b ''step'' = Some n \<longrightarrow> isMultipleOf f n))"
  by (auto simp: numericBound_def fail_if_None split: option.splits json.splits)

lemma within_num_None:
  "within_num r cb pb k = None \<longleftrightarrow>
     (\<forall>p. get_num pb k = Some p \<longrightarrow> (\<exists>c. get_num cb k = Some c \<and> r c p))"
  by (auto simp: within_num_def fail_if_None not_narrower_def split: option.splits)

lemma within_enum_None:
  "within_enum cb pb = None \<longleftrightarrow>
     (\<forall>pe. get_arr pb ''enum'' = Some pe \<longrightarrow> (\<exists>ce. get_arr cb ''enum'' = Some ce \<and> enum_within ce pe))"
  by (auto simp: within_enum_def enum_within_def first_err_None fail_if_None split: option.splits)

lemma nestedSubset_None:
  "nestedSubset om nm = None \<longleftrightarrow>
     (\<forall>(k, b) \<in> set nm. case map_of om k of None \<Rightarrow> boundOptional b | Some v \<Rightarrow> boundSubset v b = None) \<and>
     (\<forall>(k, v) \<in> set om. has_key nm k)"
  by (subst nestedSubset.simps) (auto simp: first_err_None fail_if_None split: option.splits)

definition numeric_part :: "obj \<Rightarrow> bool" where
  "numeric_part b \<longleftrightarrow> has_key b ''min'' \<or> has_key b ''max'' \<or> has_key b ''step''"

lemma numeric_part_iff: "numeric_part b \<longleftrightarrow> (\<exists>k \<in> set numeric_keys. has_key b k)"
  by (simp add: numeric_part_def numeric_keys_def)

text \<open>A request against a well-formed bound, family by family.\<close>

lemma boundSubset_None:
  assumes "bound_good (JObj b)"
  shows "boundSubset v (JObj b) = None \<longleftrightarrow>
     enum_error v b = None \<and> cardinality_error v b = None \<and>
     (\<forall>nm. map_of b ''nested'' = Some (JObj nm) \<longrightarrow> (\<exists>om. v = JObj om \<and> nestedSubset om nm = None)) \<and>
     (numeric_part b \<longrightarrow> numericBound v b = None)"
proof (cases "map_of b ''nested''")
  case None
  then show ?thesis by (subst boundSubset.simps) (auto simp: numeric_part_def)
next
  case (Some n)
  with assms obtain nm where nm: "n = JObj nm" by (cases n) auto
  have "\<not> numeric_part b"
    using assms Some by (auto simp: bound_families_def numeric_part_iff has_key_def split: if_splits)
  with Some nm show ?thesis by (subst boundSubset.simps) (auto split: json.splits)
qed

subsection \<open>Containment of bounds is sound\<close>

lemma num_members_okD:
  assumes "num_members_ok m" and "k \<in> set (numeric_keys @ item_keys)"
  shows "has_key m k \<Longrightarrow> \<exists>f. get_num m k = Some f" and "get_num m k = Some f \<Longrightarrow> f \<noteq> NaN"
proof -
  show "has_key m k \<Longrightarrow> \<exists>f. get_num m k = Some f"
    using assms by (auto simp: num_members_ok_def split: option.splits)
  assume "get_num m k = Some f"
  moreover from this have "has_key m k" by (simp add: get_num_iff has_key_def)
  ultimately have "is_finite f" using assms by (auto simp: num_members_ok_def)
  then show "f \<noteq> NaN" by auto
qed

lemma num_key_mem:
  "''min'' \<in> set (numeric_keys @ item_keys)" "''max'' \<in> set (numeric_keys @ item_keys)"
  "''step'' \<in> set (numeric_keys @ item_keys)" "''min_items'' \<in> set (numeric_keys @ item_keys)"
  "''max_items'' \<in> set (numeric_keys @ item_keys)"
  by (simp_all add: numeric_keys_def item_keys_def)

lemma enum_error_mono:
  assumes "within_enum cb pb = None" and "enum_error v cb = None"
    and "enum_member_ok cb" and "enum_member_ok pb" and "canon_ok v"
  shows "enum_error v pb = None"
  unfolding enum_error_None [OF assms(4)]
proof (intro allI impI)
  fix pe
  assume pe: "get_arr pb ''enum'' = Some pe"
  with assms(1) obtain ce where ce: "get_arr cb ''enum'' = Some ce" and w: "enum_within ce pe"
    by (auto simp: within_enum_None)
  have c: "ce \<noteq> []" "enum_within (request_elems v) ce"
    using assms(2) ce by (auto simp: enum_error_None [OF assms(3)])
  have "\<forall>x \<in> set ce. canon_ok x" "\<forall>x \<in> set pe. canon_ok x"
    using assms(3,4) ce pe by (auto simp: enum_member_ok_def has_key_def get_arr_iff)
  then have "enum_within (request_elems v) pe"
    using enum_within_trans [OF c(2) w] canon_ok_request_elems [OF assms(5)] by blast
  moreover have "pe \<noteq> []" using w c(1) by (cases ce) (auto simp: enum_within_def)
  ultimately show "pe \<noteq> [] \<and> enum_within (request_elems v) pe" by blast
qed

lemma lower_mono:
  assumes "within_num (\<lambda>c p. \<not> f64_less c p) cb pb k = None" and "num_members_ok cb"
    and "k \<in> set (numeric_keys @ item_keys)"
    and "\<forall>n. get_num cb k = Some n \<longrightarrow> \<not> f64_less f n"
  shows "\<forall>n. get_num pb k = Some n \<longrightarrow> \<not> f64_less f n"
  using assms num_members_okD(2) [OF assms(2,3)] f64_not_less_trans
  by (fastforce simp: within_num_None)

lemma upper_mono:
  assumes "within_num (\<lambda>c p. \<not> f64_less p c) cb pb k = None" and "num_members_ok cb"
    and "k \<in> set (numeric_keys @ item_keys)"
    and "\<forall>n. get_num cb k = Some n \<longrightarrow> \<not> f64_less n f"
  shows "\<forall>n. get_num pb k = Some n \<longrightarrow> \<not> f64_less n f"
  using assms num_members_okD(2) [OF assms(2,3)] f64_not_less_trans
  by (fastforce simp: within_num_None)

lemma step_mono:
  assumes "within_num isMultipleOf cb pb ''step'' = None" and "num_members_ok cb" and "num_members_ok pb"
    and "\<forall>n. get_num cb ''step'' = Some n \<longrightarrow> isMultipleOf f n" and "rejectNonFinite (JNum f) = None"
  shows "\<forall>n. get_num pb ''step'' = Some n \<longrightarrow> isMultipleOf f n"
proof (intro allI impI)
  fix n
  assume n: "get_num pb ''step'' = Some n"
  with assms(1) obtain c where c: "get_num cb ''step'' = Some c" "isMultipleOf c n"
    by (auto simp: within_num_None)
  have "step_ok c" "step_ok n" using assms(2,3) n c(1) by (auto simp: num_members_ok_def)
  with isMultipleOf_trans assms(4,5) c show "isMultipleOf f n" by blast
qed

lemma numeric_part_mono:
  assumes "numeric_part pb" and "num_members_ok pb"
    and "\<forall>k \<in> set numeric_keys. \<exists>r. within_num r cb pb k = None"
  shows "numeric_part cb"
proof -
  from assms(1) obtain k where k: "k \<in> set numeric_keys" "has_key pb k" by (auto simp: numeric_part_iff)
  then obtain f where "get_num pb k = Some f" using num_members_okD(1) [OF assms(2)] by fastforce
  with assms(3) k obtain c where "get_num cb k = Some c" by (auto simp: within_num_None)
  with k show ?thesis by (auto simp: numeric_part_iff get_num_iff has_key_def)
qed

lemma rejectNonFinite_lookup:
  "rejectNonFinite (JObj m) = None \<Longrightarrow> map_of m k = Some v \<Longrightarrow> rejectNonFinite v = None"
  by (auto simp: first_err_None dest!: map_of_SomeD)

lemma bound_good_nested:
  "bound_good (JObj m) \<Longrightarrow> map_of m ''nested'' = Some (JObj nm) \<Longrightarrow>
     gomap_ok nm \<and> (\<forall>x \<in> set nm. bound_good (snd x))"
  by simp

lemma boundWithin_optional: "boundWithin c p = None \<Longrightarrow> boundOptional c \<Longrightarrow> boundOptional p"
  by (cases "(c, p)" rule: boundWithin.cases) (auto simp: fail_if_None)

lemma boundWithin_parts:
  assumes "boundWithin (JObj cb) (JObj pb) = None"
  shows "within_num (\<lambda>c p. \<not> f64_less c p) cb pb ''min'' = None"
    and "within_num (\<lambda>c p. \<not> f64_less p c) cb pb ''max'' = None"
    and "within_num isMultipleOf cb pb ''step'' = None"
    and "within_enum cb pb = None"
    and "within_num (\<lambda>c p. \<not> f64_less c p) cb pb ''min_items'' = None"
    and "within_num (\<lambda>c p. \<not> f64_less p c) cb pb ''max_items'' = None"
  using assms by simp_all

text \<open>The nested part of \<open>boundWithin\<close>.\<close>

lemma boundWithin_nested:
  assumes "boundWithin (JObj cb) (JObj pb) = None" and "map_of pb ''nested'' = Some (JObj pn)"
  obtains cn where "map_of cb ''nested'' = Some (JObj cn)"
    and "\<And>k b. (k, b) \<in> set pn \<Longrightarrow> \<exists>c. map_of cn k = Some c \<and> boundWithin c b = None"
    and "\<And>k. has_key cn k \<Longrightarrow> has_key pn k"
proof -
  obtain cn where "map_of cb ''nested'' = Some (JObj cn)"
    and "\<forall>x \<in> set pn. (case map_of cn (fst x) of
                         None \<Rightarrow> Some not_narrower | Some c \<Rightarrow> boundWithin c (snd x)) = None"
    and "\<forall>x \<in> set cn. has_key pn (fst x)"
    using assms by (auto simp: first_err_None fail_if_None split: option.splits json.splits)
  moreover have "\<exists>c. map_of cn k = Some c \<and> boundWithin c b = None" if "(k, b) \<in> set pn" for k b
    using calculation(2) that by (fastforce split: option.splits)
  ultimately show ?thesis using that by (metis has_key_iff imageE list.set_map)
qed

lemma boundWithin_sound:
  assumes "boundWithin c p = None" and "boundSubset v c = None"
    and "bound_good c" and "bound_good p" and "canon_ok v" and "rejectNonFinite v = None"
  shows "boundSubset v p = None"
  using assms
proof (induction p arbitrary: v c rule: bound_good.induct)
  case (1 pb)
  then obtain cb where c: "c = JObj cb" by (cases c) auto
  note w = boundWithin_parts [OF "1.prems"(1) [unfolded c]]
  have ok: "num_members_ok cb" "num_members_ok pb" "enum_member_ok cb" "enum_member_ok pb"
    using "1.prems"(3,4) c by auto
  note sat = "1.prems"(2) [unfolded c boundSubset_None [OF "1.prems"(3) [unfolded c]]]
  have v: "enum_error v cb = None" "cardinality_error v cb = None"
    "numeric_part cb \<Longrightarrow> numericBound v cb = None"
    "\<And>nm. map_of cb ''nested'' = Some (JObj nm) \<Longrightarrow> \<exists>om. v = JObj om \<and> nestedSubset om nm = None"
    using sat by simp_all
  have "enum_error v pb = None"
    using enum_error_mono [OF w(4) v(1) ok(3,4) "1.prems"(5)] .
  moreover have "cardinality_error v pb = None"
    using v(2) lower_mono [OF w(5) ok(1) num_key_mem(4)] upper_mono [OF w(6) ok(1) num_key_mem(5)]
    unfolding cardinality_error_None by blast
  moreover have "numericBound v pb = None" if np: "numeric_part pb"
  proof -
    have "numeric_part cb"
      using w(1-3) by (intro numeric_part_mono [OF np ok(2)]) (auto simp: numeric_keys_def)
    then obtain f where f: "v = JNum f" using v(3) by (auto simp: numericBound_None)
    then show ?thesis
      using v(3) [OF \<open>numeric_part cb\<close>] "1.prems"(6) lower_mono [OF w(1) ok(1) num_key_mem(1)]
        upper_mono [OF w(2) ok(1) num_key_mem(2)] step_mono [OF w(3) ok(1,2), of f]
      unfolding numericBound_None by blast
  qed
  moreover have "\<exists>om. v = JObj om \<and> nestedSubset om pn = None"
    if pn: "map_of pb ''nested'' = Some (JObj pn)" for pn
  proof -
    obtain cn where cn: "map_of cb ''nested'' = Some (JObj cn)"
      and cp: "\<And>k b. (k, b) \<in> set pn \<Longrightarrow> \<exists>c. map_of cn k = Some c \<and> boundWithin c b = None"
      and pc: "\<And>k. has_key cn k \<Longrightarrow> has_key pn k"
      using boundWithin_nested [OF "1.prems"(1) [unfolded c] pn] by metis
    obtain om where om: "v = JObj om" "nestedSubset om cn = None" using v(4) [OF cn] by blast
    have "case map_of om k of None \<Rightarrow> boundOptional b | Some w \<Rightarrow> boundSubset w b = None"
      if kb: "(k, b) \<in> set pn" for k b
    proof -
      obtain cv where cv: "map_of cn k = Some cv" "boundWithin cv b = None" using cp [OF kb] by blast
      have m: "(k, cv) \<in> set cn" using cv(1) by (rule map_of_SomeD)
      have o: "case map_of om k of None \<Rightarrow> boundOptional cv | Some w \<Rightarrow> boundSubset w cv = None"
        using om(2) m unfolding nestedSubset_None by blast
      have g: "bound_good cv" "bound_good b"
        using bound_good_nested [OF "1.prems"(3) [unfolded c] cn] m
          bound_good_nested [OF "1.prems"(4) pn] kb by fastforce+
      show ?thesis
      proof (cases "map_of om k")
        case None
        with o boundWithin_optional [OF cv(2)] show ?thesis by simp
      next
        case (Some w)
        have "canon_ok w" "rejectNonFinite w = None"
          using "1.prems"(5,6) Some om(1) canon_ok_lookup rejectNonFinite_lookup by blast+
        with "1.IH" [OF pn refl kb] o Some cv(2) g show ?thesis by simp
      qed
    qed
    moreover have "\<forall>(k, w) \<in> set om. has_key pn k"
      using om(2) pc unfolding nestedSubset_None by blast
    ultimately show ?thesis using om(1) unfolding nestedSubset_None by blast
  qed
  ultimately show ?case by (simp only: boundSubset_None [OF "1.prems"(4)]) simp
qed auto

interpretation bound_narrowing: narrowing
  "\<lambda>c p. boundWithin c p = None \<and> bound_good c \<and> bound_good p"
  "\<lambda>b v. canon_ok v \<and> rejectNonFinite v = None \<and> boundSubset v b = None"
  by unfold_locales (auto intro: boundWithin_sound)

end
