(* ===== verification/Bound_Meet.thy ===== *)
theory Bound_Meet
  imports Bound_Laws
begin

text \<open>
  The meet of two bounds (\<open>boundMeet\<close>): it is a well-formed bound again and admits only what both
  bounds admit. The interpretation of \<open>meeting\<close> at the end gives the same for a fold over several
  sources.
\<close>

subsection \<open>Members of the result\<close>

lemma map_of_with_optional:
  "map_of (with_optional opt m) k =
     (if k = ''optional'' then (if opt then Some (JBool True) else None) else map_of m k)"
proof -
  have "map_of (filter (\<lambda>x. fst x \<noteq> ''optional'') m) k = (if k = ''optional'' then None else map_of m k)"
    by (induction m) auto
  then show ?thesis by (auto simp: with_optional_def map_add_def split: option.splits)
qed

lemma boundOptional_with_optional [simp]: "boundOptional (JObj (with_optional opt m)) = opt"
  by (simp add: map_of_with_optional)

text \<open>The member \<open>optional\<close> plays no role for a value that is present.\<close>

lemma get_with_optional [simp]:
  assumes "k \<noteq> ''optional''"
  shows "has_key (with_optional opt m) k = has_key m k"
    and "get_num (with_optional opt m) k = get_num m k"
    and "get_arr (with_optional opt m) k = get_arr m k"
    and "map_of (with_optional opt m) k = map_of m k"
  using assms by (simp_all add: has_key_def get_num_def get_arr_def map_of_with_optional)

lemma boundSubset_with_optional:
  "boundSubset v (JObj (with_optional opt m)) = boundSubset v (JObj m)"
proof -
  have e: "enum_error v (with_optional opt m) = enum_error v m"
    unfolding enum_error_def by simp
  have c: "cardinality_error v (with_optional opt m) = cardinality_error v m"
    unfolding cardinality_error_def by simp
  have n: "numericBound v (with_optional opt m) = numericBound v m"
    unfolding numericBound_def by (cases v) simp_all
  have "''nested'' \<noteq> ''optional''" "''min'' \<noteq> ''optional''" "''max'' \<noteq> ''optional''"
    "''step'' \<noteq> ''optional''" by simp_all
  then show ?thesis
    by (simp only: boundSubset.simps e c n get_with_optional not_False_eq_True)
qed

lemma gomap_ok_with_optional: "gomap_ok m \<Longrightarrow> gomap_ok (with_optional opt m)"
  by (auto simp: gomap_ok_def with_optional_def distinct_map inj_on_def)

lemma bound_good_with_optional: "bound_good (JObj m) \<Longrightarrow> bound_good (JObj (with_optional opt m))"
  by (simp add: gomap_ok_with_optional bound_families_def num_members_ok_def enum_member_ok_def
      numeric_keys_def enum_keys_def item_keys_def cong: option.case_cong)

lemma map_of_num_member: "map_of (num_member k v) k' = (if k' = k then map_option JNum v else None)"
  by (simp add: num_member_def split: option.splits)

lemma set_num_member: "fst ` set (num_member k v) \<subseteq> {k}"
  by (auto simp: num_member_def split: option.splits)

definition finite_opt :: "f64 option \<Rightarrow> bool" where
  "finite_opt a \<longleftrightarrow> (case a of Some f \<Rightarrow> is_finite f | None \<Rightarrow> True)"

lemma finite_opt_maxOf: "finite_opt a \<Longrightarrow> finite_opt b \<Longrightarrow> finite_opt (maxOf a b)"
  by (auto simp: finite_opt_def maxOf_def pick_def split: option.splits)

lemma finite_opt_minOf: "finite_opt a \<Longrightarrow> finite_opt b \<Longrightarrow> finite_opt (minOf a b)"
  by (auto simp: finite_opt_def minOf_def pick_def split: option.splits)

lemma maxOf_sound:
  assumes "finite_opt a" and "finite_opt b" and "\<forall>n. maxOf a b = Some n \<longrightarrow> \<not> f64_less f n"
  shows "\<forall>n. a = Some n \<longrightarrow> \<not> f64_less f n" and "\<forall>n. b = Some n \<longrightarrow> \<not> f64_less f n"
  using assms
  by (cases a; cases b; cases f; auto simp: finite_opt_def maxOf_def pick_def elim!: is_finite.elims split: if_splits)+

lemma minOf_sound:
  assumes "finite_opt a" and "finite_opt b" and "\<forall>n. minOf a b = Some n \<longrightarrow> \<not> f64_less n f"
  shows "\<forall>n. a = Some n \<longrightarrow> \<not> f64_less n f" and "\<forall>n. b = Some n \<longrightarrow> \<not> f64_less n f"
  using assms
  by (cases a; cases b; cases f; auto simp: finite_opt_def minOf_def pick_def elim!: is_finite.elims split: if_splits)+

definition step_opt :: "f64 option \<Rightarrow> bool" where
  "step_opt a \<longleftrightarrow> (case a of Some f \<Rightarrow> step_ok f | None \<Rightarrow> True)"

lemma step_meet_sound:
  assumes "step_meet a b = Inr c" and "step_opt a" and "step_opt b"
    and "\<forall>n. c = Some n \<longrightarrow> isMultipleOf f n" and "rejectNonFinite (JNum f) = None"
  shows "step_opt c" and "\<forall>n. a = Some n \<longrightarrow> isMultipleOf f n" and "\<forall>n. b = Some n \<longrightarrow> isMultipleOf f n"
  using assms
  by (auto simp: step_meet_def step_opt_def split: option.splits if_splits intro: isMultipleOf_trans)

lemma step_meet_ok: "step_meet a b = Inr c \<Longrightarrow> step_opt a \<Longrightarrow> step_opt b \<Longrightarrow> step_opt c"
  by (auto simp: step_meet_def step_opt_def split: option.splits if_splits)

lemma num_members_ok_iff:
  "num_members_ok m \<longleftrightarrow>
     (\<forall>k \<in> set (numeric_keys @ item_keys). (has_key m k \<longrightarrow> get_num m k \<noteq> None) \<and> finite_opt (get_num m k))
     \<and> step_opt (get_num m ''step'')"
proof -
  have "(has_key m k \<longrightarrow> (case get_num m k of Some f \<Rightarrow> is_finite f | None \<Rightarrow> False)) \<longleftrightarrow>
      (has_key m k \<longrightarrow> get_num m k \<noteq> None) \<and> finite_opt (get_num m k)" for k
    by (auto simp: finite_opt_def has_key_def get_num_def split: option.splits json.splits)
  then show ?thesis by (simp only: num_members_ok_def step_opt_def)
qed

lemma num_members_ok_finite:
  "num_members_ok m \<Longrightarrow> k \<in> set (numeric_keys @ item_keys) \<Longrightarrow> finite_opt (get_num m k)"
  by (simp add: num_members_ok_iff)

text \<open>Numeric bounds.\<close>

lemma numericMeet_members:
  assumes "numericMeet a b = Inr m"
  obtains st where "step_meet (get_num a ''step'') (get_num b ''step'') = Inr st"
    and "map_of m = (\<lambda>k. map_option JNum
           (if k = ''min'' then maxOf (get_num a ''min'') (get_num b ''min'')
            else if k = ''max'' then minOf (get_num a ''max'') (get_num b ''max'')
            else if k = ''step'' then st else None))"
    and "gomap_ok m"
proof -
  obtain st where st: "step_meet (get_num a ''step'') (get_num b ''step'') = Inr st"
    and m: "m = num_member ''min'' (maxOf (get_num a ''min'') (get_num b ''min''))
      @ num_member ''max'' (minOf (get_num a ''max'') (get_num b ''max'')) @ num_member ''step'' st"
    using assms by (auto simp: numericMeet_def Let_def split: sum.splits if_splits)
  have "gomap_ok m" unfolding m gomap_ok_def num_member_def by (auto split: option.splits)
  with st show ?thesis
    by (intro that) (auto simp: m fun_eq_iff map_of_num_member map_add_def split: option.splits)
qed

lemma numericMeet_good:
  assumes "numericMeet a b = Inr m" and "num_members_ok a" and "num_members_ok b"
  shows "bound_good (JObj m)"
proof -
  obtain st where st: "step_meet (get_num a ''step'') (get_num b ''step'') = Inr st"
    and m: "map_of m = (\<lambda>k. map_option JNum
           (if k = ''min'' then maxOf (get_num a ''min'') (get_num b ''min'')
            else if k = ''max'' then minOf (get_num a ''max'') (get_num b ''max'')
            else if k = ''step'' then st else None))" and g: "gomap_ok m"
    using assms(1) by (rule numericMeet_members)
  have so: "step_opt st"
    using step_meet_ok [OF st] assms(2,3) by (simp add: num_members_ok_iff)
  then have sf: "finite_opt st"
    by (auto simp: step_opt_def finite_opt_def split: option.splits elim: step_ok.elims)
  have "finite_opt (maxOf (get_num a ''min'') (get_num b ''min''))"
    and "finite_opt (minOf (get_num a ''max'') (get_num b ''max''))"
    using num_members_ok_finite [OF assms(2)] num_members_ok_finite [OF assms(3)] num_key_mem
    by (simp_all add: finite_opt_maxOf finite_opt_minOf)
  with sf so have "num_members_ok m"
    unfolding num_members_ok_iff
    by (auto simp: get_num_def has_key_def m numeric_keys_def item_keys_def finite_opt_def
        split: option.splits)
  with g show ?thesis
    by (simp add: bound_families_def enum_member_ok_def has_key_def m enum_keys_def)
qed

lemma numericMeet_sound:
  assumes "numericMeet a b = Inr m" and "num_members_ok a" and "num_members_ok b"
    and "numericBound v m = None" and "rejectNonFinite v = None"
  shows "numericBound v a = None \<and> numericBound v b = None"
proof -
  obtain st where st: "step_meet (get_num a ''step'') (get_num b ''step'') = Inr st"
    and m: "map_of m = (\<lambda>k. map_option JNum
           (if k = ''min'' then maxOf (get_num a ''min'') (get_num b ''min'')
            else if k = ''max'' then minOf (get_num a ''max'') (get_num b ''max'')
            else if k = ''step'' then st else None))"
    using assms(1) by (rule numericMeet_members)
  have g: "get_num m ''min'' = maxOf (get_num a ''min'') (get_num b ''min'')"
    "get_num m ''max'' = minOf (get_num a ''max'') (get_num b ''max'')" "get_num m ''step'' = st"
    by (auto simp: get_num_def m split: option.splits)
  obtain f where f: "v = JNum f" using assms(4) by (auto simp: numericBound_None)
  note sat = assms(4) [unfolded numericBound_None f g]
  note fin = num_members_ok_finite [OF assms(2)] num_members_ok_finite [OF assms(3)]
  have s: "step_opt (get_num a ''step'')" "step_opt (get_num b ''step'')"
    using assms(2,3) by (auto simp: num_members_ok_iff)
  have mn: "\<forall>n. maxOf (get_num a ''min'') (get_num b ''min'') = Some n \<longrightarrow> \<not> f64_less f n"
    and mx: "\<forall>n. minOf (get_num a ''max'') (get_num b ''max'') = Some n \<longrightarrow> \<not> f64_less n f"
    and sp: "\<forall>n. st = Some n \<longrightarrow> isMultipleOf f n"
    using sat by simp_all
  show ?thesis
    unfolding numericBound_None f
    using maxOf_sound [OF fin(1) [OF num_key_mem(1)] fin(2) [OF num_key_mem(1)] mn]
      minOf_sound [OF fin(1) [OF num_key_mem(2)] fin(2) [OF num_key_mem(2)] mx]
      step_meet_sound(2,3) [OF st s sp] assms(5) f
    by simp
qed

text \<open>Enum bounds.\<close>

lemma set_dedup_members: "set (dedup_members seen ms) \<subseteq> set ms"
  by (induction ms arbitrary: seen) (auto split: if_splits)

lemma set_canonicalEnumMembers: "set (canonicalEnumMembers ms) \<subseteq> set ms"
  using set_dedup_members by (simp add: canonicalEnumMembers_def)

definition enum_meet_of :: "obj \<Rightarrow> obj \<Rightarrow> json list option" where
  "enum_meet_of a b =
     (case (get_arr a ''enum'', get_arr b ''enum'') of
        (Some xs, Some ys) \<Rightarrow> Some (canonicalEnumMembers (enum_inter xs ys))
      | (Some xs, None) \<Rightarrow> Some xs
      | (None, y) \<Rightarrow> y)"

lemma enumMeet_members:
  assumes "enumMeet a b = Inr m"
  shows "map_of m = (\<lambda>k.
           if k = ''enum'' then map_option JArr (enum_meet_of a b)
           else map_option JNum
             (if k = ''min_items'' then maxOf (get_num a ''min_items'') (get_num b ''min_items'')
              else if k = ''max_items'' then minOf (get_num a ''max_items'') (get_num b ''max_items'')
              else None))"
    and "gomap_ok m"
proof -
  obtain res where r: "enum_members_meet (get_arr a ''enum'') (get_arr b ''enum'') = Inr res"
    and m: "m = res @ num_member ''min_items'' (maxOf (get_num a ''min_items'') (get_num b ''min_items''))
      @ num_member ''max_items'' (minOf (get_num a ''max_items'') (get_num b ''max_items''))"
    using assms by (auto simp: enumMeet_def Let_def split: sum.splits if_splits)
  have res: "res = (case enum_meet_of a b of Some xs \<Rightarrow> [(''enum'', JArr xs)] | None \<Rightarrow> [])"
    using r by (auto simp: enum_members_meet_def enum_meet_of_def split: option.splits if_splits)
  show "gomap_ok m" unfolding m res gomap_ok_def num_member_def by (auto split: option.splits)
  show "map_of m = (\<lambda>k.
           if k = ''enum'' then map_option JArr (enum_meet_of a b)
           else map_option JNum
             (if k = ''min_items'' then maxOf (get_num a ''min_items'') (get_num b ''min_items'')
              else if k = ''max_items'' then minOf (get_num a ''max_items'') (get_num b ''max_items'')
              else None))"
    by (auto simp: m res fun_eq_iff map_of_num_member map_add_def split: option.splits)
qed

lemma enum_meet_of_sound:
  assumes "enum_meet_of a b = Some zs" and "enum_within us zs"
    and "\<forall>u \<in> set us. canon_ok u"
    and "\<forall>xs. get_arr a ''enum'' = Some xs \<longrightarrow> (\<forall>x \<in> set xs. canon_ok x)"
    and "\<forall>ys. get_arr b ''enum'' = Some ys \<longrightarrow> (\<forall>y \<in> set ys. canon_ok y)"
  shows "\<forall>xs. get_arr a ''enum'' = Some xs \<longrightarrow> enum_within us xs"
    and "\<forall>ys. get_arr b ''enum'' = Some ys \<longrightarrow> enum_within us ys"
proof -
  have both: "enum_within us xs \<and> enum_within us ys"
    if x: "get_arr a ''enum'' = Some xs" and y: "get_arr b ''enum'' = Some ys" for xs ys
  proof -
    have "enum_within us (enum_inter xs ys)"
      using assms(1,2) x y enum_within_mono [OF _ set_canonicalEnumMembers]
      by (auto simp: enum_meet_of_def)
    moreover have sub: "set (enum_inter xs ys) \<subseteq> set xs" and "enum_within (enum_inter xs ys) ys"
      by (auto simp: enum_inter_def enum_within_def)
    moreover have "\<forall>z \<in> set (enum_inter xs ys). canon_ok z" "\<forall>y \<in> set ys. canon_ok y"
      using sub assms(4,5) x y by auto
    ultimately show ?thesis
      using enum_within_mono [of us "enum_inter xs ys" xs]
        enum_within_trans [of us "enum_inter xs ys" ys] assms(3) by simp
  qed
  show "\<forall>xs. get_arr a ''enum'' = Some xs \<longrightarrow> enum_within us xs"
    using both assms(1,2) by (cases "get_arr b ''enum''") (auto simp: enum_meet_of_def)
  show "\<forall>ys. get_arr b ''enum'' = Some ys \<longrightarrow> enum_within us ys"
    using both assms(1,2) by (cases "get_arr a ''enum''") (auto simp: enum_meet_of_def)
qed

lemma enum_meet_of_members:
  "enum_meet_of a b = Some zs \<Longrightarrow> z \<in> set zs \<Longrightarrow>
     (\<exists>xs. get_arr a ''enum'' = Some xs \<and> z \<in> set xs) \<or> (\<exists>ys. get_arr b ''enum'' = Some ys \<and> z \<in> set ys)"
  using set_canonicalEnumMembers
  by (fastforce simp: enum_meet_of_def enum_inter_def split: option.splits)

lemma enum_member_okD:
  "enum_member_ok m \<Longrightarrow> \<forall>xs. get_arr m ''enum'' = Some xs \<longrightarrow> (\<forall>x \<in> set xs. canon_ok x)"
  by (auto simp: enum_member_ok_def has_key_def get_arr_def split: option.splits json.splits)

lemma enum_meet_of_nonempty:
  assumes "enum_meet_of a b = Some zs" and "zs \<noteq> []"
  shows "\<forall>xs. get_arr a ''enum'' = Some xs \<longrightarrow> xs \<noteq> []" and "\<forall>ys. get_arr b ''enum'' = Some ys \<longrightarrow> ys \<noteq> []"
  using assms
  by (auto simp: enum_meet_of_def enum_inter_def canonicalEnumMembers_def split: option.splits)

lemma enum_meet_of_None:
  "enum_meet_of a b = None \<longleftrightarrow> get_arr a ''enum'' = None \<and> get_arr b ''enum'' = None"
  by (auto simp: enum_meet_of_def split: option.splits)

lemma enumMeet_good:
  assumes "enumMeet a b = Inr m" and "num_members_ok a" and "num_members_ok b"
    and "enum_member_ok a" and "enum_member_ok b"
  shows "bound_good (JObj m)"
proof -
  note m = enumMeet_members [OF assms(1)]
  have "finite_opt (maxOf (get_num a ''min_items'') (get_num b ''min_items''))"
    and "finite_opt (minOf (get_num a ''max_items'') (get_num b ''max_items''))"
    using num_members_ok_finite [OF assms(2)] num_members_ok_finite [OF assms(3)] num_key_mem
    by (simp_all add: finite_opt_maxOf finite_opt_minOf)
  then have "num_members_ok m"
    unfolding num_members_ok_iff
    by (auto simp: get_num_def has_key_def m(1) numeric_keys_def item_keys_def finite_opt_def step_opt_def
        split: option.splits)
  moreover have "enum_member_ok m"
  proof -
    have "\<forall>z \<in> set zs. canon_ok z" if "enum_meet_of a b = Some zs" for zs
      using enum_meet_of_members [OF that] enum_member_okD [OF assms(4)] enum_member_okD [OF assms(5)]
      by blast
    then show ?thesis by (auto simp: enum_member_ok_def get_arr_def has_key_def m(1))
  qed
  ultimately show ?thesis
    using m by (simp add: bound_families_def has_key_def numeric_keys_def)
qed

lemma enumMeet_sound:
  assumes "enumMeet a b = Inr m" and "num_members_ok a" and "num_members_ok b"
    and ok: "enum_member_ok a" "enum_member_ok b"
    and "enum_error v m = None" and "cardinality_error v m = None" and "canon_ok v"
  shows "enum_error v a = None \<and> cardinality_error v a = None \<and>
         enum_error v b = None \<and> cardinality_error v b = None"
proof -
  note m = enumMeet_members(1) [OF assms(1)]
  note fin = num_members_ok_finite [OF assms(2)] num_members_ok_finite [OF assms(3)]
  have g: "get_num m ''min_items'' = maxOf (get_num a ''min_items'') (get_num b ''min_items'')"
    "get_num m ''max_items'' = minOf (get_num a ''max_items'') (get_num b ''max_items'')"
    "get_arr m ''enum'' = enum_meet_of a b"
    by (auto simp: get_num_def get_arr_def m split: option.splits)
  have card: "\<forall>n. get_num m ''min_items'' = Some n \<longrightarrow> \<not> f64_less (f64_of_int (requestCardinality v)) n"
    "\<forall>n. get_num m ''max_items'' = Some n \<longrightarrow> \<not> f64_less n (f64_of_int (requestCardinality v))"
    using assms(7) by (simp_all add: cardinality_error_None)
  have c: "cardinality_error v a = None \<and> cardinality_error v b = None"
    unfolding cardinality_error_None
    using maxOf_sound [OF fin(1) [OF num_key_mem(4)] fin(2) [OF num_key_mem(4)] card(1) [unfolded g]]
      minOf_sound [OF fin(1) [OF num_key_mem(5)] fin(2) [OF num_key_mem(5)] card(2) [unfolded g]]
    by simp
  have gm: "enum_member_ok m"
    using enumMeet_good [OF assms(1-5)] by simp
  have e: "enum_meet_of a b = Some zs \<longrightarrow> zs \<noteq> [] \<and> enum_within (request_elems v) zs" for zs
    using assms(6) by (simp add: enum_error_None [OF gm] g)
  have r: "\<forall>u \<in> set (request_elems v). canon_ok u" using canon_ok_request_elems [OF assms(8)] by blast
  note w = enum_meet_of_sound [OF _ _ r enum_member_okD [OF ok(1)] enum_member_okD [OF ok(2)]]
  have "enum_error v a = None \<and> enum_error v b = None"
  proof (cases "enum_meet_of a b")
    case None
    then show ?thesis by (simp add: enum_error_None [OF ok(1)] enum_error_None [OF ok(2)] enum_meet_of_None)
  next
    case (Some zs)
    then have z: "zs \<noteq> []" "enum_within (request_elems v) zs" using e by auto
    show ?thesis
      using w [OF Some z(2)] enum_meet_of_nonempty [OF Some z(1)]
      by (simp add: enum_error_None [OF ok(1)] enum_error_None [OF ok(2)])
  qed
  with c show ?thesis by blast
qed

text \<open>Nested bounds.\<close>

lemma boundMeet_optional:
  assumes "boundMeet a b = Inr m"
  shows "boundOptional (JObj m) \<longleftrightarrow> boundOptional a \<and> boundOptional b"
proof (cases "(a, b)" rule: boundWithin.cases)
  case (1 am bm)
  then show ?thesis
    using assms by (auto simp: boundMeet.simps Let_def simp del: boundOptional.simps
        split: if_splits sum.splits)
qed (use assms in \<open>auto simp: boundMeet.simps\<close>)

lemma list_all2_keys: "list_all2 (\<lambda>x y. fst y = fst x \<and> P x y) xs ys \<Longrightarrow> map fst ys = map fst xs"
  by (induction rule: list_all2_induct) auto

lemma list_all2_left: "list_all2 P xs ys \<Longrightarrow> x \<in> set xs \<Longrightarrow> \<exists>y \<in> set ys. P x y"
  by (induction rule: list_all2_induct) auto

lemma list_all2_right: "list_all2 P xs ys \<Longrightarrow> y \<in> set ys \<Longrightarrow> \<exists>x \<in> set xs. P x y"
  by (induction rule: list_all2_induct) auto

lemma nestedMeet_members:
  assumes "nestedMeet am bm = Inr m" and "gomap_ok (nested_of am)" and "gomap_ok (nested_of bm)"
  obtains res where "m = [(''nested'', JObj res)]" and "gokeys res = gokeys (nested_of am)"
    and "set (gokeys (nested_of bm)) = set (gokeys (nested_of am))"
    and "\<And>k av. (k, av) \<in> set (nested_of am) \<Longrightarrow>
           \<exists>bv mm. map_of (nested_of bm) k = Some bv \<and> boundMeet av bv = Inr mm \<and> (k, JObj mm) \<in> set res"
    and "\<And>k y. (k, y) \<in> set res \<Longrightarrow>
           \<exists>av bv mm. (k, av) \<in> set (nested_of am) \<and> map_of (nested_of bm) k = Some bv
             \<and> boundMeet av bv = Inr mm \<and> y = JObj mm"
proof -
  let ?an = "nested_of am" and ?bn = "nested_of bm"
  let ?rel = "\<lambda>x y. fst y = fst x \<and> (\<exists>bv mm. map_of ?bn (fst x) = Some bv
      \<and> boundMeet (snd x) bv = Inr mm \<and> y = (fst x, JObj mm))"
  let ?f = "\<lambda>x. case map_of ?bn (fst x) of None \<Rightarrow> Inl (Err ErrNoOverlap)
      | Some bv \<Rightarrow> (case boundMeet (snd x) bv of Inl e \<Rightarrow> Inl e | Inr mm \<Rightarrow> Inr (fst x, JObj mm))"
  obtain res where len: "length ?an = length ?bn" and m: "m = [(''nested'', JObj res)]"
    and "map_err ?f ?an = Inr res"
    using assms(1) by (auto simp: nestedMeet.simps [of am bm] split: if_splits sum.splits)
  then have "list_all2 (\<lambda>x y. ?f x = Inr y) ?an res" by (simp only: map_err_Inr)
  then have rel: "list_all2 ?rel ?an res"
    by (rule list_all2_mono) (auto split: option.splits sum.splits)
  have keys: "gokeys res = gokeys ?an" using list_all2_keys [OF rel] .
  have fwd: "\<exists>bv mm. map_of ?bn k = Some bv \<and> boundMeet av bv = Inr mm \<and> (k, JObj mm) \<in> set res"
    if "(k, av) \<in> set ?an" for k av
    using list_all2_left [OF rel that] by auto
  have bwd: "\<exists>av bv mm. (k, av) \<in> set ?an \<and> map_of ?bn k = Some bv \<and> boundMeet av bv = Inr mm \<and> y = JObj mm"
    if "(k, y) \<in> set res" for k y
    using list_all2_right [OF rel that] by auto
  have "set (gokeys ?an) \<subseteq> set (gokeys ?bn)" using fwd by (force dest: map_of_SomeD)
  moreover have "card (set (gokeys ?bn)) = card (set (gokeys ?an))"
    using len assms(2,3) by (simp only: gomap_ok_def distinct_card length_map)
  ultimately have "set (gokeys ?bn) = set (gokeys ?an)"
    by (metis List.finite_set card_subset_eq)
  then show ?thesis using that m keys fwd bwd by blast
qed

lemma nested_of_good:
  assumes "bound_good (JObj m)" and "has_key m ''nested''"
  shows "map_of m ''nested'' = Some (JObj (nested_of m))" and "gomap_ok (nested_of m)"
    and "\<forall>x \<in> set (nested_of m). bound_good (snd x)"
proof -
  obtain n where n: "map_of m ''nested'' = Some n" using assms(2) by (rule has_key_cases)
  obtain nm where nm: "n = JObj nm" using assms(1) n by (cases n) auto
  have "nested_of m = nm" using n nm by (simp add: nested_of_def get_obj_def)
  with bound_good_nested [OF assms(1), of nm] n nm
  show "map_of m ''nested'' = Some (JObj (nested_of m))" and "gomap_ok (nested_of m)"
    and "\<forall>x \<in> set (nested_of m). bound_good (snd x)" by simp_all
qed

text \<open>What a family says about a well-formed bound.\<close>

lemma family_sat:
  assumes "bound_good (JObj m)"
  shows "boundFamily (JObj m) = FNone \<Longrightarrow> boundSubset v (JObj m) = None"
    and "boundFamily (JObj m) = FNumeric \<Longrightarrow> boundSubset v (JObj m) = None \<longleftrightarrow> numericBound v m = None"
    and "boundFamily (JObj m) = FEnum \<Longrightarrow>
      boundSubset v (JObj m) = None \<longleftrightarrow> enum_error v m = None \<and> cardinality_error v m = None"
    and "boundFamily (JObj m) = FNested \<Longrightarrow> boundSubset v (JObj m) = None \<longleftrightarrow>
      (\<exists>om. v = JObj om \<and> nestedSubset om (nested_of m) = None)"
proof -
  note fam = boundFamily.simps(1) [of m]
  have noenum: "enum_error v m = None \<and> cardinality_error v m = None" if "\<forall>k \<in> set enum_keys. \<not> has_key m k"
  proof -
    have "get_num m ''min_items'' = None" "get_num m ''max_items'' = None"
      using that by (auto simp: enum_keys_def has_key_def get_num_def)
    then show ?thesis using that by (simp add: enum_error_def cardinality_error_def enum_keys_def)
  qed
  have fams: "bound_families m \<le> 1" using assms by simp
  have nonum: "\<not> numeric_part m" if "\<exists>k \<in> set enum_keys. has_key m k"
    using fams that by (auto simp: bound_families_def numeric_part_iff split: if_splits)
  have nestedonly: "\<not> numeric_part m \<and> (\<forall>k \<in> set enum_keys. \<not> has_key m k)" if "has_key m ''nested''"
    using fams that by (auto simp: bound_families_def numeric_part_iff split: if_splits)
  note sat = boundSubset_None [OF assms, of v]
  show "boundFamily (JObj m) = FNone \<Longrightarrow> boundSubset v (JObj m) = None"
    using noenum unfolding sat fam by (auto simp: numeric_part_iff has_key_def split: if_splits)
  show "boundFamily (JObj m) = FNumeric \<Longrightarrow> boundSubset v (JObj m) = None \<longleftrightarrow> numericBound v m = None"
    using noenum unfolding sat fam by (auto simp: numeric_part_iff has_key_def split: if_splits)
  show "boundFamily (JObj m) = FEnum \<Longrightarrow>
      boundSubset v (JObj m) = None \<longleftrightarrow> enum_error v m = None \<and> cardinality_error v m = None"
    using nonum unfolding sat fam by (auto simp: has_key_def split: if_splits)
  show "boundFamily (JObj m) = FNested \<Longrightarrow> boundSubset v (JObj m) = None \<longleftrightarrow>
      (\<exists>om. v = JObj om \<and> nestedSubset om (nested_of m) = None)"
    using noenum nestedonly nested_of_good(1) [OF assms] unfolding sat fam
    by (auto split: if_splits)
qed

lemma numericMeet_numeric:
  assumes "numericMeet a b = Inr m" and "numeric_part a" and "num_members_ok a"
  shows "numeric_part m"
proof -
  obtain st where st: "step_meet (get_num a ''step'') (get_num b ''step'') = Inr st"
    and m: "map_of m = (\<lambda>k. map_option JNum
           (if k = ''min'' then maxOf (get_num a ''min'') (get_num b ''min'')
            else if k = ''max'' then minOf (get_num a ''max'') (get_num b ''max'')
            else if k = ''step'' then st else None))"
    using assms(1) by (rule numericMeet_members)
  from assms(2) obtain k where k: "k \<in> set numeric_keys" "has_key a k" by (auto simp: numeric_part_iff)
  then obtain f where f: "get_num a k = Some f" using num_members_okD(1) [OF assms(3), of k] by auto
  show ?thesis
    using k(1) f st
    by (cases "get_num b k")
      (auto simp: numeric_part_def numeric_keys_def has_key_def m maxOf_def minOf_def pick_def step_meet_def
        split: option.splits if_splits)
qed

definition meet_ok :: "json \<Rightarrow> json \<Rightarrow> obj \<Rightarrow> bool" where
  "meet_ok a b m \<longleftrightarrow> bound_good (JObj m) \<and>
     (\<forall>v. canon_ok v \<longrightarrow> rejectNonFinite v = None \<longrightarrow> boundSubset v (JObj m) = None \<longrightarrow>
        boundSubset v a = None \<and> boundSubset v b = None)"

lemma meet_ok_with_optional: "meet_ok a b m \<Longrightarrow> meet_ok a b (with_optional opt m)"
  by (simp add: meet_ok_def boundSubset_with_optional bound_good_with_optional del: bound_good.simps)

lemma meet_ok_numeric:
  assumes "numericMeet am bm = Inr m" and ga: "bound_good (JObj am)" and gb: "bound_good (JObj bm)"
    and fa: "boundFamily (JObj am) = FNumeric" and fb: "boundFamily (JObj bm) = FNumeric"
  shows "meet_ok (JObj am) (JObj bm) m"
proof -
  have ok: "num_members_ok am" "num_members_ok bm" using ga gb by simp_all
  have "numeric_part am" using fa by (auto simp: numeric_part_iff split: if_splits)
  then have np: "numeric_part m" using numericMeet_numeric [OF assms(1)] ok by blast
  have g: "bound_good (JObj m)" by (rule numericMeet_good [OF assms(1) ok])
  have "boundSubset v (JObj am) = None \<and> boundSubset v (JObj bm) = None"
    if "rejectNonFinite v = None" "boundSubset v (JObj m) = None" for v
  proof -
    have "numericBound v m = None" using that(2) np by (simp add: boundSubset_None [OF g])
    from numericMeet_sound [OF assms(1) ok this that(1)] show ?thesis
      by (simp add: family_sat(2) [OF ga fa] family_sat(2) [OF gb fb])
  qed
  with g show ?thesis unfolding meet_ok_def by blast
qed

lemma meet_ok_enum:
  assumes "enumMeet am bm = Inr m" and ga: "bound_good (JObj am)" and gb: "bound_good (JObj bm)"
    and fa: "boundFamily (JObj am) = FEnum" and fb: "boundFamily (JObj bm) = FEnum"
  shows "meet_ok (JObj am) (JObj bm) m"
proof -
  have ok: "num_members_ok am" "num_members_ok bm" "enum_member_ok am" "enum_member_ok bm"
    using ga gb by simp_all
  have g: "bound_good (JObj m)" by (rule enumMeet_good [OF assms(1) ok])
  have "boundSubset v (JObj am) = None \<and> boundSubset v (JObj bm) = None"
    if "canon_ok v" "boundSubset v (JObj m) = None" for v
  proof -
    have "enum_error v m = None" "cardinality_error v m = None"
      using that(2) by (simp_all add: boundSubset_None [OF g])
    from enumMeet_sound [OF assms(1) ok this that(1)] show ?thesis
      by (simp add: family_sat(3) [OF ga fa] family_sat(3) [OF gb fb])
  qed
  with g show ?thesis unfolding meet_ok_def by blast
qed

text \<open>One key of two nested maps and of their meet.\<close>

lemma nested_key_sound:
  assumes "boundMeet av bv = Inr mm" and "meet_ok av bv mm"
    and "canon_ok (JObj om)" and "rejectNonFinite (JObj om) = None"
    and "case map_of om k of None \<Rightarrow> boundOptional (JObj mm) | Some v \<Rightarrow> boundSubset v (JObj mm) = None"
  shows "case map_of om k of None \<Rightarrow> boundOptional av | Some v \<Rightarrow> boundSubset v av = None"
    and "case map_of om k of None \<Rightarrow> boundOptional bv | Some v \<Rightarrow> boundSubset v bv = None"
  using assms(5) boundMeet_optional [OF assms(1)] assms(2) canon_ok_lookup [OF assms(3), of k]
    rejectNonFinite_lookup [OF assms(4), of k]
  by (auto simp: meet_ok_def simp del: boundOptional.simps bound_good.simps split: option.splits)

lemma meet_ok_nested:
  assumes "nestedMeet am bm = Inr m" and ga: "bound_good (JObj am)" and gb: "bound_good (JObj bm)"
    and fa: "boundFamily (JObj am) = FNested" and fb: "boundFamily (JObj bm) = FNested"
    and IH: "\<And>x bv mm. x \<in> set (nested_of am) \<Longrightarrow> bound_good bv \<Longrightarrow> boundMeet (snd x) bv = Inr mm \<Longrightarrow>
               meet_ok (snd x) bv mm"
  shows "meet_ok (JObj am) (JObj bm) m"
proof -
  let ?an = "nested_of am" and ?bn = "nested_of bm"
  have n: "has_key am ''nested''" "has_key bm ''nested''" using fa fb by (auto split: if_splits)
  note an = nested_of_good [OF ga n(1)] and bn = nested_of_good [OF gb n(2)]
  obtain res where m: "m = [(''nested'', JObj res)]" and keys: "gokeys res = gokeys ?an"
    and same: "set (gokeys ?bn) = set (gokeys ?an)"
    and fwd: "\<And>k av. (k, av) \<in> set ?an \<Longrightarrow>
      \<exists>bv mm. map_of ?bn k = Some bv \<and> boundMeet av bv = Inr mm \<and> (k, JObj mm) \<in> set res"
    and bwd: "\<And>k y. (k, y) \<in> set res \<Longrightarrow>
      \<exists>av bv mm. (k, av) \<in> set ?an \<and> map_of ?bn k = Some bv \<and> boundMeet av bv = Inr mm \<and> y = JObj mm"
    by (rule nestedMeet_members [OF assms(1) an(2) bn(2)]) blast
  have bgood: "bound_good bv" if "map_of ?bn k = Some bv" for k bv
    using bn(3) map_of_SomeD [OF that] by fastforce
  have ok: "meet_ok av bv mm" if "(k, av) \<in> set ?an" "map_of ?bn k = Some bv" "boundMeet av bv = Inr mm"
    for k av bv mm using IH [of "(k, av)" bv mm] that bgood by simp
  have "gomap_ok res" using keys an(2) by (simp add: gomap_ok_def)
  moreover have "\<forall>x \<in> set res. bound_good (snd x)"
    using bwd ok unfolding meet_ok_def by fastforce
  ultimately have g: "bound_good (JObj m)"
    by (simp add: m gomap_ok_def bound_families_def num_members_ok_def enum_member_ok_def has_key_def
        numeric_keys_def enum_keys_def item_keys_def get_num_def)
  have "boundSubset v (JObj am) = None \<and> boundSubset v (JObj bm) = None"
    if v: "canon_ok v" "rejectNonFinite v = None" and s: "boundSubset v (JObj m) = None" for v
  proof -
    obtain om where om: "v = JObj om" and ns: "nestedSubset om res = None"
      using s [unfolded boundSubset_None [OF g]] by (auto simp: m)
    have sat: "case map_of om k of None \<Rightarrow> boundOptional y | Some w \<Rightarrow> boundSubset w y = None"
      if "(k, y) \<in> set res" for k y using ns that unfolding nestedSubset_None by blast
    have closed: "\<forall>(k, w) \<in> set om. has_key ?an k \<and> has_key ?bn k"
      using ns keys same unfolding nestedSubset_None has_key_iff by force
    note key = nested_key_sound [OF _ _ v(1) [unfolded om] v(2) [unfolded om]]
    have a: "case map_of om k of None \<Rightarrow> boundOptional av | Some w \<Rightarrow> boundSubset w av = None"
      if "(k, av) \<in> set ?an" for k av
      using fwd [OF that] ok [OF that] key(1) sat by blast
    have b: "case map_of om k of None \<Rightarrow> boundOptional bv | Some w \<Rightarrow> boundSubset w bv = None"
      if kb: "(k, bv) \<in> set ?bn" for k bv
    proof -
      have "k \<in> set (gokeys ?an)" using same kb by force
      then obtain av where av: "(k, av) \<in> set ?an" by auto
      have "map_of ?bn k = Some bv" using kb bn(2) by (simp add: gomap_ok_def)
      with fwd [OF av] obtain mm where mm: "boundMeet av bv = Inr mm" "(k, JObj mm) \<in> set res" by auto
      have "map_of ?bn k = Some bv" using kb bn(2) by (simp add: gomap_ok_def)
      then show ?thesis using key(2) [OF mm(1) ok [OF av _ mm(1)] sat [OF mm(2)]] by blast
    qed
    show ?thesis
      unfolding family_sat(4) [OF ga fa] family_sat(4) [OF gb fb] nestedSubset_None om
      using a b closed by blast
  qed
  with g show ?thesis unfolding meet_ok_def by blast
qed

theorem boundMeet_ok:
  "bound_good a \<Longrightarrow> bound_good b \<Longrightarrow> boundMeet a b = Inr m \<Longrightarrow> meet_ok a b m"
proof (induction a arbitrary: b m rule: bound_good.induct)
  case (1 am)
  then obtain bm where b: "b = JObj bm" by (cases b) auto
  note ga = "1.prems"(1) and gb = "1.prems"(2) [unfolded b]
  let ?opt = "boundOptional (JObj am) \<and> boundOptional (JObj bm)"
  have IH: "meet_ok (snd x) bv mm"
    if "has_key am ''nested''" "x \<in> set (nested_of am)" "bound_good bv" "boundMeet (snd x) bv = Inr mm" for x bv mm
    using "1.IH" [OF nested_of_good(1) [OF ga that(1)] refl that(2)] nested_of_good(3) [OF ga that(1)] that
    by blast
  consider (none) "boundFamily (JObj am) = FNone \<or> boundFamily (JObj bm) = FNone"
      "m = with_optional ?opt (if boundFamily (JObj am) = FNone then bm else am)"
    | (num) r where "boundFamily (JObj am) = FNumeric" "boundFamily (JObj bm) = FNumeric"
      "numericMeet am bm = Inr r" "m = with_optional ?opt r"
    | (enum) r where "boundFamily (JObj am) = FEnum" "boundFamily (JObj bm) = FEnum"
      "enumMeet am bm = Inr r" "m = with_optional ?opt r"
    | (nested) r where "boundFamily (JObj am) = FNested" "boundFamily (JObj bm) = FNested"
      "nestedMeet am bm = Inr r" "m = with_optional ?opt r"
    using "1.prems"(3) unfolding b boundMeet.simps Let_def
    by (auto simp del: boundOptional.simps boundFamily.simps split: if_splits sum.splits)
  then show ?case
  proof cases
    case none
    have "meet_ok (JObj am) (JObj bm) (if boundFamily (JObj am) = FNone then bm else am)"
      using none(1) ga gb family_sat(1) [OF ga] family_sat(1) [OF gb]
      by (auto simp: meet_ok_def simp del: bound_good.simps boundFamily.simps)
    then show ?thesis unfolding b none(2) by (rule meet_ok_with_optional)
  next
    case num
    then show ?thesis unfolding b num(4) using meet_ok_numeric [OF _ ga gb] meet_ok_with_optional by blast
  next
    case enum
    then show ?thesis unfolding b enum(4) using meet_ok_enum [OF _ ga gb] meet_ok_with_optional by blast
  next
    case nested
    have "has_key am ''nested''" using nested(1) by (auto split: if_splits)
    then show ?thesis unfolding b nested(4)
      using meet_ok_nested [OF nested(3) ga gb nested(1,2)] IH meet_ok_with_optional by blast
  qed
qed auto

interpretation bound_meeting: meeting
  "\<lambda>a b. case boundMeet a b of Inl e \<Rightarrow> Inl e | Inr m \<Rightarrow> Inr (JObj m)"
  bound_good
  "\<lambda>b v. canon_ok v \<and> rejectNonFinite v = None \<and> boundSubset v b = None"
proof unfold_locales
  fix a b m v
  assume g: "bound_good a" "bound_good b"
    and "(case boundMeet a b of Inl e \<Rightarrow> Inl e | Inr m \<Rightarrow> Inr (JObj m)) = Inr m"
  then obtain r where r: "boundMeet a b = Inr r" "m = JObj r" by (auto split: sum.splits)
  note ok = boundMeet_ok [OF g r(1), unfolded meet_ok_def]
  then show "bound_good m" using r by blast
  assume "canon_ok v \<and> rejectNonFinite v = None \<and> boundSubset v m = None"
  with ok r(2) show "(canon_ok v \<and> rejectNonFinite v = None \<and> boundSubset v a = None) \<and>
      canon_ok v \<and> rejectNonFinite v = None \<and> boundSubset v b = None" by blast
qed

end
