(* ===== verification/Grants.thy ===== *)
theory Grants
  imports Capability_Id Bound_Meet
begin

text \<open>
  Grants and operations (\<open>semantics/semantics.go\<close>, \<open>semantics/parambounds.go\<close>): entailment of an
  operation by a grant, containment of a child grant in a parent grant, and the intersection of
  several grants. A result struct \<open>{ok bool; Reason string}\<close> is an \<open>error option\<close>: \<open>None\<close> is
  success. A nil \<open>Params\<close> is \<open>None\<close>; a nil \<open>ParamBounds\<close> and an empty one are both \<open>[]\<close>, since every
  use tests its length, ranges over it or looks a key up.
\<close>

record Grant =
  gID :: string
  gParams :: "obj option"
  gParamBounds :: obj
  gConstraints :: "string list"

record Operation =
  oID :: string
  oParams :: "obj option"

text \<open>A nil map behaves as the empty map under \<open>range\<close>, \<open>len\<close> and lookup.\<close>

definition entries :: "obj option \<Rightarrow> obj" where
  "entries p = (case p of None \<Rightarrow> [] | Some m \<Rightarrow> m)"

lemma entries_simps [simp]: "entries None = []" "entries (Some m) = m"
  by (simp_all add: entries_def)

definition opt_check :: "(obj \<Rightarrow> error option) \<Rightarrow> obj option \<Rightarrow> error option" where
  "opt_check f p = (case p of None \<Rightarrow> None | Some m \<Rightarrow> f m)"

definition check_bounds :: "obj \<Rightarrow> obj option \<Rightarrow> error option" where
  "check_bounds bounds params =
     (if bounds = [] then None else ValidateParamBounds bounds (entries params))"

subsection \<open>Entailment\<close>

definition Entails :: "Grant \<Rightarrow> Operation \<Rightarrow> error option" where
  "Entails grant op =
     (let hasParams = (entries (gParams grant) \<noteq> []); hasBounds = (gParamBounds grant \<noteq> [])
      in seq_err [
        ValidateCapabilityID (gID grant),
        ValidateCapabilityID (oID op),
        fail_if (scheme_of (gID grant) \<noteq> scheme_of (oID op)) (Err ErrDifferentNamespace),
        matchID (gID grant) (oID op),
        if \<not> hasParams \<and> \<not> hasBounds then None
        else seq_err [
          check_bounds (gParamBounds grant) (gParams grant),
          if hasParams then ValidateGrantParams (entries (gParams grant)) else None,
          opt_check ValidateOperationParams (oParams op),
          entailsDeclared (entries (oParams op)) (entries (gParams grant)) (gParamBounds grant)]])"

subsection \<open>Containment\<close>

definition grant_error :: "Grant \<Rightarrow> error option" where
  "grant_error g =
     seq_err [
       ValidateCapabilityID (gID g),
       opt_check ValidateGrantParams (gParams g),
       check_bounds (gParamBounds g) (gParams g)]"

text \<open>Layer 2: every coverage failure but a different namespace becomes \<open>child_exceeds_parent\<close>.\<close>

definition coverage_error :: "string \<Rightarrow> string \<Rightarrow> error option" where
  "coverage_error parentID childID =
     (case matchID parentID childID of
        None \<Rightarrow> None
      | Some e \<Rightarrow> if e = Err ErrDifferentNamespace then Some e else Some (Err ErrChildExceedsParent))"

text \<open>Layer 3 for one representation: the parent's keys within, and no key beyond them.\<close>

definition keys_within :: "(json \<Rightarrow> json \<Rightarrow> error option) \<Rightarrow> obj \<Rightarrow> obj \<Rightarrow> error option" where
  "keys_within narrow parent child =
     first_err (\<lambda>x. case map_of child (fst x) of
                      None \<Rightarrow> Some not_narrower
                    | Some cv \<Rightarrow> fail_if (narrow cv (snd x) \<noteq> None) not_narrower) parent"

definition keys_closed :: "obj \<Rightarrow> obj \<Rightarrow> error option" where
  "keys_closed parent child =
     first_err (\<lambda>x. fail_if (\<not> has_key parent (fst x)) not_narrower) child"

definition Contains :: "Grant \<Rightarrow> Grant \<Rightarrow> error option" where
  "Contains parent child =
     (let pp = entries (gParams parent); cp = entries (gParams child);
          pb = gParamBounds parent; cb = gParamBounds child
      in seq_err [
        first_err grant_error [parent, child],
        coverage_error (gID parent) (gID child),
        if pp = [] \<and> pb = [] then None
        else if cp = [] \<and> cb = [] then Some not_narrower
        else seq_err [
          keys_within containsWithin pp cp,
          keys_within boundWithin pb cb,
          keys_closed pp cp,
          keys_closed pb cb]])"

subsection \<open>Intersection\<close>

fun intersectValue :: "json \<Rightarrow> json \<Rightarrow> error + json" where
  "intersectValue (JNum av) b =
     (case b of
        JNum bv \<Rightarrow> Inr (JNum (if f64_less av bv then av else bv))
      | _ \<Rightarrow> Inl (Err ErrNoOverlap))"
| "intersectValue (JArr av) b =
     (case b of
        JArr bv \<Rightarrow>
          if enum_inter av bv = [] then Inl (Err ErrNoOverlap) else Inr (JArr (enum_inter av bv))
      | _ \<Rightarrow> Inl (Err ErrNoOverlap))"
| "intersectValue (JObj av) b =
     (case b of
        JObj bv \<Rightarrow>
          if length av \<noteq> length bv then Inl (Err ErrNoOverlap)
          else
            (case map_err (\<lambda>x. case map_of bv (fst x) of
                                 None \<Rightarrow> Inl (Err ErrNoOverlap)
                               | Some bvv \<Rightarrow>
                                   (case intersectValue (snd x) bvv of
                                      Inl e \<Rightarrow> Inl e
                                    | Inr v \<Rightarrow> Inr (fst x, v))) av of
               Inl e \<Rightarrow> Inl e
             | Inr res \<Rightarrow> if res = [] then Inl (Err ErrNoOverlap) else Inr (JObj res))
      | _ \<Rightarrow> Inl (Err ErrNoOverlap))"
| "intersectValue a b = (if enumEqual a b then Inr a else Inl (Err ErrNoOverlap))"

text \<open>The two map merges: a key on both sides is combined by \<open>f\<close>, any other key is kept.\<close>

definition merge_maps :: "(json \<Rightarrow> json \<Rightarrow> error + json) \<Rightarrow> obj \<Rightarrow> obj \<Rightarrow> error + obj" where
  "merge_maps f a b =
     (case map_err (\<lambda>x. case map_of b (fst x) of
                          None \<Rightarrow> Inr x
                        | Some bv \<Rightarrow>
                            (case f (snd x) bv of Inl e \<Rightarrow> Inl e | Inr v \<Rightarrow> Inr (fst x, v))) a of
        Inl e \<Rightarrow> Inl e
      | Inr res \<Rightarrow> Inr (res @ filter (\<lambda>x. \<not> has_key a (fst x)) b))"

definition intersect_params :: "obj option \<Rightarrow> obj option \<Rightarrow> error + obj option" where
  "intersect_params a b =
     (case (a, b) of
        (Some am, Some bm) \<Rightarrow>
          (case merge_maps intersectValue am bm of Inl e \<Rightarrow> Inl e | Inr m \<Rightarrow> Inr (Some m))
      | (_, None) \<Rightarrow> Inr a
      | (None, Some bm) \<Rightarrow> Inr (Some bm))"

definition mergeConstraints :: "string list \<Rightarrow> string list \<Rightarrow> string list" where
  "mergeConstraints a b = sorted_set (a @ b)"

definition bare :: "string \<Rightarrow> Grant" where
  "bare cid = \<lparr>gID = cid, gParams = None, gParamBounds = [], gConstraints = []\<rparr>"

definition bare_op :: "string \<Rightarrow> Operation" where
  "bare_op cid = \<lparr>oID = cid, oParams = None\<rparr>"

text \<open>The narrower of two identifiers, if one covers the other.\<close>

definition narrower_id :: "string \<Rightarrow> string \<Rightarrow> error + string" where
  "narrower_id a b =
     (if a = b then Inr a
      else if Entails (bare a) (bare_op b) = None then Inr b
      else if Entails (bare b) (bare_op a) \<noteq> None then Inl (Err ErrNoOverlap)
      else Inr a)"

definition intersect_step :: "Grant \<Rightarrow> Grant \<Rightarrow> error + Grant" where
  "intersect_step result g =
     (case narrower_id (gID result) (gID g) of
        Inl e \<Rightarrow> Inl e
      | Inr cid \<Rightarrow>
          (case intersect_params (gParams result) (gParams g) of
             Inl e \<Rightarrow> Inl e
           | Inr params \<Rightarrow>
               (case intersectBounds (gParamBounds result) (gParamBounds g) of
                  Inl e \<Rightarrow> Inl e
                | Inr bounds \<Rightarrow>
                    Inr \<lparr>gID = cid, gParams = params, gParamBounds = bounds,
                         gConstraints = mergeConstraints (gConstraints result) (gConstraints g)\<rparr>)))"

fun intersect_loop :: "Grant \<Rightarrow> Grant list \<Rightarrow> error + Grant" where
  "intersect_loop result [] = Inr result"
| "intersect_loop result (g # gs) =
     (case intersect_step result g of Inl e \<Rightarrow> Inl e | Inr r \<Rightarrow> intersect_loop r gs)"

definition source_error :: "Grant \<Rightarrow> error option" where
  "source_error g =
     seq_err [
       opt_check ValidateGrantParams (gParams g),
       check_bounds (gParamBounds g) (gParams g)]"

definition Intersect :: "Grant list \<Rightarrow> error + Grant" where
  "Intersect grants =
     (let paramsKeys = concat (map (\<lambda>g. gokeys (entries (gParams g))) grants);
          boundsKeys = concat (map (\<lambda>g. gokeys (gParamBounds g)) grants)
      in if grants = [] then Inl (Err ErrAbsentSource)
         else
           case seq_err [
             first_err (\<lambda>g. seq_err [
                 fail_if (hasEmptyBound (entries (gParams g))) (Err ErrEmptyBoundDenies),
                 fail_if (boundsDenyClass (gParamBounds g)) (Err ErrEmptyBoundDenies)]) grants,
             first_err (\<lambda>k. fail_if (k \<in> set paramsKeys) (Err ErrInvalidParamsBinding)) boundsKeys,
             first_err source_error grants] of
             Some e \<Rightarrow> Inl e
           | None \<Rightarrow> intersect_loop (hd grants) (tl grants))"

subsection \<open>Scheme defaults\<close>

definition grantDeclaredKeys :: "Grant \<Rightarrow> string list" where
  "grantDeclaredKeys g = gokeys (entries (gParams g)) @ gokeys (gParamBounds g)"

definition injected_defaults :: "Grant \<Rightarrow> Operation \<Rightarrow> obj \<Rightarrow> obj" where
  "injected_defaults grant op defaults =
     filter (\<lambda>x. fst x \<in> set (grantDeclaredKeys grant) \<and> \<not> has_key (entries (oParams op)) (fst x)) defaults"

definition MaterializeDefaults :: "Grant \<Rightarrow> Operation \<Rightarrow> obj \<Rightarrow> Operation" where
  "MaterializeDefaults grant op defaults =
     (if defaults = [] \<or> injected_defaults grant op defaults = [] then op
      else \<lparr>oID = oID op, oParams = Some (entries (oParams op) @ injected_defaults grant op defaults)\<rparr>)"

end
