(* ===== verification/Go_Json.thy ===== *)
theory Go_Json
  imports Go_Value Go_Strconv
begin

text \<open>
  JSON text as \<open>encoding/json\<close> reads it: the tokens of a text (a lexical error is the last token
  \<open>TErr\<close>, so that a consumer that stops earlier does not see it), the value a complete text
  denotes, and \<open>strings.TrimSpace\<close>. Strings are decoded as the package does: escapes are resolved,
  a surrogate pair is one character, a lone surrogate or an invalid byte becomes U+FFFD.
\<close>

subsection \<open>White space\<close>

definition unicode_space :: "int \<Rightarrow> bool" where
  "unicode_space r \<longleftrightarrow>
     byte_in 9 13 r \<or> r = 32 \<or> r = 133 \<or> r = 160 \<or> r = 5760 \<or> byte_in 8192 8202 r \<or> r = 8232 \<or> r = 8233
     \<or> r = 8239 \<or> r = 8287 \<or> r = 12288"

text \<open>\<open>strings.TrimSpace\<close>: drop white-space characters at both ends, counted in bytes.\<close>

definition trim_space :: "string \<Rightarrow> string" where
  "trim_space s =
     (let rs = runes (bytes s);
          width = (\<lambda>xs. sum_list (map snd xs));
          lead = width (takeWhile (\<lambda>x. unicode_space (fst x)) rs);
          trail = width (takeWhile (\<lambda>x. unicode_space (fst x)) (rev rs))
      in drop lead (take (length s - trail) s))"

subsection \<open>Strings\<close>

definition hex_val :: "char \<Rightarrow> int option" where
  "hex_val c =
     (let n = (of_char c :: int)
      in if byte_in 48 57 n then Some (n - 48)
         else if byte_in 97 102 n then Some (n - 87)
         else if byte_in 65 70 n then Some (n - 55)
         else None)"

text \<open>Four hexadecimal digits at the start of a string.\<close>

definition hex4 :: "string \<Rightarrow> int option" where
  "hex4 s =
     (case s of
        a # b # c # d # _ \<Rightarrow>
          (case (hex_val a, hex_val b, hex_val c, hex_val d) of
             (Some x, Some y, Some z, Some w) \<Rightarrow> Some (((x * 16 + y) * 16 + z) * 16 + w)
           | _ \<Rightarrow> None)
      | _ \<Rightarrow> None)"

definition utf8_enc :: "int \<Rightarrow> string" where
  "utf8_enc r =
     map char_of
       (if r < 128 then [r]
        else if r < 2048 then [192 + r div 64, 128 + r mod 64]
        else if r < 65536 then [224 + r div 4096, 128 + r div 64 mod 64, 128 + r mod 64]
        else [240 + r div 262144, 128 + r div 4096 mod 64, 128 + r div 64 mod 64, 128 + r mod 64])"

abbreviation high_surrogate :: "int \<Rightarrow> bool" where
  "high_surrogate \<equiv> byte_in 55296 56319"

abbreviation low_surrogate :: "int \<Rightarrow> bool" where
  "low_surrogate \<equiv> byte_in 56320 57343"

definition simple_escape :: "char \<Rightarrow> char option" where
  "simple_escape c =
     (if c = CHR 0x22 \<or> c = CHR 0x5C \<or> c = CHR ''/'' then Some c
      else if c = CHR ''b'' then Some (CHR 0x08)
      else if c = CHR ''f'' then Some (CHR 0x0C)
      else if c = CHR ''n'' then Some (CHR 0x0A)
      else if c = CHR ''r'' then Some (CHR 0x0D)
      else if c = CHR ''t'' then Some (CHR 0x09)
      else None)"

definition prepend :: "string \<Rightarrow> (string \<times> string) option \<Rightarrow> (string \<times> string) option" where
  "prepend p r = map_option (\<lambda>(s, rest). (p @ s, rest)) r"

text \<open>
  One element of a string literal: what it stands for and how many bytes it takes; \<open>None\<close> for a
  malformed one.
\<close>

definition lex_escape :: "string \<Rightarrow> (string \<times> nat) option" where
  "lex_escape es =
     (case es of
        [] \<Rightarrow> None
      | e # rest \<Rightarrow>
          if e = CHR ''u'' then
            (case hex4 rest of
               None \<Rightarrow> None
             | Some r \<Rightarrow>
                 if high_surrogate r \<or> low_surrogate r then
                   (case drop 4 rest of
                      b # u # rest2 \<Rightarrow>
                        (case hex4 rest2 of
                           Some r1 \<Rightarrow>
                             if b = CHR 0x5C \<and> u = CHR ''u'' \<and> high_surrogate r \<and> low_surrogate r1 then
                               Some (utf8_enc ((r - 55296) * 1024 + (r1 - 56320) + 65536), 12)
                             else Some (utf8_enc rune_error, 6)
                         | None \<Rightarrow> Some (utf8_enc rune_error, 6))
                    | _ \<Rightarrow> Some (utf8_enc rune_error, 6))
                 else Some (utf8_enc r, 6))
          else map_option (\<lambda>c. ([c], 2)) (simple_escape e))"

definition lex_elem :: "char \<Rightarrow> string \<Rightarrow> (string \<times> nat) option" where
  "lex_elem c cs =
     (if c = CHR 0x5C then lex_escape cs
      else if (of_char c :: int) < 32 then None
      else if (of_char c :: int) < 128 then Some ([c], 1)
      else let (r, w) = decode_rune (bytes (c # cs)) in Some (utf8_enc r, w))"

lemma lex_elem_width: "lex_elem c cs = Some (s, w) \<Longrightarrow> 1 \<le> w"
  using decode_rune_width [of "bytes (c # cs)"]
  by (auto simp: lex_elem_def lex_escape_def bytes_def split: if_splits option.splits list.splits prod.splits)

text \<open>The rest of a string literal after its opening quote.\<close>

function lex_string :: "string \<Rightarrow> (string \<times> string) option" where
  "lex_string [] = None"
| "lex_string (c # cs) =
     (if c = CHR 0x22 then Some ([], cs)
      else
        case lex_elem c cs of
          None \<Rightarrow> None
        | Some (s, w) \<Rightarrow> prepend s (lex_string (drop w (c # cs))))"
  by pat_completeness auto
termination
  by (relation "measure length") (auto dest: lex_elem_width)

lemma lex_string_shorter: "lex_string s = Some (t, rest) \<Longrightarrow> length rest < length s"
proof (induction s arbitrary: t rest rule: lex_string.induct)
  case (2 c cs)
  show ?case
  proof (cases "c = CHR 0x22")
    case False
    with 2(2) obtain e w t' where e: "lex_elem c cs = Some (e, w)"
      and r: "lex_string (drop w (c # cs)) = Some (t', rest)"
      by (auto simp: prepend_def split: option.splits)
    show ?thesis using 2(1) [OF False e refl r] by simp
  qed (use 2(2) in auto)
qed simp

subsection \<open>Number literals\<close>

definition digits1 :: "string \<Rightarrow> (string \<times> string) option" where
  "digits1 s =
     (let ds = takeWhile is_digit s in if ds = [] then None else Some (ds, drop (length ds) s))"

definition lex_frac :: "string \<Rightarrow> (string \<times> string) option" where
  "lex_frac s =
     (case s of
        c # cs \<Rightarrow> if c = CHR ''.'' then prepend ''.'' (digits1 cs) else Some ([], s)
      | [] \<Rightarrow> Some ([], s))"

definition lex_exp :: "string \<Rightarrow> (string \<times> string) option" where
  "lex_exp s =
     (case s of
        c # cs \<Rightarrow>
          if is_exp_mark c then
            (case cs of
               d # ds \<Rightarrow>
                 if d = CHR ''+'' \<or> d = CHR ''-'' then prepend [c, d] (digits1 ds)
                 else prepend [c] (digits1 cs)
             | [] \<Rightarrow> None)
          else Some ([], s)
      | [] \<Rightarrow> Some ([], s))"

definition lex_int :: "string \<Rightarrow> (string \<times> string) option" where
  "lex_int s =
     (case s of
        c # cs \<Rightarrow> if c = CHR ''0'' then Some ([c], cs) else digits1 s
      | [] \<Rightarrow> None)"

definition lex_number :: "string \<Rightarrow> (string \<times> string) option" where
  "lex_number s =
     (let (sign, body) = (case s of c # cs \<Rightarrow> if c = CHR ''-'' then ([c], cs) else ([], s) | [] \<Rightarrow> ([], s))
      in case lex_int body of
           None \<Rightarrow> None
         | Some (ip, r1) \<Rightarrow>
             (case lex_frac r1 of
                None \<Rightarrow> None
              | Some (fp, r2) \<Rightarrow>
                  (case lex_exp r2 of
                     None \<Rightarrow> None
                   | Some (ep, r3) \<Rightarrow> Some (sign @ ip @ fp @ ep, r3))))"

subsection \<open>Tokens\<close>

datatype jtok =
    TLBrack | TRBrack | TLBrace | TRBrace | TColon | TComma
  | TTrue | TFalse | TNull | TStr string | TNum string | TErr

definition json_space :: "char \<Rightarrow> bool" where
  "json_space c \<longleftrightarrow> c = CHR '' '' \<or> c = CHR 0x09 \<or> c = CHR 0x0A \<or> c = CHR 0x0D"

definition punct :: "char \<Rightarrow> jtok option" where
  "punct c =
     (if c = CHR ''['' then Some TLBrack else if c = CHR '']'' then Some TRBrack
      else if c = CHR ''{'' then Some TLBrace else if c = CHR ''}'' then Some TRBrace
      else if c = CHR '':'' then Some TColon else if c = CHR '','' then Some TComma else None)"

definition word :: "string \<Rightarrow> (jtok \<times> nat) option" where
  "word s =
     (if prefix ''true'' s then Some (TTrue, 4)
      else if prefix ''false'' s then Some (TFalse, 5)
      else if prefix ''null'' s then Some (TNull, 4)
      else None)"

text \<open>The next token and the rest of the text.\<close>

definition next_token :: "char \<Rightarrow> string \<Rightarrow> (jtok \<times> string) option" where
  "next_token c cs =
     (case punct c of
        Some t \<Rightarrow> Some (t, cs)
      | None \<Rightarrow>
          if c = CHR 0x22 then map_option (\<lambda>(s, rest). (TStr s, rest)) (lex_string cs)
          else
            case word (c # cs) of
              Some (t, n) \<Rightarrow> Some (t, drop n (c # cs))
            | None \<Rightarrow> map_option (\<lambda>(l, rest). (TNum l, rest)) (lex_number (c # cs)))"

text \<open>
  The recursion ends because every token takes at least one byte; the test of the length makes the
  termination evident and never fails.
\<close>

function tokens :: "string \<Rightarrow> jtok list" where
  "tokens [] = []"
| "tokens (c # cs) =
     (if json_space c then tokens cs
      else
        case next_token c cs of
          None \<Rightarrow> [TErr]
        | Some (t, rest) \<Rightarrow> if length rest < length (c # cs) then t # tokens rest else [TErr])"
  by pat_completeness auto
termination
  by (relation "measure length") auto

subsection \<open>Values\<close>

text \<open>A syntax tree: the members of an object in the order of the text, repeated names included.\<close>

datatype jtext =
    XNull | XBool bool | XStr string | XNum string
  | XArr "jtext list" | XObj "(string \<times> jtext) list"

function (sequential) parse_value :: "jtok list \<Rightarrow> (jtext \<times> jtok list) option"
  and parse_elems :: "jtok list \<Rightarrow> (jtext list \<times> jtok list) option"
  and parse_members :: "jtok list \<Rightarrow> ((string \<times> jtext) list \<times> jtok list) option" where
  "parse_value (TNull # ts) = Some (XNull, ts)"
| "parse_value (TTrue # ts) = Some (XBool True, ts)"
| "parse_value (TFalse # ts) = Some (XBool False, ts)"
| "parse_value (TStr s # ts) = Some (XStr s, ts)"
| "parse_value (TNum l # ts) = Some (XNum l, ts)"
| "parse_value (TLBrack # TRBrack # ts) = Some (XArr [], ts)"
| "parse_value (TLBrack # ts) = map_option (\<lambda>(xs, rest). (XArr xs, rest)) (parse_elems ts)"
| "parse_value (TLBrace # TRBrace # ts) = Some (XObj [], ts)"
| "parse_value (TLBrace # ts) = map_option (\<lambda>(xs, rest). (XObj xs, rest)) (parse_members ts)"
| "parse_value _ = None"
| "parse_elems ts =
     (case parse_value ts of
        Some (v, TRBrack # rest) \<Rightarrow> Some ([v], rest)
      | Some (v, TComma # rest) \<Rightarrow>
          if length rest < length ts then map_option (\<lambda>(xs, r). (v # xs, r)) (parse_elems rest) else None
      | _ \<Rightarrow> None)"
| "parse_members (TStr k # TColon # ts) =
     (case parse_value ts of
        Some (v, TRBrace # rest) \<Rightarrow> Some ([(k, v)], rest)
      | Some (v, TComma # rest) \<Rightarrow>
          if length rest < length ts then map_option (\<lambda>(xs, r). ((k, v) # xs, r)) (parse_members rest)
          else None
      | _ \<Rightarrow> None)"
| "parse_members _ = None"
  by pat_completeness auto
termination
  by (relation "measure (case_sum (\<lambda>ts. 2 * length ts)
        (case_sum (\<lambda>ts. 2 * length ts + 1) (\<lambda>ts. 2 * length ts)))") auto

definition parse_json :: "string \<Rightarrow> jtext option" where
  "parse_json s = (case parse_value (tokens s) of Some (v, []) \<Rightarrow> Some v | _ \<Rightarrow> None)"

text \<open>
  \<open>json.Unmarshal\<close> into an \<open>any\<close>: numbers become \<open>float64\<close> (a literal out of range is an error), and of
  repeated names the last wins.
\<close>

fun last_wins :: "(string \<times> 'v) list \<Rightarrow> 'v gomap" where
  "last_wins [] = []"
| "last_wins ((k, v) # xs) = (if k \<in> set (map fst xs) then last_wins xs else (k, v) # last_wins xs)"

fun decode_text :: "jtext \<Rightarrow> json option" where
  "decode_text XNull = Some JNull"
| "decode_text (XBool b) = Some (JBool b)"
| "decode_text (XStr s) = Some (JStr s)"
| "decode_text (XNum l) =
     (case parse_float l of Some (Fin r) \<Rightarrow> Some (JNum (Fin r)) | _ \<Rightarrow> None)"
| "decode_text (XArr xs) = map_option JArr (those (map decode_text xs))"
| "decode_text (XObj ms) =
     map_option (\<lambda>vs. JObj (last_wins (zip (map fst ms) vs))) (those (map (\<lambda>x. decode_text (snd x)) ms))"

text \<open>JSON texts written out: strings without escapes and objects of such members, and how they are read back.\<close>

definition plain_text :: "string \<Rightarrow> bool" where
  "plain_text s = list_all (\<lambda>c. 32 \<le> (of_char c :: int) \<and> (of_char c :: int) < 128 \<and> c \<noteq> CHR 0x22 \<and> c \<noteq> CHR 0x5C) s"

definition quoted :: "string \<Rightarrow> string" where
  "quoted s = CHR 0x22 # s @ [CHR 0x22]"

definition object_text :: "(string \<times> string) list \<Rightarrow> string" where
  "object_text ms = ''{'' @ join_with '','' (map (\<lambda>(k, v). quoted k @ '':'' @ v) ms) @ ''}''"

lemma lex_string_plain: "plain_text s \<Longrightarrow> lex_string (s @ CHR 0x22 # rest) = Some (s, rest)"
  by (induction s) (simp_all add: plain_text_def lex_elem_def prepend_def)

lemma tokens_quoted: "plain_text s \<Longrightarrow> tokens (quoted s @ rest) = TStr s # tokens rest"
  by (simp add: quoted_def json_space_def next_token_def punct_def lex_string_plain)

lemma parse_quoted: "plain_text s \<Longrightarrow> parse_json (quoted s) = Some (XStr s)"
  using tokens_quoted [of s "[]"] by (simp add: parse_json_def)

text \<open>
  \<open>strconv.ParseFloat(s, 64)\<close> on every text: the special values, decimal and hexadecimal floating-point
  literals, with underscores between digits. \<open>None\<close> is the syntax or the range error.
\<close>

definition lower_char :: "char \<Rightarrow> char" where
  "lower_char c = (if is_upper c then char_of ((of_char c :: nat) + 32) else c)"

definition special_float :: "string \<Rightarrow> f64 option" where
  "special_float s =
     (let (neg, body) = unsigned s; l = map lower_char body
      in if l = ''inf'' \<or> l = ''infinity'' then Some (Inf neg)
         else if map lower_char s = ''nan'' then Some NaN
         else None)"

text \<open>
  The underscore rule: the character before is a digit or a base prefix (0), an underscore (1) or something
  else (2); an underscore must follow a digit and be followed by one.
\<close>

fun underscores_ok :: "(char \<Rightarrow> bool) \<Rightarrow> nat \<Rightarrow> string \<Rightarrow> bool" where
  "underscores_ok digit seen [] = (seen \<noteq> 1)"
| "underscores_ok digit seen (c # cs) =
     (if digit c then underscores_ok digit 0 cs
      else if c = CHR ''_'' then seen = 0 \<and> underscores_ok digit 1 cs
      else seen \<noteq> 1 \<and> underscores_ok digit 2 cs)"

definition hex_char :: "char \<Rightarrow> bool" where
  "hex_char c \<longleftrightarrow> hex_val c \<noteq> None"

definition hex_digits_val :: "string \<Rightarrow> int" where
  "hex_digits_val s = foldl (\<lambda>n c. 16 * n + (case hex_val c of Some d \<Rightarrow> d | None \<Rightarrow> 0)) 0 s"

text \<open>Mantissa digits around an optional point, then an optional (hexadecimal: mandatory) exponent.\<close>

definition float_text :: "(char \<Rightarrow> bool) \<Rightarrow> (string \<Rightarrow> int) \<Rightarrow> (char \<Rightarrow> bool) \<Rightarrow> bool \<Rightarrow> int \<Rightarrow> int \<Rightarrow> string \<Rightarrow> rat option" where
  "float_text digit val mark needs_exp point_base exp_base s =
     (let ip = takeWhile digit s; r1 = dropWhile digit s;
          (fp, r2) = (case r1 of
                        c # cs \<Rightarrow> if c = CHR ''.'' then (takeWhile digit cs, dropWhile digit cs) else ([], r1)
                      | [] \<Rightarrow> ([], []));
          m = of_int (val (ip @ fp)) * pow_int (of_int point_base) (- int (length fp))
      in if ip @ fp = [] then None
         else
           case r2 of
             [] \<Rightarrow> if needs_exp then None else Some m
           | c # cs \<Rightarrow>
               if \<not> mark c then None
               else
                 (let (neg, ds) = unsigned cs
                  in if all_digits ds
                     then Some (m * pow_int (of_int exp_base) (if neg then - digits_val ds else digits_val ds))
                     else None))"

definition ParseFloat :: "string \<Rightarrow> f64 option" where
  "ParseFloat s =
     (case special_float s of
        Some f \<Rightarrow> Some f
      | None \<Rightarrow>
          (let (neg, body) = unsigned s;
               hex = (case body of z # x # _ \<Rightarrow> z = CHR ''0'' \<and> lower_char x = CHR ''x'' | _ \<Rightarrow> False);
               rest = (if hex then drop 2 body else body);
               ok = (if hex then underscores_ok hex_char 0 rest else underscores_ok is_digit 2 rest);
               plain = filter (\<lambda>c. c \<noteq> CHR ''_'') rest;
               r = (if hex then float_text hex_char hex_digits_val (\<lambda>c. lower_char c = CHR ''p'') True 16 2 plain
                    else float_text is_digit digits_val is_exp_mark False 10 10 plain)
           in if \<not> ok then None
              else
                case r of
                  None \<Rightarrow> None
                | Some v \<Rightarrow>
                    (case round_f64 (if neg then - v else v) of
                       Fin a \<Rightarrow> Some (Fin a)
                     | _ \<Rightarrow> None)))"

end
