(* ===== verification/Constraints.thy ===== *)
theory Constraints
  imports Grants Go_Json
begin

text \<open>
  Constraints (\<open>semantics/semantics.go\<close>): the identities the core recognises, the value grammar of
  \<open>max_rows\<close>, \<open>time\<close> and \<open>network\<close>, and the evaluation of \<open>max_rows\<close> against an operation.
\<close>

subsection \<open>Identities\<close>

definition reservedScheme :: string where
  "reservedScheme = ''varwof/constraint-v1''"

definition reservedMaxRows :: string where
  "reservedMaxRows = reservedScheme @ '':max_rows''"

definition reservedTimeWin :: string where
  "reservedTimeWin = reservedScheme @ '':time''"

definition reservedNetCIDR :: string where
  "reservedNetCIDR = reservedScheme @ '':network''"

definition recognizedConstraintIdentities :: "string list" where
  "recognizedConstraintIdentities = [reservedMaxRows, reservedTimeWin, reservedNetCIDR]"

text \<open>\<open>parts[0] + ":" + parts[1]\<close> of a constraint with at least two parts.\<close>

definition constraint_identity :: "string list \<Rightarrow> string" where
  "constraint_identity parts = hd parts @ '':'' @ hd (tl parts)"

definition coreEvaluatesConstraint :: "string \<Rightarrow> bool" where
  "coreEvaluatesConstraint c =
     (let parts = split_on (CHR '':'') c
      in 2 \<le> length parts \<and> hd parts = reservedScheme
         \<and> constraint_identity parts \<in> set recognizedConstraintIdentities
         \<and> hd (tl parts) = ''max_rows'')"

definition constraintParams :: "string \<Rightarrow> string" where
  "constraintParams c =
     (let parts = split_on (CHR '':'') c
      in if length parts < 3 then [] else join_with '':'' (drop 2 parts))"

subsection \<open>Numbers\<close>

definition isStrictJSONInteger :: "string \<Rightarrow> bool" where
  "isStrictJSONInteger s \<longleftrightarrow>
     s \<noteq> [] \<and> \<not> (1 < length s \<and> hd s = CHR ''0'') \<and> list_all is_digit s"

definition exceedsIJSONIntegerBound :: "string \<Rightarrow> bool" where
  "exceedsIJSONIntegerBound l =
     (case lit_rat l of
        None \<Rightarrow> False
      | Some r \<Rightarrow> integral r \<and> of_int ijsonMaxInteger < \<bar>r\<bar>)"

subsection \<open>Time windows\<close>

definition maxTimeWindows :: nat where
  "maxTimeWindows = 32"

text \<open>\<open>^([01]?[0-9]|2[0-3]):[0-5][0-9](:[0-5][0-9])?$\<close>\<close>

definition timeOfDayRE :: rx where
  "timeOfDayRE =
     (let d = Cls is_digit;
          d05 = Cls (in_range (CHR ''0'') (CHR ''5''));
          sixty = seqs [d05, d]
      in seqs [Alt (Seq (opt (Cls (in_range (CHR ''0'') (CHR ''1'')))) d)
                   (Seq (lit (CHR ''2'')) (Cls (in_range (CHR ''0'') (CHR ''3'')))),
               lit (CHR '':''), sixty, opt (Seq (lit (CHR '':'')) sixty)])"

definition secondsOfDay :: "string \<Rightarrow> int" where
  "secondsOfDay t =
     (case split_on (CHR '':'') t of
        [h, m, s] \<Rightarrow> digits_val h * 3600 + digits_val m * 60 + digits_val s
      | h # m # _ \<Rightarrow> digits_val h * 3600 + digits_val m * 60
      | _ \<Rightarrow> 0)"

text \<open>\<open>json.Unmarshal\<close> of one member into a Go string: null leaves it empty.\<close>

fun text_string :: "jtext \<Rightarrow> string option" where
  "text_string (XStr s) = Some s"
| "text_string XNull = Some []"
| "text_string _ = None"

text \<open>One segment as its interval of seconds, \<open>None\<close> where the loop body returns false.\<close>

definition window_segment :: "jtext \<Rightarrow> (int \<times> int) option" where
  "window_segment x =
     (case x of
        XObj ms \<Rightarrow>
          let m = last_wins ms
          in if length m \<noteq> 2 then None
             else
               (case (map_of m ''start'', map_of m ''end'') of
                  (Some sr, Some er) \<Rightarrow>
                    (case (text_string sr, text_string er) of
                       (Some s, Some e) \<Rightarrow>
                         if \<not> rmatch timeOfDayRE s \<or> \<not> rmatch timeOfDayRE e then None
                         else
                           let startSod = secondsOfDay s;
                               endSod = (if e = ''00:00'' then 86400 else secondsOfDay e)
                           in if endSod \<le> startSod then None
                              else if s = ''00:00'' \<and> e = ''00:00'' then None
                              else Some (startSod, endSod)
                     | _ \<Rightarrow> None)
                | _ \<Rightarrow> None)
      | _ \<Rightarrow> None)"

fun windows_ok :: "int \<Rightarrow> jtext list \<Rightarrow> bool" where
  "windows_ok prevEnd [] = True"
| "windows_ok prevEnd (x # xs) =
     (case window_segment x of
        None \<Rightarrow> False
      | Some (s, e) \<Rightarrow> \<not> (0 \<le> prevEnd \<and> s < prevEnd) \<and> windows_ok e xs)"

text \<open>The segments decode as \<open>[]map[string]json.RawMessage\<close>: objects, or null for a nil map.\<close>

fun object_or_null :: "jtext \<Rightarrow> bool" where
  "object_or_null (XObj _) = True"
| "object_or_null XNull = True"
| "object_or_null _ = False"

definition validTimeWindowJSON :: "string \<Rightarrow> bool" where
  "validTimeWindowJSON raw =
     (let trimmed = trim_space raw
      in prefix ''['' trimmed \<and>
         (case parse_json trimmed of
            Some (XArr segs) \<Rightarrow>
              list_all object_or_null segs \<and> segs \<noteq> [] \<and> length segs \<le> maxTimeWindows \<and> windows_ok (- 1) segs
          | _ \<Rightarrow> False))"

subsection \<open>Networks\<close>

definition maxCIDRList :: nat where
  "maxCIDRList = 32"

text \<open>\<open>^([0-9]{1,3}\.){3}[0-9]{1,3}/([0-9]|[12][0-9]|3[0-2])$\<close> and \<open>^[0-9a-fA-F:]+$\<close>\<close>

definition ipv4CIDRRE :: rx where
  "ipv4CIDRRE =
     (let d = Cls is_digit; d13 = seqs [d, opt d, opt d]; dot = lit (CHR ''.'')
      in seqs [d13, dot, d13, dot, d13, dot, d13, lit (CHR ''/''),
               Alt d (Alt (Seq (Cls (in_range (CHR ''1'') (CHR ''2''))) d)
                          (Seq (lit (CHR ''3'')) (Cls (in_range (CHR ''0'') (CHR ''2'')))))])"

definition ipv6ShapeRE :: rx where
  "ipv6ShapeRE =
     plus (Cls (\<lambda>c. is_digit c \<or> in_range (CHR ''a'') (CHR ''f'') c \<or> in_range (CHR ''A'') (CHR ''F'') c
                     \<or> c = CHR '':''))"

definition validIPv4Octets :: "string \<Rightarrow> bool" where
  "validIPv4Octets ip \<longleftrightarrow>
     (\<forall>p \<in> set (split_on (CHR ''.'') ip). case atoi p of Some n \<Rightarrow> 0 \<le> n \<and> n \<le> 255 | None \<Rightarrow> False)"

text \<open>The parts of a string before and after its last slash, \<open>None\<close> without a slash.\<close>

definition split_last :: "char \<Rightarrow> string \<Rightarrow> (string \<times> string) option" where
  "split_last c s =
     (let after = rev (takeWhile (\<lambda>x. x \<noteq> c) (rev s))
      in if c \<in> set s then Some (take (length s - length after - 1) s, after) else None)"

definition validCIDRString :: "string \<Rightarrow> bool" where
  "validCIDRString s =
     (case split_last (CHR ''/'') s of
        None \<Rightarrow> False
      | Some (ipPart, pfx) \<Rightarrow>
          ipPart \<noteq> [] \<and> pfx \<noteq> [] \<and> isStrictJSONInteger pfx \<and>
          (case atoi pfx of
             None \<Rightarrow> False
           | Some bits \<Rightarrow>
               0 \<le> bits \<and> bits \<le> 128 \<and>
               (if contains_sub ipPart '':'' then
                  rmatch ipv6ShapeRE ipPart \<and> \<not> (suffix '':'' ipPart \<and> \<not> suffix ''::'' ipPart)
                else bits \<le> 32 \<and> rmatch ipv4CIDRRE s \<and> validIPv4Octets ipPart)))"

definition validCIDRListJSON :: "string \<Rightarrow> bool" where
  "validCIDRListJSON raw =
     (let trimmed = trim_space raw
      in prefix ''['' trimmed \<and>
         (case parse_json trimmed of
            Some (XArr xs) \<Rightarrow>
              (case those (map text_string xs) of
                 None \<Rightarrow> False
               | Some ss \<Rightarrow> ss \<noteq> [] \<and> length ss \<le> maxCIDRList \<and> list_all validCIDRString ss)
          | _ \<Rightarrow> False))"

subsection \<open>Validation and evaluation\<close>

definition invalid_constraint :: "string \<Rightarrow> error" where
  "invalid_constraint c = Errf ErrInvalidConstraint ''%s'' [c]"

definition ValidateConstraint :: "string \<Rightarrow> error option" where
  "ValidateConstraint c =
     (let parts = split_on (CHR '':'') c; joined = constraintParams c
      in if length parts < 2 then Some (Err ErrUnknownConstraint)
         else if constraint_identity parts \<notin> set recognizedConstraintIdentities then Some (Err ErrUnknownConstraint)
         else if hd (tl parts) = ''max_rows'' then seq_err [
           fail_if (length parts \<noteq> 3 \<or> \<not> isStrictJSONInteger (parts ! 2)) (invalid_constraint c),
           fail_if (exceedsIJSONIntegerBound (parts ! 2)) (invalid_constraint c)]
         else if hd (tl parts) = ''time'' then
           fail_if (\<not> prefix ''window:'' joined \<or> \<not> validTimeWindowJSON (trim_prefix ''window:'' joined))
             (invalid_constraint c)
         else if hd (tl parts) = ''network'' then
           fail_if (\<not> prefix ''cidr:'' joined \<or> \<not> validCIDRListJSON (trim_prefix ''cidr:'' joined))
             (invalid_constraint c)
         else None)"

text \<open>\<open>strconv.Atoi\<close> with its error ignored: out of range it returns the nearest bound.\<close>

definition atoi_sat :: "string \<Rightarrow> int" where
  "atoi_sat s = (case atoi s of Some n \<Rightarrow> n | None \<Rightarrow> 9223372036854775807)"

definition CheckConstraint :: "string \<Rightarrow> Operation \<Rightarrow> error option" where
  "CheckConstraint c op =
     (let parts = split_on (CHR '':'') c; violated = Violated ''max_rows''
      in if length parts < 3 then None
         else if constraint_identity parts \<notin> set recognizedConstraintIdentities then None
         else if hd (tl parts) \<noteq> ''max_rows'' then None
         else if length parts \<noteq> 3 \<or> \<not> isStrictJSONInteger (parts ! 2) then None
         else
           (case map_of (entries (oParams op)) ''max_rows'' of
              None \<Rightarrow> Some violated
            | Some rowsAny \<Rightarrow>
                (case numericValue rowsAny of
                   None \<Rightarrow> Some violated
                 | Some rows \<Rightarrow> seq_err [
                     fail_if (\<not> is_finite rows \<or> \<not> f64_eq rows (f64_trunc rows) \<or> f64_less rows (Fin 0)) violated,
                     fail_if (f64_less (f64_of_int (atoi_sat (parts ! 2))) rows) violated])))"

end
