(* ===== verification/Raw_Params.thy ===== *)
theory Raw_Params
  imports Constraints
begin

text \<open>
  The input boundary on JSON text (\<open>ValidateRawParams\<close> of \<open>semantics/semantics.go\<close> and
  \<open>scanRawUnicodeEscapes\<close> of \<open>semantics/canonical.go\<close>): lone surrogate escapes, size and nesting,
  duplicate keys and number shapes, which a decoded map no longer shows.
\<close>

subsection \<open>Unicode escapes\<close>

definition hex4At :: "string \<Rightarrow> int option" where
  "hex4At s = hex4 s"

datatype raw_err = LoneLow | HighWithoutLow | HighNotFollowed

text \<open>
  The scan inside and outside a string literal. \<open>break_scan\<close> is the early \<open>return nil\<close> on a
  truncated or malformed escape.
\<close>

function scan_escapes :: "bool \<Rightarrow> string \<Rightarrow> raw_err option" where
  "scan_escapes inString [] = None"
| "scan_escapes inString (c # cs) =
     (if \<not> inString then scan_escapes (c = CHR 0x22) cs
      else if c = CHR 0x22 then scan_escapes False cs
      else if c \<noteq> CHR 0x5C then scan_escapes True cs
      else
        case cs of
          [] \<Rightarrow> None
        | e # es \<Rightarrow>
            if e \<noteq> CHR ''u'' then scan_escapes True es
            else
              (case hex4At es of
                 None \<Rightarrow> None
               | Some hi \<Rightarrow>
                   if low_surrogate hi then Some LoneLow
                   else if high_surrogate hi then
                     (let rest = drop 4 es
                      in if length rest < 6 \<or> rest ! 0 \<noteq> CHR 0x5C \<or> rest ! 1 \<noteq> CHR ''u'' then Some HighWithoutLow
                         else
                           (case hex4At (drop 2 rest) of
                              None \<Rightarrow> Some HighNotFollowed
                            | Some lo \<Rightarrow>
                                if \<not> low_surrogate lo then Some HighNotFollowed
                                else scan_escapes True (drop 6 rest)))
                   else scan_escapes True (drop 4 es)))"
  by pat_completeness auto
termination
  by (relation "measure (\<lambda>(b, s). length s)") auto

definition scanRawUnicodeEscapes :: "string \<Rightarrow> raw_err option" where
  "scanRawUnicodeEscapes raw = scan_escapes False raw"

subsection \<open>Numbers\<close>

text \<open>\<open>^-?(0|[1-9][0-9]*)(\.[0-9]+)?([eE][+-]?[0-9]+)?$\<close>\<close>

definition numericLiteralRE :: rx where
  "numericLiteralRE =
     (let d = Cls is_digit
      in seqs [opt (lit (CHR ''-'')),
               Alt (lit (CHR ''0'')) (Seq (Cls (in_range (CHR ''1'') (CHR ''9''))) (Star d)),
               opt (Seq (lit (CHR ''.'')) (plus d)),
               opt (seqs [Cls is_exp_mark, opt (Cls (\<lambda>c. c = CHR ''+'' \<or> c = CHR ''-'')), plus d])])"

definition significantDigits :: "string \<Rightarrow> nat" where
  "significantDigits l =
     (let mant = takeWhile (\<lambda>c. \<not> is_exp_mark c) l;
          body = trim_prefix ''-'' mant;
          (ip, fp) = span (\<lambda>c. c = CHR ''.'') body;
          ds = ip @ drop 1 fp
      in length (trim_right_zeros (dropWhile (\<lambda>c. c = CHR ''0'') ds)))"

definition checkParamsNumber :: "string \<Rightarrow> error option" where
  "checkParamsNumber l =
     seq_err [
       fail_if (\<not> rmatch numericLiteralRE l) (Err ErrInvalidParamsNumber),
       fail_if (case parse_float l of Some f \<Rightarrow> \<not> is_finite f | None \<Rightarrow> True) (Err ErrInvalidParamsNumber),
       fail_if (exceedsIJSONIntegerBound l) (Err ErrInvalidParamsNumber),
       fail_if (17 < significantDigits l) (Err ErrInvalidParamsNumber)]"

subsection \<open>The walk over the tokens\<close>

record walk_state =
  buf :: string
  dupErr :: "error option"
  numErr :: "error option"

definition emit :: "string \<Rightarrow> walk_state \<Rightarrow> walk_state" where
  "emit s st = st\<lparr>buf := buf st @ s\<rparr>"

definition note_dup :: "bool \<Rightarrow> string \<Rightarrow> walk_state \<Rightarrow> walk_state" where
  "note_dup seen k st =
     (if seen \<and> dupErr st = None then st\<lparr>dupErr := Some (Errf ErrInvalidParamsDupKey ''%q'' [k])\<rparr> else st)"

definition walk_number :: "string \<Rightarrow> walk_state \<Rightarrow> walk_state" where
  "walk_number l st =
     (let st1 = (if checkParamsNumber l \<noteq> None \<and> numErr st = None
                 then st\<lparr>numErr := Some (Errf ErrInvalidParamsNumber ''%s'' [l])\<rparr> else st)
      in case parse_float l of
           Some (Fin r) \<Rightarrow> emit (formatCanonicalFloat r) st1
         | _ \<Rightarrow> emit l st1)"

text \<open>
  \<open>walkParamsValue\<close>: \<open>None\<close> in the error is a malformed text, which the caller turns into
  \<open>invalid_params_number\<close>. The tests of the length make the termination evident and never fail.
\<close>

type_synonym walk_result = "error option + walk_state \<times> jtok list"

function (sequential) walkParamsValue :: "int \<Rightarrow> jtok list \<Rightarrow> walk_state \<Rightarrow> walk_result"
  and walk_members :: "int \<Rightarrow> string list \<Rightarrow> bool \<Rightarrow> jtok list \<Rightarrow> walk_state \<Rightarrow> walk_result"
  and walk_elems :: "int \<Rightarrow> bool \<Rightarrow> jtok list \<Rightarrow> walk_state \<Rightarrow> walk_result" where
  "walkParamsValue depth (TLBrace # ts) st =
     (if maxParamsNesting < depth then Inl (Some (Err ErrInvalidParamsSize))
      else walk_members depth [] True ts (emit ''{'' st))"
| "walkParamsValue depth (TLBrack # ts) st =
     (if maxParamsNesting < depth then Inl (Some (Err ErrInvalidParamsSize))
      else walk_elems depth True ts (emit ''['' st))"
| "walkParamsValue depth (TNum l # ts) st = Inr (walk_number l st, ts)"
| "walkParamsValue depth (TStr s # ts) st = Inr (emit (writeCanonicalString s) st, ts)"
| "walkParamsValue depth (TTrue # ts) st = Inr (emit ''true'' st, ts)"
| "walkParamsValue depth (TFalse # ts) st = Inr (emit ''false'' st, ts)"
| "walkParamsValue depth (TNull # ts) st = Inr (emit ''null'' st, ts)"
| "walkParamsValue depth ts st = Inl None"
| "walk_members depth keys isFirst (TRBrace # ts) st = Inr (emit ''}'' st, ts)"
| "walk_members depth keys True (TStr k # TColon # ts) st =
     (case walkParamsValue (depth + 1) ts
             (emit (writeCanonicalString k @ '':'') (note_dup (k \<in> set keys) k st)) of
        Inl e \<Rightarrow> Inl e
      | Inr (st', rest) \<Rightarrow> if length rest < length ts then walk_members depth (k # keys) False rest st' else Inl None)"
| "walk_members depth keys False (TComma # TStr k # TColon # ts) st =
     (case walkParamsValue (depth + 1) ts
             (emit ('','' @ writeCanonicalString k @ '':'') (note_dup (k \<in> set keys) k st)) of
        Inl e \<Rightarrow> Inl e
      | Inr (st', rest) \<Rightarrow> if length rest < length ts then walk_members depth (k # keys) False rest st' else Inl None)"
| "walk_members depth keys isFirst ts st = Inl None"
| "walk_elems depth isFirst (TRBrack # ts) st = Inr (emit '']'' st, ts)"
| "walk_elems depth True (t # ts) st =
     (case walkParamsValue (depth + 1) (t # ts) st of
        Inl e \<Rightarrow> Inl e
      | Inr (st', rest) \<Rightarrow> if length rest < length (t # ts) then walk_elems depth False rest st' else Inl None)"
| "walk_elems depth False (TComma # ts) st =
     (case walkParamsValue (depth + 1) ts (emit '','' st) of
        Inl e \<Rightarrow> Inl e
      | Inr (st', rest) \<Rightarrow> if length rest < length ts then walk_elems depth False rest st' else Inl None)"
| "walk_elems depth isFirst ts st = Inl None"
  by pat_completeness auto
termination
  by (relation "measure (case_sum (\<lambda>(d, ts, st). 2 * length ts)
        (case_sum (\<lambda>(d, ks, f, ts, st). 2 * length ts) (\<lambda>(d, f, ts, st). 2 * length ts + 1)))") auto

definition ValidateRawParams :: "string \<Rightarrow> error option" where
  "ValidateRawParams raw =
     (let trimmed = trim_space raw
      in if scanRawUnicodeEscapes raw \<noteq> None then
           Some (Errf ErrInvalidParamsNumber ''%v'' [''canonical_lone_surrogate''])
         else if \<not> valid_utf8 raw then
           Some (Errf ErrInvalidParamsNumber ''invalid UTF-8 bytes in raw text'' [])
         else if trimmed = [] \<or> \<not> prefix ''{'' trimmed then Some (Err ErrInvalidParamsNumber)
         else
           case walkParamsValue 1 (tokens trimmed) \<lparr>buf = [], dupErr = None, numErr = None\<rparr> of
             Inl (Some e) \<Rightarrow> Some e
           | Inl None \<Rightarrow> Some (Err ErrInvalidParamsNumber)
           | Inr (st, rest) \<Rightarrow>
               if rest \<noteq> [] then Some (Err ErrInvalidParamsNumber)
               else seq_err [
                 fail_if (maxParamsSerializedBytes < length (buf st)) (Err ErrInvalidParamsSize),
                 dupErr st,
                 numErr st])"

end
