(* ===== verification/Authorize.thy ===== *)
theory Authorize
  imports Raw_Params
begin

text \<open>
  The decision function (\<open>semantics/semantics.go\<close>, \<open>authorizechain.go\<close>, \<open>constraintunion.go\<close>):
  aggregation over several grants, the entry point on JSON text, and authorization under a
  delegation chain. The empty reason of a decision is \<open>None\<close>.
\<close>

record Decision =
  Verdict :: string
  DReason :: "error option"
  Unresolved :: "string list"

definition VerdictAllow :: string where "VerdictAllow = ''allow''"
definition VerdictDeny :: string where "VerdictDeny = ''deny''"
definition VerdictAllowUR :: string where "VerdictAllowUR = ''allow_unresolved''"

lemma verdicts_distinct [simp]:
  "VerdictAllow \<noteq> VerdictDeny" "VerdictDeny \<noteq> VerdictAllow" "VerdictAllow \<noteq> VerdictAllowUR"
  "VerdictAllowUR \<noteq> VerdictAllow" "VerdictDeny \<noteq> VerdictAllowUR" "VerdictAllowUR \<noteq> VerdictDeny"
  by (simp_all add: VerdictAllow_def VerdictDeny_def VerdictAllowUR_def)

definition deny :: "error \<Rightarrow> Decision" where
  "deny e = \<lparr>Verdict = VerdictDeny, DReason = Some e, Unresolved = []\<rparr>"

definition allow :: Decision where
  "allow = \<lparr>Verdict = VerdictAllow, DReason = None, Unresolved = []\<rparr>"

definition allow_unresolved :: "string list \<Rightarrow> Decision" where
  "allow_unresolved us = \<lparr>Verdict = VerdictAllowUR, DReason = None, Unresolved = us\<rparr>"

lemmas decision_defs = deny_def allow_def allow_unresolved_def

subsection \<open>Aggregation over grants\<close>

definition sortedSet :: "string list \<Rightarrow> string list" where
  "sortedSet src = sorted_set src"

definition params_level :: "err list" where
  "params_level = [ErrParamsMissing, ErrParamsUndeclared, ErrParamsExceedGrant, ErrEmptyBoundDenies,
     ErrNotInEnum, ErrInvalidParamsNull, ErrInvalidParamsDupKey, ErrInvalidParamsNumber,
     ErrInvalidParamsSize, ErrUnsupportedLangRev, ErrParamsCardinality, ErrParamsOutOfRange,
     ErrParamsNotMultiple, ErrInvalidParamsBinding]"

text \<open>The prefix test on the reason's text, which no formatted argument can change: a separator precedes it.\<close>

definition isParamsLevelReason :: "error \<Rightarrow> bool" where
  "isParamsLevelReason reason \<longleftrightarrow> (\<exists>p \<in> set params_level. prefix (err_text p) (error_head reason))"

text \<open>The loop over a grant's constraints: the first failure, or the residual obligations.\<close>

fun eval_constraints :: "Operation \<Rightarrow> string list \<Rightarrow> error + string list" where
  "eval_constraints op [] = Inr []"
| "eval_constraints op (c # cs) =
     (case ValidateConstraint c of
        Some e \<Rightarrow> Inl e
      | None \<Rightarrow>
          (case CheckConstraint c op of
             Some e \<Rightarrow> Inl e
           | None \<Rightarrow>
               (case eval_constraints op cs of
                  Inl e \<Rightarrow> Inl e
                | Inr pg \<Rightarrow> Inr (if coreEvaluatesConstraint c then pg else c # pg))))"

record auth_state =
  unresolved :: "string list"
  firstReason :: "error option"
  anyAllowed :: bool

definition note_reason :: "error \<Rightarrow> auth_state \<Rightarrow> auth_state" where
  "note_reason e st = (if firstReason st = None then st\<lparr>firstReason := Some e\<rparr> else st)"

definition auth_step :: "Operation \<Rightarrow> auth_state \<Rightarrow> Grant \<Rightarrow> auth_state" where
  "auth_step op st g =
     (if gID g = [] then st
      else
        case Entails g op of
          Some e \<Rightarrow> if isParamsLevelReason e then note_reason e st else st
        | None \<Rightarrow>
            (case eval_constraints op (gConstraints g) of
               Inl e \<Rightarrow> note_reason e st
             | Inr pg \<Rightarrow> st\<lparr>anyAllowed := True, unresolved := unresolved st @ pg\<rparr>))"

text \<open>Step 1: the operation on its own.\<close>

definition op_error :: "Operation \<Rightarrow> error option" where
  "op_error op =
     seq_err [
       fail_if (oID op = []) (Err ErrMissingCapabilityID),
       ValidateCapabilityID (oID op),
       opt_check ValidateOperationParams (oParams op)]"

definition AuthorizeSet :: "Grant list \<Rightarrow> Operation \<Rightarrow> Decision" where
  "AuthorizeSet grants op =
     (if \<forall>g \<in> set grants. gID g = [] then deny (Err ErrCapabilityNotAuth)
      else
        case op_error op of
          Some e \<Rightarrow> deny e
        | None \<Rightarrow>
            let st = foldl (auth_step op) \<lparr>unresolved = [], firstReason = None, anyAllowed = False\<rparr> grants
            in if \<not> anyAllowed st then
                 (case firstReason st of Some e \<Rightarrow> deny e | None \<Rightarrow> deny (Err ErrCapabilityNotAuth))
               else if sortedSet (unresolved st) \<noteq> [] then allow_unresolved (sortedSet (unresolved st))
               else allow)"

definition AuthorizeOne :: "Grant \<Rightarrow> Operation \<Rightarrow> Decision" where
  "AuthorizeOne effectiveGrant op = AuthorizeSet [effectiveGrant] op"

text \<open>
  \<open>AuthorizeJSONText\<close>: an empty text is an operation without params. The text is decoded only after
  the boundary checks; \<open>json.Unmarshal\<close> into a map leaves it nil for the text null.
\<close>

definition AuthorizeJSONText :: "Grant list \<Rightarrow> string \<Rightarrow> string \<Rightarrow> Decision" where
  "AuthorizeJSONText grants opID rawParams =
     (if rawParams = [] then AuthorizeSet grants \<lparr>oID = opID, oParams = None\<rparr>
      else
        case ValidateRawParams rawParams of
          Some e \<Rightarrow> deny e
        | None \<Rightarrow>
            (case Option.bind (parse_json rawParams) decode_text of
               Some (JObj m) \<Rightarrow> AuthorizeSet grants \<lparr>oID = opID, oParams = Some m\<rparr>
             | Some JNull \<Rightarrow> AuthorizeSet grants \<lparr>oID = opID, oParams = None\<rparr>
             | _ \<Rightarrow> deny (Err ErrInvalidParamsNumber)))"

subsection \<open>Chains\<close>

fun contains_chain :: "Grant list \<Rightarrow> error option" where
  "contains_chain (p # c # gs) = seq_err [Contains p c, contains_chain (c # gs)]"
| "contains_chain _ = None"

definition AuthorizeWithChain :: "Grant list \<Rightarrow> Operation \<Rightarrow> Decision" where
  "AuthorizeWithChain gs op =
     (if gs = [] then deny (Err ErrAbsentSource)
      else
        case contains_chain gs of
          Some e \<Rightarrow> deny e
        | None \<Rightarrow>
            (case Intersect gs of
               Inl e \<Rightarrow> deny e
             | Inr effective \<Rightarrow> AuthorizeOne effective op))"

definition ConstraintUnion :: "Grant list \<Rightarrow> error + string list" where
  "ConstraintUnion gs =
     (if gs = [] then Inl (Err ErrAbsentSource)
      else Inr (foldl (\<lambda>out g. mergeConstraints out (gConstraints g)) [] gs))"

end
