(* ===== verification/Go_Time.thy ===== *)
theory Go_Time
  imports Go_Strconv
begin

text \<open>
  \<open>time.Parse(time.RFC3339, s)\<close> and the parts of a UTC instant the sources read. As in Go, the hour may
  have one digit, a fraction of a second may follow a point or a comma, and a zone offset may be as
  large as 24 hours or 60 minutes. An instant is its Unix time in nanoseconds.
\<close>

text \<open>\<open>getnum\<close>: one or two digits (two when \<open>fixed\<close>).\<close>

definition getnum :: "bool \<Rightarrow> string \<Rightarrow> (int \<times> string) option" where
  "getnum fixed s =
     (case s of
        a # b # rest \<Rightarrow>
          if \<not> is_digit a then None
          else if is_digit b then Some (10 * digit_val a + digit_val b, rest)
          else if fixed then None else Some (digit_val a, b # rest)
      | [a] \<Rightarrow> if is_digit a \<and> \<not> fixed then Some (digit_val a, []) else None
      | [] \<Rightarrow> None)"

definition expect :: "char \<Rightarrow> string \<Rightarrow> string option" where
  "expect c s = (case s of d # rest \<Rightarrow> if d = c then Some rest else None | [] \<Rightarrow> None)"

definition in_bounds :: "int \<Rightarrow> int \<Rightarrow> (int \<times> string) option \<Rightarrow> (int \<times> string) option" where
  "in_bounds lo hi r = (case r of Some (n, s) \<Rightarrow> if lo \<le> n \<and> n \<le> hi then Some (n, s) else None | None \<Rightarrow> None)"

definition parse_year :: "string \<Rightarrow> (int \<times> string) option" where
  "parse_year s =
     (let p = take 4 s in if length p = 4 \<and> all_digits p then Some (digits_val p, drop 4 s) else None)"

text \<open>A fraction of a second, in nanoseconds; digits after the ninth are dropped.\<close>

definition parse_fraction :: "string \<Rightarrow> int \<times> string" where
  "parse_fraction s =
     (case s of
        c # d # rest \<Rightarrow>
          if (c = CHR ''.'' \<or> c = CHR '','') \<and> is_digit d then
            let ds = takeWhile is_digit (d # rest); nine = take 9 ds
            in (digits_val nine * 10 ^ (9 - length nine), drop (length ds) (d # rest))
          else (0, s)
      | _ \<Rightarrow> (0, s))"

text \<open>The zone offset in seconds.\<close>

definition parse_zone :: "string \<Rightarrow> (int \<times> string) option" where
  "parse_zone s =
     (case s of
        c # rest \<Rightarrow>
          if c = CHR ''Z'' then Some (0, rest)
          else if length s < 6 \<or> s ! 3 \<noteq> CHR '':'' then None
          else
            (case (in_bounds 0 24 (getnum True (take 2 rest)), in_bounds 0 60 (getnum True (take 2 (drop 3 rest)))) of
               (Some (h, _), Some (m, _)) \<Rightarrow>
                 if c = CHR ''+'' then Some (h * 3600 + m * 60, drop 6 s)
                 else if c = CHR ''-'' then Some (- (h * 3600 + m * 60), drop 6 s)
                 else None
             | _ \<Rightarrow> None)
      | [] \<Rightarrow> None)"

definition is_leap :: "int \<Rightarrow> bool" where
  "is_leap y \<longleftrightarrow> y mod 4 = 0 \<and> (y mod 100 \<noteq> 0 \<or> y mod 400 = 0)"

definition days_in :: "int \<Rightarrow> int \<Rightarrow> int" where
  "days_in m y = (if m = 2 then (if is_leap y then 29 else 28) else if m \<in> {4, 6, 9, 11} then 30 else 31)"

text \<open>Days from 1970-01-01, the year counted from March.\<close>

definition civil_days :: "int \<Rightarrow> int \<Rightarrow> int \<Rightarrow> int" where
  "civil_days y m d =
     (let y' = (if m \<le> 2 then y - 1 else y);
          m' = (if m \<le> 2 then m + 9 else m - 3)
      in 365 * y' + y' div 4 - y' div 100 + y' div 400 + (153 * m' + 2) div 5 + d - 1 - 719468)"

type_synonym instant = int

definition parse_rfc3339 :: "string \<Rightarrow> instant option" where
  "parse_rfc3339 s0 =
     (case parse_year s0 of None \<Rightarrow> None | Some (y, s1) \<Rightarrow>
     (case Option.bind (expect (CHR ''-'') s1) (\<lambda>s. in_bounds 1 12 (getnum True s)) of None \<Rightarrow> None | Some (mo, s2) \<Rightarrow>
     (case Option.bind (expect (CHR ''-'') s2) (\<lambda>s. in_bounds 1 (days_in mo y) (getnum True s)) of
        None \<Rightarrow> None | Some (d, s3) \<Rightarrow>
     (case Option.bind (expect (CHR ''T'') s3) (\<lambda>s. in_bounds 0 23 (getnum False s)) of None \<Rightarrow> None | Some (h, s4) \<Rightarrow>
     (case Option.bind (expect (CHR '':'') s4) (\<lambda>s. in_bounds 0 59 (getnum True s)) of None \<Rightarrow> None | Some (mi, s5) \<Rightarrow>
     (case Option.bind (expect (CHR '':'') s5) (\<lambda>s. in_bounds 0 59 (getnum True s)) of None \<Rightarrow> None | Some (se, s6) \<Rightarrow>
     (case parse_fraction s6 of (ns, s7) \<Rightarrow>
     (case parse_zone s7 of
        Some (off, []) \<Rightarrow>
          Some ((civil_days y mo d * 86400 + h * 3600 + mi * 60 + se - off) * 1000000000 + ns)
      | _ \<Rightarrow> None))))))))"

text \<open>\<open>t.Hour()*3600 + t.Minute()*60 + t.Second()\<close> of a UTC instant.\<close>

definition second_of_day :: "instant \<Rightarrow> int" where
  "second_of_day t = t div 1000000000 mod 86400"

lemma second_of_day_bounds: "0 \<le> second_of_day t" "second_of_day t < 86400"
  by (simp_all add: second_of_day_def)

subsection \<open>Instants and durations\<close>

text \<open>The zero \<open>time.Time\<close>, midnight of January 1 of the year 1.\<close>

definition zero_time :: instant where
  "zero_time = - 62135596800000000000"

text \<open>A duration is an \<open>int64\<close> of nanoseconds: products wrap around, \<open>Sub\<close> saturates.\<close>

definition wrap64 :: "int \<Rightarrow> int" where
  "wrap64 x = (x + 9223372036854775808) mod 18446744073709551616 - 9223372036854775808"

definition Sub :: "instant \<Rightarrow> instant \<Rightarrow> int" where
  "Sub t u =
     (let d = t - u
      in if d < - 9223372036854775808 then - 9223372036854775808
         else if 9223372036854775807 < d then 9223372036854775807 else d)"

definition seconds_duration :: "int \<Rightarrow> int" where
  "seconds_duration n = wrap64 (n * 1000000000)"

lemma wrap64_id: "- 9223372036854775808 \<le> x \<Longrightarrow> x \<le> 9223372036854775807 \<Longrightarrow> wrap64 x = x"
  by (simp add: wrap64_def)

lemma wrap64_range: "- 9223372036854775808 \<le> wrap64 x" "wrap64 x \<le> 9223372036854775807"
proof -
  have "0 \<le> (x + 9223372036854775808) mod 18446744073709551616"
    "(x + 9223372036854775808) mod 18446744073709551616 < 18446744073709551616" by simp_all
  then show "- 9223372036854775808 \<le> wrap64 x" "wrap64 x \<le> 9223372036854775807"
    unfolding wrap64_def by linarith+
qed

lemma wrap64_word: "wrap64 x = signed_take_bit 63 x"
  by (simp add: wrap64_def signed_take_bit_eq_take_bit_shift take_bit_eq_mod)

text \<open>Below the largest duration the saturating difference compares like the exact one.\<close>

lemma Sub_less_iff: "- 9223372036854775808 \<le> a \<Longrightarrow> a < 9223372036854775807 \<Longrightarrow> a < Sub t u \<longleftrightarrow> a < t - u"
  by (simp add: Sub_def Let_def)

end
