(* ===== verification/Decisions.thy ===== *)
theory Decisions
  imports Authorize Go_Time
begin

text \<open>
  What happens to a decision after it is made: the shape of decisions and the discharge of their
  obligations (\<open>semantics/obligations.go\<close>), combining independently decided sources
  (\<open>semantics/combine.go\<close>), and the consumer loop that resolves obligations (\<open>semantics/resolve.go\<close>).
\<close>

subsection \<open>Obligations\<close>

definition unknown_obligation :: "string \<Rightarrow> error" where
  "unknown_obligation c = Errf ErrObligationUnknown ''%q'' [c]"

definition type_char :: "char \<Rightarrow> bool" where
  "type_char c \<longleftrightarrow> is_alnum c \<or> c = CHR ''-'' \<or> c = CHR ''_''"

definition ConstraintIdentity :: "string \<Rightarrow> error + string" where
  "ConstraintIdentity c =
     (case split_on (CHR '':'') c of
        p # q # _ \<Rightarrow>
          if p = [] \<or> q = [] then Inl (unknown_obligation c)
          else if \<not> rmatch capabilitySchemeRE p then Inl (unknown_obligation c)
          else if \<not> list_all type_char q then Inl (unknown_obligation c)
          else Inr (p @ '':'' @ q)
      | _ \<Rightarrow> Inl (unknown_obligation c))"

definition Obligations :: "Decision \<Rightarrow> string list" where
  "Obligations d = Unresolved d"

definition ObligationIdentities :: "Decision \<Rightarrow> error + string list" where
  "ObligationIdentities d =
     (case map_err ConstraintIdentity (Unresolved d) of
        Inl e \<Rightarrow> Inl e
      | Inr ids \<Rightarrow> Inr (sorted_set ids))"

definition shape_error :: "string \<Rightarrow> string list \<Rightarrow> error" where
  "shape_error f as = Errf ErrObligationShape f as"

definition checkDecisionShape :: "Decision \<Rightarrow> error option" where
  "checkDecisionShape d =
     (case ObligationIdentities d of
        Inl e \<Rightarrow> Some e
      | Inr ids \<Rightarrow>
          if Verdict d = VerdictAllow \<or> Verdict d = VerdictDeny then
            fail_if (ids \<noteq> []) (shape_error ''verdict %s carries obligations %v'' (Verdict d # ids))
          else if Verdict d = VerdictAllowUR then
            fail_if (ids = []) (shape_error ''allow_unresolved without obligations'' [])
          else Some (shape_error ''unknown verdict %q'' [Verdict d]))"

definition Discharge :: "Decision \<Rightarrow> string list \<Rightarrow> error option" where
  "Discharge d understood =
     (case ObligationIdentities d of
        Inl e \<Rightarrow> Some e
      | Inr ids \<Rightarrow>
          seq_err [
            checkDecisionShape d,
            if Verdict d \<noteq> VerdictAllowUR then None
            else first_err (\<lambda>i. fail_if (i \<notin> set understood) (Errf ErrObligationUnknown ''%s'' [i])) ids])"

subsection \<open>Combining decisions\<close>

definition CombiningDenyOverrides :: string where "CombiningDenyOverrides = ''deny-overrides''"
definition CombiningPermitOverrides :: string where "CombiningPermitOverrides = ''permit-overrides''"
definition CombiningFirstApplicable :: string where "CombiningFirstApplicable = ''first-applicable''"

definition alg_Valid :: "string \<Rightarrow> bool" where
  "alg_Valid a \<longleftrightarrow> a \<in> {CombiningDenyOverrides, CombiningPermitOverrides, CombiningFirstApplicable}"

definition deny_as :: "Decision \<Rightarrow> Decision" where
  "deny_as d = \<lparr>Verdict = VerdictDeny, DReason = DReason d, Unresolved = []\<rparr>"

text \<open>The loop of \<open>combineDenyOverrides\<close>; the accumulators are the source's local variables.\<close>

fun combineDenyOverrides :: "string list \<Rightarrow> bool \<Rightarrow> Decision list \<Rightarrow> Decision" where
  "combineDenyOverrides obl sawAllow [] =
     (if obl \<noteq> [] then allow_unresolved (sortedSet obl)
      else if sawAllow then allow
      else deny (Err ErrCapabilityNotAuth))"
| "combineDenyOverrides obl sawAllow (d # ds) =
     (if Verdict d = VerdictDeny then deny_as d
      else if Verdict d = VerdictAllowUR then combineDenyOverrides (obl @ Unresolved d) sawAllow ds
      else if Verdict d = VerdictAllow then combineDenyOverrides obl True ds
      else combineDenyOverrides obl sawAllow ds)"

definition hasObligations :: "Decision list \<Rightarrow> bool" where
  "hasObligations ds \<longleftrightarrow> (\<exists>d \<in> set ds. Unresolved d \<noteq> [])"

fun combinePermitOverrides :: "string list \<Rightarrow> Decision option \<Rightarrow> Decision list \<Rightarrow> error + Decision" where
  "combinePermitOverrides obl firstDeny [] =
     Inr (case firstDeny of
            Some d \<Rightarrow> deny_as d
          | None \<Rightarrow> if obl \<noteq> [] then allow_unresolved (sortedSet obl) else deny (Err ErrCapabilityNotAuth))"
| "combinePermitOverrides obl firstDeny (d # ds) =
     (if Verdict d = VerdictAllow then
        if obl \<noteq> [] \<or> hasObligations ds then Inl (Err ErrCombiningWouldDropObligations) else Inr allow
      else if Verdict d = VerdictAllowUR then combinePermitOverrides (obl @ Unresolved d) firstDeny ds
      else if Verdict d = VerdictDeny then
        combinePermitOverrides obl (if firstDeny = None then Some d else firstDeny) ds
      else combinePermitOverrides obl firstDeny ds)"

definition Combine :: "string \<Rightarrow> Decision list \<Rightarrow> error + Decision" where
  "Combine alg decisions =
     (if \<not> alg_Valid alg then Inl (Errf ErrUnknownCombiningAlgorithm ''%q'' [alg])
      else if decisions = [] then Inl (Err ErrNoDecisions)
      else
        case first_err checkDecisionShape decisions of
          Some e \<Rightarrow> Inl e
        | None \<Rightarrow>
            if alg = CombiningFirstApplicable then Inr (hd decisions)
            else if alg = CombiningPermitOverrides then combinePermitOverrides [] None decisions
            else Inr (combineDenyOverrides [] False decisions))"

subsection \<open>Resolving obligations\<close>

definition ResolutionSatisfied :: string where "ResolutionSatisfied = ''satisfied''"
definition ResolutionViolated :: string where "ResolutionViolated = ''violated''"
definition ResolutionUnknown :: string where "ResolutionUnknown = ''unknown''"

record Resolution =
  RConstraint :: string
  RStatus :: string

definition validResolutionStatus :: "string \<Rightarrow> bool" where
  "validResolutionStatus s \<longleftrightarrow> s \<in> {ResolutionSatisfied, ResolutionViolated, ResolutionUnknown}"

definition status_rank :: "string \<Rightarrow> nat" where
  "status_rank s = (if s = ResolutionViolated then 2 else if s = ResolutionSatisfied then 1 else 0)"

definition stricterStatus :: "string \<Rightarrow> string \<Rightarrow> string" where
  "stricterStatus a b = (if status_rank a < status_rank b then b else a)"

definition violatedReason :: "string \<Rightarrow> error" where
  "violatedReason c =
     (case split_on (CHR '':'') c of
        p # q # _ \<Rightarrow> if q \<noteq> [] then Violated q else Reason ''violated''
      | _ \<Rightarrow> Reason ''violated'')"

text \<open>
  \<open>parseTimeWindow\<close> decodes into \<open>[]map[string]string\<close>: every member of every segment, also one that a
  later member of the same name replaces, must be a string or null.
\<close>

definition string_map :: "jtext \<Rightarrow> (string \<times> string) list option" where
  "string_map x =
     (case x of
        XObj ms \<Rightarrow> map_option (\<lambda>ss. last_wins (zip (map fst ms) ss)) (those (map (\<lambda>m. text_string (snd m)) ms))
      | XNull \<Rightarrow> Some []
      | _ \<Rightarrow> None)"

definition window_of :: "(string \<times> string) list \<Rightarrow> (int \<times> int) option" where
  "window_of m =
     (case (map_of m ''start'', map_of m ''end'') of
        (Some s, Some e) \<Rightarrow> Some (secondsOfDay s, if e = ''00:00'' then 86400 else secondsOfDay e)
      | _ \<Rightarrow> None)"

definition parseTimeWindow :: "string \<Rightarrow> (int \<times> int) list option" where
  "parseTimeWindow raw =
     (case parse_json (trim_space raw) of
        Some (XArr segs) \<Rightarrow>
          (case those (map string_map segs) of
             None \<Rightarrow> None
           | Some ms \<Rightarrow> those (map window_of ms))
      | Some XNull \<Rightarrow> Some []
      | _ \<Rightarrow> None)"

text \<open>\<open>None\<close> is \<open>ok = false\<close>: not a core-evaluable obligation.\<close>

definition evalCoreTimeWindow :: "string \<Rightarrow> instant \<Rightarrow> bool option" where
  "evalCoreTimeWindow c now =
     (let parts = split_on (CHR '':'') c; joined = constraintParams c; sod = second_of_day now
      in if ValidateConstraint c \<noteq> None then None
         else if length parts < 2 \<or> constraint_identity parts \<noteq> reservedTimeWin then None
         else if \<not> prefix ''window:'' joined then None
         else
           map_option (\<lambda>segs. \<exists>x \<in> set segs. fst x \<le> sod \<and> sod < snd x)
             (parseTimeWindow (trim_prefix ''window:'' joined)))"

text \<open>The status of one obligation: the reports, then the clock.\<close>

definition reported_status :: "Resolution list \<Rightarrow> string \<Rightarrow> string" where
  "reported_status rs o' =
     foldl (\<lambda>st r. if RConstraint r = o' then stricterStatus st (RStatus r) else st) ResolutionUnknown rs"

definition obligation_status :: "Resolution list \<Rightarrow> instant option \<Rightarrow> string \<Rightarrow> string" where
  "obligation_status rs now o' =
     (let st = reported_status rs o'
      in case now of
           None \<Rightarrow> st
         | Some t \<Rightarrow>
             (case evalCoreTimeWindow o' t of
                None \<Rightarrow> st
              | Some satisfied \<Rightarrow>
                  stricterStatus st (if satisfied then ResolutionSatisfied else ResolutionViolated)))"

text \<open>The loop over the obligations: the first violated one, or the remainder.\<close>

fun resolve_loop :: "(string \<Rightarrow> string) \<Rightarrow> string list \<Rightarrow> string + string list" where
  "resolve_loop status [] = Inr []"
| "resolve_loop status (x # xs) =
     (if status x = ResolutionViolated then Inl x
      else
        case resolve_loop status xs of
          Inl v \<Rightarrow> Inl v
        | Inr rest \<Rightarrow> Inr (if status x = ResolutionSatisfied then rest else x # rest))"

definition Resolve :: "Decision \<Rightarrow> Resolution list \<Rightarrow> string \<Rightarrow> Decision" where
  "Resolve d resolutions now =
     (if Verdict d = VerdictDeny \<or> Verdict d = VerdictAllow then d
      else if Verdict d \<noteq> VerdictAllowUR then deny (Err ErrInvalidResolution)
      else if \<exists>r \<in> set resolutions. RConstraint r = [] \<or> \<not> validResolutionStatus (RStatus r) then
        deny (Err ErrInvalidResolution)
      else if now \<noteq> [] \<and> parse_rfc3339 now = None then deny (Err ErrInvalidTimestamp)
      else
        case resolve_loop
               (obligation_status resolutions (if now = [] then None else parse_rfc3339 now))
               (sortedSet (Unresolved d)) of
          Inl v \<Rightarrow> deny (violatedReason v)
        | Inr [] \<Rightarrow> allow
        | Inr rest \<Rightarrow> allow_unresolved rest)"

end
