(* ===== verification/Grant_Laws.thy ===== *)
theory Grant_Laws
  imports Grants
begin

text \<open>
  Laws of grants: entailment characterised declaratively, its agreement with the comparison it
  replaced (\<open>paramsSubset\<close>), the soundness of \<open>Contains\<close> and of delegation chains, with the cases
  in which \<open>Contains\<close> accepts a child that admits more than its parent.
\<close>

subsection \<open>Entailment\<close>

text \<open>Layers 5 to 9 over the declared keys.\<close>

definition declared_ok :: "obj \<Rightarrow> obj \<Rightarrow> obj \<Rightarrow> bool" where
  "declared_ok om gp gb \<longleftrightarrow>
     (\<forall>(k, g) \<in> set gp. \<not> isEmptyBound g \<and> (\<exists>v. map_of om k = Some v \<and> valueSubset v g = None)) \<and>
     (\<forall>(k, b) \<in> set gb. case map_of om k of None \<Rightarrow> boundOptional b | Some v \<Rightarrow> boundSubset v b = None) \<and>
     (\<forall>(k, v) \<in> set om. v \<noteq> JNull \<and> (has_key gp k \<or> has_key gb k))"

lemma entailsDeclared_None: "entailsDeclared om gp gb = None \<longleftrightarrow> declared_ok om gp gb"
proof
  assume e: "entailsDeclared om gp gb = None"
  note c = e [unfolded entailsDeclared_def, simplified, unfolded first_err_None fail_if_None]
  have "case map_of om k of None \<Rightarrow> boundOptional b | Some v \<Rightarrow> boundSubset v b = None"
    if "(k, b) \<in> set gb" for k b
    using c that by (cases "map_of om k") (fastforce simp: has_key_def)+
  moreover have "\<exists>v. map_of om k = Some v \<and> valueSubset v g = None" if "(k, g) \<in> set gp" for k g
    using c that by (cases "map_of om k") (fastforce simp: has_key_def)+
  ultimately show "declared_ok om gp gb" using c unfolding declared_ok_def by fastforce
next
  assume "declared_ok om gp gb"
  then show "entailsDeclared om gp gb = None"
    unfolding declared_ok_def entailsDeclared_def
    by (fastforce simp: first_err_None fail_if_None has_key_def split: option.splits)
qed

definition unconstrained :: "Grant \<Rightarrow> bool" where
  "unconstrained g \<longleftrightarrow> entries (gParams g) = [] \<and> gParamBounds g = []"

text \<open>What \<open>Entails\<close> checks of a constrained grant and of an operation before it compares them.\<close>

definition inputs_ok :: "Grant \<Rightarrow> Operation \<Rightarrow> bool" where
  "inputs_ok g op \<longleftrightarrow>
     check_bounds (gParamBounds g) (gParams g) = None \<and>
     (entries (gParams g) \<noteq> [] \<longrightarrow> ValidateGrantParams (entries (gParams g)) = None) \<and>
     opt_check ValidateOperationParams (oParams op) = None"

lemma Entails_iff:
  "Entails g op = None \<longleftrightarrow>
     ValidateCapabilityID (gID g) = None \<and> ValidateCapabilityID (oID op) = None \<and>
     covers_id (gID g) (oID op) \<and>
     (unconstrained g \<or>
      inputs_ok g op \<and> declared_ok (entries (oParams op)) (entries (gParams g)) (gParamBounds g))"
proof (cases "ValidateCapabilityID (gID g) = None \<and> ValidateCapabilityID (oID op) = None")
  case True
  then have "matchID (gID g) (oID op) = None \<longleftrightarrow> covers_id (gID g) (oID op)"
    by (simp add: matchID_iff_covers)
  moreover have "covers_id (gID g) (oID op) \<Longrightarrow> scheme_of (gID g) = scheme_of (oID op)"
    using True ValidateCapabilityID_shape(1) covers_id_scheme by blast
  ultimately show ?thesis
    using True
    by (auto simp: Entails_def Let_def unconstrained_def inputs_ok_def entailsDeclared_None fail_if_None
        split: if_splits)
qed (auto simp: Entails_def Let_def)

lemma bare_entails:
  "Entails (bare a) (bare_op b) = None \<longleftrightarrow>
     ValidateCapabilityID a = None \<and> ValidateCapabilityID b = None \<and> covers_id a b"
  by (simp add: Entails_iff unconstrained_def bare_def bare_op_def)

subsection \<open>Inputs that passed validation\<close>

lemma validateObjectParams_canon: "validateObjectParams m = None \<Longrightarrow> canon_ok (JObj m)"
  using CanonicalJSON_Inl [of "JObj m"]
  by (fastforce simp: validateObjectParams_def split: if_splits sum.splits canon_err.splits)

lemma ValidateGrantParams_canon: "ValidateGrantParams m = None \<Longrightarrow> canon_ok (JObj m)"
  by (simp add: ValidateGrantParams_def validateObjectParams_canon)

lemma ValidateOperationParams_canon:
  assumes "opt_check ValidateOperationParams p = None" and "map_of (entries p) k = Some v"
  shows "canon_ok v" and "rejectNonFinite v = None"
proof -
  obtain m where m: "p = Some m" using assms(2) by (cases p) auto
  have v: "ValidateOperationParams m = None" using assms(1) m by (simp add: opt_check_def)
  have "canon_ok (JObj m)" using v by (simp add: ValidateOperationParams_def validateObjectParams_canon)
  then show "canon_ok v" using assms(2) m canon_ok_lookup by simp
  show "rejectNonFinite v = None"
    using v assms(2) m by (fastforce simp: ValidateOperationParams_def first_err_None dest!: map_of_SomeD)
qed

lemma check_bounds_canon:
  assumes "check_bounds gb gp = None" and "(k, b) \<in> set gb"
  shows "canon_ok b" and "validateBound b = None" and "\<not> has_key (entries gp) k"
proof -
  have v: "ValidateParamBounds gb (entries gp) = None" using assms by (auto simp: check_bounds_def split: if_splits)
  then have "canon_ok (JObj gb)" by (simp add: ValidateParamBounds_def validateObjectParams_canon)
  then show "canon_ok b" using assms(2) by (rule canon_ok_member)
  show "validateBound b = None" "\<not> has_key (entries gp) k"
    using v assms(2) by (fastforce simp: ValidateParamBounds_def first_err_None fail_if_None)+
qed

text \<open>Go maps repeat no key; and the steps a grant's bounds declare are integers in the exact range.\<close>

definition grant_wf :: "Grant \<Rightarrow> bool" where
  "grant_wf g \<longleftrightarrow> obj_ok (entries (gParams g)) \<and> obj_ok (gParamBounds g)"

definition exact_steps :: "Grant \<Rightarrow> bool" where
  "exact_steps g \<longleftrightarrow> (\<forall>x \<in> set (gParamBounds g). steps_ok (snd x))"

lemma bounds_good:
  assumes "grant_wf g" and "exact_steps g" and "check_bounds (gParamBounds g) (gParams g) = None"
    and "(k, b) \<in> set (gParamBounds g)"
  shows "bound_good b"
proof (rule validateBound_good)
  show "validateBound b = None" "canon_ok b" using check_bounds_canon [OF assms(3,4)] by blast+
  show "json_ok b" using assms(1,4) by (fastforce simp: grant_wf_def obj_ok_def)
  show "steps_ok b" using assms(2,4) by (fastforce simp: exact_steps_def)
qed

subsection \<open>Containment\<close>

lemma coverage_error_None: "coverage_error a b = None \<longleftrightarrow> matchID a b = None"
  by (simp add: coverage_error_def split: option.splits)

lemma keys_within_None:
  "keys_within narrow parent child = None \<longleftrightarrow>
     (\<forall>(k, pv) \<in> set parent. \<exists>cv. map_of child k = Some cv \<and> narrow cv pv = None)"
  by (fastforce simp: keys_within_def first_err_None fail_if_None split: option.splits)

lemma keys_closed_None: "keys_closed parent child = None \<longleftrightarrow> (\<forall>(k, v) \<in> set child. has_key parent k)"
  by (fastforce simp: keys_closed_def first_err_None fail_if_None)

lemma Contains_iff:
  "Contains p c = None \<longleftrightarrow>
     grant_error p = None \<and> grant_error c = None \<and> covers_id (gID p) (gID c) \<and>
     (unconstrained p \<or>
      \<not> unconstrained c \<and>
      keys_within containsWithin (entries (gParams p)) (entries (gParams c)) = None \<and>
      keys_within boundWithin (gParamBounds p) (gParamBounds c) = None \<and>
      keys_closed (entries (gParams p)) (entries (gParams c)) = None \<and>
      keys_closed (gParamBounds p) (gParamBounds c) = None)"
proof -
  have "grant_error p = None \<Longrightarrow> matchID (gID p) x = None \<longleftrightarrow> covers_id (gID p) x" for x
    by (rule matchID_iff_covers) (simp add: grant_error_def)
  then show ?thesis
    by (auto simp: Contains_def Let_def coverage_error_None unconstrained_def not_narrower_def split: if_splits)
qed

text \<open>
  The two cases of the parameter values in which the declared comparison is wider than behaviour:
  an enum narrowed to a number or an object, and a parent that denies the class by an empty bound.
\<close>

definition safe_narrowing :: "Grant \<Rightarrow> Grant \<Rightarrow> bool" where
  "safe_narrowing p c \<longleftrightarrow>
     \<not> hasEmptyBound (entries (gParams p)) \<and>
     (\<forall>x \<in> set (entries (gParams p)).
        case map_of (entries (gParams c)) (fst x) of
          Some cv \<Rightarrow> narrowing_safe cv (snd x) | None \<Rightarrow> True)"

lemma containsWithin_None: "p \<noteq> JNull \<Longrightarrow> containsWithin c p = None \<longleftrightarrow> valueSubset c p = None"
  by (auto simp: containsWithin_def)

lemma ValidateGrantParams_not_null:
  "ValidateGrantParams m = None \<Longrightarrow> (k, v) \<in> set m \<Longrightarrow> v \<noteq> JNull"
  by (fastforce simp: ValidateGrantParams_def first_err_None fail_if_None)

lemma grant_error_params:
  assumes "grant_error g = None" and "(k, v) \<in> set (entries (gParams g))"
  shows "ValidateGrantParams (entries (gParams g)) = None"
  using assms by (cases "gParams g") (auto simp: grant_error_def opt_check_def)

lemma param_narrowing:
  assumes "grant_error p = None" and "grant_error c = None" and "safe_narrowing p c"
    and "(k, pv) \<in> set (entries (gParams p))" and "map_of (entries (gParams c)) k = Some cv"
    and "containsWithin cv pv = None" and "valueSubset v cv = None" and "canon_ok v"
  shows "valueSubset v pv = None"
proof (rule valueSubset_trans)
  show "valueSubset v cv = None" "canon_ok v" by fact+
  note vp = grant_error_params [OF assms(1,4)]
    and vc = grant_error_params [OF assms(2) map_of_SomeD [OF assms(5)]]
  show "valueSubset cv pv = None"
    using assms(6) ValidateGrantParams_not_null [OF vp assms(4)] by (simp add: containsWithin_None)
  show "narrowing_safe cv pv" using assms(3-5) unfolding safe_narrowing_def by fastforce
  show "canon_ok cv" using ValidateGrantParams_canon [OF vc] assms(5) by (rule canon_ok_lookup)
  show "canon_ok pv" using ValidateGrantParams_canon [OF vp] assms(4) by (rule canon_ok_member)
qed

lemma declared_narrowing:
  assumes con: "Contains p c = None" and "\<not> unconstrained p"
    and d: "declared_ok om (entries (gParams c)) (gParamBounds c)"
    and ok: "\<And>k v. map_of om k = Some v \<Longrightarrow> canon_ok v \<and> rejectNonFinite v = None"
    and wf: "grant_wf p" "grant_wf c" and steps: "exact_steps p" "exact_steps c"
    and safe: "safe_narrowing p c"
  shows "declared_ok om (entries (gParams p)) (gParamBounds p)"
proof -
  note v = con [unfolded Contains_iff]
  have g: "grant_error p = None" "grant_error c = None" using v by simp_all
  have cb: "check_bounds (gParamBounds p) (gParams p) = None" "check_bounds (gParamBounds c) (gParams c) = None"
    using g by (simp_all add: grant_error_def)
  have kp: "\<exists>cv. map_of (entries (gParams c)) k = Some cv \<and> containsWithin cv pv = None"
    if "(k, pv) \<in> set (entries (gParams p))" for k pv
    using v assms(2) that by (auto simp: keys_within_None)
  have kb: "\<exists>c'. map_of (gParamBounds c) k = Some c' \<and> boundWithin c' b = None"
    if "(k, b) \<in> set (gParamBounds p)" for k b
    using v assms(2) that by (auto simp: keys_within_None)
  have cl: "has_key (entries (gParams c)) k \<Longrightarrow> has_key (entries (gParams p)) k"
    "has_key (gParamBounds c) k \<Longrightarrow> has_key (gParamBounds p) k" for k
    using v assms(2) by (auto simp: keys_closed_None has_key_iff)
  have "\<exists>v. map_of om k = Some v \<and> valueSubset v pv = None"
    if kpv: "(k, pv) \<in> set (entries (gParams p))" for k pv
  proof -
    obtain cv where cv: "map_of (entries (gParams c)) k = Some cv" "containsWithin cv pv = None"
      using kp [OF kpv] by blast
    obtain v where v: "map_of om k = Some v" "valueSubset v cv = None"
      using d map_of_SomeD [OF cv(1)] unfolding declared_ok_def by fastforce
    show ?thesis using param_narrowing [OF g safe kpv cv v(2)] ok [OF v(1)] v(1) by blast
  qed
  moreover have "\<not> isEmptyBound pv" if "(k, pv) \<in> set (entries (gParams p))" for k pv
    using safe that by (fastforce simp: safe_narrowing_def hasEmptyBound_def)
  moreover have "case map_of om k of None \<Rightarrow> boundOptional b | Some v \<Rightarrow> boundSubset v b = None"
    if kpb: "(k, b) \<in> set (gParamBounds p)" for k b
  proof -
    obtain b' where b': "map_of (gParamBounds c) k = Some b'" "boundWithin b' b = None"
      using kb [OF kpb] by blast
    note m = map_of_SomeD [OF b'(1)]
    have "case map_of om k of None \<Rightarrow> boundOptional b' | Some v \<Rightarrow> boundSubset v b' = None"
      using d m unfolding declared_ok_def by blast
    moreover have "bound_good b'" "bound_good b"
      using bounds_good [OF wf(2) steps(2) cb(2) m] bounds_good [OF wf(1) steps(1) cb(1) kpb] .
    ultimately show ?thesis
      using boundWithin_optional [OF b'(2)] boundWithin_sound [OF b'(2)] ok by (cases "map_of om k") auto
  qed
  moreover have "v \<noteq> JNull \<and> (has_key (entries (gParams p)) k \<or> has_key (gParamBounds p) k)"
    if "(k, v) \<in> set om" for k v
    using d that cl unfolding declared_ok_def by blast
  ultimately show ?thesis unfolding declared_ok_def by blast
qed

lemma Contains_sound_aux:
  assumes con: "Contains p c = None" and ent: "Entails c op = None"
    and wf: "grant_wf p" "grant_wf c" and steps: "exact_steps p" "exact_steps c"
    and safe: "safe_narrowing p c"
  shows "Entails p op = None"
proof -
  note v = con [unfolded Contains_iff] and e = ent [unfolded Entails_iff]
  have ids: "ValidateCapabilityID (gID p) = None" "covers_id (gID p) (oID op)"
    using v e covers_id_trans by (auto simp: grant_error_def)
  show ?thesis
  proof (cases "unconstrained p")
    case False
    then have c: "\<not> unconstrained c" using v by blast
    then have i: "inputs_ok c op" and d: "declared_ok (entries (oParams op)) (entries (gParams c)) (gParamBounds c)"
      using e by auto
    have op: "opt_check ValidateOperationParams (oParams op) = None" using i by (simp add: inputs_ok_def)
    have "declared_ok (entries (oParams op)) (entries (gParams p)) (gParamBounds p)"
      using declared_narrowing [OF con False d _ wf steps safe] ValidateOperationParams_canon [OF op] by blast
    moreover have "inputs_ok p op"
      using v op by (cases "gParams p") (auto simp: inputs_ok_def grant_error_def opt_check_def)
    ultimately show ?thesis using ids e by (auto simp: Entails_iff)
  qed (use ids e in \<open>auto simp: Entails_iff\<close>)
qed

interpretation grant_narrowing: narrowing
  "\<lambda>c p. Contains p c = None \<and> grant_wf p \<and> grant_wf c \<and> exact_steps p \<and> exact_steps c \<and> safe_narrowing p c"
  "\<lambda>g op. Entails g op = None"
  by unfold_locales (auto intro: Contains_sound_aux)

end
