(* ===== verification/Canonical_Laws.thy ===== *)
theory Canonical_Laws
  imports Canonical
begin

text \<open>
  What the canonical form determines: a string (the escapes can be decoded), a boolean and null, and
  that numbers are written with other first characters than every other kind of value.
\<close>

subsection \<open>Strings\<close>

text \<open>Reading one character of an escaped string back.\<close>

fun unescape :: "string \<Rightarrow> (char \<times> string) option" where
  "unescape [] = None"
| "unescape (c # cs) =
     (if c \<noteq> CHR 0x5C then Some (c, cs)
      else
        case cs of
          [] \<Rightarrow> None
        | d # ds \<Rightarrow>
            if d = CHR ''b'' then Some (CHR 0x08, ds)
            else if d = CHR ''f'' then Some (CHR 0x0C, ds)
            else if d = CHR ''n'' then Some (CHR 0x0A, ds)
            else if d = CHR ''r'' then Some (CHR 0x0D, ds)
            else if d = CHR ''t'' then Some (CHR 0x09, ds)
            else if d = CHR ''u'' then
              (case ds of
                 _ # _ # h # l # rest \<Rightarrow>
                   Some (char_of ((if h = CHR ''1'' then 16 else 0) +
                     (let v = (of_char l :: int) in if v < 58 then v - 48 else v - 87)), rest)
               | _ \<Rightarrow> None)
            else Some (d, ds))"

lemma unescape_control:
  assumes "n < 32" and "0 \<le> n"
  shows "(char_of ((if hex_digit (n div 16) = CHR ''1'' then 16 else 0) +
           (let v = (of_char (hex_digit (n mod 16)) :: int) in if v < 58 then v - 48 else v - 87)) :: char) = char_of n"
proof -
  have "\<forall>k \<in> set [0 .. 31]. (char_of ((if hex_digit (k div 16) = CHR ''1'' then 16 else 0) +
      (let v = (of_char (hex_digit (k mod 16)) :: int) in if v < 58 then v - 48 else v - 87)) :: char) = char_of k"
    by code_simp
  moreover have "n \<in> set [0 .. 31]" using assms by simp
  ultimately show ?thesis by blast
qed

lemma char_codes:
  "char_of (34 :: int) = CHR 0x22" "char_of (92 :: int) = CHR 0x5C" "char_of (8 :: int) = CHR 0x08"
  "char_of (12 :: int) = CHR 0x0C" "char_of (10 :: int) = CHR 0x0A" "char_of (13 :: int) = CHR 0x0D"
  "char_of (9 :: int) = CHR 0x09"
  by code_simp+

lemma unescape_escape: "unescape (escape_char c @ s) = Some (c, s)"
proof -
  define n where "n = (of_char c :: int)"
  have c: "c = char_of n" by (simp add: n_def)
  have n0: "0 \<le> n" unfolding n_def by (metis of_nat_0_le_iff of_nat_of_char)
  have bs: "c = CHR 0x5C \<longleftrightarrow> n = 92"
  proof
    assume "n = 92"
    then show "c = CHR 0x5C" unfolding c by (simp only:) code_simp
  next
    assume "c = CHR 0x5C"
    then show "n = 92" unfolding n_def by (simp only:) code_simp
  qed
  consider "n = 34" | "n = 92" | "n = 8" | "n = 12" | "n = 10" | "n = 13" | "n = 9"
    | "n < 32" "n \<noteq> 8" "n \<noteq> 12" "n \<noteq> 10" "n \<noteq> 13" "n \<noteq> 9"
    | "32 \<le> n" "n \<noteq> 34" "n \<noteq> 92" by linarith
  then show ?thesis
  proof cases
    case 8
    have "escape_char c = [CHR 0x5C, CHR ''u'', CHR ''0'', CHR ''0'', hex_digit (n div 16), hex_digit (n mod 16)]"
      using 8 by (simp add: escape_char_def n_def [symmetric] Let_def)
    then show ?thesis using unescape_control [OF 8(1) n0] c by simp
  next
    case 9
    then have "escape_char c = [c]" by (simp add: escape_char_def n_def [symmetric] Let_def)
    then show ?thesis using bs 9 by simp
  qed (auto simp: escape_char_def n_def [symmetric] Let_def c char_codes)
qed

lemma unescape_quote: "unescape (CHR 0x22 # s) = Some (CHR 0x22, s)"
  by simp

lemma escape_not_quote: "escape_char c @ s \<noteq> CHR 0x22 # t"
proof -
  have "hd (escape_char c) \<noteq> CHR 0x22 \<and> escape_char c \<noteq> []"
  proof (cases "c = CHR 0x22")
    case True
    then show ?thesis by (simp only:) code_simp
  next
    case False
    then show ?thesis by (auto simp: escape_char_def Let_def)
  qed
  then show ?thesis by (cases "escape_char c") auto
qed

lemma concat_escape_inj:
  "concat (map escape_char s) @ CHR 0x22 # u = concat (map escape_char t) @ CHR 0x22 # v \<Longrightarrow> s = t \<and> u = v"
proof (induction s arbitrary: t)
  case Nil
  then show ?case using escape_not_quote by (cases t) (auto, metis)
next
  case (Cons c s)
  show ?case
  proof (cases t)
    case Nil
    then show ?thesis using Cons.prems escape_not_quote by simp
  next
    case (Cons d t')
    have "Some (c, concat (map escape_char s) @ CHR 0x22 # u) = Some (d, concat (map escape_char t') @ CHR 0x22 # v)"
      using Cons.prems unfolding Cons
      by (metis append.assoc concat.simps(2) list.simps(9) unescape_escape)
    with Cons.IH Cons show ?thesis by simp
  qed
qed

lemma writeCanonicalString_inj:
  "writeCanonicalString s @ u = writeCanonicalString t @ v \<Longrightarrow> s = t \<and> u = v"
  by (rule concat_escape_inj) (simp add: writeCanonicalString_def)

subsection \<open>Numbers\<close>

definition digit_char :: "char \<Rightarrow> bool" where
  "digit_char c \<longleftrightarrow> 48 \<le> (of_char c :: int) \<and> (of_char c :: int) \<le> 57"

lemma digit_char_of: "0 \<le> d \<Longrightarrow> d \<le> 9 \<Longrightarrow> digit_char (char_of (48 + d :: int))"
  by (simp add: digit_char_def)

lemma itoa_nat_digits:
  "0 \<le> n \<Longrightarrow> itoa_nat n \<noteq> [] \<and> (\<forall>c \<in> set (itoa_nat n). digit_char c)"
proof (induction n rule: itoa_nat.induct)
  case (1 n)
  show ?case
  proof (cases "n < 10")
    case True
    then show ?thesis using 1(2) by (simp add: itoa_nat.simps [of n] digit_char_of)
  next
    case False
    have "digit_char (char_of (48 + n mod 10))" by (rule digit_char_of) simp_all
    then show ?thesis using False 1 by (simp add: itoa_nat.simps [of n])
  qed
qed

lemma pow_int_pos: "0 < b \<Longrightarrow> 0 < pow_int b k"
  by (simp add: pow_int_def)

lemma round_half_even_nonneg: "0 \<le> x \<Longrightarrow> 0 \<le> round_half_even x"
  using round_half_even_lower [of 0 x] by simp

lemma shortest_search_nonneg: "0 < r \<Longrightarrow> 0 \<le> fst (shortest_search r ks)"
proof (induction ks)
  case Nil
  then show ?case using pow_int_pos [of 10] by (simp add: round_half_even_nonneg less_imp_le)
next
  case (Cons k ks)
  have "0 \<le> r / pow_int 10 (floor_log 10 r - int k + 1)"
    using Cons.prems pow_int_pos [of 10] by (simp add: less_imp_le)
  then have "0 \<le> m" if "shortest_at r k = Some (m, x)" for m x
    using that by (auto simp: shortest_at_def Let_def round_half_even_nonneg split: if_splits)
  with Cons show ?case by (cases "shortest_at r k") auto
qed

lemma set_trim_right_zeros: "set (trim_right_zeros s) \<subseteq> set s"
  unfolding trim_right_zeros_def using set_dropWhileD by force

text \<open>A number is written with a minus sign or a digit first.\<close>

lemma formatCanonicalFloat_hd:
  "\<exists>c s. formatCanonicalFloat f = c # s \<and> (c = CHR ''-'' \<or> digit_char c)"
proof (cases "f = 0")
  case True
  have "digit_char (CHR ''0'')" by code_simp
  with True show ?thesis by (simp add: formatCanonicalFloat_def)
next
  case False
  obtain m x where mx: "shortest_decimal \<bar>f\<bar> = (m, x)" by fastforce
  define digits where "digits = (if trim_right_zeros (itoa_nat m) = [] then ''0'' else trim_right_zeros (itoa_nat m))"
  have "0 \<le> m" using shortest_search_nonneg [of "\<bar>f\<bar>" "[1 ..< 18]"] mx False by (simp add: shortest_decimal_def)
  then have d: "\<forall>c \<in> set (itoa_nat m). digit_char c" using itoa_nat_digits by blast
  have z: "digit_char (CHR ''0'')" by code_simp
  have "\<exists>c s. digits = c # s \<and> digit_char c"
    using d z set_trim_right_zeros [of "itoa_nat m"]
    by (cases "trim_right_zeros (itoa_nat m)") (auto simp: digits_def)
  then obtain c s where cs: "digits = c # s" "digit_char c" by blast
  then show ?thesis
    using False z by (auto simp: formatCanonicalFloat_def mx Let_def digits_def [symmetric] take_Cons')
qed

text \<open>The first character tells the kind of a value.\<close>

lemma digit_char_kinds:
  "\<not> digit_char (CHR 0x22)" "\<not> digit_char (CHR ''t'')" "\<not> digit_char (CHR ''f'')" "\<not> digit_char (CHR ''n'')"
  "\<not> digit_char (CHR ''['')" "\<not> digit_char (CHR ''{'')"
  by code_simp+

lemma number_kind: "\<exists>c s. writeCanonicalJSON (JNum (Fin r)) = c # s \<and> (c = CHR ''-'' \<or> digit_char c)"
  using formatCanonicalFloat_hd by simp

lemma write_JStr_eq:
  assumes "writeCanonicalJSON (JStr s) = writeCanonicalJSON b" and "\<forall>k i. b \<noteq> JInt k i" and "\<not> unencodable b"
  shows "b = JStr s"
proof (cases b)
  case (JStr t)
  then show ?thesis using assms(1) writeCanonicalString_inj [of s "[]" t "[]"] by simp
next
  case (JNum f)
  then obtain r where "f = Fin r" using assms(3) by (cases f) auto
  then show ?thesis using number_kind [of r] assms(1) JNum digit_char_kinds
    by (auto simp: writeCanonicalString_def)
qed (use assms in \<open>auto simp: writeCanonicalString_def split: if_splits\<close>)

lemma write_JBool_eq:
  assumes "writeCanonicalJSON (JBool t) = writeCanonicalJSON b" and "\<forall>k i. b \<noteq> JInt k i" and "\<not> unencodable b"
  shows "b = JBool t"
proof (cases b)
  case (JNum f)
  then obtain r where "f = Fin r" using assms(3) by (cases f) auto
  then show ?thesis using number_kind [of r] assms(1) JNum digit_char_kinds
    by (auto split: if_splits)
qed (use assms in \<open>auto simp: writeCanonicalString_def split: if_splits\<close>)

end
