(* ===== verification/Intersect_Laws.thy ===== *)
theory Intersect_Laws
  imports Grant_Laws Canonical_Laws
begin

text \<open>
  Laws of \<open>Intersect\<close>: the effective grant admits only what every source admits of the part it
  declares, and it carries the constraints of every source.
\<close>

subsection \<open>Merging two maps\<close>

lemma keys_filter: "set (map fst (filter (\<lambda>x. fst x \<notin> A) b)) = set (map fst b) - A"
  by (induction b) auto

lemma merge_maps_members:
  assumes "merge_maps f a b = Inr m" and "gomap_ok a" and "gomap_ok b"
  shows "gomap_ok m" and "set (gokeys m) = set (gokeys a) \<union> set (gokeys b)"
    and "(k, av) \<in> set a \<Longrightarrow> map_of b k = None \<Longrightarrow> (k, av) \<in> set m"
    and "(k, av) \<in> set a \<Longrightarrow> map_of b k = Some bv \<Longrightarrow> \<exists>r. f av bv = Inr r \<and> (k, r) \<in> set m"
    and "(k, bv) \<in> set b \<Longrightarrow> \<not> has_key a k \<Longrightarrow> (k, bv) \<in> set m"
    and "(k, r) \<in> set m \<Longrightarrow> (k, r) \<in> set a \<or> (k, r) \<in> set b \<or>
           (\<exists>av bv. (k, av) \<in> set a \<and> (k, bv) \<in> set b \<and> f av bv = Inr r)"
proof -
  let ?f = "\<lambda>x. case map_of b (fst x) of None \<Rightarrow> Inr x
      | Some bv \<Rightarrow> (case f (snd x) bv of Inl e \<Rightarrow> Inl e | Inr v \<Rightarrow> Inr (fst x, v))"
  let ?new = "filter (\<lambda>x. \<not> has_key a (fst x)) b"
  obtain res where m: "m = res @ ?new" and "map_err ?f a = Inr res"
    using assms(1) by (auto simp: merge_maps_def split: sum.splits)
  then have r: "list_all2 (\<lambda>x y. ?f x = Inr y) a res" by (simp only: map_err_Inr)
  have rel: "list_all2 (\<lambda>x y. fst y = fst x \<and> ?f x = Inr y) a res"
    by (rule list_all2_mono [OF r]) (auto split: option.splits sum.splits)
  have keys: "gokeys res = gokeys a" by (rule list_all2_keys [OF rel])
  have "distinct (gokeys ?new)" using assms(3) by (simp add: gomap_ok_def distinct_map_filter)
  then show "gomap_ok m"
    using assms(2) keys by (force simp: m gomap_ok_def has_key_iff)
  show "set (gokeys m) = set (gokeys a) \<union> set (gokeys b)"
  proof -
    have "set (gokeys ?new) = set (gokeys b) - set (gokeys a)"
      unfolding has_key_iff by (rule keys_filter)
    then show ?thesis by (simp only: m map_append set_append keys Un_Diff_cancel)
  qed
  show "(k, av) \<in> set a \<Longrightarrow> map_of b k = None \<Longrightarrow> (k, av) \<in> set m"
    using list_all2_left [OF rel, of "(k, av)"] by (auto simp: m)
  show "(k, av) \<in> set a \<Longrightarrow> map_of b k = Some bv \<Longrightarrow> \<exists>r. f av bv = Inr r \<and> (k, r) \<in> set m"
    using list_all2_left [OF rel, of "(k, av)"] by (auto simp: m split: sum.splits)
  show "(k, bv) \<in> set b \<Longrightarrow> \<not> has_key a k \<Longrightarrow> (k, bv) \<in> set m" by (simp add: m)
  assume "(k, r) \<in> set m"
  then show "(k, r) \<in> set a \<or> (k, r) \<in> set b \<or>
      (\<exists>av bv. (k, av) \<in> set a \<and> (k, bv) \<in> set b \<and> f av bv = Inr r)"
    using list_all2_right [OF rel, of "(k, r)"]
    by (fastforce simp: m split: option.splits sum.splits dest: map_of_SomeD)
qed

lemma merge_maps_sound:
  assumes "merge_maps f a b = Inr m" and "gomap_ok a" and "gomap_ok b"
    and f: "\<And>x y r. good x \<Longrightarrow> good y \<Longrightarrow> f x y = Inr r \<Longrightarrow> good r \<and> (\<forall>w. sat r w \<longrightarrow> sat x w \<and> sat y w)"
    and good: "\<forall>x \<in> set a. good (snd x)" "\<forall>x \<in> set b. good (snd x)"
  shows "gomap_ok m \<and> (\<forall>x \<in> set m. good (snd x))"
    and "\<forall>x \<in> set m. sat (snd x) (w (fst x)) \<Longrightarrow>
           (\<forall>x \<in> set a. sat (snd x) (w (fst x))) \<and> (\<forall>x \<in> set b. sat (snd x) (w (fst x)))"
proof -
  note mm = merge_maps_members [OF assms(1-3)]
  show "gomap_ok m \<and> (\<forall>x \<in> set m. good (snd x))"
  proof (intro conjI ballI)
    fix x
    assume "x \<in> set m"
    then consider "(fst x, snd x) \<in> set a" | "(fst x, snd x) \<in> set b"
      | av bv where "(fst x, av) \<in> set a" "(fst x, bv) \<in> set b" "f av bv = Inr (snd x)"
      using mm(6) [of "fst x" "snd x"] by auto
    then show "good (snd x)"
    proof cases
      case 3
      then have "good av" "good bv" using good by force+
      then show ?thesis using f 3(3) by blast
    qed (use good in force)+
  qed (rule mm(1))
  assume s: "\<forall>x \<in> set m. sat (snd x) (w (fst x))"
  have a: "sat av (w k)" if k: "(k, av) \<in> set a" for k av
  proof (cases "map_of b k")
    case None
    then show ?thesis using mm(3) [OF k] s by fastforce
  next
    case (Some bv)
    obtain r where r: "f av bv = Inr r" "(k, r) \<in> set m" using mm(4) [OF k Some] by blast
    have "good av" "good bv" using good k map_of_SomeD [OF Some] by force+
    moreover have "sat r (w k)" using s r(2) by force
    ultimately show ?thesis using f r(1) by blast
  qed
  have b: "sat bv (w k)" if k: "(k, bv) \<in> set b" for k bv
  proof (cases "has_key a k")
    case False
    then show ?thesis using mm(5) [OF k] s by fastforce
  next
    case True
    then obtain av where av: "(k, av) \<in> set a" by (auto simp: has_key_def dest: map_of_SomeD)
    have "map_of b k = Some bv" using k assms(3) by (simp add: gomap_ok_def)
    then obtain r where r: "f av bv = Inr r" "(k, r) \<in> set m" using mm(4) [OF av] by blast
    have "good av" "good bv" using good k av by force+
    moreover have "sat r (w k)" using s r(2) by force
    ultimately show ?thesis using f r(1) by blast
  qed
  show "(\<forall>x \<in> set a. sat (snd x) (w (fst x))) \<and> (\<forall>x \<in> set b. sat (snd x) (w (fst x)))"
    using a b by auto
qed

lemma intersectBounds_merge:
  "intersectBounds a b = merge_maps (\<lambda>x y. case boundMeet x y of Inl e \<Rightarrow> Inl e | Inr m \<Rightarrow> Inr (JObj m)) a b"
proof -
  have "(\<lambda>x. case map_of b (fst x) of None \<Rightarrow> Inr x
        | Some bv \<Rightarrow> (case boundMeet (snd x) bv of Inl e \<Rightarrow> Inl e | Inr m \<Rightarrow> Inr (fst x, JObj m))) =
      (\<lambda>x. case map_of b (fst x) of None \<Rightarrow> Inr x
        | Some bv \<Rightarrow> (case (case boundMeet (snd x) bv of Inl e \<Rightarrow> Inl e | Inr m \<Rightarrow> Inr (JObj m)) of
             Inl e \<Rightarrow> Inl e | Inr v \<Rightarrow> Inr (fst x, v)))"
    by (auto simp: fun_eq_iff split: option.splits sum.splits)
  moreover have "map_err Inr a = (Inr a :: error + obj)" by (simp add: map_err_Inr list_all2_refl)
  ultimately show ?thesis by (cases "b = []") (auto simp: intersectBounds_def merge_maps_def has_key_def)
qed

subsection \<open>The intersection of two values\<close>

text \<open>
  Values as a JSON decoder produces them (no host integers), with finite numbers, canonical enum
  members and no repeated key.
\<close>

fun decoded :: "json \<Rightarrow> bool" where
  "decoded (JInt k i) = False"
| "decoded (JArr xs) = (\<forall>x \<in> set xs. decoded x)"
| "decoded (JObj m) = (\<forall>x \<in> set m. decoded (snd x))"
| "decoded _ = True"

text \<open>Good at a nesting depth \<open>d\<close>, the depth \<open>CanonicalJSON\<close> has reached.\<close>

definition val_at :: "int \<Rightarrow> json \<Rightarrow> bool" where
  "val_at d v \<longleftrightarrow> validateCanonicalStrings v d = None \<and> \<not> unencodable v \<and> json_ok v \<and> decoded v"

lemma val_at_canon: "val_at d v \<Longrightarrow> 0 \<le> d \<Longrightarrow> canon_ok v"
  by (auto simp: val_at_def canon_ok_def intro: validateCanonicalStrings_depth)

lemma val_at_JObj:
  "val_at d (JObj m) \<longleftrightarrow> d \<le> 1000 \<and> gomap_ok m \<and>
     (\<forall>x \<in> set m. checkCanonicalString (fst x) = None \<and> val_at (d + 1) (snd x))"
  by (auto simp: val_at_def validate_strings_simps)

lemma val_at_JArr:
  "val_at d (JArr xs) \<longleftrightarrow> d \<le> 1000 \<and> (\<forall>x \<in> set xs. val_at (d + 1) x)"
  by (auto simp: val_at_def validate_strings_simps)

definition val_meet_ok :: "int \<Rightarrow> json \<Rightarrow> json \<Rightarrow> json \<Rightarrow> bool" where
  "val_meet_ok d a b m \<longleftrightarrow> val_at d m \<and>
     (\<forall>v. canon_ok v \<longrightarrow> valueSubset v m = None \<longrightarrow> valueSubset v a = None \<and> valueSubset v b = None)"

lemma intersectValue_arr:
  assumes "val_at d (JArr av)" and "val_at d (JArr bv)" and "0 \<le> d" and "enum_inter av bv \<noteq> []"
  shows "val_meet_ok d (JArr av) (JArr bv) (JArr (enum_inter av bv))"
proof -
  have sub: "set (enum_inter av bv) \<subseteq> set av" and w: "enum_within (enum_inter av bv) bv"
    by (auto simp: enum_inter_def enum_within_def)
  have ne: "av \<noteq> []" "bv \<noteq> []" using assms(4) by (auto simp: enum_inter_def filter_empty_conv)
  have cb: "\<forall>y \<in> set bv. canon_ok y" and ca: "\<forall>z \<in> set (enum_inter av bv). canon_ok z"
    using assms(1-3) sub val_at_canon [of "d + 1"] by (auto simp: val_at_JArr)
  have "enum_within us av \<and> enum_within us bv"
    if "\<forall>u \<in> set us. canon_ok u" "enum_within us (enum_inter av bv)" for us
    using enum_within_mono [OF that(2) sub] enum_within_trans [OF that(2) w that(1) ca cb] by blast
  then show ?thesis
    using assms(1) sub ne canon_ok_request_elems
    by (auto simp: val_meet_ok_def valueSubset_JArr val_at_JArr)
qed

lemma intersectValue_num:
  assumes "a \<noteq> NaN" and "b \<noteq> NaN"
  shows "\<not> f64_less (if f64_less a b then a else b) n \<Longrightarrow> \<not> f64_less a n \<and> \<not> f64_less b n"
  using assms by (cases a; cases b; cases n) (auto split: if_splits)

text \<open>A string, a boolean and null are compared by canonical form, which determines them.\<close>

lemma intersectValue_exact:
  assumes "val_at d a" and "val_at d b" and "0 \<le> d" and "enumEqual a b"
    and "a = JNull \<or> (\<exists>t. a = JBool t) \<or> (\<exists>s. a = JStr s)"
  shows "val_meet_ok d a b a"
proof -
  have w: "writeCanonicalJSON a = writeCanonicalJSON b"
    using assms(4) enumEqual_canon val_at_canon [OF assms(1,3)] val_at_canon [OF assms(2,3)] by blast
  have b: "\<forall>k i. b \<noteq> JInt k i" "\<not> unencodable b" using assms(2) by (auto simp: val_at_def)
  have "valueSubset v b = None" if "valueSubset v a = None" for v
    using assms(5) that write_JStr_eq [OF _ b] write_JBool_eq [OF _ b] w by auto
  with assms(1) show ?thesis by (simp add: val_meet_ok_def)
qed

lemma intersectValue_obj:
  assumes "val_at d (JObj av)" and "val_at d (JObj bv)" and "intersectValue (JObj av) (JObj bv) = Inr m"
    and IH: "\<And>x y r. x \<in> set av \<Longrightarrow> val_at (d + 1) (snd x) \<Longrightarrow> val_at (d + 1) y \<Longrightarrow>
               intersectValue (snd x) y = Inr r \<Longrightarrow> val_meet_ok (d + 1) (snd x) y r"
  shows "val_meet_ok d (JObj av) (JObj bv) m"
proof -
  let ?f = "\<lambda>x. case map_of bv (fst x) of None \<Rightarrow> Inl (Err ErrNoOverlap)
      | Some bvv \<Rightarrow> (case intersectValue (snd x) bvv of Inl e \<Rightarrow> Inl e | Inr v \<Rightarrow> Inr (fst x, v))"
  obtain res where len: "length av = length bv" and m: "m = JObj res" "res \<noteq> []" and "map_err ?f av = Inr res"
    using assms(3) by (auto split: if_splits sum.splits)
  then have r: "list_all2 (\<lambda>x y. ?f x = Inr y) av res" by (simp only: map_err_Inr)
  have rel: "list_all2 (\<lambda>x y. fst y = fst x \<and> (\<exists>bv'. map_of bv (fst x) = Some bv'
      \<and> intersectValue (snd x) bv' = Inr (snd y))) av res"
    by (rule list_all2_mono [OF r]) (auto split: option.splits sum.splits)
  have keys: "gokeys res = gokeys av" by (rule list_all2_keys [OF rel])
  have ga: "gomap_ok av" "gomap_ok bv" using assms(1,2) by (simp_all add: val_at_JObj)
  have okb: "val_at (d + 1) b'" if "map_of bv k = Some b'" for k b'
    using assms(2) map_of_SomeD [OF that] by (fastforce simp: val_at_JObj)
  have fwd: "\<exists>b' y. map_of bv k = Some b' \<and> (k, y) \<in> set res \<and> val_meet_ok (d + 1) a' b' y"
    if k: "(k, a') \<in> set av" for k a'
    using list_all2_left [OF rel k] IH [OF k] okb assms(1) k by (fastforce simp: val_at_JObj)
  have bwd: "\<exists>a' b'. (k, a') \<in> set av \<and> val_meet_ok (d + 1) a' b' y" if k: "(k, y) \<in> set res" for k y
    using list_all2_right [OF rel k] IH okb assms(1) by (fastforce simp: val_at_JObj)
  have same: "set (gokeys bv) = set (gokeys av)"
  proof -
    have "set (gokeys av) \<subseteq> set (gokeys bv)" using fwd by (force dest: map_of_SomeD)
    moreover have "card (set (gokeys bv)) = card (set (gokeys av))"
      using len ga by (simp only: gomap_ok_def distinct_card length_map)
    ultimately show ?thesis by (metis List.finite_set card_subset_eq)
  qed
  have "gomap_ok res" using keys ga(1) by (simp add: gomap_ok_def)
  moreover have "checkCanonicalString (fst x) = None \<and> val_at (d + 1) (snd x)" if "x \<in> set res" for x
    using bwd [of "fst x" "snd x"] that assms(1) by (fastforce simp: val_at_JObj val_meet_ok_def)
  ultimately have g: "val_at d m" using assms(1) by (simp add: m val_at_JObj)
  have "valueSubset v (JObj av) = None \<and> valueSubset v (JObj bv) = None"
    if v: "canon_ok v" "valueSubset v m = None" for v
  proof -
    obtain om where om: "v = JObj om" using v(2) by (auto simp: m valueSubset_JObj)
    have sat: "\<exists>w. map_of om k = Some w \<and> valueSubset w g = None" if "(k, g) \<in> set res" for k g
      using v(2) m that by (auto simp: om valueSubset_JObj)
    have closed: "has_key av k \<and> has_key bv k" if "(k, w) \<in> set om" for k w
      using v(2) m that keys same by (auto simp: om valueSubset_JObj has_key_iff)
    have both: "\<exists>w. map_of om k = Some w \<and> valueSubset w a' = None \<and> valueSubset w b' = None"
      if ab: "(k, a') \<in> set av" "map_of bv k = Some b'" for k a' b'
    proof -
      obtain y where y: "(k, y) \<in> set res" "val_meet_ok (d + 1) a' b' y" using fwd [OF ab(1)] ab(2) by auto
      obtain w where w: "map_of om k = Some w" "valueSubset w y = None" using sat [OF y(1)] by blast
      have "canon_ok w" using v(1) w(1) unfolding om by (rule canon_ok_lookup)
      with w y(2) show ?thesis unfolding val_meet_ok_def by blast
    qed
    have "\<exists>w. map_of om k = Some w \<and> valueSubset w a' = None" if "(k, a') \<in> set av" for k a'
      using fwd [OF that] both [OF that] by blast
    moreover have "\<exists>w. map_of om k = Some w \<and> valueSubset w b' = None" if k: "(k, b') \<in> set bv" for k b'
    proof -
      have "k \<in> set (gokeys av)" using k same by force
      then obtain a' where "(k, a') \<in> set av" by auto
      moreover have "map_of bv k = Some b'" using k ga(2) by (simp add: gomap_ok_def)
      ultimately show ?thesis using both by blast
    qed
    ultimately have "\<forall>(k, g) \<in> set av. \<exists>w. map_of om k = Some w \<and> valueSubset w g = None"
      and "\<forall>(k, g) \<in> set bv. \<exists>w. map_of om k = Some w \<and> valueSubset w g = None" by auto
    moreover have "\<forall>(k, w) \<in> set om. has_key av k" "\<forall>(k, w) \<in> set om. has_key bv k"
      using closed by auto
    ultimately show ?thesis unfolding om valueSubset_JObj by simp
  qed
  with g show ?thesis unfolding val_meet_ok_def by blast
qed

lemma intersectValue_ok:
  "val_at d a \<Longrightarrow> val_at d b \<Longrightarrow> 0 \<le> d \<Longrightarrow> intersectValue a b = Inr m \<Longrightarrow> val_meet_ok d a b m"
proof (induction a arbitrary: b m d)
  case (JNum f)
  then obtain h where h: "b = JNum h" "m = JNum (if f64_less f h then f else h)" by (cases b) auto
  have nan: "f \<noteq> NaN" "h \<noteq> NaN" using JNum.prems h by (auto simp: val_at_def)
  have "val_at d m" using JNum.prems h by (auto simp: val_at_def validate_strings_simps)
  moreover have "valueSubset v (JNum f) = None \<and> valueSubset v b = None" if vm: "valueSubset v m = None" for v
  proof -
    have num: "valueSubset v (JNum g) = None \<longleftrightarrow> (\<exists>n. numericValue v = Some n \<and> \<not> f64_less g n)" for g
      by (rule valueSubset_number) simp
    obtain n where n: "numericValue v = Some n" "\<not> f64_less (if f64_less f h then f else h) n"
      using vm unfolding h(2) num by blast
    with intersectValue_num [OF nan n(2)] show ?thesis unfolding h(1) num by blast
  qed
  ultimately show ?case by (simp add: val_meet_ok_def)
next
  case (JArr av)
  then obtain bv where "b = JArr bv" "enum_inter av bv \<noteq> []" "m = JArr (enum_inter av bv)"
    by (cases b) (auto split: if_splits)
  with intersectValue_arr JArr.prems show ?case by blast
next
  case (JObj av)
  then obtain bv where b: "b = JObj bv" by (cases b) auto
  show ?case unfolding b
    by (rule intersectValue_obj)
      (use JObj.prems b in \<open>auto intro!: JObj.IH simp: snds.simps prod_eq_iff simp del: intersectValue.simps\<close>)
qed (auto simp: val_at_def split: if_splits intro!: intersectValue_exact)

subsection \<open>The intersection of two grants\<close>

definition psat :: "json \<Rightarrow> json option \<Rightarrow> bool" where
  "psat g w \<longleftrightarrow> (\<exists>v. w = Some v \<and> canon_ok v \<and> valueSubset v g = None)"

definition bsat :: "json \<Rightarrow> json option \<Rightarrow> bool" where
  "bsat b w \<longleftrightarrow>
     (case w of
        None \<Rightarrow> boundOptional b
      | Some v \<Rightarrow> canon_ok v \<and> rejectNonFinite v = None \<and> boundSubset v b = None)"

definition source_good :: "Grant \<Rightarrow> bool" where
  "source_good g \<longleftrightarrow>
     gomap_ok (entries (gParams g)) \<and> (\<forall>x \<in> set (entries (gParams g)). val_at 1 (snd x)) \<and>
     gomap_ok (gParamBounds g) \<and> (\<forall>x \<in> set (gParamBounds g). bound_good (snd x))"

text \<open>The grant admits the part of the operation it declares.\<close>

definition source_admits :: "Grant \<Rightarrow> Operation \<Rightarrow> bool" where
  "source_admits g op \<longleftrightarrow>
     ValidateCapabilityID (gID g) = None \<and> ValidateCapabilityID (oID op) = None \<and>
     covers_id (gID g) (oID op) \<and>
     (\<forall>x \<in> set (entries (gParams g)). psat (snd x) (map_of (entries (oParams op)) (fst x))) \<and>
     (\<forall>x \<in> set (gParamBounds g). bsat (snd x) (map_of (entries (oParams op)) (fst x)))"

lemma psat_meet:
  "val_at 1 x \<Longrightarrow> val_at 1 y \<Longrightarrow> intersectValue x y = Inr r \<Longrightarrow>
     val_at 1 r \<and> (\<forall>w. psat r w \<longrightarrow> psat x w \<and> psat y w)"
  using intersectValue_ok [of 1 x y r] by (auto simp: val_meet_ok_def psat_def)

lemma bsat_meet:
  assumes "bound_good x" and "bound_good y"
    and "(case boundMeet x y of Inl e \<Rightarrow> Inl e | Inr m \<Rightarrow> Inr (JObj m)) = Inr r"
  shows "bound_good r \<and> (\<forall>w. bsat r w \<longrightarrow> bsat x w \<and> bsat y w)"
proof -
  obtain m where m: "boundMeet x y = Inr m" "r = JObj m" using assms(3) by (auto split: sum.splits)
  have ok: "meet_ok x y m" by (rule boundMeet_ok [OF assms(1,2) m(1)])
  have "bsat x w \<and> bsat y w" if "bsat r w" for w
    using that ok boundMeet_optional [OF m(1)]
    by (cases w) (auto simp: bsat_def meet_ok_def m(2) simp del: boundOptional.simps bound_good.simps)
  with ok show ?thesis by (simp add: meet_ok_def m(2) del: bound_good.simps)
qed

lemma narrower_id_sound:
  "narrower_id a b = Inr c \<Longrightarrow> ValidateCapabilityID c = None \<Longrightarrow> covers_id c x \<Longrightarrow>
     ValidateCapabilityID a = None \<and> covers_id a x \<and> ValidateCapabilityID b = None \<and> covers_id b x"
  by (auto simp: narrower_id_def bare_entails split: if_splits intro: covers_id_trans)

lemma intersect_params_merge:
  assumes "intersect_params p q = Inr r"
  shows "merge_maps intersectValue (entries p) (entries q) = Inr (entries r)"
proof -
  have "map_err Inr m = (Inr m :: error + obj)" for m by (simp add: map_err_Inr list_all2_refl)
  with assms show ?thesis
    by (cases p; cases q) (auto simp: intersect_params_def merge_maps_def has_key_def split: sum.splits)
qed

lemma intersect_step_ok:
  assumes "source_good a" and "source_good b" and "intersect_step a b = Inr m"
  shows "source_good m" and "source_admits m op \<Longrightarrow> source_admits a op \<and> source_admits b op"
proof -
  have cid: "narrower_id (gID a) (gID b) = Inr (gID m)"
    and ps: "intersect_params (gParams a) (gParams b) = Inr (gParams m)"
    and bs: "intersectBounds (gParamBounds a) (gParamBounds b) = Inr (gParamBounds m)"
    using assms(3) by (auto simp: intersect_step_def split: sum.splits)
  let ?w = "map_of (entries (oParams op))"
  note pm = merge_maps_sound(1) [where good = "val_at 1" and sat = psat, OF intersect_params_merge [OF ps]]
      merge_maps_sound(2) [where good = "val_at 1" and sat = psat and w = ?w, OF intersect_params_merge [OF ps]]
    and bm = merge_maps_sound(1) [where good = bound_good and sat = bsat, OF bs [unfolded intersectBounds_merge]]
      merge_maps_sound(2) [where good = bound_good and sat = bsat and w = ?w,
        OF bs [unfolded intersectBounds_merge]]
  have ga: "gomap_ok (entries (gParams a))" "gomap_ok (entries (gParams b))"
      "gomap_ok (gParamBounds a)" "gomap_ok (gParamBounds b)"
      "\<forall>x \<in> set (entries (gParams a)). val_at 1 (snd x)" "\<forall>x \<in> set (entries (gParams b)). val_at 1 (snd x)"
      "\<forall>x \<in> set (gParamBounds a). bound_good (snd x)" "\<forall>x \<in> set (gParamBounds b). bound_good (snd x)"
    using assms(1,2) by (simp_all add: source_good_def)
  have "gomap_ok (entries (gParams m)) \<and> (\<forall>x \<in> set (entries (gParams m)). val_at 1 (snd x))"
    by (rule pm(1) [OF ga(1,2) psat_meet ga(5,6)])
  moreover have "gomap_ok (gParamBounds m) \<and> (\<forall>x \<in> set (gParamBounds m). bound_good (snd x))"
    by (rule bm(1) [OF ga(3,4) bsat_meet ga(7,8)])
  ultimately show "source_good m" unfolding source_good_def by blast
  have p2: "(\<forall>x \<in> set (entries (gParams a)). psat (snd x) (?w (fst x))) \<and>
      (\<forall>x \<in> set (entries (gParams b)). psat (snd x) (?w (fst x)))"
    if "\<forall>x \<in> set (entries (gParams m)). psat (snd x) (?w (fst x))"
    by (rule pm(2) [OF ga(1,2) psat_meet ga(5,6) that])
  have b2: "(\<forall>x \<in> set (gParamBounds a). bsat (snd x) (?w (fst x))) \<and>
      (\<forall>x \<in> set (gParamBounds b). bsat (snd x) (?w (fst x)))"
    if "\<forall>x \<in> set (gParamBounds m). bsat (snd x) (?w (fst x))"
    by (rule bm(2) [OF ga(3,4) bsat_meet ga(7,8) that])
  show "source_admits a op \<and> source_admits b op" if adm: "source_admits m op"
  proof -
    note adm = adm [unfolded source_admits_def]
    note v = adm [THEN conjunct1] adm [THEN conjunct2, THEN conjunct2, THEN conjunct1]
        adm [THEN conjunct2, THEN conjunct1]
      and ps = adm [THEN conjunct2, THEN conjunct2, THEN conjunct2, THEN conjunct1]
      and bs = adm [THEN conjunct2, THEN conjunct2, THEN conjunct2, THEN conjunct2]
    note i = narrower_id_sound [OF cid v(1,2)]
    show ?thesis
      unfolding source_admits_def using i v(3) p2 [OF ps] b2 [OF bs] by (elim conjE, intro conjI) assumption+
  qed
qed

interpretation grant_meeting: meeting intersect_step source_good source_admits
  by unfold_locales (erule (3) intersect_step_ok(2), erule (2) intersect_step_ok(1))

lemma intersect_loop_meet_all: "intersect_loop a bs = grant_meeting.meet_all a bs"
  by (induction bs arbitrary: a) (auto split: sum.splits)

subsection \<open>Fewer parameters stay within the input limits\<close>

lemma foldl_max_le: "foldl max d xs \<le> n \<longleftrightarrow> d \<le> n \<and> (\<forall>x \<in> set xs. x \<le> n)" for n :: int
  by (induction xs arbitrary: d) auto

lemma length_join_with:
  "length (join_with sep xs) = (if xs = [] then 0 else sum_list (map length xs) + (length xs - 1) * length sep)"
  by (induction sep xs rule: join_with.induct) auto

lemma sum_list_filter_le: "sum_list (map f (filter P xs)) \<le> (sum_list (map f xs) :: nat)"
  by (induction xs) auto

lemma length_join_filter:
  "length (join_with sep (map g (filter P xs))) \<le> length (join_with sep (map g xs))"
proof (cases "filter P xs = []")
  case False
  then have "xs \<noteq> []" by auto
  have "(length (filter P xs) - 1) * length sep \<le> (length xs - 1) * length sep"
    by (intro mult_right_mono diff_le_mono length_filter_le) simp
  moreover have "sum_list (map (\<lambda>x. length (g x)) (filter P xs)) \<le> sum_list (map (\<lambda>x. length (g x)) xs)"
    by (rule sum_list_filter_le)
  ultimately have "sum_list (map (\<lambda>x. length (g x)) (filter P xs)) + (length (filter P xs) - 1) * length sep
      \<le> sum_list (map (\<lambda>x. length (g x)) xs) + (length xs - 1) * length sep" by (rule add_mono [rotated])
  then show ?thesis using False \<open>xs \<noteq> []\<close> by (simp only: length_join_with map_is_Nil_conv if_False
        length_map map_map comp_def)
qed simp

lemma writeCanonicalJSON_filter:
  "length (writeCanonicalJSON (JObj (filter P m))) \<le> length (writeCanonicalJSON (JObj m))"
  using length_join_filter by (simp add: sortKeysUTF16_def filter_sort [symmetric])

lemma validateObjectParams_None:
  "validateObjectParams m = None \<longleftrightarrow>
     paramsDepth (JObj m) 1 \<le> maxParamsNesting \<and> canon_ok (JObj m) \<and>
     length (writeCanonicalJSON (JObj m)) \<le> maxParamsSerializedBytes"
  by (auto simp: validateObjectParams_def CanonicalJSON_def canon_ok_def fail_if_None
      split: if_splits option.splits canon_err.splits)

lemma canon_ok_filter: "canon_ok (JObj m) \<Longrightarrow> canon_ok (JObj (filter P m))"
  by (auto simp: canon_ok_def validate_strings_simps)

lemma validateObjectParams_filter:
  assumes "validateObjectParams m = None"
  shows "validateObjectParams (filter P m) = None"
proof -
  have "paramsDepth (JObj (filter P m)) 1 \<le> maxParamsNesting"
    using assms by (auto simp: validateObjectParams_None foldl_max_le)
  moreover have "length (writeCanonicalJSON (JObj (filter P m))) \<le> maxParamsSerializedBytes"
    using assms writeCanonicalJSON_filter [of P m] unfolding validateObjectParams_None
    by (elim conjE) (rule order_trans)
  ultimately show ?thesis
    using assms canon_ok_filter unfolding validateObjectParams_None by blast
qed

lemma ValidateOperationParams_filter:
  "ValidateOperationParams m = None \<Longrightarrow> ValidateOperationParams (filter P m) = None"
  using validateObjectParams_filter by (auto simp: ValidateOperationParams_def first_err_None)

subsection \<open>The effective grant\<close>

text \<open>The part of an operation whose keys a grant declares.\<close>

definition declared_part :: "Grant \<Rightarrow> Operation \<Rightarrow> Operation" where
  "declared_part g op =
     op\<lparr>oParams := map_option (filter (\<lambda>x. fst x \<in> set (grantDeclaredKeys g))) (oParams op)\<rparr>"

lemma map_of_declared_part:
  "map_of (entries (oParams (declared_part g op))) k =
     (if k \<in> set (grantDeclaredKeys g) then map_of (entries (oParams op)) k else None)"
proof -
  have "map_of (filter (\<lambda>x. fst x \<in> A) m) k = (if k \<in> A then map_of m k else None)" for A and m :: obj
    by (induction m) auto
  then show ?thesis by (cases "oParams op") (auto simp: declared_part_def)
qed

lemma admits_declared_part:
  assumes adm: "source_admits g op" and src: "source_error g = None"
    and ne: "\<not> hasEmptyBound (entries (gParams g))"
    and op: "opt_check ValidateOperationParams (oParams op) = None"
    and nn: "\<forall>(k, v) \<in> set (entries (oParams op)). v \<noteq> JNull"
  shows "Entails g (declared_part g op) = None"
proof -
  let ?om = "entries (oParams (declared_part g op))"
  have look: "map_of ?om k = map_of (entries (oParams op)) k"
    if "k \<in> set (grantDeclaredKeys g)" for k using that by (simp add: map_of_declared_part)
  have sub: "x \<in> set (entries (oParams op)) \<and> fst x \<in> set (grantDeclaredKeys g)" if "x \<in> set ?om" for x
    using that by (cases "oParams op") (auto simp: declared_part_def)
  have "inputs_ok g (declared_part g op)"
    using src op ValidateOperationParams_filter
    by (cases "gParams g"; cases "oParams op")
      (auto simp: inputs_ok_def source_error_def opt_check_def declared_part_def)
  moreover have "declared_ok ?om (entries (gParams g)) (gParamBounds g)"
    unfolding declared_ok_def
  proof (intro conjI ballI; clarify)
    fix k v assume k: "(k, v) \<in> set (entries (gParams g))"
    then have "k \<in> set (grantDeclaredKeys g)" by (force simp: grantDeclaredKeys_def)
    moreover have "psat v (map_of (entries (oParams op)) k)" using adm k by (fastforce simp: source_admits_def)
    ultimately show "\<not> isEmptyBound v \<and> (\<exists>w. map_of ?om k = Some w \<and> valueSubset w v = None)"
      using look ne k by (fastforce simp: psat_def hasEmptyBound_def)
  next
    fix k b assume k: "(k, b) \<in> set (gParamBounds g)"
    then have "k \<in> set (grantDeclaredKeys g)" by (force simp: grantDeclaredKeys_def)
    moreover have "bsat b (map_of (entries (oParams op)) k)" using adm k by (fastforce simp: source_admits_def)
    ultimately show "case map_of ?om k of None \<Rightarrow> boundOptional b | Some v \<Rightarrow> boundSubset v b = None"
      using look by (simp add: bsat_def split: option.splits)
  next
    fix k v assume k: "(k, v) \<in> set ?om"
    with sub [OF k] nn show "v \<noteq> JNull \<and> (has_key (entries (gParams g)) k \<or> has_key (gParamBounds g) k)"
      by (auto simp: grantDeclaredKeys_def has_key_iff)
  qed
  moreover have "oID (declared_part g op) = oID op" by (simp add: declared_part_def)
  ultimately show ?thesis using adm by (simp add: Entails_iff source_admits_def)
qed

definition decoded_params :: "Grant \<Rightarrow> bool" where
  "decoded_params g \<longleftrightarrow> (\<forall>x \<in> set (entries (gParams g)). decoded (snd x))"

lemma source_error_good:
  assumes "source_error g = None" and "grant_wf g" and "exact_steps g" and "decoded_params g"
  shows "source_good g"
proof -
  have cb: "check_bounds (gParamBounds g) (gParams g) = None" using assms(1) by (simp add: source_error_def)
  have "val_at 0 (JObj (entries (gParams g)))"
  proof (cases "gParams g")
    case None
    then show ?thesis by (simp add: val_at_def validate_strings_simps gomap_ok_def)
  next
    case (Some m)
    then have "ValidateGrantParams m = None" using assms(1) by (simp add: source_error_def opt_check_def)
    then have "canon_ok (JObj m)" by (rule ValidateGrantParams_canon)
    then show ?thesis
      using assms(2,4) Some by (simp add: val_at_def canon_ok_def grant_wf_def obj_ok_def decoded_params_def)
  qed
  then have "gomap_ok (entries (gParams g)) \<and> (\<forall>x \<in> set (entries (gParams g)). val_at 1 (snd x))"
    by (simp add: val_at_JObj)
  moreover have "gomap_ok (gParamBounds g)" using assms(2) by (simp add: grant_wf_def obj_ok_def)
  moreover have "bound_good (snd x)" if "x \<in> set (gParamBounds g)" for x
    using bounds_good [OF assms(2,3) cb, of "fst x" "snd x"] that by simp
  ultimately show ?thesis unfolding source_good_def by blast
qed

lemma intersect_step_keys:
  assumes "intersect_step a b = Inr m" and "source_good a" and "source_good b"
  shows "set (grantDeclaredKeys m) = set (grantDeclaredKeys a) \<union> set (grantDeclaredKeys b)"
proof -
  have ps: "intersect_params (gParams a) (gParams b) = Inr (gParams m)"
    and bs: "intersectBounds (gParamBounds a) (gParamBounds b) = Inr (gParamBounds m)"
    using assms(1) by (auto simp: intersect_step_def split: sum.splits)
  have "set (gokeys (entries (gParams m))) = set (gokeys (entries (gParams a))) \<union> set (gokeys (entries (gParams b)))"
    by (rule merge_maps_members(2) [OF intersect_params_merge [OF ps]])
      (use assms(2,3) in \<open>simp_all add: source_good_def\<close>)
  moreover have "set (gokeys (gParamBounds m)) = set (gokeys (gParamBounds a)) \<union> set (gokeys (gParamBounds b))"
    by (rule merge_maps_members(2) [OF bs [unfolded intersectBounds_merge]])
      (use assms(2,3) in \<open>simp_all add: source_good_def\<close>)
  ultimately show ?thesis unfolding grantDeclaredKeys_def set_append by blast
qed

lemma intersect_loop_keys:
  "intersect_loop a bs = Inr r \<Longrightarrow> source_good a \<Longrightarrow> \<forall>b \<in> set bs. source_good b \<Longrightarrow>
     set (grantDeclaredKeys r) = (\<Union>g \<in> set (a # bs). set (grantDeclaredKeys g))"
proof (induction bs arbitrary: a)
  case (Cons b bs)
  then obtain m where m: "intersect_step a b = Inr m" "intersect_loop m bs = Inr r" by (auto split: sum.splits)
  have "source_good b" using Cons.prems(3) by simp
  from Cons.IH [OF m(2) intersect_step_ok(1) [OF Cons.prems(2) this m(1)]] Cons.prems(3)
    intersect_step_keys [OF m(1) Cons.prems(2) this]
  show ?case by (simp add: Un_ac)
qed simp

lemma unconstrained_keys: "unconstrained g \<longleftrightarrow> grantDeclaredKeys g = []"
  by (simp add: unconstrained_def grantDeclaredKeys_def)

lemma Intersect_parts:
  assumes "Intersect gs = Inr r"
  shows "gs \<noteq> []" and "\<forall>g \<in> set gs. \<not> hasEmptyBound (entries (gParams g)) \<and> source_error g = None"
    and "intersect_loop (hd gs) (tl gs) = Inr r"
  using assms by (auto simp: Intersect_def Let_def first_err_None fail_if_None split: if_splits option.splits)

lemma Entails_admits:
  assumes "Entails r op = None"
  shows "source_admits r op"
proof -
  note e = assms [unfolded Entails_iff]
  have "(\<forall>x \<in> set (entries (gParams r)). psat (snd x) (map_of (entries (oParams op)) (fst x))) \<and>
      (\<forall>x \<in> set (gParamBounds r). bsat (snd x) (map_of (entries (oParams op)) (fst x)))"
  proof (cases "unconstrained r")
    case False
    with e have op: "opt_check ValidateOperationParams (oParams op) = None"
      and d: "declared_ok (entries (oParams op)) (entries (gParams r)) (gParamBounds r)"
      by (auto simp: inputs_ok_def)
    have "psat v (map_of (entries (oParams op)) k)" if "(k, v) \<in> set (entries (gParams r))" for k v
      using d that ValidateOperationParams_canon(1) [OF op] by (fastforce simp: psat_def declared_ok_def)
    moreover have "bsat b (map_of (entries (oParams op)) k)" if "(k, b) \<in> set (gParamBounds r)" for k b
      using d that ValidateOperationParams_canon [OF op]
      by (fastforce simp: bsat_def declared_ok_def split: option.splits)
    ultimately show ?thesis by auto
  qed (simp add: unconstrained_def)
  with e show ?thesis by (simp add: source_admits_def)
qed

lemma Intersect_sound_aux:
  assumes "Intersect gs = Inr r" and "Entails r op = None" and g: "g \<in> set gs"
    and ok: "\<forall>g \<in> set gs. grant_wf g \<and> exact_steps g \<and> decoded_params g"
  shows "Entails g (declared_part g op) = None"
proof -
  note ip = Intersect_parts [OF assms(1)]
  have good: "\<forall>g \<in> set gs. source_good g" using ip(2) ok source_error_good by blast
  have gs: "set gs = set (hd gs # tl gs)" using ip(1) by (cases gs) auto
  have gg: "source_good (hd gs)" "\<forall>b \<in> set (tl gs). source_good b" using good gs by auto
  have "grant_meeting.meet_all (hd gs) (tl gs) = Inr r" using ip(3) by (simp only: intersect_loop_meet_all)
  note all = grant_meeting.meet_all_sound [OF gg this Entails_admits [OF assms(2)]]
  have "g = hd gs \<or> g \<in> set (tl gs)" using g gs by simp
  then have adm: "source_admits g op"
  proof
    assume "g = hd gs"
    with all show ?thesis by (simp only:)
  next
    assume "g \<in> set (tl gs)"
    with all show ?thesis by (rule bspec [OF conjunct2])
  qed
  show ?thesis
  proof (cases "unconstrained g")
    case True
    then show ?thesis using adm by (simp add: Entails_iff source_admits_def declared_part_def)
  next
    case False
    have "set (grantDeclaredKeys g) \<subseteq> set (grantDeclaredKeys r)"
      using intersect_loop_keys [OF ip(3) gg] g gs by blast
    with False have "\<not> unconstrained r" by (auto simp: unconstrained_keys)
    with assms(2) have "inputs_ok r op" "declared_ok (entries (oParams op)) (entries (gParams r)) (gParamBounds r)"
      by (auto simp: Entails_iff)
    then have op: "opt_check ValidateOperationParams (oParams op) = None"
      "\<forall>(k, v) \<in> set (entries (oParams op)). v \<noteq> JNull"
      by (auto simp: inputs_ok_def declared_ok_def)
    have "source_error g = None" "\<not> hasEmptyBound (entries (gParams g))" using ip(2) g by blast+
    then show ?thesis by (rule admits_declared_part [OF adm _ _ op])
  qed
qed

end
