(* ===== verification/Authorize_Laws.thy ===== *)
theory Authorize_Laws
  imports Authorize Intersect_Laws
begin

text \<open>
  Laws of the decision function: which grants authorize an operation, the obligations that remain,
  independence of the order of the grants, and what an accepted delegation chain guarantees.
\<close>

subsection \<open>Constraints of one grant\<close>

definition constraint_holds :: "Operation \<Rightarrow> string \<Rightarrow> bool" where
  "constraint_holds op c \<longleftrightarrow> ValidateConstraint c = None \<and> CheckConstraint c op = None"

text \<open>The recognized constraints the core does not evaluate.\<close>

definition residual :: "Grant \<Rightarrow> string list" where
  "residual g = filter (\<lambda>c. \<not> coreEvaluatesConstraint c) (gConstraints g)"

lemma eval_constraints_Inr:
  "eval_constraints op cs = Inr pg \<longleftrightarrow>
     (\<forall>c \<in> set cs. constraint_holds op c) \<and> pg = filter (\<lambda>c. \<not> coreEvaluatesConstraint c) cs"
proof (induction cs arbitrary: pg)
  case (Cons c cs)
  show ?case
  proof (cases "eval_constraints op cs")
    case (Inl e)
    then have "\<not> (\<forall>c \<in> set cs. constraint_holds op c)" using Cons.IH by fastforce
    with Inl show ?thesis by (auto split: option.splits)
  next
    case (Inr r)
    then have "(\<forall>c \<in> set cs. constraint_holds op c) \<and> r = filter (\<lambda>c. \<not> coreEvaluatesConstraint c) cs"
      using Cons.IH by blast
    with Inr show ?thesis by (auto simp: constraint_holds_def split: option.splits)
  qed
qed auto

text \<open>A grant authorizes an operation on its own.\<close>

definition authorizes :: "Operation \<Rightarrow> Grant \<Rightarrow> bool" where
  "authorizes op g \<longleftrightarrow>
     gID g \<noteq> [] \<and> Entails g op = None \<and> (\<forall>c \<in> set (gConstraints g). constraint_holds op c)"

lemma auth_step_authorizes:
  "authorizes op g \<Longrightarrow> auth_step op st g = st\<lparr>anyAllowed := True, unresolved := unresolved st @ residual g\<rparr>"
proof -
  assume a: "authorizes op g"
  then have "eval_constraints op (gConstraints g) = Inr (residual g)"
    by (simp add: eval_constraints_Inr authorizes_def residual_def)
  with a show ?thesis by (simp add: auth_step_def authorizes_def)
qed

lemma auth_step_refuses:
  "\<not> authorizes op g \<Longrightarrow> anyAllowed (auth_step op st g) = anyAllowed st \<and> unresolved (auth_step op st g) = unresolved st"
  by (auto simp: auth_step_def authorizes_def note_reason_def eval_constraints_Inr split: option.splits sum.splits)

lemma auth_fold:
  "anyAllowed (foldl (auth_step op) st gs) \<longleftrightarrow> anyAllowed st \<or> (\<exists>g \<in> set gs. authorizes op g)"
  "set (unresolved (foldl (auth_step op) st gs)) =
     set (unresolved st) \<union> (\<Union>g \<in> {g \<in> set gs. authorizes op g}. set (residual g))"
proof (induction gs arbitrary: st)
  case (Cons g gs)
  { case 1 show ?case using Cons.IH(1) auth_step_authorizes auth_step_refuses by (cases "authorizes op g") auto }
  { case 2 show ?case using Cons.IH(2) auth_step_authorizes auth_step_refuses by (cases "authorizes op g") auto }
qed auto

subsection \<open>The decision\<close>

definition obligations :: "Grant list \<Rightarrow> Operation \<Rightarrow> string set" where
  "obligations gs op = (\<Union>g \<in> {g \<in> set gs. authorizes op g}. set (residual g))"

definition permitted :: "Grant list \<Rightarrow> Operation \<Rightarrow> bool" where
  "permitted gs op \<longleftrightarrow> op_error op = None \<and> (\<exists>g \<in> set gs. authorizes op g)"

lemma sorted_set_eqI: "set xs = set ys \<Longrightarrow> sorted_set xs = sorted_set ys"
  by (simp add: sorted_set_eq_iff)

lemma AuthorizeSet_permitted:
  assumes "permitted gs op"
  obtains us where "set us = obligations gs op"
    and "AuthorizeSet gs op = (if us = [] then allow else allow_unresolved (sorted_set us))"
proof -
  let ?st = "foldl (auth_step op) \<lparr>unresolved = [], firstReason = None, anyAllowed = False\<rparr> gs"
  have g: "\<not> (\<forall>g \<in> set gs. gID g = [])" using assms by (auto simp: permitted_def authorizes_def)
  have a: "anyAllowed ?st" using assms by (simp add: auth_fold permitted_def)
  have o: "op_error op = None" using assms by (simp add: permitted_def)
  have "AuthorizeSet gs op =
      (if unresolved ?st = [] then allow else allow_unresolved (sorted_set (unresolved ?st)))"
    unfolding AuthorizeSet_def Let_def sortedSet_def if_not_P [OF g] by (simp add: a o)
  moreover have "set (unresolved ?st) = obligations gs op" by (simp add: auth_fold obligations_def)
  ultimately show ?thesis using that by blast
qed

lemma AuthorizeSet_refused:
  assumes "\<not> permitted gs op"
  obtains e where "AuthorizeSet gs op = deny e"
proof (cases "\<forall>g \<in> set gs. gID g = []")
  case True
  then show ?thesis by (intro that) (simp add: AuthorizeSet_def)
next
  case False
  show ?thesis
  proof (cases "op_error op")
    case (Some e)
    with False show ?thesis by (intro that [of e]) (auto simp: AuthorizeSet_def)
  next
    case None
    let ?st = "foldl (auth_step op) \<lparr>unresolved = [], firstReason = None, anyAllowed = False\<rparr> gs"
    have "\<not> anyAllowed ?st" using assms None by (simp add: auth_fold permitted_def)
    then have "AuthorizeSet gs op = (case firstReason ?st of Some e \<Rightarrow> deny e | None \<Rightarrow> deny (Err ErrCapabilityNotAuth))"
      unfolding AuthorizeSet_def Let_def if_not_P [OF False] by (simp add: None)
    with that show ?thesis by (cases "firstReason ?st") simp_all
  qed
qed

lemma AuthorizeSet_verdict:
  "Verdict (AuthorizeSet gs op) =
     (if \<not> permitted gs op then VerdictDeny else if obligations gs op = {} then VerdictAllow else VerdictAllowUR)"
  "set (Unresolved (AuthorizeSet gs op)) = (if permitted gs op then obligations gs op else {})"
proof -
  show "Verdict (AuthorizeSet gs op) =
     (if \<not> permitted gs op then VerdictDeny else if obligations gs op = {} then VerdictAllow else VerdictAllowUR)"
  proof (cases "permitted gs op")
    case True
    then obtain us where "set us = obligations gs op"
      and "AuthorizeSet gs op = (if us = [] then allow else allow_unresolved (sorted_set us))"
      by (rule AuthorizeSet_permitted)
    with True show ?thesis by (auto simp: decision_defs)
  next
    case False
    then show ?thesis by (rule AuthorizeSet_refused) (simp add: False deny_def)
  qed
  show "set (Unresolved (AuthorizeSet gs op)) = (if permitted gs op then obligations gs op else {})"
  proof (cases "permitted gs op")
    case True
    then obtain us where "set us = obligations gs op"
      and "AuthorizeSet gs op = (if us = [] then allow else allow_unresolved (sorted_set us))"
      by (rule AuthorizeSet_permitted)
    with True show ?thesis by (auto simp: decision_defs)
  next
    case False
    then show ?thesis by (rule AuthorizeSet_refused) (simp add: False deny_def)
  qed
qed

lemma AuthorizeSet_order:
  assumes "set gs = set hs"
  shows "Verdict (AuthorizeSet gs op) = Verdict (AuthorizeSet hs op)"
    and "Unresolved (AuthorizeSet gs op) = Unresolved (AuthorizeSet hs op)"
proof -
  have same: "permitted gs op = permitted hs op" "obligations gs op = obligations hs op"
    using assms by (simp_all add: permitted_def obligations_def)
  then show "Verdict (AuthorizeSet gs op) = Verdict (AuthorizeSet hs op)" by (simp add: AuthorizeSet_verdict(1))
  show "Unresolved (AuthorizeSet gs op) = Unresolved (AuthorizeSet hs op)"
  proof (cases "permitted gs op")
    case True
    obtain us where us: "set us = obligations gs op"
      "AuthorizeSet gs op = (if us = [] then allow else allow_unresolved (sorted_set us))"
      using True by (rule AuthorizeSet_permitted)
    obtain vs where vs: "set vs = obligations hs op"
      "AuthorizeSet hs op = (if vs = [] then allow else allow_unresolved (sorted_set vs))"
      using True same(1) AuthorizeSet_permitted by blast
    have "set us = set vs" using us(1) vs(1) same(2) by simp
    then have "sorted_set us = sorted_set vs" "us = [] \<longleftrightarrow> vs = []" by (auto simp: sorted_set_eq_iff)
    then show ?thesis using us(2) vs(2) by (simp add: decision_defs)
  next
    case False
    then have f: "\<not> permitted hs op" using same by simp
    obtain e where "AuthorizeSet gs op = deny e" using False by (rule AuthorizeSet_refused)
    moreover obtain e' where "AuthorizeSet hs op = deny e'" using f by (rule AuthorizeSet_refused)
    ultimately show ?thesis by (simp add: deny_def)
  qed
qed

subsection \<open>The constraints of an intersection\<close>

lemma set_mergeConstraints [simp]: "set (mergeConstraints a b) = set a \<union> set b"
  by (simp add: mergeConstraints_def)

lemma intersect_loop_constraints:
  "intersect_loop a bs = Inr r \<Longrightarrow> set (gConstraints r) = (\<Union>g \<in> set (a # bs). set (gConstraints g))"
proof (induction bs arbitrary: a)
  case (Cons b bs)
  then obtain m where m: "intersect_step a b = Inr m" "intersect_loop m bs = Inr r" by (auto split: sum.splits)
  have "set (gConstraints m) = set (gConstraints a) \<union> set (gConstraints b)"
    using m(1) by (auto simp: intersect_step_def split: sum.splits)
  with Cons.IH [OF m(2)] show ?case by (simp add: Un_ac)
qed simp

lemma Intersect_constraints_aux:
  assumes "Intersect gs = Inr r"
  shows "set (gConstraints r) = (\<Union>g \<in> set gs. set (gConstraints g))"
proof -
  note ip = Intersect_parts [OF assms]
  have "set gs = set (hd gs # tl gs)" using ip(1) by (cases gs) auto
  with intersect_loop_constraints [OF ip(3)] show ?thesis by simp
qed

lemma ConstraintUnion_set: "set (foldl (\<lambda>out g. mergeConstraints out (gConstraints g)) out gs) =
    set out \<union> (\<Union>g \<in> set gs. set (gConstraints g))"
  by (induction gs arbitrary: out) auto

subsection \<open>Chains\<close>

lemma keys_same:
  assumes "keys_within narrow pp cp = None" and "keys_closed pp cp = None"
  shows "set (gokeys pp) = set (gokeys cp)"
proof (intro set_eqI iffI)
  fix k
  assume "k \<in> set (gokeys pp)"
  then obtain v where "(k, v) \<in> set pp" by auto
  with assms(1) have "has_key cp k" by (auto simp: keys_within_None has_key_def)
  then show "k \<in> set (gokeys cp)" by (simp add: has_key_iff)
next
  fix k
  assume "k \<in> set (gokeys cp)"
  then obtain v where "(k, v) \<in> set cp" by auto
  with assms(2) have "has_key pp k" by (auto simp: keys_closed_None)
  then show "k \<in> set (gokeys pp)" by (simp add: has_key_iff)
qed

lemma Contains_keys:
  assumes "Contains p c = None" and "\<not> unconstrained p"
  shows "set (grantDeclaredKeys p) = set (grantDeclaredKeys c)" and "\<not> unconstrained c"
proof -
  note v = assms(1) [unfolded Contains_iff]
  show "\<not> unconstrained c" using v assms(2) by blast
  have "keys_within containsWithin (entries (gParams p)) (entries (gParams c)) = None"
    and "keys_within boundWithin (gParamBounds p) (gParamBounds c) = None"
    and "keys_closed (entries (gParams p)) (entries (gParams c)) = None"
    and "keys_closed (gParamBounds p) (gParamBounds c) = None"
    using v assms(2) by blast+
  then have "set (gokeys (entries (gParams p))) = set (gokeys (entries (gParams c)))"
    and "set (gokeys (gParamBounds p)) = set (gokeys (gParamBounds c))"
    using keys_same by blast+
  then show "set (grantDeclaredKeys p) = set (grantDeclaredKeys c)" by (simp add: grantDeclaredKeys_def)
qed

lemma contains_chain_keys:
  "contains_chain gs = None \<Longrightarrow> g \<in> set gs \<Longrightarrow> \<not> unconstrained g \<Longrightarrow>
     set (grantDeclaredKeys g) = set (grantDeclaredKeys (last gs))"
proof (induction gs arbitrary: g rule: contains_chain.induct)
  case (1 p c gs)
  have con: "Contains p c = None" and ch: "contains_chain (c # gs) = None" using "1.prems"(1) by simp_all
  show ?case
  proof (cases "g \<in> set (c # gs)")
    case True
    then show ?thesis using "1.IH" [OF ch True "1.prems"(3)] by simp
  next
    case False
    then have g: "g = p" using "1.prems"(2) by simp
    have "\<not> unconstrained c" and "set (grantDeclaredKeys p) = set (grantDeclaredKeys c)"
      using Contains_keys [OF con] "1.prems"(3) g by simp_all
    then show ?thesis using "1.IH" [OF ch, of c] g by simp
  qed
qed auto

lemma declared_part_all:
  assumes "Entails r op = None" and "\<not> unconstrained r"
    and "set (grantDeclaredKeys r) \<subseteq> set (grantDeclaredKeys g)"
  shows "declared_part g op = op"
proof -
  have "declared_ok (entries (oParams op)) (entries (gParams r)) (gParamBounds r)"
    using assms(1,2) by (auto simp: Entails_iff)
  then have "fst x \<in> set (grantDeclaredKeys r)" if "x \<in> set (entries (oParams op))" for x
    using that by (cases x) (auto simp: declared_ok_def has_key_iff grantDeclaredKeys_def)
  then have "\<forall>x \<in> set (entries (oParams op)). fst x \<in> set (grantDeclaredKeys g)"
    using assms(3) by blast
  then show ?thesis by (cases "oParams op") (auto simp: declared_part_def filter_id_conv)
qed

lemma chain_entails:
  assumes con: "contains_chain gs = None" and int: "Intersect gs = Inr r" and ent: "Entails r op = None"
    and ok: "\<forall>g \<in> set gs. grant_wf g \<and> exact_steps g \<and> decoded_params g" and g: "g \<in> set gs"
  shows "Entails g op = None"
proof -
  have e: "Entails g (declared_part g op) = None" by (rule Intersect_sound_aux [OF int ent g ok])
  show ?thesis
  proof (cases "unconstrained g")
    case True
    then show ?thesis using e by (simp add: Entails_iff declared_part_def)
  next
    case False
    note ip = Intersect_parts [OF int]
    have good: "\<forall>g \<in> set gs. source_good g" using ip(2) ok source_error_good by blast
    have gs: "set gs = set (hd gs # tl gs)" using ip(1) by (cases gs) auto
    have "set (grantDeclaredKeys r) = (\<Union>h \<in> set gs. set (grantDeclaredKeys h))"
      using intersect_loop_keys [OF ip(3)] good gs by simp
    also have "\<dots> = set (grantDeclaredKeys (last gs))"
      using contains_chain_keys [OF con] ip(1) last_in_set [OF ip(1)] by (fastforce simp: unconstrained_keys)
    also have "\<dots> = set (grantDeclaredKeys g)" using contains_chain_keys [OF con g False] by simp
    finally have k: "set (grantDeclaredKeys r) = set (grantDeclaredKeys g)" .
    then have "\<not> unconstrained r" using False by (metis unconstrained_keys set_empty)
    from declared_part_all [OF ent this, of g] k e show ?thesis by simp
  qed
qed

end
