(* ===== verification/Consumers.thy ===== *)
theory Consumers
  imports Decision_Laws
begin

text \<open>
  What a consumer of a decision may rely on: every decision of the core is well shaped, combining keeps the
  denials and the obligations, an obligation is discharged only by a handler that understands it, and
  resolving is the three-valued evaluation of the obligations.
\<close>

text \<open>
  C13. Type safety of decisions: whatever the grants and the operation, the decision of \<open>AuthorizeSet\<close> passes
  \<open>checkDecisionShape\<close> (its verdict is one of the three, obligations occur exactly with
  \<open>allow_unresolved\<close>, each has an identity), so a consumer never refuses a core decision for its shape; and a
  combination of decisions is well shaped again.
\<close>

theorem decisions_well_shaped:
  "checkDecisionShape (AuthorizeSet gs op) = None \<and>
   (\<forall>r. Combine alg ds = Inr r \<longrightarrow> checkDecisionShape r = None)"
  by (auto simp: checkDecisionShape_None AuthorizeSet_shaped Combine_shaped)

theorem decisions_well_shaped_witness:
  "checkDecisionShape (allow_unresolved [''varwof/constraint-v1:max_rows:10'']) = None"
proof -
  have "Combine CombiningDenyOverrides [allow, allow_unresolved [''varwof/constraint-v1:max_rows:10'']]
      = Inr (allow_unresolved [''varwof/constraint-v1:max_rows:10''])" by code_simp
  with decisions_well_shaped [of "[]" undefined CombiningDenyOverrides "[allow, allow_unresolved [''varwof/constraint-v1:max_rows:10'']]"]
  show ?thesis by blast
qed

text \<open>
  C14. Deny-overrides is exact: over well-shaped decisions the combination is the first denial when there is one,
  and otherwise an allow that carries the union of all obligations, without duplicates and in canonical order.
\<close>

theorem Combine_deny_overrides:
  assumes "ds \<noteq> []" and "\<forall>d \<in> set ds. checkDecisionShape d = None"
  shows "Combine CombiningDenyOverrides ds =
     Inr (case find (\<lambda>d. Verdict d = VerdictDeny) ds of
            Some d \<Rightarrow> deny_as d
          | None \<Rightarrow> (let us = concat (map Unresolved ds) in
                      if us = [] then allow else allow_unresolved (sorted_set us)))"
proof -
  have s: "\<forall>d \<in> set ds. shaped d" using assms(2) by (simp add: checkDecisionShape_None)
  have f: "first_err checkDecisionShape ds = None" using assms(2) by (simp add: first_err_None)
  have "Combine CombiningDenyOverrides ds = Inr (combineDenyOverrides [] False ds)"
    using assms(1) by (simp add: Combine_def f alg_Valid_def CombiningDenyOverrides_def CombiningFirstApplicable_def
        CombiningPermitOverrides_def)
  then show ?thesis using assms(1) by (simp add: combineDenyOverrides_eq [OF s] Let_def split: option.split)
qed

theorem Combine_deny_overrides_witness:
  "Combine CombiningDenyOverrides [allow_unresolved [''varwof/constraint-v1:max_rows:10''], allow]
     = Inr (allow_unresolved [''varwof/constraint-v1:max_rows:10''])"
proof -
  let ?ds = "[allow_unresolved [''varwof/constraint-v1:max_rows:10''], allow]"
  have a: "list_all (\<lambda>d. checkDecisionShape d = None) ?ds" by code_simp
  have b: "(case find (\<lambda>d. Verdict d = VerdictDeny) ?ds of
            Some d \<Rightarrow> deny_as d
          | None \<Rightarrow> (let us = concat (map Unresolved ?ds) in
                      if us = [] then allow else allow_unresolved (sorted_set us)))
      = allow_unresolved [''varwof/constraint-v1:max_rows:10'']" by code_simp
  show ?thesis using Combine_deny_overrides [of ?ds] a unfolding b by (simp add: list_all_iff)
qed

text \<open>
  No algorithm drops an obligation on the way to an unconditional allow: when combining under
  deny-overrides or permit-overrides ends in \<open>allow\<close>, no source carried an obligation, and under
  deny-overrides no source denied.
\<close>

theorem Combine_keeps_obligations:
  assumes "Combine alg ds = Inr r" and "Verdict r = VerdictAllow" and "alg \<noteq> CombiningFirstApplicable"
  shows "\<forall>d \<in> set ds. Unresolved d = [] \<and> (alg = CombiningDenyOverrides \<longrightarrow> Verdict d \<noteq> VerdictDeny)"
proof -
  note ci = Combine_Inr [OF assms(1)]
  from ci(3) assms(3) consider
    (po) "alg = CombiningPermitOverrides" | (dov) "alg = CombiningDenyOverrides" "r = combineDenyOverrides [] False ds"
    by auto
  then show ?thesis
  proof cases
    case po
    then have "alg \<noteq> CombiningDenyOverrides" by (simp add: CombiningPermitOverrides_def CombiningDenyOverrides_def)
    then show ?thesis using hasObligations_no_loss [of ds r] assms(1,2) po by simp
  next
    case dov
    have "find (\<lambda>d. Verdict d = VerdictDeny) ds = None \<and> concat (map Unresolved ds) = []"
      using assms(2) dov(2) unfolding combineDenyOverrides_eq [OF ci(2)]
      by (auto simp: decision_defs deny_as_def split: option.splits if_splits)
    then show ?thesis by (auto simp: find_None_iff)
  qed
qed

text \<open>
  C16. \<open>Discharge\<close> fails closed: it accepts a decision exactly when the decision is well shaped and the identity
  of every obligation is among those the handler understands.
\<close>

theorem Discharge_fail_closed:
  "Discharge d understood = None \<longleftrightarrow>
     checkDecisionShape d = None \<and>
     (\<forall>c \<in> set (Obligations d). \<exists>i \<in> set understood. ConstraintIdentity c = Inr i)"
proof -
  have "shaped d \<Longrightarrow> c \<in> set (Unresolved d) \<Longrightarrow> \<exists>i. ConstraintIdentity c = Inr i" for c
    by (auto simp: shaped_def identified_def)
  then show ?thesis by (fastforce simp: Discharge_None checkDecisionShape_None Obligations_def)
qed

theorem Discharge_fail_closed_witness:
  "Discharge (allow_unresolved [''varwof/constraint-v1:max_rows:10'']) [''varwof/constraint-v1:max_rows''] = None \<and>
   Discharge (allow_unresolved [''varwof/constraint-v1:max_rows:10'']) [''varwof/constraint-v1:network''] \<noteq> None"
proof -
  let ?d = "allow_unresolved [''varwof/constraint-v1:max_rows:10'']"
  have s: "checkDecisionShape ?d = None" and i: "ConstraintIdentity ''varwof/constraint-v1:max_rows:10'' = Inr ''varwof/constraint-v1:max_rows''"
    by code_simp+
  have u: "Obligations ?d = [''varwof/constraint-v1:max_rows:10'']" by (simp add: Obligations_def decision_defs)
  show ?thesis
    using Discharge_fail_closed [of ?d "[''varwof/constraint-v1:max_rows'']"] Discharge_fail_closed [of ?d "[''varwof/constraint-v1:network'']"]
    by (simp add: s i u)
qed

text \<open>
  C17. Resolving is the three-valued evaluation of the obligations: with accepted inputs, the decision is denied
  when some obligation is violated (by a report or by the clock), allowed when every obligation is satisfied
  and none violated, and otherwise keeps exactly the obligations that are not satisfied; inputs that are not
  accepted deny.
\<close>

theorem Resolve_correct:
  assumes "Verdict d = VerdictAllowUR"
  shows "Verdict (Resolve d rs now) =
      (if \<not> inputs_valid rs now \<or> (\<exists>c \<in> set (Unresolved d). violated rs (clock now) c) then VerdictDeny
       else if \<forall>c \<in> set (Unresolved d). satisfied rs (clock now) c then VerdictAllow
       else VerdictAllowUR) \<and>
     set (Unresolved (Resolve d rs now)) =
      (if Verdict (Resolve d rs now) = VerdictAllowUR
       then {c \<in> set (Unresolved d). \<not> satisfied rs (clock now) c} else {})"
proof (cases "inputs_valid rs now")
  case True
  show ?thesis
  proof (cases rule: Resolve_cases [OF assms True])
    case (1 v)
    then show ?thesis by (auto simp: decision_defs)
  next
    case 2
    then have "\<not> (\<exists>c \<in> set (Unresolved d). violated rs (clock now) c)" by (auto simp: satisfied_def)
    with 2 True show ?thesis by (simp add: decision_defs)
  next
    case (3 us)
    have "\<not> (\<forall>c \<in> set (Unresolved d). satisfied rs (clock now) c)"
      using 3(2,3) by (auto simp: filter_empty_conv)
    with 3 True show ?thesis by (auto simp: decision_defs)
  qed
next
  case False
  then have "Verdict (Resolve d rs now) = VerdictDeny" by (rule Resolve_invalid [OF assms])
  moreover have "Unresolved (Resolve d rs now) = []"
    using False assms by (auto simp: Resolve_def inputs_valid_def decision_defs)
  ultimately show ?thesis using False by (simp add: decision_defs)
qed

theorem Resolve_correct_witness:
  "Verdict (Resolve (allow_unresolved [''varwof/constraint-v1:max_rows:10'']) [] ''2024-05-01T12:00:00Z'') = VerdictAllowUR \<and>
   Verdict (Resolve (allow_unresolved [''varwof/constraint-v1:time:window:[{\"start\":\"09:00\",\"end\":\"17:00\"}]''])
      [] ''2024-05-01T12:00:00Z'') = VerdictAllow"
proof -
  let ?w = "''varwof/constraint-v1:time:window:[{\"start\":\"09:00\",\"end\":\"17:00\"}]''"
  let ?r = "''varwof/constraint-v1:max_rows:10''"
  let ?n = "''2024-05-01T12:00:00Z''"
  have v: "Verdict (allow_unresolved us) = VerdictAllowUR" "Unresolved (allow_unresolved us) = us" for us
    by (simp_all add: decision_defs)
  obtain t where t: "parse_rfc3339 ?n = Some t" "evalCoreTimeWindow ?w t = Some True" "evalCoreTimeWindow ?r t = None"
  proof -
    have "parse_rfc3339 ?n = Some (the (parse_rfc3339 ?n))" "evalCoreTimeWindow ?w (the (parse_rfc3339 ?n)) = Some True"
      "evalCoreTimeWindow ?r (the (parse_rfc3339 ?n)) = None" by code_simp+
    then show ?thesis by (rule that)
  qed
  have iv: "inputs_valid [] ?n" "clock ?n = Some t" using t by (simp_all add: inputs_valid_def clock_def)
  have "satisfied [] (Some t) ?w" "\<not> violated [] (Some t) ?w" "\<not> satisfied [] (Some t) ?r" "\<not> violated [] (Some t) ?r"
    using t by (simp_all add: satisfied_def violated_def reported_def clock_says_def)
  then show ?thesis
    using Resolve_correct [of "allow_unresolved [?r]" "[]" ?n] Resolve_correct [of "allow_unresolved [?w]" "[]" ?n]
    by (simp add: v iv)
qed

end
