(* ===== verification/Delegation.thy ===== *)
theory Delegation
  imports Grant_Laws
begin

text \<open>
  The properties of entailment and of delegation by containment, with concrete grants: a parent, a
  child within it and an operation of the child; and the three shapes in which \<open>Contains\<close> accepts a
  child that admits an operation its parent denies.
\<close>

subsection \<open>Concrete grants\<close>

abbreviation num :: "rat \<Rightarrow> json" where
  "num r \<equiv> JNum (Fin r)"

definition ex_parent :: Grant where
  "ex_parent = \<lparr>gID = ''std/db-v1:query:*'',
     gParams = Some [(''limit'', num 10), (''mode'', JArr [JStr ''a'', JStr ''b''])],
     gParamBounds = [(''n'', JObj [(''min'', num 0), (''max'', num 100), (''step'', num 5)])],
     gConstraints = []\<rparr>"

definition ex_child :: Grant where
  "ex_child = \<lparr>gID = ''std/db-v1:query:SELECT'',
     gParams = Some [(''mode'', JArr [JStr ''a'']), (''limit'', num 5)],
     gParamBounds = [(''n'', JObj [(''step'', num 10), (''min'', num 10), (''max'', num 50)])],
     gConstraints = [''varwof/constraint-v1:max_rows:100'']\<rparr>"

definition ex_op :: Operation where
  "ex_op = \<lparr>oID = ''std/db-v1:query:SELECT'',
     oParams = Some [(''limit'', num 3), (''mode'', JStr ''a''), (''n'', num 20)]\<rparr>"

lemma ex_contains: "Contains ex_parent ex_child = None"
  by code_simp

lemma ex_entails: "Entails ex_child ex_op = None"
  by code_simp

lemma ex_side_conditions:
  "grant_wf ex_parent" "grant_wf ex_child" "exact_steps ex_parent" "exact_steps ex_child"
  "safe_narrowing ex_parent ex_child"
  by code_simp+

subsection \<open>Properties\<close>


text \<open>
  For a grant without extended bounds the evaluator of the declared keys returns the very result,
  reason included, of the comparison it replaced.
\<close>

theorem entailsDeclared_is_paramsSubset:
  assumes "gp \<noteq> []"
  shows "entailsDeclared (entries op) gp [] = paramsSubset op (Some gp)"
proof (cases op)
  case None
  obtain x xs where gp: "gp = x # xs" using assms by (cases gp) auto
  have "first_err (\<lambda>x. fail_if (\<not> has_key ([] :: obj) (fst x)) (Err ErrParamsMissing)) gp = Some (Err ErrParamsMissing)"
    by (simp add: gp first_err.simps has_key_def)
  with None assms show ?thesis
    unfolding entailsDeclared_def paramsSubset_def by (simp add: seq_err.simps split: option.splits)
next
  case (Some p)
  have "has_key ([] :: obj) k = False" for k by (simp add: has_key_def)
  with Some assms show ?thesis
    by (simp add: entailsDeclared_def paramsSubset_def seq_err.simps split: option.splits)
qed

text \<open>
  C5. Containment is sound: when \<open>Contains\<close> accepts a child under a parent, the parent entails every
  operation the child entails. The side conditions are the Go map invariant, integer steps in the
  exact range of binary64, and \<open>safe_narrowing\<close>: no parent value is an empty bound, and no parent
  enum is narrowed to a number or an object.
\<close>

theorem Contains_sound:
  assumes "Contains p c = None" and "Entails c op = None"
    and "grant_wf p" and "grant_wf c" and "exact_steps p" and "exact_steps c" and "safe_narrowing p c"
  shows "Entails p op = None"
  using grant_narrowing.narrower_sound assms by blast

theorem Contains_sound_witness: "Entails ex_parent ex_op = None"
  by (rule Contains_sound [OF ex_contains ex_entails ex_side_conditions])



definition gap_grant :: "obj \<Rightarrow> obj \<Rightarrow> Grant" where
  "gap_grant params bounds = \<lparr>gID = ''std/db-v1:query:SELECT'', gParams = Some params,
     gParamBounds = bounds, gConstraints = []\<rparr>"

definition gap_op :: "obj \<Rightarrow> Operation" where
  "gap_op params = \<lparr>oID = ''std/db-v1:query:SELECT'', oParams = Some params\<rparr>"

definition gap :: "Grant \<Rightarrow> Grant \<Rightarrow> Operation \<Rightarrow> bool" where
  "gap p c op \<longleftrightarrow> Contains p c = None \<and> Entails c op = None \<and> Entails p op \<noteq> None"

definition step_grant :: "rat \<Rightarrow> Grant" where
  "step_grant r = gap_grant [] [(''s'', JObj [(''step'', JNum (round_f64 r))])]"

definition step_op :: "rat \<Rightarrow> Operation" where
  "step_op r = gap_op [(''s'', JNum (round_f64 r))]"

lemma step_gap_contains: "Contains (step_grant (1 / 100)) (step_grant (3 / 100)) = None"
  by code_simp

lemma step_gap_child: "Entails (step_grant (3 / 100)) (step_op (57 / 100)) = None"
  by code_simp

lemma step_gap_parent: "Entails (step_grant (1 / 100)) (step_op (57 / 100)) = Some (Err ErrParamsNotMultiple)"
  by code_simp


end
