(* ===== verification/Authorization.thy ===== *)
theory Authorization
  imports Authorize_Laws Delegation
begin

text \<open>
  The properties of intersection, of the decision function and of authorization under a delegation
  chain, with concrete grants for their witnesses.
\<close>

subsection \<open>Concrete grants\<close>

definition ex_root :: Grant where
  "ex_root = \<lparr>gID = ''std/db-v1:query:*'',
     gParams = Some [(''max_rows'', num 100)],
     gParamBounds = [(''n'', JObj [(''min'', num 0), (''max'', num 100), (''step'', num 5)])],
     gConstraints = [''varwof/constraint-v1:max_rows:50'']\<rparr>"

definition ex_leaf :: Grant where
  "ex_leaf = \<lparr>gID = ''std/db-v1:query:SELECT'',
     gParams = Some [(''max_rows'', num 80)],
     gParamBounds = [(''n'', JObj [(''step'', num 10), (''min'', num 10), (''max'', num 50)])],
     gConstraints = [''varwof/constraint-v1:network:cidr:[\"10.0.0.0/8\"]'']\<rparr>"

definition ex_request :: Operation where
  "ex_request = \<lparr>oID = ''std/db-v1:query:SELECT'', oParams = Some [(''max_rows'', num 20), (''n'', num 30)]\<rparr>"

definition ex_effective :: Grant where
  "ex_effective = \<lparr>gID = ''std/db-v1:query:SELECT'',
     gParams = Some [(''max_rows'', num 80)],
     gParamBounds = [(''n'', JObj [(''min'', num 10), (''max'', num 50), (''step'', num 10)])],
     gConstraints = [''varwof/constraint-v1:max_rows:50'', ''varwof/constraint-v1:network:cidr:[\"10.0.0.0/8\"]'']\<rparr>"

lemma ex_intersect: "Intersect [ex_root, ex_leaf] = Inr ex_effective"
  by code_simp

lemma ex_effective_entails: "Entails ex_effective ex_request = None"
  by code_simp

lemma ex_chain_conditions:
  "\<forall>g \<in> set [ex_root, ex_leaf]. grant_wf g \<and> exact_steps g \<and> decoded_params g"
  by code_simp

lemma ex_chain_verdict: "Verdict (AuthorizeWithChain [ex_root, ex_leaf] ex_request) = VerdictAllowUR"
  by code_simp

subsection \<open>Properties\<close>



text \<open>
  No constraint is lost or invented: the effective grant of an intersection carries exactly the
  constraints of its sources, and \<open>ConstraintUnion\<close> of the same chain is the same set.
\<close>

theorem Intersect_constraints:
  assumes "Intersect gs = Inr r"
  shows "set (gConstraints r) = (\<Union>g \<in> set gs. set (gConstraints g))
    \<and> (\<exists>cs. ConstraintUnion gs = Inr cs \<and> set cs = set (gConstraints r))"
  using Intersect_constraints_aux [OF assms] Intersect_parts(1) [OF assms] ConstraintUnion_set [of "[]" gs]
  by (simp add: ConstraintUnion_def)

text \<open>
  C10. The decision over a set of grants, exactly: deny unless the operation is well formed and some
  grant entails it with every constraint valid and satisfied; otherwise the residual obligations of
  all such grants are reported, and the verdict is allow when there are none.
\<close>

theorem AuthorizeSet_correct:
  "Verdict (AuthorizeSet gs op) =
     (if op_error op \<noteq> None \<or> \<not> (\<exists>g \<in> set gs. authorizes op g) then VerdictDeny
      else if (\<forall>g \<in> set gs. authorizes op g \<longrightarrow> residual g = []) then VerdictAllow
      else VerdictAllowUR)
   \<and> set (Unresolved (AuthorizeSet gs op)) =
     (if op_error op \<noteq> None then {} else \<Union>g \<in> {g \<in> set gs. authorizes op g}. set (residual g))"
proof -
  have "obligations gs op = {} \<longleftrightarrow> (\<forall>g \<in> set gs. authorizes op g \<longrightarrow> residual g = [])"
    by (auto simp: obligations_def)
  then show ?thesis
    using AuthorizeSet_verdict [of gs op] by (auto simp: permitted_def obligations_def)
qed

theorem AuthorizeSet_correct_witness:
  "Verdict (AuthorizeSet [ex_effective] \<lparr>oID = ''std/db-v1:query:SELECT'', oParams = None\<rparr>) = VerdictDeny"
proof -
  have "\<not> authorizes \<lparr>oID = ''std/db-v1:query:SELECT'', oParams = None\<rparr> ex_effective" by code_simp
  then show ?thesis
    using AuthorizeSet_correct [of "[ex_effective]" "\<lparr>oID = ''std/db-v1:query:SELECT'', oParams = None\<rparr>"]
    by simp
qed

text \<open>
  The order and the repetition of the grants influence neither the verdict nor the list of
  unresolved constraints.
\<close>

theorem AuthorizeSet_order_independent:
  assumes "set gs = set hs"
  shows "Verdict (AuthorizeSet gs op) = Verdict (AuthorizeSet hs op)
    \<and> Unresolved (AuthorizeSet gs op) = Unresolved (AuthorizeSet hs op)"
  using AuthorizeSet_order [OF assms] by blast



end
