(* ===== verification/Go_Sha256.thy ===== *)
theory Go_Sha256
  imports Go_Prelude "HOL-Library.Word"
begin

text \<open>
  The digest and text encodings of the standard library that the sources call: \<open>crypto/sha256\<close>
  (FIPS 180-4, on 32-bit words), \<open>encoding/hex\<close> and unpadded URL-safe \<open>encoding/base64\<close>. A byte is a
  character with its code.
\<close>

unbundle bit_operations_syntax

subsection \<open>SHA-256\<close>

type_synonym w32 = "32 word"

definition rotr :: "nat \<Rightarrow> w32 \<Rightarrow> w32" where
  "rotr n x = (drop_bit n x OR push_bit (32 - n) x)"

text \<open>The fractional parts of the cube roots of the first 64 primes and of the square roots of the first eight, in 32 bits.\<close>

definition sha_k :: "w32 list" where
  "sha_k = [
   1116352408, 1899447441, 3049323471, 3921009573, 961987163, 1508970993, 2453635748, 2870763221,
   3624381080, 310598401, 607225278, 1426881987, 1925078388, 2162078206, 2614888103, 3248222580,
   3835390401, 4022224774, 264347078, 604807628, 770255983, 1249150122, 1555081692, 1996064986,
   2554220882, 2821834349, 2952996808, 3210313671, 3336571891, 3584528711, 113926993, 338241895,
   666307205, 773529912, 1294757372, 1396182291, 1695183700, 1986661051, 2177026350, 2456956037,
   2730485921, 2820302411, 3259730800, 3345764771, 3516065817, 3600352804, 4094571909, 275423344,
   430227734, 506948616, 659060556, 883997877, 958139571, 1322822218, 1537002063, 1747873779,
   1955562222, 2024104815, 2227730452, 2361852424, 2428436474, 2756734187, 3204031479, 3329325298]"

definition sha_h0 :: "w32 list" where
  "sha_h0 = [1779033703, 3144134277, 1013904242, 2773480762, 1359893119, 2600822924, 528734635, 1541459225]"

definition be_word :: "int list \<Rightarrow> w32" where
  "be_word bs = foldl (\<lambda>w b. push_bit 8 w OR word_of_int b) 0 bs"

fun chunks :: "nat \<Rightarrow> 'a list \<Rightarrow> 'a list list" where
  "chunks n [] = []"
| "chunks n (x # xs) = take (Suc n) (x # xs) # chunks n (drop n xs)"

text \<open>The message schedule, kept newest first.\<close>

fun schedule :: "nat \<Rightarrow> w32 list \<Rightarrow> w32 list" where
  "schedule 0 ws = ws"
| "schedule (Suc n) ws =
     (let w15 = ws ! 14; w2 = ws ! 1;
          s0 = rotr 7 w15 XOR rotr 18 w15 XOR drop_bit 3 w15;
          s1 = rotr 17 w2 XOR rotr 19 w2 XOR drop_bit 10 w2
      in schedule n ((ws ! 15 + s0 + ws ! 6 + s1) # ws))"

fun sha_round :: "w32 list \<Rightarrow> w32 \<times> w32 \<Rightarrow> w32 list" where
  "sha_round [a, b, c, d, e, f, g, h] (k, w) =
     (let s1 = rotr 6 e XOR rotr 11 e XOR rotr 25 e;
          ch = (e AND f) XOR (NOT e AND g);
          t1 = h + s1 + ch + k + w;
          s0 = rotr 2 a XOR rotr 13 a XOR rotr 22 a;
          maj = (a AND b) XOR (a AND c) XOR (b AND c);
          t2 = s0 + maj
      in [t1 + t2, a, b, c, d + t1, e, f, g])"
| "sha_round hs kw = hs"

definition sha_block :: "w32 list \<Rightarrow> int list \<Rightarrow> w32 list" where
  "sha_block hs bs =
     (let ws = rev (schedule 48 (rev (map be_word (chunks 3 bs))))
      in map2 (+) hs (foldl sha_round hs (zip sha_k ws)))"

definition int_byte :: "int \<Rightarrow> nat \<Rightarrow> int" where
  "int_byte x i = (x div 256 ^ i) mod 256"

definition sha_pad :: "int list \<Rightarrow> int list" where
  "sha_pad bs =
     (let n = length bs; z = (119 - n mod 64) mod 64
      in bs @ 128 # replicate z 0 @ map (int_byte (8 * int n)) (rev [0..<8]))"

definition Sum256 :: "string \<Rightarrow> string" where
  "Sum256 s =
     (let hs = foldl sha_block sha_h0 (chunks 63 (sha_pad (map of_char s)))
      in concat (map (\<lambda>w. map (\<lambda>i. char_of (int_byte (uint w) i)) (rev [0..<4])) hs))"

lemma sha_round_length: "length hs = 8 \<Longrightarrow> length (sha_round hs kw) = 8"
  by (cases "(hs, kw)" rule: sha_round.cases) (simp_all add: Let_def)

lemma sha_rounds_length: "length hs = 8 \<Longrightarrow> length (foldl sha_round hs kws) = 8"
  by (induction kws arbitrary: hs) (simp_all add: sha_round_length)

lemma sha_block_length: "length hs = 8 \<Longrightarrow> length (sha_block hs bs) = 8"
  by (simp add: sha_block_def Let_def sha_rounds_length)

lemma Sum256_length [simp]: "length (Sum256 s) = 32"
proof -
  have "length hs = 8 \<Longrightarrow> length (foldl sha_block hs bss) = 8" for hs bss
    by (induction bss arbitrary: hs) (simp_all add: sha_block_length)
  then have "length (foldl sha_block sha_h0 (chunks 63 (sha_pad (map of_char s)))) = 8"
    by (simp add: sha_h0_def)
  then show ?thesis by (simp add: Sum256_def Let_def length_concat comp_def sum_list_triv)
qed

subsection \<open>Hexadecimal\<close>

definition hex_chars :: string where
  "hex_chars = ''0123456789abcdef''"

definition hex_byte :: "char \<Rightarrow> string" where
  "hex_byte c = [hex_chars ! (of_char c div 16), hex_chars ! (of_char c mod 16)]"

definition hex_EncodeToString :: "string \<Rightarrow> string" where
  "hex_EncodeToString s = concat (map hex_byte s)"

lemma hex_chars_nth_inj: "i < 16 \<Longrightarrow> j < 16 \<Longrightarrow> hex_chars ! i = hex_chars ! j \<Longrightarrow> i = j"
  by (rule nth_eq_iff_index_eq [THEN iffD1, of hex_chars]) (simp_all add: hex_chars_def)

lemma hex_byte_inj: "hex_byte c = hex_byte d \<Longrightarrow> c = d"
proof -
  assume e: "hex_byte c = hex_byte d"
  have b: "(of_char c :: nat) < 256" "(of_char d :: nat) < 256" by simp_all
  then have "(of_char c :: nat) div 16 = of_char d div 16" "(of_char c :: nat) mod 16 = of_char d mod 16"
    using e hex_chars_nth_inj by (simp_all add: hex_byte_def less_mult_imp_div_less)
  then have "(of_char c :: nat) = of_char d" by (metis div_mult_mod_eq)
  then show ?thesis by simp
qed

lemma hex_EncodeToString_inj: "hex_EncodeToString s = hex_EncodeToString t \<Longrightarrow> s = t"
proof (induction s arbitrary: t)
  case Nil
  then show ?case by (cases t) (simp_all add: hex_EncodeToString_def hex_byte_def)
next
  case (Cons c s)
  then obtain d u where t: "t = d # u" by (cases t) (simp_all add: hex_EncodeToString_def hex_byte_def)
  have e: "hex_byte c @ hex_EncodeToString s = hex_byte d @ hex_EncodeToString u"
    using Cons.prems by (simp add: t hex_EncodeToString_def)
  have "length (hex_byte c) = length (hex_byte d)" by (simp add: hex_byte_def)
  then have "hex_byte c = hex_byte d" "hex_EncodeToString s = hex_EncodeToString u"
    using e by (simp_all add: append_eq_append_conv)
  then show ?case using Cons.IH hex_byte_inj t by blast
qed

subsection \<open>Unpadded URL-safe base64\<close>

definition b64_chars :: string where
  "b64_chars = ''ABCDEFGHIJKLMNOPQRSTUVWXYZabcdefghijklmnopqrstuvwxyz0123456789-_''"

fun sextets :: "nat list \<Rightarrow> nat list" where
  "sextets [] = []"
| "sextets [a] = [a div 4, a mod 4 * 16]"
| "sextets [a, b] = [a div 4, a mod 4 * 16 + b div 16, b mod 16 * 4]"
| "sextets (a # b # c # r) = a div 4 # (a mod 4 * 16 + b div 16) # (b mod 16 * 4 + c div 64) # c mod 64 # sextets r"

definition b64_EncodeToString :: "string \<Rightarrow> string" where
  "b64_EncodeToString s = map ((!) b64_chars) (sextets (map of_char s))"

text \<open>
  \<open>DecodeString\<close> skips carriage returns and line feeds, refuses every other character outside the
  alphabet and a final group of one character, and ignores the unused low bits of the final group.
\<close>

fun octets :: "nat list \<Rightarrow> nat list option" where
  "octets [] = Some []"
| "octets [x] = None"
| "octets [x, y] = Some [x * 4 + y div 16]"
| "octets [x, y, z] = Some [x * 4 + y div 16, y mod 16 * 16 + z div 4]"
| "octets (x # y # z # w # r) =
     map_option (\<lambda>bs. (x * 4 + y div 16) # (y mod 16 * 16 + z div 4) # (z mod 4 * 64 + w) # bs) (octets r)"

fun index_of :: "char \<Rightarrow> string \<Rightarrow> nat option" where
  "index_of c [] = None"
| "index_of c (x # xs) = (if c = x then Some 0 else map_option Suc (index_of c xs))"

definition line_break :: "char \<Rightarrow> bool" where
  "line_break c \<longleftrightarrow> c = CHR 0x0A \<or> c = CHR 0x0D"

definition b64_DecodeString :: "string \<Rightarrow> string option" where
  "b64_DecodeString s =
     Option.bind (those (map (\<lambda>c. index_of c b64_chars) (filter (\<lambda>c. \<not> line_break c) s)))
       (\<lambda>xs. map_option (map char_of) (octets xs))"

lemma index_of_nth: "distinct xs \<Longrightarrow> i < length xs \<Longrightarrow> index_of (xs ! i) xs = Some i"
proof (induction xs arbitrary: i)
  case (Cons x xs)
  then show ?case by (cases i) auto
qed simp

lemma b64_chars_props: "length b64_chars = 64" "distinct b64_chars" "list_all (\<lambda>c. \<not> line_break c \<and> c \<noteq> CHR '':'') b64_chars"
  by code_simp+

lemma sextets_bound: "\<forall>a \<in> set as. a < 256 \<Longrightarrow> \<forall>x \<in> set (sextets as). x < 64"
  by (induction as rule: sextets.induct) auto

lemma octets_sextets: "\<forall>a \<in> set as. a < 256 \<Longrightarrow> octets (sextets as) = Some as"
  by (induction as rule: sextets.induct) auto

lemma those_map_index: "\<forall>x \<in> set xs. x < 64 \<Longrightarrow> those (map (\<lambda>c. index_of c b64_chars) (map ((!) b64_chars) xs)) = Some xs"
  by (induction xs) (simp_all add: index_of_nth b64_chars_props)

lemma b64_EncodeToString_chars: "c \<in> set (b64_EncodeToString s) \<Longrightarrow> c \<in> set b64_chars"
  using sextets_bound [of "map of_char s"] b64_chars_props(1) by (auto simp: b64_EncodeToString_def)

lemma b64_roundtrip: "b64_DecodeString (b64_EncodeToString s) = Some s"
proof -
  let ?xs = "sextets (map of_char s)"
  have b: "\<forall>x \<in> set ?xs. x < 64" by (rule sextets_bound) auto
  have "\<not> line_break c" if "c \<in> set (b64_EncodeToString s)" for c
    using b64_EncodeToString_chars [OF that] b64_chars_props(3) by (simp add: list_all_iff)
  then have f: "filter (\<lambda>c. \<not> line_break c) (b64_EncodeToString s) = b64_EncodeToString s"
    by (simp add: filter_id_conv)
  have "octets ?xs = Some (map of_char s)" by (rule octets_sextets) auto
  moreover have "map char_of (map (of_char :: char \<Rightarrow> nat) s) = s" by (simp add: comp_def)
  ultimately have "map_option (map char_of) (octets ?xs) = Some s" by (simp del: map_map)
  then show ?thesis
    unfolding b64_DecodeString_def f unfolding b64_EncodeToString_def
    by (simp add: those_map_index [OF b] del: map_map)
qed

text \<open>
  A known answer for the model of \<open>crypto/sha256\<close>: the digest of the three bytes abc is that of the standard. The
  message schedule and the rounds are evaluated in slices.
\<close>

definition abc_schedule :: "w32 list" where
  "abc_schedule = [
   1633837952, 0, 0, 0, 0, 0, 0, 0,
   0, 0, 0, 0, 0, 0, 0, 24,
   1633837952, 983040, 2108187653, 1610613702, 1050508152, 25426944, 316456923, 3806512014,
   3357629466, 3073800610, 3854317833, 845560923, 2636160359, 3968280267, 1881225380, 3552024379,
   2482346367, 996719219, 2952069057, 4043988066, 176896406, 1924104970, 2483675966, 610538786,
   2672279444, 4037431130, 1042573945, 657669027, 206005234, 2215296807, 2049510749, 106709978,
   4215179723, 3430291419, 3118885940, 2845390439, 2226839261, 3256115900, 344409900, 2987358873,
   4015503821, 3957764664, 2682456414, 2025622859, 2755645205, 1720397816, 4004225740, 313650667]"

definition abc_states :: "w32 list list" where
  "abc_states = [
   [1779033703, 3144134277, 1013904242, 2773480762, 1359893119, 2600822924, 528734635, 1541459225],
   [2241887071, 3842179968, 725748213, 71342698, 207977081, 2603066369, 1900175533, 1135452741],
   [2969183118, 3227803614, 3643992854, 2274437520, 123276749, 194179596, 1952073950, 509051416],
   [3319086477, 2812502591, 3261099373, 2647034723, 2856829767, 1240797514, 3777329520, 2329577776],
   [1941126133, 3935906338, 2684750640, 909411017, 3126399250, 17410874, 2917635127, 1628611511],
   [2045405306, 1841658506, 887035396, 1101421745, 519815328, 4034403272, 2768741693, 124953195],
   [1098003085, 2706117808, 1923828625, 643991573, 4274981830, 3581645993, 3077922209, 2819559920],
   [952932627, 1053056219, 4117770203, 270520975, 1422599787, 3842906959, 2672265155, 1386118400],
   [1349398616, 3550093669, 80891244, 3093179625, 1593118500, 4212265488, 2492278198, 2518632596]]"

definition slice :: "nat \<Rightarrow> 'a list \<Rightarrow> 'a list" where
  "slice i xs = take 8 (drop (8 * i) xs)"

lemma schedule_add: "schedule (m + n) ws = schedule n (schedule m ws)"
  by (induction m arbitrary: ws) (simp_all add: Let_def)

lemma abc_words: "map be_word (chunks 3 (sha_pad (map of_char ''abc''))) = take 16 abc_schedule"
  by code_simp

lemma abc_schedule_16: "schedule 12 (rev (take 16 abc_schedule)) = rev (take 28 abc_schedule)"
  by code_simp

lemma abc_schedule_28: "schedule 12 (rev (take 28 abc_schedule)) = rev (take 40 abc_schedule)"
  by code_simp

lemma abc_schedule_40: "schedule 12 (rev (take 40 abc_schedule)) = rev (take 52 abc_schedule)"
  by code_simp

lemma abc_schedule_52: "schedule 12 (rev (take 52 abc_schedule)) = rev (take 64 abc_schedule)"
  by code_simp

lemma abc_round_0: "foldl sha_round (abc_states ! 0) (zip (slice 0 sha_k) (slice 0 abc_schedule)) = abc_states ! 1"
  by code_simp

lemma abc_round_1: "foldl sha_round (abc_states ! 1) (zip (slice 1 sha_k) (slice 1 abc_schedule)) = abc_states ! 2"
  by code_simp

lemma abc_round_2: "foldl sha_round (abc_states ! 2) (zip (slice 2 sha_k) (slice 2 abc_schedule)) = abc_states ! 3"
  by code_simp

lemma abc_round_3: "foldl sha_round (abc_states ! 3) (zip (slice 3 sha_k) (slice 3 abc_schedule)) = abc_states ! 4"
  by code_simp

lemma abc_round_4: "foldl sha_round (abc_states ! 4) (zip (slice 4 sha_k) (slice 4 abc_schedule)) = abc_states ! 5"
  by code_simp

lemma abc_round_5: "foldl sha_round (abc_states ! 5) (zip (slice 5 sha_k) (slice 5 abc_schedule)) = abc_states ! 6"
  by code_simp

lemma abc_round_6: "foldl sha_round (abc_states ! 6) (zip (slice 6 sha_k) (slice 6 abc_schedule)) = abc_states ! 7"
  by code_simp

lemma abc_round_7: "foldl sha_round (abc_states ! 7) (zip (slice 7 sha_k) (slice 7 abc_schedule)) = abc_states ! 8"
  by code_simp

lemma abc_schedule_all: "rev (schedule 48 (rev (take 16 abc_schedule))) = abc_schedule"
proof -
  have "schedule (12 + (12 + (12 + 12))) (rev (take 16 abc_schedule)) = rev (take 64 abc_schedule)"
    unfolding schedule_add abc_schedule_16 abc_schedule_28 abc_schedule_40 abc_schedule_52 ..
  then show ?thesis by (simp add: abc_schedule_def)
qed

lemma abc_slices:
  "zip sha_k abc_schedule = concat (map (\<lambda>i. zip (slice i sha_k) (slice i abc_schedule)) [0, 1, 2, 3, 4, 5, 6, 7])"
  by (simp add: sha_k_def abc_schedule_def slice_def)

lemma abc_rounds: "foldl sha_round (abc_states ! 0) (zip sha_k abc_schedule) = abc_states ! 8"
  unfolding abc_slices
  by (simp add: abc_round_0 [simplified] abc_round_1 [simplified] abc_round_2 abc_round_3 abc_round_4 abc_round_5 abc_round_6 abc_round_7)

theorem Sum256_abc:
  "hex_EncodeToString (Sum256 ''abc'') = ''ba7816bf8f01cfea414140de5dae2223b00361a396177a9cb410ff61f20015ad''"
proof -
  have h: "sha_h0 = abc_states ! 0" by (simp add: sha_h0_def abc_states_def)
  have p: "chunks 63 (sha_pad (map of_char ''abc'')) = [sha_pad (map of_char ''abc'')]" by code_simp
  have "sha_block sha_h0 (sha_pad (map of_char ''abc'')) = map2 (+) sha_h0 (abc_states ! 8)"
    unfolding sha_block_def Let_def abc_words abc_schedule_all h abc_rounds ..
  then have sum: "Sum256 ''abc'' =
      concat (map (\<lambda>w. map (\<lambda>i. char_of (int_byte (uint w) i)) (rev [0..<4])) (map2 (+) sha_h0 (abc_states ! 8)))"
    unfolding Sum256_def Let_def p by simp
  show ?thesis unfolding sum by code_simp
qed

end
