(* ===== verification/Digests.thy ===== *)
theory Digests
  imports Canonical Go_Sha256 Errors
begin

text \<open>
  Content digests (\<open>semantics/record.go\<close>, \<open>semantics/sources.go\<close>) and the errors of the evidence side of
  package \<open>semantics\<close>. A Go struct is hashed through its JSON form; each component defines that form next
  to its record.
\<close>

subsection \<open>Errors of the evidence side\<close>

datatype ev_sentinel =
    ErrEvidenceConstraint | ErrEvidenceNotCoreEvaluated
  | ErrRequirementShape | ErrRequirementVersion | ErrRequirementExpression
  | ErrContextMissing | ErrContextShape | ErrContextNotUTC | ErrContextFuture | ErrContextStale
  | ErrContextNoClock
  | ErrActionShape | ErrActionSuite | ErrActionNotMatchable | ErrActionProjectionLossy
  | ErrChallengeShape | ErrChallengeExpired | ErrChallengeNotOutstanding | ErrChallengeRetryNotBefore
  | ErrSourceChainEmpty | ErrSourceShape | ErrSourceDuplicate | ErrSourceDanglingLink
  | ErrSourceEdgeUnbacked | ErrSourceChainCycle | ErrSourceChainBranch

text \<open>
  \<open>Ev e msg args\<close> is the sentinel wrapped with a message; \<open>CoreError\<close> and \<open>CanonError\<close> carry the errors of
  the authorization side and of the canonical encoding through unchanged.
\<close>

datatype ev_error = Ev ev_sentinel string "string list" | CoreError error | CanonError canon_err

abbreviation ev :: "ev_sentinel \<Rightarrow> ev_error" where
  "ev e \<equiv> Ev e [] []"

definition evidence_not_core_evaluated :: string where
  "evidence_not_core_evaluated = ''evidence_not_core_evaluated''"

subsection \<open>Digests\<close>

record Digest =
  Alg :: string
  DValue :: string

definition DigestAlgSHA256 :: string where
  "DigestAlgSHA256 = ''sha-256''"

definition Digest_Equal :: "Digest \<Rightarrow> Digest \<Rightarrow> bool" where
  "Digest_Equal d e \<longleftrightarrow> Alg d = Alg e \<and> DValue d = DValue e"

definition DigestOfCanonical :: "string \<Rightarrow> Digest" where
  "DigestOfCanonical canonical = \<lparr>Alg = DigestAlgSHA256, DValue = Sum256 canonical\<rparr>"

definition DigestOf :: "json \<Rightarrow> ev_error + Digest" where
  "DigestOf v =
     (case CanonicalJSON v of
        Inl e \<Rightarrow> Inl (CanonError e)
      | Inr b \<Rightarrow> Inr \<lparr>Alg = DigestAlgSHA256, DValue = Sum256 b\<rparr>)"

definition digestUsable :: "Digest \<Rightarrow> bool" where
  "digestUsable d \<longleftrightarrow> Alg d \<noteq> [] \<and> DValue d \<noteq> []"

definition digestKey :: "Digest \<Rightarrow> string" where
  "digestKey d = Alg d @ '':'' @ hex_EncodeToString (DValue d)"

text \<open>
  The key of a digest determines it: the hexadecimal digits contain no colon, so the last colon of the key
  ends the algorithm name.
\<close>

lemma hex_no_colon: "CHR '':'' \<notin> set (hex_EncodeToString s)"
proof -
  have n: "CHR '':'' \<noteq> hex_chars ! i" if "i < 16" for i
    using that nth_mem [of i hex_chars] by (auto simp: hex_chars_def)
  have "CHR '':'' \<notin> set (hex_byte c)" for c
    using n [of "of_char c div 16"] n [of "of_char c mod 16"] by (simp add: hex_byte_def less_mult_imp_div_less)
  then show ?thesis by (simp add: hex_EncodeToString_def)
qed

lemma last_sep_eq:
  assumes "c \<notin> set b" "c \<notin> set d" "a @ c # b = x @ c # d"
  shows "a = x \<and> b = d"
proof -
  have "rev b @ c # rev a = rev d @ c # rev x" using assms(3) by (metis rev.simps(2) rev_append append_assoc append_Cons append_Nil)
  then have "rev b = rev d \<and> rev a = rev x" using sep_append_eq_iff [of c "rev b" "rev d"] assms(1,2) by simp
  then show ?thesis by simp
qed

lemma digestKey_inj: "digestKey d = digestKey e \<Longrightarrow> d = e"
proof -
  assume "digestKey d = digestKey e"
  then have "Alg d = Alg e \<and> hex_EncodeToString (DValue d) = hex_EncodeToString (DValue e)"
    using last_sep_eq [OF hex_no_colon hex_no_colon] by (simp add: digestKey_def)
  then show ?thesis using hex_EncodeToString_inj by (cases d, cases e) auto
qed

lemma Digest_Equal_iff [simp]: "Digest_Equal d e \<longleftrightarrow> d = e"
  by (cases d, cases e) (simp add: Digest_Equal_def)

lemma DigestOf_Inr:
  "DigestOf v = Inr d \<longleftrightarrow> canon_ok v \<and> d = \<lparr>Alg = DigestAlgSHA256, DValue = Sum256 (writeCanonicalJSON v)\<rparr>"
proof (cases "CanonicalJSON v")
  case (Inl e)
  then have "\<not> canon_ok v" using CanonicalJSON_Inl [of v] by blast
  with Inl show ?thesis by (simp add: DigestOf_def)
next
  case (Inr s)
  then have "canon_ok v" "s = writeCanonicalJSON v" using CanonicalJSON_Inr [of v s] by simp_all
  with Inr show ?thesis by (auto simp: DigestOf_def)
qed

lemma DigestOf_usable: "DigestOf v = Inr d \<Longrightarrow> digestUsable d"
  by (auto simp: DigestOf_Inr digestUsable_def DigestAlgSHA256_def) (metis Sum256_length list.size(3) zero_neq_numeral)

end
