(* ===== verification/Evidence.thy ===== *)
theory Evidence
  imports Digests Go_Strconv Go_Time
begin

text \<open>
  Evidence constraints (\<open>semantics/evidence.go\<close>) and the freshness context of a decision
  (\<open>semantics/context.go\<close>): the value grammar of the four constraint types, their three-valued evaluation
  over the verified facts of one role, and the clock check of a context.
\<close>

subsection \<open>Facts and verdicts\<close>

definition reservedEvidenceScheme :: string where "reservedEvidenceScheme = ''varwof/evidence-v1''"
definition evidenceFreshness :: string where "evidenceFreshness = reservedEvidenceScheme @ '':freshness''"
definition evidenceConsumption :: string where "evidenceConsumption = reservedEvidenceScheme @ '':consumption''"
definition evidenceQuorum :: string where "evidenceQuorum = reservedEvidenceScheme @ '':quorum''"
definition evidenceExclusion :: string where "evidenceExclusion = reservedEvidenceScheme @ '':exclusion''"

definition maxEvidenceAgeSeconds :: int where "maxEvidenceAgeSeconds = 1000000000"

datatype EvidenceVerdict = EvidenceSatisfied | EvidenceViolated | EvidenceUnknown

text \<open>\<open>IssuedAt\<close> is the zero instant when the artifact has none.\<close>

record EvidenceFact =
  factType :: string
  Subject :: string
  IssuedAt :: instant
  Verified :: bool

record EvidenceContext =
  Now :: instant
  Initiator :: string
  Executor :: string

record EvidenceEvaluation =
  evConstraint :: string
  evVerdict :: EvidenceVerdict
  evReason :: string

lemmas evidence_ids = evidenceFreshness_def evidenceConsumption_def evidenceQuorum_def evidenceExclusion_def
  reservedEvidenceScheme_def

subsection \<open>The value grammar\<close>

definition evidence_error :: "string \<Rightarrow> string \<Rightarrow> ev_error" where
  "evidence_error c msg = Ev ErrEvidenceConstraint msg [c]"

definition ValidateEvidenceConstraint :: "string \<Rightarrow> ev_error option" where
  "ValidateEvidenceConstraint c =
     (case split_on (CHR '':'') c of
        p0 # p1 # ps \<Rightarrow>
          (let key = p0 @ '':'' @ p1
           in if key = evidenceFreshness then
                (case ps of
                   [u, v] \<Rightarrow>
                     if u \<noteq> ''sec'' then Some (evidence_error c ''want freshness:sec:<n>'')
                     else
                       (case atoi v of
                          None \<Rightarrow> Some (evidence_error c ''max age must be a non-negative integer'')
                        | Some n \<Rightarrow>
                            if n < 0 then Some (evidence_error c ''max age must be a non-negative integer'')
                            else if maxEvidenceAgeSeconds < n then Some (evidence_error c ''max age exceeds'')
                            else None)
                 | _ \<Rightarrow> Some (evidence_error c ''want freshness:sec:<n>''))
              else if key = evidenceConsumption then
                fail_if (ps \<noteq> [''once'']) (evidence_error c ''want consumption:once'')
              else if key = evidenceQuorum then
                (case ps of
                   [u, v] \<Rightarrow>
                     if u \<noteq> ''distinct'' then Some (evidence_error c ''want quorum:distinct:<n>'')
                     else
                       (case atoi v of
                          None \<Rightarrow> Some (evidence_error c ''a quorum is greater than one'')
                        | Some n \<Rightarrow> fail_if (n < 2) (evidence_error c ''a quorum is greater than one''))
                 | _ \<Rightarrow> Some (evidence_error c ''want quorum:distinct:<n>''))
              else if key = evidenceExclusion then
                fail_if (ps \<noteq> [''initiator''] \<and> ps \<noteq> [''executor''])
                  (evidence_error c ''want exclusion:initiator|executor'')
              else Some (evidence_error c []))
      | _ \<Rightarrow> Some (evidence_error c []))"

subsection \<open>Evaluation\<close>

definition EvidenceFactsOfRole :: "EvidenceFact list \<Rightarrow> string \<Rightarrow> EvidenceFact list" where
  "EvidenceFactsOfRole facts role = filter (\<lambda>f. factType f = role) facts"

definition eligible :: "EvidenceFact list \<Rightarrow> EvidenceFact list" where
  "eligible facts = filter Verified facts"

text \<open>The keys of the map the source builds.\<close>

definition distinctSubjects :: "EvidenceFact list \<Rightarrow> string list" where
  "distinctSubjects facts = remdups (filter (\<lambda>s. s \<noteq> []) (map Subject (eligible facts)))"

definition mustAtoi :: "string \<Rightarrow> int" where
  "mustAtoi s = (case atoi s of Some n \<Rightarrow> n | None \<Rightarrow> 0)"

definition freshness_fault :: "int \<Rightarrow> instant \<Rightarrow> EvidenceFact \<Rightarrow> string option" where
  "freshness_fault maxAge now f =
     (if IssuedAt f = zero_time then Some ''freshness:no_issuance_time''
      else if now < IssuedAt f then Some ''freshness:future_issued''
      else if maxAge < Sub now (IssuedAt f) then Some ''freshness:stale''
      else None)"

definition evaluation :: "string \<Rightarrow> EvidenceVerdict \<Rightarrow> string \<Rightarrow> EvidenceEvaluation" where
  "evaluation c v r = \<lparr>evConstraint = c, evVerdict = v, evReason = r\<rparr>"

definition EvaluateEvidenceConstraint ::
  "string \<Rightarrow> EvidenceFact list \<Rightarrow> EvidenceContext \<Rightarrow> ev_error + EvidenceEvaluation" where
  "EvaluateEvidenceConstraint c facts ctx =
     (case ValidateEvidenceConstraint c of
        Some e \<Rightarrow> Inl e
      | None \<Rightarrow>
          let parts = split_on (CHR '':'') c;
              key = parts ! 0 @ '':'' @ parts ! 1
          in Inr (
            if key = evidenceFreshness then
              (case first_err (freshness_fault (seconds_duration (mustAtoi (parts ! 3))) (Now ctx)) (eligible facts) of
                 Some r \<Rightarrow> evaluation c EvidenceViolated r
               | None \<Rightarrow>
                   if eligible facts = [] then evaluation c EvidenceViolated ''freshness:no_eligible_fact''
                   else evaluation c EvidenceSatisfied [])
            else if key = evidenceQuorum then
              (let threshold = mustAtoi (parts ! 3); n = int (length (distinctSubjects facts))
               in if n < threshold
                  then evaluation c EvidenceViolated
                         (''quorum:distinct_subjects='' @ itoa n @ ''<threshold='' @ itoa threshold)
                  else evaluation c EvidenceSatisfied [])
            else if key = evidenceExclusion then
              (let excluded = (if parts ! 2 = ''initiator'' then Initiator ctx else Executor ctx)
               in if excluded = [] then evaluation c EvidenceUnknown ''exclusion:identity_not_supplied''
                  else if excluded \<in> set (distinctSubjects facts)
                  then evaluation c EvidenceViolated (''exclusion:'' @ parts ! 2 @ ''_is_approver'')
                  else evaluation c EvidenceSatisfied [])
            else evaluation c EvidenceUnknown evidence_not_core_evaluated))"

definition CoreEvaluatesEvidenceConstraint :: "string \<Rightarrow> bool" where
  "CoreEvaluatesEvidenceConstraint c \<longleftrightarrow>
     ValidateEvidenceConstraint c = None \<and>
     (let parts = split_on (CHR '':'') c in parts ! 0 @ '':'' @ parts ! 1 \<noteq> evidenceConsumption)"

subsection \<open>The decision context\<close>

text \<open>A \<open>time.Time\<close> with its location; the zero value is in UTC.\<close>

record Time =
  tInstant :: instant
  tUTC :: bool

definition Time_IsZero :: "Time \<Rightarrow> bool" where
  "Time_IsZero t \<longleftrightarrow> tInstant t = zero_time"

record DecisionContext =
  At :: Time
  MaxAgeSec :: int \<comment> \<open>an \<open>int64\<close>\<close>
  Nonce :: string
  EpochID :: "int option"
  SnapshotDigest :: "Digest option"

definition maxContextNonceBytes :: nat where "maxContextNonceBytes = 512"

definition MaxAge :: "DecisionContext \<Rightarrow> int" where
  "MaxAge c = seconds_duration (MaxAgeSec c)"

definition Context_IsZero :: "DecisionContext \<Rightarrow> bool" where
  "Context_IsZero c \<longleftrightarrow> Time_IsZero (At c) \<and> Nonce c = [] \<and> EpochID c = None"

definition Context_Validate :: "DecisionContext \<Rightarrow> ev_error option" where
  "Context_Validate c =
     seq_err [
       fail_if (MaxAgeSec c < 0) (Ev ErrContextShape ''negative max_age_sec'' []),
       fail_if (0 < MaxAgeSec c \<and> Time_IsZero (At c)) (Ev ErrContextShape ''max_age_sec without at'' []),
       fail_if (Context_IsZero c) (ev ErrContextMissing),
       fail_if (\<not> Time_IsZero (At c) \<and> \<not> tUTC (At c)) (Ev ErrContextNotUTC ''at carries location'' []),
       fail_if (case SnapshotDigest c of None \<Rightarrow> False | Some d \<Rightarrow> \<not> digestUsable d)
         (Ev ErrContextShape ''incomplete snapshot digest'' []),
       fail_if (Nonce c \<noteq> [] \<and> maxContextNonceBytes < length (Nonce c)) (Ev ErrContextShape ''nonce longer than'' [])]"

definition Fresh :: "DecisionContext \<Rightarrow> instant \<Rightarrow> ev_error option" where
  "Fresh c now =
     seq_err [
       Context_Validate c,
       fail_if (Time_IsZero (At c)) (ev ErrContextNoClock),
       fail_if (now < tInstant (At c)) (ev ErrContextFuture),
       (let maxAge = MaxAge c
        in fail_if (0 < maxAge \<and> maxAge < Sub now (tInstant (At c))) (ev ErrContextStale))]"

end
