(* ===== verification/Requirement.thy ===== *)
theory Requirement
  imports Evidence Go_Json
begin

text \<open>
  The relying party's evidence requirement (\<open>semantics/requirement.go\<close>): the bounded expression language
  with its tokenizer and recursive-descent parser, the validation of a requirement, its three-valued
  evaluation over facts and the binary report.
\<close>

definition RequirementVersion :: string where "RequirementVersion = ''CLC-REQUIREMENT-v1''"
definition maxRequirementExpressionBytes :: nat where "maxRequirementExpressionBytes = 512"
definition maxRequirementNodes :: int where "maxRequirementNodes = 64"
definition maxRequirementDepth :: int where "maxRequirementDepth = 8"

record RequirementConstraint =
  rcRole :: string
  rcConstraint :: string

record Requirement =
  rqVersion :: string
  rqID :: string
  rqPurpose :: string
  rqExpression :: string
  rqConstraints :: "RequirementConstraint list"

subsection \<open>Tokens\<close>

definition isIdentByte :: "char \<Rightarrow> bool" where
  "isIdentByte c \<longleftrightarrow>
     in_range (CHR ''a'') (CHR ''z'') c \<or> in_range (CHR ''A'') (CHR ''Z'') c \<or> is_digit c \<or>
     c = CHR ''.'' \<or> c = CHR '':'' \<or> c = CHR ''-'' \<or> c = CHR ''_''"

definition blank :: "char \<Rightarrow> bool" where
  "blank c \<longleftrightarrow> c = CHR '' '' \<or> c = CHR 0x09 \<or> c = CHR 0x0A \<or> c = CHR 0x0D"

definition push_token :: "string \<Rightarrow> ev_error + string list \<Rightarrow> ev_error + string list" where
  "push_token t r = (case r of Inl e \<Rightarrow> Inl e | Inr ts \<Rightarrow> Inr (t # ts))"

text \<open>The loop of the tokenizer; the position is the remaining input.\<close>

function scan_requirement :: "string \<Rightarrow> ev_error + string list" where
  "scan_requirement [] = Inr []"
| "scan_requirement (c # cs) =
     (if blank c then scan_requirement cs
      else if c = CHR ''('' \<or> c = CHR '')'' then push_token [c] (scan_requirement cs)
      else if c = CHR ''&'' \<or> c = CHR ''|'' then
        (case cs of
           c' # cs' \<Rightarrow>
             if c' = c then push_token [c, c] (scan_requirement cs')
             else Inl (Ev ErrRequirementExpression ''stray %q'' [[c]])
         | [] \<Rightarrow> Inl (Ev ErrRequirementExpression ''stray %q'' [[c]]))
      else if isIdentByte c then
        push_token (c # takeWhile isIdentByte cs) (scan_requirement (dropWhile isIdentByte cs))
      else Inl (Ev ErrRequirementExpression ''unexpected character %q'' [[c]]))"
  by pat_completeness auto
termination
  by (relation "measure length") (auto simp: le_imp_less_Suc length_dropWhile_le)

definition tokenizeRequirement :: "string \<Rightarrow> ev_error + string list" where
  "tokenizeRequirement s =
     (case scan_requirement s of
        Inl e \<Rightarrow> Inl e
      | Inr [] \<Rightarrow> Inl (Ev ErrRequirementExpression ''empty expression'' [])
      | Inr ts \<Rightarrow> Inr ts)"

subsection \<open>The parser\<close>

datatype requirementExpr = Ident string | Binary string requirementExpr requirementExpr

definition requirementOperator :: "string \<Rightarrow> string option" where
  "requirementOperator tok =
     (if tok = ''AND'' \<or> tok = ''&&'' then Some ''AND''
      else if tok = ''OR'' \<or> tok = ''||'' then Some ''OR'' else None)"

definition requirementOperatorToken :: "string \<Rightarrow> bool" where
  "requirementOperatorToken tok \<longleftrightarrow> requirementOperator tok \<noteq> None"

text \<open>
  The parser state is the tokens not yet consumed and the number of binary nodes. Each function returns the
  expression with the state it leaves. The two comparisons of lengths only serve termination:
  \<open>parser_consumes\<close> shows that they always hold.
\<close>

type_synonym parsed = "ev_error + requirementExpr \<times> string list \<times> int"

function (sequential) parseExpr :: "int \<Rightarrow> string list \<Rightarrow> int \<Rightarrow> parsed"
  and parse_operators :: "int \<Rightarrow> requirementExpr \<Rightarrow> string list \<Rightarrow> int \<Rightarrow> parsed"
  and parseTerm :: "int \<Rightarrow> string list \<Rightarrow> int \<Rightarrow> parsed" where
  "parseExpr depth ts n =
     (if maxRequirementDepth < depth then Inl (Ev ErrRequirementShape ''nesting deeper than'' [])
      else
        case parseTerm depth ts n of
          Inl e \<Rightarrow> Inl e
        | Inr (l, rest, n') \<Rightarrow>
            if length rest < length ts then parse_operators depth l rest n'
            else Inl (Ev ErrRequirementExpression ''unreachable'' []))"
| "parse_operators depth l [] n = Inr (l, [], n)"
| "parse_operators depth l (tok # ts) n =
     (case requirementOperator tok of
        None \<Rightarrow> Inr (l, tok # ts, n)
      | Some op \<Rightarrow>
          (case parseTerm depth ts n of
             Inl e \<Rightarrow> Inl e
           | Inr (r, rest, n') \<Rightarrow>
               if maxRequirementNodes < n' + 1 then Inl (Ev ErrRequirementShape ''more terms than'' [])
               else if length rest < length ts then parse_operators depth (Binary op l r) rest (n' + 1)
               else Inl (Ev ErrRequirementExpression ''unreachable'' [])))"
| "parseTerm depth [] n = Inl (Ev ErrRequirementExpression ''unexpected end of expression'' [])"
| "parseTerm depth (tok # ts) n =
     (if tok = ''('' then
        (case parseExpr (depth + 1) ts n of
           Inl e \<Rightarrow> Inl e
         | Inr (e, close # rest, n') \<Rightarrow>
             if close = '')'' then Inr (e, rest, n') else Inl (Ev ErrRequirementExpression ''missing )'' [])
         | Inr (e, [], n') \<Rightarrow> Inl (Ev ErrRequirementExpression ''missing )'' []))
      else if tok = '')'' \<or> requirementOperatorToken tok then
        Inl (Ev ErrRequirementExpression ''expected a term, got %q'' [tok])
      else Inr (Ident tok, ts, n))"
  by pat_completeness auto
termination
  by (relation "measure (case_sum (\<lambda>(d, ts, n). 2 * length ts + 1)
        (case_sum (\<lambda>(d, l, ts, n). 2 * length ts) (\<lambda>(d, ts, n). 2 * length ts)))") auto

declare parseExpr.simps [simp del]

definition parseRequirementExpression :: "string \<Rightarrow> ev_error + requirementExpr" where
  "parseRequirementExpression s =
     (if trim_space s = [] then Inl (Ev ErrRequirementExpression ''empty expression'' [])
      else
        case tokenizeRequirement s of
          Inl e \<Rightarrow> Inl e
        | Inr toks \<Rightarrow>
            (case parseExpr 0 toks 0 of
               Inl e \<Rightarrow> Inl e
             | Inr (expr, [], _) \<Rightarrow> Inr expr
             | Inr (expr, tok # _, _) \<Rightarrow> Inl (Ev ErrRequirementExpression ''unexpected %q'' [tok])))"

primrec expr_eval :: "requirementExpr \<Rightarrow> (string \<Rightarrow> bool) \<Rightarrow> bool" where
  "expr_eval (Ident i) present = present i"
| "expr_eval (Binary op l r) present =
     (if op = ''AND'' then expr_eval l present \<and> expr_eval r present
      else expr_eval l present \<or> expr_eval r present)"

primrec expr_roles :: "requirementExpr \<Rightarrow> string list" where
  "expr_roles (Ident i) = [i]"
| "expr_roles (Binary op l r) = expr_roles l @ expr_roles r"

subsection \<open>Requirements\<close>

fun validate_constraints :: "string list \<Rightarrow> RequirementConstraint list \<Rightarrow> ev_error option" where
  "validate_constraints seen [] = None"
| "validate_constraints seen (c # cs) =
     (if rcRole c = [] then Some (Ev ErrRequirementShape ''constraint without a role'' [])
      else
        case ValidateEvidenceConstraint (rcConstraint c) of
          Some e \<Rightarrow> Some e
        | None \<Rightarrow>
            (let key = rcRole c @ CHR 0x00 # rcConstraint c
             in if key \<in> set seen
                then Some (Ev ErrRequirementShape ''duplicate constraint for role %q'' [rcRole c])
                else validate_constraints (key # seen) cs))"

definition Requirement_Validate :: "Requirement \<Rightarrow> ev_error option" where
  "Requirement_Validate r =
     seq_err [
       fail_if (rqVersion r \<noteq> RequirementVersion) (Ev ErrRequirementVersion ''%q'' [rqVersion r]),
       fail_if (rqID r = []) (Ev ErrRequirementShape ''requirement_id required'' []),
       fail_if (maxRequirementExpressionBytes < length (rqExpression r))
         (Ev ErrRequirementShape ''expression longer than'' []),
       (case parseRequirementExpression (rqExpression r) of Inl e \<Rightarrow> Some e | Inr _ \<Rightarrow> None),
       validate_constraints [] (rqConstraints r)]"

text \<open>The JSON form of a requirement: empty purpose and constraints are omitted.\<close>

definition optional_member :: "bool \<Rightarrow> string \<Rightarrow> json \<Rightarrow> (string \<times> json) list" where
  "optional_member absent k v = (if absent then [] else [(k, v)])"

definition json_of_Requirement :: "Requirement \<Rightarrow> json" where
  "json_of_Requirement r =
     JObj ([(''@version'', JStr (rqVersion r)), (''requirement_id'', JStr (rqID r))]
       @ optional_member (rqPurpose r = []) ''purpose'' (JStr (rqPurpose r))
       @ [(''expression'', JStr (rqExpression r))]
       @ optional_member (rqConstraints r = []) ''constraints''
           (JArr (map (\<lambda>c. JObj [(''role'', JStr (rcRole c)), (''constraint'', JStr (rcConstraint c))])
             (rqConstraints r))))"

definition Requirement_Digest :: "Requirement \<Rightarrow> ev_error + Digest" where
  "Requirement_Digest r =
     (case Requirement_Validate r of Some e \<Rightarrow> Inl e | None \<Rightarrow> DigestOf (json_of_Requirement r))"

definition Roles :: "Requirement \<Rightarrow> ev_error + string list" where
  "Roles r =
     (case parseRequirementExpression (rqExpression r) of
        Inl e \<Rightarrow> Inl e
      | Inr expr \<Rightarrow> Inr (sorted_set (expr_roles expr)))"

subsection \<open>Evaluation\<close>

record RequirementResult =
  resID :: string
  resDigest :: Digest
  resVerdict :: EvidenceVerdict
  resExpression :: bool
  MissingRoles :: "string list"
  resConstraints :: "EvidenceEvaluation list"

definition role_present :: "EvidenceFact list \<Rightarrow> string \<Rightarrow> bool" where
  "role_present facts role \<longleftrightarrow> (\<exists>f \<in> set (EvidenceFactsOfRole facts role). Verified f)"

definition EvaluateRequirement ::
  "Requirement \<Rightarrow> EvidenceFact list \<Rightarrow> EvidenceContext \<Rightarrow> ev_error + RequirementResult" where
  "EvaluateRequirement req facts ctx =
     (case Requirement_Validate req of
        Some e \<Rightarrow> Inl e
      | None \<Rightarrow>
     (case Requirement_Digest req of
        Inl e \<Rightarrow> Inl e
      | Inr digest \<Rightarrow>
     (case parseRequirementExpression (rqExpression req) of
        Inl e \<Rightarrow> Inl e
      | Inr expr \<Rightarrow>
     (let holds = expr_eval expr (role_present facts);
          missing = (if holds then []
                     else case Roles req of
                            Inl _ \<Rightarrow> []
                          | Inr roles \<Rightarrow> filter (\<lambda>r. \<not> role_present facts r) roles)
      in case map_err (\<lambda>c. EvaluateEvidenceConstraint (rcConstraint c) (EvidenceFactsOfRole facts (rcRole c)) ctx)
                (rqConstraints req) of
           Inl e \<Rightarrow> Inl e
         | Inr evs \<Rightarrow>
             Inr \<lparr>resID = rqID req, resDigest = digest,
                  resVerdict =
                    (if EvidenceViolated \<in> set (map evVerdict evs) \<or> \<not> holds then EvidenceViolated
                     else if EvidenceUnknown \<in> set (map evVerdict evs) then EvidenceUnknown
                     else EvidenceSatisfied),
                  resExpression = holds, MissingRoles = missing, resConstraints = evs\<rparr>))))"

definition Satisfied :: "RequirementResult \<Rightarrow> bool" where
  "Satisfied r \<longleftrightarrow> resVerdict r = EvidenceSatisfied"

datatype SatisfactionVerdict = SatisfactionSatisfied | SatisfactionUnsatisfied

definition SatisfactionReasonExpressionFalse :: string where
  "SatisfactionReasonExpressionFalse = ''requirement:expression_false''"

definition SatisfactionReasonUnsatisfied :: string where
  "SatisfactionReasonUnsatisfied = ''requirement:unsatisfied''"

definition Satisfaction :: "RequirementResult \<Rightarrow> SatisfactionVerdict \<times> string" where
  "Satisfaction r =
     (if resVerdict r = EvidenceSatisfied then (SatisfactionSatisfied, [])
      else if \<not> resExpression r then (SatisfactionUnsatisfied, SatisfactionReasonExpressionFalse)
      else
        case find (\<lambda>c. evVerdict c = EvidenceViolated \<or> evVerdict c = EvidenceUnknown) (resConstraints r) of
          Some c \<Rightarrow> (SatisfactionUnsatisfied, evReason c)
        | None \<Rightarrow> (SatisfactionUnsatisfied, SatisfactionReasonUnsatisfied))"

end
