(* ===== verification/Requirement_Laws.thy ===== *)
theory Requirement_Laws
  imports Requirement
begin

text \<open>
  Laws of the evidence requirement: the parser consumes input, respects its limits and reads back every
  printed expression; expressions are monotone in the filled roles; the constraints only see verified facts.
\<close>

lemmas ident_defs = isIdentByte_def in_range_def is_digit_def

subsection \<open>The parser consumes its input and respects the limits\<close>

primrec binary_nodes :: "requirementExpr \<Rightarrow> int" where
  "binary_nodes (Ident i) = 0"
| "binary_nodes (Binary op l r) = binary_nodes l + binary_nodes r + 1"

text \<open>A proper role name: a non-empty run of identifier bytes that is no operator.\<close>

definition role_name :: "string \<Rightarrow> bool" where
  "role_name i \<longleftrightarrow> i \<noteq> [] \<and> list_all isIdentByte i \<and> \<not> requirementOperatorToken i"

primrec expr_wf :: "requirementExpr \<Rightarrow> bool" where
  "expr_wf (Ident i) = role_name i"
| "expr_wf (Binary op l r) = ((op = ''AND'' \<or> op = ''OR'') \<and> expr_wf l \<and> expr_wf r)"

definition req_token :: "string \<Rightarrow> bool" where
  "req_token t \<longleftrightarrow> t \<in> {''('', '')'', ''&&'', ''||''} \<or> t \<noteq> [] \<and> list_all isIdentByte t"

lemma binary_nodes_nonneg: "0 \<le> binary_nodes e"
  by (induction e) simp_all

lemma requirementOperator_wf: "requirementOperator t = Some op \<Longrightarrow> op = ''AND'' \<or> op = ''OR''"
  by (auto simp: requirementOperator_def split: if_splits)

lemma term_token_role:
  "req_token t \<Longrightarrow> t \<noteq> ''('' \<Longrightarrow> t \<noteq> '')'' \<Longrightarrow> \<not> requirementOperatorToken t \<Longrightarrow> role_name t"
  by (auto simp: req_token_def role_name_def requirementOperatorToken_def requirementOperator_def)

definition step_ok :: "string list \<Rightarrow> int \<Rightarrow> requirementExpr \<times> string list \<times> int \<Rightarrow> int \<Rightarrow> bool" where
  "step_ok ts n r base \<longleftrightarrow>
     (case r of (e, rest, n') \<Rightarrow>
        (\<exists>used. ts = used @ rest) \<and> n' = n - base + binary_nodes e \<and> expr_wf e \<and> n' \<le> maxRequirementNodes)"

lemma parser_invariant:
  "list_all req_token ts \<Longrightarrow> n \<le> maxRequirementNodes \<Longrightarrow> parseExpr d ts n = Inr r \<Longrightarrow>
     step_ok ts n r 0 \<and> length (fst (snd r)) < length ts"
  "list_all req_token ts \<Longrightarrow> n \<le> maxRequirementNodes \<Longrightarrow> expr_wf l \<Longrightarrow> parse_operators d l ts n = Inr r \<Longrightarrow>
     step_ok ts n r (binary_nodes l) \<and> length (fst (snd r)) \<le> length ts"
  "list_all req_token ts \<Longrightarrow> n \<le> maxRequirementNodes \<Longrightarrow> parseTerm d ts n = Inr r \<Longrightarrow>
     step_ok ts n r 0 \<and> length (fst (snd r)) < length ts"
proof (induction d ts n and d l ts n and d ts n arbitrary: r and r and r rule: parseExpr_parse_operators_parseTerm.induct)
  case (1 d ts n)
  from 1(5) obtain l rest n' where t: "parseTerm d ts n = Inr (l, rest, n')" "length rest < length ts"
    and o': "parse_operators d l rest n' = Inr r" and d: "\<not> maxRequirementDepth < d"
    by (subst (asm) parseExpr.simps) (auto split: if_splits sum.splits)
  have a: "step_ok ts n (l, rest, n') 0" using 1(1) [OF d 1(3,4) t(1)] by simp
  then obtain used where u: "ts = used @ rest" "n' = n + binary_nodes l" "expr_wf l" "n' \<le> maxRequirementNodes"
    by (auto simp: step_ok_def)
  have "list_all req_token rest" using 1(3) u(1) by simp
  then have b: "step_ok rest n' r (binary_nodes l)" "length (fst (snd r)) \<le> length rest"
    using 1(2) [OF d t(1) _ _ t(2) _ u(4,3) o'] by simp_all
  then show ?case using u t(2) by (auto simp: step_ok_def split: prod.splits)
next
  case (2 d l n)
  then show ?case by (auto simp: step_ok_def)
next
  case (3 d l tok ts n)
  show ?case
  proof (cases "requirementOperator tok")
    case None
    with 3 show ?thesis by (auto simp: step_ok_def)
  next
    case (Some op)
    with 3(6) obtain r1 rest n' where t: "parseTerm d ts n = Inr (r1, rest, n')" "\<not> maxRequirementNodes < n' + 1"
      "length rest < length ts" and o': "parse_operators d (Binary op l r1) rest (n' + 1) = Inr r"
      by (auto split: if_splits sum.splits)
    have ts: "list_all req_token ts" using 3(3) by simp
    obtain used where u: "ts = used @ rest" "n' = n + binary_nodes r1" "expr_wf r1"
      using 3(1) [OF Some ts 3(4) t(1)] by (auto simp: step_ok_def)
    have rest: "list_all req_token rest" using ts u(1) by simp
    have wf: "expr_wf (Binary op l r1)" using requirementOperator_wf [OF Some] u(3) 3(5) by auto
    have b: "step_ok rest (n' + 1) r (binary_nodes (Binary op l r1))" "length (fst (snd r)) \<le> length rest"
      using 3(2) [OF Some t(1) _ _ t(2,3) rest _ wf o'] t(2) by simp_all
    then show ?thesis using u t(3) by (auto simp: step_ok_def split: prod.splits)
  qed
next
  case (4 d n)
  then show ?case by simp
next
  case (5 d tok ts n)
  show ?case
  proof (cases "tok = ''(''")
    case True
    with 5(4) obtain e rest n' where e: "parseExpr (d + 1) ts n = Inr (e, '')'' # rest, n')" "r = (e, rest, n')"
      by (auto split: if_splits sum.splits list.splits)
    have "list_all req_token ts" using 5(2) by simp
    from 5(1) [OF True this 5(3) e(1)] show ?thesis using e(2) by (auto simp: step_ok_def)
  next
    case False
    with 5(4) have t: "tok \<noteq> '')''" "\<not> requirementOperatorToken tok" "r = (Ident tok, ts, n)"
      by (auto split: if_splits)
    then have "role_name tok" using term_token_role False 5(2) by simp
    then show ?thesis using t(3) 5(3) by (auto simp: step_ok_def)
  qed
qed

text \<open>The comparisons of lengths in the parser never fail.\<close>

lemma parser_consumes:
  assumes "list_all req_token ts" "n \<le> maxRequirementNodes" "parseTerm d ts n = Inr (e, rest, n')"
  shows "length rest < length ts"
  using parser_invariant(3) [OF assms] by simp

subsection \<open>Tokens\<close>

lemma scan_tokens: "scan_requirement s = Inr ts \<Longrightarrow> list_all req_token ts"
proof (induction s arbitrary: ts rule: scan_requirement.induct)
  case (2 c cs)
  have rec: "push_token t r = Inr ts \<Longrightarrow> \<exists>us. r = Inr us \<and> ts = t # us" for t r
    by (auto simp: push_token_def split: sum.splits)
  consider "blank c" | "\<not> blank c" "c = CHR ''('' \<or> c = CHR '')''"
    | "\<not> blank c" "c = CHR ''&'' \<or> c = CHR ''|''" | "\<not> blank c" "isIdentByte c" "c \<notin> {CHR ''('', CHR '')'', CHR ''&'', CHR ''|''}"
    | "\<not> blank c" "\<not> isIdentByte c" "c \<notin> {CHR ''('', CHR '')'', CHR ''&'', CHR ''|''}"
    by auto
  then show ?case
  proof cases
    case 1
    with 2 show ?thesis by simp
  next
    case c: 2
    then obtain us where us: "scan_requirement cs = Inr us" "ts = [c] # us"
      using 2(5) rec [of "[c]" "scan_requirement cs"] by auto
    then have "list_all req_token us" using 2(2) c by blast
    moreover have "req_token [c]" using c(2) by (auto simp: req_token_def)
    ultimately show ?thesis using us(2) by simp
  next
    case c: 3
    obtain cs' where cs: "cs = c # cs'" "push_token [c, c] (scan_requirement cs') = Inr ts"
    proof (cases cs)
      case (Cons c' cs')
      with c 2(5) show ?thesis using that [of cs'] by (cases "c' = c") (elim disjE; simp)+
    qed (use c 2(5) in \<open>elim disjE; simp\<close>)
    obtain us where us: "scan_requirement cs' = Inr us" "ts = [c, c] # us" using rec [OF cs(2)] by blast
    have "\<not> (c = CHR ''('' \<or> c = CHR '')'')" using c(2) by auto
    from 2(3) [OF c(1) this c(2) cs(1) refl us(1)] have "list_all req_token us" .
    moreover have "req_token [c, c]" using c(2) by (auto simp: req_token_def)
    ultimately show ?thesis using us(2) by simp
  next
    case c: 4
    then obtain us where us: "scan_requirement (dropWhile isIdentByte cs) = Inr us"
      "ts = (c # takeWhile isIdentByte cs) # us"
      using 2(5) rec [of "c # takeWhile isIdentByte cs" "scan_requirement (dropWhile isIdentByte cs)"] by auto
    have "\<not> (c = CHR ''('' \<or> c = CHR '')'')" "\<not> (c = CHR ''&'' \<or> c = CHR ''|'')" using c(3) by auto
    from 2(4) [OF c(1) this c(2) us(1)] have "list_all req_token us" .
    moreover have "req_token (c # takeWhile isIdentByte cs)"
      using c(2) by (auto simp: req_token_def list_all_iff dest: set_takeWhileD)
    ultimately show ?thesis using us(2) by simp
  next
    case 5
    with 2(5) show ?thesis by simp
  qed
qed simp

subsection \<open>Nesting\<close>

definition term_depth :: "requirementExpr \<Rightarrow> int" where
  "term_depth e = (case e of Ident i \<Rightarrow> 0 | Binary _ l r \<Rightarrow> 1)"

primrec expr_depth :: "requirementExpr \<Rightarrow> int" where
  "expr_depth (Ident i) = 0"
| "expr_depth (Binary op l r) = max (expr_depth l) (term_depth r + expr_depth r)"

lemma term_depth_simps [simp]: "term_depth (Ident i) = 0" "term_depth (Binary op l r) = 1"
  by (simp_all add: term_depth_def)

lemma expr_depth_nonneg: "0 \<le> expr_depth e" "0 \<le> term_depth e"
  by (induction e) (auto simp: term_depth_def)

lemma parser_depth:
  "parseExpr d ts n = Inr r \<Longrightarrow> d + expr_depth (fst r) \<le> maxRequirementDepth"
  "parse_operators d l ts n = Inr r \<Longrightarrow> d + expr_depth l \<le> maxRequirementDepth \<Longrightarrow>
     d + expr_depth (fst r) \<le> maxRequirementDepth"
  "parseTerm d ts n = Inr r \<Longrightarrow> d \<le> maxRequirementDepth \<Longrightarrow>
     d + term_depth (fst r) + expr_depth (fst r) \<le> maxRequirementDepth"
proof (induction d ts n and d l ts n and d ts n arbitrary: r and r and r rule: parseExpr_parse_operators_parseTerm.induct)
  case (1 d ts n)
  from 1(3) obtain l rest n' where t: "parseTerm d ts n = Inr (l, rest, n')" "length rest < length ts"
    and o': "parse_operators d l rest n' = Inr r" and d: "\<not> maxRequirementDepth < d"
    by (subst (asm) parseExpr.simps) (auto split: if_splits sum.splits)
  have "d + term_depth l + expr_depth l \<le> maxRequirementDepth" using 1(1) [OF d t(1)] d by simp
  then show ?case using 1(2) [OF d t(1) _ _ t(2) o'] expr_depth_nonneg(2) [of l] by simp
next
  case (3 d l tok ts n)
  show ?case
  proof (cases "requirementOperator tok")
    case (Some op)
    with 3(3) obtain r1 rest n' where t: "parseTerm d ts n = Inr (r1, rest, n')" "\<not> maxRequirementNodes < n' + 1"
      "length rest < length ts" and o': "parse_operators d (Binary op l r1) rest (n' + 1) = Inr r"
      by (auto split: if_splits sum.splits)
    have "d \<le> maxRequirementDepth" using 3(4) expr_depth_nonneg(1) [of l] by simp
    then have "d + term_depth r1 + expr_depth r1 \<le> maxRequirementDepth" using 3(1) [OF Some t(1)] by simp
    then show ?thesis using 3(2) [OF Some t(1) _ _ t(2,3) o'] 3(4) by simp
  qed (use 3 in auto)
next
  case (5 d tok ts n)
  show ?case
  proof (cases "tok = ''(''")
    case True
    with 5(2) obtain e rest n' where e: "parseExpr (d + 1) ts n = Inr (e, '')'' # rest, n')" "r = (e, rest, n')"
      by (auto split: if_splits sum.splits list.splits)
    have "term_depth e \<le> 1" by (cases e) simp_all
    with 5(1) [OF True e(1)] show ?thesis using e(2) by simp
  qed (use 5 in \<open>auto split: if_splits\<close>)
qed simp_all

lemma parseRequirementExpression_wf:
  assumes "parseRequirementExpression s = Inr e"
  shows "expr_wf e \<and> binary_nodes e \<le> maxRequirementNodes \<and> expr_depth e \<le> maxRequirementDepth"
proof -
  from assms obtain ts n where ts: "scan_requirement s = Inr ts" and p: "parseExpr 0 ts 0 = Inr (e, [], n)"
    by (auto simp: parseRequirementExpression_def tokenizeRequirement_def split: if_splits sum.splits list.splits prod.splits)
  have "step_ok ts 0 (e, [], n) 0"
    using parser_invariant(1) [OF scan_tokens [OF ts] _ p] by (simp add: maxRequirementNodes_def)
  then show ?thesis using parser_depth(1) [OF p] by (auto simp: step_ok_def)
qed

subsection \<open>Printing and reading back\<close>

primrec expr_tokens :: "requirementExpr \<Rightarrow> string list" where
  "expr_tokens (Ident i) = [i]"
| "expr_tokens (Binary op l r) =
     expr_tokens l @ op # (case r of Ident i \<Rightarrow> [i] | Binary _ _ _ \<Rightarrow> [''(''] @ expr_tokens r @ ['')''])"

fun spaced :: "string list \<Rightarrow> string" where
  "spaced [] = []"
| "spaced [t] = t"
| "spaced (t # ts) = t @ CHR '' '' # spaced ts"

definition print_expr :: "requirementExpr \<Rightarrow> string" where
  "print_expr e = spaced (expr_tokens e)"

lemma role_name_token: "role_name i \<Longrightarrow> i \<noteq> ''('' \<and> i \<noteq> '')'' \<and> requirementOperator i = None"
  by (auto simp: role_name_def requirementOperatorToken_def ident_defs)

lemma binary_operator [simp]: "op = ''AND'' \<or> op = ''OR'' \<Longrightarrow> requirementOperator op = Some op"
  by (auto simp: requirementOperator_def)

lemma paren_operator [simp]: "requirementOperator '')'' = None"
  by (simp add: requirementOperator_def)

lemma parse_printed:
  assumes "expr_wf e" "n + binary_nodes e \<le> maxRequirementNodes" "d + expr_depth e \<le> maxRequirementDepth"
  shows "parseExpr d (expr_tokens e @ rest) n = parse_operators d e rest (n + binary_nodes e)"
  using assms
proof (induction e arbitrary: d n rest)
  case (Ident i)
  then show ?case using role_name_token [of i] by (simp add: parseExpr.simps requirementOperatorToken_def)
next
  case (Binary op l r)
  have nn: "0 \<le> binary_nodes l" "0 \<le> binary_nodes r" by (simp_all add: binary_nodes_nonneg)
  have op: "requirementOperator op = Some op" using Binary.prems(1) by auto
  define tr where "tr = (case r of Ident i \<Rightarrow> [i] | Binary _ _ _ \<Rightarrow> [''(''] @ expr_tokens r @ ['')''])"
  have l: "parseExpr d (expr_tokens (Binary op l r) @ rest) n =
      parse_operators d l (op # tr @ rest) (n + binary_nodes l)"
    using Binary.IH(1) [of n d "op # tr @ rest"] Binary.prems nn by (simp add: tr_def)
  have t: "parseTerm d (tr @ rest) (n + binary_nodes l) = Inr (r, rest, n + binary_nodes l + binary_nodes r) \<and>
      length rest < length (tr @ rest)"
  proof (cases r)
    case (Ident i)
    then show ?thesis using role_name_token [of i] Binary.prems(1) by (simp add: tr_def requirementOperatorToken_def)
  next
    case (Binary op' l' r')
    have "parseExpr (d + 1) (expr_tokens r @ '')'' # rest) (n + binary_nodes l)
        = parse_operators (d + 1) r ('')'' # rest) (n + binary_nodes l + binary_nodes r)"
      by (rule Binary.IH(2)) (use Binary.prems nn Binary in \<open>simp_all\<close>)
    then show ?thesis using Binary by (simp add: tr_def)
  qed
  then show ?case unfolding l using Binary.prems(2) by (simp add: op add.assoc)
qed

subsection \<open>Reading back the text\<close>

lemma scan_ident:
  assumes "i \<noteq> []" "list_all isIdentByte i" "s = [] \<or> \<not> isIdentByte (hd s)"
  shows "scan_requirement (i @ s) = push_token i (scan_requirement s)"
proof -
  obtain c cs where i: "i = c # cs" using assms(1) by (cases i) auto
  have c: "isIdentByte c" "\<not> blank c" "c \<notin> {CHR ''('', CHR '')'', CHR ''&'', CHR ''|''}"
    using assms(2) by (auto simp: i ident_defs blank_def)
  have "takeWhile isIdentByte (cs @ s) = cs" "dropWhile isIdentByte (cs @ s) = s"
    using assms(2,3) by (auto simp: i list_all_iff takeWhile_append2 dropWhile_append2) (cases s; simp)+
  then show ?thesis using c by (simp add: i)
qed

lemma scan_paren: "t \<in> {''('', '')''} \<Longrightarrow> scan_requirement (t @ s) = push_token t (scan_requirement s)"
  by (auto simp: blank_def)

definition plain_token :: "string \<Rightarrow> bool" where
  "plain_token t \<longleftrightarrow> t \<in> {''('', '')''} \<or> t \<noteq> [] \<and> list_all isIdentByte t"

lemma scan_spaced: "list_all plain_token ts \<Longrightarrow> scan_requirement (spaced ts) = Inr ts"
proof (induction ts rule: spaced.induct)
  case (2 t)
  then show ?case using scan_ident [of t "[]"] scan_paren [of t "[]"] by (auto simp: plain_token_def push_token_def)
next
  case (3 t u ts)
  let ?s = "CHR '' '' # spaced (u # ts)"
  have b: "blank (CHR '' '')" "\<not> isIdentByte (CHR '' '')" by (simp_all add: blank_def ident_defs)
  have "scan_requirement (t @ ?s) = push_token t (scan_requirement ?s)"
    using 3(2) scan_ident [of t ?s] scan_paren [of t ?s] b by (auto simp: plain_token_def)
  moreover have "scan_requirement ?s = Inr (u # ts)" using 3 b by simp
  ultimately show ?case by (simp add: push_token_def)
qed simp

lemma expr_tokens_plain: "expr_wf e \<Longrightarrow> list_all plain_token (expr_tokens e)"
proof (induction e)
  case (Ident i)
  then show ?case by (auto simp: plain_token_def role_name_def)
next
  case (Binary op l r)
  have "plain_token op" using Binary.prems by (auto simp: plain_token_def ident_defs)
  with Binary show ?case by (cases r) (auto simp: plain_token_def)
qed

lemma expr_tokens_nonempty: "expr_tokens e \<noteq> []"
  by (cases e) simp_all

text \<open>A text of ASCII characters that starts with a visible one is not blank.\<close>

lemma sum_list_ones: "sum_list (map snd (takeWhile P (map (\<lambda>b. (b, 1 :: nat)) bs))) = length (takeWhile (\<lambda>b. P (b, 1)) bs)"
  by (induction bs) simp_all

lemma trim_space_visible:
  assumes "list_all (\<lambda>c. (of_char c :: int) < 128) s" "s = c # cs" "\<not> unicode_space (of_char c)"
  shows "trim_space s \<noteq> []"
proof -
  let ?bs = "bytes s"
  have r: "runes ?bs = map (\<lambda>b. (b, 1)) ?bs"
    by (rule runes_ascii) (use assms(1) in \<open>simp add: bytes_def list_all_iff\<close>)
  have "takeWhile unicode_space (rev ?bs) \<noteq> rev ?bs"
    using assms(2,3) by (simp add: takeWhile_eq_all_conv bytes_def)
  then have "length (takeWhile unicode_space (rev ?bs)) < length ?bs"
    by (metis length_rev length_takeWhile_le le_neq_implies_less takeWhile_eq_take take_all_iff order_refl)
  moreover have "takeWhile unicode_space ?bs = []" using assms(2,3) by (simp add: bytes_def)
  ultimately show ?thesis
    unfolding trim_space_def Let_def r rev_map sum_list_ones using assms(2) by (simp add: bytes_def)
qed

lemma of_char_bounds: "0 \<le> (of_char c :: int)" "(of_char c :: int) < 256"
proof -
  have "(of_char c :: int) = int (of_char c)" by (cases c) simp
  moreover have "(of_char c :: nat) < 256" by simp
  ultimately show "0 \<le> (of_char c :: int)" "(of_char c :: int) < 256" by linarith+
qed

lemma isIdentByte_ascii: "isIdentByte c \<Longrightarrow> (of_char c :: int) < 128 \<and> \<not> unicode_space (of_char c)"
proof -
  have "list_all (\<lambda>n. isIdentByte (char_of n) \<longrightarrow> n < 128 \<and> \<not> unicode_space n) (map int [0..<256])" by code_simp
  moreover have "(of_char c :: int) \<in> set (map int [0..<256])"
    using of_char_bounds [of c] by (simp add: image_iff) (metis nat_0_le nat_less_iff atLeastLessThan_iff le0 of_nat_numeral)
  moreover assume "isIdentByte c"
  ultimately show ?thesis unfolding list_all_iff by (metis char_of_char)
qed

lemma set_spaced: "c \<in> set (spaced ts) \<Longrightarrow> c = CHR '' '' \<or> (\<exists>t \<in> set ts. c \<in> set t)"
  by (induction ts rule: spaced.induct) auto

lemma plain_ascii: "plain_token t \<Longrightarrow> c \<in> set t \<Longrightarrow> (of_char c :: int) < 128"
  by (auto simp: plain_token_def list_all_iff dest: isIdentByte_ascii)

lemma expr_tokens_head: "expr_wf e \<Longrightarrow> \<exists>i ts. expr_tokens e = i # ts \<and> role_name i"
  by (induction e) auto

lemma print_visible:
  assumes "expr_wf e"
  shows "trim_space (print_expr e) \<noteq> []"
proof -
  obtain i ts where h: "expr_tokens e = i # ts" "role_name i" using expr_tokens_head [OF assms] by blast
  then obtain c cs where i: "i = c # cs" "isIdentByte c" by (cases i) (auto simp: role_name_def)
  have "\<exists>us. print_expr e = c # us" by (cases ts) (simp_all add: print_expr_def h(1) i(1))
  then obtain us where us: "print_expr e = c # us" by blast
  have "(of_char x :: int) < 128" if "x \<in> set (print_expr e)" for x
    using set_spaced [of x "expr_tokens e"] expr_tokens_plain [OF assms] plain_ascii that
    by (auto simp: print_expr_def list_all_iff)
  then show ?thesis using trim_space_visible us i(2) isIdentByte_ascii by (simp add: list_all_iff)
qed

lemma parse_print:
  assumes "expr_wf e" "binary_nodes e \<le> maxRequirementNodes" "expr_depth e \<le> maxRequirementDepth"
  shows "parseRequirementExpression (print_expr e) = Inr e"
proof -
  have "tokenizeRequirement (print_expr e) = Inr (expr_tokens e)"
    using scan_spaced [OF expr_tokens_plain [OF assms(1)]] expr_tokens_nonempty [of e]
    by (cases "expr_tokens e") (simp_all add: tokenizeRequirement_def print_expr_def)
  moreover have "parseExpr 0 (expr_tokens e) 0 = Inr (e, [], binary_nodes e)"
    using parse_printed [of e 0 0 "[]"] assms by simp
  moreover have "trim_space (print_expr e) \<noteq> []" using assms(1) by (rule print_visible)
  ultimately show ?thesis by (simp add: parseRequirementExpression_def)
qed

subsection \<open>Evaluation\<close>

lemma expr_eval_mono: "expr_eval e p \<Longrightarrow> (\<And>i. p i \<Longrightarrow> q i) \<Longrightarrow> expr_eval e q"
  by (induction e) (auto split: if_splits)

lemma expr_eval_missing: "\<not> expr_eval e p \<Longrightarrow> \<exists>i \<in> set (expr_roles e). \<not> p i"
  by (induction e) (auto split: if_splits)

lemma eligible_idem [simp]: "eligible (eligible facts) = eligible facts"
  by (simp add: eligible_def)

lemma distinctSubjects_eligible [simp]: "distinctSubjects (eligible facts) = distinctSubjects facts"
  by (simp add: distinctSubjects_def)

text \<open>Only verified facts count.\<close>

lemma EvaluateEvidenceConstraint_eligible:
  "EvaluateEvidenceConstraint c (eligible facts) ctx = EvaluateEvidenceConstraint c facts ctx"
  by (simp only: EvaluateEvidenceConstraint_def eligible_idem distinctSubjects_eligible)

lemma EvaluateEvidenceConstraint_total:
  "ValidateEvidenceConstraint c = None \<Longrightarrow> \<exists>e. EvaluateEvidenceConstraint c facts ctx = Inr e \<and> evConstraint e = c"
  by (auto simp: EvaluateEvidenceConstraint_def Let_def evaluation_def split: option.splits)

lemma EvaluateEvidenceConstraint_error:
  "ValidateEvidenceConstraint c = Some e \<Longrightarrow> EvaluateEvidenceConstraint c facts ctx = Inl e"
  by (simp add: EvaluateEvidenceConstraint_def)

lemma validate_constraints_each:
  "validate_constraints seen cs = None \<Longrightarrow> c \<in> set cs \<Longrightarrow> ValidateEvidenceConstraint (rcConstraint c) = None \<and> rcRole c \<noteq> []"
  by (induction cs arbitrary: seen) (auto simp: Let_def split: if_splits option.splits)

lemma map_err_all: "\<forall>x \<in> set xs. \<exists>y. f x = Inr y \<Longrightarrow> \<exists>ys. map_err f xs = Inr ys"
proof (induction xs)
  case (Cons x xs)
  then show ?case by (cases "f x"; cases "map_err f xs") auto
qed simp

text \<open>The evaluation of one constraint of a requirement.\<close>

abbreviation constraint_result :: "EvidenceFact list \<Rightarrow> EvidenceContext \<Rightarrow> RequirementConstraint \<Rightarrow> ev_error + EvidenceEvaluation" where
  "constraint_result facts ctx c \<equiv>
     EvaluateEvidenceConstraint (rcConstraint c) (EvidenceFactsOfRole facts (rcRole c)) ctx"

lemma EvaluateRequirement_Inr:
  assumes "EvaluateRequirement req facts ctx = Inr r"
  obtains expr evs where "Requirement_Validate req = None"
    "parseRequirementExpression (rqExpression req) = Inr expr"
    "map_err (constraint_result facts ctx) (rqConstraints req) = Inr evs"
    "resExpression r = expr_eval expr (role_present facts)" "resConstraints r = evs"
    "resVerdict r = (if EvidenceViolated \<in> set (map evVerdict evs) \<or> \<not> resExpression r then EvidenceViolated
                     else if EvidenceUnknown \<in> set (map evVerdict evs) then EvidenceUnknown else EvidenceSatisfied)"
    "MissingRoles r = (if resExpression r then [] else filter (\<lambda>x. \<not> role_present facts x) (sorted_set (expr_roles expr)))"
  using assms
  by (auto simp: EvaluateRequirement_def Roles_def Let_def split: option.splits sum.splits)

lemma EvaluateRequirement_total:
  assumes "Requirement_Validate req = None" "canon_ok (json_of_Requirement req)"
  shows "\<exists>r. EvaluateRequirement req facts ctx = Inr r"
proof -
  have vc: "validate_constraints [] (rqConstraints req) = None"
    and px: "(case parseRequirementExpression (rqExpression req) of Inl e \<Rightarrow> Some e | Inr _ \<Rightarrow> None) = None"
    using assms(1) by (simp_all add: Requirement_Validate_def)
  from px obtain expr where p: "parseRequirementExpression (rqExpression req) = Inr expr"
    by (auto split: sum.splits)
  have "\<exists>e. constraint_result facts ctx c = Inr e" if "c \<in> set (rqConstraints req)" for c
    using validate_constraints_each [OF vc that] EvaluateEvidenceConstraint_total by blast
  then obtain evs where m: "map_err (constraint_result facts ctx) (rqConstraints req) = Inr evs"
    by (metis (no_types, lifting) map_err_all)
  have "\<exists>d. Requirement_Digest req = Inr d"
    using assms by (auto simp: Requirement_Digest_def DigestOf_Inr)
  then show ?thesis using assms(1) p m by (auto simp: EvaluateRequirement_def Let_def)
qed

end
