(* ===== verification/Challenge.thy ===== *)
theory Challenge
  imports Requirement_Laws Decision_Laws
begin

text \<open>
  Challenges (\<open>semantics/challenge.go\<close>): what is still missing after an unsatisfied requirement or an
  allow with obligations, its validation and the window in which it may drive a retry.
\<close>

definition ChallengeVersion :: string where "ChallengeVersion = ''CLC-CHALLENGE-v1''"
definition minChallengeNonceBytes :: nat where "minChallengeNonceBytes = 8"
definition maxChallengeNonceBytes :: nat where "maxChallengeNonceBytes = 128"
definition maxChallengeJitterSec :: int where "maxChallengeJitterSec = 300"

record ChallengeItem =
  itemID :: string
  itemConstraint :: string
  itemReason :: string

record ObtainHint =
  hintID :: string
  hintMechanism :: string
  hintURI :: string

record RetryTiming =
  NotBefore :: Time
  JitterSec :: int

record Challenge =
  chVersion :: string
  chID :: string
  chNonce :: string
  chAudience :: string
  chActionDigest :: Digest
  chRequirementID :: string
  chRequirementDigest :: "Digest option"
  chRequired :: "ChallengeItem list"
  chObtainHints :: "ObtainHint list"
  chRetry :: "RetryTiming option"
  chExpiresAt :: Time

record ChallengeParams =
  cpID :: string
  cpNonce :: string
  cpAudience :: string
  cpActionDigest :: Digest
  cpNow :: Time
  cpTTL :: int
  cpObtainHints :: "ObtainHint list"
  cpRetry :: "RetryTiming option"

definition Authorizes :: "Challenge \<Rightarrow> bool" where
  "Authorizes c = False"

text \<open>
  The sort compares identifier, constraint and reason in turn; items equal in all three are equal, so the
  result does not depend on the stability of the sort.
\<close>

definition item_key :: "ChallengeItem \<Rightarrow> string list" where
  "item_key i = [itemID i, itemConstraint i, itemReason i]"

definition sortedChallengeItems :: "ChallengeItem list \<Rightarrow> ChallengeItem list" where
  "sortedChallengeItems items = sort_key item_key items"

definition retry_error :: "Challenge \<Rightarrow> RetryTiming \<Rightarrow> ev_error option" where
  "retry_error c r =
     seq_err [
       fail_if (Time_IsZero (NotBefore r) \<or> \<not> tUTC (NotBefore r))
         (Ev ErrChallengeShape ''retry_timing.not_before must be a UTC instant'' []),
       fail_if (JitterSec r < 0 \<or> maxChallengeJitterSec < JitterSec r)
         (Ev ErrChallengeShape ''jitter_sec out of range'' []),
       fail_if (tInstant (chExpiresAt c) < tInstant (NotBefore r))
         (Ev ErrChallengeShape ''retry_timing.not_before is after expiry'' [])]"

definition Challenge_Validate :: "Challenge \<Rightarrow> ev_error option" where
  "Challenge_Validate c =
     seq_err [
       fail_if (chVersion c \<noteq> ChallengeVersion) (Ev ErrChallengeShape ''version %q'' [chVersion c]),
       fail_if (chID c = []) (Ev ErrChallengeShape ''challenge_id required'' []),
       fail_if (length (chNonce c) < minChallengeNonceBytes \<or> maxChallengeNonceBytes < length (chNonce c))
         (Ev ErrChallengeShape ''nonce length'' []),
       fail_if (\<not> digestUsable (chActionDigest c)) (Ev ErrChallengeShape ''action_digest required'' []),
       fail_if (case chRequirementDigest c of None \<Rightarrow> False | Some d \<Rightarrow> \<not> digestUsable d)
         (Ev ErrChallengeShape ''unusable requirement_digest'' []),
       fail_if (chRequired c = []) (Ev ErrChallengeShape ''nothing required'' []),
       first_err (\<lambda>i. fail_if (itemID i = []) (Ev ErrChallengeShape ''required item without an id'' []))
         (chRequired c),
       fail_if (Time_IsZero (chExpiresAt c)) (Ev ErrChallengeShape ''expires_at required'' []),
       fail_if (\<not> tUTC (chExpiresAt c)) (Ev ErrChallengeShape ''expires_at must be UTC'' []),
       (case chRetry c of None \<Rightarrow> None | Some r \<Rightarrow> retry_error c r)]"

text \<open>\<open>Now.UTC().Add(TTL)\<close>.\<close>

definition expiry :: "ChallengeParams \<Rightarrow> Time" where
  "expiry p = \<lparr>tInstant = tInstant (cpNow p) + cpTTL p, tUTC = True\<rparr>"

definition outstanding :: "RequirementResult \<Rightarrow> ChallengeItem list" where
  "outstanding result =
     map (\<lambda>role. \<lparr>itemID = role, itemConstraint = [], itemReason = ''role_unfilled''\<rparr>) (MissingRoles result)
     @ map (\<lambda>e. \<lparr>itemID = evConstraint e, itemConstraint = evConstraint e, itemReason = evReason e\<rparr>)
         (filter (\<lambda>e. evVerdict e \<noteq> EvidenceSatisfied) (resConstraints result))"

definition validated :: "Challenge \<Rightarrow> ev_error + Challenge" where
  "validated c = (case Challenge_Validate c of Some e \<Rightarrow> Inl e | None \<Rightarrow> Inr c)"

definition BuildChallengeFromRequirement ::
  "Requirement \<Rightarrow> RequirementResult \<Rightarrow> ChallengeParams \<Rightarrow> ev_error + Challenge" where
  "BuildChallengeFromRequirement req result p =
     (case Requirement_Validate req of
        Some e \<Rightarrow> Inl e
      | None \<Rightarrow>
          if resVerdict result = EvidenceSatisfied then
            Inl (Ev ErrChallengeNotOutstanding ''requirement %s is satisfied'' [rqID req])
          else if outstanding result = [] then
            Inl (Ev ErrChallengeNotOutstanding ''requirement %s reported no outstanding item'' [rqID req])
          else
            (case Requirement_Digest req of
               Inl e \<Rightarrow> Inl e
             | Inr digest \<Rightarrow>
                 validated \<lparr>chVersion = ChallengeVersion, chID = cpID p, chNonce = cpNonce p,
                   chAudience = cpAudience p, chActionDigest = cpActionDigest p, chRequirementID = rqID req,
                   chRequirementDigest = Some digest, chRequired = sortedChallengeItems (outstanding result),
                   chObtainHints = cpObtainHints p, chRetry = cpRetry p, chExpiresAt = expiry p\<rparr>))"

definition obligation_item :: "string \<Rightarrow> error + ChallengeItem" where
  "obligation_item c =
     (case ConstraintIdentity c of
        Inl e \<Rightarrow> Inl e
      | Inr i \<Rightarrow> Inr \<lparr>itemID = i, itemConstraint = c, itemReason = ''obligation_undischarged''\<rparr>)"

definition BuildChallengeFromDecision :: "Decision \<Rightarrow> ChallengeParams \<Rightarrow> ev_error + Challenge" where
  "BuildChallengeFromDecision d p =
     (case checkDecisionShape d of
        Some e \<Rightarrow> Inl (CoreError e)
      | None \<Rightarrow>
          if Verdict d \<noteq> VerdictAllowUR then
            Inl (Ev ErrChallengeNotOutstanding ''verdict %s carries no residual obligation'' [Verdict d])
          else
            (case map_err obligation_item (Unresolved d) of
               Inl e \<Rightarrow> Inl (CoreError e)
             | Inr items \<Rightarrow>
                 validated \<lparr>chVersion = ChallengeVersion, chID = cpID p, chNonce = cpNonce p,
                   chAudience = cpAudience p, chActionDigest = cpActionDigest p, chRequirementID = [],
                   chRequirementDigest = None, chRequired = sortedChallengeItems items,
                   chObtainHints = cpObtainHints p, chRetry = cpRetry p, chExpiresAt = expiry p\<rparr>))"

definition Usable :: "Challenge \<Rightarrow> instant \<Rightarrow> ev_error option" where
  "Usable c now =
     seq_err [
       Challenge_Validate c,
       fail_if (\<not> now < tInstant (chExpiresAt c)) (ev ErrChallengeExpired),
       (case chRetry c of
          None \<Rightarrow> None
        | Some r \<Rightarrow> fail_if (now < tInstant (NotBefore r)) (ev ErrChallengeRetryNotBefore))]"

subsection \<open>Laws\<close>

text \<open>The parameters of a challenge a caller must supply well formed.\<close>

definition params_ok :: "ChallengeParams \<Rightarrow> bool" where
  "params_ok p \<longleftrightarrow>
     cpID p \<noteq> [] \<and> minChallengeNonceBytes \<le> length (cpNonce p) \<and> length (cpNonce p) \<le> maxChallengeNonceBytes \<and>
     digestUsable (cpActionDigest p) \<and> \<not> Time_IsZero (expiry p) \<and>
     (case cpRetry p of None \<Rightarrow> True
      | Some r \<Rightarrow> \<not> Time_IsZero (NotBefore r) \<and> tUTC (NotBefore r) \<and> 0 \<le> JitterSec r \<and>
                  JitterSec r \<le> maxChallengeJitterSec \<and> tInstant (NotBefore r) \<le> tInstant (expiry p))"

lemma built_challenge_valid:
  assumes "params_ok p" "items \<noteq> []" "\<forall>i \<in> set items. itemID i \<noteq> []"
    and "\<forall>d. rd = Some d \<longrightarrow> digestUsable d"
    and "c = \<lparr>chVersion = ChallengeVersion, chID = cpID p, chNonce = cpNonce p, chAudience = cpAudience p,
           chActionDigest = cpActionDigest p, chRequirementID = rid, chRequirementDigest = rd,
           chRequired = sortedChallengeItems items, chObtainHints = cpObtainHints p, chRetry = cpRetry p,
           chExpiresAt = expiry p\<rparr>"
  shows "validated c = Inr c"
proof -
  have "sort_key item_key items \<noteq> []" using assms(2) by (metis length_0_conv length_sort)
  moreover have "\<forall>r. cpRetry p = Some r \<longrightarrow> retry_error c r = None"
    using assms(1) by (auto simp: retry_error_def params_ok_def err_simps assms(5))
  ultimately have "Challenge_Validate c = None"
    using assms(1-4)
    by (auto simp: Challenge_Validate_def params_ok_def sortedChallengeItems_def assms(5) err_simps expiry_def
        split: option.splits)
  then show ?thesis by (simp add: validated_def)
qed

lemma obligation_items:
  assumes "identified us"
  shows "\<exists>items. map_err obligation_item us = Inr items \<and> length items = length us \<and> (\<forall>i \<in> set items. itemID i \<noteq> [])"
proof -
  have each: "\<exists>i. obligation_item c = Inr i \<and> itemID i \<noteq> []" if c: "c \<in> set us" for c
  proof -
    obtain k where k: "ConstraintIdentity c = Inr k" using assms c unfolding identified_def by blast
    then have "k \<noteq> []" by (auto simp: ConstraintIdentity_def split: list.splits if_splits)
    with k show ?thesis by (simp add: obligation_item_def)
  qed
  then obtain items where items: "map_err obligation_item us = Inr items" using map_err_all [of us obligation_item] by blast
  moreover have "itemID i \<noteq> []" if i: "i \<in> set items" for i
  proof -
    obtain c where c: "c \<in> set us" "obligation_item c = Inr i" using map_err_range [OF items] i by blast
    then show ?thesis using each [OF c(1)] by auto
  qed
  ultimately show ?thesis using map_err_length [OF items] by blast
qed

text \<open>An evaluated requirement that is not satisfied always has something outstanding.\<close>

lemma ValidateEvidenceConstraint_nonempty: "ValidateEvidenceConstraint c = None \<Longrightarrow> c \<noteq> []"
  by (auto simp: ValidateEvidenceConstraint_def)

lemma outstanding_items:
  assumes "EvaluateRequirement req facts ctx = Inr r" "resVerdict r \<noteq> EvidenceSatisfied"
  shows "outstanding r \<noteq> [] \<and> (\<forall>i \<in> set (outstanding r). itemID i \<noteq> [])"
  using assms(1)
proof (rule EvaluateRequirement_Inr)
  fix expr evs
  assume v: "Requirement_Validate req = None" and p: "parseRequirementExpression (rqExpression req) = Inr expr"
    and m: "map_err (constraint_result facts ctx) (rqConstraints req) = Inr evs"
    and x: "resExpression r = expr_eval expr (role_present facts)" and c: "resConstraints r = evs"
    and vd: "resVerdict r = (if EvidenceViolated \<in> set (map evVerdict evs) \<or> \<not> resExpression r then EvidenceViolated
                     else if EvidenceUnknown \<in> set (map evVerdict evs) then EvidenceUnknown else EvidenceSatisfied)"
    and mr: "MissingRoles r = (if resExpression r then [] else filter (\<lambda>x. \<not> role_present facts x) (sorted_set (expr_roles expr)))"
  have "outstanding r \<noteq> []"
  proof (cases "resExpression r")
    case False
    then have "MissingRoles r \<noteq> []" using expr_eval_missing [of expr "role_present facts"] mr x
      by (auto simp: filter_empty_conv)
    then show ?thesis by (simp add: outstanding_def)
  next
    case True
    then obtain e where "e \<in> set evs" "evVerdict e \<noteq> EvidenceSatisfied"
      using vd assms(2) by (auto split: if_splits)
    then have "filter (\<lambda>e. evVerdict e \<noteq> EvidenceSatisfied) (resConstraints r) \<noteq> []"
      using c by (auto simp: filter_empty_conv)
    then show ?thesis by (simp add: outstanding_def)
  qed
  moreover have "i \<noteq> []" if "i \<in> set (MissingRoles r)" for i
  proof -
    have "expr_wf e \<Longrightarrow> x \<in> set (expr_roles e) \<Longrightarrow> x \<noteq> []" for e x
      by (induction e) (auto simp: role_name_def)
    then show ?thesis using that mr parseRequirementExpression_wf [OF p] by (auto split: if_splits)
  qed
  moreover have "evConstraint e \<noteq> []" if e: "e \<in> set evs" for e
  proof -
    obtain k where k: "k \<in> set (rqConstraints req)" "constraint_result facts ctx k = Inr e"
      using map_err_range [OF m] e by blast
    have "validate_constraints [] (rqConstraints req) = None" using v by (simp add: Requirement_Validate_def)
    from validate_constraints_each [OF this k(1)] have "ValidateEvidenceConstraint (rcConstraint k) = None" by simp
    note vk = this
    obtain e' where e': "constraint_result facts ctx k = Inr e'" "evConstraint e' = rcConstraint k"
      using EvaluateEvidenceConstraint_total [OF vk] by blast
    then have "e' = e" using k(2) by simp
    then show ?thesis using e'(2) ValidateEvidenceConstraint_nonempty [OF vk] by simp
  qed
  ultimately show ?thesis unfolding outstanding_def c by auto
qed

end
