(* ===== verification/Action_Match.thy ===== *)
theory Action_Match
  imports Digests
begin

text \<open>
  Action identities (\<open>semantics/match.go\<close>): the material projection of an action, its suite-tagged digest,
  the identifier text and the comparison of identities, directly and through a pinned mapping profile.
\<close>

definition SuiteJCSSHA256 :: string where "SuiteJCSSHA256 = ''jcs-sha256''"
definition actionIdPrefix :: string where "actionIdPrefix = ''clc-action:1''"

definition suite_valid :: "string \<Rightarrow> bool" where
  "suite_valid s \<longleftrightarrow> s = SuiteJCSSHA256"

record ActionTypeDefinition =
  defType :: string
  MaterialFields :: "string list"

fun fields_error :: "string list \<Rightarrow> string list \<Rightarrow> ev_error option" where
  "fields_error seen [] = None"
| "fields_error seen (f # fs) =
     (if f = [] then Some (Ev ErrActionShape ''empty material field name'' [])
      else if f \<in> set seen then Some (Ev ErrActionShape ''duplicate material field %q'' [f])
      else fields_error (f # seen) fs)"

definition Definition_Validate :: "ActionTypeDefinition \<Rightarrow> ev_error option" where
  "Definition_Validate d =
     seq_err [
       fail_if (defType d = []) (Ev ErrActionShape ''action type required'' []),
       fail_if (MaterialFields d = []) (Ev ErrActionShape ''action type %s declares no material fields'' [defType d]),
       fields_error [] (MaterialFields d)]"

record ActionId =
  aType :: string
  aSuite :: string
  aDigest :: Digest

definition ActionId_String :: "ActionId \<Rightarrow> string" where
  "ActionId_String a =
     actionIdPrefix @ '':'' @ aType a @ '':'' @ aSuite a @ '':'' @ b64_EncodeToString (DValue (aDigest a))"

definition ActionId_Validate :: "ActionId \<Rightarrow> ev_error option" where
  "ActionId_Validate a =
     seq_err [
       fail_if (aType a = []) (Ev ErrActionShape ''action type required'' []),
       fail_if (\<not> suite_valid (aSuite a)) (Ev ErrActionSuite ''%q'' [aSuite a]),
       fail_if (Alg (aDigest a) = [] \<or> DValue (aDigest a) = []) (Ev ErrActionShape ''action digest required'' []),
       fail_if (aSuite a = SuiteJCSSHA256 \<and> length (DValue (aDigest a)) \<noteq> 32)
         (Ev ErrActionShape ''digest must be 32 bytes'' [])]"

definition digestAlgOf :: "string \<Rightarrow> string" where
  "digestAlgOf suite = (if suite = SuiteJCSSHA256 then DigestAlgSHA256 else [])"

definition ParseActionId :: "string \<Rightarrow> ev_error + ActionId" where
  "ParseActionId s =
     (case split_on (CHR '':'') s of
        [p0, p1, p2, p3, p4] \<Rightarrow>
          if p0 \<noteq> ''clc-action'' \<or> p1 \<noteq> ''1'' then Inl (Ev ErrActionShape ''%q'' [s])
          else
            (case b64_DecodeString p4 of
               None \<Rightarrow> Inl (Ev ErrActionShape ''digest is not base64url: %q'' [s])
             | Some raw \<Rightarrow>
                 (let a = \<lparr>aType = p2, aSuite = p3, aDigest = \<lparr>Alg = digestAlgOf p3, DValue = raw\<rparr>\<rparr>
                  in case ActionId_Validate a of Some e \<Rightarrow> Inl e | None \<Rightarrow> Inr a))
      | _ \<Rightarrow> Inl (Ev ErrActionShape ''%q'' [s]))"

definition hashFor :: "string \<Rightarrow> string \<Rightarrow> string" where
  "hashFor suite canonical = Sum256 canonical"

definition project_field :: "ActionTypeDefinition \<Rightarrow> obj \<Rightarrow> string \<Rightarrow> ev_error + string \<times> json" where
  "project_field d action f =
     (case map_of action f of
        None \<Rightarrow> Inl (Ev ErrActionNotMatchable ''material field %q absent for %s'' [f, defType d])
      | Some v \<Rightarrow> Inr (f, v))"

definition MaterialProjection :: "ActionTypeDefinition \<Rightarrow> obj \<Rightarrow> ev_error + obj" where
  "MaterialProjection d action =
     (case Definition_Validate d of
        Some e \<Rightarrow> Inl e
      | None \<Rightarrow> map_err (project_field d action) (MaterialFields d))"

definition ComputeActionID :: "ActionTypeDefinition \<Rightarrow> string \<Rightarrow> obj \<Rightarrow> ev_error + ActionId" where
  "ComputeActionID d suite action =
     (case Definition_Validate d of
        Some e \<Rightarrow> Inl e
      | None \<Rightarrow>
          if \<not> suite_valid suite then Inl (Ev ErrActionSuite ''%q'' [suite])
          else
            case map_err (project_field d action) (MaterialFields d) of
              Inl e \<Rightarrow> Inl e
            | Inr projection \<Rightarrow>
                (case CanonicalJSON (JObj projection) of
                   Inl e \<Rightarrow> Inl (CanonError e)
                 | Inr canonical \<Rightarrow>
                     Inr \<lparr>aType = defType d, aSuite = suite,
                          aDigest = \<lparr>Alg = digestAlgOf suite, DValue = hashFor suite canonical\<rparr>\<rparr>))"

definition field_digest :: "obj \<Rightarrow> string \<Rightarrow> ev_error + string" where
  "field_digest projection f =
     (case CanonicalJSON (the (map_of projection f)) of
        Inl e \<Rightarrow> Inl (CanonError e)
      | Inr canonical \<Rightarrow> Inr (f @ '':'' @ hex_EncodeToString (hashFor SuiteJCSSHA256 canonical)))"

definition MaterialFieldDigest :: "ActionTypeDefinition \<Rightarrow> obj \<Rightarrow> ev_error + string list" where
  "MaterialFieldDigest d action =
     (case MaterialProjection d action of
        Inl e \<Rightarrow> Inl e
      | Inr projection \<Rightarrow> map_err (field_digest projection) (sorted_set (gokeys projection)))"

datatype MatchVerdict = MatchExact | MatchNotEquivalent | MatchIndeterminate

definition Match :: "ActionId \<Rightarrow> ActionId \<Rightarrow> MatchVerdict" where
  "Match observed evidence =
     (if ActionId_Validate observed \<noteq> None \<or> ActionId_Validate evidence \<noteq> None then MatchIndeterminate
      else if aType observed \<noteq> aType evidence \<or> aSuite observed \<noteq> aSuite evidence then MatchIndeterminate
      else if Digest_Equal (aDigest observed) (aDigest evidence) then MatchExact
      else MatchNotEquivalent)"

record ActionMappingProfile =
  profileID :: string
  profileDigest :: Digest

definition Pinned :: "ActionMappingProfile \<Rightarrow> bool" where
  "Pinned p \<longleftrightarrow> profileID p \<noteq> [] \<and> Alg (profileDigest p) \<noteq> [] \<and> DValue (profileDigest p) \<noteq> []"

text \<open>The projector is the native verifier's function; \<open>None\<close> is the nil function.\<close>

type_synonym ActionProjector = "ActionMappingProfile \<Rightarrow> ActionId \<Rightarrow> ev_error + ActionId"

definition MapAndMatch ::
  "ActionMappingProfile \<Rightarrow> ActionProjector option \<Rightarrow> ActionId \<Rightarrow> ActionId \<Rightarrow> MatchVerdict" where
  "MapAndMatch profile projector evidence expected =
     (case projector of
        None \<Rightarrow> MatchIndeterminate
      | Some f \<Rightarrow>
          if \<not> Pinned profile then MatchIndeterminate
          else
            (case f profile evidence of
               Inl _ \<Rightarrow> MatchIndeterminate
             | Inr projected \<Rightarrow>
                 if aType projected \<noteq> aType expected \<or> aSuite projected \<noteq> aSuite expected then MatchIndeterminate
                 else Match expected projected))"

subsection \<open>Laws\<close>

lemma Match_exact_iff: "Match a b = MatchExact \<longleftrightarrow> ActionId_Validate a = None \<and> a = b"
  by (cases a; cases b) (auto simp: Match_def)

lemma MapAndMatch_exact:
  "MapAndMatch p f e x = MatchExact \<longleftrightarrow>
     Pinned p \<and> (\<exists>g. f = Some g \<and> g p e = Inr x) \<and> ActionId_Validate x = None"
proof (cases f)
  case (Some g)
  then show ?thesis
    by (cases "g p e") (auto simp: MapAndMatch_def Match_exact_iff)
qed (simp add: MapAndMatch_def)

lemma map_err_cong_set: "(\<And>x. x \<in> set xs \<Longrightarrow> f x = g x) \<Longrightarrow> map_err f xs = map_err g xs"
  by (rule map_err_cong) simp_all

lemma project_field_cong: "map_of a f = map_of b f \<Longrightarrow> project_field d a f = project_field d b f"
  by (simp add: project_field_def)

lemma ComputeActionID_Inr:
  assumes "ComputeActionID d s a = Inr i"
  obtains p where "MaterialProjection d a = Inr p" "canon_ok (JObj p)" "s = SuiteJCSSHA256"
    "i = \<lparr>aType = defType d, aSuite = SuiteJCSSHA256,
          aDigest = \<lparr>Alg = DigestAlgSHA256, DValue = Sum256 (writeCanonicalJSON (JObj p))\<rparr>\<rparr>"
  using assms
  by (auto simp: ComputeActionID_def MaterialProjection_def suite_valid_def hashFor_def digestAlgOf_def
      CanonicalJSON_Inr split: option.splits if_splits sum.splits)

lemma ComputeActionID_valid: "ComputeActionID d s a = Inr i \<Longrightarrow> ActionId_Validate i = None"
proof -
  assume c: "ComputeActionID d s a = Inr i"
  then have "defType d \<noteq> []"
    by (auto simp: ComputeActionID_def Definition_Validate_def err_simps split: option.splits)
  moreover have "Sum256 x \<noteq> []" for x using Sum256_length [of x] by (metis list.size(3) zero_neq_numeral)
  ultimately show ?thesis
    using c by (elim ComputeActionID_Inr)
      (simp add: ActionId_Validate_def suite_valid_def DigestAlgSHA256_def err_simps)
qed

lemma b64_no_colon: "CHR '':'' \<notin> set (b64_EncodeToString s)"
  using b64_EncodeToString_chars b64_chars_props(3) by (fastforce simp: list_all_iff)

lemma ParseActionId_String:
  assumes "ActionId_Validate a = None" "Alg (aDigest a) = DigestAlgSHA256" "CHR '':'' \<notin> set (aType a)"
  shows "ParseActionId (ActionId_String a) = Inr a"
proof -
  have s: "aSuite a = SuiteJCSSHA256" using assms(1) by (simp add: ActionId_Validate_def suite_valid_def err_simps)
  have "split_on (CHR '':'') (ActionId_String a) =
      [''clc-action'', ''1'', aType a, SuiteJCSSHA256, b64_EncodeToString (DValue (aDigest a))]"
    using assms(3) b64_no_colon [of "DValue (aDigest a)"]
    by (simp add: ActionId_String_def actionIdPrefix_def s SuiteJCSSHA256_def split_on_append_sep split_on_single)
  moreover have "\<lparr>aType = aType a, aSuite = SuiteJCSSHA256,
      aDigest = \<lparr>Alg = digestAlgOf SuiteJCSSHA256, DValue = DValue (aDigest a)\<rparr>\<rparr> = a"
    using s assms(2) by (cases a) (auto simp: digestAlgOf_def)
  ultimately show ?thesis using assms(1) by (simp add: ParseActionId_def b64_roundtrip Let_def)
qed

end
