(* ===== verification/Sources.thy ===== *)
theory Sources
  imports Digests
begin

text \<open>
  Authorization source chains (\<open>semantics/sources.go\<close>): content-addressed sources, byte-backed links, the
  depth-first search for cycles, the path an artifact stands on and the identity of a chain.
\<close>

record SourceRef =
  srKind :: string
  srID :: string
  srIssuer :: string
  srDigest :: Digest
  srReferences :: "Digest list"

record SourceLink =
  lFrom :: Digest
  lTo :: Digest

record SourceChain =
  scSources :: "SourceRef list"
  scLinks :: "SourceLink list"

definition referencesDigest :: "Digest list \<Rightarrow> Digest \<Rightarrow> bool" where
  "referencesDigest refs want \<longleftrightarrow> (\<exists>r \<in> set refs. Digest_Equal r want)"

abbreviation source_key :: "SourceRef \<Rightarrow> string" where
  "source_key s \<equiv> digestKey (srDigest s)"

text \<open>The map \<open>byDigest\<close>; the validated sources have distinct keys.\<close>

definition byDigest :: "SourceChain \<Rightarrow> string \<Rightarrow> SourceRef option" where
  "byDigest c k = find (\<lambda>s. source_key s = k) (scSources c)"

fun sources_error :: "string list \<Rightarrow> SourceRef list \<Rightarrow> ev_error option" where
  "sources_error seen [] = None"
| "sources_error seen (s # ss) =
     (if srKind s = [] \<or> srID s = [] then Some (Ev ErrSourceShape ''kind/id required'' [srKind s, srID s])
      else if \<not> digestUsable (srDigest s) then Some (Ev ErrSourceShape ''no usable digest'' [srKind s, srID s])
      else if source_key s \<in> set seen then Some (Ev ErrSourceDuplicate ''%s'' [source_key s])
      else sources_error (source_key s # seen) ss)"

definition link_error :: "SourceChain \<Rightarrow> SourceLink \<Rightarrow> ev_error option" where
  "link_error c l =
     (case (byDigest c (digestKey (lFrom l)), byDigest c (digestKey (lTo l))) of
        (Some from, Some to') \<Rightarrow>
          fail_if (\<not> referencesDigest (srReferences from) (srDigest to'))
            (Ev ErrSourceEdgeUnbacked ''%s does not name %s'' [srID from, srID to'])
      | _ \<Rightarrow> Some (Ev ErrSourceDanglingLink ''%s -> %s'' [digestKey (lFrom l), digestKey (lTo l)]))"

definition edges :: "SourceChain \<Rightarrow> string \<Rightarrow> string list" where
  "edges c k = map (\<lambda>l. digestKey (lTo l)) (filter (\<lambda>l. digestKey (lFrom l) = k) (scLinks c))"

text \<open>
  The search. The colours of the source are the list of grey nodes (the current path) and the list of black
  nodes (finished); every other node is white. \<open>Inl (Some n)\<close> is the cycle found at \<open>n\<close>. The fuel bounds
  the depth of the recursion; \<open>visit_fuel\<close> shows that the number of nodes is enough, so that
  \<open>Inl None\<close> never results. The loop over the nodes with edges is the same loop with no grey node; the
  order of the nodes, a map iteration in the source, is an argument.
\<close>

fun visit :: "nat \<Rightarrow> (string \<Rightarrow> string list) \<Rightarrow> string list \<Rightarrow> string list \<Rightarrow> string list \<Rightarrow>
    string option + string list" where
  "visit fuel next grey black [] = Inr black"
| "visit fuel next grey black (n # ns) =
     (if n \<in> set grey then Inl (Some n)
      else if n \<in> set black then visit fuel next grey black ns
      else
        case fuel of
          0 \<Rightarrow> Inl None
        | Suc fuel' \<Rightarrow>
            (case visit fuel' next (n # grey) black (next n) of
               Inl e \<Rightarrow> Inl e
             | Inr black' \<Rightarrow> visit fuel next grey (n # black') ns))"

definition detectCycle :: "nat \<Rightarrow> (string \<Rightarrow> string list) \<Rightarrow> string list \<Rightarrow> string option option" where
  "detectCycle fuel next nodes = (case visit fuel next [] [] nodes of Inl e \<Rightarrow> Some e | Inr _ \<Rightarrow> None)"

definition edge_nodes :: "SourceChain \<Rightarrow> string list" where
  "edge_nodes c = remdups (map (\<lambda>l. digestKey (lFrom l)) (scLinks c))"

definition cycle_error :: "SourceChain \<Rightarrow> string option \<Rightarrow> ev_error" where
  "cycle_error c n =
     Ev ErrSourceChainCycle ''%s''
       (case Option.bind n (byDigest c) of Some s \<Rightarrow> [srID s] | None \<Rightarrow> [])"

definition Chain_Validate :: "SourceChain \<Rightarrow> ev_error option" where
  "Chain_Validate c =
     seq_err [
       fail_if (scSources c = []) (ev ErrSourceChainEmpty),
       sources_error [] (scSources c),
       first_err (link_error c) (scLinks c),
       map_option (cycle_error c) (detectCycle (length (scSources c)) (edges c) (edge_nodes c))]"

subsection \<open>The path an artifact stands on\<close>

definition named :: "SourceChain \<Rightarrow> string \<Rightarrow> SourceRef list" where
  "named c k = map (\<lambda>k'. the (byDigest c k')) (edges c k)"

text \<open>The loop of \<open>StandingOn\<close>; the sources already seen bound it, see \<open>walk_fuel\<close>.\<close>

fun walk :: "nat \<Rightarrow> SourceChain \<Rightarrow> string list \<Rightarrow> SourceRef \<Rightarrow> ev_error + SourceRef list" where
  "walk fuel c seen current =
     (if source_key current \<in> set seen then Inl (Ev ErrSourceChainCycle ''%s'' [srID current])
      else
        case fuel of
          0 \<Rightarrow> Inl (Ev ErrSourceChainCycle ''out of fuel'' [])
        | Suc fuel' \<Rightarrow>
            (case named c (source_key current) of
               [] \<Rightarrow> Inr [current]
             | [next] \<Rightarrow>
                 (case walk fuel' c (source_key current # seen) next of
                    Inl e \<Rightarrow> Inl e
                  | Inr path \<Rightarrow> Inr (current # path))
             | _ \<Rightarrow> Inl (Ev ErrSourceChainBranch ''%s names several sources'' [srID current])))"

declare walk.simps [simp del]

definition StandingOn :: "SourceChain \<Rightarrow> Digest \<Rightarrow> ev_error + SourceRef list" where
  "StandingOn c from =
     (case Chain_Validate c of
        Some e \<Rightarrow> Inl e
      | None \<Rightarrow>
          (case byDigest c (digestKey from) of
             None \<Rightarrow> Inl (Ev ErrSourceDanglingLink ''%s'' [digestKey from])
           | Some s \<Rightarrow> walk (length (scSources c)) c [] s))"

subsection \<open>The identity of a chain\<close>

definition node_json :: "SourceRef \<Rightarrow> json" where
  "node_json s =
     JObj [(''kind'', JStr (srKind s)), (''id'', JStr (srID s)), (''alg'', JStr (Alg (srDigest s))),
           (''value'', JStr (hex_EncodeToString (DValue (srDigest s))))]"

definition Chain_Digest :: "SourceChain \<Rightarrow> ev_error + Digest" where
  "Chain_Digest c =
     (case Chain_Validate c of
        Some e \<Rightarrow> Inl e
      | None \<Rightarrow>
          (let nodes = sort_key (\<lambda>s. [srKind s, srID s, hex_EncodeToString (DValue (srDigest s))]) (scSources c);
               links = sort (map (\<lambda>l. digestKey (lFrom l) @ ''->'' @ digestKey (lTo l)) (scLinks c))
           in DigestOf (JObj ((''sources'', JArr (map node_json nodes))
                # (if links = [] then [] else [(''links'', JArr (map JStr links))])))))"

subsection \<open>Correctness of the search\<close>

definition edge_rel :: "(string \<Rightarrow> string list) \<Rightarrow> (string \<times> string) set" where
  "edge_rel next = {(a, b). b \<in> set (next a)}"

text \<open>A finished list is a topological order: the successors of a node come after it.\<close>

fun topo :: "(string \<Rightarrow> string list) \<Rightarrow> string list \<Rightarrow> bool" where
  "topo next [] = True"
| "topo next (n # bs) = (set (next n) \<subseteq> set bs \<and> n \<notin> set bs \<and> topo next bs)"

lemma topo_closed: "topo next bs \<Longrightarrow> a \<in> set bs \<Longrightarrow> (a, b) \<in> (edge_rel next)\<^sup>* \<Longrightarrow> b \<in> set bs"
proof (induction bs)
  case (Cons n bs)
  have step: "a \<in> set (n # bs) \<Longrightarrow> (a, b) \<in> edge_rel next \<Longrightarrow> b \<in> set (n # bs)" for a b
  proof -
    assume "a \<in> set (n # bs)" and e: "(a, b) \<in> edge_rel next"
    then consider "a = n" | "a \<in> set bs" by auto
    then show ?thesis
    proof cases
      case 1
      then show ?thesis using Cons.prems(1) e by (auto simp: edge_rel_def)
    next
      case 2
      have "topo next ds \<Longrightarrow> a \<in> set ds \<Longrightarrow> b \<in> set ds" for ds
        using e by (induction ds) (auto simp: edge_rel_def)
      then show ?thesis using Cons.prems(1) 2 by simp
    qed
  qed
  from Cons.prems(3,2) show ?case by (induction rule: rtrancl_induct) (use step in blast)+
qed simp

lemma topo_acyclic: "topo next bs \<Longrightarrow> a \<in> set bs \<Longrightarrow> (a, a) \<notin> (edge_rel next)\<^sup>+"
proof (induction bs)
  case (Cons n bs)
  have bs: "topo next bs" "n \<notin> set bs" "set (next n) \<subseteq> set bs" using Cons.prems(1) by auto
  show ?case
  proof (cases "a = n")
    case True
    show ?thesis
    proof
      assume "(a, a) \<in> (edge_rel next)\<^sup>+"
      then obtain m where m: "(n, m) \<in> edge_rel next" "(m, n) \<in> (edge_rel next)\<^sup>*"
        unfolding True by (metis tranclD)
      then have "m \<in> set bs" using bs(3) by (auto simp: edge_rel_def)
      then show False using topo_closed [OF bs(1) _ m(2)] bs(2) by blast
    qed
  next
    case False
    with Cons bs show ?thesis by simp
  qed
qed simp

lemma visit_finished:
  assumes "visit fuel next grey black ns = Inr black'" "topo next black" "set grey \<inter> set black = {}"
  shows "topo next black' \<and> set ns \<union> set black \<subseteq> set black' \<and> set grey \<inter> set black' = {}"
  using assms
proof (induction fuel "next" grey black ns arbitrary: black' rule: visit.induct)
  case (2 fuel "next" grey black n ns)
  have ng: "n \<notin> set grey" using 2(4) by (auto split: if_splits)
  show ?case
  proof (cases "n \<in> set black")
    case True
    with 2 ng show ?thesis by auto
  next
    case False
    with ng 2(4) obtain f b1 where f: "fuel = Suc f" and v: "visit f next (n # grey) black (next n) = Inr b1"
      and r: "visit fuel next grey (n # b1) ns = Inr black'"
      by (auto split: nat.splits sum.splits)
    have "set (n # grey) \<inter> set black = {}" using False 2(6) by auto
    then have b1: "topo next b1" "set (next n) \<union> set black \<subseteq> set b1" "set (n # grey) \<inter> set b1 = {}"
      using 2(2) [OF ng False f v 2(5)] by auto
    then have "topo next (n # b1)" "set grey \<inter> set (n # b1) = {}" using ng by auto
    from 2(3) [OF ng False f v r [unfolded f, folded f] this] show ?thesis using b1(2) by auto
  qed
qed auto

lemma visit_cycle:
  assumes "visit fuel next grey black ns = Inl (Some x)"
    and "successively (\<lambda>a b. (b, a) \<in> edge_rel next) grey"
    and "grey \<noteq> [] \<Longrightarrow> set ns \<subseteq> set (next (hd grey))"
  shows "(x, x) \<in> (edge_rel next)\<^sup>+"
  using assms
proof (induction fuel "next" grey black ns rule: visit.induct)
  case (2 fuel "next" grey black n ns)
  show ?case
  proof (cases "n \<in> set grey")
    case True
    then have x: "x = n" using 2(4) by simp
    obtain g gs where g: "grey = g # gs" using True by (cases grey) auto
    have e: "(g, n) \<in> edge_rel next" using 2(6) by (auto simp: g edge_rel_def)
    have "successively (\<lambda>a b. (b, a) \<in> edge_rel next) (g # gs) \<Longrightarrow> n \<in> set (g # gs) \<Longrightarrow> (n, g) \<in> (edge_rel next)\<^sup>*"
    proof (induction gs arbitrary: g)
      case (Cons h hs)
      then show ?case
        by (cases "n = g") (auto intro: rtrancl_into_rtrancl)
    qed auto
    with True g 2(5) have "(n, g) \<in> (edge_rel next)\<^sup>*" by blast
    then show ?thesis using e x by (simp add: rtrancl_into_trancl1)
  next
    case ng: False
    show ?thesis
    proof (cases "n \<in> set black")
      case True
      with 2 ng show ?thesis by (cases grey) auto
    next
      case False
      obtain f where f: "fuel = Suc f" using 2(4) ng False by (cases fuel) auto
      have s: "successively (\<lambda>a b. (b, a) \<in> edge_rel next) (n # grey)"
        using 2(5,6) by (cases grey) (auto simp: edge_rel_def)
      show ?thesis
      proof (cases "visit f next (n # grey) black (next n)")
        case (Inl e)
        then have "e = Some x" using 2(4) ng False f by simp
        then show ?thesis using 2(2) [OF ng False f _ s] Inl by simp
      next
        case (Inr b1)
        then have "visit fuel next grey (n # b1) ns = Inl (Some x)" using 2(4) ng False f by simp
        then show ?thesis using 2(3) [OF ng False f Inr] 2(5,6) f by auto
      qed
    qed
  qed
qed simp

lemma visit_fuel:
  assumes "finite U" "set grey \<subseteq> U" "distinct grey" "set ns \<subseteq> U" "\<And>k. k \<in> U \<Longrightarrow> set (next k) \<subseteq> U"
    and "card U \<le> fuel + length grey"
  shows "visit fuel next grey black ns \<noteq> Inl None"
  using assms
proof (induction fuel "next" grey black ns rule: visit.induct)
  case (2 fuel "next" grey black n ns)
  show ?case
  proof (cases "n \<in> set grey \<or> n \<in> set black")
    case True
    with 2 show ?thesis by auto
  next
    case False
    have "card (set grey) < card U"
      using False 2(4,5,7) by (intro psubset_card_mono) auto
    then have "fuel \<noteq> 0" using 2(6,9) by (auto simp: distinct_card)
    then obtain f where f: "fuel = Suc f" by (cases fuel) auto
    have n: "n \<in> U" using 2(7) by simp
    have i: "visit f next (n # grey) black (next n) \<noteq> Inl None"
      using 2(2) [OF _ _ f 2(4)] False n 2(5,6,8,9) f by auto
    show ?thesis
    proof (cases "visit f next (n # grey) black (next n)")
      case (Inl e)
      then show ?thesis using False f i by auto
    next
      case (Inr b1)
      then have "visit fuel next grey (n # b1) ns \<noteq> Inl None"
        using 2(3) [OF _ _ f Inr 2(4)] False 2(5-9) f by auto
      then show ?thesis using False f Inr by simp
    qed
  qed
qed simp

subsection \<open>Validated chains\<close>

definition keys :: "SourceChain \<Rightarrow> string set" where
  "keys c = source_key ` set (scSources c)"

lemma sources_error_distinct:
  "sources_error seen ss = None \<Longrightarrow> distinct (map source_key ss) \<and> set seen \<inter> source_key ` set ss = {}"
proof (induction ss arbitrary: seen)
  case (Cons s ss)
  then have "source_key s \<notin> set seen" "sources_error (source_key s # seen) ss = None" by (auto split: if_splits)
  with Cons.IH [of "source_key s # seen"] show ?case by auto
qed simp

lemma byDigest_Some: "byDigest c k = Some s \<Longrightarrow> s \<in> set (scSources c) \<and> source_key s = k"
  by (auto simp: byDigest_def find_Some_iff)

lemma byDigest_keys: "(\<exists>s. byDigest c k = Some s) \<longleftrightarrow> k \<in> keys c"
  by (auto simp: byDigest_def keys_def find_None_iff simp flip: not_None_eq)

lemma link_error_None:
  assumes "link_error c l = None"
  shows "\<exists>a b. byDigest c (digestKey (lFrom l)) = Some a \<and> byDigest c (digestKey (lTo l)) = Some b \<and>
     srDigest a = lFrom l \<and> srDigest b = lTo l \<and> lTo l \<in> set (srReferences a)"
proof -
  obtain a b where ab: "byDigest c (digestKey (lFrom l)) = Some a" "byDigest c (digestKey (lTo l)) = Some b"
    "referencesDigest (srReferences a) (srDigest b)"
    using assms by (auto simp: link_error_def err_simps split: option.splits)
  have "srDigest a = lFrom l" "srDigest b = lTo l"
    using byDigest_Some [OF ab(1)] byDigest_Some [OF ab(2)] digestKey_inj by auto
  with ab show ?thesis by (auto simp: referencesDigest_def)
qed

lemma edges_iff: "b \<in> set (edges c a) \<longleftrightarrow> (\<exists>l \<in> set (scLinks c). digestKey (lFrom l) = a \<and> digestKey (lTo l) = b)"
  by (auto simp: edges_def)

definition links_backed :: "SourceChain \<Rightarrow> bool" where
  "links_backed c \<longleftrightarrow> (\<forall>l \<in> set (scLinks c). \<exists>a b. a \<in> set (scSources c) \<and> b \<in> set (scSources c) \<and>
     srDigest a = lFrom l \<and> srDigest b = lTo l \<and> lTo l \<in> set (srReferences a))"

lemma edges_in_keys:
  assumes "first_err (link_error c) (scLinks c) = None"
  shows "set (edges c k) \<subseteq> keys c" "set (edge_nodes c) \<subseteq> keys c"
proof -
  have "digestKey (lFrom l) \<in> keys c \<and> digestKey (lTo l) \<in> keys c" if "l \<in> set (scLinks c)" for l
    using assms that link_error_None [of c l] byDigest_keys [of c] by (auto simp: first_err_None)
  then show "set (edges c k) \<subseteq> keys c" "set (edge_nodes c) \<subseteq> keys c"
    by (auto simp: edges_def edge_nodes_def)
qed

lemma detectCycle_correct:
  assumes "set nodes \<subseteq> U" "finite U" "\<And>k. set (next k) \<subseteq> U" "card U \<le> fuel" "\<And>k. next k \<noteq> [] \<Longrightarrow> k \<in> set nodes"
  shows "detectCycle fuel next nodes = None \<longleftrightarrow> acyclic (edge_rel next)"
proof (cases "visit fuel next [] [] nodes")
  case (Inl e)
  have "e \<noteq> None" using visit_fuel [of U "[]" nodes "next" fuel "[]"] assms(1-4) Inl by auto
  then obtain x where "e = Some x" by auto
  then have "(x, x) \<in> (edge_rel next)\<^sup>+" using visit_cycle [of fuel "next" "[]" "[]" nodes x] Inl by simp
  then show ?thesis using Inl by (auto simp: detectCycle_def acyclic_def)
next
  case (Inr black)
  then have b: "topo next black" "set nodes \<subseteq> set black" using visit_finished [OF Inr] by auto
  have "(a, a) \<notin> (edge_rel next)\<^sup>+" for a
  proof
    assume l: "(a, a) \<in> (edge_rel next)\<^sup>+"
    then obtain m where "(a, m) \<in> edge_rel next" by (metis tranclD)
    then have "next a \<noteq> []" by (auto simp: edge_rel_def)
    then have "a \<in> set black" using assms(5) b(2) by blast
    then show False using topo_acyclic [OF b(1)] l by blast
  qed
  then show ?thesis using Inr by (simp add: detectCycle_def acyclic_def)
qed

lemma Chain_Validate_None:
  "Chain_Validate c = None \<longleftrightarrow>
     scSources c \<noteq> [] \<and> sources_error [] (scSources c) = None \<and> first_err (link_error c) (scLinks c) = None \<and>
     acyclic (edge_rel (edges c))"
proof (cases "sources_error [] (scSources c) = None \<and> first_err (link_error c) (scLinks c) = None")
  case True
  have "card (keys c) \<le> length (scSources c)" unfolding keys_def by (metis card_image_le card_length finite_set order_trans)
  then have "detectCycle (length (scSources c)) (edges c) (edge_nodes c) = None \<longleftrightarrow> acyclic (edge_rel (edges c))"
    using True edges_in_keys [of c]
    by (intro detectCycle_correct [of _ "keys c"]) (auto simp: keys_def edges_def edge_nodes_def filter_empty_conv)
  with True show ?thesis by (auto simp: Chain_Validate_def err_simps)
qed (auto simp: Chain_Validate_def err_simps)

lemma links_backed_valid: "Chain_Validate c = None \<Longrightarrow> links_backed c"
  unfolding links_backed_def
proof
  fix l
  assume c: "Chain_Validate c = None" and l: "l \<in> set (scLinks c)"
  have "link_error c l = None" using c l by (simp add: Chain_Validate_None first_err_None)
  from link_error_None [OF this] show "\<exists>a b. a \<in> set (scSources c) \<and> b \<in> set (scSources c) \<and>
     srDigest a = lFrom l \<and> srDigest b = lTo l \<and> lTo l \<in> set (srReferences a)"
    using byDigest_Some by blast
qed

subsection \<open>Walking\<close>

lemma named_source:
  assumes "Chain_Validate c = None" "s \<in> set (named c k)"
  shows "s \<in> set (scSources c)" "(k, source_key s) \<in> edge_rel (edges c)"
proof -
  obtain k' where k': "k' \<in> set (edges c k)" "s = the (byDigest c k')" using assms(2) by (auto simp: named_def)
  have "k' \<in> keys c" using edges_in_keys(1) assms(1) k'(1) by (auto simp: Chain_Validate_None)
  then have b: "byDigest c k' = Some s" using k'(2) byDigest_keys [of c k'] by auto
  show "s \<in> set (scSources c)" "(k, source_key s) \<in> edge_rel (edges c)"
    using byDigest_Some [OF b] k'(1) by (auto simp: edge_rel_def)
qed

lemma acyclic_fresh:
  "Chain_Validate c = None \<Longrightarrow> \<forall>x \<in> set xs. (x, a) \<in> (edge_rel (edges c))\<^sup>+ \<Longrightarrow> a \<notin> set xs"
  by (auto simp: Chain_Validate_None acyclic_def)

lemma walk_fuel:
  assumes "Chain_Validate c = None" "s \<in> set (scSources c)" "distinct seen" "set seen \<subseteq> keys c"
    and "\<forall>x \<in> set seen. (x, source_key s) \<in> (edge_rel (edges c))\<^sup>+"
    and "length (scSources c) \<le> fuel + length seen"
  shows "(\<exists>path. walk fuel c seen s = Inr path) \<or> (\<exists>m as. walk fuel c seen s = Inl (Ev ErrSourceChainBranch m as))"
  using assms
proof (induction fuel arbitrary: seen s)
  case 0
  have k: "source_key s \<in> keys c" using 0(2) by (simp add: keys_def)
  have n: "source_key s \<notin> set seen" using acyclic_fresh [OF 0(1,5)] .
  then have "card (set seen) < card (keys c)"
    using 0(4) k by (intro psubset_card_mono) (auto simp: keys_def)
  moreover have "card (keys c) \<le> length (scSources c)" unfolding keys_def by (metis card_image_le card_length finite_set order_trans)
  ultimately show ?case using 0(3,6) by (simp add: distinct_card)
next
  case (Suc fuel)
  have n: "source_key s \<notin> set seen" using acyclic_fresh [OF Suc.prems(1,5)] .
  show ?case
  proof (cases "named c (source_key s)" rule: remdups_adj.cases)
    case 1
    with n show ?thesis by (simp add: walk.simps [of "Suc fuel"])
  next
    case (2 t)
    have t: "t \<in> set (scSources c)" "(source_key s, source_key t) \<in> edge_rel (edges c)"
      using named_source [OF Suc.prems(1), of t "source_key s"] 2 by auto
    have "\<forall>x \<in> set (source_key s # seen). (x, source_key t) \<in> (edge_rel (edges c))\<^sup>+"
      using Suc.prems(5) t(2) by (auto intro: trancl_into_trancl)
    moreover have "source_key s \<in> keys c" using Suc.prems(2) by (simp add: keys_def)
    ultimately have "(\<exists>path. walk fuel c (source_key s # seen) t = Inr path) \<or>
        (\<exists>m as. walk fuel c (source_key s # seen) t = Inl (Ev ErrSourceChainBranch m as))"
      using Suc.IH [OF Suc.prems(1) t(1)] n Suc.prems(3,4,6) by auto
    then show ?thesis using 2 n by (auto simp: walk.simps [of "Suc fuel"])
  next
    case (3 t u ts)
    with n show ?thesis by (simp add: walk.simps [of "Suc fuel"])
  qed
qed

lemma walk_path:
  assumes "Chain_Validate c = None" "s \<in> set (scSources c)" "walk fuel c seen s = Inr path"
  shows "path \<noteq> [] \<and> hd path = s \<and> set path \<subseteq> set (scSources c) \<and> named c (source_key (last path)) = [] \<and>
     successively (\<lambda>a b. srDigest b \<in> set (srReferences a)) path"
  using assms(2,3)
proof (induction fuel arbitrary: seen s path)
  case 0
  then show ?case by (simp add: walk.simps split: if_splits)
next
  case (Suc fuel)
  have n: "source_key s \<notin> set seen" using Suc.prems(2) by (auto simp: walk.simps [of "Suc fuel"] split: if_splits)
  show ?case
  proof (cases "named c (source_key s)" rule: remdups_adj.cases)
    case 1
    then have "path = [s]" using n Suc.prems(2) by (simp add: walk.simps [of "Suc fuel"])
    then show ?thesis using 1 Suc.prems(1) by simp
  next
    case (2 t)
    then obtain p where p: "walk fuel c (source_key s # seen) t = Inr p" "path = s # p"
      using n Suc.prems(2) by (auto simp: walk.simps [of "Suc fuel"] split: sum.splits)
    have t: "t \<in> set (scSources c)" "(source_key s, source_key t) \<in> edge_rel (edges c)"
      using named_source [OF assms(1), of t "source_key s"] 2 by auto
    then obtain l where l: "l \<in> set (scLinks c)" "digestKey (lFrom l) = source_key s" "digestKey (lTo l) = source_key t"
      by (auto simp: edge_rel_def edges_iff)
    then obtain a where a: "byDigest c (source_key s) = Some a" "srDigest t \<in> set (srReferences a)"
      using assms(1) link_error_None [of c l] digestKey_inj [OF l(3)] by (auto simp: Chain_Validate_None first_err_None)
    have "distinct (map source_key (scSources c))"
      using assms(1) sources_error_distinct by (auto simp: Chain_Validate_None)
    then have "a = s" using byDigest_Some [OF a(1)] Suc.prems(1) by (metis distinct_map inj_on_def)
    then have e: "srDigest t \<in> set (srReferences s)" using a(2) by simp
    have "p \<noteq> [] \<and> hd p = t \<and> set p \<subseteq> set (scSources c) \<and> named c (source_key (last p)) = [] \<and>
       successively (\<lambda>a b. srDigest b \<in> set (srReferences a)) p" using Suc.IH [OF t(1) p(1)] .
    then show ?thesis using p(2) e Suc.prems(1) by (cases p) auto
  next
    case (3 t u ts)
    with n Suc.prems show ?thesis by (simp add: walk.simps [of "Suc fuel"])
  qed
qed

end
