(* ===== verification/Sufficiency.thy ===== *)
theory Sufficiency
  imports Challenge Action_Match Sources
begin

text \<open>
  The properties of the evidence side: the requirement language, the evaluation of requirements, freshness,
  challenges, action identities and source chains.
\<close>

subsection \<open>The requirement language\<close>

text \<open>
  C18. Printing and parsing agree: every well-formed expression within the limits of the language (64 binary
  nodes, nesting 8), printed with the fewest parentheses, is read back as itself.
\<close>

theorem requirement_roundtrip:
  assumes "expr_wf e" and "binary_nodes e \<le> maxRequirementNodes" and "expr_depth e \<le> maxRequirementDepth"
  shows "parseRequirementExpression (print_expr e) = Inr e"
  by (rule parse_print [OF assms])

theorem requirement_roundtrip_witness:
  "parseRequirementExpression ''human AND ( policy OR audit )'' =
     Inr (Binary ''AND'' (Ident ''human'') (Binary ''OR'' (Ident ''policy'') (Ident ''audit'')))"
proof -
  let ?e = "Binary ''AND'' (Ident ''human'') (Binary ''OR'' (Ident ''policy'') (Ident ''audit''))"
  have "print_expr ?e = ''human AND ( policy OR audit )''" by code_simp
  moreover have "expr_wf ?e" "binary_nodes ?e \<le> maxRequirementNodes" "expr_depth ?e \<le> maxRequirementDepth"
    by code_simp+
  ultimately show ?thesis using requirement_roundtrip [of ?e] by simp
qed

text \<open>
  The parser enforces its bounds on every input: an accepted expression has at most 64 binary nodes and
  nesting 8, its operators are AND and OR and its leaves are proper role names.
\<close>

theorem requirement_limits:
  assumes "parseRequirementExpression s = Inr e"
  shows "binary_nodes e \<le> maxRequirementNodes \<and> expr_depth e \<le> maxRequirementDepth \<and> expr_wf e"
  using parseRequirementExpression_wf [OF assms] by simp

subsection \<open>Evaluating requirements\<close>

text \<open>
  C20. A requirement is satisfied exactly when its expression holds over the roles filled by a verified fact and
  every constraint evaluates to satisfied; unknown is never satisfied, and the binary report agrees.
\<close>

theorem EvaluateRequirement_satisfied:
  assumes "EvaluateRequirement req facts ctx = Inr r"
  shows "(Satisfied r \<longleftrightarrow>
       (\<exists>expr. parseRequirementExpression (rqExpression req) = Inr expr \<and> expr_eval expr (role_present facts)) \<and>
       (\<forall>c \<in> set (rqConstraints req). \<exists>e.
          EvaluateEvidenceConstraint (rcConstraint c) (EvidenceFactsOfRole facts (rcRole c)) ctx = Inr e \<and>
          evVerdict e = EvidenceSatisfied)) \<and>
     (fst (Satisfaction r) = SatisfactionSatisfied \<longleftrightarrow> Satisfied r)"
  using assms
proof (rule EvaluateRequirement_Inr)
  fix expr evs
  assume p: "parseRequirementExpression (rqExpression req) = Inr expr"
    and m: "map_err (constraint_result facts ctx) (rqConstraints req) = Inr evs"
    and x: "resExpression r = expr_eval expr (role_present facts)" and c: "resConstraints r = evs"
    and vd: "resVerdict r = (if EvidenceViolated \<in> set (map evVerdict evs) \<or> \<not> resExpression r then EvidenceViolated
                     else if EvidenceUnknown \<in> set (map evVerdict evs) then EvidenceUnknown else EvidenceSatisfied)"
  have sat: "x = EvidenceSatisfied \<longleftrightarrow> EvidenceViolated \<noteq> x \<and> EvidenceUnknown \<noteq> x" for x by (cases x) simp_all
  have evs: "set evs = {e. \<exists>c \<in> set (rqConstraints req). constraint_result facts ctx c = Inr e}"
    by (rule map_err_range [OF m])
  have ok: "\<exists>e. constraint_result facts ctx c = Inr e" if "c \<in> set (rqConstraints req)" for c
    using map_err_identified [of "constraint_result facts ctx" "rqConstraints req"] m that by auto
  have "EvidenceViolated \<notin> set (map evVerdict evs) \<and> EvidenceUnknown \<notin> set (map evVerdict evs) \<longleftrightarrow>
      (\<forall>e \<in> set evs. evVerdict e = EvidenceSatisfied)" by (simp only: sat set_map image_iff) auto
  also have "\<dots> \<longleftrightarrow> (\<forall>c \<in> set (rqConstraints req). \<exists>e. constraint_result facts ctx c = Inr e \<and> evVerdict e = EvidenceSatisfied)"
    using ok evs by fastforce
  finally have all: "EvidenceViolated \<notin> set (map evVerdict evs) \<and> EvidenceUnknown \<notin> set (map evVerdict evs) \<longleftrightarrow>
      (\<forall>c \<in> set (rqConstraints req). \<exists>e. constraint_result facts ctx c = Inr e \<and> evVerdict e = EvidenceSatisfied)" .
  have "Satisfied r \<longleftrightarrow> resExpression r \<and> EvidenceViolated \<notin> set (map evVerdict evs) \<and> EvidenceUnknown \<notin> set (map evVerdict evs)"
    unfolding Satisfied_def vd by simp
  moreover have "fst (Satisfaction r) = SatisfactionSatisfied \<longleftrightarrow> Satisfied r"
    by (simp add: Satisfaction_def Satisfied_def split: option.split)
  ultimately show ?thesis using all p x by simp
qed

definition ex_requirement :: Requirement where
  "ex_requirement = \<lparr>rqVersion = RequirementVersion, rqID = ''r1'', rqPurpose = [], rqExpression = ''human'',
     rqConstraints = [\<lparr>rcRole = ''human'', rcConstraint = ''varwof/evidence-v1:quorum:distinct:2''\<rparr>]\<rparr>"

definition ex_fact :: "string \<Rightarrow> EvidenceFact" where
  "ex_fact s = \<lparr>factType = ''human'', Subject = s, IssuedAt = 5, Verified = True\<rparr>"

definition ex_context :: EvidenceContext where
  "ex_context = \<lparr>Now = 10, Initiator = [], Executor = []\<rparr>"

lemma ex_requirement_evaluates: "\<exists>r. EvaluateRequirement ex_requirement facts ctx = Inr r"
  by (rule EvaluateRequirement_total) code_simp+

theorem EvaluateRequirement_satisfied_witness:
  "\<exists>r. EvaluateRequirement ex_requirement [ex_fact ''alice'', ex_fact ''bob''] ex_context = Inr r \<and> Satisfied r"
proof -
  let ?fs = "[ex_fact ''alice'', ex_fact ''bob'']"
  obtain r where r: "EvaluateRequirement ex_requirement ?fs ex_context = Inr r" using ex_requirement_evaluates by blast
  have p: "parseRequirementExpression (rqExpression ex_requirement) = Inr (Ident ''human'')" by code_simp
  have h: "expr_eval (Ident ''human'') (role_present ?fs)" by code_simp
  have q: "EvaluateEvidenceConstraint ''varwof/evidence-v1:quorum:distinct:2'' (EvidenceFactsOfRole ?fs ''human'') ex_context
     = Inr (evaluation ''varwof/evidence-v1:quorum:distinct:2'' EvidenceSatisfied [])" by code_simp
  have c: "rqConstraints ex_requirement = [\<lparr>rcRole = ''human'', rcConstraint = ''varwof/evidence-v1:quorum:distinct:2''\<rparr>]"
    by (simp add: ex_requirement_def)
  show ?thesis
    using r EvaluateRequirement_satisfied [OF r] p h q by (simp add: c evaluation_def)
qed

text \<open>
  Unverified facts carry no weight: dropping every fact the native verifier did not accept changes
  neither the verdict nor the missing roles nor any constraint evaluation.
\<close>

theorem unverified_facts_ignored:
  "EvaluateRequirement req (eligible facts) ctx = EvaluateRequirement req facts ctx"
proof -
  have roles: "EvidenceFactsOfRole (eligible facts) r = eligible (EvidenceFactsOfRole facts r)" for r
    by (simp add: EvidenceFactsOfRole_def eligible_def conj_commute)
  have present: "role_present (eligible facts) = role_present facts"
    by (auto simp: fun_eq_iff role_present_def EvidenceFactsOfRole_def eligible_def)
  show ?thesis
    by (simp only: EvaluateRequirement_def present roles EvaluateEvidenceConstraint_eligible)
qed

text \<open>
  C22. Freshness, exactly and without overflow: for an accepted bound of \<open>n\<close> seconds the evaluation is
  satisfied precisely when some fact of the role is verified and every verified fact has an issuance time,
  not in the future, at most \<open>n\<close> seconds ago; the 64-bit duration never wraps.
\<close>

theorem freshness_exact:
  assumes "ValidateEvidenceConstraint (evidenceFreshness @ '':sec:'' @ digits) = None"
  shows "\<exists>n. atoi digits = Some n \<and> 0 \<le> n \<and> seconds_duration n = n * 1000000000 \<and>
     (\<exists>e. EvaluateEvidenceConstraint (evidenceFreshness @ '':sec:'' @ digits) facts ctx = Inr e \<and>
        (evVerdict e = EvidenceSatisfied \<longleftrightarrow>
           eligible facts \<noteq> [] \<and>
           (\<forall>f \<in> set (eligible facts). IssuedAt f \<noteq> zero_time \<and> IssuedAt f \<le> Now ctx \<and>
              Now ctx - IssuedAt f \<le> n * 1000000000)))"
proof -
  let ?c = "evidenceFreshness @ '':sec:'' @ digits"
  have nc: "CHR '':'' \<notin> set digits"
  proof
    assume "CHR '':'' \<in> set digits"
    then obtain a b where d: "digits = a @ CHR '':'' # b" "CHR '':'' \<notin> set a" by (metis split_list_first)
    then have "split_on (CHR '':'') ?c = ''varwof/evidence-v1'' # ''freshness'' # ''sec'' # a # split_on (CHR '':'') b"
      by (simp add: evidence_ids split_on_append_sep)
    then show False using assms split_on_neq_Nil [of "CHR '':''" b]
      by (auto simp: ValidateEvidenceConstraint_def evidence_ids split: list.splits)
  qed
  have sp: "split_on (CHR '':'') ?c = [''varwof/evidence-v1'', ''freshness'', ''sec'', digits]"
    using nc by (simp add: evidence_ids split_on_append_sep split_on_single)
  have key: "''varwof/evidence-v1'' @ '':'' @ ''freshness'' = evidenceFreshness" by (simp add: evidence_ids)
  obtain n where n: "atoi digits = Some n" "0 \<le> n" "n \<le> 1000000000"
    using assms unfolding ValidateEvidenceConstraint_def sp
    by (auto simp: key maxEvidenceAgeSeconds_def Let_def split: option.splits if_splits)
  have d: "seconds_duration n = n * 1000000000" unfolding seconds_duration_def by (rule wrap64_id) (use n in auto)
  have fault: "freshness_fault (n * 1000000000) (Now ctx) f = None \<longleftrightarrow>
      IssuedAt f \<noteq> zero_time \<and> IssuedAt f \<le> Now ctx \<and> Now ctx - IssuedAt f \<le> n * 1000000000" for f
    using Sub_less_iff [of "n * 1000000000" "Now ctx" "IssuedAt f"] n by (auto simp: freshness_fault_def)
  let ?ff = "first_err (freshness_fault (n * 1000000000) (Now ctx)) (eligible facts)"
  have "EvaluateEvidenceConstraint ?c facts ctx = Inr
      (case ?ff of Some r \<Rightarrow> evaluation ?c EvidenceViolated r
       | None \<Rightarrow> if eligible facts = [] then evaluation ?c EvidenceViolated ''freshness:no_eligible_fact''
                 else evaluation ?c EvidenceSatisfied [])"
    unfolding EvaluateEvidenceConstraint_def assms sp Let_def by (simp add: key [simplified] mustAtoi_def n(1) d)
  moreover have "?ff = None \<longleftrightarrow> (\<forall>f \<in> set (eligible facts). IssuedAt f \<noteq> zero_time \<and> IssuedAt f \<le> Now ctx \<and>
      Now ctx - IssuedAt f \<le> n * 1000000000)" by (simp only: first_err_None fault)
  ultimately show ?thesis using n d by (cases ?ff) (auto simp: evaluation_def)
qed

theorem freshness_exact_witness:
  "\<exists>e. EvaluateEvidenceConstraint ''varwof/evidence-v1:freshness:sec:300'' [ex_fact ''alice''] ex_context = Inr e \<and>
       evVerdict e = EvidenceSatisfied"
proof -
  have t: "''varwof/evidence-v1:freshness:sec:300'' = evidenceFreshness @ '':sec:'' @ ''300''" by (simp add: evidence_ids)
  have v: "ValidateEvidenceConstraint (evidenceFreshness @ '':sec:'' @ ''300'') = None" by code_simp
  have a: "atoi ''300'' = Some 300" by code_simp
  from freshness_exact [OF v, of "[ex_fact ''alice'']" ex_context] show ?thesis
    unfolding t by (auto simp: a eligible_def ex_fact_def ex_context_def zero_time_def)
qed

text \<open>
  A decision context is fresh exactly when it is valid, pins a clock instant not in the future and, if it
  bounds the age, is at most that old, provided the bound stays below 292 years; the product of a larger
  bound wraps around: with a bound of 18446744074 seconds a context is reported stale after one second.
\<close>

theorem Fresh_exact:
  "(0 \<le> MaxAgeSec c \<and> MaxAgeSec c < 9223372036 \<longrightarrow>
     (Fresh c now = None \<longleftrightarrow>
        Context_Validate c = None \<and> \<not> Time_IsZero (At c) \<and> tInstant (At c) \<le> now \<and>
        (0 < MaxAgeSec c \<longrightarrow> now - tInstant (At c) \<le> MaxAgeSec c * 1000000000))) \<and>
   Fresh \<lparr>At = \<lparr>tInstant = 0, tUTC = True\<rparr>, MaxAgeSec = 18446744074, Nonce = [], EpochID = None, SnapshotDigest = None\<rparr>
     1000000000 = Some (ev ErrContextStale)"
proof
  show "0 \<le> MaxAgeSec c \<and> MaxAgeSec c < 9223372036 \<longrightarrow>
     (Fresh c now = None \<longleftrightarrow>
        Context_Validate c = None \<and> \<not> Time_IsZero (At c) \<and> tInstant (At c) \<le> now \<and>
        (0 < MaxAgeSec c \<longrightarrow> now - tInstant (At c) \<le> MaxAgeSec c * 1000000000))"
  proof
    assume b: "0 \<le> MaxAgeSec c \<and> MaxAgeSec c < 9223372036"
    then have m: "MaxAge c = MaxAgeSec c * 1000000000"
      unfolding MaxAge_def seconds_duration_def by (intro wrap64_id) auto
    have "MaxAge c < Sub now (tInstant (At c)) \<longleftrightarrow> MaxAge c < now - tInstant (At c)"
      by (rule Sub_less_iff) (use b m in auto)
    then show "Fresh c now = None \<longleftrightarrow>
        Context_Validate c = None \<and> \<not> Time_IsZero (At c) \<and> tInstant (At c) \<le> now \<and>
        (0 < MaxAgeSec c \<longrightarrow> now - tInstant (At c) \<le> MaxAgeSec c * 1000000000)"
      by (auto simp: Fresh_def err_simps m Let_def)
  qed
  show "Fresh \<lparr>At = \<lparr>tInstant = 0, tUTC = True\<rparr>, MaxAgeSec = 18446744074, Nonce = [], EpochID = None, SnapshotDigest = None\<rparr>
     1000000000 = Some (ev ErrContextStale)" by code_simp
qed

subsection \<open>Challenges\<close>


definition ex_params :: ChallengeParams where
  "ex_params = \<lparr>cpID = ''c1'', cpNonce = ''0123456789'', cpAudience = [], cpActionDigest = \<lparr>Alg = ''sha-256'', DValue = ''x''\<rparr>,
     cpNow = \<lparr>tInstant = 0, tUTC = True\<rparr>, cpTTL = 1000, cpObtainHints = [], cpRetry = None\<rparr>"


subsection \<open>Action identities\<close>

text \<open>
  The text of an action identity determines it: parsing the text of a valid SHA-256 identity whose type has
  no colon gives the identity back. A colon in the type, which the validation permits, breaks the text.
\<close>

theorem ActionId_roundtrip:
  "(ActionId_Validate a = None \<and> Alg (aDigest a) = DigestAlgSHA256 \<and> CHR '':'' \<notin> set (aType a) \<longrightarrow>
     ParseActionId (ActionId_String a) = Inr a) \<and>
   (let b = \<lparr>aType = ''pay:ment'', aSuite = SuiteJCSSHA256,
             aDigest = \<lparr>Alg = DigestAlgSHA256, DValue = replicate 32 (CHR ''x'')\<rparr>\<rparr>
    in ActionId_Validate b = None \<and> ParseActionId (ActionId_String b) = Inl (Ev ErrActionShape ''%q'' [ActionId_String b]))"
  using ParseActionId_String [of a] by (auto simp: Let_def) code_simp+

text \<open>
  Matching is exact: a match means equal, valid identities; identities computed under one definition match
  exactly when their material projections have the same SHA-256, so fields outside the material set never
  matter, and a mapped match needs a pinned profile whose projector returned the expected identity itself.
\<close>

theorem Match_material:
  "(Match a b = MatchExact \<longleftrightarrow> ActionId_Validate a = None \<and> a = b) \<and>
   (MapAndMatch pr f e x = MatchExact \<longrightarrow> Pinned pr \<and> (\<exists>g. f = Some g \<and> g pr e = Inr x)) \<and>
   (ComputeActionID d s act1 = Inr i1 \<and> ComputeActionID d s act2 = Inr i2 \<longrightarrow>
     (\<exists>p1 p2. MaterialProjection d act1 = Inr p1 \<and> MaterialProjection d act2 = Inr p2 \<and>
        (Match i1 i2 = MatchExact \<longleftrightarrow>
           Sum256 (writeCanonicalJSON (JObj p1)) = Sum256 (writeCanonicalJSON (JObj p2))))) \<and>
   ((\<forall>k \<in> set (MaterialFields d). map_of act1 k = map_of act2 k) \<longrightarrow>
     ComputeActionID d s act1 = ComputeActionID d s act2)"
proof (intro conjI)
  show "Match a b = MatchExact \<longleftrightarrow> ActionId_Validate a = None \<and> a = b" by (rule Match_exact_iff)
  show "MapAndMatch pr f e x = MatchExact \<longrightarrow> Pinned pr \<and> (\<exists>g. f = Some g \<and> g pr e = Inr x)"
    by (simp add: MapAndMatch_exact)
  show "ComputeActionID d s act1 = Inr i1 \<and> ComputeActionID d s act2 = Inr i2 \<longrightarrow>
     (\<exists>p1 p2. MaterialProjection d act1 = Inr p1 \<and> MaterialProjection d act2 = Inr p2 \<and>
        (Match i1 i2 = MatchExact \<longleftrightarrow>
           Sum256 (writeCanonicalJSON (JObj p1)) = Sum256 (writeCanonicalJSON (JObj p2))))"
  proof
    assume c: "ComputeActionID d s act1 = Inr i1 \<and> ComputeActionID d s act2 = Inr i2"
    obtain p1 where p1: "MaterialProjection d act1 = Inr p1" "i1 = \<lparr>aType = defType d, aSuite = SuiteJCSSHA256,
          aDigest = \<lparr>Alg = DigestAlgSHA256, DValue = Sum256 (writeCanonicalJSON (JObj p1))\<rparr>\<rparr>"
      using c by (metis ComputeActionID_Inr)
    obtain p2 where p2: "MaterialProjection d act2 = Inr p2" "i2 = \<lparr>aType = defType d, aSuite = SuiteJCSSHA256,
          aDigest = \<lparr>Alg = DigestAlgSHA256, DValue = Sum256 (writeCanonicalJSON (JObj p2))\<rparr>\<rparr>"
      using c by (metis ComputeActionID_Inr)
    have "ActionId_Validate i1 = None" using c ComputeActionID_valid by blast
    then show "\<exists>p1 p2. MaterialProjection d act1 = Inr p1 \<and> MaterialProjection d act2 = Inr p2 \<and>
        (Match i1 i2 = MatchExact \<longleftrightarrow>
           Sum256 (writeCanonicalJSON (JObj p1)) = Sum256 (writeCanonicalJSON (JObj p2)))"
      using p1 p2 by (intro exI [of _ p1] exI [of _ p2]) (simp add: Match_exact_iff)
  qed
  show "(\<forall>k \<in> set (MaterialFields d). map_of act1 k = map_of act2 k) \<longrightarrow>
     ComputeActionID d s act1 = ComputeActionID d s act2"
  proof
    assume "\<forall>k \<in> set (MaterialFields d). map_of act1 k = map_of act2 k"
    then have "map_err (project_field d act1) (MaterialFields d) = map_err (project_field d act2) (MaterialFields d)"
      by (intro map_err_cong_set project_field_cong) simp
    note eq = this
    show "ComputeActionID d s act1 = ComputeActionID d s act2" unfolding ComputeActionID_def eq by (rule refl)
  qed
qed

subsection \<open>Source chains\<close>

text \<open>
  C27. A source chain is accepted only when its sources are distinct, every claimed link is backed by a reference
  in the bytes of the source it starts from, and the links have no cycle; with well-formed sources and links
  the depth-first search decides acyclicity exactly, whatever the order in which it visits the nodes.
\<close>

theorem Chain_Validate_exact:
  "(Chain_Validate c = None \<longrightarrow>
     distinct (map srDigest (scSources c)) \<and> acyclic (edge_rel (edges c)) \<and>
     (\<forall>l \<in> set (scLinks c). \<exists>a \<in> set (scSources c). \<exists>b \<in> set (scSources c).
        srDigest a = lFrom l \<and> srDigest b = lTo l \<and> lTo l \<in> set (srReferences a))) \<and>
   (sources_error [] (scSources c) = None \<and> first_err (link_error c) (scLinks c) = None \<and> set nodes = set (edge_nodes c) \<longrightarrow>
     (detectCycle (length (scSources c)) (edges c) nodes = None \<longleftrightarrow> acyclic (edge_rel (edges c))))"
proof (intro conjI impI)
  assume v: "Chain_Validate c = None"
  have "distinct (map source_key (scSources c))"
    using v sources_error_distinct [of "[]" "scSources c"] by (simp add: Chain_Validate_None)
  then show "distinct (map srDigest (scSources c))"
    by (auto simp: distinct_map inj_on_def)
  show "acyclic (edge_rel (edges c))" using v by (simp add: Chain_Validate_None)
  show "\<forall>l \<in> set (scLinks c). \<exists>a \<in> set (scSources c). \<exists>b \<in> set (scSources c).
        srDigest a = lFrom l \<and> srDigest b = lTo l \<and> lTo l \<in> set (srReferences a)"
    using links_backed_valid [OF v] unfolding links_backed_def by blast
next
  assume a: "sources_error [] (scSources c) = None \<and> first_err (link_error c) (scLinks c) = None \<and> set nodes = set (edge_nodes c)"
  have "card (keys c) \<le> length (scSources c)" unfolding keys_def by (metis card_image_le card_length finite_set order_trans)
  then show "detectCycle (length (scSources c)) (edges c) nodes = None \<longleftrightarrow> acyclic (edge_rel (edges c))"
    using a edges_in_keys [of c]
    by (intro detectCycle_correct [of _ "keys c"]) (auto simp: keys_def edges_def edge_nodes_def filter_empty_conv)
qed

definition ex_digest :: "char \<Rightarrow> Digest" where
  "ex_digest x = \<lparr>Alg = ''sha-256'', DValue = [x]\<rparr>"

definition ex_chain :: SourceChain where
  "ex_chain = \<lparr>scSources =
      [\<lparr>srKind = ''aic'', srID = ''1'', srIssuer = [], srDigest = ex_digest (CHR ''a''), srReferences = [ex_digest (CHR ''b'')]\<rparr>,
       \<lparr>srKind = ''cert'', srID = ''2'', srIssuer = [], srDigest = ex_digest (CHR ''b''), srReferences = []\<rparr>],
     scLinks = [\<lparr>lFrom = ex_digest (CHR ''a''), lTo = ex_digest (CHR ''b'')\<rparr>]\<rparr>"

theorem Chain_Validate_exact_witness: "acyclic (edge_rel (edges ex_chain))"
proof -
  have "Chain_Validate ex_chain = None" by code_simp
  then show ?thesis using Chain_Validate_exact [THEN conjunct1, of ex_chain] by blast
qed

text \<open>
  C28. The walk to the authority ends: on a validated chain, from any of its sources, \<open>StandingOn\<close> returns a path
  or reports a branch, never a cycle and never exhaustion; a returned path starts at the artifact, every step is
  named in the bytes of the source before it, and it ends at a source that names nothing.
\<close>

theorem StandingOn_terminates:
  assumes "Chain_Validate c = None" and "s \<in> set (scSources c)"
  shows "((\<exists>path. StandingOn c (srDigest s) = Inr path) \<or>
       (\<exists>m as. StandingOn c (srDigest s) = Inl (Ev ErrSourceChainBranch m as))) \<and>
     (\<forall>path. StandingOn c (srDigest s) = Inr path \<longrightarrow>
       path \<noteq> [] \<and> srDigest (hd path) = srDigest s \<and> edges c (digestKey (srDigest (last path))) = [] \<and>
       successively (\<lambda>a b. srDigest b \<in> set (srReferences a)) path)"
proof -
  have "source_key s \<in> keys c" using assms(2) by (simp add: keys_def)
  then obtain s' where s': "byDigest c (source_key s) = Some s'" using byDigest_keys by blast
  then have m: "s' \<in> set (scSources c)" "srDigest s' = srDigest s" using byDigest_Some [OF s'] digestKey_inj by auto
  have so: "StandingOn c (srDigest s) = walk (length (scSources c)) c [] s'" by (simp add: StandingOn_def assms(1) s')
  have "path \<noteq> [] \<and> srDigest (hd path) = srDigest s \<and> edges c (digestKey (srDigest (last path))) = [] \<and>
       successively (\<lambda>a b. srDigest b \<in> set (srReferences a)) path"
    if "walk (length (scSources c)) c [] s' = Inr path" for path
    using walk_path [OF assms(1) m(1) that] m(2) by (auto simp: named_def)
  moreover have "(\<exists>path. walk (length (scSources c)) c [] s' = Inr path) \<or>
       (\<exists>m as. walk (length (scSources c)) c [] s' = Inl (Ev ErrSourceChainBranch m as))"
    by (rule walk_fuel [OF assms(1) m(1)]) simp_all
  ultimately show ?thesis unfolding so by blast
qed

theorem StandingOn_terminates_witness:
  "\<exists>path. StandingOn ex_chain (ex_digest (CHR ''a'')) = Inr path \<and> edges ex_chain (digestKey (srDigest (last path))) = []"
proof -
  have v: "Chain_Validate ex_chain = None" by code_simp
  have m: "hd (scSources ex_chain) \<in> set (scSources ex_chain)" by (simp add: ex_chain_def)
  have d: "srDigest (hd (scSources ex_chain)) = ex_digest (CHR ''a'')" by (simp add: ex_chain_def)
  have "\<exists>path. StandingOn ex_chain (ex_digest (CHR ''a'')) = Inr path"
  proof -
    have "(case StandingOn ex_chain (ex_digest (CHR ''a'')) of Inr _ \<Rightarrow> True | Inl _ \<Rightarrow> False)" by code_simp
    then show ?thesis by (auto split: sum.splits)
  qed
  then show ?thesis using StandingOn_terminates [OF v m] unfolding d by blast
qed

end
