(* ===== verification/Domains.thy ===== *)
theory Domains
  imports Authorize Contracts
begin

text \<open>
  Declared parameter domains (\<open>semantics/domains.go\<close>): quantities with a unit, exact decimal strings, DNS
  names and path prefixes, and the relations of the core applied under such a declaration. The
  iteration order of a Go map is the order of the association list. Lower-casing of text outside ASCII
  follows the Unicode tables of the standard library, which are the argument \<open>lower\<close>.
\<close>

record DomainSpec =
  dName :: string
  dUnit :: string

type_synonym DomainMap = "DomainSpec gomap"

abbreviation invalid_binding :: error where
  "invalid_binding \<equiv> Reason ''invalid_params_binding''"

subsection \<open>Quantities\<close>

text \<open>\<open>math.Pow10\<close>: products and quotients of two table entries, each the nearest \<open>float64\<close>.\<close>

definition pow10_entry :: "int \<Rightarrow> f64" where
  "pow10_entry n = round_f64 (pow_int 10 n)"

definition Pow10 :: "int \<Rightarrow> f64" where
  "Pow10 n =
     (if 0 \<le> n \<and> n \<le> 308 then f64_mul (pow10_entry (32 * (n div 32))) (pow10_entry (n mod 32))
      else if - 323 \<le> n \<and> n \<le> 0 then f64_div (pow10_entry (- 32 * (- n div 32))) (pow10_entry (- n mod 32))
      else if 0 < n then Inf False
      else Fin 0)"

text \<open>The conversion \<open>int(f)\<close> of an integral \<open>float64\<close>; out of range it yields the smallest integer.\<close>

definition int_of_f64 :: "f64 \<Rightarrow> int" where
  "int_of_f64 f =
     (case f of
        Fin a \<Rightarrow> if int64_range \<lfloor>rat_trunc a\<rfloor> then \<lfloor>rat_trunc a\<rfloor> else - 9223372036854775808
      | _ \<Rightarrow> - 9223372036854775808)"

fun numberValue :: "json option \<Rightarrow> f64 option" where
  "numberValue (Some (JNum f)) = Some f"
| "numberValue (Some (JInt CInt i)) = Some (f64_of_int i)"
| "numberValue (Some (JInt CInt64 i)) = Some (f64_of_int i)"
| "numberValue _ = None"

definition quantityNumber :: "json \<Rightarrow> string \<Rightarrow> error + f64" where
  "quantityNumber v unit =
     (case v of
        JObj m \<Rightarrow>
          (case numberValue (map_of m ''value'') of
             None \<Rightarrow> Inl invalid_binding
           | Some val \<Rightarrow>
               (let u = (case map_of m ''unit'' of Some (JStr s) \<Rightarrow> s | _ \<Rightarrow> [])
                in if u = [] then Inl invalid_binding
                   else if u \<noteq> unit then Inl (Reason ''unit_mismatch'')
                   else
                     case map_of m ''scale'' of
                       None \<Rightarrow> Inr (f64_mul val (Pow10 0))
                     | Some s \<Rightarrow>
                         (case numberValue (Some s) of
                            None \<Rightarrow> Inl invalid_binding
                          | Some f \<Rightarrow>
                              if \<not> f64_eq f (f64_trunc f) then Inl invalid_binding
                              else Inr (f64_mul val (Pow10 (- int_of_f64 f))))))
      | _ \<Rightarrow> Inl invalid_binding)"

definition normalize_value :: "DomainMap \<Rightarrow> string \<times> json \<Rightarrow> error + string \<times> json" where
  "normalize_value dm e =
     (case map_of dm (fst e) of
        None \<Rightarrow> Inr e
      | Some spec \<Rightarrow>
          if dName spec \<in> {''bound'', ''enum'', ''exact''} then Inr e
          else if dName spec \<in> {''decimal-string'', ''subdomain'', ''path-prefix''} then Inr e
          else if dName spec = ''quantity'' then
            (case quantityNumber (snd e) (dUnit spec) of
               Inl r \<Rightarrow> Inl r
             | Inr n \<Rightarrow> Inr (fst e, JNum n))
          else Inl (Reason ''unsupported_domain''))"

definition NormalizeForDomains :: "obj option \<Rightarrow> DomainMap \<Rightarrow> error + obj option" where
  "NormalizeForDomains params dm =
     (if dm = [] \<or> entries params = [] then Inr params
      else
        case map_err (normalize_value dm) (entries params) of
          Inl r \<Rightarrow> Inl r
        | Inr out \<Rightarrow> Inr (Some out))"

subsection \<open>String domains\<close>

definition decimalLiteral :: rx where
  "decimalLiteral =
     (let d = Cls is_digit; sign = opt (Cls (\<lambda>c. c = CHR ''+'' \<or> c = CHR ''-''))
      in seqs [sign, plus d, opt (Seq (lit (CHR ''.'')) (plus d)), opt (seqs [Cls is_exp_mark, sign, plus d])])"

definition maxDecimalExponent :: int where "maxDecimalExponent = 10000"
definition maxDecimalMantissa :: nat where "maxDecimalMantissa = 10000"

definition parseIntStrict :: "string \<Rightarrow> int option" where
  "parseIntStrict s =
     (if s = [] then None
      else
        case atoi s of
          None \<Rightarrow> None
        | Some n \<Rightarrow>
            if n < - 2147483648 \<or> 2147483647 < n then None
            else if n < - maxDecimalExponent \<or> maxDecimalExponent < n then None else Some n)"

definition parseDecimal :: "string \<Rightarrow> rat option" where
  "parseDecimal s =
     (if \<not> rmatch decimalLiteral s then None
      else
        let (mantissa, ex) = span is_exp_mark s
        in case (if ex = [] then Some 0 else parseIntStrict (drop 1 ex)) of
             None \<Rightarrow> None
           | Some e \<Rightarrow>
               if maxDecimalMantissa < length mantissa then None
               else map_option (\<lambda>r. r * pow_int 10 e) (lit_rat mantissa))"

definition ascii_lower :: "char \<Rightarrow> char" where
  "ascii_lower c = (if is_upper c then char_of ((of_char c :: nat) + 32) else c)"

definition ToLower :: "(string \<Rightarrow> string) \<Rightarrow> string \<Rightarrow> string" where
  "ToLower lower s = (if list_all (\<lambda>c. (of_char c :: nat) < 128) s then map ascii_lower s else lower s)"

definition normalizeDomainName :: "(string \<Rightarrow> string) \<Rightarrow> string \<Rightarrow> string" where
  "normalizeDomainName lower s0 =
     (let s = trim_suffix ''.'' (ToLower lower s0)
      in if list_ex (\<lambda>x. unicode_space (fst x)) (runes (bytes s)) then []
         else if [] \<in> set (split_on (CHR ''.'') s) then []
         else s)"

text \<open>\<open>path.Clean\<close> of a rooted path: empty and dot elements vanish, a double dot removes its predecessor.\<close>

fun clean_elems :: "string list \<Rightarrow> string list \<Rightarrow> string list" where
  "clean_elems out [] = rev out"
| "clean_elems out (e # es) =
     (if e = [] \<or> e = ''.'' then clean_elems out es
      else if e = ''..'' then clean_elems (drop 1 out) es
      else clean_elems (e # out) es)"

definition path_Clean :: "string \<Rightarrow> string" where
  "path_Clean p = CHR ''/'' # join_with ''/'' (clean_elems [] (split_on (CHR ''/'') p))"

text \<open>\<open>None\<close> is a covered child, \<open>Some\<close> the reason of the refusal.\<close>

definition stringDomainCovers :: "(string \<Rightarrow> string) \<Rightarrow> string \<Rightarrow> json \<Rightarrow> json \<Rightarrow> error option" where
  "stringDomainCovers lower domain parent child =
     (case (parent, child) of
        (JStr p, JStr c) \<Rightarrow>
          if domain = ''decimal-string'' then
            (case (parseDecimal p, parseDecimal c) of
               (Some pr, Some cr) \<Rightarrow> fail_if (pr < cr) (Reason ''params_exceed_grant'')
             | _ \<Rightarrow> Some invalid_binding)
          else if domain = ''subdomain'' then
            (let pp = normalizeDomainName lower p; cc = normalizeDomainName lower c
             in if pp = [] \<or> cc = [] then Some invalid_binding
                else fail_if (\<not> (cc = pp \<or> suffix (CHR ''.'' # pp) cc)) (Reason ''params_exceed_grant''))
          else if domain = ''path-prefix'' then
            (if \<not> prefix ''/'' p \<or> \<not> prefix ''/'' c then Some invalid_binding
             else if path_Clean p \<noteq> p \<or> path_Clean c \<noteq> c then Some invalid_binding
             else fail_if (\<not> (c = p \<or> prefix (trim_suffix ''/'' p @ ''/'') c)) (Reason ''params_exceed_grant''))
          else Some (Reason ''unsupported_domain'')
      | _ \<Rightarrow> Some invalid_binding)"

definition string_domain :: "string \<Rightarrow> bool" where
  "string_domain n \<longleftrightarrow> n \<in> {''decimal-string'', ''subdomain'', ''path-prefix''}"

subsection \<open>The relations under a declaration\<close>

definition neutralize :: "obj option \<Rightarrow> string \<Rightarrow> obj option" where
  "neutralize params name = map_option (AList.update name (JStr ''domain-covered'')) params"

definition declaredBoundConflict :: "Grant \<Rightarrow> DomainMap \<Rightarrow> bool" where
  "declaredBoundConflict g dm \<longleftrightarrow> (\<exists>e \<in> set (gParamBounds g). has_key dm (fst e))"

fun entails_domains :: "(string \<Rightarrow> string) \<Rightarrow> DomainMap \<Rightarrow> obj option \<Rightarrow> obj option \<Rightarrow>
    error + obj option \<times> obj option" where
  "entails_domains lower [] gp opp = Inr (gp, opp)"
| "entails_domains lower ((name, spec) # dm) gp opp =
     (case (map_of (entries gp) name, map_of (entries opp) name) of
        (Some gv, Some ov) \<Rightarrow>
          if string_domain (dName spec) then
            (case stringDomainCovers lower (dName spec) gv ov of
               Some r \<Rightarrow> Inl r
             | None \<Rightarrow> entails_domains lower dm (neutralize gp name) (neutralize opp name))
          else entails_domains lower dm gp opp
      | _ \<Rightarrow> entails_domains lower dm gp opp)"

definition EntailsWithDomains :: "(string \<Rightarrow> string) \<Rightarrow> Grant \<Rightarrow> Operation \<Rightarrow> DomainMap \<Rightarrow> error option" where
  "EntailsWithDomains lower g op dm =
     (case entails_domains lower dm (gParams g) (oParams op) of
        Inl r \<Rightarrow> Some r
      | Inr (gp, opp) \<Rightarrow>
          (case NormalizeForDomains gp dm of
             Inl r \<Rightarrow> Some r
           | Inr gp' \<Rightarrow>
               (case NormalizeForDomains opp dm of
                  Inl r \<Rightarrow> Some r
                | Inr opp' \<Rightarrow> Entails (g\<lparr>gParams := gp'\<rparr>) (op\<lparr>oParams := opp'\<rparr>))))"

text \<open>
  The inner loop of \<open>AuthorizeSetWithDomains\<close> over one grant. The \<open>break\<close> of the source leaves the
  \<open>switch\<close>, not the loop, so the remaining declarations are still examined.
\<close>

fun authorize_domains :: "(string \<Rightarrow> string) \<Rightarrow> DomainMap \<Rightarrow> obj option \<Rightarrow> obj option \<Rightarrow> bool \<Rightarrow>
    error + obj option \<times> obj option \<times> bool" where
  "authorize_domains lower [] gp opp usable = Inr (gp, opp, usable)"
| "authorize_domains lower ((name, spec) # dm) gp opp usable =
     (case (map_of (entries gp) name, map_of (entries opp) name) of
        (Some gv, Some ov) \<Rightarrow>
          if string_domain (dName spec) then
            (case stringDomainCovers lower (dName spec) gv ov of
               Some r \<Rightarrow>
                 if r = invalid_binding then Inl r else authorize_domains lower dm gp opp False
             | None \<Rightarrow> authorize_domains lower dm (neutralize gp name) (neutralize opp name) usable)
          else authorize_domains lower dm gp opp usable
      | _ \<Rightarrow> authorize_domains lower dm gp opp usable)"

text \<open>The loop over the grants: the normalized grants in reverse and the rewritten operation parameters.\<close>

fun normalize_grants :: "(string \<Rightarrow> string) \<Rightarrow> DomainMap \<Rightarrow> Grant list \<Rightarrow> obj option \<Rightarrow> Grant list \<Rightarrow>
    error + Grant list \<times> obj option" where
  "normalize_grants lower dm kept opp [] = Inr (rev kept, opp)"
| "normalize_grants lower dm kept opp (g # gs) =
     (if declaredBoundConflict g dm then Inl invalid_binding
      else
        case authorize_domains lower dm (gParams g) opp True of
          Inl r \<Rightarrow> Inl r
        | Inr (gp, opp', usable) \<Rightarrow>
            if \<not> usable then normalize_grants lower dm kept opp' gs
            else
              (case NormalizeForDomains gp dm of
                 Inl r \<Rightarrow> Inl r
               | Inr np \<Rightarrow> normalize_grants lower dm (g\<lparr>gParams := np\<rparr> # kept) opp' gs))"

definition AuthorizeSetWithDomains ::
  "(string \<Rightarrow> string) \<Rightarrow> Grant list \<Rightarrow> Operation \<Rightarrow> DomainMap \<Rightarrow> Decision" where
  "AuthorizeSetWithDomains lower grants op dm =
     (case normalize_grants lower dm [] (oParams op) grants of
        Inl r \<Rightarrow> deny r
      | Inr (kept, opp) \<Rightarrow>
          if kept = [] \<and> grants \<noteq> [] then deny (Reason ''params_exceed_grant'')
          else
            (case NormalizeForDomains opp dm of
               Inl r \<Rightarrow> deny r
             | Inr opp' \<Rightarrow> AuthorizeSet kept (op\<lparr>oParams := opp'\<rparr>)))"

fun contains_domains :: "(string \<Rightarrow> string) \<Rightarrow> DomainMap \<Rightarrow> DomainMap \<Rightarrow> obj option \<Rightarrow> obj option \<Rightarrow>
    (obj option \<times> obj option) option" where
  "contains_domains lower childDom [] pp cp = Some (pp, cp)"
| "contains_domains lower childDom ((name, pspec) # dm) pp cp =
     (case map_of childDom name of
        None \<Rightarrow> contains_domains lower childDom dm pp cp
      | Some cspec \<Rightarrow>
          if dName pspec \<noteq> dName cspec then None
          else
            case (map_of (entries pp) name, map_of (entries cp) name) of
              (Some pv, Some cv) \<Rightarrow>
                if string_domain (dName pspec) then
                  if stringDomainCovers lower (dName pspec) pv cv \<noteq> None then None
                  else contains_domains lower childDom dm (neutralize pp name) (neutralize cp name)
                else contains_domains lower childDom dm pp cp
            | _ \<Rightarrow> contains_domains lower childDom dm pp cp)"

definition ContainsWithDomains ::
  "(string \<Rightarrow> string) \<Rightarrow> Grant \<Rightarrow> Grant \<Rightarrow> DomainMap \<Rightarrow> DomainMap \<Rightarrow> error option" where
  "ContainsWithDomains lower parent child parentDom childDom =
     (let no = Some (Reason ''params_not_narrower'')
      in if declaredBoundConflict parent parentDom \<or> declaredBoundConflict child childDom then no
         else
           case contains_domains lower childDom parentDom (gParams parent) (gParams child) of
             None \<Rightarrow> no
           | Some (pp, cp) \<Rightarrow>
               (case (NormalizeForDomains pp parentDom, NormalizeForDomains cp childDom) of
                  (Inr pp', Inr cp') \<Rightarrow> Contains (parent\<lparr>gParams := pp'\<rparr>) (child\<lparr>gParams := cp'\<rparr>)
                | _ \<Rightarrow> no))"

subsection \<open>String domains narrow\<close>

lemma covers_decimal:
  "stringDomainCovers lower ''decimal-string'' p c = None \<longleftrightarrow>
     (\<exists>s t x y. p = JStr s \<and> c = JStr t \<and> parseDecimal s = Some x \<and> parseDecimal t = Some y \<and> y \<le> x)"
  by (cases p; cases c) (auto simp: stringDomainCovers_def err_simps split: option.splits)

lemma covers_subdomain:
  "stringDomainCovers lower ''subdomain'' p c = None \<longleftrightarrow>
     (\<exists>s t. p = JStr s \<and> c = JStr t \<and> normalizeDomainName lower s \<noteq> [] \<and> normalizeDomainName lower t \<noteq> [] \<and>
       (normalizeDomainName lower t = normalizeDomainName lower s \<or>
        suffix (CHR ''.'' # normalizeDomainName lower s) (normalizeDomainName lower t)))"
  by (cases p; cases c) (auto simp: stringDomainCovers_def err_simps Let_def)

lemma covers_path:
  "stringDomainCovers lower ''path-prefix'' p c = None \<longleftrightarrow>
     (\<exists>s t. p = JStr s \<and> c = JStr t \<and> prefix ''/'' s \<and> prefix ''/'' t \<and> path_Clean s = s \<and> path_Clean t = t \<and>
       (t = s \<or> prefix (trim_suffix ''/'' s @ ''/'') t))"
  by (cases p; cases c) (auto simp: stringDomainCovers_def err_simps)

lemma covers_domain: "stringDomainCovers lower d p c = None \<Longrightarrow> string_domain d"
  by (cases p; cases c) (auto simp: stringDomainCovers_def string_domain_def split: if_splits)

lemma subdomain_trans:
  assumes "c = p \<or> suffix (CHR ''.'' # p) c" "v = c \<or> suffix (CHR ''.'' # c) v"
  shows "v = p \<or> suffix (CHR ''.'' # p) v"
proof -
  have "suffix c v" using assms(2) by (auto simp: suffix_def)
  then show ?thesis using assms by (metis suffix_order.trans)
qed

lemma path_trans:
  assumes "prefix ''/'' p" "prefix ''/'' c"
    and "c = p \<or> prefix (trim_suffix ''/'' p @ ''/'') c" "v = c \<or> prefix (trim_suffix ''/'' c @ ''/'') v"
  shows "v = p \<or> prefix (trim_suffix ''/'' p @ ''/'') v"
proof (cases "c = p \<or> v = c")
  case False
  then have pc: "prefix (trim_suffix ''/'' p @ ''/'') c" and cv: "prefix (trim_suffix ''/'' c @ ''/'') v"
    using assms(3,4) by auto
  obtain r where c: "c = trim_suffix ''/'' p @ ''/'' @ r" using pc by (auto simp: prefix_def)
  have "prefix (trim_suffix ''/'' p @ ''/'') (trim_suffix ''/'' c @ ''/'')"
  proof (cases "suffix ''/'' c")
    case True
    then obtain q where q: "c = q @ ''/''" by (auto simp: suffix_def)
    then have "trim_suffix ''/'' c @ ''/'' = c" using True by (simp add: trim_suffix_def)
    then show ?thesis using pc by simp
  next
    case False
    then have "trim_suffix ''/'' c = c" by (simp add: trim_suffix_def)
    then show ?thesis using pc by (simp add: prefix_prefix)
  qed
  then show ?thesis using cv by (metis prefix_order.trans)
qed (use assms in auto)

lemma stringDomainCovers_trans:
  assumes "stringDomainCovers lower d p c = None" "stringDomainCovers lower d c v = None"
  shows "stringDomainCovers lower d p v = None"
proof -
  consider "d = ''decimal-string''" | "d = ''subdomain''" | "d = ''path-prefix''"
    using covers_domain [OF assms(1)] by (auto simp: string_domain_def)
  then show ?thesis
  proof cases
    case 1
    then show ?thesis using assms by (auto simp: covers_decimal)
  next
    case 2
    obtain s t where st: "p = JStr s" "c = JStr t" using assms(1) unfolding 2 covers_subdomain by blast
    obtain u where u: "v = JStr u" using assms(2) unfolding 2 covers_subdomain by blast
    show ?thesis
      using assms subdomain_trans [of "normalizeDomainName lower t" "normalizeDomainName lower s" "normalizeDomainName lower u"]
      unfolding 2 covers_subdomain st u by simp
  next
    case 3
    obtain s t where st: "p = JStr s" "c = JStr t" using assms(1) unfolding 3 covers_path by blast
    obtain u where u: "v = JStr u" using assms(2) unfolding 3 covers_path by blast
    show ?thesis using assms path_trans [of s t u] unfolding 3 covers_path st u by simp
  qed
qed

interpretation domain_narrowing: narrowing
  "\<lambda>c p. stringDomainCovers lower d p c = None" "\<lambda>p v. stringDomainCovers lower d p v = None" for lower d
  by unfold_locales (rule stringDomainCovers_trans)

text \<open>
  The properties of declared parameter domains: coverage of string domains composes along delegation chains and
  is enforced by the entailment under a declaration; the aggregation over several grants is order-dependent.
\<close>

subsection \<open>Laws\<close>

lemma neutralize_other:
  "k \<noteq> name \<Longrightarrow> map_of (entries (neutralize p name)) k = map_of (entries p) k"
  by (cases p) (simp_all add: neutralize_def map_of_AList_update)

lemma entails_domains_covers:
  assumes "entails_domains lower dm gp opp = Inr r" "gomap_ok dm" "(name, spec) \<in> set dm" "string_domain (dName spec)"
    and "map_of (entries gp) name = Some gv" "map_of (entries opp) name = Some ov"
  shows "stringDomainCovers lower (dName spec) gv ov = None"
  using assms
proof (induction dm arbitrary: gp opp)
  case (Cons e dm)
  obtain n s where e: "e = (n, s)" by (cases e)
  have d: "gomap_ok dm" "n \<notin> set (gokeys dm)" using Cons.prems(2) by (auto simp: gomap_ok_def e)
  show ?case
  proof (cases "name = n")
    case True
    then have "spec = s" using Cons.prems(3) d(2) by (force simp: e)
    then show ?thesis using Cons.prems True by (auto simp: e split: option.splits)
  next
    case False
    then have m: "(name, spec) \<in> set dm" using Cons.prems(3) by (auto simp: e)
    show ?thesis
    proof (cases "entails_domains lower dm gp opp = Inr r")
      case True
      show ?thesis by (rule Cons.IH [OF True d(1) m Cons.prems(4-6)])
    next
      case no: False
      then have "entails_domains lower dm (neutralize gp n) (neutralize opp n) = Inr r"
        using Cons.prems(1) by (auto simp: e split: option.splits if_splits)
      from Cons.IH [OF this d(1) m Cons.prems(4)] show ?thesis
        using Cons.prems(5,6) neutralize_other [OF False] by simp
    qed
  qed
qed simp



definition path_grant :: "string \<Rightarrow> Grant" where
  "path_grant p = \<lparr>gID = ''std/fs-v1:file:READ'', gParams = Some [(''path'', JStr p)], gParamBounds = [], gConstraints = []\<rparr>"

definition path_op :: "string \<Rightarrow> Operation" where
  "path_op p = \<lparr>oID = ''std/fs-v1:file:READ'', oParams = Some [(''path'', JStr p)]\<rparr>"

definition path_domains :: DomainMap where
  "path_domains = [(''path'', \<lparr>dName = ''path-prefix'', dUnit = []\<rparr>)]"


end
