(* ===== verification/Rule_Conditions.thy ===== *)
theory Rule_Conditions
  imports Go_Json Go_Time Go_Value
begin

text \<open>
  The execution budget (\<open>ruleexec/budget.go\<close>, \<open>ruleexec/defaults.go\<close>) and the condition language of signed
  rules (\<open>ruleexec/condition.go\<close>). The budget is mutable state shared by reference in the source; here each
  operation returns it updated. The wall clock is an argument: the instant read at a step, as a function of
  the step counter.
\<close>

subsection \<open>The budget\<close>

datatype BudgetKind = KindSteps | KindDepth | KindNesting | KindTimeout

fun kind_String :: "BudgetKind \<Rightarrow> string" where
  "kind_String KindSteps = ''steps''"
| "kind_String KindDepth = ''depth''"
| "kind_String KindNesting = ''nesting''"
| "kind_String KindTimeout = ''timeout''"

text \<open>The errors of the executor; \<open>ExecPanic\<close> is a run-time panic.\<close>

datatype exec_error =
    BudgetError BudgetKind int int
  | ExecError string "string list"
  | ExecPanic

definition DefaultMaxSteps :: int where "DefaultMaxSteps = 10000"
definition DefaultMaxDepth :: int where "DefaultMaxDepth = 64"
definition DefaultMaxNesting :: int where "DefaultMaxNesting = 64"

record Budget =
  MaxSteps :: int
  MaxDepth :: int
  MaxNesting :: int
  Deadline :: instant
  steps :: int
  nesting :: int

definition NewBudget :: Budget where
  "NewBudget = \<lparr>MaxSteps = DefaultMaxSteps, MaxDepth = DefaultMaxDepth, MaxNesting = DefaultMaxNesting,
     Deadline = zero_time, steps = 0, nesting = 0\<rparr>"

definition Budget_Step :: "(int \<Rightarrow> instant) \<Rightarrow> Budget \<Rightarrow> exec_error option \<times> Budget" where
  "Budget_Step now b0 =
     (let b = b0\<lparr>steps := steps b0 + 1\<rparr>
      in (if MaxSteps b < steps b then Some (BudgetError KindSteps (steps b) (MaxSteps b))
          else if Deadline b \<noteq> zero_time \<and> Deadline b < now (steps b) then Some (BudgetError KindTimeout 0 0)
          else None, b))"

definition Enter :: "int \<Rightarrow> Budget \<Rightarrow> exec_error option \<times> Budget" where
  "Enter depth b0 =
     (if MaxDepth b0 < depth then (Some (BudgetError KindDepth depth (MaxDepth b0)), b0)
      else
        let b = b0\<lparr>nesting := nesting b0 + 1\<rparr>
        in (if MaxNesting b < nesting b then Some (BudgetError KindNesting (nesting b) (MaxNesting b)) else None, b))"

definition Exit :: "Budget \<Rightarrow> Budget" where
  "Exit b = (if 0 < nesting b then b\<lparr>nesting := nesting b - 1\<rparr> else b)"

definition Stats :: "Budget \<Rightarrow> int" where
  "Stats b = steps b"

record BudgetDefaults =
  dfMaxSteps :: int
  dfMaxDepth :: int
  dfMaxNesting :: int

definition MaxStepsCeiling :: int where "MaxStepsCeiling = 10000"
definition MaxDepthCeiling :: int where "MaxDepthCeiling = 64"
definition MaxNestingCeiling :: int where "MaxNestingCeiling = 64"

text \<open>\<open>LoadBudgetDefaults\<close> after the file was read and decoded.\<close>

definition LoadBudgetDefaults :: "BudgetDefaults \<Rightarrow> exec_error + BudgetDefaults" where
  "LoadBudgetDefaults d =
     (if dfMaxSteps d \<le> 0 \<or> dfMaxDepth d \<le> 0 \<or> dfMaxNesting d \<le> 0 then Inl (ExecError ''invalid budget defaults'' [])
      else if MaxStepsCeiling < dfMaxSteps d \<or> MaxDepthCeiling < dfMaxDepth d \<or> MaxNestingCeiling < dfMaxNesting d
      then Inl (ExecError ''budget defaults must not relax published ceilings'' [])
      else Inr d)"

definition BudgetFromDefaults :: "BudgetDefaults \<Rightarrow> Budget" where
  "BudgetFromDefaults d =
     NewBudget\<lparr>MaxSteps := dfMaxSteps d, MaxDepth := dfMaxDepth d, MaxNesting := dfMaxNesting d\<rparr>"

subsection \<open>Conditions\<close>

datatype Condition = Condition (cOp: string) (cPath: string) (cValue: json) (cWindow: "string list") (cItems: "Condition list")

fun resolve_parts :: "json \<Rightarrow> string list \<Rightarrow> json option" where
  "resolve_parts cur [] = Some cur"
| "resolve_parts (JObj m) (p # ps) =
     (case map_of m p of None \<Rightarrow> None | Some v \<Rightarrow> resolve_parts v ps)"
| "resolve_parts _ (p # ps) = None"

definition resolvePath :: "obj \<Rightarrow> string \<Rightarrow> json option" where
  "resolvePath ctx path = (if path = [] then None else resolve_parts (JObj ctx) (split_on (CHR ''.'') path))"

fun toNumber :: "json \<Rightarrow> f64 option" where
  "toNumber (JNum f) = Some f"
| "toNumber (JInt CInt i) = Some (f64_of_int i)"
| "toNumber (JInt CInt64 i) = Some (f64_of_int i)"
| "toNumber _ = None"

definition toBound :: "string \<Rightarrow> f64 option" where
  "toBound s = ParseFloat s"

definition normalizeNum :: "json \<Rightarrow> json" where
  "normalizeNum v = (case toNumber v of Some n \<Rightarrow> JNum n | None \<Rightarrow> v)"

text \<open>\<open>reflect.DeepEqual\<close> on decoded values.\<close>

lemma size_zip_left [termination_simp]: "(a, b) \<in> set (zip xs ys) \<Longrightarrow> size a < Suc (size_list size xs)"
  using set_zip_leftD [of a b xs ys] size_list_estimation' [of a xs "size a" size] by (simp add: less_Suc_eq_le)

fun deep_equal :: "json \<Rightarrow> json \<Rightarrow> bool" where
  "deep_equal JNull b = (b = JNull)"
| "deep_equal (JBool x) b = (b = JBool x)"
| "deep_equal (JStr x) b = (b = JStr x)"
| "deep_equal (JNum x) b = (case b of JNum y \<Rightarrow> f64_eq x y | _ \<Rightarrow> False)"
| "deep_equal (JInt c x) b = (b = JInt c x)"
| "deep_equal (JArr xs) b =
     (case b of
        JArr ys \<Rightarrow> length xs = length ys \<and> list_all (\<lambda>(x, y). deep_equal x y) (zip xs ys)
      | _ \<Rightarrow> False)"
| "deep_equal (JObj m) b =
     (case b of
        JObj n \<Rightarrow>
          length m = length n \<and>
          list_all (\<lambda>(k, v). case map_of n k of None \<Rightarrow> False | Some w \<Rightarrow> deep_equal v w) m
      | _ \<Rightarrow> False)"

definition knownConditionOps :: "string list" where
  "knownConditionOps = [''and'', ''or'', ''not'', ''eq'', ''neq'', ''lt'', ''lte'', ''gt'', ''gte'', ''in'', ''between'', ''is-null'']"

definition evalLeaf :: "string \<Rightarrow> json \<Rightarrow> json \<Rightarrow> string list \<Rightarrow> exec_error + bool" where
  "evalLeaf op got want window =
     (if op = ''eq'' then
        Inr (got \<noteq> JNull \<and> want \<noteq> JNull \<and> deep_equal (normalizeNum got) (normalizeNum want))
      else if op = ''neq'' then
        Inr (got \<noteq> JNull \<and> want \<noteq> JNull \<and> \<not> deep_equal (normalizeNum got) (normalizeNum want))
      else if op \<in> {''lt'', ''lte'', ''gt'', ''gte''} then
        if got = JNull \<or> want = JNull then Inr False
        else
          (case (toNumber got, toNumber want) of
             (Some g, Some w) \<Rightarrow>
               Inr (if op = ''lt'' then f64_less g w else if op = ''lte'' then f64_le g w
                    else if op = ''gt'' then f64_less w g else f64_le w g)
           | _ \<Rightarrow> Inl (ExecError ''op %s requires numeric operands'' [op]))
      else if op = ''in'' then
        (case want of
           JArr items \<Rightarrow>
             Inr (got \<noteq> JNull \<and>
                  list_ex (\<lambda>it. it \<noteq> JNull \<and> deep_equal (normalizeNum got) (normalizeNum it)) items)
         | _ \<Rightarrow> Inl (ExecError ''op in requires a list value'' []))
      else if op = ''between'' then
        (case window of
           [lo, hi] \<Rightarrow>
             if got = JNull then Inr False
             else
               (case (toNumber got, toBound lo, toBound hi) of
                  (Some g, Some l, Some h) \<Rightarrow> Inr (f64_le l g \<and> f64_le g h)
                | _ \<Rightarrow> Inl (ExecError ''op between requires numeric operands'' []))
         | _ \<Rightarrow> Inl (ExecError ''op between requires window [lo, hi]'' []))
      else if op = ''is-null'' then Inr (got = JNull)
      else Inl (ExecError ''unknown condition op %q'' [op]))"

text \<open>The operators that are not connectives.\<close>

definition eval_test :: "obj \<Rightarrow> Condition \<Rightarrow> exec_error + bool" where
  "eval_test ctx c =
     (if cOp c = ''is-null'' then
        Inr (case resolvePath ctx (cPath c) of None \<Rightarrow> True | Some v \<Rightarrow> v = JNull)
      else if cOp c \<notin> set knownConditionOps then Inl (ExecError ''unknown condition op %q'' [cOp c])
      else
        case resolvePath ctx (cPath c) of
          None \<Rightarrow> Inl (ExecError ''condition path %q not found'' [cPath c])
        | Some v \<Rightarrow> evalLeaf (cOp c) v (cValue c) (cWindow c))"

type_synonym 'a run = "(exec_error + 'a) \<times> Budget"

definition run_not :: "bool run \<Rightarrow> bool run" where
  "run_not r = (case r of (Inl e, b) \<Rightarrow> (Inl e, b) | (Inr ok, b) \<Rightarrow> (Inr (\<not> ok), b))"

definition run_exit :: "'a run \<Rightarrow> 'a run" where
  "run_exit r = (fst r, Exit (snd r))"

fun EvalCondition :: "(int \<Rightarrow> instant) \<Rightarrow> obj \<Rightarrow> Condition \<Rightarrow> Budget \<Rightarrow> int \<Rightarrow> bool run"
  and eval_and :: "(int \<Rightarrow> instant) \<Rightarrow> obj \<Rightarrow> Condition list \<Rightarrow> Budget \<Rightarrow> int \<Rightarrow> bool run"
  and eval_or :: "(int \<Rightarrow> instant) \<Rightarrow> obj \<Rightarrow> Condition list \<Rightarrow> Budget \<Rightarrow> int \<Rightarrow> bool run" where
  "EvalCondition now ctx (Condition op path v w items) b depth =
     (case Budget_Step now b of
        (Some e, b1) \<Rightarrow> (Inl e, b1)
      | (None, b1) \<Rightarrow>
          (case Enter depth b1 of
             (Some e, b2) \<Rightarrow> (Inl e, b2)
           | (None, b2) \<Rightarrow>
               run_exit
                 (if op = ''and'' then eval_and now ctx items b2 (depth + 1)
                  else if op = ''or'' then eval_or now ctx items b2 (depth + 1)
                  else if op = ''not'' then
                    (case items of
                       [it] \<Rightarrow> run_not (EvalCondition now ctx it b2 (depth + 1))
                     | _ \<Rightarrow> (Inl (ExecError ''op not requires exactly 1 item'' []), b2))
                  else (eval_test ctx (Condition op path v w items), b2))))"
| "eval_and now ctx [] b depth = (Inr True, b)"
| "eval_and now ctx (it # its) b depth =
     (case EvalCondition now ctx it b depth of
        (Inl e, b1) \<Rightarrow> (Inl e, b1)
      | (Inr ok, b1) \<Rightarrow> if \<not> ok then (Inr False, b1) else eval_and now ctx its b1 depth)"
| "eval_or now ctx [] b depth = (Inr False, b)"
| "eval_or now ctx (it # its) b depth =
     (case EvalCondition now ctx it b depth of
        (Inl e, b1) \<Rightarrow> (Inl e, b1)
      | (Inr ok, b1) \<Rightarrow> if ok then (Inr True, b1) else eval_or now ctx its b1 depth)"

subsection \<open>The meaning of a condition\<close>

text \<open>What a condition denotes, without the budget.\<close>

fun cond_sem :: "obj \<Rightarrow> Condition \<Rightarrow> exec_error + bool"
  and and_sem :: "obj \<Rightarrow> Condition list \<Rightarrow> exec_error + bool"
  and or_sem :: "obj \<Rightarrow> Condition list \<Rightarrow> exec_error + bool" where
  "cond_sem ctx (Condition op path v w items) =
     (if op = ''and'' then and_sem ctx items
      else if op = ''or'' then or_sem ctx items
      else if op = ''not'' then
        (case items of
           [it] \<Rightarrow> (case cond_sem ctx it of Inl e \<Rightarrow> Inl e | Inr ok \<Rightarrow> Inr (\<not> ok))
         | _ \<Rightarrow> Inl (ExecError ''op not requires exactly 1 item'' []))
      else eval_test ctx (Condition op path v w items))"
| "and_sem ctx [] = Inr True"
| "and_sem ctx (it # its) =
     (case cond_sem ctx it of Inl e \<Rightarrow> Inl e | Inr ok \<Rightarrow> if \<not> ok then Inr False else and_sem ctx its)"
| "or_sem ctx [] = Inr False"
| "or_sem ctx (it # its) =
     (case cond_sem ctx it of Inl e \<Rightarrow> Inl e | Inr ok \<Rightarrow> if ok then Inr True else or_sem ctx its)"

subsection \<open>Laws of the budget\<close>

text \<open>What an operation may do to a budget: the limits stay, the steps only grow.\<close>

definition same_limits :: "Budget \<Rightarrow> Budget \<Rightarrow> bool" where
  "same_limits b b' \<longleftrightarrow>
     MaxSteps b' = MaxSteps b \<and> MaxDepth b' = MaxDepth b \<and> MaxNesting b' = MaxNesting b \<and> Deadline b' = Deadline b"

definition nesting_error :: "exec_error + 'a \<Rightarrow> bool" where
  "nesting_error r \<longleftrightarrow> (\<exists>u m. r = Inl (BudgetError KindNesting u m))"

definition budget_error :: "exec_error + 'a \<Rightarrow> bool" where
  "budget_error r \<longleftrightarrow> (\<exists>k u m. r = Inl (BudgetError k u m))"

lemma same_limits_trans: "same_limits a b \<Longrightarrow> same_limits b c \<Longrightarrow> same_limits a c"
  by (simp add: same_limits_def)

lemma Budget_Step_eq:
  "Budget_Step now b = (r, b') \<Longrightarrow> b' = b\<lparr>steps := steps b + 1\<rparr> \<and>
     (\<forall>e. r = Some e \<longrightarrow> (\<exists>k u m. e = BudgetError k u m \<and> k \<noteq> KindNesting)) \<and> (r = None \<longrightarrow> steps b' \<le> MaxSteps b)"
  by (auto simp: Budget_Step_def Let_def split: if_splits)

lemma Enter_eq:
  "Enter d b = (r, b') \<Longrightarrow>
     (r = None \<longrightarrow> b' = b\<lparr>nesting := nesting b + 1\<rparr> \<and> nesting b' \<le> MaxNesting b \<and> d \<le> MaxDepth b) \<and>
     (\<forall>e. r = Some e \<longrightarrow>
        (b' = b \<and> (\<exists>u m. e = BudgetError KindDepth u m)) \<or>
        (b' = b\<lparr>nesting := nesting b + 1\<rparr> \<and> (\<exists>u m. e = BudgetError KindNesting u m)))"
  by (auto simp: Enter_def Let_def split: if_splits)

text \<open>The number of conditions in a condition, and its height.\<close>

fun cond_size :: "Condition \<Rightarrow> int" and conds_size :: "Condition list \<Rightarrow> int" where
  "cond_size (Condition op p v w items) = 1 + conds_size items"
| "conds_size [] = 0"
| "conds_size (c # cs) = cond_size c + conds_size cs"

fun cond_height :: "Condition \<Rightarrow> int" and conds_height :: "Condition list \<Rightarrow> int" where
  "cond_height (Condition op p v w items) = 1 + conds_height items"
| "conds_height [] = 0"
| "conds_height (c # cs) = max (cond_height c) (conds_height cs)"

lemma cond_size_nonneg: "0 < cond_size c" "0 \<le> conds_size cs"
  by (induction c and cs rule: cond_size_conds_size.induct) auto

lemma cond_height_nonneg: "0 < cond_height c" "0 \<le> conds_height cs"
  by (induction c and cs rule: cond_height_conds_height.induct) auto

definition spent :: "Budget \<Rightarrow> 'a run \<Rightarrow> int \<Rightarrow> bool" where
  "spent b r n \<longleftrightarrow>
     same_limits b (snd r) \<and> steps b \<le> steps (snd r) \<and> steps (snd r) \<le> steps b + n \<and>
     nesting (snd r) = nesting b + (if nesting_error (fst r) then 1 else 0) \<and>
     (steps b \<le> MaxSteps b \<and> \<not> budget_error (fst r) \<longrightarrow> steps (snd r) \<le> MaxSteps b)"

lemma spent_refl: "0 \<le> n \<Longrightarrow> \<not> nesting_error r \<Longrightarrow> spent b (r, b) n"
  by (auto simp: spent_def same_limits_def)

lemma evalLeaf_no_budget: "\<not> budget_error (evalLeaf op g w win)"
  by (simp add: budget_error_def evalLeaf_def split: option.split json.split list.split)

lemma eval_test_no_budget: "\<not> budget_error (eval_test ctx c)"
  using evalLeaf_no_budget [of "cOp c" _ "cValue c" "cWindow c"]
  by (auto simp: budget_error_def eval_test_def split: option.split)

lemma nesting_budget: "nesting_error r \<Longrightarrow> budget_error r"
  by (auto simp: nesting_error_def budget_error_def)

lemma spent_chain:
  assumes "spent b (Inr x, b1) n" "spent b1 r m"
  shows "spent b r (n + m)"
  using assms by (auto simp: spent_def same_limits_def nesting_error_def budget_error_def)

lemma spent_weaken: "spent b r n \<Longrightarrow> n \<le> m \<Longrightarrow> spent b r m"
  by (auto simp: spent_def)

lemma spent_not: "spent b r n \<Longrightarrow> spent b (run_not r) n"
  by (cases r; cases "fst r") (auto simp: spent_def run_not_def nesting_error_def budget_error_def)

lemma spent_enter:
  assumes "Budget_Step now b = (None, b1)" "Enter d b1 = (None, b2)" "spent b2 r n" "0 \<le> nesting b"
  shows "spent b (run_exit r) (1 + n)"
proof -
  have b1: "b1 = b\<lparr>steps := steps b + 1\<rparr>" "steps b1 \<le> MaxSteps b" using Budget_Step_eq [OF assms(1)] by auto
  have b2: "b2 = b1\<lparr>nesting := nesting b1 + 1\<rparr>" using Enter_eq [OF assms(2)] by auto
  have x: "Exit (snd r) = (snd r)\<lparr>nesting := nesting (snd r) - 1\<rparr>"
    using assms(3,4) b1(1) b2 by (auto simp: Exit_def spent_def)
  show ?thesis
    using assms(3,4) b1 b2 by (auto simp: run_exit_def x spent_def same_limits_def)
qed

lemma spent_step_error: "Budget_Step now b = (Some e, b1) \<Longrightarrow> 1 \<le> n \<Longrightarrow> spent b (Inl e, b1) n"
  using Budget_Step_eq [of now b "Some e" b1]
  by (auto simp: spent_def same_limits_def nesting_error_def budget_error_def)

lemma spent_enter_error:
  assumes "Budget_Step now b = (None, b1)" "Enter d b1 = (Some e, b2)" "1 \<le> n"
  shows "spent b (Inl e, b2) n"
  using Budget_Step_eq [OF assms(1)] Enter_eq [OF assms(2)] assms(3)
  by (auto simp: spent_def same_limits_def nesting_error_def budget_error_def)

lemma eval_spent:
  "0 \<le> nesting b \<Longrightarrow> spent b (EvalCondition now ctx c b d) (cond_size c)"
  "0 \<le> nesting b \<Longrightarrow> spent b (eval_and now ctx cs b d) (conds_size cs)"
  "0 \<le> nesting b \<Longrightarrow> spent b (eval_or now ctx cs b d) (conds_size cs)"
proof (induction now ctx c b d and now ctx cs b d and now ctx cs b d rule: EvalCondition_eval_and_eval_or.induct)
  case (1 now ctx op path v w items b d)
  obtain r1 b1 where st: "Budget_Step now b = (r1, b1)" by (cases "Budget_Step now b")
  obtain r2 b2 where en: "Enter d b1 = (r2, b2)" by (cases "Enter d b1")
  show ?case
  proof (cases r1)
    case (Some e)
    with st cond_size_nonneg(2) [of items] show ?thesis by (simp add: spent_step_error)
  next
    case s: None
    show ?thesis
    proof (cases r2)
      case (Some e)
      with st en s cond_size_nonneg(2) [of items] show ?thesis by (simp add: spent_enter_error)
    next
      case n: None
      have "nesting b2 = nesting b + 1"
        using Budget_Step_eq [OF st] Enter_eq [OF en] n by auto
      then have nn: "0 \<le> nesting b2" using 1(4) by simp
      have leaf: "spent b2 (eval_test ctx c, b2) (conds_size items)" for c
        using eval_test_no_budget [of ctx c] nesting_budget cond_size_nonneg(2) [of items] by (intro spent_refl) auto
      have bad: "spent b2 (Inl (ExecError m as), b2) (conds_size items)" for m as
        using cond_size_nonneg(2) [of items] by (intro spent_refl) (auto simp: nesting_error_def)
      have un: "spent b2 (run_not (EvalCondition now ctx it b2 (d + 1))) (conds_size items)" if it: "items = [it]" and o': "op = ''not''" for it
      proof -
        have "spent b2 (EvalCondition now ctx it b2 (d + 1)) (cond_size it)"
          using 1(3) [OF st [symmetric] s en [symmetric] n] it o' nn by simp
        then show ?thesis using it by (simp add: spent_not)
      qed
      let ?r = "if op = ''and'' then eval_and now ctx items b2 (d + 1)
                else if op = ''or'' then eval_or now ctx items b2 (d + 1)
                else if op = ''not'' then
                  (case items of [it] \<Rightarrow> run_not (EvalCondition now ctx it b2 (d + 1))
                   | _ \<Rightarrow> (Inl (ExecError ''op not requires exactly 1 item'' []), b2))
                else (eval_test ctx (Condition op path v w items), b2)"
      have "spent b2 ?r (conds_size items)"
        using 1(1) [OF st [symmetric] s en [symmetric] n]
          1(2) [OF st [symmetric] s en [symmetric] n] nn leaf bad un
        by (auto split: list.split)
      then have "spent b (run_exit ?r) (1 + conds_size items)"
        using spent_enter [OF st [unfolded s] en [unfolded n] _ 1(4)] by blast
      moreover have "EvalCondition now ctx (Condition op path v w items) b d = run_exit ?r"
        using st en s n by (simp only: EvalCondition.simps prod.case option.case)
      ultimately show ?thesis by (simp only: cond_size.simps)
    qed
  qed
next
  case (3 now ctx it its b d)
  have a: "spent b (EvalCondition now ctx it b d) (cond_size it)" using 3 by simp
  obtain r b1 where e: "EvalCondition now ctx it b d = (r, b1)" by (cases "EvalCondition now ctx it b d")
  show ?case
  proof (cases r)
    case (Inl x)
    with a e show ?thesis using cond_size_nonneg(2) [of its] by (auto intro: spent_weaken)
  next
    case (Inr ok)
    have nn: "0 \<le> nesting b1" using a e Inr 3(3) by (simp add: spent_def nesting_error_def)
    show ?thesis
    proof (cases ok)
      case True
      have "spent b1 (eval_and now ctx its b1 d) (conds_size its)" using 3(2) [OF e [symmetric] Inr] True nn by simp
      with a e Inr True show ?thesis using spent_chain by simp
    next
      case False
      with a e Inr show ?thesis using cond_size_nonneg(2) [of its] by (auto intro: spent_weaken simp: spent_def nesting_error_def budget_error_def)
    qed
  qed
next
  case (5 now ctx it its b d)
  have a: "spent b (EvalCondition now ctx it b d) (cond_size it)" using 5 by simp
  obtain r b1 where e: "EvalCondition now ctx it b d = (r, b1)" by (cases "EvalCondition now ctx it b d")
  show ?case
  proof (cases r)
    case (Inl x)
    with a e show ?thesis using cond_size_nonneg(2) [of its] by (auto intro: spent_weaken)
  next
    case (Inr ok)
    have nn: "0 \<le> nesting b1" using a e Inr 5(3) by (simp add: spent_def nesting_error_def)
    show ?thesis
    proof (cases ok)
      case False
      have "spent b1 (eval_or now ctx its b1 d) (conds_size its)" using 5(2) [OF e [symmetric] Inr] False nn by simp
      with a e Inr False show ?thesis using spent_chain by simp
    next
      case True
      with a e Inr show ?thesis using cond_size_nonneg(2) [of its] by (auto intro: spent_weaken simp: spent_def nesting_error_def budget_error_def)
    qed
  qed
qed (auto intro: spent_refl simp: nesting_error_def)

end
