(* ===== verification/Rule_Condition_Laws.thy ===== *)
theory Rule_Condition_Laws
  imports Rule_Conditions
begin

text \<open>
  The budgeted evaluation of a condition refines its meaning: it is the meaning whenever the budget does not run
  out, and a budget that fits the size and the height of the condition never runs out.
\<close>

lemma budget_error_simps [simp]: "\<not> budget_error (Inr x)" "\<not> nesting_error (Inr x)"
  by (simp_all add: budget_error_def nesting_error_def)

lemma fst_run_exit [simp]: "fst (run_exit r) = fst r"
  by (simp add: run_exit_def)

lemma budget_error_not [simp]: "budget_error (fst (run_not r)) \<longleftrightarrow> budget_error (fst r)"
  by (cases r; cases "fst r") (auto simp: run_not_def budget_error_def)

lemma fst_run_not: "fst (run_not r) = (case fst r of Inl e \<Rightarrow> Inl e | Inr ok \<Rightarrow> Inr (\<not> ok))"
  by (cases r; cases "fst r") (auto simp: run_not_def)

lemma EvalCondition_cases:
  obtains (step) e b1 where "Budget_Step now b = (Some e, b1)"
      "EvalCondition now ctx (Condition op p v w items) b d = (Inl e, b1)" "budget_error (Inl e :: exec_error + bool)"
  | (enter) e b1 b2 where "Budget_Step now b = (None, b1)" "Enter d b1 = (Some e, b2)"
      "EvalCondition now ctx (Condition op p v w items) b d = (Inl e, b2)" "budget_error (Inl e :: exec_error + bool)"
  | (run) b2 where "b2 = b\<lparr>steps := steps b + 1, nesting := nesting b + 1\<rparr>"
      "EvalCondition now ctx (Condition op p v w items) b d = run_exit
         (if op = ''and'' then eval_and now ctx items b2 (d + 1)
          else if op = ''or'' then eval_or now ctx items b2 (d + 1)
          else if op = ''not'' then
            (case items of [it] \<Rightarrow> run_not (EvalCondition now ctx it b2 (d + 1))
             | _ \<Rightarrow> (Inl (ExecError ''op not requires exactly 1 item'' []), b2))
          else (eval_test ctx (Condition op p v w items), b2))"
proof -
  obtain r1 b1 where st: "Budget_Step now b = (r1, b1)" by (cases "Budget_Step now b")
  obtain r2 b2 where en: "Enter d b1 = (r2, b2)" by (cases "Enter d b1")
  show ?thesis
  proof (cases r1)
    case (Some e)
    with st show ?thesis using step Budget_Step_eq [OF st] by (auto simp: budget_error_def)
  next
    case s: None
    show ?thesis
    proof (cases r2)
      case (Some e)
      with st s en show ?thesis using enter Enter_eq [OF en] by (auto simp: budget_error_def)
    next
      case n: None
      have "b2 = b\<lparr>steps := steps b + 1, nesting := nesting b + 1\<rparr>"
        using Budget_Step_eq [OF st] Enter_eq [OF en] n by simp
      then show ?thesis by (rule run) (use st s en n in \<open>simp only: EvalCondition.simps prod.case option.case\<close>)
    qed
  qed
qed

lemma and_refines:
  assumes "\<And>c b. c \<in> set cs \<Longrightarrow> \<not> budget_error (fst (EvalCondition now ctx c b d)) \<Longrightarrow>
      fst (EvalCondition now ctx c b d) = cond_sem ctx c"
    and "\<not> budget_error (fst (eval_and now ctx cs b d))"
  shows "fst (eval_and now ctx cs b d) = and_sem ctx cs"
  using assms
proof (induction cs arbitrary: b)
  case (Cons c cs)
  obtain r b1 where e: "EvalCondition now ctx c b d = (r, b1)" by (cases "EvalCondition now ctx c b d")
  have nb: "\<not> budget_error r" using Cons.prems(2) e by (cases r) auto
  have r: "r = cond_sem ctx c" using Cons.prems(1) [of c b] e nb by simp
  show ?case
  proof (cases "r = Inr True")
    case True
    then have "\<not> budget_error (fst (eval_and now ctx cs b1 d))" using Cons.prems(2) e by simp
    then have "fst (eval_and now ctx cs b1 d) = and_sem ctx cs" using Cons.IH Cons.prems(1) by simp
    then show ?thesis using True e r [symmetric] by simp
  next
    case False
    then show ?thesis using e r [symmetric] by (cases r) auto
  qed
qed simp

lemma or_refines:
  assumes "\<And>c b. c \<in> set cs \<Longrightarrow> \<not> budget_error (fst (EvalCondition now ctx c b d)) \<Longrightarrow>
      fst (EvalCondition now ctx c b d) = cond_sem ctx c"
    and "\<not> budget_error (fst (eval_or now ctx cs b d))"
  shows "fst (eval_or now ctx cs b d) = or_sem ctx cs"
  using assms
proof (induction cs arbitrary: b)
  case (Cons c cs)
  obtain r b1 where e: "EvalCondition now ctx c b d = (r, b1)" by (cases "EvalCondition now ctx c b d")
  have nb: "\<not> budget_error r" using Cons.prems(2) e by (cases r) auto
  have r: "r = cond_sem ctx c" using Cons.prems(1) [of c b] e nb by simp
  show ?case
  proof (cases "r = Inr False")
    case True
    then have "\<not> budget_error (fst (eval_or now ctx cs b1 d))" using Cons.prems(2) e by simp
    then have "fst (eval_or now ctx cs b1 d) = or_sem ctx cs" using Cons.IH Cons.prems(1) by simp
    then show ?thesis using True e r [symmetric] by simp
  next
    case False
    then show ?thesis using e r [symmetric] by (cases r) auto
  qed
qed simp

lemma EvalCondition_refines:
  "\<not> budget_error (fst (EvalCondition now ctx c b d)) \<Longrightarrow> fst (EvalCondition now ctx c b d) = cond_sem ctx c"
proof (induction c arbitrary: b d)
  case (Condition op p v w items)
  show ?case
  proof (cases rule: EvalCondition_cases [of now b ctx op p v w items d])
    case (step e b1)
    with Condition.prems show ?thesis by simp
  next
    case (enter e b1 b2)
    with Condition.prems show ?thesis by simp
  next
    case (run b2)
    consider "op = ''and''" | "op = ''or''" | "op = ''not''" | "op \<notin> {''and'', ''or'', ''not''}" by auto
    then show ?thesis
    proof cases
      case 1
      then show ?thesis using run(2) Condition.prems and_refines [of items now ctx "d + 1" b2] Condition.IH by simp
    next
      case 2
      then show ?thesis using run(2) Condition.prems or_refines [of items now ctx "d + 1" b2] Condition.IH by simp
    next
      case o': 3
      show ?thesis
      proof (cases items rule: remdups_adj.cases)
        case (2 it)
        then have "fst (EvalCondition now ctx it b2 (d + 1)) = cond_sem ctx it"
          using o' run(2) Condition.prems Condition.IH [of it b2 "d + 1"] by simp
        then show ?thesis using o' 2 run(2) by (simp add: fst_run_not)
      qed (use o' run(2) in \<open>simp_all\<close>)
    next
      case 4
      then show ?thesis using run(2) by simp
    qed
  qed
qed

subsection \<open>Sufficient budgets\<close>

definition fits :: "Budget \<Rightarrow> int \<Rightarrow> int \<Rightarrow> int \<Rightarrow> bool" where
  "fits b d n h \<longleftrightarrow>
     Deadline b = zero_time \<and> 0 \<le> nesting b \<and> steps b + n \<le> MaxSteps b \<and>
     d + h \<le> MaxDepth b + 1 \<and> nesting b + h \<le> MaxNesting b"

lemma fits_after: "fits b d (n + m) (max h k) \<Longrightarrow> spent b (Inr x, b1) n \<Longrightarrow> fits b1 d m k"
  by (auto simp: fits_def spent_def same_limits_def)

lemma fits_weaken: "fits b d n h \<Longrightarrow> m \<le> n \<Longrightarrow> k \<le> h \<Longrightarrow> fits b d m k"
  by (auto simp: fits_def)

lemma and_enough:
  assumes "\<And>c b. c \<in> set cs \<Longrightarrow> fits b d (cond_size c) (cond_height c) \<Longrightarrow> \<not> budget_error (fst (EvalCondition now ctx c b d))"
    and "fits b d (conds_size cs) (conds_height cs)"
  shows "\<not> budget_error (fst (eval_and now ctx cs b d)) \<and> \<not> budget_error (fst (eval_or now ctx cs b d))"
  using assms
proof (induction cs arbitrary: b)
  case (Cons c cs)
  have f: "fits b d (cond_size c + conds_size cs) (max (cond_height c) (conds_height cs))" using Cons.prems(2) by simp
  have fc: "fits b d (cond_size c) (cond_height c)"
    using fits_weaken [OF f] cond_size_nonneg(2) [of cs] by simp
  obtain r b1 where e: "EvalCondition now ctx c b d = (r, b1)" by (cases "EvalCondition now ctx c b d")
  have r: "\<not> budget_error r" using Cons.prems(1) [of c b] fc e by simp
  have n: "0 \<le> nesting b" using f by (simp add: fits_def)
  show ?case
  proof (cases r)
    case (Inl x)
    with r e show ?thesis by (auto simp: budget_error_def)
  next
    case (Inr ok)
    have "spent b (Inr ok, b1) (cond_size c)" using eval_spent(1) [OF n, of now ctx c d] e Inr by simp
    then have "fits b1 d (conds_size cs) (conds_height cs)" by (rule fits_after [OF f])
    then show ?thesis using Cons.IH [of b1] Cons.prems(1) e Inr by simp
  qed
qed simp

lemma EvalCondition_enough:
  "fits b d (cond_size c) (cond_height c) \<Longrightarrow> \<not> budget_error (fst (EvalCondition now ctx c b d))"
proof (induction c arbitrary: b d)
  case (Condition op p v w items)
  have f: "fits b d (1 + conds_size items) (1 + conds_height items)" using Condition.prems by simp
  have nn: "0 \<le> conds_size items" "0 \<le> conds_height items" by (simp_all add: cond_size_nonneg cond_height_nonneg)
  show ?case
  proof (cases rule: EvalCondition_cases [of now b ctx op p v w items d])
    case (step e b1)
    then show ?thesis using f nn by (auto simp: Budget_Step_def Let_def fits_def split: if_splits)
  next
    case (enter e b1 b2)
    have "b1 = b\<lparr>steps := steps b + 1\<rparr>" using Budget_Step_eq [OF enter(1)] by simp
    then show ?thesis using enter(2) f nn by (auto simp: Enter_def Let_def fits_def split: if_splits)
  next
    case (run b2)
    have f2: "fits b2 (d + 1) (conds_size items) (conds_height items)" using f by (simp add: fits_def run(1))
    have ao: "\<not> budget_error (fst (eval_and now ctx items b2 (d + 1))) \<and> \<not> budget_error (fst (eval_or now ctx items b2 (d + 1)))"
      by (rule and_enough [OF Condition.IH f2])
    have un: "\<not> budget_error (fst (EvalCondition now ctx it b2 (d + 1)))" if "items = [it]" for it
      using Condition.IH [of it b2 "d + 1"] f2 that cond_height_nonneg(1) [of it] by simp
    show ?thesis unfolding run(2) fst_run_exit using ao un eval_test_no_budget
      by (auto simp: budget_error_def [of "Inl (ExecError _ _)"] split: list.split)
  qed
qed

end
