(* ===== verification/Rule_Flow.thy ===== *)
theory Rule_Flow
  imports Rule_Condition_Laws
begin

text \<open>
  Signed rules and their execution: the structural checks (\<open>ruleexec/structure.go\<close>), the workflow
  (\<open>ruleexec/flow.go\<close>) and the executor (\<open>ruleexec/executor.go\<close>). The operation handler is the gateway's:
  an argument that maps its own state, the operation, the variables and the request to a result and a new
  state; its error is wrapped, so only its text matters. A nil condition of an \<open>if\<close> step is dereferenced by the source, a panic here.
\<close>

datatype Step = Step (stName: string) (stKind: string) (stOp: string) (stCondition: "Condition option")
    (stThen: "Step list") (stElse: "Step list") (stSteps: "Step list")

record RuleConstraint =
  rcScheme :: string
  rcID :: string
  rcParams :: string

record Rule =
  RuleID :: string
  RuleVersion :: string
  RuleScheme :: string
  RuleCapability :: string
  RuleParams :: string
  RuleConditions :: "Condition option"
  RuleConstraints :: "RuleConstraint list"
  RuleFlow :: "Step list option"

subsection \<open>Structure\<close>

definition knownStepKinds :: "string list" where
  "knownStepKinds = [''op'', ''if'', ''seq'']"

definition versionRe :: rx where
  "versionRe = (let n = plus (Cls is_digit); dot = lit (CHR ''.'') in seqs [n, dot, n, dot, n])"

definition null_comparison :: "Condition \<Rightarrow> exec_error option" where
  "null_comparison c =
     (if cOp c \<in> {''eq'', ''neq'', ''lt'', ''lte'', ''gt'', ''gte''} then
        fail_if (cValue c = JNull \<and> cPath c \<noteq> []) (ExecError ''condition %s: comparing to null is not supported'' [cOp c])
      else if cOp c = ''in'' then
        (case cValue c of
           JArr xs \<Rightarrow> fail_if (JNull \<in> set xs) (ExecError ''condition in: null elements are not allowed'' [])
         | _ \<Rightarrow> None)
      else None)"

fun checkCondition :: "Condition \<Rightarrow> exec_error option" where
  "checkCondition (Condition op p v w items) =
     (case null_comparison (Condition op p v w items) of
        Some e \<Rightarrow> Some e
      | None \<Rightarrow>
          if op \<notin> set knownConditionOps then Some (ExecError ''unknown condition op %q'' [op])
          else first_err checkCondition items)"

fun checkSteps :: "Step list \<Rightarrow> exec_error option" where
  "checkSteps [] = None"
| "checkSteps (Step name kind op c th el ss # sts) =
     (if kind \<notin> set knownStepKinds then Some (ExecError ''unknown step kind %q'' [kind])
      else if kind = ''if'' \<and> c = None then Some (ExecError ''if step %q requires a condition'' [name])
      else
        case (case c of None \<Rightarrow> None | Some cond \<Rightarrow> checkCondition cond) of
          Some e \<Rightarrow> Some e
        | None \<Rightarrow>
            (case checkSteps th of
               Some e \<Rightarrow> Some e
             | None \<Rightarrow>
                 (case checkSteps el of
                    Some e \<Rightarrow> Some e
                  | None \<Rightarrow> (case checkSteps ss of Some e \<Rightarrow> Some e | None \<Rightarrow> checkSteps sts))))"

definition ValidateStructure :: "Rule \<Rightarrow> exec_error option" where
  "ValidateStructure r =
     seq_err [
       fail_if (RuleID r = [] \<or> 128 < length (RuleID r)) (ExecError ''rule_id must be 1..128 chars'' []),
       fail_if (\<not> rmatch versionRe (RuleVersion r)) (ExecError ''version must be semver x.y.z'' []),
       fail_if (\<not> contains_sub (RuleScheme r) ''/'') (ExecError ''scheme must be vendor/product'' []),
       (case RuleConditions r of None \<Rightarrow> None | Some c \<Rightarrow> checkCondition c),
       (case RuleFlow r of None \<Rightarrow> None | Some sts \<Rightarrow> checkSteps sts)]"

subsection \<open>The static bound\<close>

fun walkBounds :: "Step list \<Rightarrow> Budget \<Rightarrow> int \<Rightarrow> exec_error option"
  and walk_steps :: "Step list \<Rightarrow> Budget \<Rightarrow> int \<Rightarrow> exec_error option" where
  "walkBounds sts b depth =
     (if MaxNesting b < depth then Some (ExecError ''static bound check: nesting depth'' [])
      else walk_steps sts b depth)"
| "walk_steps [] b depth = None"
| "walk_steps (Step name kind op c th el ss # sts) b depth =
     (case (if kind = ''if'' then seq_err [walkBounds th b (depth + 1), walkBounds el b (depth + 1)]
            else if kind = ''seq'' then walkBounds ss b (depth + 1)
            else None) of
        Some e \<Rightarrow> Some e
      | None \<Rightarrow> walk_steps sts b depth)"

definition CheckStaticBounds :: "Step list \<Rightarrow> Budget \<Rightarrow> exec_error option" where
  "CheckStaticBounds sts b = walkBounds sts b 1"

subsection \<open>Running a flow\<close>

type_synonym 'w handler = "'w \<Rightarrow> string \<Rightarrow> obj \<Rightarrow> obj \<Rightarrow> (string + obj) \<times> 'w"

record 'w flow_state =
  fVars :: obj
  fWorld :: 'w
  fBudget :: Budget

definition evalContext :: "obj \<Rightarrow> obj \<Rightarrow> obj" where
  "evalContext vars req = AList.update ''request'' (JObj req) vars"

definition merge_out :: "obj \<Rightarrow> obj \<Rightarrow> obj" where
  "merge_out vars out = foldl (\<lambda>m e. AList.update (fst e) (snd e) m) vars out"

definition set_budget :: "'w flow_state \<Rightarrow> Budget \<Rightarrow> 'w flow_state" where
  "set_budget s b = s\<lparr>fBudget := b\<rparr>"

text \<open>One operation: the handler, then the merge of its output into the variables.\<close>

definition run_op :: "'w handler \<Rightarrow> obj \<Rightarrow> string \<Rightarrow> 'w flow_state \<Rightarrow> (exec_error + unit) \<times> 'w flow_state" where
  "run_op h req op s =
     (case h (fWorld s) op (fVars s) req of
        (Inl e, w) \<Rightarrow> (Inl (ExecError ''op %s: %w'' [op, e]), s\<lparr>fWorld := w\<rparr>)
      | (Inr out, w) \<Rightarrow> (Inr (), s\<lparr>fWorld := w, fVars := merge_out (fVars s) out\<rparr>))"

fun runSteps :: "'w handler \<Rightarrow> (int \<Rightarrow> instant) \<Rightarrow> obj \<Rightarrow> Step list \<Rightarrow> 'w flow_state \<Rightarrow> int \<Rightarrow>
      (exec_error + unit) \<times> 'w flow_state"
  and run_steps :: "'w handler \<Rightarrow> (int \<Rightarrow> instant) \<Rightarrow> obj \<Rightarrow> Step list \<Rightarrow> 'w flow_state \<Rightarrow> int \<Rightarrow>
      (exec_error + unit) \<times> 'w flow_state" where
  "runSteps h now req sts s depth =
     (case Enter depth (fBudget s) of
        (Some e, b) \<Rightarrow> (Inl e, set_budget s b)
      | (None, b) \<Rightarrow>
          (case run_steps h now req sts (set_budget s b) depth of
             (r, s') \<Rightarrow> (r, set_budget s' (Exit (fBudget s')))))"
| "run_steps h now req [] s depth = (Inr (), s)"
| "run_steps h now req (Step name kind op c th el ss # sts) s depth =
     (case Budget_Step now (fBudget s) of
        (Some e, b) \<Rightarrow> (Inl e, set_budget s b)
      | (None, b) \<Rightarrow>
          (case (if kind = ''op'' then run_op h req op (set_budget s b)
                 else if kind = ''if'' then
                   (case c of
                      None \<Rightarrow> (Inl ExecPanic, set_budget s b)
                    | Some cond \<Rightarrow>
                        (case EvalCondition now (evalContext (fVars s) req) cond b (depth + 1) of
                           (Inl e, b1) \<Rightarrow> (Inl e, set_budget s b1)
                         | (Inr ok, b1) \<Rightarrow>
                             if ok then runSteps h now req th (set_budget s b1) (depth + 1)
                             else runSteps h now req el (set_budget s b1) (depth + 1)))
                 else if kind = ''seq'' then runSteps h now req ss (set_budget s b) (depth + 1)
                 else (Inl (ExecError ''unknown step kind %q'' [kind]), set_budget s b)) of
             (Inl e, s') \<Rightarrow> (Inl e, s')
           | (Inr _, s') \<Rightarrow> run_steps h now req sts s' depth))"

declare runSteps.simps [simp del]

definition RunFlow :: "'w handler \<Rightarrow> (int \<Rightarrow> instant) \<Rightarrow> obj \<Rightarrow> Step list \<Rightarrow> 'w flow_state \<Rightarrow>
    (exec_error + unit) \<times> 'w flow_state" where
  "RunFlow h now req sts s = runSteps h now req sts s 0"

subsection \<open>The executor\<close>

record RuleDecision =
  Allow :: bool
  RuleReason :: string
  RuleSteps :: int

text \<open>\<open>Decide\<close> mutates the executor's budget and, through the handler, the world.\<close>

definition Decide :: "'w handler \<Rightarrow> (int \<Rightarrow> instant) \<Rightarrow> Rule \<Rightarrow> obj \<Rightarrow> Budget \<times> 'w \<Rightarrow>
    (exec_error + RuleDecision) \<times> Budget \<times> 'w" where
  "Decide h now rule req st =
     (let (b0, w0) = st;
          early = seq_err [ValidateStructure rule,
                    (case RuleFlow rule of None \<Rightarrow> None | Some sts \<Rightarrow> CheckStaticBounds sts b0)]
      in case early of
           Some e \<Rightarrow> (Inl e, b0, w0)
         | None \<Rightarrow>
             (case (case RuleConditions rule of
                      None \<Rightarrow> (Inr True, b0)
                    | Some c \<Rightarrow> EvalCondition now [(''request'', JObj req)] c b0 0) of
                (Inl e, b1) \<Rightarrow> (Inl e, b1, w0)
              | (Inr ok, b1) \<Rightarrow>
                  if \<not> ok
                  then (Inr \<lparr>Allow = False, RuleReason = ''conditions not satisfied'', RuleSteps = 0\<rparr>, b1, w0)
                  else
                    (case (case RuleFlow rule of
                             None \<Rightarrow> (Inr (), \<lparr>fVars = [], fWorld = w0, fBudget = b1\<rparr>)
                           | Some sts \<Rightarrow> RunFlow h now req sts \<lparr>fVars = [], fWorld = w0, fBudget = b1\<rparr>) of
                       (Inl e, s) \<Rightarrow> (Inl e, fBudget s, fWorld s)
                     | (Inr _, s) \<Rightarrow>
                         (Inr \<lparr>Allow = True, RuleReason = [], RuleSteps = Stats (fBudget s)\<rparr>, fBudget s, fWorld s))))"

end
