(* ===== verification/Rule_Flow_Laws.thy ===== *)
theory Rule_Flow_Laws
  imports Rule_Flow "HOL-Library.Sublist"
begin

text \<open>
  Laws of flows: what a run spends of the budget, that checked flows do not panic, that each operation of a flow
  runs at most once and in order, and which budgets are sufficient.
\<close>

subsection \<open>Size, height and operations of a flow\<close>

definition opt_size :: "Condition option \<Rightarrow> int" where
  "opt_size c = (case c of None \<Rightarrow> 0 | Some x \<Rightarrow> cond_size x)"

definition opt_height :: "Condition option \<Rightarrow> int" where
  "opt_height c = (case c of None \<Rightarrow> 0 | Some x \<Rightarrow> cond_height x)"

fun flow_size :: "Step list \<Rightarrow> int" where
  "flow_size [] = 0"
| "flow_size (Step n k op c th el ss # sts) =
     1 + opt_size c + flow_size th + flow_size el + flow_size ss + flow_size sts"

fun flow_height :: "Step list \<Rightarrow> int" where
  "flow_height [] = 1"
| "flow_height (Step n k op c th el ss # sts) =
     max (1 + opt_height c) (max (1 + flow_height th) (max (1 + flow_height el) (max (1 + flow_height ss) (flow_height sts))))"

fun flow_ops :: "Step list \<Rightarrow> string list" where
  "flow_ops [] = []"
| "flow_ops (Step n k op c th el ss # sts) =
     (if k = ''op'' then [op] else if k = ''if'' then flow_ops th @ flow_ops el
      else if k = ''seq'' then flow_ops ss else []) @ flow_ops sts"

lemma opt_size_nonneg: "0 \<le> opt_size c" "0 \<le> opt_height c"
  using cond_size_nonneg(1) cond_height_nonneg(1) by (auto simp: opt_size_def opt_height_def split: option.split intro: less_imp_le)

lemma flow_size_nonneg: "0 \<le> flow_size sts"
  by (induction sts rule: flow_size.induct) (auto simp: opt_size_nonneg)

lemma flow_height_pos: "1 \<le> flow_height sts"
  by (induction sts rule: flow_height.induct) auto

subsection \<open>The body of a step\<close>

definition step_body :: "'w handler \<Rightarrow> (int \<Rightarrow> instant) \<Rightarrow> obj \<Rightarrow> Step \<Rightarrow> 'w flow_state \<Rightarrow> int \<Rightarrow>
    (exec_error + unit) \<times> 'w flow_state" where
  "step_body h now req st s depth =
     (if stKind st = ''op'' then run_op h req (stOp st) s
      else if stKind st = ''if'' then
        (case stCondition st of
           None \<Rightarrow> (Inl ExecPanic, s)
         | Some cond \<Rightarrow>
             (case EvalCondition now (evalContext (fVars s) req) cond (fBudget s) (depth + 1) of
                (Inl e, b1) \<Rightarrow> (Inl e, set_budget s b1)
              | (Inr ok, b1) \<Rightarrow>
                  if ok then runSteps h now req (stThen st) (set_budget s b1) (depth + 1)
                  else runSteps h now req (stElse st) (set_budget s b1) (depth + 1)))
      else if stKind st = ''seq'' then runSteps h now req (stSteps st) s (depth + 1)
      else (Inl (ExecError ''unknown step kind %q'' [stKind st]), s))"

lemma set_budget_simps [simp]:
  "fBudget (set_budget s b) = b" "fVars (set_budget s b) = fVars s" "fWorld (set_budget s b) = fWorld s"
  "set_budget (set_budget s b) b' = set_budget s b'"
  by (simp_all add: set_budget_def)

lemma run_steps_Cons:
  "run_steps h now req (st # sts) s depth =
     (case Budget_Step now (fBudget s) of
        (Some e, b) \<Rightarrow> (Inl e, set_budget s b)
      | (None, b) \<Rightarrow>
          (case step_body h now req st (set_budget s b) depth of
             (Inl e, s') \<Rightarrow> (Inl e, s')
           | (Inr _, s') \<Rightarrow> run_steps h now req sts s' depth))"
  by (cases st) (simp only: run_steps.simps step_body_def Step.sel set_budget_simps)

text \<open>
  Induction on flows: a property of runs of step lists that holds for every sub-flow of the first step and for
  the rest holds for the whole.
\<close>

lemma flow_induct [case_names Nil Cons]:
  assumes "P []"
    and "\<And>n k op c th el ss sts. P th \<Longrightarrow> P el \<Longrightarrow> P ss \<Longrightarrow> P sts \<Longrightarrow> P (Step n k op c th el ss # sts)"
  shows "P sts"
  by (induction sts rule: flow_size.induct) (use assms in blast)+

subsection \<open>What a run spends\<close>

lemma spent_enter_only:
  assumes "Enter d b = (None, b1)" "spent b1 r n" "0 \<le> nesting b"
  shows "spent b (run_exit r) n"
proof -
  have b1: "b1 = b\<lparr>nesting := nesting b + 1\<rparr>" using Enter_eq [OF assms(1)] by auto
  have x: "Exit (snd r) = (snd r)\<lparr>nesting := nesting (snd r) - 1\<rparr>"
    using assms(2,3) b1 by (auto simp: Exit_def spent_def)
  show ?thesis using assms(2,3) b1 by (auto simp: run_exit_def x spent_def same_limits_def)
qed

lemma spent_enter_fail: "Enter d b = (Some e, b1) \<Longrightarrow> 0 \<le> n \<Longrightarrow> spent b (Inl e, b1) n"
  using Enter_eq [of d b "Some e" b1]
  by (auto simp: spent_def same_limits_def nesting_error_def budget_error_def)

definition run_spent :: "'w flow_state \<Rightarrow> (exec_error + unit) \<times> 'w flow_state \<Rightarrow> int \<Rightarrow> bool" where
  "run_spent s r n \<longleftrightarrow> spent (fBudget s) (fst r, fBudget (snd r)) n"

lemma runSteps_spent:
  assumes "\<And>s. 0 \<le> nesting (fBudget s) \<Longrightarrow> run_spent s (run_steps h now req sts s d) (flow_size sts)"
    and "0 \<le> nesting (fBudget s)"
  shows "run_spent s (runSteps h now req sts s d) (flow_size sts)"
proof -
  obtain e b where en: "Enter d (fBudget s) = (e, b)" by (cases "Enter d (fBudget s)")
  show ?thesis
  proof (cases e)
    case (Some x)
    with en show ?thesis using flow_size_nonneg [of sts] by (simp add: runSteps.simps run_spent_def spent_enter_fail)
  next
    case None
    have "nesting b = nesting (fBudget s) + 1" using Enter_eq [OF en] None by auto
    then have r: "run_spent (set_budget s b) (run_steps h now req sts (set_budget s b) d) (flow_size sts)"
      using assms(1) [of "set_budget s b"] assms(2) by simp
    obtain x s' where x: "run_steps h now req sts (set_budget s b) d = (x, s')"
      by (cases "run_steps h now req sts (set_budget s b) d")
    have "spent (fBudget s) (run_exit (x, fBudget s')) (flow_size sts)"
      using spent_enter_only [OF en [unfolded None] _ assms(2)] r x by (simp add: run_spent_def)
    then show ?thesis using en None x by (simp add: runSteps.simps run_spent_def run_exit_def)
  qed
qed

lemma run_op_budget: "fBudget (snd (run_op h req op s)) = fBudget s" "\<not> budget_error (fst (run_op h req op s))"
  by (auto simp: run_op_def budget_error_def split: prod.splits sum.splits)

lemma step_body_spent:
  assumes "\<And>s d. 0 \<le> nesting (fBudget s) \<Longrightarrow> run_spent s (runSteps h now req th s d) (flow_size th)"
    and "\<And>s d. 0 \<le> nesting (fBudget s) \<Longrightarrow> run_spent s (runSteps h now req el s d) (flow_size el)"
    and "\<And>s d. 0 \<le> nesting (fBudget s) \<Longrightarrow> run_spent s (runSteps h now req ss s d) (flow_size ss)"
    and nn: "0 \<le> nesting (fBudget s)"
  shows "run_spent s (step_body h now req (Step n k op c th el ss) s d) (opt_size c + flow_size th + flow_size el + flow_size ss)"
    (is "run_spent s ?r ?n")
proof -
  note pos = opt_size_nonneg [of c] flow_size_nonneg [of th] flow_size_nonneg [of el] flow_size_nonneg [of ss]
  have quiet: "run_spent s (Inl e, s) ?n" if "\<not> nesting_error (Inl e :: exec_error + unit)" for e
    using pos that by (simp add: run_spent_def spent_refl)
  consider "k = ''op''" | "k = ''if''" | "k = ''seq''" | "k \<notin> {''op'', ''if'', ''seq''}" by auto
  then show ?thesis
  proof cases
    case 1
    have "\<not> nesting_error (fst (run_op h req op s))" using run_op_budget(2) nesting_budget by blast
    then show ?thesis using 1 pos by (simp add: step_body_def run_spent_def run_op_budget(1) spent_refl)
  next
    case 2
    show ?thesis
    proof (cases c)
      case None
      with 2 show ?thesis using quiet [of ExecPanic] by (simp add: step_body_def nesting_error_def)
    next
      case (Some cond)
      obtain r b1 where e: "EvalCondition now (evalContext (fVars s) req) cond (fBudget s) (d + 1) = (r, b1)"
        by (cases "EvalCondition now (evalContext (fVars s) req) cond (fBudget s) (d + 1)")
      have a: "spent (fBudget s) (r, b1) (opt_size c)"
        using eval_spent(1) [OF nn, of now "evalContext (fVars s) req" cond "d + 1"] e Some by (simp add: opt_size_def)
      show ?thesis
      proof (cases r)
        case (Inl x)
        then have "spent (fBudget s) (Inl x :: exec_error + unit, b1) (opt_size c)"
          using a by (simp add: spent_def nesting_error_def budget_error_def)
        then show ?thesis using 2 Some e Inl pos by (simp add: step_body_def run_spent_def spent_weaken)
      next
        case (Inr ok)
        have nb: "0 \<le> nesting (fBudget (set_budget s b1))" using a Inr nn by (simp add: spent_def)
        have t: "run_spent s (runSteps h now req q (set_budget s b1) (d + 1)) ?n"
          if "run_spent (set_budget s b1) (runSteps h now req q (set_budget s b1) (d + 1)) m" "opt_size c + m \<le> ?n" for q m
          using spent_chain [OF a [unfolded Inr]] that spent_weaken by (force simp: run_spent_def)
        show ?thesis using 2 Some e Inr t [OF assms(1) [OF nb]] t [OF assms(2) [OF nb]] pos
          by (simp add: step_body_def)
      qed
    qed
  next
    case 3
    then show ?thesis using assms(3) [OF nn, of "d + 1"] pos spent_weaken by (force simp: step_body_def run_spent_def)
  next
    case 4
    then show ?thesis using quiet by (simp add: step_body_def nesting_error_def)
  qed
qed

lemma run_steps_spent: "0 \<le> nesting (fBudget s) \<Longrightarrow> run_spent s (run_steps h now req sts s d) (flow_size sts)"
proof (induction sts arbitrary: s d rule: flow_induct)
  case Nil
  then show ?case by (simp add: run_spent_def spent_refl)
next
  case (Cons n k op c th el ss sts)
  let ?m = "opt_size c + flow_size th + flow_size el + flow_size ss"
  obtain e b where st: "Budget_Step now (fBudget s) = (e, b)" by (cases "Budget_Step now (fBudget s)")
  have b: "b = (fBudget s)\<lparr>steps := steps (fBudget s) + 1\<rparr>" using Budget_Step_eq [OF st] by simp
  note pos = opt_size_nonneg [of c] flow_size_nonneg [of th] flow_size_nonneg [of el] flow_size_nonneg [of ss]
    flow_size_nonneg [of sts]
  show ?case
  proof (cases e)
    case (Some x)
    then show ?thesis using st pos by (simp add: run_steps_Cons run_spent_def spent_step_error)
  next
    case None
    have one: "spent (fBudget s) (Inr (), b) 1"
      using Budget_Step_eq [OF st] None by (auto simp: spent_def same_limits_def)
    have body: "run_spent (set_budget s b) (step_body h now req (Step n k op c th el ss) (set_budget s b) d) ?m"
      by (rule step_body_spent [OF runSteps_spent [OF Cons.IH(1)] runSteps_spent [OF Cons.IH(2)] runSteps_spent [OF Cons.IH(3)]])
        (use Cons.prems b in simp_all)
    obtain r s' where r: "step_body h now req (Step n k op c th el ss) (set_budget s b) d = (r, s')"
      by (cases "step_body h now req (Step n k op c th el ss) (set_budget s b) d")
    have both: "spent (fBudget s) (r, fBudget s') (1 + ?m)"
      using spent_chain [OF one] body r by (simp add: run_spent_def)
    show ?thesis
    proof (cases r)
      case (Inl x)
      then show ?thesis using st None r both pos by (simp add: run_steps_Cons run_spent_def spent_weaken)
    next
      case (Inr u)
      have "0 \<le> nesting (fBudget s')" using both Inr Cons.prems by (simp add: spent_def)
      then have "run_spent s' (run_steps h now req sts s' d) (flow_size sts)" by (rule Cons.IH(4))
      then have "spent (fBudget s) (fst (run_steps h now req sts s' d), fBudget (snd (run_steps h now req sts s' d))) (1 + ?m + flow_size sts)"
        using spent_chain [OF both [unfolded Inr]] by (simp add: run_spent_def)
      then show ?thesis using st None r Inr by (simp add: run_steps_Cons run_spent_def add.assoc)
    qed
  qed
qed

lemma RunFlow_spent: "0 \<le> nesting (fBudget s) \<Longrightarrow> run_spent s (RunFlow h now req sts s) (flow_size sts)"
  unfolding RunFlow_def by (rule runSteps_spent) (rule run_steps_spent)

subsection \<open>Each operation at most once, in order\<close>

text \<open>A handler that also keeps the log of the operations it was asked for.\<close>

definition logged :: "'w handler \<Rightarrow> (string list \<times> 'w) handler" where
  "logged h w op vars req =
     (case w of (past, w0) \<Rightarrow> (case h w0 op vars req of (r, w1) \<Rightarrow> (r, (past @ [op], w1))))"

definition logs :: "(string list \<times> 'w) flow_state \<Rightarrow> (string list \<times> 'w) flow_state \<Rightarrow> string list \<Rightarrow> bool" where
  "logs s s' ops \<longleftrightarrow> (\<exists>done'. fst (fWorld s') = fst (fWorld s) @ done' \<and> subseq done' ops)"

lemma logs_refl: "fWorld s' = fWorld s \<Longrightarrow> logs s s' ops"
  by (simp add: logs_def)

lemma logs_trans: "logs a b xs \<Longrightarrow> logs b c ys \<Longrightarrow> logs a c (xs @ ys)"
proof -
  assume "logs a b xs" "logs b c ys"
  then obtain p q where "fst (fWorld b) = fst (fWorld a) @ p" "subseq p xs" "fst (fWorld c) = fst (fWorld b) @ q" "subseq q ys"
    by (auto simp: logs_def)
  then show "logs a c (xs @ ys)" unfolding logs_def by (intro exI [of _ "p @ q"]) (simp add: list_emb_append_mono)
qed

lemma logs_weaken: "logs a b xs \<Longrightarrow> subseq xs ys \<Longrightarrow> logs a b ys"
  unfolding logs_def by (meson subseq_order.trans)

lemma logs_budget [simp]: "logs (set_budget s b) s' xs = logs s s' xs" "logs s (set_budget s' b) xs = logs s s' xs"
  by (simp_all add: logs_def)

lemma run_op_logged: "logs s (snd (run_op (logged h) req op s)) [op]"
  by (auto simp: run_op_def logs_def logged_def split: prod.splits sum.splits)

lemma runSteps_logs:
  assumes "\<And>s. logs s (snd (run_steps h now req sts s d)) ops"
  shows "logs s (snd (runSteps h now req sts s d)) ops"
proof (cases "Enter d (fBudget s)")
  case (Pair e b)
  then show ?thesis using assms [of "set_budget s b"]
    by (cases e) (auto simp: runSteps.simps logs_refl split: prod.split)
qed

lemma step_body_logs:
  assumes "\<And>s d. logs s (snd (runSteps (logged h) now req th s d)) (flow_ops th)"
    and "\<And>s d. logs s (snd (runSteps (logged h) now req el s d)) (flow_ops el)"
    and "\<And>s d. logs s (snd (runSteps (logged h) now req ss s d)) (flow_ops ss)"
  shows "logs s (snd (step_body (logged h) now req (Step n k op c th el ss) s d)) (flow_ops [Step n k op c th el ss])"
proof -
  have br: "logs s (snd (runSteps (logged h) now req q (set_budget s b) d')) (flow_ops th @ flow_ops el)"
    if "q = th \<or> q = el" for q b d'
    using that assms(1,2) [of "set_budget s b" d'] by (auto intro: logs_weaken)
  consider "k = ''op''" | "k = ''if''" | "k = ''seq''" | "k \<notin> {''op'', ''if'', ''seq''}" by auto
  then show ?thesis
  proof cases
    case 2
    show ?thesis
    proof (cases c)
      case (Some cond)
      then show ?thesis using 2 br by (auto simp: step_body_def logs_refl split: prod.split sum.split)
    qed (use 2 in \<open>simp add: step_body_def logs_refl\<close>)
  qed (use assms(3) in \<open>simp_all add: step_body_def run_op_logged logs_refl\<close>)
qed

lemma run_steps_logs: "logs s (snd (run_steps (logged h) now req sts s d)) (flow_ops sts)"
proof (induction sts arbitrary: s d rule: flow_induct)
  case Nil
  then show ?case by (simp add: logs_refl)
next
  case (Cons n k op c th el ss sts)
  let ?st = "Step n k op c th el ss"
  have fo: "flow_ops (?st # sts) = flow_ops [?st] @ flow_ops sts" by simp
  obtain e b where st: "Budget_Step now (fBudget s) = (e, b)" by (cases "Budget_Step now (fBudget s)")
  show ?case
  proof (cases e)
    case (Some x)
    with st show ?thesis by (simp add: run_steps_Cons logs_refl del: flow_ops.simps)
  next
    case None
    have body: "logs s (snd (step_body (logged h) now req ?st (set_budget s b) d)) (flow_ops [?st])"
      using step_body_logs [OF runSteps_logs [OF Cons.IH(1)] runSteps_logs [OF Cons.IH(2)] runSteps_logs [OF Cons.IH(3)],
          of "set_budget s b" n k op c d] by (simp del: flow_ops.simps)
    obtain r s' where r: "step_body (logged h) now req ?st (set_budget s b) d = (r, s')"
      by (cases "step_body (logged h) now req ?st (set_budget s b) d")
    have b: "logs s s' (flow_ops [?st])" using body r by simp
    show ?thesis
    proof (cases r)
      case (Inl x)
      have "logs s s' (flow_ops (?st # sts))" unfolding fo by (rule logs_weaken [OF b]) (rule prefix_imp_subseq, rule prefixI, rule refl)
      then show ?thesis using st None r Inl by (simp add: run_steps_Cons del: flow_ops.simps)
    next
      case (Inr u)
      have "logs s (snd (run_steps (logged h) now req sts s' d)) (flow_ops (?st # sts))"
        unfolding fo by (rule logs_trans [OF b Cons.IH(4)])
      then show ?thesis using st None r Inr by (simp add: run_steps_Cons del: flow_ops.simps)
    qed
  qed
qed

subsection \<open>Checked flows do not panic\<close>

lemma cond_sem_no_panic: "cond_sem ctx c \<noteq> Inl ExecPanic" "and_sem ctx cs \<noteq> Inl ExecPanic" "or_sem ctx cs \<noteq> Inl ExecPanic"
proof -
  have leaf: "evalLeaf op g w win \<noteq> Inl ExecPanic" for op g w win
    by (simp add: evalLeaf_def split: option.split json.split list.split)
  then have test: "eval_test ctx c \<noteq> Inl ExecPanic" for ctx c by (simp add: eval_test_def split: option.split)
  show "cond_sem ctx c \<noteq> Inl ExecPanic" "and_sem ctx cs \<noteq> Inl ExecPanic" "or_sem ctx cs \<noteq> Inl ExecPanic"
    by (induction ctx c and ctx cs and ctx cs rule: cond_sem_and_sem_or_sem.induct)
      (auto simp: test split: list.split sum.split)
qed

lemma EvalCondition_no_panic: "fst (EvalCondition now ctx c b d) \<noteq> Inl ExecPanic"
proof (cases "budget_error (fst (EvalCondition now ctx c b d))")
  case True
  then show ?thesis by (auto simp: budget_error_def)
next
  case False
  then show ?thesis using EvalCondition_refines [OF False] cond_sem_no_panic(1) by simp
qed

lemma runSteps_no_panic:
  assumes "\<And>s. fst (run_steps h now req sts s d) \<noteq> Inl ExecPanic"
  shows "fst (runSteps h now req sts s d) \<noteq> Inl ExecPanic"
proof (cases "Enter d (fBudget s)")
  case (Pair e b)
  then show ?thesis using assms [of "set_budget s b"] Enter_eq [OF Pair]
    by (cases e) (auto simp: runSteps.simps split: prod.split)
qed

lemma run_steps_no_panic: "checkSteps sts = None \<Longrightarrow> fst (run_steps h now req sts s d) \<noteq> Inl ExecPanic"
proof (induction sts arbitrary: s d rule: flow_induct)
  case (Cons n k op c th el ss sts)
  let ?st = "Step n k op c th el ss"
  have ok: "k = ''if'' \<longrightarrow> c \<noteq> None" "checkSteps th = None" "checkSteps el = None" "checkSteps ss = None" "checkSteps sts = None"
    using Cons.prems by (auto split: if_splits option.splits)
  have sub: "fst (runSteps h now req q s' d') \<noteq> Inl ExecPanic" if "q \<in> {th, el, ss}" for q s' d'
    by (rule runSteps_no_panic) (use that Cons.IH(1-3) ok(2-4) in auto)
  have body: "fst (step_body h now req ?st s' d) \<noteq> Inl ExecPanic" for s'
  proof (cases "k = ''if''")
    case True
    with ok(1) obtain cond where "c = Some cond" by auto
    then show ?thesis
      using True sub EvalCondition_no_panic [of now "evalContext (fVars s') req" cond "fBudget s'" "d + 1"]
      by (cases "EvalCondition now (evalContext (fVars s') req) cond (fBudget s') (d + 1)")
        (auto simp: step_body_def split: sum.split)
  next
    case False
    then show ?thesis using sub by (auto simp: step_body_def run_op_def split: prod.split sum.split)
  qed
  obtain e b where st: "Budget_Step now (fBudget s) = (e, b)" by (cases "Budget_Step now (fBudget s)")
  show ?case using Budget_Step_eq [OF st] st body [of "set_budget s b"] Cons.IH(4) [OF ok(5)]
    by (cases e) (auto simp: run_steps_Cons split: prod.split sum.split)
qed simp

lemma RunFlow_no_panic: "checkSteps sts = None \<Longrightarrow> fst (RunFlow h now req sts s) \<noteq> Inl ExecPanic"
  unfolding RunFlow_def by (rule runSteps_no_panic) (rule run_steps_no_panic)

subsection \<open>Sufficient budgets\<close>

lemma runSteps_enough:
  assumes "\<And>s. fits (fBudget s) (d + 1) (flow_size sts) (flow_height sts - 1) \<Longrightarrow> \<not> budget_error (fst (run_steps h now req sts s d))"
    and "fits (fBudget s) d (flow_size sts) (flow_height sts)"
  shows "\<not> budget_error (fst (runSteps h now req sts s d))"
proof (cases "Enter d (fBudget s)")
  case (Pair e b)
  have e: "e = None"
    using Pair assms(2) flow_height_pos [of sts] by (auto simp: Enter_def Let_def fits_def split: if_splits)
  then have b: "b = (fBudget s)\<lparr>nesting := nesting (fBudget s) + 1\<rparr>" using Enter_eq [OF Pair] by simp
  have "fits (fBudget (set_budget s b)) (d + 1) (flow_size sts) (flow_height sts - 1)"
    using assms(2) by (simp add: fits_def b)
  then have nb: "\<not> budget_error (fst (run_steps h now req sts (set_budget s b) d))" by (rule assms(1))
  obtain x s' where x: "run_steps h now req sts (set_budget s b) d = (x, s')"
    by (cases "run_steps h now req sts (set_budget s b) d")
  show ?thesis using Pair e nb x by (simp add: runSteps.simps)
qed

lemma fits_step:
  assumes "fits b d (1 + n) h" "Budget_Step now b = (r, b1)" "0 \<le> n"
  shows "r = None \<and> fits b1 d n h"
  using assms Budget_Step_eq [OF assms(2)] by (auto simp: Budget_Step_def Let_def fits_def split: if_splits)

lemma step_body_enough:
  assumes th: "\<And>s. fits (fBudget s) (d + 1) (flow_size th) (flow_height th) \<Longrightarrow> \<not> budget_error (fst (runSteps h now req th s (d + 1)))"
    and el: "\<And>s. fits (fBudget s) (d + 1) (flow_size el) (flow_height el) \<Longrightarrow> \<not> budget_error (fst (runSteps h now req el s (d + 1)))"
    and ss: "\<And>s. fits (fBudget s) (d + 1) (flow_size ss) (flow_height ss) \<Longrightarrow> \<not> budget_error (fst (runSteps h now req ss s (d + 1)))"
    and f: "fits (fBudget s) (d + 1) (opt_size c + flow_size th + flow_size el + flow_size ss) k0"
    and k: "opt_height c \<le> k0" "flow_height th \<le> k0" "flow_height el \<le> k0" "flow_height ss \<le> k0"
  shows "\<not> budget_error (fst (step_body h now req (Step n k op c th el ss) s d))"
proof -
  note pos = opt_size_nonneg(1) [of c] flow_size_nonneg [of th] flow_size_nonneg [of el] flow_size_nonneg [of ss]
  have nn: "0 \<le> nesting (fBudget s)" using f by (simp add: fits_def)
  consider "k = ''op''" | "k = ''if''" | "k = ''seq''" | "k \<notin> {''op'', ''if'', ''seq''}" by auto
  then show ?thesis
  proof cases
    case 2
    show ?thesis
    proof (cases c)
      case None
      with 2 show ?thesis by (simp add: step_body_def budget_error_def)
    next
      case (Some cond)
      let ?e = "EvalCondition now (evalContext (fVars s) req) cond (fBudget s) (d + 1)"
      obtain r b1 where e: "?e = (r, b1)" by (cases ?e)
      have fc: "fits (fBudget s) (d + 1) (cond_size cond) (cond_height cond)"
        using fits_weaken [OF f] pos k(1) Some by (simp add: opt_size_def opt_height_def)
      have nb: "\<not> budget_error r" using EvalCondition_enough [OF fc] e by (metis fst_conv)
      show ?thesis
      proof (cases r)
        case (Inl x)
        then show ?thesis using nb e 2 Some by (simp add: step_body_def budget_error_def)
      next
        case (Inr ok)
        have sp: "spent (fBudget s) (Inr ok, b1) (opt_size c)"
          using eval_spent(1) [OF nn, of now "evalContext (fVars s) req" cond "d + 1"] e Inr Some by (simp add: opt_size_def)
        have fb: "fits b1 (d + 1) (flow_size th + flow_size el + flow_size ss) k0"
          using fits_after [OF _ sp, of "d + 1" "flow_size th + flow_size el + flow_size ss" 0 k0] f opt_size_nonneg(2) [of c] k(1)
          by (simp add: add.assoc max_def)
        have "fits b1 (d + 1) (flow_size th) (flow_height th)" "fits b1 (d + 1) (flow_size el) (flow_height el)"
          using fits_weaken [OF fb] pos k by simp_all
        then show ?thesis
          using th [of "set_budget s b1"] el [of "set_budget s b1"] e Inr 2 Some by (simp add: step_body_def)
      qed
    qed
  next
    case 3
    have "fits (fBudget s) (d + 1) (flow_size ss) (flow_height ss)" using fits_weaken [OF f] pos k by simp
    then show ?thesis using 3 ss by (simp add: step_body_def)
  qed (simp_all add: step_body_def run_op_budget budget_error_def [of "Inl (ExecError _ _)"])
qed

lemma run_steps_enough:
  "fits (fBudget s) (d + 1) (flow_size sts) (flow_height sts - 1) \<Longrightarrow> \<not> budget_error (fst (run_steps h now req sts s d))"
proof (induction sts arbitrary: s d rule: flow_induct)
  case (Cons n k op c th el ss sts)
  let ?st = "Step n k op c th el ss"
  let ?m = "opt_size c + flow_size th + flow_size el + flow_size ss"
  let ?h = "flow_height (?st # sts) - 1"
  note pos = opt_size_nonneg(1) [of c] flow_size_nonneg [of th] flow_size_nonneg [of el] flow_size_nonneg [of ss]
    flow_size_nonneg [of sts]
  have h0: "0 \<le> ?h" using flow_height_pos [of "?st # sts"] by linarith
  obtain e b where st: "Budget_Step now (fBudget s) = (e, b)" by (cases "Budget_Step now (fBudget s)")
  have "fits (fBudget s) (d + 1) (1 + (?m + flow_size sts)) ?h" using Cons.prems by (simp add: add.assoc)
  from fits_step [OF this st] pos have e: "e = None" and fb: "fits b (d + 1) (?m + flow_size sts) ?h" by auto
  have fm: "fits (fBudget (set_budget s b)) (d + 1) ?m ?h" using fits_weaken [OF fb] pos by simp
  have body: "\<not> budget_error (fst (step_body h now req ?st (set_budget s b) d))"
    by (rule step_body_enough [OF runSteps_enough [OF Cons.IH(1)] runSteps_enough [OF Cons.IH(2)] runSteps_enough [OF Cons.IH(3)] fm])
      (auto simp: max_def)
  obtain r s' where r: "step_body h now req ?st (set_budget s b) d = (r, s')"
    by (cases "step_body h now req ?st (set_budget s b) d")
  show ?case
  proof (cases r)
    case (Inl x)
    then show ?thesis using body st e r by (simp add: run_steps_Cons)
  next
    case (Inr u)
    have nn: "0 \<le> nesting (fBudget (set_budget s b))" using fb by (simp add: fits_def)
    have "run_spent (set_budget s b) (step_body h now req ?st (set_budget s b) d) ?m"
      by (rule step_body_spent [OF runSteps_spent [OF run_steps_spent] runSteps_spent [OF run_steps_spent] runSteps_spent [OF run_steps_spent] nn])
    then have "spent b (Inr u, fBudget s') ?m" using r Inr by (simp add: run_spent_def)
    then have "fits (fBudget s') (d + 1) (flow_size sts) ?h"
      by (rule fits_after [of b "d + 1" ?m "flow_size sts" 0 ?h, rotated]) (use fb h0 in \<open>simp only: max_absorb2\<close>)
    then have "fits (fBudget s') (d + 1) (flow_size sts) (flow_height sts - 1)"
      by (rule fits_weaken) (auto simp: max_def)
    then show ?thesis using Cons.IH(4) st e r Inr by (simp add: run_steps_Cons)
  qed
qed simp

lemma RunFlow_enough:
  "fits (fBudget s) 0 (flow_size sts) (flow_height sts) \<Longrightarrow> \<not> budget_error (fst (RunFlow h now req sts s))"
  unfolding RunFlow_def by (rule runSteps_enough [OF run_steps_enough]) simp_all

end
