(* ===== verification/Rule_Execution.thy ===== *)
theory Rule_Execution
  imports Rule_Flow_Laws
begin

text \<open>
  The properties of rule execution: what an allowing decision means, that the budget bounds the work and is
  kept in order, which budgets are sufficient, that operations run at most once and in order, and what a
  budget that is shared by successive decisions does.
\<close>

definition rule_size :: "Rule \<Rightarrow> int" where
  "rule_size r = opt_size (RuleConditions r) + (case RuleFlow r of None \<Rightarrow> 0 | Some sts \<Rightarrow> flow_size sts)"

definition rule_height :: "Rule \<Rightarrow> int" where
  "rule_height r = max (opt_height (RuleConditions r)) (case RuleFlow r of None \<Rightarrow> 0 | Some sts \<Rightarrow> flow_height sts)"

definition rule_ops :: "Rule \<Rightarrow> string list" where
  "rule_ops r = (case RuleFlow r of None \<Rightarrow> [] | Some sts \<Rightarrow> flow_ops sts)"

text \<open>The two checks that come before any evaluation, the conditions and the flow of a decision.\<close>

definition static_error :: "Rule \<Rightarrow> Budget \<Rightarrow> exec_error option" where
  "static_error r b =
     seq_err [ValidateStructure r, (case RuleFlow r of None \<Rightarrow> None | Some sts \<Rightarrow> CheckStaticBounds sts b)]"

definition conditions_run :: "(int \<Rightarrow> instant) \<Rightarrow> Rule \<Rightarrow> obj \<Rightarrow> Budget \<Rightarrow> bool run" where
  "conditions_run now r req b =
     (case RuleConditions r of None \<Rightarrow> (Inr True, b) | Some c \<Rightarrow> EvalCondition now [(''request'', JObj req)] c b 0)"

definition flow_run :: "'w handler \<Rightarrow> (int \<Rightarrow> instant) \<Rightarrow> Rule \<Rightarrow> obj \<Rightarrow> Budget \<Rightarrow> 'w \<Rightarrow>
    (exec_error + unit) \<times> 'w flow_state" where
  "flow_run h now r req b w =
     (let s = \<lparr>fVars = [], fWorld = w, fBudget = b\<rparr>
      in case RuleFlow r of None \<Rightarrow> (Inr (), s) | Some sts \<Rightarrow> RunFlow h now req sts s)"

lemma Decide_eq:
  "Decide h now r req (b, w) =
     (case static_error r b of
        Some e \<Rightarrow> (Inl e, b, w)
      | None \<Rightarrow>
          (case conditions_run now r req b of
             (Inl e, b1) \<Rightarrow> (Inl e, b1, w)
           | (Inr ok, b1) \<Rightarrow>
               if \<not> ok then (Inr \<lparr>Allow = False, RuleReason = ''conditions not satisfied'', RuleSteps = 0\<rparr>, b1, w)
               else
                 (case flow_run h now r req b1 w of
                    (Inl e, s) \<Rightarrow> (Inl e, fBudget s, fWorld s)
                  | (Inr _, s) \<Rightarrow>
                      (Inr \<lparr>Allow = True, RuleReason = [], RuleSteps = steps (fBudget s)\<rparr>, fBudget s, fWorld s))))"
  by (simp only: Decide_def static_error_def conditions_run_def flow_run_def Stats_def Let_def prod.case)

lemma Decide_cases:
  obtains (static) e where "static_error r b = Some e" "Decide h now r req (b, w) = (Inl e, b, w)"
  | (condition) e b1 where "static_error r b = None" "conditions_run now r req b = (Inl e, b1)"
      "Decide h now r req (b, w) = (Inl e, b1, w)"
  | (unsatisfied) b1 where "static_error r b = None" "conditions_run now r req b = (Inr False, b1)"
      "Decide h now r req (b, w) = (Inr \<lparr>Allow = False, RuleReason = ''conditions not satisfied'', RuleSteps = 0\<rparr>, b1, w)"
  | (flow) e b1 s where "static_error r b = None" "conditions_run now r req b = (Inr True, b1)"
      "flow_run h now r req b1 w = (Inl e, s)" "Decide h now r req (b, w) = (Inl e, fBudget s, fWorld s)"
  | (allow) b1 s where "static_error r b = None" "conditions_run now r req b = (Inr True, b1)"
      "flow_run h now r req b1 w = (Inr (), s)"
      "Decide h now r req (b, w) = (Inr \<lparr>Allow = True, RuleReason = [], RuleSteps = steps (fBudget s)\<rparr>, fBudget s, fWorld s)"
proof (cases "static_error r b")
  case (Some e)
  then show ?thesis by (intro static [of e]) (simp_all add: Decide_eq)
next
  case s: None
  obtain x b1 where x: "conditions_run now r req b = (x, b1)" by (cases "conditions_run now r req b")
  obtain y s' where y: "flow_run h now r req b1 w = (y, s')" by (cases "flow_run h now r req b1 w")
  consider e where "x = Inl e" | "x = Inr False" | e where "x = Inr True" "y = Inl e" | "x = Inr True" "y = Inr ()"
    by (cases x; cases y) auto
  then show ?thesis
  proof cases
    case (1 e)
    with s x show ?thesis by (intro condition [of e b1]) (simp_all add: Decide_eq)
  next
    case 2
    with s x show ?thesis by (intro unsatisfied [of b1]) (simp_all add: Decide_eq)
  next
    case (3 e)
    with s x y show ?thesis by (intro flow [of b1 e s']) (simp_all add: Decide_eq)
  next
    case 4
    with s x y show ?thesis by (intro allow [of b1 s']) (simp_all add: Decide_eq)
  qed
qed

text \<open>The checks before the evaluation never report a budget or a panic.\<close>

definition plain_error :: "exec_error option \<Rightarrow> bool" where
  "plain_error x \<longleftrightarrow> (\<forall>e. x = Some e \<longrightarrow> (\<exists>m xs. e = ExecError m xs))"

lemma plain_error_simps [simp]:
  "plain_error None" "plain_error (Some (ExecError m xs))" "plain_error (fail_if c (ExecError m xs))"
  by (auto simp: plain_error_def fail_if_def)

lemma plain_seq_err:
  "plain_error (seq_err [])" "plain_error x \<Longrightarrow> plain_error (seq_err xs) \<Longrightarrow> plain_error (seq_err (x # xs))"
  by (simp add: seq_err.simps) (cases x, simp_all add: seq_err.simps)

lemma plain_checkCondition: "plain_error (checkCondition c)"
proof (induction c rule: checkCondition.induct)
  case (1 op p v w items)
  have n: "plain_error (null_comparison (Condition op p v w items))"
    by (simp add: null_comparison_def split: json.split)
  have i: "plain_error (first_err checkCondition items)" if "null_comparison (Condition op p v w items) = None" "op \<in> set knownConditionOps"
    using 1 [OF that(1)] that(2) by (metis first_err_SomeD plain_error_def)
  show ?case using n i by (cases "null_comparison (Condition op p v w items)") auto
qed

lemma checkCondition_plainD: "checkCondition c = Some e \<Longrightarrow> \<exists>m xs. e = ExecError m xs"
  using plain_checkCondition [of c] by (simp add: plain_error_def)

lemma plain_checkSteps: "plain_error (checkSteps sts)"
  by (induction sts rule: checkSteps.induct)
    (auto simp: plain_error_def [of "Some _"] dest: checkCondition_plainD split: option.split)

lemma plain_walk: "plain_error (walkBounds sts b d)" "plain_error (walk_steps sts b d)"
  by (induction sts b d and sts b d rule: walkBounds_walk_steps.induct)
    (auto simp: plain_error_def [of "Some _"] seq_err.simps split: option.split)

lemma plain_option: "(\<And>x. plain_error (f x)) \<Longrightarrow> plain_error (case o' of None \<Rightarrow> None | Some x \<Rightarrow> f x)"
  by (cases o') simp_all

lemma plain_structure: "plain_error (ValidateStructure r)"
  unfolding ValidateStructure_def
  by (intro plain_seq_err plain_option plain_checkCondition plain_checkSteps plain_error_simps)

lemma plain_static: "plain_error (static_error r b)"
  unfolding static_error_def CheckStaticBounds_def
  by (intro plain_seq_err plain_option plain_structure plain_walk)

lemma conditions_run_spent:
  "0 \<le> nesting b \<Longrightarrow> spent b (conditions_run now r req b) (opt_size (RuleConditions r))"
  using eval_spent(1) [of b now] by (auto simp: conditions_run_def opt_size_def spent_refl split: option.split)

lemma flow_run_spent:
  "0 \<le> nesting b \<Longrightarrow> spent b (fst (flow_run h now r req b w), fBudget (snd (flow_run h now r req b w)))
     (case RuleFlow r of None \<Rightarrow> 0 | Some sts \<Rightarrow> flow_size sts)"
  using RunFlow_spent [of "\<lparr>fVars = [], fWorld = w, fBudget = b\<rparr>" h now req]
  by (simp add: flow_run_def run_spent_def spent_refl split: option.split)

lemma Decide_spent:
  assumes "0 \<le> nesting b"
  shows "spent b (fst (Decide h now r req (b, w)), fst (snd (Decide h now r req (b, w)))) (rule_size r)"
proof -
  let ?f = "case RuleFlow r of None \<Rightarrow> 0 | Some sts \<Rightarrow> flow_size sts"
  have pos: "0 \<le> opt_size (RuleConditions r)" "0 \<le> ?f"
    by (simp_all add: opt_size_nonneg flow_size_nonneg split: option.split)
  note c = conditions_run_spent [OF assms, of now r req]
  have le: "opt_size (RuleConditions r) \<le> rule_size r" using pos by (simp add: rule_size_def)
  have fl: "spent b (x, fBudget s) (rule_size r)"
    if "conditions_run now r req b = (Inr ok, b1)" "flow_run h now r req b1 w = (x, s)" for x s ok b1
  proof -
    have n: "0 \<le> nesting b1" using c assms that(1) by (simp add: spent_def)
    show ?thesis using spent_chain [of b ok b1 "opt_size (RuleConditions r)" "(x, fBudget s)" ?f] c
        flow_run_spent [OF n, of h now r req w] that by (simp add: rule_size_def)
  qed
  have keep: "spent b (Inl e :: exec_error + RuleDecision, b') n"
    if "spent b (Inl e :: exec_error + 'x, b') n" for e b' n
    using that by (simp add: spent_def nesting_error_def budget_error_def)
  have ok: "spent b (Inr d :: exec_error + RuleDecision, b') n" if "spent b (Inr v :: exec_error + 'x, b') n" for d v b' n
    using that by (simp add: spent_def)
  show ?thesis
  proof (cases rule: Decide_cases [of r b h now req w])
    case (static e)
    have "\<not> nesting_error (Inl e :: exec_error + RuleDecision)"
      using plain_static [of r b] static(1) by (auto simp: plain_error_def nesting_error_def)
    then show ?thesis using static(2) pos le by (simp add: spent_refl)
  next
    case (condition e b1)
    show ?thesis using keep [OF spent_weaken [OF c [unfolded condition(2)] le]] condition(3) by simp
  next
    case (unsatisfied b1)
    show ?thesis using ok [OF spent_weaken [OF c [unfolded unsatisfied(2)] le]] unsatisfied(3) by simp
  next
    case (flow e b1 s)
    show ?thesis using keep [OF fl [OF flow(2,3)]] flow(4) by simp
  next
    case (allow b1 s)
    show ?thesis using ok [OF fl [OF allow(2,3)]] allow(4) by simp
  qed
qed

subsection \<open>Properties\<close>

lemma conditions_no_panic: "fst (conditions_run now r req b) \<noteq> Inl ExecPanic"
  using EvalCondition_no_panic by (simp add: conditions_run_def split: option.split)

lemma flow_no_panic:
  assumes "static_error r b = None"
  shows "fst (flow_run h now r req b1 w) \<noteq> Inl ExecPanic"
proof (cases "RuleFlow r")
  case (Some sts)
  have "checkSteps sts = None" using assms Some by (simp add: static_error_def ValidateStructure_def)
  then show ?thesis using RunFlow_no_panic Some by (simp add: flow_run_def)
qed (simp add: flow_run_def)

lemma conditions_sem:
  assumes "conditions_run now r req b = (Inr ok, b1)" "RuleConditions r = Some c"
  shows "cond_sem [(''request'', JObj req)] c = Inr ok"
  using EvalCondition_refines [of now "[(''request'', JObj req)]" c b 0] assms by (simp add: conditions_run_def)


text \<open>
  C32. With a budget that covers the number and the height of the conditions and no deadline, the budgeted
  evaluation returns, and its result is the meaning of the condition.
\<close>

theorem EvalCondition_correct:
  assumes "fits b d (cond_size c) (cond_height c)"
  shows "fst (EvalCondition now ctx c b d) = cond_sem ctx c"
  by (rule EvalCondition_refines [OF EvalCondition_enough [OF assms]])

text \<open>
  A budget that covers the size and the height of a rule is enough: the decision is an outcome or an error of
  the rule itself, never an exhausted budget.
\<close>

theorem Decide_enough:
  assumes "fits b 0 (rule_size r) (rule_height r)"
  shows "\<not> budget_error (fst (Decide h now r req (b, w)))"
proof -
  let ?f = "case RuleFlow r of None \<Rightarrow> 0 | Some sts \<Rightarrow> flow_size sts"
  let ?g = "case RuleFlow r of None \<Rightarrow> 0 | Some sts \<Rightarrow> flow_height sts"
  have pos: "0 \<le> ?f" by (simp add: flow_size_nonneg split: option.split)
  have n: "0 \<le> nesting b" using assms by (simp add: fits_def)
  have c: "\<not> budget_error (fst (conditions_run now r req b))"
  proof (cases "RuleConditions r")
    case (Some c)
    have "fits b 0 (cond_size c) (cond_height c)"
      by (rule fits_weaken [OF assms]) (use Some pos in \<open>simp_all add: rule_size_def rule_height_def opt_size_def opt_height_def\<close>)
    then show ?thesis using EvalCondition_enough Some by (simp add: conditions_run_def)
  qed (simp add: conditions_run_def)
  have fl: "\<not> budget_error (fst (flow_run h now r req b1 w))" if cr: "conditions_run now r req b = (Inr ok, b1)" for b1 ok
  proof (cases "RuleFlow r")
    case (Some sts)
    have "spent b (Inr ok, b1) (opt_size (RuleConditions r))" using conditions_run_spent [OF n, of now r req] cr by simp
    then have "fits b1 0 ?f ?g" by (rule fits_after [rotated]) (use assms in \<open>simp only: rule_size_def rule_height_def\<close>)
    then show ?thesis using RunFlow_enough [of "\<lparr>fVars = [], fWorld = w, fBudget = b1\<rparr>" sts h now req] Some
      by (simp add: flow_run_def)
  qed (simp add: flow_run_def)
  show ?thesis
  proof (cases rule: Decide_cases [of r b h now req w])
    case (static e)
    then show ?thesis using plain_static [of r b] by (auto simp: plain_error_def budget_error_def)
  next
    case (condition e b1)
    then show ?thesis using c by (simp add: budget_error_def)
  next
    case (flow e b1 s)
    then show ?thesis using fl [OF flow(2)] by (simp add: budget_error_def)
  qed simp_all
qed

text \<open>
  C34. The budget of an executor is kept in order by a decision: its limits stay, it charges at most one step per
  condition and step of the rule and never gives steps back, an outcome never exceeds the limit, and every
  nesting level is left again unless the decision failed on the nesting limit, which leaves one level behind.
\<close>

theorem Decide_budget:
  assumes "0 \<le> nesting b" "Decide h now r req (b, w) = (x, b', w')"
  shows "same_limits b b' \<and> steps b \<le> steps b' \<and> steps b' \<le> steps b + rule_size r \<and>
    nesting b' = nesting b + (if nesting_error x then 1 else 0) \<and>
    (steps b \<le> MaxSteps b \<and> \<not> budget_error x \<longrightarrow> steps b' \<le> MaxSteps b)"
  using Decide_spent [OF assms(1), of h now r req w] assms(2) by (simp add: spent_def)

text \<open>
  C35. A decision asks the handler for the operations of the flow at most once each and in the order of the
  flow: what is added to the log is a subsequence of the operations that stand in the rule.
\<close>

theorem Decide_operations:
  "\<exists>ops. fst (snd (snd (Decide (logged h) now r req (b, past, w)))) = past @ ops \<and> subseq ops (rule_ops r)"
proof -
  have fl: "\<exists>ops. fst (fWorld (snd (flow_run (logged h) now r req b1 (past, w)))) = past @ ops \<and> subseq ops (rule_ops r)" for b1
    using runSteps_logs [OF run_steps_logs, of "\<lparr>fVars = [], fWorld = (past, w), fBudget = b1\<rparr>" h now req _ 0]
    by (auto simp: flow_run_def RunFlow_def rule_ops_def logs_def split: option.split)
  show ?thesis
  proof (cases rule: Decide_cases [of r b "logged h" now req "(past, w)"])
    case (flow e b1 s)
    then show ?thesis using fl [of b1] by simp
  next
    case (allow b1 s)
    then show ?thesis using fl [of b1] by simp
  qed simp_all
qed

subsection \<open>Successive decisions on one executor\<close>

text \<open>A plugin owns one executor, and with it one budget, for all the requests it serves.\<close>

fun serve :: "'w handler \<Rightarrow> (int \<Rightarrow> instant) \<Rightarrow> Rule \<Rightarrow> obj list \<Rightarrow> Budget \<times> 'w \<Rightarrow> (exec_error + RuleDecision) list" where
  "serve h now r [] st = []"
| "serve h now r (req # reqs) st =
     (case Decide h now r req st of (x, st') \<Rightarrow> x # serve h now r reqs st')"

lemma EvalCondition_charges:
  assumes "0 \<le> nesting b"
  shows "steps b + 1 \<le> steps (snd (EvalCondition now ctx c b d))"
proof (cases c)
  case (Condition op p v w items)
  show ?thesis
  proof (cases rule: EvalCondition_cases [of now b ctx op p v w items d])
    case (step e b1)
    then show ?thesis using Budget_Step_eq [OF step(1)] Condition by simp
  next
    case (enter e b1 b2)
    then show ?thesis using Budget_Step_eq [OF enter(1)] Enter_eq [OF enter(2)] Condition by auto
  next
    case (run b2)
    have n: "0 \<le> nesting b2" using assms run(1) by simp
    have e: "steps (snd (run_exit q)) = steps (snd q)" "steps (snd (run_not q)) = steps (snd q)" for q :: "bool run"
      by (simp_all add: run_exit_def run_not_def Exit_def split: prod.split sum.split)
    have "steps b2 \<le> steps (snd (EvalCondition now ctx c b d))"
      unfolding Condition run(2) e
      using eval_spent [OF n, of now ctx _ "d + 1"] by (auto simp: spent_def e split: list.split)
    then show ?thesis using run(1) by simp
  qed
qed

lemma Decide_charges:
  assumes "0 \<le> nesting b" "static_error r b = None" "RuleConditions r = Some c"
  shows "steps b + 1 \<le> steps (fst (snd (Decide h now r req (b, w))))"
proof -
  have c: "steps b + 1 \<le> steps (snd (conditions_run now r req b))"
    using EvalCondition_charges [OF assms(1)] assms(3) by (simp add: conditions_run_def)
  have "steps b1 \<le> steps (fBudget (snd (flow_run h now r req b1 w)))" if "conditions_run now r req b = (Inr ok, b1)" for ok b1
  proof -
    have "0 \<le> nesting b1" using conditions_run_spent [OF assms(1), of now r req] that assms(1) by (simp add: spent_def)
    then show ?thesis using flow_run_spent [of b1 h now r req w] by (simp add: spent_def)
  qed
  then show ?thesis using c assms(2) by (cases rule: Decide_cases [of r b h now req w]) force+
qed

lemma walk_limits:
  "MaxNesting b' = MaxNesting b \<Longrightarrow> walkBounds sts b' d = walkBounds sts b d"
  "MaxNesting b' = MaxNesting b \<Longrightarrow> walk_steps sts b' d = walk_steps sts b d"
  by (induction sts b d and sts b d rule: walkBounds_walk_steps.induct)
    (auto simp: seq_err.simps split: option.split)

lemma static_error_limits: "same_limits b b' \<Longrightarrow> static_error r b' = static_error r b"
  by (simp only: static_error_def CheckStaticBounds_def same_limits_def walk_limits(1) [of b' b])

lemma Decide_exhausted:
  assumes "static_error r b = None" "RuleConditions r = Some c" "MaxSteps b \<le> steps b"
  shows "Decide h now r req (b, w) =
    (Inl (BudgetError KindSteps (steps b + 1) (MaxSteps b)), b\<lparr>steps := steps b + 1\<rparr>, w)"
proof -
  have "Budget_Step now b = (Some (BudgetError KindSteps (steps b + 1) (MaxSteps b)), b\<lparr>steps := steps b + 1\<rparr>)"
    using assms(3) by (simp add: Budget_Step_def)
  then have "conditions_run now r req b = (Inl (BudgetError KindSteps (steps b + 1) (MaxSteps b)), b\<lparr>steps := steps b + 1\<rparr>)"
    using assms(2) by (cases c) (simp add: conditions_run_def)
  then show ?thesis using assms(1) by (simp add: Decide_eq)
qed


subsection \<open>Witnesses\<close>

text \<open>A rule that checks the method of a request and then runs two operations.\<close>

definition sample_rule :: Rule where
  "sample_rule = \<lparr>RuleID = ''r1'', RuleVersion = ''1.0.0'', RuleScheme = ''std/database-v1'', RuleCapability = ''query:SELECT'',
     RuleParams = [], RuleConditions = Some (Condition ''eq'' ''request.method'' (JStr ''GET'') [] []), RuleConstraints = [],
     RuleFlow = Some [Step ''a'' ''op'' ''open'' None [] [] [], Step ''b'' ''seq'' [] None [] [] [Step ''c'' ''op'' ''read'' None [] [] []]]\<rparr>"

definition ok_handler :: "nat handler" where
  "ok_handler w op vars req = (Inr [], w + 1)"

definition sample_request :: obj where
  "sample_request = [(''method'', JStr ''GET'')]"

definition no_clock :: "int \<Rightarrow> instant" where
  "no_clock i = zero_time"

lemmas sample_defs = sample_rule_def ok_handler_def sample_request_def no_clock_def NewBudget_def DefaultMaxSteps_def
  DefaultMaxDepth_def DefaultMaxNesting_def rule_size_def rule_height_def opt_size_def opt_height_def fits_def

lemma sample_fits: "fits NewBudget 0 (rule_size sample_rule) (rule_height sample_rule)"
  by (simp add: sample_defs)

lemma sample_allowed:
  "Decide ok_handler no_clock sample_rule sample_request (NewBudget, 0) =
     (Inr \<lparr>Allow = True, RuleReason = [], RuleSteps = 4\<rparr>, NewBudget\<lparr>steps := 4\<rparr>, 2)"
  by code_simp


theorem EvalCondition_correct_witness:
  "fst (EvalCondition no_clock [(''n'', JStr ''x'')] (Condition ''not'' [] JNull [] [Condition ''eq'' ''n'' (JStr ''y'') [] []]) NewBudget 0) = Inr True"
proof -
  let ?c = "Condition ''not'' [] JNull [] [Condition ''eq'' ''n'' (JStr ''y'') [] []]"
  have f: "fits NewBudget 0 (cond_size ?c) (cond_height ?c)" by (simp add: sample_defs)
  have s: "cond_sem [(''n'', JStr ''x'')] ?c = Inr True" by code_simp
  show ?thesis unfolding EvalCondition_correct [OF f] s ..
qed

theorem Decide_budget_witness:
  "same_limits NewBudget (NewBudget\<lparr>steps := 4\<rparr>) \<and> steps (NewBudget\<lparr>steps := 4\<rparr>) \<le> steps NewBudget + rule_size sample_rule"
  using Decide_budget [OF _ sample_allowed] by (simp add: NewBudget_def)


end
