(* ===== verification/Rule_Sql.thy ===== *)
theory Rule_Sql
  imports Canonical_Laws Grants
begin

text \<open>
  SQL generation of \<open>ruleexec/sqlgen.go\<close>: the translation of a structured query contract into a parameterized
  statement, and a reader of MySQL texts that tells the quoted identifiers from the rest. The contract comes here
  as the fields \<open>json.Unmarshal\<close> fills; a key that is missing in one of its maps reads as nil.
\<close>

datatype sql_error = SqlError string "string list"

type_synonym sql = "sql_error + string \<times> json list"

record SelectParams =
  Tables :: "string list"
  Columns :: obj
  RowFilter :: "obj option"
  Limit :: "int option"

definition replace_char :: "char \<Rightarrow> string \<Rightarrow> string \<Rightarrow> string" where
  "replace_char c r s = concat (map (\<lambda>x. if x = c then r else [x]) s)"

definition quoteIdent :: "string \<Rightarrow> string" where
  "quoteIdent s = ''`'' @ replace_char (CHR ''`'') ''``'' s @ ''`''"

definition is_JStr :: "json \<Rightarrow> bool" where
  "is_JStr v \<longleftrightarrow> (case v of JStr s \<Rightarrow> True | _ \<Rightarrow> False)"

definition colExpr :: "string \<Rightarrow> json \<Rightarrow> string" where
  "colExpr col val =
     (case val of
        JStr s \<Rightarrow> ''BINARY '' @ quoteIdent col
      | JArr vs \<Rightarrow> if list_ex is_JStr vs then ''BINARY '' @ quoteIdent col else quoteIdent col
      | _ \<Rightarrow> quoteIdent col)"

definition sqlOp :: "(string \<times> string) list" where
  "sqlOp = [(''='', ''=''), (''!='', ''!=''), (''<'', ''<''), (''<='', ''<=''), (''>'', ''>''), (''>='', ''>=''),
     (''in'', ''IN''), (''not in'', ''NOT IN''), (''between'', ''BETWEEN''), (''like'', ''LIKE''),
     (''is null'', ''IS NULL''), (''is not null'', ''IS NOT NULL'')]"

definition renderCondition :: "string \<Rightarrow> string \<Rightarrow> json \<Rightarrow> sql" where
  "renderCondition col op val =
     (case map_of sqlOp op of
        None \<Rightarrow> Inl (SqlError ''unsupported filter op %q'' [op])
      | Some kw \<Rightarrow>
          let q = colExpr col val
          in if op \<in> {''='', ''!='', ''<'', ''<='', ''>'', ''>=''} then
               if val = JNull then Inl (SqlError ''op %s: comparing to NULL is not supported'' [op])
               else Inr (q @ '' '' @ kw @ '' ?'', [val])
             else if op \<in> {''in'', ''not in''} then
               (case val of
                  JArr vs \<Rightarrow>
                    if vs = [] then Inl (SqlError ''op %s requires a non-empty list'' [op])
                    else if JNull \<in> set vs then Inl (SqlError ''op %s: null elements are not allowed'' [op])
                    else Inr (q @ '' '' @ kw @ '' ('' @ join_with '', '' (map (\<lambda>_. ''?'') vs) @ '')'', vs)
                | _ \<Rightarrow> Inl (SqlError ''op %s requires a non-empty list'' [op]))
             else if op = ''between'' then
               (case val of
                  JArr [lo, hi] \<Rightarrow>
                    if lo = JNull \<or> hi = JNull then Inl (SqlError ''op between: null bounds are not allowed'' [])
                    else Inr (q @ '' '' @ kw @ '' ? AND ?'', [lo, hi])
                | _ \<Rightarrow> Inl (SqlError ''op between requires [lo, hi]'' []))
             else if op = ''like'' then
               if val = JNull then Inl (SqlError ''op like: comparing to NULL is not supported'' [])
               else Inr (q @ '' '' @ kw @ '' ?'', [val])
             else Inr (q @ '' '' @ kw, []))"

definition join_parts :: "string \<Rightarrow> sql_error + (string \<times> json list) list \<Rightarrow> sql" where
  "join_parts sep r =
     (case r of
        Inl e \<Rightarrow> Inl e
      | Inr ps \<Rightarrow>
          if ps = [] then Inl (SqlError ''filter list must not be empty'' [])
          else Inr (join_with sep (map (\<lambda>p. ''('' @ fst p @ '')'') ps), concat (map snd ps)))"

text \<open>
  The type switches on a filter node, shared by the renderer and by the column check: a string under
  \<open>column\<close>, then a list under \<open>and\<close> and \<open>or\<close>, then any value under \<open>not\<close>.
\<close>

datatype filter_view = FColumn string string json | FAnd "json list" | FOr "json list" | FNot json | FInvalid | FNoObject

definition as_str :: "json \<Rightarrow> string option" where
  "as_str v = (case v of JStr s \<Rightarrow> Some s | _ \<Rightarrow> None)"

definition as_arr :: "json \<Rightarrow> json list option" where
  "as_arr v = (case v of JArr xs \<Rightarrow> Some xs | _ \<Rightarrow> None)"

definition field :: "obj \<Rightarrow> string \<Rightarrow> json" where
  "field m k = (case map_of m k of Some v \<Rightarrow> v | None \<Rightarrow> JNull)"

definition filter_node :: "json \<Rightarrow> filter_view" where
  "filter_node node =
     (case node of
        JObj m \<Rightarrow>
          (case as_str (field m ''column'') of
             Some col \<Rightarrow>
               FColumn col (case as_str (field m ''op'') of Some op \<Rightarrow> op | None \<Rightarrow> []) (field m ''value'')
           | None \<Rightarrow>
               (case as_arr (field m ''and'') of
                  Some items \<Rightarrow> FAnd items
                | None \<Rightarrow>
                    (case as_arr (field m ''or'') of
                       Some items \<Rightarrow> FOr items
                     | None \<Rightarrow> (case map_of m ''not'' of Some inner \<Rightarrow> FNot inner | None \<Rightarrow> FInvalid))))
      | _ \<Rightarrow> FNoObject)"

lemma field_items_size:
  assumes "as_arr (field m k) = Some items" "x \<in> set items"
  shows "size x < size (JObj m)"
proof -
  have "map_of m k = Some (JArr items)"
    using assms(1) by (auto simp: as_arr_def field_def split: option.splits json.splits)
  then have "size (JArr items) < size (JObj m)" using json_size_map_of [of m k "JArr items"] by simp
  moreover have "size x < size (JArr items)" using assms(2) by (induction items) auto
  ultimately show ?thesis by simp
qed

lemma filter_node_size:
  "filter_node v = FAnd items \<Longrightarrow> x \<in> set items \<Longrightarrow> size x < size v"
  "filter_node v = FOr items \<Longrightarrow> x \<in> set items \<Longrightarrow> size x < size v"
  "filter_node v = FNot y \<Longrightarrow> size y < size v"
  using field_items_size json_size_map_of
  by (auto simp: filter_node_def split: json.splits option.splits)

text \<open>
  \<open>renderList\<close> is \<open>join_parts\<close> over the rendered items: it refuses the empty list, stops at the first error,
  parenthesises the parts and appends the arguments.
\<close>

function filterToSQL :: "json \<Rightarrow> sql" where
  "filterToSQL node =
     (case filter_node node of
        FColumn col op val \<Rightarrow> renderCondition col op val
      | FAnd items \<Rightarrow> join_parts '' AND '' (map_err filterToSQL items)
      | FOr items \<Rightarrow> join_parts '' OR '' (map_err filterToSQL items)
      | FNot inner \<Rightarrow>
          (case filterToSQL inner of
             Inl e \<Rightarrow> Inl e
           | Inr (s, a) \<Rightarrow> Inr (''NOT ('' @ s @ '')'', a))
      | FInvalid \<Rightarrow> Inl (SqlError ''invalid filter structure'' [])
      | FNoObject \<Rightarrow> Inl (SqlError ''filter must be an object'' []))"
  by pat_completeness auto
termination
  by (relation "measure size") (auto dest: filter_node_size)

declare filterToSQL.simps [simp del]

definition sqlColumnList :: "json \<Rightarrow> string \<Rightarrow> sql_error + string" where
  "sqlColumnList v tbl =
     (case v of
        JStr cv \<Rightarrow>
          if cv = ''*'' then Inr ''*'' else Inl (SqlError ''columns[%q] must be an array or *'' [tbl])
      | JArr cv \<Rightarrow>
          if cv = [] then Inl (SqlError ''columns[%q] must not be empty'' [tbl])
          else
            (case those (map as_str cv) of
               None \<Rightarrow> Inl (SqlError ''columns[%q] must be strings'' [tbl])
             | Some cs \<Rightarrow> Inr (join_with '', '' (map quoteIdent cs)))
      | _ \<Rightarrow> Inl (SqlError ''columns[%q] must be an array or *'' [tbl]))"

definition where_clause :: "obj \<Rightarrow> string \<Rightarrow> sql" where
  "where_clause filters tbl =
     (case map_of filters tbl of
        None \<Rightarrow> Inr ([], [])
      | Some filt \<Rightarrow>
          (case filterToSQL filt of
             Inl e \<Rightarrow> Inl e
           | Inr (s, a) \<Rightarrow> Inr ('' WHERE '' @ s, a)))"

definition limit_clause :: "int option \<Rightarrow> string" where
  "limit_clause l = (case l of Some n \<Rightarrow> if 0 < n then '' LIMIT '' @ itoa n else [] | None \<Rightarrow> [])"

definition GenerateSelectSQL :: "SelectParams \<Rightarrow> sql" where
  "GenerateSelectSQL p =
     (case Tables p of
        [tbl] \<Rightarrow>
          (case sqlColumnList (case map_of (Columns p) tbl of Some v \<Rightarrow> v | None \<Rightarrow> JNull) tbl of
             Inl e \<Rightarrow> Inl e
           | Inr cols \<Rightarrow>
               (case where_clause (entries (RowFilter p)) tbl of
                  Inl e \<Rightarrow> Inl e
                | Inr (wh, args) \<Rightarrow>
                    Inr (''SELECT '' @ cols @ '' FROM '' @ quoteIdent tbl @ wh @ limit_clause (Limit p), args)))
      | _ \<Rightarrow> Inl (SqlError ''v1 SELECT requires exactly one table'' []))"

subsection \<open>Reading a statement\<close>

text \<open>
  A reader for the quoting rule of MySQL: a backtick opens an identifier, a doubled backtick inside it is one
  backtick, a single one closes it. It returns the text with each identifier replaced by a backtick, and the
  identifiers; \<open>None\<close> stands for an identifier that is never closed.
\<close>

fun read_ident :: "string \<Rightarrow> (string \<times> string) option" where
  "read_ident [] = None"
| "read_ident [c] = (if c = CHR ''`'' then Some ([], []) else None)"
| "read_ident (c # d # s) =
     (if c \<noteq> CHR ''`'' then map_option (apfst (Cons c)) (read_ident (d # s))
      else if d = CHR ''`'' then map_option (apfst (Cons c)) (read_ident s)
      else Some ([], d # s))"

lemma read_ident_length: "read_ident s = Some (i, r) \<Longrightarrow> length r < length s"
  by (induction s arbitrary: i r rule: read_ident.induct) (auto split: if_splits)

function read_sql :: "string \<Rightarrow> (string \<times> string list) option" where
  "read_sql [] = Some ([], [])"
| "read_sql (c # s) =
     (if c = CHR ''`'' then
        (case read_ident s of
           None \<Rightarrow> None
         | Some (i, r) \<Rightarrow> map_option (\<lambda>(t, is). (c # t, i # is)) (read_sql r))
      else map_option (apfst (Cons c)) (read_sql s))"
  by pat_completeness auto
termination
  by (relation "measure length") (auto dest: read_ident_length)

definition sql_chars :: "char set" where
  "sql_chars = set ''`?ABCDEFGHIJKLMNOPQRSTUVWXYZ0123456789 ,()=!<>*''"

definition no_tick :: "string \<Rightarrow> bool" where
  "no_tick r \<longleftrightarrow> (case r of [] \<Rightarrow> True | c # _ \<Rightarrow> c \<noteq> CHR ''`'')"

lemma read_ident_quoted:
  assumes "no_tick r"
  shows "read_ident (replace_char (CHR ''`'') ''``'' s @ CHR ''`'' # r) = Some (s, r)"
proof (induction s)
  case Nil
  then show ?case using assms by (cases r) (simp_all add: replace_char_def no_tick_def)
next
  case (Cons x s)
  obtain y ys where y: "replace_char (CHR ''`'') ''``'' s @ CHR ''`'' # r = y # ys"
    by (cases "replace_char (CHR ''`'') ''``'' s @ CHR ''`'' # r") simp_all
  have "read_ident (y # ys) = Some (s, r)" using Cons y by simp
  then show ?case using y by (simp add: replace_char_def)
qed

text \<open>
  A fragment: wherever it stands, unless a backtick follows it directly, it reads as the given identifiers and a
  text of fixed characters with the given number of placeholders.
\<close>

definition fragment :: "string \<Rightarrow> string list \<Rightarrow> nat \<Rightarrow> bool" where
  "fragment s ids n \<longleftrightarrow>
     (\<exists>sk. set sk \<subseteq> sql_chars \<and> count_list sk (CHR ''?'') = n \<and>
        (\<forall>r. no_tick r \<longrightarrow> read_sql (s @ r) = map_option (\<lambda>(t, is). (sk @ t, ids @ is)) (read_sql r)))"

definition fixed :: "string \<Rightarrow> bool" where
  "fixed s \<longleftrightarrow> CHR ''`'' \<notin> set s \<and> set s \<subseteq> sql_chars"

lemma read_sql_fixed:
  "fixed p \<Longrightarrow> read_sql (p @ r) = map_option (\<lambda>(t, is). (p @ t, is)) (read_sql r)"
  by (induction p) (auto simp: fixed_def option.map_comp comp_def split_def option.map_ident)

lemma fragment_ident: "fragment (quoteIdent c) [c] 0"
  unfolding fragment_def quoteIdent_def
  by (rule exI [of _ "''`''"]) (auto simp: sql_chars_def read_ident_quoted)

lemma fragment_left:
  assumes "fixed p" "fragment s ids n"
  shows "fragment (p @ s) ids (count_list p (CHR ''?'') + n)"
proof -
  obtain sk where sk: "set sk \<subseteq> sql_chars" "count_list sk (CHR ''?'') = n"
    "\<And>r. no_tick r \<Longrightarrow> read_sql (s @ r) = map_option (\<lambda>(t, is). (sk @ t, ids @ is)) (read_sql r)"
    using assms(2) by (auto simp: fragment_def)
  show ?thesis unfolding fragment_def
    by (rule exI [of _ "p @ sk"])
      (use assms(1) sk in \<open>auto simp: fixed_def [of p] read_sql_fixed [OF assms(1)] option.map_comp comp_def split_def\<close>)
qed

lemma fragment_append:
  assumes "fragment s ids n" "fragment t is m" "no_tick t"
  shows "fragment (s @ t) (ids @ is) (n + m)"
proof (cases "t = []")
  case True
  obtain tk where "count_list tk (CHR ''?'') = m" "\<forall>r. no_tick r \<longrightarrow> read_sql (t @ r) = map_option (\<lambda>(u, js). (tk @ u, is @ js)) (read_sql r)"
    using assms(2) unfolding fragment_def by blast
  then have "is = [] \<and> m = 0" using True by (auto simp: no_tick_def dest: spec [of _ "[]"])
  then show ?thesis using True assms(1) by simp
next
  case False
  obtain sk where sk: "set sk \<subseteq> sql_chars" "count_list sk (CHR ''?'') = n"
    "\<And>r. no_tick r \<Longrightarrow> read_sql (s @ r) = map_option (\<lambda>(t, is). (sk @ t, ids @ is)) (read_sql r)"
    using assms(1) by (auto simp: fragment_def)
  obtain tk where tk: "set tk \<subseteq> sql_chars" "count_list tk (CHR ''?'') = m"
    "\<And>r. no_tick r \<Longrightarrow> read_sql (t @ r) = map_option (\<lambda>(u, js). (tk @ u, is @ js)) (read_sql r)"
    using assms(2) by (auto simp: fragment_def)
  have "no_tick (t @ r)" for r using assms(3) False by (cases t) (auto simp: no_tick_def)
  then show ?thesis unfolding fragment_def
    by (intro exI [of _ "sk @ tk"]) (use sk tk in \<open>auto simp: option.map_comp comp_def split_def\<close>)
qed

lemma fragment_fixed: "fixed p \<Longrightarrow> fragment p [] (count_list p (CHR ''?''))"
  unfolding fragment_def by (rule exI [of _ p]) (auto simp: fixed_def [of p] read_sql_fixed)

subsection \<open>What a filter mentions\<close>

function filter_columns :: "json \<Rightarrow> string list" where
  "filter_columns node =
     (case filter_node node of
        FColumn col op val \<Rightarrow> [col]
      | FAnd items \<Rightarrow> concat (map filter_columns items)
      | FOr items \<Rightarrow> concat (map filter_columns items)
      | FNot inner \<Rightarrow> filter_columns inner
      | _ \<Rightarrow> [])"
  by pat_completeness auto
termination
  by (relation "measure size") (auto dest: filter_node_size)

function filter_values :: "json \<Rightarrow> json list" where
  "filter_values node =
     (case filter_node node of
        FColumn col op val \<Rightarrow>
          if op \<in> {''in'', ''not in'', ''between''} then (case as_arr val of Some vs \<Rightarrow> vs | None \<Rightarrow> [])
          else if op \<in> {''is null'', ''is not null''} then [] else [val]
      | FAnd items \<Rightarrow> concat (map filter_values items)
      | FOr items \<Rightarrow> concat (map filter_values items)
      | FNot inner \<Rightarrow> filter_values inner
      | _ \<Rightarrow> [])"
  by pat_completeness auto
termination
  by (relation "measure size") (auto dest: filter_node_size)

declare filter_columns.simps [simp del] filter_values.simps [simp del]

subsection \<open>Rendered texts are fragments\<close>

lemma fragment_colExpr: "fragment (colExpr col val) [col] 0"
proof -
  have "fixed ''BINARY ''" by (simp add: fixed_def sql_chars_def)
  from fragment_left [OF this fragment_ident, of col] have "fragment (''BINARY '' @ quoteIdent col) [col] 0" by simp
  then show ?thesis using fragment_ident [of col] by (simp add: colExpr_def split: json.split)
qed

lemma sqlOp_fixed: "map_of sqlOp op = Some kw \<Longrightarrow> fixed kw \<and> count_list kw (CHR ''?'') = 0"
  by (auto simp: sqlOp_def fixed_def sql_chars_def split: if_splits)

lemma fixed_append: "fixed s \<Longrightarrow> fixed t \<Longrightarrow> fixed (s @ t)"
  by (auto simp: fixed_def)

lemma fragment_right:
  assumes "fragment s ids n" "fixed t" "t \<noteq> []"
  shows "fragment (s @ t) ids (n + count_list t (CHR ''?''))"
proof -
  have "no_tick t" using assms(2,3) by (cases t) (auto simp: fixed_def no_tick_def)
  then show ?thesis using fragment_append [OF assms(1) fragment_fixed [OF assms(2)]] by simp
qed

lemma placeholders: "fixed (join_with '', '' (map (\<lambda>_. ''?'') vs)) \<and> count_list (join_with '', '' (map (\<lambda>_. ''?'') vs)) (CHR ''?'') = length vs"
  by (induction vs rule: induct_list012) (auto simp: fixed_def sql_chars_def)

lemma fragment_tail:
  assumes "fixed kw" "count_list kw (CHR ''?'') = 0" "fixed t"
  shows "fragment (colExpr col val @ '' '' @ kw @ t) [col] (count_list t (CHR ''?''))"
proof -
  have "fixed ('' '' @ kw @ t)" using assms by (intro fixed_append) (simp_all add: fixed_def sql_chars_def)
  from fragment_right [OF fragment_colExpr this, of col val] show ?thesis using assms(2) by simp
qed

lemma renderCondition_fragment:
  assumes "renderCondition col op val = Inr (s, a)"
  shows "fragment s [col] (length a)"
proof -
  obtain kw where kw: "map_of sqlOp op = Some kw" using assms by (auto simp: renderCondition_def split: option.splits)
  note t = fragment_tail [OF sqlOp_fixed [OF kw, THEN conjunct1] sqlOp_fixed [OF kw, THEN conjunct2], of _ col val]
  have f: "fixed '' ?''" "fixed '' ? AND ?''" "fixed []" by (simp_all add: fixed_def sql_chars_def)
  have l: "fixed ('' ('' @ join_with '', '' (map (\<lambda>_. ''?'') vs) @ '')'')" for vs :: "json list"
    using placeholders [of vs] by (intro fixed_append) (simp_all add: fixed_def sql_chars_def)
  have c: "fragment (colExpr col val @ '' '' @ kw @ '' ?'') [col] 1" "fragment (colExpr col val @ '' '' @ kw @ '' ? AND ?'') [col] (Suc (Suc 0))"
    "fragment (colExpr col val @ '' '' @ kw) [col] 0" using t [OF f(1)] t [OF f(2)] t [OF f(3)] by simp_all
  have d: "fragment (colExpr col val @ '' '' @ kw @ '' ('' @ join_with '', '' (map (\<lambda>_. ''?'') vs) @ '')'') [col] (length vs)"
    for vs :: "json list" using t [OF l [of vs]] placeholders [of vs] by simp
  have "(\<exists>v. s = colExpr col val @ '' '' @ kw @ '' ?'' \<and> a = [v]) \<or>
      (\<exists>v w. s = colExpr col val @ '' '' @ kw @ '' ? AND ?'' \<and> a = [v, w]) \<or>
      s = colExpr col val @ '' '' @ kw @ '' ('' @ join_with '', '' (map (\<lambda>_. ''?'') a) @ '')'' \<or>
      (s = colExpr col val @ '' '' @ kw \<and> a = [])"
    using assms unfolding renderCondition_def kw
    by (auto simp: Let_def split: if_splits json.splits list.splits)
  then show ?thesis
  proof (elim disjE)
    assume "\<exists>v. s = colExpr col val @ '' '' @ kw @ '' ?'' \<and> a = [v]"
    then show ?thesis using c(1) by auto
  next
    assume "\<exists>v w. s = colExpr col val @ '' '' @ kw @ '' ? AND ?'' \<and> a = [v, w]"
    then show ?thesis using c(2) by auto
  next
    assume "s = colExpr col val @ '' '' @ kw @ '' ('' @ join_with '', '' (map (\<lambda>_. ''?'') a) @ '')''"
    then show ?thesis using d [of a] by simp
  next
    assume "s = colExpr col val @ '' '' @ kw \<and> a = []"
    then show ?thesis using c(3) by simp
  qed
qed

lemma renderCondition_args:
  assumes "renderCondition col op val = Inr (s, a)"
  shows "a = (if op \<in> {''in'', ''not in'', ''between''} then (case as_arr val of Some vs \<Rightarrow> vs | None \<Rightarrow> [])
          else if op \<in> {''is null'', ''is not null''} then [] else [val])"
proof -
  obtain kw where kw: "map_of sqlOp op = Some kw" using assms by (auto simp: renderCondition_def split: option.splits)
  then have "op \<in> set (map fst sqlOp)" by (metis map_of_eq_None_iff option.distinct(1) set_map)
  then show ?thesis using assms unfolding renderCondition_def kw
    by (auto simp: Let_def sqlOp_def as_arr_def split: if_splits json.splits list.splits)
qed

lemma join_parts_fragment:
  assumes "list_all2 (\<lambda>p ids. fragment (fst p) ids (length (snd p))) ps idss" "ps \<noteq> []"
    and "fixed sep" "sep \<noteq> []" "count_list sep (CHR ''?'') = 0"
  shows "fragment (join_with sep (map (\<lambda>p. ''('' @ fst p @ '')'') ps)) (concat idss) (length (concat (map snd ps)))"
  using assms(1,2)
proof (induction ps arbitrary: idss rule: induct_list012)
  case (2 p)
  then obtain ids where i: "idss = [ids]" "fragment (fst p) ids (length (snd p))" by (auto simp: list_all2_Cons1)
  have "fragment (''('' @ (fst p @ '')'')) ids (length (snd p))"
    using fragment_left [OF _ fragment_right [OF i(2)], of "''(''" "'')''"] by (simp add: fixed_def sql_chars_def)
  then show ?case using i by simp
next
  case (3 p q ps)
  then obtain ids js where i: "idss = ids # js" "fragment (fst p) ids (length (snd p))"
    "list_all2 (\<lambda>p ids. fragment (fst p) ids (length (snd p))) (q # ps) js" by (auto simp: list_all2_Cons1)
  have p: "fragment (''('' @ (fst p @ '')'')) ids (length (snd p))"
    using fragment_left [OF _ fragment_right [OF i(2)], of "''(''" "'')''"] by (simp add: fixed_def sql_chars_def)
  have q: "fragment (sep @ join_with sep (map (\<lambda>p. ''('' @ fst p @ '')'') (q # ps))) (concat js) (length (concat (map snd (q # ps))))"
    using fragment_left [OF assms(3) 3(2) [OF i(3)]] assms(5) by simp
  have n: "no_tick (sep @ x)" for x using assms(3,4) by (cases sep) (auto simp: fixed_def no_tick_def)
  show ?case using fragment_append [OF p q n] i by simp
qed simp

lemma join_parts_ok:
  assumes "join_parts sep (map_err filterToSQL items) = Inr (s, a)"
    and "fixed sep" "sep \<noteq> []" "count_list sep (CHR ''?'') = 0"
    and ih: "\<And>x s a. x \<in> set items \<Longrightarrow> filterToSQL x = Inr (s, a) \<Longrightarrow> fragment s (filter_columns x) (length a) \<and> a = filter_values x"
  shows "fragment s (concat (map filter_columns items)) (length a) \<and> a = concat (map filter_values items)"
proof -
  obtain ps where ps: "map_err filterToSQL items = Inr ps" "ps \<noteq> []"
    "s = join_with sep (map (\<lambda>p. ''('' @ fst p @ '')'') ps)" "a = concat (map snd ps)"
    using assms(1) by (auto simp: join_parts_def split: sum.splits if_splits)
  have l: "list_all2 (\<lambda>x p. filterToSQL x = Inr p) items ps" using ps(1) by (simp add: map_err_Inr)
  have f: "list_all2 (\<lambda>p ids. fragment (fst p) ids (length (snd p))) ps (map filter_columns items)"
    using l ih by (auto simp: list_all2_conv_all_nth in_set_conv_nth) (metis prod.collapse nth_mem)
  have v: "map snd ps = map filter_values items"
    by (rule nth_equalityI) (use l ih in \<open>auto simp: list_all2_conv_all_nth\<close>, metis prod.collapse nth_mem)
  show ?thesis using join_parts_fragment [OF f ps(2) assms(2-4)] ps(3,4) v by simp
qed

lemma filterToSQL_ok:
  "filterToSQL v = Inr (s, a) \<Longrightarrow> fragment s (filter_columns v) (length a) \<and> a = filter_values v"
proof (induction v arbitrary: s a rule: filterToSQL.induct)
  case (1 node)
  have sep: "fixed '' AND ''" "fixed '' OR ''" by (simp_all add: fixed_def sql_chars_def)
  note unf = filter_columns.simps [of node] filter_values.simps [of node] filterToSQL.simps [of node]
  show ?case
  proof (cases "filter_node node")
    case (FColumn col op val)
    then show ?thesis using 1(4) renderCondition_fragment renderCondition_args by (simp add: unf)
  next
    case (FAnd items)
    have j: "join_parts '' AND '' (map_err filterToSQL items) = Inr (s, a)" using 1(4) FAnd by (simp add: unf)
    show ?thesis unfolding unf(1,2) FAnd filter_view.case
      by (rule join_parts_ok [OF j sep(1)]) (use 1(1) [OF FAnd] in simp_all)
  next
    case (FOr items)
    have j: "join_parts '' OR '' (map_err filterToSQL items) = Inr (s, a)" using 1(4) FOr by (simp add: unf)
    show ?thesis unfolding unf(1,2) FOr filter_view.case
      by (rule join_parts_ok [OF j sep(2)]) (use 1(2) [OF FOr] in simp_all)
  next
    case (FNot inner)
    obtain t where t: "filterToSQL inner = Inr (t, a)" "s = ''NOT ('' @ (t @ '')'')"
      using 1(4) FNot by (auto simp: unf split: sum.splits)
    have ih: "fragment t (filter_columns inner) (length a)" "a = filter_values inner" using 1(3) [OF FNot t(1)] by auto
    have "fragment s (filter_columns inner) (length a)"
      using fragment_left [OF _ fragment_right [OF ih(1)], of "''NOT (''" "'')''"] t(2) by (simp add: fixed_def sql_chars_def)
    then show ?thesis using FNot ih(2) by (simp add: unf)
  qed (use 1(4) in \<open>simp_all add: unf\<close>)
qed

definition column_names :: "json \<Rightarrow> string list" where
  "column_names v = (case v of JArr cs \<Rightarrow> (case those (map as_str cs) of Some ns \<Rightarrow> ns | None \<Rightarrow> []) | _ \<Rightarrow> [])"

lemma quoted_list_fragment: "cs \<noteq> [] \<Longrightarrow> fragment (join_with '', '' (map quoteIdent cs)) cs 0"
proof (induction cs rule: induct_list012)
  case (2 c)
  then show ?case by (simp add: fragment_ident)
next
  case (3 c d cs)
  have f: "fixed '', ''" by (simp add: fixed_def sql_chars_def)
  have t: "fragment ('', '' @ join_with '', '' (map quoteIdent (d # cs))) (d # cs) 0"
    using fragment_left [OF f 3(2)] by simp
  show ?case using fragment_append [OF fragment_ident [of c] t] by (simp add: no_tick_def)
qed simp

lemma those_length: "those xs = Some ys \<Longrightarrow> length ys = length xs"
  by (induction xs arbitrary: ys) (auto split: option.splits)

lemma sqlColumnList_fragment:
  assumes "sqlColumnList v tbl = Inr cols"
  shows "fragment cols (column_names v) 0"
proof -
  have "fragment ''*'' [] 0" using fragment_fixed [of "''*''"] by (simp add: fixed_def sql_chars_def)
  moreover have "fragment (join_with '', '' (map quoteIdent ns)) ns 0" if "those (map as_str cs) = Some ns" "cs \<noteq> []" for cs ns
    by (rule quoted_list_fragment) (use those_length [OF that(1)] that(2) in auto)
  ultimately show ?thesis using assms
    by (auto simp: sqlColumnList_def column_names_def split: json.splits if_splits option.splits)
qed

lemma digit_char_set:
  assumes "digit_char c"
  shows "c \<in> set ''0123456789''"
proof -
  define n :: int where "n = of_char c"
  have c: "c = d \<longleftrightarrow> n = of_char d" for d by (simp add: n_def)
  have "n = 48 \<or> n = 49 \<or> n = 50 \<or> n = 51 \<or> n = 52 \<or> n = 53 \<or> n = 54 \<or> n = 55 \<or> n = 56 \<or> n = 57"
    using assms unfolding digit_char_def n_def [symmetric] by arith
  then show ?thesis by (simp add: c)
qed

lemma itoa_fixed:
  assumes "0 < n"
  shows "fixed (itoa n)" "count_list (itoa n) (CHR ''?'') = 0"
proof -
  have d: "\<forall>c \<in> set (itoa n). digit_char c" using assms itoa_nat_digits [of n] by (simp add: itoa_def)
  have "c \<in> sql_chars \<and> c \<noteq> CHR ''`'' \<and> c \<noteq> CHR ''?''" if "c \<in> set (itoa n)" for c
    using digit_char_set d that by (fastforce simp: sql_chars_def)
  then show "fixed (itoa n)" "count_list (itoa n) (CHR ''?'') = 0"
    unfolding fixed_def count_list_0_iff by blast+
qed

lemma limit_fixed: "fixed (limit_clause l)" "count_list (limit_clause l) (CHR ''?'') = 0"
proof -
  have "fixed '' LIMIT ''" "fixed []" by (simp_all add: fixed_def sql_chars_def)
  then show "fixed (limit_clause l)" "count_list (limit_clause l) (CHR ''?'') = 0"
    using itoa_fixed fixed_append [of "'' LIMIT ''"] by (simp_all add: limit_clause_def split: option.split)
qed

lemma where_fragment:
  assumes "where_clause fs tbl = Inr (wh, args)"
  shows "fragment (wh @ limit_clause l) (case map_of fs tbl of Some f \<Rightarrow> filter_columns f | None \<Rightarrow> []) (length args) \<and>
    args = (case map_of fs tbl of Some f \<Rightarrow> filter_values f | None \<Rightarrow> []) \<and> no_tick (wh @ limit_clause l)"
proof (cases "map_of fs tbl")
  case None
  have "no_tick (limit_clause l)" by (simp add: limit_clause_def no_tick_def split: option.split)
  then show ?thesis using None assms fragment_fixed [OF limit_fixed(1)] limit_fixed(2) by (simp add: where_clause_def)
next
  case (Some f)
  obtain s where s: "filterToSQL f = Inr (s, args)" "wh = '' WHERE '' @ s"
    using assms Some by (auto simp: where_clause_def split: sum.splits)
  have f: "fragment s (filter_columns f) (length args)" "args = filter_values f" using filterToSQL_ok [OF s(1)] by auto
  have sl: "fragment (s @ limit_clause l) (filter_columns f) (length args)"
    using f(1) fragment_right [OF f(1) limit_fixed(1)] limit_fixed(2) by (cases "limit_clause l = []") simp_all
  have "fixed '' WHERE ''" by (simp add: fixed_def sql_chars_def)
  from fragment_left [OF this sl] show ?thesis using Some f(2) s(2) by (simp add: no_tick_def)
qed

text \<open>
  C37. Whatever the names and values of a query contract are, they cannot leave their place in the generated statement:
  read with the quoting rule of MySQL, its identifiers are exactly the declared columns, the table and the
  columns of the row filter, in this order and unchanged; the text around them consists of a fixed set of characters
  without quotes, semicolons or comment signs; it has exactly one placeholder per argument, and the arguments are
  the values of the filter in order.
\<close>

theorem GenerateSelectSQL_injection_free:
  assumes "GenerateSelectSQL p = Inr (sql, args)"
  shows "\<exists>tbl skeleton filt. Tables p = [tbl] \<and> filt = map_of (entries (RowFilter p)) tbl \<and>
     read_sql sql = Some (skeleton,
       column_names (field (Columns p) tbl) @ tbl # (case filt of Some f \<Rightarrow> filter_columns f | None \<Rightarrow> [])) \<and>
     set skeleton \<subseteq> sql_chars \<and> count_list skeleton (CHR ''?'') = length args \<and>
     args = (case filt of Some f \<Rightarrow> filter_values f | None \<Rightarrow> [])"
proof -
  obtain tbl cols wh where p: "Tables p = [tbl]" "sqlColumnList (field (Columns p) tbl) tbl = Inr cols"
    "where_clause (entries (RowFilter p)) tbl = Inr (wh, args)"
    "sql = ''SELECT '' @ (cols @ ('' FROM '' @ (quoteIdent tbl @ (wh @ limit_clause (Limit p)))))"
    using assms by (auto simp: GenerateSelectSQL_def field_def split: list.splits sum.splits prod.splits)
  let ?filt = "map_of (entries (RowFilter p)) tbl"
  let ?fc = "case ?filt of Some f \<Rightarrow> filter_columns f | None \<Rightarrow> []"
  let ?w = "wh @ limit_clause (Limit p)"
  have w: "fragment ?w ?fc (length args)" "args = (case ?filt of Some f \<Rightarrow> filter_values f | None \<Rightarrow> [])" "no_tick ?w"
    using where_fragment [OF p(3), of "Limit p"] by auto
  have t: "fragment (quoteIdent tbl @ ?w) (tbl # ?fc) (length args)"
    using fragment_append [OF fragment_ident w(1,3), of tbl] by simp
  have fx: "fixed '' FROM ''" "fixed ''SELECT ''" by (simp_all add: fixed_def sql_chars_def)
  have f: "fragment ('' FROM '' @ (quoteIdent tbl @ ?w)) (tbl # ?fc) (length args)" using fragment_left [OF fx(1) t] by simp
  have "fragment (cols @ ('' FROM '' @ (quoteIdent tbl @ ?w))) (column_names (field (Columns p) tbl) @ tbl # ?fc) (length args)"
    using fragment_append [OF sqlColumnList_fragment [OF p(2)] f] by (simp add: no_tick_def)
  from fragment_left [OF fx(2) this]
  have "fragment sql (column_names (field (Columns p) tbl) @ tbl # ?fc) (length args)" using p(4) by simp
  then obtain sk where "set sk \<subseteq> sql_chars" "count_list sk (CHR ''?'') = length args"
    "\<forall>r. no_tick r \<longrightarrow> read_sql (sql @ r) = map_option (\<lambda>(t, is). (sk @ t, (column_names (field (Columns p) tbl) @ tbl # ?fc) @ is)) (read_sql r)"
    unfolding fragment_def by blast
  moreover from this(3) have "read_sql sql = Some (sk, column_names (field (Columns p) tbl) @ tbl # ?fc)"
    by (auto simp: no_tick_def dest: spec [of _ "[]"])
  ultimately show ?thesis using p(1) w(2) by blast
qed

definition sample_select :: SelectParams where
  "sample_select = \<lparr>Tables = [''users''], Columns = [(''users'', JArr [JStr ''id'', JStr ''na`me''])],
     RowFilter = Some [(''users'', JObj [(''and'', JArr [
       JObj [(''column'', JStr ''na`me''), (''op'', JStr ''=''), (''value'', JStr ''x; DROP'')],
       JObj [(''column'', JStr ''age''), (''op'', JStr ''between''), (''value'', JArr [JNum (Fin 1), JNum (Fin 9)])]])])],
     Limit = Some 10\<rparr>"

lemma sample_select_sql:
  "GenerateSelectSQL sample_select =
     Inr (''SELECT `id`, `na``me` FROM `users` WHERE (BINARY `na``me` = ?) AND (`age` BETWEEN ? AND ?) LIMIT 10'',
          [JStr ''x; DROP'', JNum (Fin 1), JNum (Fin 9)])"
  by code_simp

theorem GenerateSelectSQL_injection_free_witness:
  "\<exists>skeleton. read_sql (''SELECT `id`, `na``me` FROM `users` WHERE (BINARY `na``me` = ?) AND (`age` BETWEEN ? AND ?) LIMIT 10'') =
       Some (skeleton, [''id'', ''na`me'', ''users'', ''na`me'', ''age'']) \<and> count_list skeleton (CHR ''?'') = 3"
proof -
  obtain tbl sk filt where r: "Tables sample_select = [tbl]" "filt = map_of (entries (RowFilter sample_select)) tbl"
    "read_sql (''SELECT `id`, `na``me` FROM `users` WHERE (BINARY `na``me` = ?) AND (`age` BETWEEN ? AND ?) LIMIT 10'') =
       Some (sk, column_names (field (Columns sample_select) tbl) @ tbl # (case filt of Some f \<Rightarrow> filter_columns f | None \<Rightarrow> []))"
    "count_list sk (CHR ''?'') = length [JStr ''x; DROP'', JNum (Fin 1), JNum (Fin 9)]"
    using GenerateSelectSQL_injection_free [OF sample_select_sql] by blast
  have t: "tbl = ''users''" using r(1) by (simp add: sample_select_def)
  have "column_names (field (Columns sample_select) ''users'') @ ''users'' #
      (case map_of (entries (RowFilter sample_select)) ''users'' of Some f \<Rightarrow> filter_columns f | None \<Rightarrow> []) =
      [''id'', ''na`me'', ''users'', ''na`me'', ''age'']" by code_simp
  then show ?thesis using r(2-4) t by auto
qed

end
