(* ===== verification/Database_Params.thy ===== *)
theory Database_Params
  imports Rule_Sql
begin

text \<open>
  The parameter contract of the database scheme (\<open>params_validate.go\<close>) and its composition with the SQL
  generation. As there, the contract comes as the fields \<open>json.Unmarshal\<close> fills; a column set is a list, and
  \<open>None\<close> is the nil set that does not restrict.
\<close>

record TableParams = SelectParams +
  FilterColumns :: "(string \<times> string list) list"
  OrderBy :: "string list option"

type_synonym allowlist = "(string \<times> string list option) list"

function checkFilterColumns :: "json \<Rightarrow> string list option \<Rightarrow> string \<Rightarrow> sql_error option" where
  "checkFilterColumns node allowed tbl =
     (case filter_node node of
        FColumn col op val \<Rightarrow>
          (case allowed of
             Some cs \<Rightarrow>
               fail_if (col \<notin> set cs) (SqlError ''row_filter[%q] references column %q outside the column allowlist'' [tbl, col])
           | None \<Rightarrow> None)
      | FAnd items \<Rightarrow> first_err (\<lambda>it. checkFilterColumns it allowed tbl) items
      | FOr items \<Rightarrow> first_err (\<lambda>it. checkFilterColumns it allowed tbl) items
      | FNot inner \<Rightarrow> checkFilterColumns inner allowed tbl
      | FInvalid \<Rightarrow> Some (SqlError ''row_filter[%q] invalid filter structure'' [tbl])
      | FNoObject \<Rightarrow> Some (SqlError ''row_filter[%q] must be a filter object'' [tbl]))"
  by pat_completeness auto
termination
  by (relation "measure (\<lambda>(node, _). size node)") (auto dest: filter_node_size)

declare checkFilterColumns.simps [simp del]

fun allow_columns :: "allowlist \<Rightarrow> obj \<Rightarrow> sql_error + allowlist" where
  "allow_columns allowed [] = Inr allowed"
| "allow_columns allowed ((tbl, v) # rest) =
     (if map_of allowed tbl = None then Inl (SqlError ''columns references unlisted table %q'' [tbl])
      else
        case v of
          JStr cv \<Rightarrow>
            if cv \<noteq> ''*'' then Inl (SqlError ''columns[%q] must be an array or *'' [tbl]) else allow_columns allowed rest
        | JArr cv \<Rightarrow>
            (case those (map as_str cv) of
               None \<Rightarrow> Inl (SqlError ''columns[%q] must be strings'' [tbl])
             | Some cs \<Rightarrow>
                 if cs = [] then Inl (SqlError ''columns[%q] must not be empty'' [tbl])
                 else allow_columns (AList.update tbl (Some cs) allowed) rest)
        | _ \<Rightarrow> Inl (SqlError ''columns[%q] must be an array or *'' [tbl]))"

definition filter_columns_error :: "allowlist \<Rightarrow> string \<times> string list \<Rightarrow> sql_error option" where
  "filter_columns_error allowed e =
     (case e of (tbl, cols) \<Rightarrow>
        if map_of allowed tbl = None then Some (SqlError ''filter_columns references unlisted table %q'' [tbl])
        else fail_if (cols = []) (SqlError ''filter_columns[%q] must not be empty'' [tbl]))"

definition permit_columns :: "allowlist \<Rightarrow> (string \<times> string list) list \<Rightarrow> string \<Rightarrow> string list option" where
  "permit_columns allowed filterAllowed tbl =
     (case map_of filterAllowed tbl of
        Some cols \<Rightarrow> if cols = [] then the (map_of allowed tbl) else Some cols
      | None \<Rightarrow> the (map_of allowed tbl))"

definition row_filter_error :: "allowlist \<Rightarrow> (string \<times> string list) list \<Rightarrow> string \<times> json \<Rightarrow> sql_error option" where
  "row_filter_error allowed filterAllowed e =
     (case e of (tbl, filt) \<Rightarrow>
        if map_of allowed tbl = None then Some (SqlError ''row_filter references unlisted table %q'' [tbl])
        else checkFilterColumns filt (permit_columns allowed filterAllowed tbl) tbl)"

fun order_by_error :: "string list \<Rightarrow> string list \<Rightarrow> sql_error option" where
  "order_by_error seen [] = None"
| "order_by_error seen (c # cs) =
     (if c = [] then Some (SqlError ''order_by entries must be non-empty column names'' [])
      else if c \<in> set seen then Some (SqlError ''order_by entries must be unique (repeat %q)'' [c])
      else order_by_error (c # seen) cs)"

definition validateDatabaseTableParams :: "string \<Rightarrow> TableParams \<Rightarrow> sql_error option" where
  "validateDatabaseTableParams capability p =
     (if Tables p = [] \<or> 32 < length (Tables p) then Some (SqlError ''tables must contain 1..32 entries'' [])
      else
        case allow_columns (map (\<lambda>t. (t, None)) (Tables p)) (Columns p) of
          Inl e \<Rightarrow> Some e
        | Inr allowed \<Rightarrow>
            seq_err [
              first_err (filter_columns_error allowed) (FilterColumns p),
              (case RowFilter p of
                 Some fs \<Rightarrow> first_err (row_filter_error allowed (FilterColumns p)) fs
               | None \<Rightarrow>
                   fail_if (capability \<in> {''query:UPDATE'', ''query:DELETE''})
                     (SqlError ''row_filter is required by %s'' [capability])),
              (case Limit p of
                 Some n \<Rightarrow> fail_if (n < 1 \<or> 100000 < n) (SqlError ''limit.max must be in 1..100000'' [])
               | None \<Rightarrow> None),
              (case OrderBy p of
                 Some cs \<Rightarrow>
                   if capability = ''query:SELECT''
                   then Some (SqlError ''order_by is only declared by query:UPDATE and query:DELETE'' [])
                   else if cs = [] then Some (SqlError ''order_by must name at least one column'' [])
                   else order_by_error [] cs
               | None \<Rightarrow> None)])"

text \<open>\<open>ValidateSchemeParams\<close>; \<open>None\<close> is the empty text.\<close>

definition ValidateSchemeParams :: "string \<Rightarrow> string \<Rightarrow> TableParams option \<Rightarrow> sql_error option" where
  "ValidateSchemeParams scheme capability raw =
     (case raw of
        None \<Rightarrow> None
      | Some p \<Rightarrow>
          if scheme \<noteq> ''std/database-v1'' then None
          else if capability \<in> {''query:SELECT'', ''query:UPDATE'', ''query:DELETE''}
          then validateDatabaseTableParams capability p
          else None)"

subsection \<open>Laws\<close>

lemma checkFilterColumns_sound:
  "checkFilterColumns node (Some cs) tbl = None \<Longrightarrow> set (filter_columns node) \<subseteq> set cs"
proof (induction node rule: filterToSQL.induct)
  case (1 node)
  note unf = filter_columns.simps [of node] checkFilterColumns.simps [of node]
  show ?case
  proof (cases "filter_node node")
    case (FColumn col op val)
    then show ?thesis using 1(4) by (simp add: unf err_simps)
  next
    case (FAnd items)
    then show ?thesis using 1(1) [OF FAnd] 1(4) by (fastforce simp: unf err_simps)
  next
    case (FOr items)
    then show ?thesis using 1(2) [OF FOr] 1(4) by (fastforce simp: unf err_simps)
  next
    case (FNot inner)
    then show ?thesis using 1(3) [OF FNot] 1(4) by (simp add: unf)
  qed (use 1(4) in \<open>simp_all add: unf\<close>)
qed

text \<open>What the column loop leaves for a table: the declared list, or no restriction for \<open>*\<close> and for tables without an entry.\<close>

lemma allow_columns_tables: "allow_columns al cs = Inr al' \<Longrightarrow> map_of al' t = None \<longleftrightarrow> map_of al t = None"
  by (induction al cs arbitrary: al' rule: allow_columns.induct)
    (auto simp: map_of_AList_update split: if_splits json.splits option.splits)

lemma allow_columns_other:
  "allow_columns al cs = Inr al' \<Longrightarrow> t \<notin> set (gokeys cs) \<Longrightarrow> map_of al' t = map_of al t"
  by (induction al cs arbitrary: al' rule: allow_columns.induct)
    (auto simp: map_of_AList_update split: if_splits json.splits option.splits)

lemma allow_columns_list:
  assumes "allow_columns al cs = Inr al'" "gomap_ok cs" "map_of cs t = Some (JArr xs)"
  shows "map_of al' t = Some (Some (column_names (JArr xs))) \<and> column_names (JArr xs) \<noteq> []"
  using assms
proof (induction cs arbitrary: al)
  case (Cons e cs)
  obtain tbl v where e: "e = (tbl, v)" by (cases e)
  have d: "gomap_ok cs" "tbl \<notin> set (gokeys cs)" using Cons.prems(2) by (auto simp: gomap_ok_def e)
  show ?case
  proof (cases "t = tbl")
    case True
    then have v: "v = JArr xs" using Cons.prems(3) e by simp
    then obtain ns where ns: "those (map as_str xs) = Some ns" "ns \<noteq> []"
      "allow_columns (AList.update tbl (Some ns) al) cs = Inr al'"
      using Cons.prems(1) e by (auto split: if_splits option.splits)
    have "map_of al' tbl = Some (Some ns)" using allow_columns_other [OF ns(3) d(2)] by (simp add: map_of_AList_update)
    then show ?thesis using True ns by (simp add: column_names_def)
  next
    case False
    then have m: "map_of cs t = Some (JArr xs)" using Cons.prems(3) e by simp
    obtain al1 where "allow_columns al1 cs = Inr al'"
      using Cons.prems(1) e by (auto split: if_splits json.splits option.splits)
    from Cons.IH [OF this d(1) m] show ?thesis .
  qed
qed simp

lemma validated_parts:
  assumes "ValidateSchemeParams ''std/database-v1'' ''query:SELECT'' (Some p) = None"
  obtains allowed where "allow_columns (map (\<lambda>t. (t, None)) (Tables p)) (Columns p) = Inr allowed"
    "first_err (filter_columns_error allowed) (FilterColumns p) = None"
    "case RowFilter p of Some fs \<Rightarrow> first_err (row_filter_error allowed (FilterColumns p)) fs = None | None \<Rightarrow> True"
    "case Limit p of Some n \<Rightarrow> 1 \<le> n \<and> n \<le> 100000 | None \<Rightarrow> True"
proof -
  have v: "validateDatabaseTableParams ''query:SELECT'' p = None" using assms by (simp add: ValidateSchemeParams_def)
  then obtain allowed where al: "allow_columns (map (\<lambda>t. (t, None)) (Tables p)) (Columns p) = Inr allowed"
    by (auto simp: validateDatabaseTableParams_def split: if_splits sum.splits)
  show ?thesis
    by (rule that [OF al]) (use v al in \<open>auto simp: validateDatabaseTableParams_def fail_if_def split: if_splits option.splits\<close>)
qed


definition sample_table :: TableParams where
  "sample_table = SelectParams.extend sample_select \<lparr>FilterColumns = [(''users'', [''na`me'', ''age''])], OrderBy = None\<rparr>"


end
