(* ===== verification/Rule_Signer.thy ===== *)
theory Rule_Signer
  imports Rule_Flow Authorize
begin

text \<open>
  The publication boundary of signed rules (\<open>ruleexec/signer_grant.go\<close>): a rule may declare no capability and no
  constraint beyond those of its signer. The signer's certificate belongs to an external module: \<open>pki.ParseAIC\<close> is an
  argument of the check, which only reads the fields below of what it returns (\<open>FullID\<close> is a field here).
\<close>

record AicCapability =
  FullID :: string
  CapabilityId :: string
  Parameters :: string

record AIC =
  Capabilities :: "AicCapability list"
  AuthorizationConstraints :: "AicCapability list"

datatype signer_error = SignerError string "string list"

definition coversID :: "string \<Rightarrow> string \<Rightarrow> bool" where
  "coversID grantID opID \<longleftrightarrow>
     (if grantID = opID then True
      else if suffix '':*'' grantID then
        (let p = trim_suffix ''*'' grantID in prefix p opID \<and> length p < length opID)
      else False)"

text \<open>
  \<open>json.Unmarshal\<close> of a text into an \<open>any\<close> and into a map: the empty text is not decoded and leaves nil, and so does
  the text null.
\<close>

definition unmarshal :: "string \<Rightarrow> json option" where
  "unmarshal raw = (if raw = [] then Some JNull else Option.bind (parse_json raw) decode_text)"

definition unmarshal_map :: "string \<Rightarrow> obj option option" where
  "unmarshal_map raw =
     (case unmarshal raw of
        Some (JObj m) \<Rightarrow> Some (Some m)
      | Some JNull \<Rightarrow> Some None
      | _ \<Rightarrow> None)"

fun signer_covers :: "Operation \<Rightarrow> AicCapability list \<Rightarrow> signer_error + bool" where
  "signer_covers op [] = Inr False"
| "signer_covers op (cap # caps) =
     (if \<not> coversID (FullID cap) (oID op) then signer_covers op caps
      else
        case unmarshal_map (Parameters cap) of
          None \<Rightarrow> Inl (SignerError ''signer grant: signer capability %s params'' [FullID cap])
        | Some gp \<Rightarrow>
            if Entails \<lparr>gID = FullID cap, gParams = gp, gParamBounds = [], gConstraints = []\<rparr> op = None then Inr True
            else signer_covers op caps)"

definition constraint_error :: "AicCapability list \<Rightarrow> RuleConstraint \<Rightarrow> signer_error option" where
  "constraint_error declared rc =
     (case find (\<lambda>sc. CapabilityId sc = rcID rc) declared of
        None \<Rightarrow> Some (SignerError ''signer grant: rule constraint %s:%s is not declared by the signer'' [rcScheme rc, rcID rc])
      | Some sc \<Rightarrow>
          (case unmarshal (rcParams rc) of
             None \<Rightarrow> Some (SignerError ''signer grant: rule constraint %s params'' [rcID rc])
           | Some ruleValue \<Rightarrow>
               (case unmarshal (Parameters sc) of
                  None \<Rightarrow> Some (SignerError ''signer grant: signer constraint %s params'' [CapabilityId sc])
                | Some signerValue \<Rightarrow>
                    fail_if (ConstraintWithin ruleValue signerValue \<noteq> None)
                      (SignerError ''signer grant: rule constraint %s:%s exceeds the bound of the signer'' [rcScheme rc, rcID rc]))))"

definition ruleConstraintsWithinSigner :: "Rule \<Rightarrow> AIC \<Rightarrow> signer_error option" where
  "ruleConstraintsWithinSigner rule aic = first_err (constraint_error (AuthorizationConstraints aic)) (RuleConstraints rule)"

definition RuleWithinSignerGrant ::
  "('cert \<Rightarrow> string + AIC option) \<Rightarrow> Rule option \<Rightarrow> 'cert option \<Rightarrow> signer_error option" where
  "RuleWithinSignerGrant ParseAIC rule signer =
     (case (rule, signer) of
        (Some r, Some cert) \<Rightarrow>
          (case ParseAIC cert of
             Inl e \<Rightarrow> Some (SignerError ''signer grant: parse AIC: %w'' [e])
           | Inr None \<Rightarrow> Some (SignerError ''signer grant: signer certificate has no AIC extension'' [])
           | Inr (Some aic) \<Rightarrow>
               (case unmarshal_map (RuleParams r) of
                  None \<Rightarrow> Some (SignerError ''signer grant: rule params'' [])
                | Some params \<Rightarrow>
                    let op = \<lparr>oID = RuleScheme r @ '':'' @ RuleCapability r, oParams = params\<rparr>
                    in (case signer_covers op (Capabilities aic) of
                          Inl e \<Rightarrow> Some e
                        | Inr True \<Rightarrow> ruleConstraintsWithinSigner r aic
                        | Inr False \<Rightarrow>
                            Some (SignerError ''signer grant: rule capability %s is not covered by the AIC grant of the signer'' [oID op]))))
      | _ \<Rightarrow> Some (SignerError ''signer grant: rule and signer certificate are required'' []))"

subsection \<open>Laws\<close>

lemma join_with_append: "xs \<noteq> [] \<Longrightarrow> ys \<noteq> [] \<Longrightarrow> join_with sep (xs @ ys) = join_with sep xs @ sep @ join_with sep ys"
proof (induction xs rule: induct_list012)
  case (2 x)
  then show ?case by (cases ys) simp_all
qed simp_all

text \<open>The identifier test before the entailment drops no covering capability, unless the identifier ends in a colon.\<close>

lemma covers_id_coversID:
  assumes "covers_id g p" "2 \<le> length (segments g)" "\<not> suffix '':'' p" "p \<noteq> []"
  shows "coversID g p"
proof (cases "segments g = segments p")
  case True
  then show ?thesis using split_on_inj by (auto simp: coversID_def)
next
  case False
  then obtain pre rest where s: "segments g = pre @ [''*'']" "segments p = pre @ rest" "rest \<noteq> []"
    using assms(1) by (auto simp: covers_id_def)
  have pre: "pre \<noteq> []" using s(1) assms(2) by auto
  have g: "g = join_with '':'' pre @ '':*''"
    using join_split_on [of "CHR '':''" g] s(1) join_with_append [OF pre, of "[''*'']" "'':''"] by simp
  have p: "p = join_with '':'' pre @ '':'' @ join_with '':'' rest"
    using join_split_on [of "CHR '':''" p] s(2) join_with_append [OF pre s(3), of "'':''"] by simp
  have "join_with '':'' rest \<noteq> []"
  proof
    assume "join_with '':'' rest = []"
    then show False using p assms(3) by (auto simp: suffix_def)
  qed
  then show ?thesis using g p by (auto simp: coversID_def trim_suffix_def suffix_def Let_def)
qed

definition signer_grant :: "AicCapability \<Rightarrow> obj option \<Rightarrow> Grant" where
  "signer_grant cap gp = \<lparr>gID = FullID cap, gParams = gp, gParamBounds = [], gConstraints = []\<rparr>"

definition rule_operation :: "Rule \<Rightarrow> obj option \<Rightarrow> Operation" where
  "rule_operation r params = \<lparr>oID = RuleScheme r @ '':'' @ RuleCapability r, oParams = params\<rparr>"

lemma Entails_coversID:
  assumes "Entails g op = None" "\<not> suffix '':'' (oID op)"
  shows "coversID (gID g) (oID op)"
proof -
  have v: "ValidateCapabilityID (gID g) = None" "ValidateCapabilityID (oID op) = None" "matchID (gID g) (oID op) = None"
    using assms(1) by (simp_all add: Entails_def Let_def)
  show ?thesis
    by (rule covers_id_coversID)
      (use v matchID_iff_covers [OF v(1)] ValidateCapabilityID_shape assms(2) in auto)
qed

lemma signer_covers_sound:
  "signer_covers op caps = Inr True \<Longrightarrow>
     \<exists>cap \<in> set caps. \<exists>gp. unmarshal_map (Parameters cap) = Some gp \<and> Entails (signer_grant cap gp) op = None"
  by (induction caps) (auto simp: signer_grant_def split: if_splits option.splits)

lemma signer_covers_complete:
  assumes "cap \<in> set caps" "unmarshal_map (Parameters cap) = Some gp" "Entails (signer_grant cap gp) op = None"
    and "\<forall>c \<in> set caps. unmarshal_map (Parameters c) \<noteq> None" "\<not> suffix '':'' (oID op)"
  shows "signer_covers op caps = Inr True"
  using assms(1,4)
proof (induction caps)
  case (Cons c caps)
  have cov: "coversID (FullID cap) (oID op)" using Entails_coversID [OF assms(3,5)] by (simp add: signer_grant_def)
  show ?case
  proof (cases "c = cap")
    case True
    then show ?thesis using cov assms(2,3) by (simp add: signer_grant_def)
  next
    case False
    then show ?thesis using Cons by (auto split: option.split)
  qed
qed simp

definition constraint_declared :: "AIC \<Rightarrow> RuleConstraint \<Rightarrow> bool" where
  "constraint_declared aic rc \<longleftrightarrow>
     (\<exists>sc v b. find (\<lambda>sc. CapabilityId sc = rcID rc) (AuthorizationConstraints aic) = Some sc \<and>
        unmarshal (rcParams rc) = Some v \<and> unmarshal (Parameters sc) = Some b \<and>
        v \<noteq> JNull \<and> (b = JNull \<or> valueSubset v b = None))"

lemma constraint_error_None: "constraint_error (AuthorizationConstraints aic) rc = None \<longleftrightarrow> constraint_declared aic rc"
  by (auto simp: constraint_error_def constraint_declared_def ConstraintWithin_def err_simps split: option.splits if_splits)


definition signed_rule :: Rule where
  "signed_rule = \<lparr>RuleID = ''r1'', RuleVersion = ''1.0.0'', RuleScheme = ''std/database-v1'', RuleCapability = ''query:SELECT'',
     RuleParams = [], RuleConditions = None,
     RuleConstraints = [\<lparr>rcScheme = ''constraint'', rcID = ''max_rows'', rcParams = ''5''\<rparr>], RuleFlow = None\<rparr>"

definition signer_aic :: AIC where
  "signer_aic = \<lparr>Capabilities = [\<lparr>FullID = ''std/database-v1:query:*'', CapabilityId = ''query:*'', Parameters = []\<rparr>],
     AuthorizationConstraints = [\<lparr>FullID = ''constraint:max_rows'', CapabilityId = ''max_rows'', Parameters = ''10''\<rparr>]\<rparr>"


end
