(* ===== verification/Strict_Json.thy ===== *)
theory Strict_Json
  imports Go_Json Go_Sha256
begin

text \<open>
  JSON text decoded into the structs of the sources: the duplicate-member scan of
  \<open>internal/jsonstrict\<close> and \<open>json.Decoder\<close> with \<open>DisallowUnknownFields\<close>. A struct is a record and
  the table of its members, each with what decoding a value into it does. As in \<open>encoding/json\<close>, a member is
  looked up by its exact name and then without regard to case, the members are stored in the order of the text
  (a later one overwrites), and null leaves a string or a number as it is and makes a pointer, a slice or a map nil.
  The decoder's limit of 10000 nested values is not represented. Neither is its reuse of the elements of a slice
  that one text gives twice under two spellings of its name: the model decodes every list from zero elements.
\<close>

subsection \<open>Duplicate members\<close>

fun members_distinct :: "jtext \<Rightarrow> bool" where
  "members_distinct (XArr xs) = (\<forall>x \<in> set xs. members_distinct x)"
| "members_distinct (XObj ms) = (distinct (map fst ms) \<and> (\<forall>x \<in> set ms. members_distinct (snd x)))"
| "members_distinct _ = True"

text \<open>
  \<open>jsonstrict.Check\<close> on a text that holds one value: the token scan refuses exactly the texts with a repeated
  member. A text that is not one value is refused by the decoder that every caller runs after the scan.
\<close>

definition Check :: "jtext \<Rightarrow> bool" where
  "Check t = members_distinct t"

subsection \<open>Member names\<close>

text \<open>
  The folding of names in \<open>encoding/json\<close>: a name of ASCII letters is matched by every spelling of its letters in
  either case, and by the two runes outside ASCII that fold to letters, U+017F (to s) and U+212A (to k).
\<close>

definition upper_ascii :: "char \<Rightarrow> char" where
  "upper_ascii c = (if is_lower c then char_of (of_char c - (32 :: nat)) else c)"

fun foldName :: "string \<Rightarrow> string" where
  "foldName (a # b # c # s) =
     (if a = CHR 0xC5 \<and> b = CHR 0xBF then CHR ''S'' # foldName (c # s)
      else if a = CHR 0xE2 \<and> b = CHR 0x84 \<and> c = CHR 0xAA then CHR ''K'' # foldName s
      else upper_ascii a # foldName (b # c # s))"
| "foldName [a, b] = (if a = CHR 0xC5 \<and> b = CHR 0xBF then ''S'' else [upper_ascii a, upper_ascii b])"
| "foldName [a] = [upper_ascii a]"
| "foldName [] = []"

subsection \<open>Structs\<close>

type_synonym 'r setter = "jtext \<Rightarrow> 'r \<Rightarrow> 'r option"
type_synonym 'r fields = "(string \<times> 'r setter) list"

definition find_field :: "'r fields \<Rightarrow> string \<Rightarrow> 'r setter option" where
  "find_field fs k =
     (case map_of fs k of
        Some d \<Rightarrow> Some d
      | None \<Rightarrow> map_of (map (\<lambda>(n, d). (foldName n, d)) fs) (foldName k))"

fun set_members :: "'r fields \<Rightarrow> (string \<times> jtext) list \<Rightarrow> 'r \<Rightarrow> 'r option" where
  "set_members fs [] r = Some r"
| "set_members fs ((k, v) # ms) r =
     (case find_field fs k of
        None \<Rightarrow> None
      | Some d \<Rightarrow> Option.bind (d v r) (set_members fs ms))"

definition decode_struct :: "'r fields \<Rightarrow> 'r setter" where
  "decode_struct fs t r =
     (case t of
        XNull \<Rightarrow> Some r
      | XObj ms \<Rightarrow> set_members fs ms r
      | _ \<Rightarrow> None)"

subsection \<open>Kinds of members\<close>

definition str_field :: "(string \<Rightarrow> 'r \<Rightarrow> 'r) \<Rightarrow> 'r setter" where
  "str_field upd t r = (case t of XNull \<Rightarrow> Some r | XStr s \<Rightarrow> Some (upd s r) | _ \<Rightarrow> None)"

definition bool_field :: "(bool \<Rightarrow> 'r \<Rightarrow> 'r) \<Rightarrow> 'r setter" where
  "bool_field upd t r = (case t of XNull \<Rightarrow> Some r | XBool b \<Rightarrow> Some (upd b r) | _ \<Rightarrow> None)"

text \<open>\<open>int\<close> and \<open>int64\<close>: \<open>strconv.ParseInt\<close> of the literal, so a fraction, an exponent or an overflow is refused.\<close>

definition int_field :: "(int \<Rightarrow> 'r \<Rightarrow> 'r) \<Rightarrow> 'r setter" where
  "int_field upd t r =
     (case t of XNull \<Rightarrow> Some r | XNum l \<Rightarrow> map_option (\<lambda>n. upd n r) (atoi l) | _ \<Rightarrow> None)"

definition int_ptr_field :: "(int option \<Rightarrow> 'r \<Rightarrow> 'r) \<Rightarrow> 'r setter" where
  "int_ptr_field upd t r =
     (case t of XNull \<Rightarrow> Some (upd None r) | XNum l \<Rightarrow> map_option (\<lambda>n. upd (Some n) r) (atoi l) | _ \<Rightarrow> None)"

definition list_field :: "'a setter \<Rightarrow> 'a \<Rightarrow> ('a list \<Rightarrow> 'r \<Rightarrow> 'r) \<Rightarrow> 'r setter" where
  "list_field elem zero upd t r =
     (case t of
        XNull \<Rightarrow> Some (upd [] r)
      | XArr ts \<Rightarrow> map_option (\<lambda>xs. upd xs r) (those (map (\<lambda>t. elem t zero) ts))
      | _ \<Rightarrow> None)"

definition struct_field :: "'a fields \<Rightarrow> ('r \<Rightarrow> 'a) \<Rightarrow> ('a \<Rightarrow> 'r \<Rightarrow> 'r) \<Rightarrow> 'r setter" where
  "struct_field fs get upd t r = map_option (\<lambda>a. upd a r) (decode_struct fs t (get r))"

text \<open>A map keeps the entries it has; every value is decoded into a new zero value.\<close>

definition map_field :: "'a setter \<Rightarrow> 'a \<Rightarrow> ('r \<Rightarrow> 'a gomap) \<Rightarrow> ('a gomap option \<Rightarrow> 'r \<Rightarrow> 'r) \<Rightarrow> 'r setter" where
  "map_field elem zero get upd t r =
     (case t of
        XNull \<Rightarrow> Some (upd None r)
      | XObj ms \<Rightarrow>
          map_option (\<lambda>vs. upd (Some (foldl (\<lambda>m (k, v). AList.update k v m) (get r) (zip (map fst ms) vs))) r)
            (those (map (\<lambda>x. elem (snd x) zero) ms))
      | _ \<Rightarrow> None)"

definition any_value :: "json setter" where
  "any_value t r = decode_text t"

text \<open>\<open>[]byte\<close>: padded standard base64 (line breaks are skipped), or an array of numbers below 256.\<close>

definition std_chars :: string where
  "std_chars = ''ABCDEFGHIJKLMNOPQRSTUVWXYZabcdefghijklmnopqrstuvwxyz0123456789+/''"

definition std_DecodeString :: "string \<Rightarrow> string option" where
  "std_DecodeString s =
     (let u = filter (\<lambda>c. \<not> line_break c) s;
          body = trim_suffix ''='' (trim_suffix ''='' u)
      in if length u mod 4 \<noteq> 0 then None
         else Option.bind (those (map (\<lambda>c. index_of c std_chars) body)) (\<lambda>xs. map_option (map char_of) (octets xs)))"

definition std_EncodeToString :: "string \<Rightarrow> string" where
  "std_EncodeToString s =
     (let body = map ((!) std_chars) (sextets (map of_char s))
      in body @ replicate ((4 - length body mod 4) mod 4) (CHR ''=''))"

definition byte_value :: "int setter" where
  "byte_value t r =
     (case t of
        XNull \<Rightarrow> Some r
      | XNum l \<Rightarrow> (case atoi l of Some n \<Rightarrow> if 0 \<le> n \<and> n < 256 then Some n else None | None \<Rightarrow> None)
      | _ \<Rightarrow> None)"

definition bytes_field :: "(string \<Rightarrow> 'r \<Rightarrow> 'r) \<Rightarrow> 'r setter" where
  "bytes_field upd t r =
     (case t of
        XNull \<Rightarrow> Some (upd [] r)
      | XStr s \<Rightarrow> map_option (\<lambda>b. upd b r) (std_DecodeString s)
      | XArr ts \<Rightarrow> map_option (\<lambda>ns. upd (map (char_of \<circ> nat) ns) r) (those (map (\<lambda>t. byte_value t 0) ts))
      | _ \<Rightarrow> None)"

subsection \<open>Encoding\<close>

text \<open>The JSON form of a struct: each member with whether it is written (\<open>omitempty\<close> leaves out a zero value).\<close>

definition struct_json :: "(bool \<times> string \<times> json) list \<Rightarrow> json" where
  "struct_json ms = JObj (map snd (filter fst ms))"

lemmas field_defs = str_field_def bool_field_def int_field_def int_ptr_field_def list_field_def struct_field_def
  map_field_def any_value_def bytes_field_def decode_struct_def find_field_def

end
