(* ===== verification/Scheme_Artifacts.thy ===== *)
theory Scheme_Artifacts
  imports Strict_Json Domains Digests Go_Time
begin

text \<open>
  Scheme administration (\<open>schemeadmin/schemeadmin.go\<close>, \<open>package.go\<close>, \<open>transition.go\<close>): the error type with its
  stable codes, digests, revisions, the two signed artifacts (package and transition) with their closed decoders
  and validation, and the management operations built from them. A Go \<open>int\<close> has 64 bits.
\<close>

subsection \<open>Constants and errors\<close>

definition SchemeID :: string where "SchemeID = ''varwof/scheme-admin-v1''"
definition PackageVersion :: string where "PackageVersion = ''CLC-SCHEME-PACKAGE-v1''"
definition TransitionVersion :: string where "TransitionVersion = ''CLC-SCHEME-TRANSITION-v1''"
definition DeclarationVersion :: string where "DeclarationVersion = ''CLC-SCHEME-v1''"
definition VerdictAccept :: string where "VerdictAccept = ''accept''"
definition VerdictReject :: string where "VerdictReject = ''reject''"

definition CapCreate :: string where "CapCreate = ''scheme:create''"
definition CapUpdate :: string where "CapUpdate = ''scheme:update''"
definition CapRevoke :: string where "CapRevoke = ''scheme:revoke''"
definition CapDelegate :: string where "CapDelegate = ''scheme:delegate''"
definition CapRootRotate :: string where "CapRootRotate = ''scheme:root-rotate''"
definition CapApprove :: string where "CapApprove = ''scheme:approve''"

definition ActionCreate :: string where "ActionCreate = ''create''"
definition ActionUpdate :: string where "ActionUpdate = ''update''"
definition ActionRevoke :: string where "ActionRevoke = ''revoke''"
definition ActionRootRotate :: string where "ActionRootRotate = ''root-rotate''"

definition ChangePatch :: string where "ChangePatch = ''patch''"
definition ChangeMinor :: string where "ChangeMinor = ''minor''"
definition ChangeMajor :: string where "ChangeMajor = ''major''"

lemmas action_defs = ActionCreate_def ActionUpdate_def ActionRevoke_def ActionRootRotate_def
lemmas change_defs = ChangePatch_def ChangeMinor_def ChangeMajor_def
lemmas capability_defs = CapCreate_def CapUpdate_def CapRevoke_def CapDelegate_def CapRootRotate_def CapApprove_def

text \<open>
  The stable codes of the failures: \<open>CodePackageShape\<close> is the code \<open>package_shape\<close>, and so on. An error of the
  package is \<open>Failure\<close> with its code and the format and arguments of its detail; every other error is \<open>Plain\<close>.
\<close>

datatype scheme_code =
    CodePackageShape | CodePackageDigestMismatch | CodeDeclarationInvalid | CodeTransitionShape
  | CodeTransitionDigestMismatch | CodePackageTransitionMismatch | CodeSignatureMissing | CodeSignatureInvalid | CodeSignatureChain
  | CodeSignatureNoAIC | CodeTransitionSignatureMissing | CodeTransitionSignatureInvalid | CodePublisherMismatch
  | CodePublisherKeyBinding | CodeAuthorityNoGrant | CodeAuthorityNotContained | CodeAuthorityNotAuthorized
  | CodeNamespaceOutsidePolicy | CodeNamespaceMismatch | CodeCLCSupported | CodeMajorExceedsLimit
  | CodeChangeClassInvalid | CodeCreateShape | CodeStateNotEmpty | CodeStateShape | CodeStateUnverified
  | CodeStateGeneration | CodeStateDigest | CodeGenerationRollback | CodeGenerationFork | CodePackageRevoked
  | CodeRevocationInvalid | CodePackageExpired | CodePackageStale | CodeApprovalInsufficient | CodeApprovalInvalid
  | CodeRootNoCurrentRoot | CodeRootSelfAuthorized | CodeRootPolicyMismatch | CodeRootThreshold
  | CodeDelegationNotContained

datatype scheme_error = Failure scheme_code string "string list" | Plain string "string list"

text \<open>The text of an error inside another: its format, since only its code carries information.\<close>

fun error_format :: "scheme_error \<Rightarrow> string" where
  "error_format (Failure c f as) = f"
| "error_format (Plain f as) = f"

fun CodeOf :: "scheme_error \<Rightarrow> scheme_code option" where
  "CodeOf (Failure c f as) = Some c"
| "CodeOf (Plain f as) = None"

subsection \<open>Grammars\<close>

definition digestRe :: rx where
  "digestRe = seqs [strlit ''sha256:'', repeat 43 (Cls (\<lambda>c. is_alnum c \<or> c = CHR ''_'' \<or> c = CHR ''-''))]"

definition schemeRe :: rx where
  "schemeRe =
     (let low = (\<lambda>c. is_lower c \<or> is_digit c)
      in seqs [Cls low, Star (Cls (\<lambda>c. low c \<or> c = CHR ''_'' \<or> c = CHR ''-'')), lit (CHR ''/''),
           Cls low, Star (Cls (\<lambda>c. low c \<or> c = CHR ''_'' \<or> c = CHR ''.'' \<or> c = CHR ''-'')),
           strlit ''-v'', plus (Cls is_digit)])"

definition revisionRe :: rx where
  "revisionRe = seqs [plus (Cls is_digit), lit (CHR ''.''), plus (Cls is_digit)]"

definition clcRe :: rx where
  "clcRe = seqs [strlit ''CLC-'', plus (Cls is_digit), lit (CHR ''.''), plus (Cls is_digit)]"

definition principalRe :: rx where
  "principalRe =
     seqs [strlit ''principal:'',
       plus (Cls (\<lambda>c. is_alnum c \<or> c = CHR ''_'' \<or> c = CHR ''.'' \<or> c = CHR '':'' \<or> c = CHR ''-''))]"

definition namespaceRe :: rx where
  "namespaceRe =
     seqs [lit (CHR ''/''),
       plus (Cls (\<lambda>c. is_alnum c \<or> c = CHR ''_'' \<or> c = CHR ''.'' \<or> c = CHR '':'' \<or> c = CHR ''/'' \<or> c = CHR ''-''))]"

subsection \<open>Digests and closed decoding\<close>

definition sha_Digest :: "string \<Rightarrow> string" where
  "sha_Digest raw = ''sha256:'' @ b64_EncodeToString (Sum256 raw)"

definition CanonicalDigest :: "json \<Rightarrow> canon_err + string" where
  "CanonicalDigest v = (case CanonicalJSON v of Inl e \<Rightarrow> Inl e | Inr canonical \<Rightarrow> Inr (sha_Digest canonical))"

definition maxArtifactBytes :: int where "maxArtifactBytes = 8388608"
definition maxDetachedSignatures :: int where "maxDetachedSignatures = 64"
definition maxApprovalRecords :: int where "maxApprovalRecords = 4096"

definition decodeClosed :: "'r fields \<Rightarrow> 'r \<Rightarrow> string \<Rightarrow> scheme_error + 'r" where
  "decodeClosed fs zero raw =
     (if maxArtifactBytes < int (length raw) then Inl (Plain ''artifact is %d bytes, limit is %d'' [])
      else
        case parse_json raw of
          None \<Rightarrow> Inl (Plain ''not one JSON value'' [])
        | Some t \<Rightarrow>
            if \<not> Check t then Inl (Plain ''duplicate or invalid JSON member: %w'' [])
            else
              case decode_struct fs t zero of
                None \<Rightarrow> Inl (Plain ''json: unknown field or type mismatch'' [])
              | Some r \<Rightarrow> Inr r)"

definition sha256Bytes :: "string \<Rightarrow> string" where
  "sha256Bytes b = Sum256 b"

definition keyIDOf :: "string \<Rightarrow> string" where
  "keyIDOf spki = sha_Digest spki"

definition allZero :: "string \<Rightarrow> bool" where
  "allZero b = list_all (\<lambda>v. v = CHR 0x00) b"

subsection \<open>Capability ids and revisions\<close>

definition FullCapabilityID :: "string \<Rightarrow> string" where
  "FullCapabilityID capability = SchemeID @ '':'' @ capability"

definition capabilityOf :: "string \<Rightarrow> string option" where
  "capabilityOf fullID =
     (let p = SchemeID @ '':'' in if prefix p fullID then Some (trim_prefix p fullID) else None)"

definition maxIntValue :: int where "maxIntValue = 9223372036854775807"

text \<open>\<open>strconv.ParseUint(s, 10, 64)\<close>: decimal digits only, at most \<open>2 ^ 64 - 1\<close>.\<close>

definition ParseUint :: "string \<Rightarrow> int option" where
  "ParseUint s = (if all_digits s \<and> digits_val s \<le> 18446744073709551615 then Some (digits_val s) else None)"

definition parseRevisionComponent :: "string \<Rightarrow> scheme_error + int" where
  "parseRevisionComponent s =
     (if s = [] then Inl (Plain ''empty revision component'' [])
      else
        case ParseUint s of
          None \<Rightarrow> Inl (Plain ''revision component %q is not a decimal integer'' [s])
        | Some u \<Rightarrow>
            if maxIntValue < u then Inl (Plain ''revision component %q overflows int'' [s]) else Inr u)"

definition wrap_error :: "string \<Rightarrow> string list \<Rightarrow> scheme_error + 'a \<Rightarrow> scheme_error + 'a" where
  "wrap_error f as r = (case r of Inl e \<Rightarrow> Inl (Plain f (as @ [error_format e])) | Inr n \<Rightarrow> Inr n)"

definition MajorOf :: "string \<Rightarrow> scheme_error + int" where
  "MajorOf revision =
     (case index_of (CHR ''.'') revision of
        Some (Suc i) \<Rightarrow>
          wrap_error ''revision %q has an invalid major: %w'' [revision] (parseRevisionComponent (take (Suc i) revision))
      | _ \<Rightarrow> Inl (Plain ''revision %q is not major.minor'' [revision]))"

definition MinorOf :: "string \<Rightarrow> scheme_error + int" where
  "MinorOf revision =
     (case index_of (CHR ''.'') revision of
        None \<Rightarrow> Inl (Plain ''revision %q is not major.minor'' [revision])
      | Some i \<Rightarrow>
          if length revision \<le> i + 1 then Inl (Plain ''revision %q is not major.minor'' [revision])
          else wrap_error ''revision %q has an invalid minor: %w'' [revision]
                 (parseRevisionComponent (drop (i + 1) revision)))"

subsection \<open>Packages\<close>

record Package =
  pkVersion :: string
  pkScheme :: string
  pkRevision :: string
  pkDefinitionDigest :: string
  pkDeclarationDigest :: string
  pkCLCRevision :: string
  pkChangeClass :: string
  pkPreviousPackageDigest :: string
  pkPublisher :: string
  pkGeneration :: int
  pkIssuedAt :: string
  pkValidUntil :: string

definition zero_Package :: Package where
  "zero_Package = \<lparr>pkVersion = [], pkScheme = [], pkRevision = [], pkDefinitionDigest = [], pkDeclarationDigest = [],
     pkCLCRevision = [], pkChangeClass = [], pkPreviousPackageDigest = [], pkPublisher = [], pkGeneration = 0,
     pkIssuedAt = [], pkValidUntil = []\<rparr>"

definition Package_fields :: "Package fields" where
  "Package_fields =
     [(''@version'', str_field (\<lambda>v r. r\<lparr>pkVersion := v\<rparr>)),
      (''scheme'', str_field (\<lambda>v r. r\<lparr>pkScheme := v\<rparr>)),
      (''revision'', str_field (\<lambda>v r. r\<lparr>pkRevision := v\<rparr>)),
      (''definition_digest'', str_field (\<lambda>v r. r\<lparr>pkDefinitionDigest := v\<rparr>)),
      (''declaration_digest'', str_field (\<lambda>v r. r\<lparr>pkDeclarationDigest := v\<rparr>)),
      (''clc_revision'', str_field (\<lambda>v r. r\<lparr>pkCLCRevision := v\<rparr>)),
      (''change_class'', str_field (\<lambda>v r. r\<lparr>pkChangeClass := v\<rparr>)),
      (''previous_package_digest'', str_field (\<lambda>v r. r\<lparr>pkPreviousPackageDigest := v\<rparr>)),
      (''publisher'', str_field (\<lambda>v r. r\<lparr>pkPublisher := v\<rparr>)),
      (''generation'', int_field (\<lambda>v r. r\<lparr>pkGeneration := v\<rparr>)),
      (''issued_at'', str_field (\<lambda>v r. r\<lparr>pkIssuedAt := v\<rparr>)),
      (''valid_until'', str_field (\<lambda>v r. r\<lparr>pkValidUntil := v\<rparr>))]"

definition ValidatePackage :: "Package \<Rightarrow> scheme_error option" where
  "ValidatePackage pkg = seq_err [
     fail_if (pkVersion pkg \<noteq> PackageVersion)
       (Failure CodePackageShape ''@version must be %q, got %q'' [PackageVersion, pkVersion pkg]),
     fail_if (\<not> rmatch schemeRe (pkScheme pkg))
       (Failure CodePackageShape ''scheme %q does not match vendor/product-vN'' [pkScheme pkg]),
     fail_if (\<not> rmatch revisionRe (pkRevision pkg))
       (Failure CodePackageShape ''revision %q is not major.minor'' [pkRevision pkg]),
     fail_if (\<not> rmatch digestRe (pkDefinitionDigest pkg))
       (Failure CodePackageShape ''definition_digest %q is not a sha256 digest'' [pkDefinitionDigest pkg]),
     fail_if (\<not> rmatch digestRe (pkDeclarationDigest pkg))
       (Failure CodePackageShape ''declaration_digest %q is not a sha256 digest'' [pkDeclarationDigest pkg]),
     fail_if (\<not> rmatch clcRe (pkCLCRevision pkg))
       (Failure CodePackageShape ''clc_revision %q is not CLC-N.N'' [pkCLCRevision pkg]),
     fail_if (pkChangeClass pkg \<notin> {ChangePatch, ChangeMinor, ChangeMajor})
       (Failure CodePackageShape ''change_class %q is not patch|minor|major'' [pkChangeClass pkg]),
     fail_if (\<not> rmatch principalRe (pkPublisher pkg))
       (Failure CodePackageShape ''publisher %q is not principal:<id>'' [pkPublisher pkg]),
     fail_if (pkGeneration pkg < 1) (Failure CodePackageShape ''generation must be >= 1, got %d'' []),
     fail_if (pkPreviousPackageDigest pkg \<noteq> [] \<and> \<not> rmatch digestRe (pkPreviousPackageDigest pkg))
       (Failure CodePackageShape ''previous_package_digest %q is not a sha256 digest'' [pkPreviousPackageDigest pkg]),
     fail_if (pkGeneration pkg = 1 \<and> pkPreviousPackageDigest pkg \<noteq> [])
       (Failure CodePackageShape ''the first package must not declare previous_package_digest'' []),
     fail_if (1 < pkGeneration pkg \<and> pkPreviousPackageDigest pkg = [])
       (Failure CodePackageShape ''generation %d requires previous_package_digest'' []),
     fail_if (pkIssuedAt pkg \<noteq> [] \<and> parse_rfc3339 (pkIssuedAt pkg) = None)
       (Failure CodePackageShape ''issued_at %q is not RFC3339'' [pkIssuedAt pkg]),
     fail_if (pkValidUntil pkg \<noteq> [] \<and> parse_rfc3339 (pkValidUntil pkg) = None)
       (Failure CodePackageShape ''valid_until %q is not RFC3339'' [pkValidUntil pkg])]"

definition ParsePackage :: "string \<Rightarrow> scheme_error + Package" where
  "ParsePackage raw =
     (case decodeClosed Package_fields zero_Package raw of
        Inl e \<Rightarrow> Inl (Failure CodePackageShape ''%s'' [error_format e])
      | Inr pkg \<Rightarrow> (case ValidatePackage pkg of Some e \<Rightarrow> Inl e | None \<Rightarrow> Inr pkg))"

definition json_of_Package :: "Package \<Rightarrow> json" where
  "json_of_Package pkg = struct_json
     [(True, ''@version'', JStr (pkVersion pkg)),
      (True, ''scheme'', JStr (pkScheme pkg)),
      (True, ''revision'', JStr (pkRevision pkg)),
      (True, ''definition_digest'', JStr (pkDefinitionDigest pkg)),
      (True, ''declaration_digest'', JStr (pkDeclarationDigest pkg)),
      (True, ''clc_revision'', JStr (pkCLCRevision pkg)),
      (True, ''change_class'', JStr (pkChangeClass pkg)),
      (pkPreviousPackageDigest pkg \<noteq> [], ''previous_package_digest'', JStr (pkPreviousPackageDigest pkg)),
      (True, ''publisher'', JStr (pkPublisher pkg)),
      (True, ''generation'', JInt CInt64 (pkGeneration pkg)),
      (pkIssuedAt pkg \<noteq> [], ''issued_at'', JStr (pkIssuedAt pkg)),
      (pkValidUntil pkg \<noteq> [], ''valid_until'', JStr (pkValidUntil pkg))]"

definition PackageDigest :: "Package \<Rightarrow> canon_err + string" where
  "PackageDigest pkg = CanonicalDigest (json_of_Package pkg)"

subsection \<open>Transitions\<close>

record Transition =
  trVersion :: string
  trAction :: string
  trScheme :: string
  trNamespace :: string
  trFromGeneration :: "int option"
  trToGeneration :: int
  trFromDigest :: string
  trToDigest :: string
  trChangeClass :: string
  trTargetCLCRevision :: string
  trRevocationReason :: string
  trRevocationEffectiveTime :: string
  trReplacementDigest :: string
  trTombstoneGeneration :: "int option"
  trNextRootPackageDigest :: string
  trNextRootKeys :: "string list"
  trNextRootThreshold :: int

definition zero_Transition :: Transition where
  "zero_Transition = \<lparr>trVersion = [], trAction = [], trScheme = [], trNamespace = [], trFromGeneration = None,
     trToGeneration = 0, trFromDigest = [], trToDigest = [], trChangeClass = [], trTargetCLCRevision = [],
     trRevocationReason = [], trRevocationEffectiveTime = [], trReplacementDigest = [], trTombstoneGeneration = None,
     trNextRootPackageDigest = [], trNextRootKeys = [], trNextRootThreshold = 0\<rparr>"

definition Transition_fields :: "Transition fields" where
  "Transition_fields =
     [(''@version'', str_field (\<lambda>v r. r\<lparr>trVersion := v\<rparr>)),
      (''action'', str_field (\<lambda>v r. r\<lparr>trAction := v\<rparr>)),
      (''scheme'', str_field (\<lambda>v r. r\<lparr>trScheme := v\<rparr>)),
      (''namespace'', str_field (\<lambda>v r. r\<lparr>trNamespace := v\<rparr>)),
      (''from_generation'', int_ptr_field (\<lambda>v r. r\<lparr>trFromGeneration := v\<rparr>)),
      (''to_generation'', int_field (\<lambda>v r. r\<lparr>trToGeneration := v\<rparr>)),
      (''from_digest'', str_field (\<lambda>v r. r\<lparr>trFromDigest := v\<rparr>)),
      (''to_digest'', str_field (\<lambda>v r. r\<lparr>trToDigest := v\<rparr>)),
      (''change_class'', str_field (\<lambda>v r. r\<lparr>trChangeClass := v\<rparr>)),
      (''target_clc_revision'', str_field (\<lambda>v r. r\<lparr>trTargetCLCRevision := v\<rparr>)),
      (''revocation_reason'', str_field (\<lambda>v r. r\<lparr>trRevocationReason := v\<rparr>)),
      (''revocation_effective_time'', str_field (\<lambda>v r. r\<lparr>trRevocationEffectiveTime := v\<rparr>)),
      (''replacement_digest'', str_field (\<lambda>v r. r\<lparr>trReplacementDigest := v\<rparr>)),
      (''tombstone_generation'', int_ptr_field (\<lambda>v r. r\<lparr>trTombstoneGeneration := v\<rparr>)),
      (''next_root_package_digest'', str_field (\<lambda>v r. r\<lparr>trNextRootPackageDigest := v\<rparr>)),
      (''next_root_keys'', list_field (str_field (\<lambda>v r. v)) [] (\<lambda>v r. r\<lparr>trNextRootKeys := v\<rparr>)),
      (''next_root_threshold'', int_field (\<lambda>v r. r\<lparr>trNextRootThreshold := v\<rparr>))]"

definition requireFrom :: "Transition \<Rightarrow> scheme_error option" where
  "requireFrom tr =
     (case trFromGeneration tr of
        None \<Rightarrow> Some (Failure CodeTransitionShape ''%s requires from_generation'' [trAction tr])
      | Some n \<Rightarrow> seq_err [
          fail_if (n < 1) (Failure CodeTransitionShape ''from_generation must be >= 1'' []),
          fail_if (\<not> rmatch digestRe (trFromDigest tr))
            (Failure CodeTransitionShape ''%s requires from_digest'' [trAction tr])])"

definition stable_reasons :: "string list" where
  "stable_reasons = [''superseded'', ''security-defect'', ''publisher-withdrawal'', ''policy-violation'', ''compromised'']"

text \<open>The members every action shares, then the members of one action.\<close>

definition transition_shape :: "Transition \<Rightarrow> scheme_error option" where
  "transition_shape tr = seq_err [
     fail_if (trVersion tr \<noteq> TransitionVersion)
       (Failure CodeTransitionShape ''@version must be %q, got %q'' [TransitionVersion, trVersion tr]),
     fail_if (trAction tr \<notin> {ActionCreate, ActionUpdate, ActionRevoke, ActionRootRotate})
       (Failure CodeTransitionShape ''action %q is not create|update|revoke|root-rotate'' [trAction tr]),
     fail_if (\<not> rmatch schemeRe (trScheme tr))
       (Failure CodeTransitionShape ''scheme %q does not match vendor/product-vN'' [trScheme tr]),
     fail_if (\<not> rmatch namespaceRe (trNamespace tr) \<or> path_Clean (trNamespace tr) \<noteq> trNamespace tr)
       (Failure CodeTransitionShape ''namespace %q is not an absolute clean path'' [trNamespace tr]),
     fail_if (trNamespace tr \<noteq> ''/'' @ trScheme tr)
       (Failure CodeNamespaceMismatch ''namespace %q must equal %q'' [trNamespace tr, ''/'' @ trScheme tr]),
     fail_if (trToGeneration tr < 1) (Failure CodeTransitionShape ''to_generation must be >= 1'' []),
     fail_if (\<not> rmatch digestRe (trToDigest tr))
       (Failure CodeTransitionShape ''to_digest %q is not a sha256 digest'' [trToDigest tr]),
     fail_if (trChangeClass tr \<notin> {ChangePatch, ChangeMinor, ChangeMajor})
       (Failure CodeChangeClassInvalid ''change_class %q is not patch|minor|major'' [trChangeClass tr]),
     fail_if (\<not> rmatch clcRe (trTargetCLCRevision tr))
       (Failure CodeTransitionShape ''target_clc_revision %q is not CLC-N.N'' [trTargetCLCRevision tr]),
     fail_if (trAction tr \<noteq> ActionRevoke \<and>
         (trRevocationReason tr \<noteq> [] \<or> trRevocationEffectiveTime tr \<noteq> [] \<or> trReplacementDigest tr \<noteq> [] \<or>
          trTombstoneGeneration tr \<noteq> None))
       (Failure CodeTransitionShape ''action %q must not carry revocation metadata'' [trAction tr]),
     fail_if (trAction tr \<noteq> ActionRootRotate \<and>
         (trNextRootPackageDigest tr \<noteq> [] \<or> trNextRootKeys tr \<noteq> [] \<or> trNextRootThreshold tr \<noteq> 0))
       (Failure CodeTransitionShape ''action %q must not carry next-root metadata'' [trAction tr])]"

definition create_shape :: "Transition \<Rightarrow> scheme_error option" where
  "create_shape tr = seq_err [
     fail_if (trFromGeneration tr \<noteq> None \<or> trFromDigest tr \<noteq> [])
       (Failure CodeCreateShape ''create must not declare from_generation/from_digest'' []),
     fail_if (trToGeneration tr \<noteq> 1) (Failure CodeCreateShape ''create must target generation 1, got %d'' []),
     fail_if (trChangeClass tr \<noteq> ChangeMajor)
       (Failure CodeCreateShape ''create is the first package of a major line and must use change_class %q'' [ChangeMajor])]"

definition revoke_shape :: "Transition \<Rightarrow> scheme_error option" where
  "revoke_shape tr = seq_err [
     requireFrom tr,
     fail_if (trRevocationReason tr = []) (Failure CodeTransitionShape ''revoke requires revocation_reason'' []),
     fail_if (trRevocationReason tr \<notin> set stable_reasons)
       (Failure CodeTransitionShape ''revocation_reason %q is not a stable reason code'' [trRevocationReason tr]),
     fail_if (trRevocationEffectiveTime tr = [])
       (Failure CodeTransitionShape ''revoke requires revocation_effective_time'' []),
     fail_if (parse_rfc3339 (trRevocationEffectiveTime tr) = None)
       (Failure CodeTransitionShape ''revocation_effective_time %q is not RFC3339'' [trRevocationEffectiveTime tr]),
     (case trTombstoneGeneration tr of
        None \<Rightarrow> Some (Failure CodeTransitionShape ''revoke requires tombstone_generation'' [])
      | Some n \<Rightarrow>
          fail_if (n < trToGeneration tr) (Failure CodeTransitionShape ''tombstone_generation must be >= to_generation'' [])),
     fail_if (trReplacementDigest tr \<noteq> [] \<and> \<not> rmatch digestRe (trReplacementDigest tr))
       (Failure CodeTransitionShape ''replacement_digest %q is not a sha256 digest'' [trReplacementDigest tr])]"

definition rotate_shape :: "Transition \<Rightarrow> scheme_error option" where
  "rotate_shape tr = seq_err [
     requireFrom tr,
     fail_if (\<not> rmatch digestRe (trNextRootPackageDigest tr))
       (Failure CodeTransitionShape ''root-rotate requires next_root_package_digest'' []),
     fail_if (trNextRootKeys tr = []) (Failure CodeTransitionShape ''root-rotate requires next_root_keys'' []),
     first_err (\<lambda>k. fail_if (\<not> rmatch digestRe k)
         (Failure CodeTransitionShape ''next_root_keys entry %q is not a sha256 digest'' [k])) (trNextRootKeys tr),
     fail_if (trNextRootThreshold tr < 1)
       (Failure CodeTransitionShape ''root-rotate requires next_root_threshold >= 1'' [])]"

definition ValidateTransition :: "Transition \<Rightarrow> scheme_error option" where
  "ValidateTransition tr = seq_err [
     transition_shape tr,
     (if trAction tr = ActionCreate then create_shape tr
      else if trAction tr = ActionUpdate then requireFrom tr
      else if trAction tr = ActionRevoke then revoke_shape tr
      else if trAction tr = ActionRootRotate then rotate_shape tr
      else None)]"

definition ParseTransition :: "string \<Rightarrow> scheme_error + Transition" where
  "ParseTransition raw =
     (case decodeClosed Transition_fields zero_Transition raw of
        Inl e \<Rightarrow> Inl (Failure CodeTransitionShape ''%s'' [error_format e])
      | Inr tr \<Rightarrow> (case ValidateTransition tr of Some e \<Rightarrow> Inl e | None \<Rightarrow> Inr tr))"

definition json_of_Transition :: "Transition \<Rightarrow> json" where
  "json_of_Transition tr = struct_json
     [(True, ''@version'', JStr (trVersion tr)),
      (True, ''action'', JStr (trAction tr)),
      (True, ''scheme'', JStr (trScheme tr)),
      (True, ''namespace'', JStr (trNamespace tr)),
      (trFromGeneration tr \<noteq> None, ''from_generation'', JInt CInt64 (the (trFromGeneration tr))),
      (True, ''to_generation'', JInt CInt64 (trToGeneration tr)),
      (trFromDigest tr \<noteq> [], ''from_digest'', JStr (trFromDigest tr)),
      (True, ''to_digest'', JStr (trToDigest tr)),
      (True, ''change_class'', JStr (trChangeClass tr)),
      (True, ''target_clc_revision'', JStr (trTargetCLCRevision tr)),
      (trRevocationReason tr \<noteq> [], ''revocation_reason'', JStr (trRevocationReason tr)),
      (trRevocationEffectiveTime tr \<noteq> [], ''revocation_effective_time'', JStr (trRevocationEffectiveTime tr)),
      (trReplacementDigest tr \<noteq> [], ''replacement_digest'', JStr (trReplacementDigest tr)),
      (trTombstoneGeneration tr \<noteq> None, ''tombstone_generation'', JInt CInt64 (the (trTombstoneGeneration tr))),
      (trNextRootPackageDigest tr \<noteq> [], ''next_root_package_digest'', JStr (trNextRootPackageDigest tr)),
      (trNextRootKeys tr \<noteq> [], ''next_root_keys'', JArr (map JStr (trNextRootKeys tr))),
      (trNextRootThreshold tr \<noteq> 0, ''next_root_threshold'', JInt CInt (trNextRootThreshold tr))]"

definition TransitionDigest :: "Transition \<Rightarrow> canon_err + string" where
  "TransitionDigest tr = CanonicalDigest (json_of_Transition tr)"

subsection \<open>Operations\<close>

definition CapabilityFor :: "string \<Rightarrow> scheme_error + string" where
  "CapabilityFor action =
     (if action = ActionCreate then Inr CapCreate
      else if action = ActionUpdate then Inr CapUpdate
      else if action = ActionRevoke then Inr CapRevoke
      else if action = ActionRootRotate then Inr CapRootRotate
      else Inl (Failure CodeTransitionShape ''unknown action %q'' [action]))"

definition BuildManagementOperation :: "Package \<Rightarrow> Transition \<Rightarrow> scheme_error + Operation" where
  "BuildManagementOperation pkg tr =
     (case CapabilityFor (trAction tr) of
        Inl e \<Rightarrow> Inl e
      | Inr capability \<Rightarrow>
          (let op = (\<lambda>ps. Inr \<lparr>oID = FullCapabilityID capability, oParams = Some ps\<rparr>);
               clc = (''clc_revision'', JStr (trTargetCLCRevision tr))
           in if trAction tr = ActionCreate \<or> trAction tr = ActionUpdate then
                (case MajorOf (pkRevision pkg) of
                   Inl e \<Rightarrow> Inl (Failure CodePackageShape ''%s'' [error_format e])
                 | Inr major \<Rightarrow>
                     op [(''namespace'', JStr (trNamespace tr)), (''change_class'', JStr (trChangeClass tr)),
                         (''major'', JInt CInt major), clc])
              else if trAction tr = ActionRevoke then
                op [(''namespace'', JStr (trNamespace tr)), (''package_digest'', JStr (trFromDigest tr)), clc]
              else if trFromDigest tr = [] then Inl (Failure CodeTransitionShape ''root-rotate requires from_digest'' [])
              else op [(''package_digest'', JStr (trFromDigest tr)), clc]))"

definition BuildApprovalOperation :: "Package \<Rightarrow> Transition \<Rightarrow> scheme_error + Operation" where
  "BuildApprovalOperation pkg tr =
     (case PackageDigest pkg of
        Inl e \<Rightarrow> Inl (Failure CodePackageShape ''%s'' [])
      | Inr pkgDigest \<Rightarrow>
          (case TransitionDigest tr of
             Inl e \<Rightarrow> Inl (Failure CodeTransitionShape ''%s'' [])
           | Inr trDigest \<Rightarrow>
               Inr \<lparr>oID = FullCapabilityID CapApprove,
                    oParams = Some [(''namespace'', JStr (trNamespace tr)), (''package_digest'', JStr pkgDigest),
                      (''transition_digest'', JStr trDigest), (''clc_revision'', JStr (trTargetCLCRevision tr))]\<rparr>))"

definition json_of_Operation :: "Operation \<Rightarrow> json" where
  "json_of_Operation op = struct_json
     [(True, ''id'', JStr (oID op)), (entries (oParams op) \<noteq> [], ''params'', JObj (entries (oParams op)))]"

definition OperationDigest :: "Operation \<Rightarrow> canon_err + string" where
  "OperationDigest op = CanonicalDigest (json_of_Operation op)"

definition changeClassOrder :: "string \<Rightarrow> int" where
  "changeClassOrder c =
     (if c = ChangePatch then 0 else if c = ChangeMinor then 1 else if c = ChangeMajor then 2 else - 1)"

text \<open>The additions are those of \<open>int\<close>, which wrap around; the guards before them leave no room for that.\<close>

definition revisionFollows :: "string \<Rightarrow> string \<Rightarrow> string \<Rightarrow> scheme_error option" where
  "revisionFollows prev next changeClass =
     (case (MajorOf prev, MinorOf prev, MajorOf next, MinorOf next) of
        (Inl e, _) \<Rightarrow> Some e
      | (Inr pmaj, Inl e, _) \<Rightarrow> Some e
      | (Inr pmaj, Inr pmin, Inl e, _) \<Rightarrow> Some e
      | (Inr pmaj, Inr pmin, Inr nmaj, Inl e) \<Rightarrow> Some e
      | (Inr pmaj, Inr pmin, Inr nmaj, Inr nmin) \<Rightarrow>
          if changeClass = ChangePatch then
            fail_if (nmaj \<noteq> pmaj \<or> nmin \<noteq> pmin) (Plain ''patch must keep major.minor %d.%d, got %d.%d'' [])
          else if changeClass = ChangeMinor then
            seq_err [fail_if (pmin = maxIntValue) (Plain ''minor component %d cannot advance'' []),
              fail_if (nmaj \<noteq> pmaj \<or> nmin \<noteq> wrap64 (pmin + 1))
                (Plain ''minor must advance %d.%d to %d.%d, got %d.%d'' [])]
          else if changeClass = ChangeMajor then
            seq_err [fail_if (pmaj = maxIntValue) (Plain ''major component %d cannot advance'' []),
              fail_if (nmaj \<noteq> wrap64 (pmaj + 1) \<or> nmin \<noteq> 0)
                (Plain ''major must advance %d.%d to %d.0, got %d.%d'' [])]
          else Some (Plain ''unknown change class %q'' [changeClass]))"

definition namespaceUnder :: "string \<Rightarrow> string list \<Rightarrow> bool" where
  "namespaceUnder namespace ps =
     list_ex (\<lambda>p. namespace = p \<or> prefix (trim_suffix ''/'' p @ ''/'') namespace) ps"

end
