(* ===== verification/Scheme_Declaration.thy ===== *)
theory Scheme_Declaration
  imports Scheme_Artifacts
begin

text \<open>
  Scheme declarations (\<open>internal/schemedecl/quantity.go\<close>): the domains a scheme declares for the parameters of its
  capabilities, their validation and digest, and the relations of the core under them; then the checks of a package
  against its payload (\<open>schemeadmin/package.go\<close>). The iteration order of a Go map is the order of the association list;
  it decides only which error is reported. The strings of a declaration are those of decoded JSON text, so the marshal and
  unmarshal of \<open>computeDigest\<close> change none of them.
\<close>

record Param =
  paDomain :: string
  paUnit :: string
  paOptional :: bool

record Capability =
  caParams :: "Param gomap option"

record Declaration =
  dcVersion :: string
  dcScheme :: string
  dcDeclarationID :: string
  dcCLCRevision :: string
  dcDigest :: string
  dcCapabilities :: "Capability gomap"
  dcConstraintTypes :: "string list"

definition knownDomains :: "string list" where
  "knownDomains = [''bound'', ''enum'', ''exact'', ''quantity'', ''decimal-string'', ''subdomain'', ''path-prefix'']"

definition json_of_Param :: "Param \<Rightarrow> json" where
  "json_of_Param p = struct_json
     [(True, ''domain'', JStr (paDomain p)), (paUnit p \<noteq> [], ''unit'', JStr (paUnit p)),
      (paOptional p, ''optional'', JBool (paOptional p))]"

definition json_of_Capability :: "Capability \<Rightarrow> json" where
  "json_of_Capability c = struct_json
     [(True, ''params'',
        (case caParams c of None \<Rightarrow> JNull | Some ps \<Rightarrow> JObj (map (\<lambda>(n, p). (n, json_of_Param p)) ps)))]"

definition computeDigest :: "Declaration \<Rightarrow> scheme_error + string" where
  "computeDigest d =
     (case CanonicalJSON (struct_json
        [(True, ''@version'', JStr (dcVersion d)), (True, ''scheme'', JStr (dcScheme d)),
         (True, ''declaration_id'', JStr (dcDeclarationID d)), (True, ''clc_revision'', JStr (dcCLCRevision d)),
         (True, ''capabilities'', JObj (map (\<lambda>(n, c). (n, json_of_Capability c)) (dcCapabilities d))),
         (dcConstraintTypes d \<noteq> [], ''constraint_types'', JArr (map JStr (dcConstraintTypes d)))]) of
        Inl e \<Rightarrow> Inl (Plain ''canonical'' [])
      | Inr canonical \<Rightarrow> Inr (''sha256:'' @ b64_EncodeToString (Sum256 canonical)))"

definition param_error :: "string \<Rightarrow> string \<times> Param \<Rightarrow> scheme_error option" where
  "param_error capName np =
     (case np of (pName, p) \<Rightarrow> seq_err [
        fail_if (paDomain p \<notin> set knownDomains) (Plain ''unsupported_domain: %s.%s = %q'' [capName, pName, paDomain p]),
        fail_if (paDomain p = ''quantity'' \<and> paUnit p = [])
          (Plain ''invalid_declaration: %s.%s is quantity without unit'' [capName, pName]),
        fail_if (paDomain p \<noteq> ''quantity'' \<and> paUnit p \<noteq> [])
          (Plain ''invalid_declaration: %s.%s has unit outside quantity'' [capName, pName])])"

definition cap_params :: "Capability \<Rightarrow> Param gomap" where
  "cap_params c = (case caParams c of None \<Rightarrow> [] | Some ps \<Rightarrow> ps)"

definition Declaration_Validate :: "Declaration \<Rightarrow> scheme_error option" where
  "Declaration_Validate d = seq_err [
     fail_if (dcVersion d \<noteq> ''CLC-SCHEME-v1'') (Plain ''unsupported_declaration: %q'' [dcVersion d]),
     fail_if (dcScheme d = [] \<or> dcDeclarationID d = [] \<or> dcCLCRevision d = [])
       (Plain ''invalid_declaration: missing scheme/declaration_id/clc_revision'' []),
     fail_if (dcCapabilities d = []) (Plain ''invalid_declaration: no capabilities'' []),
     first_err (\<lambda>(capName, c). first_err (param_error capName) (cap_params c)) (dcCapabilities d),
     (if dcDigest d \<noteq> [] then
        (case computeDigest d of
           Inl e \<Rightarrow> Some e
         | Inr want \<Rightarrow>
             fail_if (want \<noteq> dcDigest d) (Plain ''declaration_digest_mismatch: want %s, got %s'' [want, dcDigest d]))
      else None)]"

definition declared_param :: "Declaration \<Rightarrow> string \<Rightarrow> string \<Rightarrow> Param option" where
  "declared_param d capability name =
     (case map_of (dcCapabilities d) capability of None \<Rightarrow> None | Some c \<Rightarrow> map_of (cap_params c) name)"

text \<open>An unknown capability has the nil map, which every relation reads as the empty one.\<close>

definition domainMap :: "Declaration \<Rightarrow> string \<Rightarrow> DomainMap" where
  "domainMap d capability =
     (case map_of (dcCapabilities d) capability of
        None \<Rightarrow> []
      | Some c \<Rightarrow> map (\<lambda>(n, p). (n, \<lparr>dName = paDomain p, dUnit = paUnit p\<rparr>)) (cap_params c))"

definition Declaration_Authorize ::
  "(string \<Rightarrow> string) \<Rightarrow> Declaration \<Rightarrow> string \<Rightarrow> Grant list \<Rightarrow> Operation \<Rightarrow> Decision" where
  "Declaration_Authorize lower d capability grants op =
     AuthorizeSetWithDomains lower grants op (domainMap d capability)"

definition Declaration_Contains ::
  "(string \<Rightarrow> string) \<Rightarrow> Declaration \<Rightarrow> string \<Rightarrow> Grant \<Rightarrow> Grant \<Rightarrow> error option" where
  "Declaration_Contains lower d capability parent child =
     (let dm = domainMap d capability in ContainsWithDomains lower parent child dm dm)"

subsection \<open>Declarations of a package\<close>

definition zero_Param :: Param where
  "zero_Param = \<lparr>paDomain = [], paUnit = [], paOptional = False\<rparr>"

definition Param_fields :: "Param fields" where
  "Param_fields =
     [(''domain'', str_field (\<lambda>v r. r\<lparr>paDomain := v\<rparr>)), (''unit'', str_field (\<lambda>v r. r\<lparr>paUnit := v\<rparr>)),
      (''optional'', bool_field (\<lambda>v r. r\<lparr>paOptional := v\<rparr>))]"

definition Capability_fields :: "Capability fields" where
  "Capability_fields =
     [(''params'', map_field (decode_struct Param_fields) zero_Param cap_params (\<lambda>v r. r\<lparr>caParams := v\<rparr>))]"

definition zero_Declaration :: Declaration where
  "zero_Declaration = \<lparr>dcVersion = [], dcScheme = [], dcDeclarationID = [], dcCLCRevision = [], dcDigest = [],
     dcCapabilities = [], dcConstraintTypes = []\<rparr>"

definition Declaration_fields :: "Declaration fields" where
  "Declaration_fields =
     [(''@version'', str_field (\<lambda>v r. r\<lparr>dcVersion := v\<rparr>)),
      (''scheme'', str_field (\<lambda>v r. r\<lparr>dcScheme := v\<rparr>)),
      (''declaration_id'', str_field (\<lambda>v r. r\<lparr>dcDeclarationID := v\<rparr>)),
      (''clc_revision'', str_field (\<lambda>v r. r\<lparr>dcCLCRevision := v\<rparr>)),
      (''digest'', str_field (\<lambda>v r. r\<lparr>dcDigest := v\<rparr>)),
      (''capabilities'', map_field (decode_struct Capability_fields) \<lparr>caParams = None\<rparr> dcCapabilities
         (\<lambda>v r. r\<lparr>dcCapabilities := (case v of None \<Rightarrow> [] | Some m \<Rightarrow> m)\<rparr>)),
      (''constraint_types'', list_field (str_field (\<lambda>v r. v)) [] (\<lambda>v r. r\<lparr>dcConstraintTypes := v\<rparr>))]"

definition ParseDeclaration :: "string \<Rightarrow> scheme_error + Declaration" where
  "ParseDeclaration raw =
     (case decodeClosed Declaration_fields zero_Declaration raw of
        Inl e \<Rightarrow> Inl (Failure CodeDeclarationInvalid ''%s'' [error_format e])
      | Inr decl \<Rightarrow>
          (case Declaration_Validate decl of
             Some e \<Rightarrow> Inl (Failure CodeDeclarationInvalid ''%s'' [error_format e])
           | None \<Rightarrow>
               if dcVersion decl \<noteq> DeclarationVersion then
                 Inl (Failure CodeDeclarationInvalid ''@version must be %q'' [DeclarationVersion])
               else Inr decl))"

definition ValidatePayload :: "Package \<Rightarrow> string \<Rightarrow> string \<Rightarrow> scheme_error option" where
  "ValidatePayload pkg def decl = seq_err [
     fail_if (def = []) (Failure CodePackageDigestMismatch ''definition payload is empty'' []),
     fail_if (decl = []) (Failure CodePackageDigestMismatch ''declaration payload is empty'' []),
     fail_if (sha_Digest def \<noteq> pkDefinitionDigest pkg)
       (Failure CodePackageDigestMismatch ''definition: want %s, got %s'' [pkDefinitionDigest pkg, sha_Digest def]),
     fail_if (sha_Digest decl \<noteq> pkDeclarationDigest pkg)
       (Failure CodePackageDigestMismatch ''declaration: want %s, got %s'' [pkDeclarationDigest pkg, sha_Digest decl]),
     (case ParseDeclaration decl of
        Inl e \<Rightarrow> Some e
      | Inr d \<Rightarrow> seq_err [
          fail_if (dcScheme d \<noteq> pkScheme pkg)
            (Failure CodeDeclarationInvalid ''declaration names scheme %q, package names %q'' [dcScheme d, pkScheme pkg]),
          fail_if (dcCLCRevision d \<noteq> pkCLCRevision pkg)
            (Failure CodeDeclarationInvalid ''declaration requires %q, package requires %q''
               [dcCLCRevision d, pkCLCRevision pkg])])]"

definition domainMapFor :: "string \<Rightarrow> string \<Rightarrow> DomainMap" where
  "domainMapFor raw capability =
     (if raw = [] then []
      else case ParseDeclaration raw of Inl e \<Rightarrow> [] | Inr decl \<Rightarrow> domainMap decl capability)"

end
