(* ===== verification/Scheme_Trust.thy ===== *)
theory Scheme_Trust
  imports Scheme_Declaration Rule_Signer
begin

text \<open>
  The deployer's side of scheme administration: the trust policy and the local registry state
  (\<open>schemeadmin/policy.go\<close>), the certificate and grant checks (\<open>confirm.go\<close>) and the signed tombstones (\<open>state.go\<close>).
  \<open>crypto\<close> holds the code outside the repository: \<open>pkcs7.VerifyDetached\<close>, the chain verification of \<open>crypto/x509\<close>,
  \<open>ParseAIC\<close>, \<open>ValidateAIC\<close> and the object identifier of the AIC extension of the types module, and the lower-casing of
  text outside ASCII. An extension of a certificate is its object identifier and its value. A nil certificate is
  \<open>None\<close>, an empty slice is the nil slice, and an instant is in nanoseconds.
\<close>

subsection \<open>Certificates\<close>

record Certificate =
  certRaw :: string
  RawSubjectPublicKeyInfo :: string
  certKeyUsage :: int
  certExtensions :: "(string \<times> string) list"

record AdminAIC = AIC +
  Identifier :: string
  Realm :: string
  KeyHash :: string

record crypto =
  VerifyDetached :: "string \<Rightarrow> string \<Rightarrow> string + Certificate option"
  x509_Verify :: "Certificate \<Rightarrow> Certificate list \<Rightarrow> instant \<Rightarrow> string option"
  ParseAIC :: "Certificate \<Rightarrow> string + AdminAIC option"
  ValidateAIC :: "AdminAIC \<Rightarrow> string option"
  ToLower :: "string \<Rightarrow> string"
  OIDAIC :: string

abbreviation cert_key :: "Certificate \<Rightarrow> string" where
  "cert_key cert \<equiv> keyIDOf (RawSubjectPublicKeyInfo cert)"

definition KeyID :: "Certificate option \<Rightarrow> string" where
  "KeyID cert = (case cert of None \<Rightarrow> [] | Some c \<Rightarrow> cert_key c)"

definition mustKeyHash :: "Certificate \<Rightarrow> string" where
  "mustKeyHash cert = sha256Bytes (RawSubjectPublicKeyInfo cert)"

definition root_pool :: "Certificate option list \<Rightarrow> Certificate list" where
  "root_pool roots = List.map_filter (\<lambda>r. r) roots"

definition verifyChain :: "crypto \<Rightarrow> Certificate option \<Rightarrow> Certificate option list \<Rightarrow> instant \<Rightarrow> scheme_error option" where
  "verifyChain cr cert roots now =
     (case cert of
        None \<Rightarrow> Some (Failure CodeSignatureMissing ''signer certificate is required'' [])
      | Some c \<Rightarrow> seq_err [
          fail_if (roots = []) (Failure CodeSignatureChain ''no trust roots configured'' []),
          fail_if (certKeyUsage c \<noteq> 0 \<and> even (certKeyUsage c))
            (Failure CodeSignatureChain ''signer certificate key usage does not permit digital signatures'' []),
          (case x509_Verify cr c (root_pool roots) now of
             Some e \<Rightarrow> Some (Failure CodeSignatureChain ''%s'' [e])
           | None \<Rightarrow> None)])"

definition aic_error :: "AdminAIC \<Rightarrow> Certificate \<Rightarrow> scheme_error option" where
  "aic_error aic cert = seq_err [
     fail_if (KeyHash aic = [] \<or> allZero (KeyHash aic))
       (Failure CodePublisherKeyBinding ''AIC carries no principal key hash'' []),
     fail_if (KeyHash aic \<noteq> mustKeyHash cert)
       (Failure CodePublisherKeyBinding ''AIC key hash does not match the certificate key'' [])]"

text \<open>The first checks of \<open>verifyCertificate\<close> are those of \<open>verifyChain\<close>, in the same order.\<close>

definition verifyCertificate ::
  "crypto \<Rightarrow> Certificate option \<Rightarrow> Certificate option list \<Rightarrow> instant \<Rightarrow> scheme_error + AdminAIC" where
  "verifyCertificate cr cert roots now =
     (case (verifyChain cr cert roots now, cert) of
        (Some e, _) \<Rightarrow> Inl e
      | (None, None) \<Rightarrow> Inl (Failure CodeSignatureMissing ''signer certificate is required'' [])
      | (None, Some c) \<Rightarrow>
          (case ParseAIC cr c of
             Inl e \<Rightarrow> Inl (Failure CodeSignatureNoAIC ''%s'' [e])
           | Inr None \<Rightarrow> Inl (Failure CodeSignatureNoAIC ''certificate carries no AIC extension'' [])
           | Inr (Some aic) \<Rightarrow>
               (case ValidateAIC cr aic of
                  Some e \<Rightarrow> Inl (Failure CodeSignatureNoAIC ''AIC is invalid: %s'' [e])
                | None \<Rightarrow> (case aic_error aic c of Some e \<Rightarrow> Inl e | None \<Rightarrow> Inr aic))))"

definition names_principal :: "string \<Rightarrow> AdminAIC \<Rightarrow> bool" where
  "names_principal want aic \<longleftrightarrow> want = Identifier aic \<or> want = Realm aic @ '':'' @ Identifier aic"

definition verifyPublisher ::
  "crypto \<Rightarrow> Package \<Rightarrow> Certificate option \<Rightarrow> Certificate option list \<Rightarrow> instant \<Rightarrow> scheme_error + AdminAIC" where
  "verifyPublisher cr pkg cert roots now =
     (case verifyCertificate cr cert roots now of
        Inl e \<Rightarrow> Inl e
      | Inr aic \<Rightarrow>
          if \<not> names_principal (trim_prefix ''principal:'' (pkPublisher pkg)) aic then
            Inl (Failure CodePublisherMismatch ''package names %q, AIC names %q''
              [pkPublisher pkg, Realm aic @ '':'' @ Identifier aic])
          else Inr aic)"

subsection \<open>Grants of a certificate\<close>

definition coversGrantID :: "string \<Rightarrow> string \<Rightarrow> bool" where
  "coversGrantID grantID opID \<longleftrightarrow>
     (if grantID = opID then True
      else if suffix '':*'' grantID then
        (let p = trim_suffix ''*'' grantID in length p < length opID \<and> prefix p opID)
      else False)"

definition grantFromAICCapability :: "AicCapability \<Rightarrow> Grant option" where
  "grantFromAICCapability cap =
     (let g = (\<lambda>ps bs. Some \<lparr>gID = FullID cap, gParams = ps, gParamBounds = bs, gConstraints = []\<rparr>)
      in if Parameters cap = [] then g None []
         else
           case unmarshal_map (Parameters cap) of
             None \<Rightarrow> None
           | Some raw \<Rightarrow>
               (case (map_of (entries raw) ''params'', map_of (entries raw) ''param_bounds'') of
                  (None, None) \<Rightarrow> g raw []
                | (None, Some (JObj bs)) \<Rightarrow> g None bs
                | (Some (JObj ps), None) \<Rightarrow> g (Some ps) []
                | (Some (JObj ps), Some (JObj bs)) \<Rightarrow> g (Some ps) bs
                | _ \<Rightarrow> None))"

definition grantsFor :: "AdminAIC \<Rightarrow> string \<Rightarrow> Grant list" where
  "grantsFor aic fullID =
     List.map_filter grantFromAICCapability (filter (\<lambda>cap. coversGrantID (FullID cap) fullID) (AIC.Capabilities aic))"

definition contained :: "crypto \<Rightarrow> DomainMap \<Rightarrow> Grant list \<Rightarrow> Grant \<Rightarrow> bool" where
  "contained cr dm roots g \<longleftrightarrow> list_ex (\<lambda>r. ContainsWithDomains (ToLower cr) r g dm dm = None) roots"

text \<open>The grants inside the root authority; the text of the reasons only goes into the detail of the refusal.\<close>

definition containGrants :: "crypto \<Rightarrow> Grant list \<Rightarrow> Grant list \<Rightarrow> DomainMap \<Rightarrow> Grant list \<times> string" where
  "containGrants cr grants roots dm =
     (let kept = filter (contained cr dm roots) grants
      in (kept, if kept \<noteq> [] then [] else ''no grant is contained by the root authority (%s)''))"

subsection \<open>Policy and state\<close>

record TrustPolicy =
  tpRootPackageDigest :: string
  tpRootKeys :: "string list"
  tpRootThreshold :: int
  tpRootGrants :: "Grant list"
  tpSupportedCLCRevisions :: "string list"
  tpNamespacePrefixes :: "string list"
  tpMaxMajor :: int
  tpAdministrationDeclaration :: string
  tpObservedAt :: string
  tpMaxStalenessSeconds :: int
  tpApprovalThreshold :: int
  tpNextRootPackageDigest :: string
  tpNextRootKeys :: "string list"
  tpNextRootThreshold :: int

record RegistryEntry =
  reGeneration :: int
  rePackageDigest :: string

record Revocation =
  rvPackageDigest :: string
  rvGeneration :: int
  rvEffectiveTime :: string
  rvReason :: string
  rvReplacementDigest :: string
  rvTombstone :: string
  rvSignature :: string

record Approval =
  apPackageDigest :: string
  apTransitionDigest :: string
  apApprover :: string
  apSignature :: string

record RegistryState =
  rsScheme :: string
  rsRevision :: string
  rsGeneration :: int
  rsPackageDigest :: string
  rsHistory :: "RegistryEntry list"
  rsRevoked :: "Revocation list"
  rsApprovals :: "Approval list"

definition HeadOf :: "RegistryState \<Rightarrow> int" where
  "HeadOf s = foldl (\<lambda>head e. if head < reGeneration e then reGeneration e else head) (rsGeneration s) (rsHistory s)"

definition digestAt :: "RegistryState \<Rightarrow> int \<Rightarrow> string option" where
  "digestAt s generation =
     (if rsGeneration s = generation \<and> rsPackageDigest s \<noteq> [] then Some (rsPackageDigest s)
      else map_option rePackageDigest (find (\<lambda>e. reGeneration e = generation) (rsHistory s)))"

definition isRevoked :: "RegistryState \<Rightarrow> string \<Rightarrow> bool" where
  "isRevoked s digest = list_ex (\<lambda>r. rvPackageDigest r = digest) (rsRevoked s)"

fun revoked_at :: "string \<Rightarrow> instant \<Rightarrow> Revocation list \<Rightarrow> scheme_error + bool" where
  "revoked_at digest now [] = Inr False"
| "revoked_at digest now (r # rs) =
     (if rvPackageDigest r \<noteq> digest then revoked_at digest now rs
      else if rvReplacementDigest r \<noteq> [] \<and> rvReplacementDigest r = rvPackageDigest r then
        Inl (Plain ''revocation %s names itself as its replacement'' [digest])
      else if rvEffectiveTime r = [] then Inr True
      else
        case parse_rfc3339 (rvEffectiveTime r) of
          None \<Rightarrow> Inl (Plain ''revocation %s effective_time %q is not RFC3339'' [digest, rvEffectiveTime r])
        | Some t \<Rightarrow> if \<not> now < t then Inr True else revoked_at digest now rs)"

definition isRevokedAt :: "RegistryState \<Rightarrow> string \<Rightarrow> instant \<Rightarrow> scheme_error + bool" where
  "isRevokedAt s digest now = revoked_at digest now (rsRevoked s)"

definition countApprovals :: "RegistryState \<Rightarrow> string \<Rightarrow> string \<Rightarrow> nat" where
  "countApprovals s pkgDigest trDigest =
     length (filter (\<lambda>a. apPackageDigest a = pkgDigest \<and> apTransitionDigest a = trDigest) (rsApprovals s))"

definition policyTime :: "TrustPolicy \<Rightarrow> scheme_error + instant" where
  "policyTime p =
     (if tpObservedAt p = [] then
        Inl (Failure CodePackageStale ''policy.observed_at is required for freshness decisions'' [])
      else
        case parse_rfc3339 (tpObservedAt p) of
          None \<Rightarrow> Inl (Failure CodePackageStale ''policy.observed_at %q is not RFC3339'' [tpObservedAt p])
        | Some t \<Rightarrow> Inr t)"

fun distinct_digests :: "string \<Rightarrow> string list \<Rightarrow> string list \<Rightarrow> scheme_error option" where
  "distinct_digests field seen [] = None"
| "distinct_digests field seen (k # ks) =
     (if \<not> rmatch digestRe k then
        Some (Failure CodePackageShape ''policy.%s entry %q is not a sha256 digest'' [field, k])
      else if k \<in> set seen then Some (Failure CodePackageShape ''policy.%s contains duplicate key %q'' [field, k])
      else distinct_digests field (k # seen) ks)"

definition validateDistinctDigests :: "string \<Rightarrow> string list \<Rightarrow> scheme_error option" where
  "validateDistinctDigests field keys = distinct_digests field [] keys"

definition ValidatePolicy :: "TrustPolicy \<Rightarrow> scheme_error option" where
  "ValidatePolicy p = seq_err [
     fail_if (tpRootPackageDigest p \<noteq> [] \<and> \<not> rmatch digestRe (tpRootPackageDigest p))
       (Failure CodePackageShape ''policy.root_package_digest is not a sha256 digest'' []),
     fail_if (tpRootKeys p \<noteq> [] \<and> tpRootThreshold p < 1)
       (Failure CodePackageShape ''policy.root_threshold must be >= 1 when root keys are configured'' []),
     fail_if (tpRootThreshold p < 0) (Failure CodePackageShape ''policy.root_threshold must be >= 0'' []),
     fail_if (int (length (tpRootKeys p)) < tpRootThreshold p)
       (Failure CodePackageShape ''policy.root_threshold %d exceeds the %d configured root keys'' []),
     fail_if (tpApprovalThreshold p < 0) (Failure CodePackageShape ''policy.approval_threshold must be >= 0'' []),
     fail_if (tpMaxStalenessSeconds p < 0) (Failure CodePackageShape ''policy.max_staleness_seconds must be >= 0'' []),
     fail_if (tpMaxMajor p < 1) (Failure CodePackageShape ''policy.max_major must be >= 1'' []),
     validateDistinctDigests ''root_keys'' (tpRootKeys p),
     validateDistinctDigests ''next_root_keys'' (tpNextRootKeys p),
     fail_if (tpNextRootThreshold p < 0) (Failure CodePackageShape ''policy.next_root_threshold must be >= 0'' []),
     fail_if (int (length (tpNextRootKeys p)) < tpNextRootThreshold p)
       (Failure CodePackageShape ''policy.next_root_threshold %d exceeds the %d configured next root keys'' []),
     fail_if (tpNextRootPackageDigest p \<noteq> [] \<and> \<not> rmatch digestRe (tpNextRootPackageDigest p))
       (Failure CodePackageShape ''policy.next_root_package_digest is not a sha256 digest'' []),
     first_err (\<lambda>q. fail_if (q = [] \<or> q = ''/'' \<or> \<not> prefix ''/'' q \<or> path_Clean q \<noteq> q)
         (Failure CodePackageShape ''policy.namespace_prefixes entry %q must be a clean non-root absolute prefix'' [q]))
       (tpNamespacePrefixes p),
     fail_if (tpAdministrationDeclaration p = [])
       (Failure CodeDeclarationInvalid ''policy.administration_declaration is required'' []),
     (case ParseDeclaration (tpAdministrationDeclaration p) of
        Inl e \<Rightarrow> Some e
      | Inr decl \<Rightarrow>
          fail_if (dcScheme decl \<noteq> SchemeID)
            (Failure CodeDeclarationInvalid ''policy administration declaration names %q, want %q'' [dcScheme decl, SchemeID])),
     first_err (\<lambda>k. fail_if (\<not> rmatch digestRe k)
         (Failure CodePackageShape ''policy.next_root_keys entry %q is not a sha256 digest'' [k])) (tpNextRootKeys p)]"

subsection \<open>Tombstones\<close>

definition verifyTombstone ::
  "crypto \<Rightarrow> Revocation \<Rightarrow> string \<Rightarrow> Certificate option list \<Rightarrow> instant \<Rightarrow> scheme_error option" where
  "verifyTombstone cr r scheme roots now =
     (let bad = Failure CodeRevocationInvalid
      in if rvTombstone r = [] \<or> rvSignature r = [] then Some (bad ''tombstone for %s is unsigned'' [rvPackageDigest r])
         else
           case VerifyDetached cr (rvSignature r) (rvTombstone r) of
             Inl e \<Rightarrow> Some (bad ''tombstone signature: %s'' [e])
           | Inr cert \<Rightarrow>
               (case verifyCertificate cr cert roots now of
                  Inl e \<Rightarrow> Some (bad ''tombstone signer: %s'' [error_format e])
                | Inr aic \<Rightarrow>
                    (case ParseTransition (rvTombstone r) of
                       Inl e \<Rightarrow> Some (bad ''tombstone transition: %s'' [error_format e])
                     | Inr tr \<Rightarrow> seq_err [
                         fail_if (trAction tr \<noteq> ActionRevoke \<or> trScheme tr \<noteq> scheme)
                           (bad ''tombstone is not a revoke transition for %s'' [scheme]),
                         fail_if (trFromDigest tr \<noteq> rvPackageDigest r)
                           (bad ''tombstone from_digest %s does not match %s'' [trFromDigest tr, rvPackageDigest r]),
                         fail_if (trRevocationReason tr \<noteq> rvReason r \<or> trRevocationEffectiveTime tr \<noteq> rvEffectiveTime r \<or>
                             trReplacementDigest tr \<noteq> rvReplacementDigest r)
                           (bad ''tombstone metadata does not match the revocation record'' []),
                         fail_if (trTombstoneGeneration tr \<noteq> Some (rvGeneration r))
                           (bad ''tombstone generation does not match the revocation record'' [])])))"

definition verifyRevocations ::
  "crypto \<Rightarrow> RegistryState \<Rightarrow> Certificate option list \<Rightarrow> instant \<Rightarrow> scheme_error option" where
  "verifyRevocations cr s roots now = first_err (\<lambda>r. verifyTombstone cr r (rsScheme s) roots now) (rsRevoked s)"

end
