(* ===== verification/Scheme_Confirm.thy ===== *)
theory Scheme_Confirm
  imports Scheme_Trust
begin

text \<open>
  The deployer's confirmation (\<open>schemeadmin/confirm.go\<close>, \<open>approval.go\<close>, \<open>signed.go\<close>): signatures, the publisher's
  certificate and authority, root rotation, registry continuity, revocation, freshness and approvals. An error returned with a result is the pair of both.
\<close>

record Confirmation =
  cfPackage :: Package
  cfTransition :: Transition
  cfDefinition :: string
  cfDeclaration :: string
  cfTransitionBytes :: string
  cfTransitionSignature :: string
  cfPublisherCert :: "Certificate option"
  cfRoots :: "Certificate option list"
  cfRootSigners :: "Certificate option list"
  cfState :: RegistryState
  cfPolicy :: TrustPolicy

text \<open>The reason of a result: empty, the text \<open>internal\<close>, or a stable code.\<close>

datatype result_reason = NoReason | InternalReason | CodeReason scheme_code

definition reason_of :: "scheme_error \<Rightarrow> result_reason" where
  "reason_of e = (case CodeOf e of None \<Rightarrow> InternalReason | Some c \<Rightarrow> CodeReason c)"

record ConfirmationResult =
  crVerdict :: string
  crReason :: result_reason
  crDetail :: "scheme_error option"
  crAction :: string
  crScheme :: string
  crNamespace :: string
  crGeneration :: int
  crPackageDigest :: string
  crTransitionDigest :: string
  crManagementOperationDigest :: string
  crApprovalOperationDigest :: string
  crPublisherCertificateDigest :: string
  crPublisherKeyID :: string
  crTrustPolicyDigest :: string
  crRegistryStateDigest :: string
  crInputsDigest :: string
  crSigned :: bool
  crRevokedPackageDigest :: string
  crRevocationReason :: string
  crRevocationEffectiveTime :: string
  crReplacementDigest :: string
  crTombstoneGeneration :: int

definition reject_result :: ConfirmationResult where
  "reject_result = \<lparr>crVerdict = VerdictReject, crReason = NoReason, crDetail = None, crAction = [], crScheme = [],
     crNamespace = [], crGeneration = 0, crPackageDigest = [], crTransitionDigest = [], crManagementOperationDigest = [],
     crApprovalOperationDigest = [], crPublisherCertificateDigest = [], crPublisherKeyID = [], crTrustPolicyDigest = [],
     crRegistryStateDigest = [], crInputsDigest = [], crSigned = False, crRevokedPackageDigest = [],
     crRevocationReason = [], crRevocationEffectiveTime = [], crReplacementDigest = [], crTombstoneGeneration = 0\<rparr>"

definition digest_or_empty :: "canon_err + string \<Rightarrow> string" where
  "digest_or_empty d = (case d of Inl e \<Rightarrow> [] | Inr s \<Rightarrow> s)"

subsection \<open>JSON forms\<close>

definition json_of_strings :: "string list \<Rightarrow> json" where
  "json_of_strings xs = (if xs = [] then JNull else JArr (map JStr xs))"

definition json_of_Grant :: "Grant \<Rightarrow> json" where
  "json_of_Grant g = struct_json
     [(True, ''id'', JStr (gID g)),
      (entries (gParams g) \<noteq> [], ''params'', JObj (entries (gParams g))),
      (gParamBounds g \<noteq> [], ''param_bounds'', JObj (gParamBounds g)),
      (gConstraints g \<noteq> [], ''constraints'', JArr (map JStr (gConstraints g)))]"

text \<open>A raw message is written as the JSON value it holds, null when it is empty; a text that is none is an error.\<close>

definition json_of_raw :: "string \<Rightarrow> json option" where
  "json_of_raw raw = (if raw = [] then Some JNull else Option.bind (parse_json raw) decode_text)"

definition TrustPolicyDigest :: "TrustPolicy \<Rightarrow> canon_err + string" where
  "TrustPolicyDigest p =
     (case json_of_raw (tpAdministrationDeclaration p) of
        None \<Rightarrow> Inl EncoderError
      | Some decl \<Rightarrow> CanonicalDigest (struct_json
          [(True, ''root_package_digest'', JStr (tpRootPackageDigest p)),
           (True, ''root_keys'', json_of_strings (tpRootKeys p)),
           (True, ''root_threshold'', JInt CInt (tpRootThreshold p)),
           (True, ''root_grants'',
              (if tpRootGrants p = [] then JNull else JArr (map json_of_Grant (tpRootGrants p)))),
           (True, ''supported_clc_revisions'', json_of_strings (tpSupportedCLCRevisions p)),
           (True, ''namespace_prefixes'', json_of_strings (tpNamespacePrefixes p)),
           (True, ''max_major'', JInt CInt (tpMaxMajor p)),
           (True, ''administration_declaration'', decl),
           (True, ''observed_at'', JStr (tpObservedAt p)),
           (tpMaxStalenessSeconds p \<noteq> 0, ''max_staleness_seconds'', JInt CInt64 (tpMaxStalenessSeconds p)),
           (tpApprovalThreshold p \<noteq> 0, ''approval_threshold'', JInt CInt (tpApprovalThreshold p)),
           (tpNextRootPackageDigest p \<noteq> [], ''next_root_package_digest'', JStr (tpNextRootPackageDigest p)),
           (tpNextRootKeys p \<noteq> [], ''next_root_keys'', JArr (map JStr (tpNextRootKeys p))),
           (tpNextRootThreshold p \<noteq> 0, ''next_root_threshold'', JInt CInt (tpNextRootThreshold p))]))"

definition json_of_entry :: "RegistryEntry \<Rightarrow> json" where
  "json_of_entry e = struct_json
     [(True, ''generation'', JInt CInt64 (reGeneration e)), (True, ''package_digest'', JStr (rePackageDigest e))]"

definition json_of_Revocation :: "Revocation \<Rightarrow> json" where
  "json_of_Revocation r = struct_json
     [(True, ''package_digest'', JStr (rvPackageDigest r)),
      (True, ''generation'', JInt CInt64 (rvGeneration r)),
      (True, ''effective_time'', JStr (rvEffectiveTime r)),
      (True, ''reason'', JStr (rvReason r)),
      (rvReplacementDigest r \<noteq> [], ''replacement_digest'', JStr (rvReplacementDigest r)),
      (rvTombstone r \<noteq> [], ''tombstone'', JStr (std_EncodeToString (rvTombstone r))),
      (rvSignature r \<noteq> [], ''signature'', JStr (std_EncodeToString (rvSignature r)))]"

definition json_of_Approval :: "Approval \<Rightarrow> json" where
  "json_of_Approval a = struct_json
     [(True, ''package_digest'', JStr (apPackageDigest a)),
      (True, ''transition_digest'', JStr (apTransitionDigest a)),
      (True, ''approver'', JStr (apApprover a)),
      (apSignature a \<noteq> [], ''signature'', JStr (std_EncodeToString (apSignature a)))]"

definition RegistryStateDigest :: "RegistryState \<Rightarrow> canon_err + string" where
  "RegistryStateDigest s = CanonicalDigest (struct_json
     [(True, ''scheme'', JStr (rsScheme s)),
      (rsRevision s \<noteq> [], ''revision'', JStr (rsRevision s)),
      (True, ''generation'', JInt CInt64 (rsGeneration s)),
      (True, ''package_digest'', JStr (rsPackageDigest s)),
      (rsHistory s \<noteq> [], ''history'', JArr (map json_of_entry (rsHistory s))),
      (rsRevoked s \<noteq> [], ''revoked'', JArr (map json_of_Revocation (rsRevoked s))),
      (rsApprovals s \<noteq> [], ''approvals'', JArr (map json_of_Approval (rsApprovals s)))])"

definition inputsDigest :: "ConfirmationResult \<Rightarrow> string" where
  "inputsDigest res = digest_or_empty (CanonicalDigest (JObj
     [(''package_digest'', JStr (crPackageDigest res)),
      (''transition_digest'', JStr (crTransitionDigest res)),
      (''management_operation_digest'', JStr (crManagementOperationDigest res)),
      (''approval_operation_digest'', JStr (crApprovalOperationDigest res)),
      (''publisher_certificate_digest'', JStr (crPublisherCertificateDigest res)),
      (''publisher_key_id'', JStr (crPublisherKeyID res)),
      (''trust_policy_digest'', JStr (crTrustPolicyDigest res)),
      (''registry_state_digest'', JStr (crRegistryStateDigest res)),
      (''revoked_package_digest'', JStr (crRevokedPackageDigest res)),
      (''revocation_reason'', JStr (crRevocationReason res)),
      (''revocation_effective_time'', JStr (crRevocationEffectiveTime res)),
      (''replacement_digest'', JStr (crReplacementDigest res)),
      (''tombstone_generation'', JInt CInt64 (crTombstoneGeneration res))]))"

subsection \<open>Approvals\<close>

definition ApprovalSigningBytes :: "Package \<Rightarrow> Transition \<Rightarrow> scheme_error + string" where
  "ApprovalSigningBytes pkg tr =
     (case BuildApprovalOperation pkg tr of
        Inl e \<Rightarrow> Inl e
      | Inr op \<Rightarrow> (case CanonicalJSON (json_of_Operation op) of Inl e \<Rightarrow> Inl (Plain ''canonical'' []) | Inr b \<Rightarrow> Inr b))"

text \<open>One approval that binds the pair: the principal and the key it counts for.\<close>

definition verify_approval ::
  "crypto \<Rightarrow> Confirmation \<Rightarrow> instant \<Rightarrow> string \<Rightarrow> Operation \<Rightarrow> DomainMap \<Rightarrow> Approval \<Rightarrow> scheme_error + string \<times> string" where
  "verify_approval cr c now payload op dm a =
     (let bad = (\<lambda>f as. Inl (Failure CodeApprovalInvalid f as))
      in if apSignature a = [] then bad ''approval %d has no detached signature'' []
         else
           case VerifyDetached cr (apSignature a) payload of
             Inl e \<Rightarrow> bad ''approval %d signature: %s'' [e]
           | Inr None \<Rightarrow> bad ''approval %d recovered no certificate'' []
           | Inr (Some cert) \<Rightarrow>
               (case verifyCertificate cr (Some cert) (cfRoots c) now of
                  Inl e \<Rightarrow> bad ''approval %d signer: %s'' [error_format e]
                | Inr aic \<Rightarrow>
                    (let want = trim_prefix ''principal:'' (apApprover a);
                         principal = Realm aic @ '':'' @ Identifier aic;
                         grants = grantsFor aic (oID op);
                         inside = fst (containGrants cr grants (tpRootGrants (cfPolicy c)) dm)
                     in if want = [] \<or> \<not> names_principal want aic then
                          bad ''approval %d names %q, AIC names %q'' [apApprover a, principal]
                        else if grants = [] then bad ''approval %d signer holds no %s capability'' [oID op]
                        else if inside = [] then bad ''approval %d authority is outside the root grants: %s'' []
                        else if Verdict (AuthorizeSetWithDomains (ToLower cr) inside op dm) \<noteq> VerdictAllow then
                          bad ''approval %d is not authorized by CLC: %s'' []
                        else Inr (principal, cert_key cert))))"

fun count_approvals ::
  "(Approval \<Rightarrow> scheme_error + string \<times> string) \<Rightarrow> string list \<Rightarrow> string list \<Rightarrow> Approval list \<Rightarrow> scheme_error + nat" where
  "count_approvals verify approvers keys [] = Inr (length approvers)"
| "count_approvals verify approvers keys (a # as) =
     (case verify a of
        Inl e \<Rightarrow> Inl e
      | Inr (who, key) \<Rightarrow>
          if who \<in> set approvers then
            Inl (Failure CodeApprovalInvalid ''duplicate approval by %s'' [who])
          else if key \<in> set keys then Inl (Failure CodeApprovalInvalid ''duplicate approval key %s'' [key])
          else count_approvals verify (who # approvers) (key # keys) as)"

definition verifyApprovals :: "crypto \<Rightarrow> Confirmation \<Rightarrow> instant \<Rightarrow> string \<Rightarrow> string \<Rightarrow> scheme_error + nat" where
  "verifyApprovals cr c now pkgDigest trDigest =
     (case (ApprovalSigningBytes (cfPackage c) (cfTransition c), BuildApprovalOperation (cfPackage c) (cfTransition c)) of
        (Inl e, _) \<Rightarrow> Inl (Failure CodeApprovalInvalid ''%s'' [error_format e])
      | (Inr payload, Inl e) \<Rightarrow> Inl (Failure CodeApprovalInvalid ''%s'' [error_format e])
      | (Inr payload, Inr op) \<Rightarrow>
          (let capability = (case capabilityOf (oID op) of None \<Rightarrow> [] | Some k \<Rightarrow> k);
               dm = domainMapFor (tpAdministrationDeclaration (cfPolicy c)) capability
           in if maxApprovalRecords < int (length (rsApprovals (cfState c))) then
                Inl (Failure CodeApprovalInvalid ''too many approval records (limit %d)'' [])
              else count_approvals (verify_approval cr c now payload op dm) [] []
                     (filter (\<lambda>a. apPackageDigest a = pkgDigest \<and> apTransitionDigest a = trDigest) (rsApprovals (cfState c)))))"

subsection \<open>Root rotation, continuity and freshness\<close>

fun remove_one :: "string \<Rightarrow> string list \<Rightarrow> string list option" where
  "remove_one x [] = None"
| "remove_one x (y # ys) = (if x = y then Some ys else map_option ((#) y) (remove_one x ys))"

fun take_away :: "string list \<Rightarrow> string list \<Rightarrow> bool" where
  "take_away seen [] = True"
| "take_away seen (x # xs) = (case remove_one x seen of None \<Rightarrow> False | Some rest \<Rightarrow> take_away rest xs)"

text \<open>The counts of \<open>seen\<close> are a list with repetitions: a count of zero is an absent element.\<close>

definition sameSet :: "string list \<Rightarrow> string list \<Rightarrow> bool" where
  "sameSet a b \<longleftrightarrow> length a = length b \<and> take_away a b"

text \<open>The distinct current root keys among the signers; without signers the publisher alone counts.\<close>

definition current_root_keys :: "Confirmation \<Rightarrow> string list" where
  "current_root_keys c =
     (let signers = (if cfRootSigners c = [] then [cfPublisherCert c] else cfRootSigners c)
      in remdups (filter (\<lambda>k. k \<in> set (tpRootKeys (cfPolicy c)))
           (map cert_key (List.map_filter (\<lambda>r. r) signers))))"

definition checkRootRotation :: "Confirmation \<Rightarrow> scheme_error option" where
  "checkRootRotation c =
     (let p = cfPolicy c; tr = cfTransition c; mismatch = Failure CodeRootPolicyMismatch;
          signerKey = (case cfPublisherCert c of None \<Rightarrow> [] | Some cert \<Rightarrow> cert_key cert);
          inCurrent = signerKey \<in> set (tpRootKeys p);
          inNext = signerKey \<in> set (tpNextRootKeys p)
      in seq_err [
        fail_if (inNext \<and> \<not> inCurrent)
          (Failure CodeRootSelfAuthorized ''signer %s is only in the proposed next root'' [signerKey]),
        fail_if (\<not> inCurrent)
          (Failure CodeRootNoCurrentRoot ''signer %s is not a configured current root key'' [signerKey]),
        fail_if (tpRootThreshold p < 1) (mismatch ''policy root_threshold must be >= 1'' []),
        fail_if (int (length (current_root_keys c)) < tpRootThreshold p)
          (Failure CodeRootThreshold ''have %d distinct current-root signatures, policy requires %d'' []),
        fail_if (tpRootPackageDigest p = [] \<or> trFromDigest tr \<noteq> tpRootPackageDigest p)
          (mismatch ''from_digest %q is not the configured root package %q'' [trFromDigest tr, tpRootPackageDigest p]),
        fail_if (tpNextRootPackageDigest p = [] \<or> tpNextRootKeys p = [] \<or> tpNextRootThreshold p < 1)
          (mismatch ''policy configures no next root'' []),
        fail_if (trNextRootPackageDigest tr \<noteq> tpNextRootPackageDigest p)
          (mismatch ''transition next root %q, policy next root %q'' [trNextRootPackageDigest tr, tpNextRootPackageDigest p]),
        fail_if (trNextRootThreshold tr \<noteq> tpNextRootThreshold p)
          (mismatch ''transition threshold %d, policy threshold %d'' []),
        fail_if (\<not> sameSet (trNextRootKeys tr) (tpNextRootKeys p))
          (mismatch ''transition next root keys differ from the configured next root keys'' []),
        fail_if (int (length (trNextRootKeys tr)) < trNextRootThreshold tr)
          (Failure CodeRootThreshold ''next root has %d keys, threshold %d'' []),
        fail_if (tpNextRootPackageDigest p = tpRootPackageDigest p)
          (Failure CodeRootSelfAuthorized ''the proposed next root package is the current root package'' []),
        fail_if (trToDigest tr \<noteq> tpNextRootPackageDigest p)
          (mismatch ''to_digest %q is not the next root package %q'' [trToDigest tr, tpNextRootPackageDigest p])])"

definition checkState :: "Confirmation \<Rightarrow> scheme_error option" where
  "checkState c =
     (let s = cfState c; tr = cfTransition c
      in if trAction tr = ActionCreate then
           fail_if (rsHistory s \<noteq> [] \<or> rsGeneration s \<noteq> 0 \<or> rsPackageDigest s \<noteq> [])
             (Failure CodeStateNotEmpty ''create requires an empty namespace state, head is generation %d'' [])
         else seq_err [
           (case digestAt s (trToGeneration tr) of
              None \<Rightarrow> None
            | Some d \<Rightarrow>
                fail_if (d \<noteq> trToDigest tr)
                  (Failure CodeGenerationFork ''generation %d already holds %s, transition proposes %s'' [d, trToDigest tr])),
           (case trFromGeneration tr of
              None \<Rightarrow> Some (Failure CodeTransitionShape ''%s requires from_generation'' [trAction tr])
            | Some n \<Rightarrow> seq_err [
                fail_if (rsGeneration s \<noteq> n)
                  (Failure CodeStateGeneration ''local head generation %d, transition from_generation %d'' []),
                fail_if (rsPackageDigest s \<noteq> trFromDigest tr)
                  (Failure CodeStateDigest ''local head digest %s, transition from_digest %s''
                     [rsPackageDigest s, trFromDigest tr]),
                fail_if (trToGeneration tr \<noteq> wrap64 (n + 1))
                  (Failure CodeStateGeneration ''transition must advance exactly one generation, %d -> %d'' []),
                fail_if (trToGeneration tr \<le> HeadOf s)
                  (Failure CodeGenerationRollback ''generation %d is not newer than local head %d'' []),
                (if trAction tr = ActionUpdate \<and> rsRevision s \<noteq> [] then
                   (case revisionFollows (rsRevision s) (pkRevision (cfPackage c)) (trChangeClass tr) of
                      Some e \<Rightarrow> Some (Failure CodeChangeClassInvalid ''%s'' [error_format e])
                    | None \<Rightarrow> None)
                 else None)])])"

definition clockSkew :: int where "clockSkew = 300000000000"

definition checkFreshness :: "Package \<Rightarrow> TrustPolicy \<Rightarrow> scheme_error option" where
  "checkFreshness pkg policy =
     (case policyTime policy of
        Inl e \<Rightarrow> Some e
      | Inr now \<Rightarrow>
          (case (if pkIssuedAt pkg = [] then Some zero_time else parse_rfc3339 (pkIssuedAt pkg)) of
             None \<Rightarrow> Some (Failure CodePackageShape ''issued_at %q is not RFC3339'' [pkIssuedAt pkg])
           | Some issued \<Rightarrow> seq_err [
               fail_if (pkIssuedAt pkg \<noteq> [] \<and> now + clockSkew < issued)
                 (Failure CodePackageStale ''issued_at %s is in the future of observed_at %s''
                    [pkIssuedAt pkg, tpObservedAt policy]),
               (if pkValidUntil pkg = [] then None
                else
                  case parse_rfc3339 (pkValidUntil pkg) of
                    None \<Rightarrow> Some (Failure CodePackageShape ''valid_until %q is not RFC3339'' [pkValidUntil pkg])
                  | Some vu \<Rightarrow> seq_err [
                      fail_if (issued \<noteq> zero_time \<and> \<not> issued < vu)
                        (Failure CodePackageShape ''valid_until %s is not after issued_at %s'' [pkValidUntil pkg, pkIssuedAt pkg]),
                      fail_if (vu < now)
                        (Failure CodePackageExpired ''valid_until %s precedes %s'' [pkValidUntil pkg, tpObservedAt policy])]),
               (if 0 < tpMaxStalenessSeconds policy then seq_err [
                  fail_if (pkIssuedAt pkg = [])
                    (Failure CodePackageStale ''issued_at is required when max_staleness_seconds is set'' []),
                  fail_if (seconds_duration (tpMaxStalenessSeconds policy) < Sub now issued)
                    (Failure CodePackageStale ''package is older than %ds'' [])]
                else None)]))"

subsection \<open>The decision\<close>

definition package_binds :: "Package \<Rightarrow> Transition \<Rightarrow> scheme_error option" where
  "package_binds pkg tr =
     (let mismatch = Failure CodePackageTransitionMismatch
      in seq_err [
        fail_if (pkScheme pkg \<noteq> trScheme tr) (mismatch ''package scheme %q, transition scheme %q'' [pkScheme pkg, trScheme tr]),
        fail_if (pkGeneration pkg \<noteq> trToGeneration tr) (mismatch ''package generation %d, transition to_generation %d'' []),
        fail_if (pkChangeClass pkg \<noteq> trChangeClass tr)
          (mismatch ''package change_class %q, transition change_class %q'' [pkChangeClass pkg, trChangeClass tr]),
        fail_if (pkCLCRevision pkg \<noteq> trTargetCLCRevision tr)
          (mismatch ''package clc_revision %q, transition target_clc_revision %q'' [pkCLCRevision pkg, trTargetCLCRevision tr]),
        fail_if (PackageDigest pkg \<noteq> Inr (trToDigest tr)) (mismatch ''package digest %s, transition to_digest %s'' [trToDigest tr]),
        fail_if (trFromDigest tr \<noteq> [] \<and> pkPreviousPackageDigest pkg \<noteq> trFromDigest tr)
          (mismatch ''previous_package_digest %q, transition from_digest %q'' [pkPreviousPackageDigest pkg, trFromDigest tr])])"

definition check_authority :: "crypto \<Rightarrow> Confirmation \<Rightarrow> AdminAIC \<Rightarrow> scheme_error option" where
  "check_authority cr c aic =
     (case BuildManagementOperation (cfPackage c) (cfTransition c) of
        Inl e \<Rightarrow> Some e
      | Inr op \<Rightarrow>
          (let capability = (case capabilityOf (oID op) of None \<Rightarrow> [] | Some k \<Rightarrow> k);
               dm = domainMapFor (tpAdministrationDeclaration (cfPolicy c)) capability;
               grants = grantsFor aic (oID op);
               (inside, detail) = containGrants cr grants (tpRootGrants (cfPolicy c)) dm;
               decision = AuthorizeSetWithDomains (ToLower cr) inside op dm
           in seq_err [
             fail_if (grants = []) (Failure CodeAuthorityNoGrant ''AIC declares no %s capability'' [oID op]),
             fail_if (inside = []) (Failure CodeAuthorityNotContained ''%s'' [detail]),
             fail_if (Verdict decision \<noteq> VerdictAllow) (Failure CodeAuthorityNotAuthorized ''CLC %s'' [Verdict decision])]))"

definition check_adoption :: "Confirmation \<Rightarrow> scheme_error option" where
  "check_adoption c =
     (let p = cfPolicy c; pkg = cfPackage c
      in seq_err [
        fail_if (\<not> namespaceUnder (trNamespace (cfTransition c)) (tpNamespacePrefixes p))
          (Failure CodeNamespaceOutsidePolicy ''namespace %q is outside %v'' [trNamespace (cfTransition c)]),
        (case MajorOf (pkRevision pkg) of
           Inl e \<Rightarrow> Some (Failure CodePackageShape ''%s'' [error_format e])
         | Inr major \<Rightarrow>
             fail_if (tpMaxMajor p < major)
               (Failure CodeMajorExceedsLimit ''revision %s major %d exceeds policy max_major %d'' [pkRevision pkg]))])"

definition check_revoked :: "RegistryState \<Rightarrow> string \<Rightarrow> instant \<Rightarrow> scheme_error option" where
  "check_revoked s digest now =
     (case isRevokedAt s digest now of
        Inl e \<Rightarrow> Some (Failure CodeRevocationInvalid ''%s'' [error_format e])
      | Inr revoked \<Rightarrow> fail_if revoked (Failure CodePackageRevoked ''digest %s is revoked'' [digest]))"

definition check_approvals :: "crypto \<Rightarrow> Confirmation \<Rightarrow> ConfirmationResult \<Rightarrow> instant \<Rightarrow> scheme_error option" where
  "check_approvals cr c res now =
     (if 0 < tpApprovalThreshold (cfPolicy c) then
        (case verifyApprovals cr c now (crPackageDigest res) (crTransitionDigest res) of
           Inl e \<Rightarrow> Some e
         | Inr n \<Rightarrow>
             fail_if (int n < tpApprovalThreshold (cfPolicy c))
               (Failure CodeApprovalInsufficient ''have %d distinct verified approvals, policy requires %d'' []))
      else None)"

definition decide :: "crypto \<Rightarrow> Confirmation \<Rightarrow> ConfirmationResult \<Rightarrow> instant \<Rightarrow> scheme_error option" where
  "decide cr c res now =
     (let p = cfPolicy c; pkg = cfPackage c; tr = cfTransition c
      in case seq_err [ValidatePolicy p, ValidatePackage pkg, ValidateTransition tr,
             ValidatePayload pkg (cfDefinition c) (cfDeclaration c), package_binds pkg tr] of
           Some e \<Rightarrow> Some e
         | None \<Rightarrow>
             (case verifyPublisher cr pkg (cfPublisherCert c) (cfRoots c) now of
                Inl e \<Rightarrow> Some e
              | Inr aic \<Rightarrow> seq_err [
                  fail_if (pkCLCRevision pkg \<notin> set (tpSupportedCLCRevisions p))
                    (Failure CodeCLCSupported ''package requires %q, policy supports %v'' [pkCLCRevision pkg]),
                  fail_if (trTargetCLCRevision tr \<notin> set (tpSupportedCLCRevisions p))
                    (Failure CodeCLCSupported ''transition requires %q, policy supports %v'' [trTargetCLCRevision tr]),
                  (if trAction tr = ActionRootRotate then checkRootRotation c else None),
                  check_authority cr c aic,
                  check_adoption c,
                  checkState c,
                  verifyRevocations cr (cfState c) (cfRoots c) now,
                  check_revoked (cfState c) (trFromDigest tr) now,
                  check_revoked (cfState c) (crPackageDigest res) now,
                  checkFreshness pkg p,
                  check_approvals cr c res now]))"

definition op_digest :: "scheme_error + Operation \<Rightarrow> canon_err + string" where
  "op_digest r = (case r of Inl e \<Rightarrow> Inr [] | Inr op \<Rightarrow> OperationDigest op)"

text \<open>The result before the decision, with the digests of the inputs.\<close>

definition input_result :: "Confirmation \<Rightarrow> ConfirmationResult" where
  "input_result c =
     (let tr = cfTransition c; revoke = trAction tr = ActionRevoke
      in reject_result\<lparr>crAction := trAction tr, crScheme := pkScheme (cfPackage c), crNamespace := trNamespace tr,
           crGeneration := pkGeneration (cfPackage c),
           crRevokedPackageDigest := (if revoke then trFromDigest tr else []),
           crRevocationReason := (if revoke then trRevocationReason tr else []),
           crRevocationEffectiveTime := (if revoke then trRevocationEffectiveTime tr else []),
           crReplacementDigest := (if revoke then trReplacementDigest tr else []),
           crTombstoneGeneration :=
             (if revoke then (case trTombstoneGeneration tr of None \<Rightarrow> 0 | Some n \<Rightarrow> n) else 0)\<rparr>)"

definition bound_result :: "Confirmation \<Rightarrow> ConfirmationResult" where
  "bound_result c = (input_result c)
     \<lparr>crPackageDigest := digest_or_empty (PackageDigest (cfPackage c)),
      crTransitionDigest := digest_or_empty (TransitionDigest (cfTransition c)),
      crPublisherCertificateDigest := (case cfPublisherCert c of None \<Rightarrow> [] | Some cert \<Rightarrow> sha_Digest (certRaw cert)),
      crPublisherKeyID := KeyID (cfPublisherCert c),
      crTrustPolicyDigest := digest_or_empty (TrustPolicyDigest (cfPolicy c)),
      crRegistryStateDigest := digest_or_empty (RegistryStateDigest (cfState c))\<rparr>"

definition confirm :: "crypto \<Rightarrow> Confirmation \<Rightarrow> ConfirmationResult \<times> scheme_error option" where
  "confirm cr c =
     (case policyTime (cfPolicy c) of
        Inl e \<Rightarrow> (input_result c, Some e)
      | Inr now \<Rightarrow>
          (let res = bound_result c
           in case op_digest (BuildManagementOperation (cfPackage c) (cfTransition c)) of
                Inl e \<Rightarrow> (res, Some (Failure CodePackageShape ''management operation digest: %s'' []))
              | Inr md \<Rightarrow>
                  (let res1 = res\<lparr>crManagementOperationDigest := md\<rparr>
                   in case op_digest (BuildApprovalOperation (cfPackage c) (cfTransition c)) of
                        Inl e \<Rightarrow> (res1, Some (Failure CodePackageShape ''approval operation digest: %s'' []))
                      | Inr ad \<Rightarrow>
                          (let res2 = res1\<lparr>crApprovalOperationDigest := ad\<rparr>
                           in case decide cr c res2 now of
                                Some e \<Rightarrow>
                                  (let r = res2\<lparr>crReason := reason_of e, crDetail := Some e\<rparr>
                                   in (r\<lparr>crInputsDigest := inputsDigest r\<rparr>, Some e))
                              | None \<Rightarrow>
                                  (let r = res2\<lparr>crVerdict := VerdictAccept\<rparr>
                                   in (r\<lparr>crInputsDigest := inputsDigest r\<rparr>, None))))))"

definition Confirm :: "Confirmation \<Rightarrow> ConfirmationResult \<times> scheme_error option" where
  "Confirm c =
     (reject_result\<lparr>crAction := trAction (cfTransition c), crScheme := pkScheme (cfPackage c),
        crNamespace := trNamespace (cfTransition c), crGeneration := pkGeneration (cfPackage c)\<rparr>,
      Some (Failure CodeSignatureMissing ''Confirm does not verify signatures; use ConfirmSigned'' []))"

subsection \<open>Signed confirmations\<close>

record SignedConfirmation =
  scPackageBytes :: string
  scSignatures :: "string list"
  scTransitionBytes :: string
  scTransitionSignatures :: "string list"
  scDefinition :: string
  scDeclaration :: string
  scRoots :: "Certificate option list"
  scState :: RegistryState
  scPolicy :: TrustPolicy

definition transitionSignatureFor :: "crypto \<Rightarrow> Certificate \<Rightarrow> string list \<Rightarrow> string \<Rightarrow> string option" where
  "transitionSignatureFor cr pub signatures raw =
     find (\<lambda>sig. case VerifyDetached cr sig raw of Inr (Some cert) \<Rightarrow> cert_key cert = cert_key pub | _ \<Rightarrow> False) signatures"

definition recover_signer :: "crypto \<Rightarrow> scheme_code \<Rightarrow> string \<Rightarrow> string \<Rightarrow> scheme_error + Certificate" where
  "recover_signer cr code raw sig =
     (case VerifyDetached cr sig raw of
        Inl e \<Rightarrow> Inl (Failure code ''signature %d: %s'' [e])
      | Inr None \<Rightarrow> Inl (Failure code ''signature %d recovered no certificate'' [])
      | Inr (Some cert) \<Rightarrow> Inr cert)"

definition chain_error :: "crypto \<Rightarrow> SignedConfirmation \<Rightarrow> instant \<Rightarrow> Certificate \<Rightarrow> scheme_error option" where
  "chain_error cr sc now cert =
     map_option (\<lambda>e. Failure CodeSignatureChain ''signer %d: %s'' [error_format e])
       (verifyChain cr (Some cert) (scRoots sc) now)"

definition is_publisher :: "crypto \<Rightarrow> SignedConfirmation \<Rightarrow> Package \<Rightarrow> instant \<Rightarrow> Certificate \<Rightarrow> bool" where
  "is_publisher cr sc pkg now cert \<longleftrightarrow>
     (case verifyPublisher cr pkg (Some cert) (scRoots sc) now of Inl e \<Rightarrow> False | Inr aic \<Rightarrow> True)"

text \<open>The refusal when no signer is a publisher: the error of the last signer.\<close>

definition last_publisher_error ::
  "crypto \<Rightarrow> SignedConfirmation \<Rightarrow> Package \<Rightarrow> instant \<Rightarrow> Certificate list \<Rightarrow> scheme_error" where
  "last_publisher_error cr sc pkg now signers =
     (if signers = [] then
        Failure CodePublisherMismatch ''no verified signature binds package publisher %q'' [pkPublisher pkg]
      else
        case verifyPublisher cr pkg (Some (last signers)) (scRoots sc) now of
          Inl e \<Rightarrow> e
        | Inr aic \<Rightarrow> Failure CodePublisherMismatch ''no verified signature binds package publisher %q'' [pkPublisher pkg])"

fun transition_keys :: "(Certificate \<Rightarrow> scheme_error + AdminAIC) \<Rightarrow> string list \<Rightarrow> Certificate list \<Rightarrow> scheme_error + string list" where
  "transition_keys verify publisherKeys [] = Inr []"
| "transition_keys verify publisherKeys (cert # certs) =
     (if cert_key cert \<in> set publisherKeys then
        (case verify cert of
           Inl e \<Rightarrow> Inl e
         | Inr aic \<Rightarrow>
             (case transition_keys verify publisherKeys certs of Inl e \<Rightarrow> Inl e | Inr ks \<Rightarrow> Inr (cert_key cert # ks)))
      else transition_keys verify publisherKeys certs)"

definition confirmation_of ::
  "SignedConfirmation \<Rightarrow> Package \<Rightarrow> Transition \<Rightarrow> Certificate list \<Rightarrow> Certificate \<Rightarrow> string \<Rightarrow> Confirmation" where
  "confirmation_of sc pkg tr signers publisher sig =
     \<lparr>cfPackage = pkg, cfTransition = tr, cfDefinition = scDefinition sc, cfDeclaration = scDeclaration sc,
      cfTransitionBytes = scTransitionBytes sc, cfTransitionSignature = sig, cfPublisherCert = Some publisher,
      cfRoots = scRoots sc, cfRootSigners = map Some signers, cfState = scState sc, cfPolicy = scPolicy sc\<rparr>"

text \<open>The candidates in turn: the first that is confirmed, or the last refusal.\<close>

fun try_candidates ::
  "(Certificate \<Rightarrow> (ConfirmationResult \<times> scheme_error option) option) \<Rightarrow> ConfirmationResult \<times> scheme_error option \<Rightarrow>
   Certificate list \<Rightarrow> ConfirmationResult \<times> scheme_error option" where
  "try_candidates attempt lst [] = lst"
| "try_candidates attempt lst (cert # certs) =
     (case attempt cert of
        None \<Rightarrow> try_candidates attempt lst certs
      | Some (r, None) \<Rightarrow> (r\<lparr>crSigned := True\<rparr>, None)
      | Some (r, Some e) \<Rightarrow> try_candidates attempt (r, Some e) certs)"

definition parsed_result :: "Package \<Rightarrow> Transition \<Rightarrow> Certificate list \<Rightarrow> ConfirmationResult" where
  "parsed_result pkg tr signers = reject_result
     \<lparr>crScheme := pkScheme pkg, crGeneration := pkGeneration pkg, crPackageDigest := digest_or_empty (PackageDigest pkg),
      crPublisherKeyID := (case signers of [] \<Rightarrow> [] | c # cs \<Rightarrow> cert_key c), crAction := trAction tr,
      crNamespace := trNamespace tr, crTransitionDigest := digest_or_empty (TransitionDigest tr)\<rparr>"

definition confirm_parsed ::
  "crypto \<Rightarrow> SignedConfirmation \<Rightarrow> instant \<Rightarrow> Certificate list \<Rightarrow> Certificate list \<Rightarrow> Package \<Rightarrow> Transition \<Rightarrow>
   ConfirmationResult \<times> scheme_error option" where
  "confirm_parsed cr sc now signers transitionCerts pkg tr =
     (let res0 = parsed_result pkg tr signers
      in case op_digest (BuildManagementOperation pkg tr) of
           Inl e \<Rightarrow> (res0, Some (Failure CodePackageShape ''management operation digest: %s'' []))
         | Inr md \<Rightarrow>
             (let res = res0\<lparr>crManagementOperationDigest := md\<rparr>;
                  verify = (\<lambda>cert. verifyPublisher cr pkg (Some cert) (scRoots sc) now);
                  candidates = filter (is_publisher cr sc pkg now) signers
              in if candidates = [] then (res, Some (last_publisher_error cr sc pkg now signers))
                 else
                   case transition_keys verify (map cert_key candidates) transitionCerts of
                     Inl e \<Rightarrow> (res, Some e)
                   | Inr keys \<Rightarrow>
                       if keys = [] then
                         (res, Some (Failure CodeTransitionSignatureMissing
                            ''transition is not signed by the package publisher'' []))
                       else
                         try_candidates
                           (\<lambda>publisher.
                              if cert_key publisher \<notin> set keys then None
                              else
                                case transitionSignatureFor cr publisher (scTransitionSignatures sc) (scTransitionBytes sc) of
                                  None \<Rightarrow> None
                                | Some sig \<Rightarrow> Some (confirm cr (confirmation_of sc pkg tr signers publisher sig)))
                           (res, Some (Failure CodePublisherMismatch ''no publisher candidate signed the transition'' []))
                           candidates))"

definition confirm_recovered ::
  "crypto \<Rightarrow> SignedConfirmation \<Rightarrow> instant \<Rightarrow> Certificate list \<Rightarrow> Certificate list \<Rightarrow>
   ConfirmationResult \<times> scheme_error option" where
  "confirm_recovered cr sc now signers transitionCerts =
     (case ParsePackage (scPackageBytes sc) of
        Inl e \<Rightarrow> (reject_result, Some e)
      | Inr pkg \<Rightarrow>
          (case first_err (chain_error cr sc now) (signers @ transitionCerts) of
             Some e \<Rightarrow> (reject_result, Some e)
           | None \<Rightarrow>
               (case ParseTransition (scTransitionBytes sc) of
                  Inl e \<Rightarrow> (reject_result, Some e)
                | Inr tr \<Rightarrow> confirm_parsed cr sc now signers transitionCerts pkg tr)))"

definition input_error :: "SignedConfirmation \<Rightarrow> scheme_error option" where
  "input_error sc = seq_err [
     fail_if (scPackageBytes sc = [] \<or> scTransitionBytes sc = [])
       (Failure CodePackageShape ''package and transition bytes are required'' []),
     fail_if (maxArtifactBytes < int (length (scPackageBytes sc)) \<or> maxArtifactBytes < int (length (scTransitionBytes sc)))
       (Failure CodePackageShape ''artifact exceeds the %d-byte limit'' []),
     fail_if (scSignatures sc = []) (Failure CodeSignatureMissing ''at least one detached package signature is required'' []),
     fail_if (maxDetachedSignatures < int (length (scSignatures sc)) \<or> maxDetachedSignatures < int (length (scTransitionSignatures sc)))
       (Failure CodeSignatureInvalid ''too many detached signatures (limit %d)'' []),
     fail_if (scTransitionSignatures sc = [])
       (Failure CodeTransitionSignatureMissing ''a detached transition signature is required'' [])]"

text \<open>The deferred function of \<open>ConfirmSigned\<close>: an error without a reason in the result gives it one.\<close>

definition with_reason :: "ConfirmationResult \<times> scheme_error option \<Rightarrow> ConfirmationResult \<times> scheme_error option" where
  "with_reason r =
     (case r of
        (res, Some e) \<Rightarrow> ((if crReason res = NoReason then res\<lparr>crReason := reason_of e\<rparr> else res), Some e)
      | (res, None) \<Rightarrow> (res, None))"

definition ConfirmSigned :: "crypto \<Rightarrow> SignedConfirmation \<Rightarrow> ConfirmationResult \<times> scheme_error option" where
  "ConfirmSigned cr sc = with_reason
     (case input_error sc of
        Some e \<Rightarrow> (reject_result, Some e)
      | None \<Rightarrow>
          (case policyTime (scPolicy sc) of
             Inl e \<Rightarrow> (reject_result, Some e)
           | Inr now \<Rightarrow>
               (case map_err (recover_signer cr CodeSignatureInvalid (scPackageBytes sc)) (scSignatures sc) of
                  Inl e \<Rightarrow> (reject_result, Some e)
                | Inr signers \<Rightarrow>
                    (case map_err (recover_signer cr CodeTransitionSignatureInvalid (scTransitionBytes sc))
                            (scTransitionSignatures sc) of
                       Inl e \<Rightarrow> (reject_result, Some e)
                     | Inr transitionCerts \<Rightarrow> confirm_recovered cr sc now signers transitionCerts))))"

text \<open>
  The delegation of administration authority (\<open>schemeadmin/delegation.go\<close>): a child grant is inside its parent, which
  is inside the configured root authority, under the domains of the pinned administration declaration.
\<close>

record Delegation =
  dgDelegator :: string
  dgGrantee :: string
  dgParent :: Grant
  dgChild :: Grant

definition administrationCapabilities :: "string list" where
  "administrationCapabilities = [CapCreate, CapUpdate, CapRevoke, CapDelegate, CapRootRotate, CapApprove]"

definition checkAdministrationGrant :: "Grant \<Rightarrow> scheme_error option" where
  "checkAdministrationGrant g =
     (case capabilityOf (gID g) of
        None \<Rightarrow> Some (Failure CodeDelegationNotContained ''%q is not a %s capability'' [gID g, SchemeID])
      | Some capability \<Rightarrow>
          fail_if (capability \<notin> set administrationCapabilities)
            (Failure CodeDelegationNotContained ''%q is not an administration capability'' [gID g]))"

definition ValidateDelegation :: "crypto \<Rightarrow> Delegation \<Rightarrow> TrustPolicy \<Rightarrow> scheme_error option" where
  "ValidateDelegation cr d policy = seq_err [
     fail_if (dgDelegator d \<noteq> [] \<and> \<not> rmatch principalRe (dgDelegator d))
       (Failure CodeDelegationNotContained ''delegator %q is not principal:<id>'' [dgDelegator d]),
     fail_if (\<not> rmatch principalRe (dgGrantee d))
       (Failure CodeDelegationNotContained ''grantee %q is not principal:<id>'' [dgGrantee d]),
     checkAdministrationGrant (dgParent d),
     checkAdministrationGrant (dgChild d),
     (case capabilityOf (gID (dgChild d)) of
        None \<Rightarrow> Some (Failure CodeDelegationNotContained ''child %q is not a %s capability'' [gID (dgChild d), SchemeID])
      | Some capability \<Rightarrow>
          (let dm = domainMapFor (tpAdministrationDeclaration policy) capability
           in seq_err [
             fail_if (suffix ''*'' capability)
               (Failure CodeDelegationNotContained ''child must name a concrete capability, not a wildcard'' []),
             fail_if (tpRootGrants policy = []) (Failure CodeAuthorityNotContained ''policy configures no root authority'' []),
             fail_if (\<not> contained cr dm (tpRootGrants policy) (dgParent d))
               (Failure CodeAuthorityNotContained ''delegator grant %q is outside the root authority'' [gID (dgParent d)]),
             fail_if (ContainsWithDomains (ToLower cr) (dgParent d) (dgChild d) dm dm \<noteq> None)
               (Failure CodeDelegationNotContained ''child %q is not contained by parent %q: %s''
                  [gID (dgChild d), gID (dgParent d)])]))]"

definition copyParams :: "obj option \<Rightarrow> obj option" where
  "copyParams p = Some (entries p)"

definition BuildDelegationOperation :: "Delegation \<Rightarrow> scheme_error + Operation" where
  "BuildDelegationOperation d =
     (case checkAdministrationGrant (dgChild d) of
        Some e \<Rightarrow> Inl e
      | None \<Rightarrow> Inr \<lparr>oID = gID (dgChild d), oParams = copyParams (gParams (dgChild d))\<rparr>)"

subsection \<open>Signed delegations\<close>

definition zero_Grant :: Grant where
  "zero_Grant = \<lparr>gID = [], gParams = None, gParamBounds = [], gConstraints = []\<rparr>"

definition Grant_fields :: "Grant fields" where
  "Grant_fields =
     [(''id'', str_field (\<lambda>v r. r\<lparr>gID := v\<rparr>)),
      (''params'', map_field any_value JNull (\<lambda>r. entries (gParams r)) (\<lambda>v r. r\<lparr>gParams := v\<rparr>)),
      (''param_bounds'', map_field any_value JNull gParamBounds (\<lambda>v r. r\<lparr>gParamBounds := entries v\<rparr>)),
      (''constraints'', list_field (str_field (\<lambda>v r. v)) [] (\<lambda>v r. r\<lparr>gConstraints := v\<rparr>))]"

definition Delegation_fields :: "Delegation fields" where
  "Delegation_fields =
     [(''delegator'', str_field (\<lambda>v r. r\<lparr>dgDelegator := v\<rparr>)),
      (''grantee'', str_field (\<lambda>v r. r\<lparr>dgGrantee := v\<rparr>)),
      (''parent'', struct_field Grant_fields dgParent (\<lambda>v r. r\<lparr>dgParent := v\<rparr>)),
      (''child'', struct_field Grant_fields dgChild (\<lambda>v r. r\<lparr>dgChild := v\<rparr>))]"

definition zero_Delegation :: Delegation where
  "zero_Delegation = \<lparr>dgDelegator = [], dgGrantee = [], dgParent = zero_Grant, dgChild = zero_Grant\<rparr>"

definition parent_held :: "crypto \<Rightarrow> AdminAIC \<Rightarrow> DomainMap \<Rightarrow> Grant \<Rightarrow> bool" where
  "parent_held cr aic dm parent =
     list_ex (\<lambda>g. ContainsWithDomains (ToLower cr) (g\<lparr>gID := gID parent\<rparr>) parent dm dm = None)
       (grantsFor aic (FullCapabilityID CapDelegate))"

definition ValidateSignedDelegation ::
  "crypto \<Rightarrow> string \<Rightarrow> string \<Rightarrow> Certificate option list \<Rightarrow> TrustPolicy \<Rightarrow> scheme_error option" where
  "ValidateSignedDelegation cr raw sig roots policy =
     (if maxArtifactBytes < int (length raw) then
        Some (Failure CodeDelegationNotContained ''delegation is %d bytes, limit is %d'' [])
      else if sig = [] then Some (Failure CodeSignatureMissing ''detached delegation signature is required'' [])
      else
        case VerifyDetached cr sig raw of
          Inl e \<Rightarrow> Some (Failure CodeSignatureInvalid ''%s'' [e])
        | Inr None \<Rightarrow> Some (Failure CodeSignatureInvalid ''delegation signature recovered no certificate'' [])
        | Inr (Some cert) \<Rightarrow>
            (case policyTime policy of
               Inl e \<Rightarrow> Some e
             | Inr now \<Rightarrow>
                 (case verifyCertificate cr (Some cert) roots now of
                    Inl e \<Rightarrow> Some e
                  | Inr aic \<Rightarrow>
                      (case decodeClosed Delegation_fields zero_Delegation raw of
                         Inl e \<Rightarrow> Some (Failure CodeDelegationNotContained ''delegation: %s'' [error_format e])
                       | Inr d \<Rightarrow>
                           if dgDelegator d \<noteq> [] \<and> \<not> names_principal (trim_prefix ''principal:'' (dgDelegator d)) aic then
                             Some (Failure CodePublisherMismatch ''delegation names delegator %q, AIC names %q''
                               [dgDelegator d, Realm aic @ '':'' @ Identifier aic])
                           else
                             case capabilityOf (gID (dgParent d)) of
                               None \<Rightarrow>
                                 Some (Failure CodeDelegationNotContained ''parent %q is not a %s capability''
                                   [gID (dgParent d), SchemeID])
                             | Some capability \<Rightarrow> seq_err [
                                 fail_if (\<not> parent_held cr aic
                                       (domainMapFor (tpAdministrationDeclaration policy) capability) (dgParent d))
                                   (Failure CodeAuthorityNotContained
                                      ''signer AIC does not hold scheme:delegate authority for parent %q'' [gID (dgParent d)]),
                                 ValidateDelegation cr d policy]))))"

end
