(* ===== verification/Scheme_Registry.thy ===== *)
theory Scheme_Registry
  imports Scheme_Confirm
begin

text \<open>
  The registry state of a deployer and its only transition (\<open>schemeadmin/state.go\<close>): \<open>Accept\<close> persists a confirmed
  package, \<open>AcceptSigned\<close> confirms and persists in one call. A state that is reached from an empty one by accepted
  confirmations has one digest per generation and keeps its history and its revocations.
\<close>

definition tombstone_of :: "Confirmation \<Rightarrow> Revocation" where
  "tombstone_of c =
     (let tr = cfTransition c
      in \<lparr>rvPackageDigest = trFromDigest tr,
          rvGeneration = (case trTombstoneGeneration tr of None \<Rightarrow> trToGeneration tr | Some n \<Rightarrow> n),
          rvEffectiveTime = trRevocationEffectiveTime tr, rvReason = trRevocationReason tr,
          rvReplacementDigest = trReplacementDigest tr, rvTombstone = cfTransitionBytes c,
          rvSignature = cfTransitionSignature c\<rparr>)"

definition accept_error :: "RegistryState \<Rightarrow> Confirmation \<Rightarrow> ConfirmationResult \<Rightarrow> scheme_error option" where
  "accept_error s c res =
     (let pkg = cfPackage c; tr = cfTransition c
      in if \<not> crSigned res then
           Some (Failure CodeStateUnverified ''state can only be advanced from a ConfirmSigned result'' [])
         else if crVerdict res \<noteq> VerdictAccept then
           Some (Failure CodeStateShape ''cannot persist a non-accept confirmation'' [])
         else
           case (PackageDigest pkg, TransitionDigest tr) of
             (Inl e, _) \<Rightarrow> Some (Plain ''canonical'' [])
           | (Inr pkgDigest, Inl e) \<Rightarrow> Some (Plain ''canonical'' [])
           | (Inr pkgDigest, Inr trDigest) \<Rightarrow> seq_err [
               fail_if (crPackageDigest res \<noteq> pkgDigest \<or> crTransitionDigest res \<noteq> trDigest)
                 (Failure CodeStateShape ''confirmation result does not bind this package/transition'' []),
               fail_if (pkScheme pkg \<noteq> trScheme tr)
                 (Failure CodePackageTransitionMismatch ''package and transition schemes differ'' []),
               fail_if (trToGeneration tr \<noteq> pkGeneration pkg)
                 (Failure CodePackageTransitionMismatch ''transition to_generation %d, package generation %d'' []),
               (if trAction tr = ActionCreate then seq_err [
                  fail_if (rsGeneration s \<noteq> 0 \<or> rsHistory s \<noteq> [] \<or> rsPackageDigest s \<noteq> [])
                    (Failure CodeStateNotEmpty ''create requires an empty namespace state'' []),
                  fail_if (trToGeneration tr \<noteq> 1) (Failure CodeCreateShape ''create must be generation 1'' [])]
                else
                  case trFromGeneration tr of
                    None \<Rightarrow> Some (Failure CodeTransitionShape ''transition requires from_generation'' [])
                  | Some n \<Rightarrow> seq_err [
                      fail_if (rsGeneration s \<noteq> n)
                        (Failure CodeStateGeneration ''state generation %d, transition from_generation %d'' []),
                      fail_if (rsPackageDigest s \<noteq> trFromDigest tr)
                        (Failure CodeStateDigest ''state digest %s, transition from_digest %s''
                           [rsPackageDigest s, trFromDigest tr]),
                      fail_if (trToGeneration tr \<noteq> wrap64 (rsGeneration s + 1))
                        (Failure CodeStateGeneration ''transition must advance exactly one generation'' [])]),
               (case digestAt s (trToGeneration tr) of
                  None \<Rightarrow> None
                | Some d \<Rightarrow>
                    fail_if (d \<noteq> crPackageDigest res)
                      (Failure CodeGenerationFork ''generation %d already holds %s'' [d]))])"

definition revoke_error :: "crypto \<Rightarrow> RegistryState \<Rightarrow> Confirmation \<Rightarrow> ConfirmationResult \<Rightarrow> scheme_error option" where
  "revoke_error cr s c res =
     (let tr = cfTransition c; bad = Failure CodeRevocationInvalid
      in seq_err [
        fail_if (trFromDigest tr = []) (Failure CodeTransitionShape ''revoke requires from_digest'' []),
        fail_if (trReplacementDigest tr = trFromDigest tr) (bad ''replacement_digest equals the revoked digest'' []),
        fail_if (parse_rfc3339 (trRevocationEffectiveTime tr) = None) (bad ''revocation_effective_time is not RFC3339'' []),
        fail_if (isRevoked s (trFromDigest tr)) (bad ''digest %s is already revoked'' [trFromDigest tr]),
        fail_if (cfTransitionBytes c = [] \<or> cfTransitionSignature c = [])
          (bad ''revoke requires a signed tombstone transition'' []),
        (case policyTime (cfPolicy c) of
           Inl e \<Rightarrow> Some e
         | Inr now \<Rightarrow> verifyTombstone cr (tombstone_of c) (pkScheme (cfPackage c)) (cfRoots c) now),
        fail_if (TransitionDigest tr \<noteq> Inr (crTransitionDigest res))
          (bad ''tombstone does not bind the confirmation transition'' [])])"

definition advance :: "RegistryState \<Rightarrow> Confirmation \<Rightarrow> ConfirmationResult \<Rightarrow> RegistryState" where
  "advance s c res =
     (let g = trToGeneration (cfTransition c)
      in s\<lparr>rsScheme := pkScheme (cfPackage c), rsRevision := pkRevision (cfPackage c), rsGeneration := g,
           rsPackageDigest := crPackageDigest res,
           rsHistory :=
             (if rsHistory s = [] \<or> reGeneration (last (rsHistory s)) \<noteq> g then
                rsHistory s @ [\<lparr>reGeneration = g, rePackageDigest = crPackageDigest res\<rparr>]
              else rsHistory s)\<rparr>)"

text \<open>On an error the code returns the receiver unchanged, so the error alone is the outcome.\<close>

definition Accept :: "crypto \<Rightarrow> RegistryState \<Rightarrow> Confirmation \<Rightarrow> ConfirmationResult \<Rightarrow> scheme_error + RegistryState" where
  "Accept cr s c res =
     (case accept_error s c res of
        Some e \<Rightarrow> Inl e
      | None \<Rightarrow>
          if trAction (cfTransition c) = ActionRevoke then
            (case revoke_error cr s c res of
               Some e \<Rightarrow> Inl e
             | None \<Rightarrow> Inr ((advance s c res)\<lparr>rsRevoked := rsRevoked s @ [tombstone_of c]\<rparr>))
          else Inr (advance s c res))"

definition publisher_of :: "crypto \<Rightarrow> SignedConfirmation \<Rightarrow> string \<Rightarrow> Certificate option" where
  "publisher_of cr sc keyID =
     (case find (\<lambda>sig. case VerifyDetached cr sig (scPackageBytes sc) of
                         Inr (Some cert) \<Rightarrow> cert_key cert = keyID | _ \<Rightarrow> False) (scSignatures sc) of
        None \<Rightarrow> None
      | Some sig \<Rightarrow> (case VerifyDetached cr sig (scPackageBytes sc) of Inr cert \<Rightarrow> cert | Inl e \<Rightarrow> None))"

definition AcceptSigned ::
  "crypto \<Rightarrow> RegistryState \<Rightarrow> SignedConfirmation \<Rightarrow> ConfirmationResult \<times> (scheme_error + RegistryState)" where
  "AcceptSigned cr s sc =
     (case ConfirmSigned cr sc of
        (res, Some e) \<Rightarrow> (res, Inl e)
      | (res, None) \<Rightarrow>
          (case ParsePackage (scPackageBytes sc) of
             Inl e \<Rightarrow> (res, Inl e)
           | Inr pkg \<Rightarrow>
               (case ParseTransition (scTransitionBytes sc) of
                  Inl e \<Rightarrow> (res, Inl e)
                | Inr tr \<Rightarrow>
                    (let sig = (case publisher_of cr sc (crPublisherKeyID res) of
                                  None \<Rightarrow> []
                                | Some publisher \<Rightarrow>
                                    (case transitionSignatureFor cr publisher (scTransitionSignatures sc)
                                            (scTransitionBytes sc) of
                                       None \<Rightarrow> [] | Some sig \<Rightarrow> sig))
                     in (res, Accept cr s
                          \<lparr>cfPackage = pkg, cfTransition = tr, cfDefinition = scDefinition sc,
                           cfDeclaration = scDeclaration sc, cfTransitionBytes = scTransitionBytes sc,
                           cfTransitionSignature = sig, cfPublisherCert = None, cfRoots = scRoots sc,
                           cfRootSigners = [], cfState = s, cfPolicy = scPolicy sc\<rparr> res)))))"

subsection \<open>Persisted states\<close>

definition entry_fields :: "RegistryEntry fields" where
  "entry_fields =
     [(''generation'', int_field (\<lambda>v r. r\<lparr>reGeneration := v\<rparr>)),
      (''package_digest'', str_field (\<lambda>v r. r\<lparr>rePackageDigest := v\<rparr>))]"

definition Revocation_fields :: "Revocation fields" where
  "Revocation_fields =
     [(''package_digest'', str_field (\<lambda>v r. r\<lparr>rvPackageDigest := v\<rparr>)),
      (''generation'', int_field (\<lambda>v r. r\<lparr>rvGeneration := v\<rparr>)),
      (''effective_time'', str_field (\<lambda>v r. r\<lparr>rvEffectiveTime := v\<rparr>)),
      (''reason'', str_field (\<lambda>v r. r\<lparr>rvReason := v\<rparr>)),
      (''replacement_digest'', str_field (\<lambda>v r. r\<lparr>rvReplacementDigest := v\<rparr>)),
      (''tombstone'', bytes_field (\<lambda>v r. r\<lparr>rvTombstone := v\<rparr>)),
      (''signature'', bytes_field (\<lambda>v r. r\<lparr>rvSignature := v\<rparr>))]"

definition Approval_fields :: "Approval fields" where
  "Approval_fields =
     [(''package_digest'', str_field (\<lambda>v r. r\<lparr>apPackageDigest := v\<rparr>)),
      (''transition_digest'', str_field (\<lambda>v r. r\<lparr>apTransitionDigest := v\<rparr>)),
      (''approver'', str_field (\<lambda>v r. r\<lparr>apApprover := v\<rparr>)),
      (''signature'', bytes_field (\<lambda>v r. r\<lparr>apSignature := v\<rparr>))]"

definition RegistryState_fields :: "RegistryState fields" where
  "RegistryState_fields =
     [(''scheme'', str_field (\<lambda>v r. r\<lparr>rsScheme := v\<rparr>)),
      (''revision'', str_field (\<lambda>v r. r\<lparr>rsRevision := v\<rparr>)),
      (''generation'', int_field (\<lambda>v r. r\<lparr>rsGeneration := v\<rparr>)),
      (''package_digest'', str_field (\<lambda>v r. r\<lparr>rsPackageDigest := v\<rparr>)),
      (''history'', list_field (decode_struct entry_fields) \<lparr>reGeneration = 0, rePackageDigest = []\<rparr>
         (\<lambda>v r. r\<lparr>rsHistory := v\<rparr>)),
      (''revoked'', list_field (decode_struct Revocation_fields)
         \<lparr>rvPackageDigest = [], rvGeneration = 0, rvEffectiveTime = [], rvReason = [], rvReplacementDigest = [],
          rvTombstone = [], rvSignature = []\<rparr> (\<lambda>v r. r\<lparr>rsRevoked := v\<rparr>)),
      (''approvals'', list_field (decode_struct Approval_fields)
         \<lparr>apPackageDigest = [], apTransitionDigest = [], apApprover = [], apSignature = []\<rparr>
         (\<lambda>v r. r\<lparr>rsApprovals := v\<rparr>))]"

definition empty_state :: RegistryState where
  "empty_state = \<lparr>rsScheme = [], rsRevision = [], rsGeneration = 0, rsPackageDigest = [], rsHistory = [],
     rsRevoked = [], rsApprovals = []\<rparr>"

definition ParseState :: "string \<Rightarrow> scheme_error + RegistryState" where
  "ParseState raw =
     (if maxArtifactBytes < int (length raw) then Inl (Failure CodeStateShape ''state is %d bytes, limit is %d'' [])
      else
        case decodeClosed RegistryState_fields empty_state raw of
          Inl e \<Rightarrow> Inl (Failure CodeStateShape ''state: %s'' [error_format e])
        | Inr s \<Rightarrow> Inr s)"

end
