(* ===== verification/Scheme_Laws.thy ===== *)
theory Scheme_Laws
  imports Scheme_Registry Scheme_Confirm
begin

text \<open>
  Laws of scheme administration: what an accepted confirmation has checked, the registry as a state machine with its
  invariant, and the append-only character of its history and revocations.
\<close>

subsection \<open>Digests\<close>

lemma b64_length: "length (sextets xs) = (4 * length xs + 2) div 3"
  by (induction xs rule: sextets.induct) auto

lemma sha_Digest_length: "length (sha_Digest raw) = 50"
  by (simp add: sha_Digest_def b64_EncodeToString_def b64_length)

lemma b64_chars_class:
  "c \<in> set b64_chars \<Longrightarrow> is_alnum c \<or> c = CHR ''_'' \<or> c = CHR ''-''"
proof -
  have "list_all (\<lambda>c. is_alnum c \<or> c = CHR ''_'' \<or> c = CHR ''-'') b64_chars" by code_simp
  then show "c \<in> set b64_chars \<Longrightarrow> ?thesis" by (auto simp: list_all_iff)
qed

lemma rmatch_Fail [simp]: "\<not> rmatch rx.Fail s"
  by (induction s) auto

lemma rmatch_Eps [simp]: "rmatch Eps s \<longleftrightarrow> s = []"
  by (cases s) auto

lemma rmatch_Cls_Seq: "rmatch (Seq (Cls p) r) s \<longleftrightarrow> (case s of [] \<Rightarrow> False | c # t \<Rightarrow> p c \<and> rmatch r t)"
  by (cases s) auto

lemma rmatch_repeat: "rmatch (repeat n (Cls p)) s \<longleftrightarrow> length s = n \<and> list_all p s"
  by (induction n arbitrary: s) (auto simp: rmatch_Cls_Seq split: list.splits)

lemma digestRe_iff:
  "rmatch digestRe (''sha256:'' @ s) \<longleftrightarrow> length s = 43 \<and> list_all (\<lambda>c. is_alnum c \<or> c = CHR ''_'' \<or> c = CHR ''-'') s"
  by (simp add: digestRe_def lit_def rmatch_repeat del: repeat.simps)

lemma sha_Digest_wf [simp]: "rmatch digestRe (sha_Digest raw)"
  unfolding sha_Digest_def digestRe_iff
  using b64_EncodeToString_chars b64_chars_class
  by (auto simp: b64_EncodeToString_def b64_length list_all_iff simp del: in_set_conv_nth)

lemma PackageDigest_wf: "PackageDigest pkg = Inr d \<Longrightarrow> rmatch digestRe d"
  by (auto simp: PackageDigest_def CanonicalDigest_def split: sum.splits)

subsection \<open>What an accepted confirmation has checked\<close>

lemma decide_None:
  assumes "decide cr c res now = None"
  obtains aic where
    "seq_err [ValidatePolicy (cfPolicy c), ValidatePackage (cfPackage c), ValidateTransition (cfTransition c)] = None"
    "ValidatePayload (cfPackage c) (cfDefinition c) (cfDeclaration c) = None"
    "package_binds (cfPackage c) (cfTransition c) = None"
    "verifyPublisher cr (cfPackage c) (cfPublisherCert c) (cfRoots c) now = Inr aic"
    "trAction (cfTransition c) = ActionRootRotate \<Longrightarrow> checkRootRotation c = None"
    "check_authority cr c aic = None" "check_adoption c = None" "checkState c = None"
    "verifyRevocations cr (cfState c) (cfRoots c) now = None"
    "check_revoked (cfState c) (trFromDigest (cfTransition c)) now = None"
    "check_revoked (cfState c) (crPackageDigest res) now = None"
    "checkFreshness (cfPackage c) (cfPolicy c) = None" "check_approvals cr c res now = None"
  using assms by (auto simp: decide_def Let_def split: option.splits sum.splits if_splits)

lemma confirm_None:
  assumes "confirm cr c = (r, None)"
  obtains now res where "policyTime (cfPolicy c) = Inr now" "decide cr c res now = None"
    "crPackageDigest res = digest_or_empty (PackageDigest (cfPackage c))"
    "crTransitionDigest res = digest_or_empty (TransitionDigest (cfTransition c))"
    "crVerdict r = VerdictAccept" "crPackageDigest r = crPackageDigest res" "crTransitionDigest r = crTransitionDigest res"
    "crPublisherKeyID r = KeyID (cfPublisherCert c)"
  using assms
  by (auto simp: confirm_def Let_def bound_result_def inputsDigest_def split: sum.splits option.splits prod.splits)

lemma try_candidates_accept:
  "try_candidates attempt lst certs = (r, None) \<Longrightarrow> snd lst \<noteq> None \<Longrightarrow>
     \<exists>cert \<in> set certs. \<exists>r'. attempt cert = Some (r', None) \<and> r = r'\<lparr>crSigned := True\<rparr>"
  by (induction certs arbitrary: lst) (fastforce split: option.splits prod.splits)+

lemma is_publisher_iff: "is_publisher cr sc pkg now cert \<longleftrightarrow> (\<exists>aic. verifyPublisher cr pkg (Some cert) (scRoots sc) now = Inr aic)"
  by (auto simp: is_publisher_def split: sum.splits)

lemma with_reason_None [simp]: "with_reason r = (res, None) \<longleftrightarrow> r = (res, None)"
  by (cases r) (auto simp: with_reason_def split: option.splits)

lemma confirm_parsed_accept:
  assumes "confirm_parsed cr sc now signers tcerts pkg tr = (res, None)"
  obtains publisher sig r where "publisher \<in> set signers"
    "transitionSignatureFor cr publisher (scTransitionSignatures sc) (scTransitionBytes sc) = Some sig"
    "confirm cr (confirmation_of sc pkg tr signers publisher sig) = (r, None)" "res = r\<lparr>crSigned := True\<rparr>"
proof -
  have "\<exists>publisher \<in> set signers. \<exists>sig r.
      transitionSignatureFor cr publisher (scTransitionSignatures sc) (scTransitionBytes sc) = Some sig \<and>
      confirm cr (confirmation_of sc pkg tr signers publisher sig) = (r, None) \<and> res = r\<lparr>crSigned := True\<rparr>"
    using assms
    by (fastforce simp: confirm_parsed_def Let_def split: sum.splits option.splits if_splits dest!: try_candidates_accept)
  then show ?thesis using that by blast
qed

lemma recovered_iff:
  "map_err (recover_signer cr code raw) sigs = Inr certs \<Longrightarrow>
     cert \<in> set certs \<longleftrightarrow> (\<exists>sig \<in> set sigs. VerifyDetached cr sig raw = Inr (Some cert))"
  by (induction sigs arbitrary: certs) (auto simp: recover_signer_def split: sum.splits option.splits)

lemma ConfirmSigned_accept:
  assumes "ConfirmSigned cr sc = (res, None)"
  obtains now signers pkg tr publisher sig r where "policyTime (scPolicy sc) = Inr now"
    "map_err (recover_signer cr CodeSignatureInvalid (scPackageBytes sc)) (scSignatures sc) = Inr signers"
    "ParsePackage (scPackageBytes sc) = Inr pkg" "ParseTransition (scTransitionBytes sc) = Inr tr"
    "publisher \<in> set signers"
    "transitionSignatureFor cr publisher (scTransitionSignatures sc) (scTransitionBytes sc) = Some sig"
    "confirm cr (confirmation_of sc pkg tr signers publisher sig) = (r, None)" "res = r\<lparr>crSigned := True\<rparr>"
proof -
  obtain now signers tcerts where n: "policyTime (scPolicy sc) = Inr now"
    "map_err (recover_signer cr CodeSignatureInvalid (scPackageBytes sc)) (scSignatures sc) = Inr signers"
    "confirm_recovered cr sc now signers tcerts = (res, None)"
    using assms by (auto simp: ConfirmSigned_def split: option.splits sum.splits)
  then obtain pkg tr where p: "ParsePackage (scPackageBytes sc) = Inr pkg" "ParseTransition (scTransitionBytes sc) = Inr tr"
    "confirm_parsed cr sc now signers tcerts pkg tr = (res, None)"
    by (auto simp: confirm_recovered_def split: option.splits sum.splits)
  show ?thesis using p(3) by (rule confirm_parsed_accept) (rule that [OF n(1,2) p(1,2)])
qed

lemma ParsePackage_generation: "ParsePackage raw = Inr pkg \<Longrightarrow> 1 \<le> pkGeneration pkg"
  by (auto simp: ParsePackage_def ValidatePackage_def fail_if_None split: sum.splits option.splits)

subsection \<open>The registry as a state machine\<close>

text \<open>The states a deployer reaches from an empty namespace by accepted signed confirmations.\<close>

definition empty_namespace :: "RegistryState \<Rightarrow> bool" where
  "empty_namespace s \<longleftrightarrow> rsGeneration s = 0 \<and> rsPackageDigest s = [] \<and> rsHistory s = [] \<and> rsRevoked s = []"

inductive registry_step :: "crypto \<Rightarrow> RegistryState \<Rightarrow> RegistryState \<Rightarrow> bool" for cr where
  accepted: "AcceptSigned cr s sc = (res, Inr s') \<Longrightarrow> registry_step cr s s'"

abbreviation registry_steps :: "crypto \<Rightarrow> RegistryState \<Rightarrow> RegistryState \<Rightarrow> bool" where
  "registry_steps cr \<equiv> (registry_step cr)\<^sup>*\<^sup>*"

inductive_cases registry_stepE: "registry_step cr s s'"

text \<open>
  The invariant: the history holds the generations 1 to the head, once each, and the head's digest is its last
  entry; a digest has at most one tombstone, and only digests of the history have one.
\<close>

definition registry_inv :: "RegistryState \<Rightarrow> bool" where
  "registry_inv s \<longleftrightarrow>
     map reGeneration (rsHistory s) = [1..rsGeneration s] \<and>
     rsGeneration s \<le> 9223372036854775807 \<and> 0 \<le> rsGeneration s \<and>
     rsPackageDigest s = (if rsHistory s = [] then [] else rePackageDigest (last (rsHistory s))) \<and>
     distinct (map rvPackageDigest (rsRevoked s)) \<and>
     set (map rvPackageDigest (rsRevoked s)) \<subseteq> set (map rePackageDigest (rsHistory s))"

lemma AcceptSigned_Accept:
  assumes "AcceptSigned cr s sc = (res, Inr s')"
  obtains c where "Accept cr s c res = Inr s'" "ParsePackage (scPackageBytes sc) = Inr (cfPackage c)"
    "ParseTransition (scTransitionBytes sc) = Inr (cfTransition c)" "cfPolicy c = scPolicy sc" "cfRoots c = scRoots sc"
    "cfTransitionBytes c = scTransitionBytes sc" "ConfirmSigned cr sc = (res, None)"
proof -
  obtain pkg tr sig where a:
    "ParsePackage (scPackageBytes sc) = Inr pkg" "ParseTransition (scTransitionBytes sc) = Inr tr"
    "Accept cr s \<lparr>cfPackage = pkg, cfTransition = tr, cfDefinition = scDefinition sc,
       cfDeclaration = scDeclaration sc, cfTransitionBytes = scTransitionBytes sc,
       cfTransitionSignature = sig, cfPublisherCert = None, cfRoots = scRoots sc,
       cfRootSigners = [], cfState = s, cfPolicy = scPolicy sc\<rparr> res = Inr s'"
    "ConfirmSigned cr sc = (res, None)"
    using assms by (simp add: AcceptSigned_def Let_def split: prod.splits option.splits sum.splits)
  from a(3) show ?thesis by (rule that) (simp_all add: a)
qed

lemma Accept_Inr:
  assumes "Accept cr s c res = Inr s'"
  shows "accept_error s c res = None"
    "s' = (if trAction (cfTransition c) = ActionRevoke
           then (advance s c res)\<lparr>rsRevoked := rsRevoked s @ [tombstone_of c]\<rparr> else advance s c res)"
    "trAction (cfTransition c) = ActionRevoke \<Longrightarrow> revoke_error cr s c res = None"
  using assms by (auto simp: Accept_def split: option.splits if_splits)

lemma advance_simps [simp]:
  "rsGeneration (advance s c res) = trToGeneration (cfTransition c)"
  "rsPackageDigest (advance s c res) = crPackageDigest res"
  "rsRevoked (advance s c res) = rsRevoked s"
  by (simp_all add: advance_def Let_def)

lemma wrap64_next:
  assumes "0 \<le> g" "g \<le> 9223372036854775807" "1 \<le> wrap64 (g + 1)"
  shows "wrap64 (g + 1) = g + 1" "g < 9223372036854775807"
proof -
  have "g \<noteq> 9223372036854775807" using assms(3) by (auto simp: wrap64_def)
  then show "g < 9223372036854775807" using assms(2) by simp
  then show "wrap64 (g + 1) = g + 1" using assms(1) by (intro wrap64_id) auto
qed

lemma accept_error_None:
  assumes "accept_error s c res = None" "registry_inv s" "1 \<le> pkGeneration (cfPackage c)"
  shows "trToGeneration (cfTransition c) = rsGeneration s + 1" "rsGeneration s < 9223372036854775807"
    "pkGeneration (cfPackage c) = rsGeneration s + 1" "PackageDigest (cfPackage c) = Inr (crPackageDigest res)"
    "trAction (cfTransition c) \<noteq> ActionCreate \<Longrightarrow> trFromDigest (cfTransition c) = rsPackageDigest s"
proof -
  have e: "pkGeneration (cfPackage c) = trToGeneration (cfTransition c)" "PackageDigest (cfPackage c) = Inr (crPackageDigest res)"
    "trAction (cfTransition c) = ActionCreate \<Longrightarrow> rsGeneration s = 0 \<and> trToGeneration (cfTransition c) = 1"
    "trAction (cfTransition c) \<noteq> ActionCreate \<Longrightarrow>
       trFromDigest (cfTransition c) = rsPackageDigest s \<and> trToGeneration (cfTransition c) = wrap64 (rsGeneration s + 1)"
    using assms(1) by (auto simp: accept_error_def Let_def fail_if_None split: if_splits sum.splits option.splits)
  have g: "0 \<le> rsGeneration s" "rsGeneration s \<le> 9223372036854775807" using assms(2) by (auto simp: registry_inv_def)
  show "trToGeneration (cfTransition c) = rsGeneration s + 1" "rsGeneration s < 9223372036854775807"
    using e(1,3,4) g assms(3) wrap64_next [OF g] by (cases "trAction (cfTransition c) = ActionCreate"; simp)+
  then show "pkGeneration (cfPackage c) = rsGeneration s + 1" using e(1) by simp
  show "PackageDigest (cfPackage c) = Inr (crPackageDigest res)" by (rule e(2))
  show "trAction (cfTransition c) \<noteq> ActionCreate \<Longrightarrow> trFromDigest (cfTransition c) = rsPackageDigest s" using e(4) by simp
qed

lemma accepted_digest:
  assumes "Accept cr s c res = Inr s'"
  shows "PackageDigest (cfPackage c) = Inr (rsPackageDigest s')"
proof -
  note a = Accept_Inr [OF assms]
  have "PackageDigest (cfPackage c) = Inr (crPackageDigest res)"
    using a(1) by (auto simp: accept_error_def Let_def fail_if_None split: if_splits sum.splits)
  then show ?thesis using a(2) by auto
qed

lemma advance_history:
  assumes "registry_inv s" "trToGeneration (cfTransition c) = rsGeneration s + 1"
  shows "rsHistory (advance s c res) =
    rsHistory s @ [\<lparr>reGeneration = rsGeneration s + 1, rePackageDigest = crPackageDigest res\<rparr>]"
proof -
  have m: "map reGeneration (rsHistory s) = [1..rsGeneration s]" using assms(1) by (simp add: registry_inv_def)
  have "reGeneration (last (rsHistory s)) = rsGeneration s" if "rsHistory s \<noteq> []"
  proof -
    have "[1..rsGeneration s] \<noteq> []" using m that by force
    then have "last [1..rsGeneration s] = rsGeneration s" by (simp add: upto_rec2)
    then show ?thesis using m that by (metis last_map)
  qed
  then show ?thesis using assms(2) by (auto simp: advance_def Let_def)
qed

lemma revoke_error_None:
  assumes "revoke_error cr s c res = None"
  shows "trFromDigest (cfTransition c) \<noteq> []" "trFromDigest (cfTransition c) \<notin> rvPackageDigest ` set (rsRevoked s)"
  using assms by (auto simp: revoke_error_def Let_def fail_if_None isRevoked_def list_ex_iff)

lemma tombstone_digest [simp]: "rvPackageDigest (tombstone_of c) = trFromDigest (cfTransition c)"
  by (simp add: tombstone_of_def Let_def)

lemma registry_step_effect:
  assumes "registry_inv s" "AcceptSigned cr s sc = (res, Inr s')"
  shows "registry_inv s'" "prefix (rsHistory s) (rsHistory s')" "prefix (rsRevoked s) (rsRevoked s')"
    "rsGeneration s' = rsGeneration s + 1"
proof -
  obtain c where c: "Accept cr s c res = Inr s'" "ParsePackage (scPackageBytes sc) = Inr (cfPackage c)"
    using assms(2) by (rule AcceptSigned_Accept)
  note a = Accept_Inr [OF c(1)]
  note g = accept_error_None [OF a(1) assms(1) ParsePackage_generation [OF c(2)]]
  note h = advance_history [OF assms(1) g(1), of res]
  have r: "ActionRevoke \<noteq> ActionCreate" by (simp add: action_defs)
  show "prefix (rsHistory s) (rsHistory s')" "prefix (rsRevoked s) (rsRevoked s')"
    "rsGeneration s' = rsGeneration s + 1" using a(2) h g(1) by auto
  have "rsPackageDigest s \<in> rePackageDigest ` set (rsHistory s)" if "rsPackageDigest s \<noteq> []"
    using assms(1) that by (auto simp: registry_inv_def split: if_splits)
  then show "registry_inv s'"
    using assms(1) a(2) h g(1,2,5) r revoke_error_None [OF a(3)] by (auto simp: registry_inv_def upto_rec2)
qed

lemma empty_namespace_inv: "empty_namespace s \<Longrightarrow> registry_inv s"
  by (simp add: empty_namespace_def registry_inv_def)

interpretation registry_history: append_only "registry_step cr" registry_inv rsHistory for cr
  by unfold_locales (auto elim!: registry_stepE dest: registry_step_effect)

interpretation registry_revocations: append_only "registry_step cr" registry_inv rsRevoked for cr
  by unfold_locales (auto elim!: registry_stepE dest: registry_step_effect)

text \<open>
  \<open>Accept\<close> does not read the revocations of its receiver, unless it adds one: they are checked against the state
  inside the signed confirmation, and \<open>AcceptSigned\<close> does not compare the two.
\<close>

lemma Accept_ignores_revocations:
  assumes "trAction (cfTransition c) \<noteq> ActionRevoke"
  shows "Accept cr (s\<lparr>rsRevoked := rs\<rparr>) c res = map_sum id (\<lambda>s'. s'\<lparr>rsRevoked := rs\<rparr>) (Accept cr s c res)"
proof -
  have upd: "rsGeneration (s\<lparr>rsRevoked := rs\<rparr>) = rsGeneration s" "rsHistory (s\<lparr>rsRevoked := rs\<rparr>) = rsHistory s"
    "rsPackageDigest (s\<lparr>rsRevoked := rs\<rparr>) = rsPackageDigest s" by simp_all
  have "accept_error (s\<lparr>rsRevoked := rs\<rparr>) c res = accept_error s c res"
    unfolding accept_error_def digestAt_def upd ..
  moreover have "advance (s\<lparr>rsRevoked := rs\<rparr>) c res = (advance s c res)\<lparr>rsRevoked := rs\<rparr>"
    by (simp add: advance_def Let_def)
  ultimately show ?thesis using assms by (cases "accept_error s c res") (simp_all add: Accept_def)
qed

subsection \<open>Publishers, authority, quorums\<close>

text \<open>
  A certificate speaks for the publisher: it signed the package bytes and its key signed the transition bytes, it
  chains to the roots at the policy's clock, and its certified identity binds its key and the publisher's name.
\<close>

definition speaks_for ::
  "crypto \<Rightarrow> SignedConfirmation \<Rightarrow> instant \<Rightarrow> Package \<Rightarrow> Certificate \<Rightarrow> AdminAIC \<Rightarrow> bool" where
  "speaks_for cr sc now pkg cert aic \<longleftrightarrow>
     (\<exists>sig \<in> set (scSignatures sc). VerifyDetached cr sig (scPackageBytes sc) = Inr (Some cert)) \<and>
     (\<exists>sig \<in> set (scTransitionSignatures sc). \<exists>tcert.
        VerifyDetached cr sig (scTransitionBytes sc) = Inr (Some tcert) \<and> cert_key tcert = cert_key cert) \<and>
     x509_Verify cr cert (root_pool (scRoots sc)) now = None \<and>
     ParseAIC cr cert = Inr (Some aic) \<and> ValidateAIC cr aic = None \<and>
     KeyHash aic = Sum256 (RawSubjectPublicKeyInfo cert) \<and>
     names_principal (trim_prefix ''principal:'' (pkPublisher pkg)) aic"

text \<open>An operation is authorized by the grants of a certificate that are inside a root grant of the policy.\<close>

definition within_root_authority :: "crypto \<Rightarrow> TrustPolicy \<Rightarrow> AdminAIC \<Rightarrow> Operation \<Rightarrow> bool" where
  "within_root_authority cr p aic op \<longleftrightarrow>
     (\<exists>capability dm gs. oID op = FullCapabilityID capability \<and>
        dm = domainMapFor (tpAdministrationDeclaration p) capability \<and>
        gs \<noteq> [] \<and> set gs \<subseteq> set (grantsFor aic (oID op)) \<and>
        (\<forall>g \<in> set gs. \<exists>r \<in> set (tpRootGrants p). ContainsWithDomains (ToLower cr) r g dm dm = None) \<and>
        Verdict (AuthorizeSetWithDomains (ToLower cr) gs op dm) = VerdictAllow)"

text \<open>The configured root keys that signed the package bytes.\<close>

definition signing_roots :: "crypto \<Rightarrow> SignedConfirmation \<Rightarrow> string set" where
  "signing_roots cr sc =
     {k \<in> set (tpRootKeys (scPolicy sc)). \<exists>sig \<in> set (scSignatures sc). \<exists>cert.
        VerifyDetached cr sig (scPackageBytes sc) = Inr (Some cert) \<and> cert_key cert = k}"

text \<open>A verified approval of the pair, by a principal and with a key.\<close>

definition approved_by ::
  "crypto \<Rightarrow> SignedConfirmation \<Rightarrow> instant \<Rightarrow> Package \<Rightarrow> Transition \<Rightarrow> string \<times> string \<Rightarrow> bool" where
  "approved_by cr sc now pkg tr wk \<longleftrightarrow>
     (\<exists>a \<in> set (rsApprovals (scState sc)). \<exists>op payload cert aic.
        BuildApprovalOperation pkg tr = Inr op \<and> ApprovalSigningBytes pkg tr = Inr payload \<and>
        VerifyDetached cr (apSignature a) payload = Inr (Some cert) \<and>
        verifyCertificate cr (Some cert) (scRoots sc) now = Inr aic \<and>
        within_root_authority cr (scPolicy sc) aic op \<and>
        wk = (Realm aic @ '':'' @ Identifier aic, cert_key cert))"

lemma verifyPublisher_Inr:
  assumes "verifyPublisher cr pkg (Some cert) roots now = Inr aic"
  shows "x509_Verify cr cert (root_pool roots) now = None" "ParseAIC cr cert = Inr (Some aic)" "ValidateAIC cr aic = None"
    "KeyHash aic = Sum256 (RawSubjectPublicKeyInfo cert)" "names_principal (trim_prefix ''principal:'' (pkPublisher pkg)) aic"
  using assms
  by (auto simp: verifyPublisher_def verifyCertificate_def verifyChain_def aic_error_def mustKeyHash_def sha256Bytes_def
      fail_if_None split: sum.splits option.splits if_splits)

lemma transitionSignatureFor_Some:
  assumes "transitionSignatureFor cr pub sigs raw = Some sig"
  shows "sig \<in> set sigs" "\<exists>cert. VerifyDetached cr sig raw = Inr (Some cert) \<and> cert_key cert = cert_key pub"
  using find_SomeD [OF assms [unfolded transitionSignatureFor_def]] by (auto split: sum.splits option.splits)

lemma containGrants_fst [simp]: "fst (containGrants cr gs roots dm) = filter (contained cr dm roots) gs"
  by (simp add: containGrants_def Let_def)

lemma within_root_authorityI:
  assumes "oID op = FullCapabilityID capability" "dm = domainMapFor (tpAdministrationDeclaration p) capability"
    "gs = filter (contained cr dm (tpRootGrants p)) (grantsFor aic (oID op))" "gs \<noteq> []"
    "Verdict (AuthorizeSetWithDomains (ToLower cr) gs op dm) = VerdictAllow"
  shows "within_root_authority cr p aic op"
proof -
  have "set gs \<subseteq> set (grantsFor aic (oID op))" using assms(3) by auto
  moreover have "\<forall>g \<in> set gs. \<exists>r \<in> set (tpRootGrants p). ContainsWithDomains (ToLower cr) r g dm dm = None"
    using assms(3) by (auto simp: contained_def list_ex_iff)
  ultimately show ?thesis unfolding within_root_authority_def using assms(1,2,4,5) by blast
qed

lemma capabilityOf_Full [simp]: "capabilityOf (FullCapabilityID k) = Some k"
  by (simp add: capabilityOf_def FullCapabilityID_def SchemeID_def trim_prefix_def Let_def)

lemma BuildManagementOperation_id:
  "BuildManagementOperation pkg tr = Inr op \<Longrightarrow> \<exists>k. CapabilityFor (trAction tr) = Inr k \<and> oID op = FullCapabilityID k"
  by (auto simp: BuildManagementOperation_def Let_def split: sum.splits if_splits)

lemma check_authority_None:
  assumes "check_authority cr c aic = None"
  obtains op where "BuildManagementOperation (cfPackage c) (cfTransition c) = Inr op"
    "within_root_authority cr (cfPolicy c) aic op"
proof -
  obtain op where op: "BuildManagementOperation (cfPackage c) (cfTransition c) = Inr op"
    using assms by (auto simp: check_authority_def split: sum.splits)
  obtain k where k: "oID op = FullCapabilityID k" using BuildManagementOperation_id [OF op] by blast
  show ?thesis
    by (rule that [OF op], rule within_root_authorityI [OF k refl refl])
      (use assms op k in \<open>auto simp: check_authority_def containGrants_def Let_def fail_if_None\<close>)
qed

lemma count_approvals_Inr:
  "count_approvals verify approvers keys as = Inr n \<Longrightarrow>
     \<exists>ps. map_err verify as = Inr ps \<and> n = length approvers + length ps \<and> distinct (map fst ps) \<and> distinct (map snd ps) \<and>
       fst ` set ps \<inter> set approvers = {} \<and> snd ` set ps \<inter> set keys = {}"
proof (induction as arbitrary: approvers keys)
  case (Cons a as)
  then obtain who key where v: "verify a = Inr (who, key)" "who \<notin> set approvers" "key \<notin> set keys"
    "count_approvals verify (who # approvers) (key # keys) as = Inr n"
    by (auto split: sum.splits if_splits)
  from Cons.IH [OF v(4)] obtain ps where p: "map_err verify as = Inr ps" "n = Suc (length approvers) + length ps"
    "distinct (map fst ps)" "distinct (map snd ps)" "fst ` set ps \<inter> set (who # approvers) = {}"
    "snd ` set ps \<inter> set (key # keys) = {}" by auto
  then have "map_err verify (a # as) = Inr ((who, key) # ps)" using v(1) by simp
  with p v(2,3) show ?case by (intro exI [of _ "(who, key) # ps"]) auto
qed simp

lemma BuildApprovalOperation_id: "BuildApprovalOperation pkg tr = Inr op \<Longrightarrow> oID op = FullCapabilityID CapApprove"
  by (auto simp: BuildApprovalOperation_def split: sum.splits)

lemma verify_approval_Inr:
  assumes "verify_approval cr (confirmation_of sc pkg tr signers pub sig) now payload op dm a = Inr wk"
    "a \<in> set (rsApprovals (scState sc))" "BuildApprovalOperation pkg tr = Inr op" "ApprovalSigningBytes pkg tr = Inr payload"
    "dm = domainMapFor (tpAdministrationDeclaration (scPolicy sc)) CapApprove"
  shows "approved_by cr sc now pkg tr wk"
proof -
  obtain cert aic where c: "VerifyDetached cr (apSignature a) payload = Inr (Some cert)"
    "verifyCertificate cr (Some cert) (scRoots sc) now = Inr aic"
    "filter (contained cr dm (tpRootGrants (scPolicy sc))) (grantsFor aic (oID op)) \<noteq> []"
    "Verdict (AuthorizeSetWithDomains (ToLower cr)
       (filter (contained cr dm (tpRootGrants (scPolicy sc))) (grantsFor aic (oID op))) op dm) = VerdictAllow"
    "wk = (Realm aic @ '':'' @ Identifier aic, cert_key cert)"
    using assms(1) by (auto simp: verify_approval_def confirmation_of_def Let_def split: if_splits sum.splits option.splits)
  have "within_root_authority cr (scPolicy sc) aic op"
    by (rule within_root_authorityI [OF BuildApprovalOperation_id [OF assms(3)] assms(5) refl c(3,4)])
  then show ?thesis unfolding approved_by_def using assms(2-4) c(1,2,5) by blast
qed

lemma check_approvals_None:
  assumes "check_approvals cr (confirmation_of sc pkg tr signers pub sig) res now = None" "0 < tpApprovalThreshold (scPolicy sc)"
  shows "\<exists>ps. tpApprovalThreshold (scPolicy sc) \<le> int (length ps) \<and> distinct (map fst ps) \<and> distinct (map snd ps) \<and>
           (\<forall>wk \<in> set ps. approved_by cr sc now pkg tr wk)"
proof -
  let ?c = "confirmation_of sc pkg tr signers pub sig"
  have sel: "cfPackage ?c = pkg" "cfTransition ?c = tr" "cfPolicy ?c = scPolicy sc" "cfState ?c = scState sc"
    by (simp_all add: confirmation_of_def)
  obtain n where n: "verifyApprovals cr ?c now (crPackageDigest res) (crTransitionDigest res) = Inr n"
    "tpApprovalThreshold (scPolicy sc) \<le> int n"
    using assms by (auto simp: check_approvals_def sel fail_if_None split: sum.splits)
  obtain payload op where b: "ApprovalSigningBytes pkg tr = Inr payload" "BuildApprovalOperation pkg tr = Inr op"
    using n(1) by (auto simp: verifyApprovals_def sel split: sum.splits)
  define as where "as = filter (\<lambda>a. apPackageDigest a = crPackageDigest res \<and> apTransitionDigest a = crTransitionDigest res)
    (rsApprovals (scState sc))"
  have p: "set as \<subseteq> set (rsApprovals (scState sc))"
    "count_approvals (verify_approval cr ?c now payload op
       (domainMapFor (tpAdministrationDeclaration (scPolicy sc)) CapApprove)) [] [] as = Inr n"
    using n(1) by (auto simp: verifyApprovals_def sel Let_def b BuildApprovalOperation_id [OF b(2)] as_def split: if_splits)
  from count_approvals_Inr [OF p(2)] obtain ps where ps: "map_err (verify_approval cr ?c now payload op
       (domainMapFor (tpAdministrationDeclaration (scPolicy sc)) CapApprove)) as = Inr ps" "n = length ps"
    "distinct (map fst ps)" "distinct (map snd ps)" by auto
  have "\<forall>wk \<in> set ps. approved_by cr sc now pkg tr wk"
    using map_err_range [OF ps(1)] p(1) verify_approval_Inr [OF _ _ b(2,1) refl] by blast
  then show ?thesis using n(2) ps by blast
qed

lemma checkRootRotation_quorum:
  assumes "checkRootRotation (confirmation_of sc pkg tr signers pub sig) = None" "signers \<noteq> []"
    "map_err (recover_signer cr code (scPackageBytes sc)) (scSignatures sc) = Inr signers"
  shows "1 \<le> tpRootThreshold (scPolicy sc)" "tpRootThreshold (scPolicy sc) \<le> int (card (signing_roots cr sc))"
    "cert_key pub \<in> set (tpRootKeys (scPolicy sc))" "trToDigest tr = tpNextRootPackageDigest (scPolicy sc)"
    "trFromDigest tr = tpRootPackageDigest (scPolicy sc)"
proof -
  let ?c = "confirmation_of sc pkg tr signers pub sig"
  have k: "set (current_root_keys ?c) = signing_roots cr sc"
    using assms(2) recovered_iff [OF assms(3)]
    by (fastforce simp: current_root_keys_def confirmation_of_def signing_roots_def Let_def map_filter_def image_iff)
  have "length (current_root_keys ?c) = card (signing_roots cr sc)"
    unfolding k [symmetric] by (rule distinct_card [symmetric]) (simp add: current_root_keys_def Let_def)
  then show "1 \<le> tpRootThreshold (scPolicy sc)" "tpRootThreshold (scPolicy sc) \<le> int (card (signing_roots cr sc))"
    "cert_key pub \<in> set (tpRootKeys (scPolicy sc))" "trToDigest tr = tpNextRootPackageDigest (scPolicy sc)"
    "trFromDigest tr = tpRootPackageDigest (scPolicy sc)"
    using assms(1) by (auto simp: checkRootRotation_def confirmation_of_def Let_def fail_if_None)
qed

text \<open>The package of an accepted confirmation names the digest it replaces.\<close>

lemma accepted_chain:
  assumes "accept_error s c res = None" "ValidatePackage (cfPackage c) = None" "ValidateTransition (cfTransition c) = None"
    "package_binds (cfPackage c) (cfTransition c) = None"
  shows "pkPreviousPackageDigest (cfPackage c) = rsPackageDigest s"
proof (cases "trAction (cfTransition c) = ActionCreate")
  case True
  then have "rsPackageDigest s = []" "pkGeneration (cfPackage c) = 1"
    using assms(1) by (auto simp: accept_error_def Let_def fail_if_None split: if_splits sum.splits option.splits)
  then show ?thesis using assms(2) by (simp add: ValidatePackage_def fail_if_None)
next
  case False
  then have f: "trFromDigest (cfTransition c) = rsPackageDigest s"
    using assms(1) by (auto simp: accept_error_def Let_def fail_if_None split: if_splits sum.splits option.splits)
  have "rmatch digestRe (trFromDigest (cfTransition c))"
    using assms(3) False
    by (auto simp: ValidateTransition_def transition_shape_def requireFrom_def revoke_shape_def rotate_shape_def fail_if_None
        split: if_splits option.splits)
  then have "trFromDigest (cfTransition c) \<noteq> []" by (auto simp: digestRe_def lit_def)
  then show ?thesis using assms(4) f by (simp add: package_binds_def Let_def fail_if_None)
qed

end
