(* ===== verification/Scheme_Example.thy ===== *)
theory Scheme_Example
  imports Scheme_Laws Go_Sha256 Go_Json
begin

text \<open>
  A first package of a scheme, confirmed and accepted into an empty registry. Its texts are printed from their
  members, since the digests in them stay symbolic; parsing such a printed object gives its members back.
\<close>

subsection \<open>Printed objects\<close>

lemma tokens_punct:
  "tokens (CHR ''{'' # rest) = TLBrace # tokens rest" "tokens (CHR ''}'' # rest) = TRBrace # tokens rest"
  "tokens (CHR '':'' # rest) = TColon # tokens rest" "tokens (CHR '','' # rest) = TComma # tokens rest"
  by (simp_all add: json_space_def next_token_def punct_def)

lemma tokens_one: "tokens (CHR ''1'' # CHR '','' # rest) = TNum ''1'' # TComma # tokens rest"
  by (simp add: json_space_def next_token_def punct_def word_def lex_number_def lex_int_def lex_frac_def lex_exp_def
      digits1_def span_def is_digit_def in_range_def tokens_punct is_exp_mark_def)

lemma checkCanonicalString_plain: "plain_text s \<Longrightarrow> checkCanonicalString s = None"
proof -
  assume s: "plain_text s"
  have b: "\<forall>b \<in> set (bytes s). b < 128" using s by (simp add: plain_text_def bytes_def list_all_iff)
  then have "runes (bytes s) = map (\<lambda>b. (b, 1)) (bytes s)" by (intro runes_ascii) (simp add: list_all_iff)
  then show ?thesis using b by (force simp: checkCanonicalString_def valid_utf8_def rune_error_def)
qed

lemma plain_digest [simp]: "plain_text (sha_Digest raw)"
proof -
  have "list_all (\<lambda>c. 32 \<le> (of_char c :: int) \<and> (of_char c :: int) < 128 \<and> c \<noteq> CHR 0x22 \<and> c \<noteq> CHR 0x5C) b64_chars"
    by code_simp
  then show ?thesis
    using b64_EncodeToString_chars by (auto simp: sha_Digest_def plain_text_def list_all_iff)
qed

subsection \<open>The sample\<close>

definition admin_declaration :: string where
  "admin_declaration = object_text
     [(''@version'', quoted ''CLC-SCHEME-v1''), (''scheme'', quoted ''varwof/scheme-admin-v1''),
      (''declaration_id'', quoted ''admin''), (''clc_revision'', quoted ''CLC-1.19''),
      (''capabilities'', object_text [(''scheme:create'', object_text [(''params'', object_text
         [(''namespace'', object_text [(''domain'', quoted ''path-prefix'')])])])])]"

definition tool_declaration :: string where
  "tool_declaration = object_text
     [(''@version'', quoted ''CLC-SCHEME-v1''), (''scheme'', quoted ''acme/tool-v1''),
      (''declaration_id'', quoted ''tool''), (''clc_revision'', quoted ''CLC-1.19''),
      (''capabilities'', object_text [(''tool:run'', object_text [(''params'', object_text [])])])]"

definition sample_package :: Package where
  "sample_package = zero_Package\<lparr>pkVersion := PackageVersion, pkScheme := ''acme/tool-v1'', pkRevision := ''1.0'',
     pkDefinitionDigest := sha_Digest ''definition'', pkDeclarationDigest := sha_Digest tool_declaration,
     pkCLCRevision := ''CLC-1.19'', pkChangeClass := ChangeMajor, pkPublisher := ''principal:alice'', pkGeneration := 1\<rparr>"

definition package_text :: string where
  "package_text = object_text
     [(''@version'', quoted PackageVersion), (''generation'', ''1''), (''scheme'', quoted ''acme/tool-v1''),
      (''revision'', quoted ''1.0''),
      (''definition_digest'', quoted (sha_Digest ''definition'')),
      (''declaration_digest'', quoted (sha_Digest tool_declaration)),
      (''clc_revision'', quoted ''CLC-1.19''), (''change_class'', quoted ChangeMajor),
      (''publisher'', quoted ''principal:alice'')]"

definition package_digest :: string where
  "package_digest = sha_Digest (writeCanonicalJSON (json_of_Package sample_package))"

definition sample_transition :: Transition where
  "sample_transition = zero_Transition\<lparr>trVersion := TransitionVersion, trAction := ActionCreate,
     trScheme := ''acme/tool-v1'', trNamespace := ''/acme/tool-v1'', trToGeneration := 1,
     trToDigest := package_digest, trChangeClass := ChangeMajor, trTargetCLCRevision := ''CLC-1.19''\<rparr>"

definition transition_text :: string where
  "transition_text = object_text
     [(''@version'', quoted TransitionVersion), (''to_generation'', ''1''), (''action'', quoted ActionCreate),
      (''scheme'', quoted ''acme/tool-v1''), (''namespace'', quoted ''/acme/tool-v1''),
      (''to_digest'', quoted package_digest), (''change_class'', quoted ChangeMajor),
      (''target_clc_revision'', quoted ''CLC-1.19'')]"

definition create_params :: string where
  "create_params = object_text
     [(''major'', ''1''), (''namespace'', quoted ''/acme''), (''change_class'', quoted ''major''),
      (''clc_revision'', quoted ''CLC-1.19'')]"

definition sample_cert :: Certificate where
  "sample_cert = \<lparr>certRaw = ''certificate'', RawSubjectPublicKeyInfo = ''abc'', certKeyUsage = 1,
     certExtensions = []\<rparr>"

definition create_grant :: Grant where
  "create_grant = \<lparr>gID = ''varwof/scheme-admin-v1:scheme:create'',
     gParams = Some [(''major'', JNum (Fin 1)), (''namespace'', JStr ''/acme''), (''change_class'', JStr ''major''),
       (''clc_revision'', JStr ''CLC-1.19'')], gParamBounds = [], gConstraints = []\<rparr>"

definition sample_aic :: AdminAIC where
  "sample_aic = \<lparr>AIC.Capabilities = [\<lparr>FullID = ''varwof/scheme-admin-v1:scheme:create'', CapabilityId = ''scheme:create'',
       Parameters = create_params\<rparr>], AuthorizationConstraints = [], Identifier = ''alice'', Realm = ''acme'',
     KeyHash = Sum256 ''abc''\<rparr>"

definition sample_crypto :: crypto where
  "sample_crypto = \<lparr>VerifyDetached = (\<lambda>sig raw. if sig = ''signature'' then Inr (Some sample_cert) else Inl ''bad signature''),
     x509_Verify = (\<lambda>cert pool now. if sample_cert \<in> set pool then None else Some ''unknown authority''),
     ParseAIC = (\<lambda>cert. Inr (Some sample_aic)), ValidateAIC = (\<lambda>aic. None), ToLower = (\<lambda>s. s),
     OIDAIC = ''aic''\<rparr>"

definition sample_policy :: TrustPolicy where
  "sample_policy = \<lparr>tpRootPackageDigest = [], tpRootKeys = [], tpRootThreshold = 0, tpRootGrants = [create_grant],
     tpSupportedCLCRevisions = [''CLC-1.19''], tpNamespacePrefixes = [''/acme''], tpMaxMajor = 2,
     tpAdministrationDeclaration = admin_declaration, tpObservedAt = ''2026-01-02T00:00:00Z'', tpMaxStalenessSeconds = 0,
     tpApprovalThreshold = 0, tpNextRootPackageDigest = [], tpNextRootKeys = [], tpNextRootThreshold = 0\<rparr>"

definition sample_signed :: SignedConfirmation where
  "sample_signed = \<lparr>scPackageBytes = package_text, scSignatures = [''signature''], scTransitionBytes = transition_text,
     scTransitionSignatures = [''signature''], scDefinition = ''definition'', scDeclaration = tool_declaration,
     scRoots = [Some sample_cert], scState = empty_state, scPolicy = sample_policy\<rparr>"

lemma admin_parsed: "domainMapFor admin_declaration ''scheme:create'' = [(''namespace'', \<lparr>dName = ''path-prefix'', dUnit = []\<rparr>)]"
  by code_simp

lemma policy_valid: "ValidatePolicy sample_policy = None"
  by code_simp

lemma tool_parsed: "map_sum (\<lambda>_. ()) (\<lambda>d. (dcScheme d, dcCLCRevision d)) (ParseDeclaration tool_declaration) =
    Inr (''acme/tool-v1'', ''CLC-1.19'')"
  by code_simp

lemma params_parsed: "grantFromAICCapability \<lparr>FullID = ''varwof/scheme-admin-v1:scheme:create'', CapabilityId = ''scheme:create'',
       Parameters = create_params\<rparr> = Some create_grant"
  by code_simp

lemmas printed = object_text_def tokens_quoted tokens_punct tokens_one

lemma package_json: "parse_json package_text = Some (XObj
     [(''@version'', XStr PackageVersion), (''generation'', XNum ''1''), (''scheme'', XStr ''acme/tool-v1''),
      (''revision'', XStr ''1.0''),
      (''definition_digest'', XStr (sha_Digest ''definition'')),
      (''declaration_digest'', XStr (sha_Digest tool_declaration)),
      (''clc_revision'', XStr ''CLC-1.19''), (''change_class'', XStr ChangeMajor),
      (''publisher'', XStr ''principal:alice'')])"
proof -
  have p: "plain_text PackageVersion" "plain_text ChangeMajor" "plain_text ''@version''" "plain_text ''generation''"
    "plain_text ''scheme''" "plain_text ''acme/tool-v1''" "plain_text ''revision''" "plain_text ''1.0''"
    "plain_text ''definition_digest''" "plain_text ''declaration_digest''" "plain_text ''clc_revision''"
    "plain_text ''CLC-1.19''" "plain_text ''change_class''" "plain_text ''publisher''" "plain_text ''principal:alice''"
    by code_simp+
  show ?thesis by (simp add: parse_json_def package_text_def printed p del: tokens.simps(2))
qed

lemma transition_json: "parse_json transition_text = Some (XObj
     [(''@version'', XStr TransitionVersion), (''to_generation'', XNum ''1''), (''action'', XStr ActionCreate),
      (''scheme'', XStr ''acme/tool-v1''), (''namespace'', XStr ''/acme/tool-v1''),
      (''to_digest'', XStr package_digest), (''change_class'', XStr ChangeMajor),
      (''target_clc_revision'', XStr ''CLC-1.19'')])"
proof -
  have p: "plain_text TransitionVersion" "plain_text ChangeMajor" "plain_text ''@version''" "plain_text ''to_generation''"
    "plain_text ''scheme''" "plain_text ''acme/tool-v1''" "plain_text ''action''" "plain_text ActionCreate"
    "plain_text ''namespace''" "plain_text ''/acme/tool-v1''" "plain_text ''to_digest''"
    "plain_text ''CLC-1.19''" "plain_text ''change_class''" "plain_text ''target_clc_revision''"
    by code_simp+
  have d: "plain_text package_digest" by (simp add: package_digest_def)
  show ?thesis by (simp add: parse_json_def transition_text_def printed p d del: tokens.simps(2))
qed

lemma atoi_one: "atoi ''1'' = Some 1"
  by code_simp

lemma package_decoded: "decodeClosed Package_fields zero_Package package_text = Inr sample_package"
proof -
  have len: "int (length package_text) \<le> maxArtifactBytes"
    by (simp add: package_text_def object_text_def quoted_def sha_Digest_length maxArtifactBytes_def PackageVersion_def
        ChangeMajor_def)
  then show ?thesis
    by (simp add: decodeClosed_def package_json Check_def decode_struct_def Package_fields_def find_field_def str_field_def
        int_field_def atoi_one sample_package_def zero_Package_def)
qed

lemma digest_wf [simp]: "rmatch digestRe package_digest"
  by (simp add: package_digest_def)

lemma package_valid: "ValidatePackage sample_package = None"
proof -
  have p: "rmatch schemeRe ''acme/tool-v1''" "rmatch revisionRe ''1.0''" "rmatch clcRe ''CLC-1.19''"
    "rmatch principalRe ''principal:alice''" by code_simp+
  show ?thesis by (simp add: ValidatePackage_def sample_package_def zero_Package_def p del: rmatch.simps)
qed

lemma package_parsed: "ParsePackage package_text = Inr sample_package"
  by (simp add: ParsePackage_def package_decoded package_valid)

lemma transition_decoded: "decodeClosed Transition_fields zero_Transition transition_text = Inr sample_transition"
proof -
  have len: "int (length transition_text) \<le> maxArtifactBytes"
    by (simp add: transition_text_def object_text_def quoted_def sha_Digest_length package_digest_def maxArtifactBytes_def
        TransitionVersion_def ChangeMajor_def ActionCreate_def)
  then show ?thesis
    by (simp add: decodeClosed_def transition_json Check_def decode_struct_def Transition_fields_def find_field_def
        str_field_def int_field_def atoi_one sample_transition_def zero_Transition_def)
qed

lemma transition_valid: "ValidateTransition sample_transition = None"
proof -
  have p: "rmatch schemeRe ''acme/tool-v1''" "rmatch namespaceRe ''/acme/tool-v1''" "rmatch clcRe ''CLC-1.19''"
    "path_Clean ''/acme/tool-v1'' = ''/acme/tool-v1''" by code_simp+
  show ?thesis
    by (simp add: ValidateTransition_def transition_shape_def create_shape_def sample_transition_def zero_Transition_def p
        action_defs del: rmatch.simps)
qed

lemma transition_parsed: "ParseTransition transition_text = Inr sample_transition"
  by (simp add: ParseTransition_def transition_decoded transition_valid)

lemma CanonicalDigest_ok: "canon_ok v \<Longrightarrow> CanonicalDigest v = Inr (sha_Digest (writeCanonicalJSON v))"
  by (simp add: CanonicalDigest_def CanonicalJSON_Inr [THEN iffD2])

lemma package_canonical: "PackageDigest sample_package = Inr package_digest"
proof -
  have "canon_ok (json_of_Package sample_package)"
  proof -
    have c: "list_all (\<lambda>s. checkCanonicalString s = None) [''@version'', ''scheme'', ''revision'', ''definition_digest'',
      ''declaration_digest'', ''clc_revision'', ''change_class'', ''publisher'', ''generation'', PackageVersion,
      ''acme/tool-v1'', ''1.0'', ''CLC-1.19'', ChangeMajor, ''principal:alice'']" by code_simp
    then show ?thesis
      by (simp add: canon_ok_def json_of_Package_def struct_json_def sample_package_def zero_Package_def
          validate_strings_simps checkCanonicalString_plain)
  qed
  then show ?thesis by (simp add: PackageDigest_def CanonicalDigest_ok package_digest_def)
qed

definition transition_digest :: string where
  "transition_digest = sha_Digest (writeCanonicalJSON (json_of_Transition sample_transition))"

lemma transition_canonical: "TransitionDigest sample_transition = Inr transition_digest"
proof -
  have "list_all (\<lambda>s. checkCanonicalString s = None) [''@version'', ''action'', ''scheme'', ''namespace'', ''to_generation'',
      ''to_digest'', ''change_class'', ''target_clc_revision'', TransitionVersion, ActionCreate, ''acme/tool-v1'',
      ''/acme/tool-v1'', ''CLC-1.19'', ChangeMajor]" by code_simp
  then have "canon_ok (json_of_Transition sample_transition)"
    by (simp add: canon_ok_def json_of_Transition_def struct_json_def sample_transition_def zero_Transition_def
        package_digest_def validate_strings_simps checkCanonicalString_plain)
  then show ?thesis by (simp add: TransitionDigest_def CanonicalDigest_ok transition_digest_def)
qed

definition create_operation :: Operation where
  "create_operation = \<lparr>oID = FullCapabilityID CapCreate, oParams = Some [(''namespace'', JStr ''/acme/tool-v1''),
     (''change_class'', JStr ''major''), (''major'', JInt CInt 1), (''clc_revision'', JStr ''CLC-1.19'')]\<rparr>"

lemma create_operation: "BuildManagementOperation sample_package sample_transition = Inr create_operation"
proof -
  have "MajorOf ''1.0'' = Inr 1" by code_simp
  then show ?thesis
    by (simp add: BuildManagementOperation_def CapabilityFor_def sample_package_def sample_transition_def zero_Package_def
        zero_Transition_def create_operation_def ChangeMajor_def)
qed

lemma approve_operation: "BuildApprovalOperation sample_package sample_transition =
    Inr \<lparr>oID = FullCapabilityID CapApprove, oParams = Some [(''namespace'', JStr ''/acme/tool-v1''),
      (''package_digest'', JStr package_digest), (''transition_digest'', JStr transition_digest),
      (''clc_revision'', JStr ''CLC-1.19'')]\<rparr>"
  by (simp add: BuildApprovalOperation_def package_canonical transition_canonical)
    (simp add: sample_transition_def zero_Transition_def)

lemma operation_digests:
  obtains md ad where "op_digest (BuildManagementOperation sample_package sample_transition) = Inr md"
    "op_digest (BuildApprovalOperation sample_package sample_transition) = Inr ad"
proof -
  have m: "canon_ok (json_of_Operation create_operation)" by code_simp
  have "list_all (\<lambda>s. checkCanonicalString s = None) [''id'', ''params'', ''namespace'', ''package_digest'', ''transition_digest'',
      ''clc_revision'', FullCapabilityID CapApprove, ''/acme/tool-v1'', ''CLC-1.19'']" by code_simp
  then have a: "canon_ok (json_of_Operation \<lparr>oID = FullCapabilityID CapApprove, oParams = Some [(''namespace'', JStr ''/acme/tool-v1''),
      (''package_digest'', JStr package_digest), (''transition_digest'', JStr transition_digest),
      (''clc_revision'', JStr ''CLC-1.19'')]\<rparr>)"
    by (simp add: canon_ok_def json_of_Operation_def struct_json_def package_digest_def transition_digest_def
        validate_strings_simps checkCanonicalString_plain)
  show ?thesis
    by (rule that) (simp_all add: op_digest_def create_operation approve_operation OperationDigest_def CanonicalDigest_ok m a)
qed

lemma authority_allows:
  "ContainsWithDomains (\<lambda>s. s) create_grant create_grant [(''namespace'', \<lparr>dName = ''path-prefix'', dUnit = []\<rparr>)]
     [(''namespace'', \<lparr>dName = ''path-prefix'', dUnit = []\<rparr>)] = None"
  "Verdict (AuthorizeSetWithDomains (\<lambda>s. s) [create_grant] create_operation
     [(''namespace'', \<lparr>dName = ''path-prefix'', dUnit = []\<rparr>)]) = VerdictAllow"
  by code_simp+

lemma key_hash_nonzero: "\<not> allZero (Sum256 ''abc'')"
proof
  assume "allZero (Sum256 ''abc'')"
  then have "Sum256 ''abc'' = replicate 32 (CHR 0x00)"
    by (simp add: allZero_def list_all_iff list_eq_iff_nth_eq)
  then have "hex_EncodeToString (Sum256 ''abc'') = hex_EncodeToString (replicate 32 (CHR 0x00))" by simp
  then have "hd (hex_EncodeToString (replicate 32 (CHR 0x00))) = CHR ''b''" unfolding Sum256_abc by (metis list.sel(1))
  moreover have "hd (hex_EncodeToString (replicate 32 (CHR 0x00))) = CHR ''0''" by code_simp
  ultimately show False by simp
qed

subsection \<open>The acceptance\<close>

lemma crypto_simps [simp]:
  "VerifyDetached sample_crypto ''signature'' raw = Inr (Some sample_cert)"
  "x509_Verify sample_crypto cert [sample_cert] now = None" "ParseAIC sample_crypto cert = Inr (Some sample_aic)"
  "ValidateAIC sample_crypto aic = None" "ToLower sample_crypto = (\<lambda>s. s)"
  by (simp_all add: sample_crypto_def)

lemma publisher_ok: "verifyPublisher sample_crypto sample_package (Some sample_cert) [Some sample_cert] now = Inr sample_aic"
proof -
  have "Sum256 ''abc'' \<noteq> []" using Sum256_length [of "''abc''"] by (metis list.size(3) zero_neq_numeral)
  moreover have "trim_prefix ''principal:'' ''principal:alice'' = ''alice''" by code_simp
  ultimately have "aic_error sample_aic sample_cert = None" "names_principal (trim_prefix ''principal:'' ''principal:alice'') sample_aic"
    by (simp_all add: aic_error_def mustKeyHash_def sha256Bytes_def sample_aic_def sample_cert_def names_principal_def
        key_hash_nonzero)
  moreover have "verifyChain sample_crypto (Some sample_cert) [Some sample_cert] now = None"
    by (simp add: verifyChain_def root_pool_def map_filter_def) (simp add: sample_cert_def)
  moreover have "pkPublisher sample_package = ''principal:alice''" by (simp add: sample_package_def)
  ultimately show ?thesis by (simp add: verifyPublisher_def verifyCertificate_def)
qed

lemma sample_time: obtains now where "policyTime sample_policy = Inr now"
proof -
  have "parse_rfc3339 ''2026-01-02T00:00:00Z'' \<noteq> None" by code_simp
  then show ?thesis by (auto simp: policyTime_def sample_policy_def intro: that)
qed

abbreviation sample_confirmation :: Confirmation where
  "sample_confirmation \<equiv>
     confirmation_of sample_signed sample_package sample_transition [sample_cert] sample_cert ''signature''"

lemma confirmation_simps:
  "cfPackage sample_confirmation = sample_package" "cfTransition sample_confirmation = sample_transition"
  "cfPolicy sample_confirmation = sample_policy" "cfState sample_confirmation = empty_state"
  "cfRoots sample_confirmation = [Some sample_cert]" "cfPublisherCert sample_confirmation = Some sample_cert"
  "cfDefinition sample_confirmation = ''definition''" "cfDeclaration sample_confirmation = tool_declaration"
  by (simp_all add: confirmation_of_def sample_signed_def)

lemma payload_valid: "ValidatePayload sample_package ''definition'' tool_declaration = None"
proof -
  obtain d where "ParseDeclaration tool_declaration = Inr d" "dcScheme d = ''acme/tool-v1''" "dcCLCRevision d = ''CLC-1.19''"
    using tool_parsed by (cases "ParseDeclaration tool_declaration") auto
  moreover have "tool_declaration \<noteq> []" by (simp add: tool_declaration_def object_text_def)
  ultimately show ?thesis by (simp add: ValidatePayload_def sample_package_def zero_Package_def)
qed

lemma binds: "package_binds sample_package sample_transition = None"
  by (simp add: package_binds_def package_canonical)
    (simp add: sample_package_def sample_transition_def zero_Package_def zero_Transition_def)

lemma authority: "check_authority sample_crypto sample_confirmation sample_aic = None"
proof -
  have g: "grantsFor sample_aic (FullCapabilityID CapCreate) = [create_grant]"
    using params_parsed
    by (simp add: grantsFor_def sample_aic_def map_filter_def coversGrantID_def FullCapabilityID_def SchemeID_def CapCreate_def)
  have p: "tpAdministrationDeclaration sample_policy = admin_declaration" "tpRootGrants sample_policy = [create_grant]"
    by (simp_all add: sample_policy_def)
  have o: "oID create_operation = FullCapabilityID CapCreate" by (simp add: create_operation_def)
  show ?thesis
    using authority_allows admin_parsed
    by (simp add: check_authority_def confirmation_simps create_operation o g p containGrants_def contained_def Let_def
        CapCreate_def [symmetric])
qed

lemma adoption: "check_adoption sample_confirmation = None"
proof -
  have "namespaceUnder ''/acme/tool-v1'' [''/acme'']" "MajorOf ''1.0'' = Inr 1" by code_simp+
  then show ?thesis
    unfolding check_adoption_def confirmation_simps
    by (simp add: sample_package_def sample_transition_def sample_policy_def Let_def)
qed

lemma decided: "decide sample_crypto sample_confirmation res now = None"
proof -
  have "\<not> ActionCreate = ActionRootRotate" "trAction sample_transition = ActionCreate" "trFromDigest sample_transition = []"
    "pkCLCRevision sample_package = ''CLC-1.19''" "trTargetCLCRevision sample_transition = ''CLC-1.19''"
    "tpSupportedCLCRevisions sample_policy = [''CLC-1.19'']"
    by (simp_all add: sample_transition_def sample_package_def zero_Transition_def zero_Package_def sample_policy_def)
      (simp add: action_defs)
  moreover have "checkState sample_confirmation = None"
    by (simp add: checkState_def confirmation_simps calculation empty_state_def)
  moreover have "checkFreshness sample_package sample_policy = None"
    by (rule sample_time)
      (simp add: checkFreshness_def sample_package_def zero_Package_def, simp add: sample_policy_def)
  moreover have "check_approvals sample_crypto sample_confirmation res now = None"
    by (simp add: check_approvals_def confirmation_simps sample_policy_def)
  moreover have "verifyRevocations sample_crypto empty_state [Some sample_cert] now = None" "check_revoked empty_state d now = None" for d
    by (simp_all add: verifyRevocations_def check_revoked_def isRevokedAt_def empty_state_def)
  ultimately show ?thesis
    by (simp add: decide_def confirmation_simps policy_valid package_valid transition_valid payload_valid binds publisher_ok
        authority adoption seq_err.simps)
qed

lemma confirmed: obtains r where "confirm sample_crypto sample_confirmation = (r, None)"
proof -
  obtain now where n: "policyTime sample_policy = Inr now" by (rule sample_time)
  obtain md ad where "op_digest (BuildManagementOperation sample_package sample_transition) = Inr md"
    "op_digest (BuildApprovalOperation sample_package sample_transition) = Inr ad" by (rule operation_digests)
  then show ?thesis using n by (intro that) (simp add: confirm_def confirmation_simps decided Let_def)
qed

lemma confirmed_signed: obtains res where "ConfirmSigned sample_crypto sample_signed = (res, None)"
proof -
  obtain r where r: "confirm sample_crypto sample_confirmation = (r, None)" by (rule confirmed)
  obtain now where n: "policyTime sample_policy = Inr now" by (rule sample_time)
  obtain md where md: "op_digest (BuildManagementOperation sample_package sample_transition) = Inr md" by (rule operation_digests)
  have sel: "scPackageBytes sample_signed = package_text" "scTransitionBytes sample_signed = transition_text"
    "scSignatures sample_signed = [''signature'']" "scTransitionSignatures sample_signed = [''signature'']"
    "scRoots sample_signed = [Some sample_cert]" "scPolicy sample_signed = sample_policy" by (simp_all add: sample_signed_def)
  have len: "int (length package_text) \<le> maxArtifactBytes" "int (length transition_text) \<le> maxArtifactBytes"
    "package_text \<noteq> []" "transition_text \<noteq> []"
    by (simp_all add: package_text_def transition_text_def object_text_def quoted_def sha_Digest_length package_digest_def
        maxArtifactBytes_def PackageVersion_def TransitionVersion_def ChangeMajor_def ActionCreate_def)
  have chain: "chain_error sample_crypto sample_signed now sample_cert = None"
    by (simp add: chain_error_def verifyChain_def sel root_pool_def map_filter_def) (simp add: sample_cert_def)
  have "confirm_parsed sample_crypto sample_signed now [sample_cert] [sample_cert] sample_package sample_transition =
      (r\<lparr>crSigned := True\<rparr>, None)"
    by (simp add: confirm_parsed_def md sel is_publisher_def publisher_ok transitionSignatureFor_def r Let_def)
  then show ?thesis
    using len n chain
    by (intro that)
      (simp add: ConfirmSigned_def input_error_def sel maxDetachedSignatures_def recover_signer_def confirm_recovered_def
        package_parsed transition_parsed seq_err.simps first_err.simps)
qed

lemma sample_accepted: obtains res s where "AcceptSigned sample_crypto empty_state sample_signed = (res, Inr s)"
    "rsHistory s = [\<lparr>reGeneration = 1, rePackageDigest = package_digest\<rparr>]"
proof -
  obtain res where c: "ConfirmSigned sample_crypto sample_signed = (res, None)" by (rule confirmed_signed)
  have b: "crSigned res" "crVerdict res = VerdictAccept" "crPackageDigest res = package_digest"
    "crTransitionDigest res = transition_digest"
  proof -
    obtain pkg tr signers pub sig r where f: "ParsePackage (scPackageBytes sample_signed) = Inr pkg"
      "ParseTransition (scTransitionBytes sample_signed) = Inr tr"
      "confirm sample_crypto (confirmation_of sample_signed pkg tr signers pub sig) = (r, None)" "res = r\<lparr>crSigned := True\<rparr>"
      by (rule ConfirmSigned_accept [OF c]) (rule that; assumption)
    have p: "pkg = sample_package" "tr = sample_transition"
      using f(1,2) by (simp_all add: sample_signed_def package_parsed transition_parsed)
    show "crSigned res" "crVerdict res = VerdictAccept" "crPackageDigest res = package_digest"
      "crTransitionDigest res = transition_digest"
      using confirm_None [OF f(3)] f(4)
      by (simp_all add: confirmation_of_def p package_canonical transition_canonical digest_or_empty_def) metis+
  qed
  obtain c where a: "AcceptSigned sample_crypto empty_state sample_signed = (res, Accept sample_crypto empty_state c res)"
    "cfPackage c = sample_package" "cfTransition c = sample_transition"
    using c by (simp add: AcceptSigned_def sample_signed_def package_parsed transition_parsed Let_def)
  have d: "trAction sample_transition = ActionCreate" "trToGeneration sample_transition = 1" "pkGeneration sample_package = 1"
    "trScheme sample_transition = pkScheme sample_package" "ActionCreate \<noteq> ActionRevoke"
    by (simp_all add: sample_transition_def sample_package_def zero_Transition_def zero_Package_def action_defs)
  then have e: "accept_error empty_state c res = None"
    using b by (simp add: accept_error_def a package_canonical transition_canonical digestAt_def empty_state_def seq_err.simps)
  show ?thesis
    by (rule that [of res "advance empty_state c res"])
      (use d e a b in \<open>simp_all add: Accept_def advance_def empty_state_def Let_def\<close>)
qed

end
