(* ===== verification/Scheme_Publication.thy ===== *)
theory Scheme_Publication
  imports Scheme_Example
begin

text \<open>
  The properties of scheme administration: what an accepted confirmation guarantees of its signers, its authority and
  the registry it advances, and the invariant of the registry. The witness is a first package, confirmed and accepted.
\<close>

text \<open>
  C11. A state is only advanced by a package whose publisher signed it and its transition with one key, with a
  certificate that chains to the roots at the policy's clock and whose certified identity binds that key and
  carries the publisher's name; the management operation is authorized by grants of that certificate that are
  inside a root grant of the policy; a root rotation is signed by at least the configured number of distinct current
  root keys; a required number of approvals is reached by distinct principals with distinct keys, each authorized to
  approve; and the new head is the digest of that package, whose predecessor is the old head.
\<close>

theorem AcceptSigned_sound:
  assumes "AcceptSigned cr s sc = (res, Inr s')"
  shows "\<exists>pkg tr now cert aic op.
    ParsePackage (scPackageBytes sc) = Inr pkg \<and> ParseTransition (scTransitionBytes sc) = Inr tr \<and>
    policyTime (scPolicy sc) = Inr now \<and> speaks_for cr sc now pkg cert aic \<and>
    BuildManagementOperation pkg tr = Inr op \<and> within_root_authority cr (scPolicy sc) aic op \<and>
    (trAction tr = ActionRootRotate \<longrightarrow>
       1 \<le> tpRootThreshold (scPolicy sc) \<and> tpRootThreshold (scPolicy sc) \<le> int (card (signing_roots cr sc))) \<and>
    (0 < tpApprovalThreshold (scPolicy sc) \<longrightarrow>
       (\<exists>ps. tpApprovalThreshold (scPolicy sc) \<le> int (length ps) \<and> distinct (map fst ps) \<and> distinct (map snd ps) \<and>
          (\<forall>wk \<in> set ps. approved_by cr sc now pkg tr wk))) \<and>
    PackageDigest pkg = Inr (rsPackageDigest s') \<and> pkPreviousPackageDigest pkg = rsPackageDigest s"
proof -
  obtain c where c: "Accept cr s c res = Inr s'" "ParsePackage (scPackageBytes sc) = Inr (cfPackage c)"
    "ParseTransition (scTransitionBytes sc) = Inr (cfTransition c)" "ConfirmSigned cr sc = (res, None)"
    by (rule AcceptSigned_Accept [OF assms]) (rule that; assumption)
  obtain now signers pkg tr pub sig r where f: "policyTime (scPolicy sc) = Inr now"
    "map_err (recover_signer cr CodeSignatureInvalid (scPackageBytes sc)) (scSignatures sc) = Inr signers"
    "ParsePackage (scPackageBytes sc) = Inr pkg" "ParseTransition (scTransitionBytes sc) = Inr tr" "pub \<in> set signers"
    "transitionSignatureFor cr pub (scTransitionSignatures sc) (scTransitionBytes sc) = Some sig"
    "confirm cr (confirmation_of sc pkg tr signers pub sig) = (r, None)" "res = r\<lparr>crSigned := True\<rparr>"
    using c(4) by (rule ConfirmSigned_accept)
  have p: "cfPackage c = pkg" "cfTransition c = tr" using c(2,3) f(3,4) by simp_all
  let ?c = "confirmation_of sc pkg tr signers pub sig"
  have sel: "cfPackage ?c = pkg" "cfTransition ?c = tr" "cfPolicy ?c = scPolicy sc" "cfRoots ?c = scRoots sc"
    "cfPublisherCert ?c = Some pub" by (simp_all add: confirmation_of_def)
  obtain now' res' where d: "policyTime (cfPolicy ?c) = Inr now'" "decide cr ?c res' now' = None"
    by (rule confirm_None [OF f(7)]) (rule that; assumption)
  then have n: "now' = now" using f(1) sel(3) by simp
  obtain aic where a:
    "seq_err [ValidatePolicy (cfPolicy ?c), ValidatePackage (cfPackage ?c), ValidateTransition (cfTransition ?c)] = None"
    "package_binds (cfPackage ?c) (cfTransition ?c) = None"
    "verifyPublisher cr (cfPackage ?c) (cfPublisherCert ?c) (cfRoots ?c) now = Inr aic"
    "trAction (cfTransition ?c) = ActionRootRotate \<Longrightarrow> checkRootRotation ?c = None"
    "check_authority cr ?c aic = None" "check_approvals cr ?c res' now = None"
    by (rule decide_None [OF d(2) [unfolded n]]) (rule that; assumption)
  have speaks: "speaks_for cr sc now pkg pub aic"
    unfolding speaks_for_def
    using verifyPublisher_Inr [OF a(3) [unfolded sel]] transitionSignatureFor_Some [OF f(6)] recovered_iff [OF f(2)] f(5)
    by blast
  obtain op where op: "BuildManagementOperation pkg tr = Inr op" "within_root_authority cr (scPolicy sc) aic op"
    using check_authority_None [OF a(5)] unfolding sel by blast
  have ne: "signers \<noteq> []" using f(5) by auto
  have head: "PackageDigest pkg = Inr (rsPackageDigest s')" "pkPreviousPackageDigest pkg = rsPackageDigest s"
    using accepted_digest [OF c(1)] accepted_chain [OF Accept_Inr(1) [OF c(1)]] a(1,2) unfolding p sel by auto
  show ?thesis
    using f(1,3,4) speaks op checkRootRotation_quorum(1,2) [OF a(4) ne f(2)] check_approvals_None [OF a(6)] head
    unfolding sel by blast
qed

theorem AcceptSigned_sound_witness:
  "\<exists>now cert aic op. speaks_for sample_crypto sample_signed now sample_package cert aic \<and>
     BuildManagementOperation sample_package sample_transition = Inr op \<and>
     within_root_authority sample_crypto sample_policy aic op"
proof -
  obtain res s where "AcceptSigned sample_crypto empty_state sample_signed = (res, Inr s)" by (rule sample_accepted)
  from AcceptSigned_sound [OF this] show ?thesis
    by (auto simp: sample_signed_def package_parsed transition_parsed)
qed

text \<open>
  C40. In a state reached from an empty namespace, the history holds every generation from 1 to the head exactly once,
  in order, and ends with the head's digest, so no generation has two packages; a digest is revoked at most once and only
  if it was accepted. Every later state keeps that history and those revocations as prefixes: nothing is rewritten, and what
  is revoked stays revoked.
\<close>

theorem registry_append_only:
  assumes "empty_namespace s\<^sub>0" "registry_steps cr s\<^sub>0 s" "registry_steps cr s t"
  shows "map reGeneration (rsHistory s) = [1..rsGeneration s] \<and>
    (rsHistory s \<noteq> [] \<longrightarrow> rsPackageDigest s = rePackageDigest (last (rsHistory s))) \<and>
    distinct (map rvPackageDigest (rsRevoked s)) \<and>
    rvPackageDigest ` set (rsRevoked s) \<subseteq> rePackageDigest ` set (rsHistory s) \<and>
    prefix (rsHistory s) (rsHistory t) \<and> prefix (rsRevoked s) (rsRevoked t) \<and>
    (\<forall>d. isRevoked s d \<longrightarrow> isRevoked t d)"
proof -
  have i: "registry_inv s" using registry_history.steps_inv [OF assms(2)] empty_namespace_inv [OF assms(1)] by blast
  have p: "prefix (rsHistory s) (rsHistory t)" "prefix (rsRevoked s) (rsRevoked t)"
    using registry_history.steps_prefix [OF assms(3) i] registry_revocations.steps_prefix [OF assms(3) i] by auto
  have "\<forall>d. isRevoked s d \<longrightarrow> isRevoked t d" using set_mono_prefix [OF p(2)] by (auto simp: isRevoked_def list_ex_iff)
  then show ?thesis using i p by (auto simp: registry_inv_def)
qed

theorem registry_append_only_witness:
  "\<exists>s. registry_steps sample_crypto empty_state s \<and> map reGeneration (rsHistory s) = [1..rsGeneration s] \<and>
     rsPackageDigest s = package_digest"
proof -
  obtain res s where a: "AcceptSigned sample_crypto empty_state sample_signed = (res, Inr s)"
    "rsHistory s = [\<lparr>reGeneration = 1, rePackageDigest = package_digest\<rparr>]" by (rule sample_accepted)
  have e: "empty_namespace empty_state" by (simp add: empty_namespace_def empty_state_def)
  have r: "registry_steps sample_crypto empty_state s"
    using registry_step.accepted [OF a(1)] by (rule r_into_rtranclp)
  from registry_append_only [OF e r rtranclp.rtrancl_refl] show ?thesis using r a(2) by auto
qed

subsection \<open>Member names in another case\<close>

text \<open>
  The closed decoder accepts a member spelled in another case beside its declared spelling, and the later one wins: the
  duplicate scan compares the names exactly and the struct decoder does not.
\<close>

lemma case_variants_accepted:
  "decodeClosed entry_fields \<lparr>reGeneration = 0, rePackageDigest = []\<rparr>
     (object_text [(''generation'', ''1''), (''GENERATION'', ''2'')]) = Inr \<lparr>reGeneration = 2, rePackageDigest = []\<rparr>"
  by code_simp

end
