(* ===== verification/Catalog_Artifacts.thy ===== *)
theory Catalog_Artifacts
  imports Scheme_Trust
begin

text \<open>
  The artifacts of the capability catalog (\<open>catalog/catalog.go\<close>, \<open>delta.go\<close>, \<open>discovery.go\<close>, \<open>index.go\<close>): the
  snapshot, the delta and the discovery record with their closed decoders, validation and digests, the application of
  a delta to its base, and the lookup index. An \<open>int64\<close> generation is an \<open>int\<close> whose additions wrap around. A nil
  slice is the empty one, a nil map is \<open>None\<close> where the code marshals it or passes it on.
\<close>

subsection \<open>Versions and errors\<close>

definition CatalogVersion :: string where "CatalogVersion = ''CLC-CAPABILITY-CATALOG-v1''"
definition DeltaVersion :: string where "DeltaVersion = ''CLC-CAPABILITY-CATALOG-DELTA-v1''"
definition DiscoveryVersion :: string where "DiscoveryVersion = ''CLC-CATALOG-DISCOVERY-v1''"

text \<open>
  The stable codes of the package, by the names of its constants; a name that is also a code of scheme administration
  has the prefix \<open>Cat\<close>. Errors without a code (those of the digests) are \<open>CatPlain\<close>.
\<close>

datatype cat_code =
    CodeCatalogShape | CodeCatalogDigest | CodeDuplicateEntry | CodeSchemeUnsupported | CodeDeclarationMismatch
  | CodeEntryOutsideAuthority | CodeIdentityMismatch | CodeBootstrap | CodeRollback | CodeFork | CodePreviousDigest
  | CatStateUnverified | CodeExpired | CodeStale | CodeStatusUnavailable | CodeStatusStale | CodeProviderMismatch
  | CatSignatureMissing | CatSignatureInvalid | CodeKeyRevoked | CatSignatureChain | CatSignatureNoAIC
  | CatPublisherMismatch | CatPublisherKeyBinding
  | CodeDeltaShape | CodeDeltaBase | CodeDeltaOperation | CodeDeltaDigest | CodeDirectoryConflict | CodeShardMissing
  | CodeDiscoveryShape | CodeDiscoveryVerdict

datatype cat_error = CatFailure cat_code string "string list" | CatPlain string "string list"

fun cat_format :: "cat_error \<Rightarrow> string" where
  "cat_format (CatFailure c f as) = f"
| "cat_format (CatPlain f as) = f"

fun CatCodeOf :: "cat_error \<Rightarrow> cat_code option" where
  "CatCodeOf (CatFailure c f as) = Some c"
| "CatCodeOf (CatPlain f as) = None"

subsection \<open>Grammars and decoding\<close>

text \<open>The digest, scheme and principal expressions are those of scheme administration.\<close>

definition nameRe :: rx where
  "nameRe =
     (let low = (\<lambda>c. is_lower c \<or> is_digit c)
      in seqs [Cls low, Star (Cls (\<lambda>c. low c \<or> c = CHR ''.'' \<or> c = CHR ''-'')),
           Star (seqs [lit (CHR ''/''), Cls low, Star (Cls (\<lambda>c. low c \<or> c = CHR ''.'' \<or> c = CHR ''_'' \<or> c = CHR ''-''))])])"

definition referenceRe :: rx where
  "referenceRe =
     seqs [Cls is_alnum,
       Star (Cls (\<lambda>c. is_alnum c \<or> c = CHR ''.'' \<or> c = CHR ''_'' \<or> c = CHR '':'' \<or> c = CHR ''/'' \<or> c = CHR ''-''))]"

text \<open>\<open>strings.ContainsAny(s, " \\t\\r\\n")\<close>.\<close>

definition has_blank :: "string \<Rightarrow> bool" where
  "has_blank s = list_ex (\<lambda>c. c = CHR '' '' \<or> c = CHR 0x09 \<or> c = CHR 0x0D \<or> c = CHR 0x0A) s"

definition parseTime :: "string \<Rightarrow> instant option" where
  "parseTime raw = (if raw = [] then None else parse_rfc3339 raw)"

text \<open>The catalog's \<open>decodeClosed\<close>, with the limit, the duplicate scan and the closed decoder of scheme administration.\<close>

definition cat_decodeClosed :: "'r fields \<Rightarrow> 'r \<Rightarrow> string \<Rightarrow> string + 'r" where
  "cat_decodeClosed fs zero raw =
     (if maxArtifactBytes < int (length raw) then Inl ''artifact is %d bytes, limit is %d''
      else
        case parse_json raw of
          None \<Rightarrow> Inl ''not one JSON value''
        | Some t \<Rightarrow>
            if \<not> Check t then Inl ''duplicate or invalid JSON member: %w''
            else
              case decode_struct fs t zero of
                None \<Rightarrow> Inl ''json: unknown field or type mismatch''
              | Some r \<Rightarrow> Inr r)"

text \<open>A pointer to a struct: null makes it nil, another value is decoded into what it points to.\<close>

definition struct_ptr_field :: "'a fields \<Rightarrow> 'a \<Rightarrow> ('r \<Rightarrow> 'a option) \<Rightarrow> ('a option \<Rightarrow> 'r \<Rightarrow> 'r) \<Rightarrow> 'r setter" where
  "struct_ptr_field fs zero get upd t r =
     (if t = XNull then Some (upd None r)
      else map_option (\<lambda>a. upd (Some a) r) (decode_struct fs t (case get r of None \<Rightarrow> zero | Some a \<Rightarrow> a)))"

subsection \<open>Catalogs\<close>

record CatOperation =
  coOperation :: string
  coParams :: "obj option"

record Status =
  stReference :: string
  stCheckedAt :: string

record Entry =
  enCapability :: string
  enProvider :: string
  enScheme :: string
  enDeclarationDigest :: string
  enOperations :: "CatOperation list"
  enStatus :: "Status option"

record Catalog =
  ctVersion :: string
  ctDomain :: string
  ctCatalogID :: string
  ctGeneration :: int
  ctIssuedAt :: string
  ctValidUntil :: string
  ctPreviousDigest :: string
  ctProducer :: string
  ctEntries :: "Entry list"

definition CatOperation_fields :: "CatOperation fields" where
  "CatOperation_fields =
     [(''operation'', str_field (\<lambda>v r. r\<lparr>coOperation := v\<rparr>)),
      (''params'', map_field any_value JNull (\<lambda>r. entries (coParams r)) (\<lambda>v r. r\<lparr>coParams := v\<rparr>))]"

definition Status_fields :: "Status fields" where
  "Status_fields =
     [(''reference'', str_field (\<lambda>v r. r\<lparr>stReference := v\<rparr>)),
      (''checked_at'', str_field (\<lambda>v r. r\<lparr>stCheckedAt := v\<rparr>))]"

definition Entry_fields :: "Entry fields" where
  "Entry_fields =
     [(''capability'', str_field (\<lambda>v r. r\<lparr>enCapability := v\<rparr>)),
      (''provider'', str_field (\<lambda>v r. r\<lparr>enProvider := v\<rparr>)),
      (''scheme'', str_field (\<lambda>v r. r\<lparr>enScheme := v\<rparr>)),
      (''scheme_declaration_digest'', str_field (\<lambda>v r. r\<lparr>enDeclarationDigest := v\<rparr>)),
      (''operations'', list_field (decode_struct CatOperation_fields) \<lparr>coOperation = [], coParams = None\<rparr>
         (\<lambda>v r. r\<lparr>enOperations := v\<rparr>)),
      (''status'', struct_ptr_field Status_fields \<lparr>stReference = [], stCheckedAt = []\<rparr> enStatus
         (\<lambda>v r. r\<lparr>enStatus := v\<rparr>))]"

definition zero_Entry :: Entry where
  "zero_Entry = \<lparr>enCapability = [], enProvider = [], enScheme = [], enDeclarationDigest = [], enOperations = [],
     enStatus = None\<rparr>"

definition zero_Catalog :: Catalog where
  "zero_Catalog = \<lparr>ctVersion = [], ctDomain = [], ctCatalogID = [], ctGeneration = 0, ctIssuedAt = [], ctValidUntil = [],
     ctPreviousDigest = [], ctProducer = [], ctEntries = []\<rparr>"

definition Catalog_fields :: "Catalog fields" where
  "Catalog_fields =
     [(''@version'', str_field (\<lambda>v r. r\<lparr>ctVersion := v\<rparr>)),
      (''domain'', str_field (\<lambda>v r. r\<lparr>ctDomain := v\<rparr>)),
      (''catalog_id'', str_field (\<lambda>v r. r\<lparr>ctCatalogID := v\<rparr>)),
      (''generation'', int_field (\<lambda>v r. r\<lparr>ctGeneration := v\<rparr>)),
      (''issued_at'', str_field (\<lambda>v r. r\<lparr>ctIssuedAt := v\<rparr>)),
      (''valid_until'', str_field (\<lambda>v r. r\<lparr>ctValidUntil := v\<rparr>)),
      (''previous_digest'', str_field (\<lambda>v r. r\<lparr>ctPreviousDigest := v\<rparr>)),
      (''producer'', str_field (\<lambda>v r. r\<lparr>ctProducer := v\<rparr>)),
      (''entries'', list_field (decode_struct Entry_fields) zero_Entry (\<lambda>v r. r\<lparr>ctEntries := v\<rparr>))]"

fun operations_error :: "string \<Rightarrow> string list \<Rightarrow> CatOperation list \<Rightarrow> cat_error option" where
  "operations_error capability ops [] = None"
| "operations_error capability ops (op # rest) = seq_err [
     fail_if (trim_space (coOperation op) = [])
       (CatFailure CodeCatalogShape ''entry %q has an unnamed operation'' [capability]),
     fail_if (ValidateOperationParams (entries (coParams op)) \<noteq> None)
       (CatFailure CodeCatalogShape ''entry %q operation %q params: %s'' [capability, coOperation op]),
     fail_if (coOperation op \<in> set ops)
       (CatFailure CodeCatalogShape ''entry %q repeats operation %q'' [capability, coOperation op]),
     operations_error capability (coOperation op # ops) rest]"

definition Entry_validate :: "Entry \<Rightarrow> cat_error option" where
  "Entry_validate e =
     (let cap = enCapability e; bad = CatFailure CodeCatalogShape
      in seq_err [
        fail_if (\<not> rmatch schemeRe (enScheme e)) (bad ''entry scheme %q is not a scheme id'' [enScheme e]),
        fail_if (\<not> prefix (enScheme e @ '':'') cap \<or> length cap = length (enScheme e) + 1)
          (bad ''capability %q is not inside scheme %q'' [cap, enScheme e]),
        fail_if (ValidateCapabilityID cap \<noteq> None) (bad ''capability %q: %s'' [cap]),
        fail_if (trim_space (enProvider e) = [] \<or> has_blank (enProvider e))
          (bad ''provider %q is not an identity reference'' [enProvider e]),
        fail_if (\<not> rmatch digestRe (enDeclarationDigest e))
          (bad ''entry %q has no valid scheme_declaration_digest'' [cap]),
        fail_if (enOperations e = []) (bad ''entry %q has no operations'' [cap]),
        operations_error cap [] (enOperations e),
        (case enStatus e of
           None \<Rightarrow> None
         | Some st \<Rightarrow> seq_err [
             fail_if (\<not> rmatch referenceRe (stReference st)) (bad ''entry %q has no usable status reference'' [cap]),
             fail_if (parseTime (stCheckedAt st) = None) (bad ''entry %q status.checked_at: %s'' [cap])])])"

fun entries_error :: "string list \<Rightarrow> Entry list \<Rightarrow> cat_error option" where
  "entries_error seen [] = None"
| "entries_error seen (e # es) = seq_err [
     Entry_validate e,
     fail_if (enCapability e \<in> set seen)
       (CatFailure CodeDuplicateEntry ''capability %q appears more than once'' [enCapability e]),
     entries_error (enCapability e # seen) es]"

text \<open>The two time stamps of an artifact: both are readable and the second is later.\<close>

definition window_error :: "cat_code \<Rightarrow> string \<Rightarrow> string \<Rightarrow> cat_error option" where
  "window_error code issuedAt validUntil =
     (case (parseTime issuedAt, parseTime validUntil) of
        (None, _) \<Rightarrow> Some (CatFailure code ''issued_at: %s'' [])
      | (Some issued, None) \<Rightarrow> Some (CatFailure code ''valid_until: %s'' [])
      | (Some issued, Some until) \<Rightarrow>
          fail_if (\<not> issued < until) (CatFailure code ''valid_until must be after issued_at'' []))"

definition Catalog_Validate :: "Catalog \<Rightarrow> cat_error option" where
  "Catalog_Validate c =
     (let bad = CatFailure CodeCatalogShape
      in seq_err [
        fail_if (ctVersion c \<noteq> CatalogVersion) (bad ''@version must be %q'' [CatalogVersion]),
        fail_if (\<not> rmatch nameRe (ctDomain c)) (bad ''domain %q is not a catalog domain name'' [ctDomain c]),
        fail_if (\<not> rmatch nameRe (ctCatalogID c)) (bad ''catalog_id %q is not a catalog identity'' [ctCatalogID c]),
        fail_if (ctGeneration c < 1) (bad ''generation must be >= 1'' []),
        fail_if (\<not> rmatch principalRe (ctProducer c)) (bad ''producer %q is not a principal'' [ctProducer c]),
        window_error CodeCatalogShape (ctIssuedAt c) (ctValidUntil c),
        (if ctGeneration c = 1 then
           fail_if (ctPreviousDigest c \<noteq> []) (bad ''generation 1 must not carry previous_digest'' [])
         else
           fail_if (\<not> rmatch digestRe (ctPreviousDigest c)) (bad ''generation %d requires a previous_digest'' [])),
        fail_if (ctEntries c = []) (bad ''catalog has no entries'' []),
        entries_error [] (ctEntries c)])"

definition ParseCatalog :: "string \<Rightarrow> cat_error + Catalog" where
  "ParseCatalog raw =
     (case cat_decodeClosed Catalog_fields zero_Catalog raw of
        Inl e \<Rightarrow> Inl (CatFailure CodeCatalogShape ''%s'' [e])
      | Inr c \<Rightarrow> (case Catalog_Validate c of Some e \<Rightarrow> Inl e | None \<Rightarrow> Inr c))"

definition json_list :: "('a \<Rightarrow> json) \<Rightarrow> 'a list \<Rightarrow> json" where
  "json_list f xs = (if xs = [] then JNull else JArr (map f xs))"

definition json_of_CatOperation :: "CatOperation \<Rightarrow> json" where
  "json_of_CatOperation op = struct_json
     [(True, ''operation'', JStr (coOperation op)),
      (entries (coParams op) \<noteq> [], ''params'', JObj (entries (coParams op)))]"

definition json_of_Entry :: "Entry \<Rightarrow> json" where
  "json_of_Entry e = struct_json
     [(True, ''capability'', JStr (enCapability e)),
      (True, ''provider'', JStr (enProvider e)),
      (True, ''scheme'', JStr (enScheme e)),
      (True, ''scheme_declaration_digest'', JStr (enDeclarationDigest e)),
      (True, ''operations'', json_list json_of_CatOperation (enOperations e)),
      (enStatus e \<noteq> None, ''status'', (case enStatus e of None \<Rightarrow> JNull | Some st \<Rightarrow> struct_json
         [(True, ''reference'', JStr (stReference st)), (True, ''checked_at'', JStr (stCheckedAt st))]))]"

definition json_of_Catalog :: "Catalog \<Rightarrow> json" where
  "json_of_Catalog c = struct_json
     [(True, ''@version'', JStr (ctVersion c)),
      (True, ''domain'', JStr (ctDomain c)),
      (True, ''catalog_id'', JStr (ctCatalogID c)),
      (True, ''generation'', JInt CInt64 (ctGeneration c)),
      (True, ''issued_at'', JStr (ctIssuedAt c)),
      (True, ''valid_until'', JStr (ctValidUntil c)),
      (ctPreviousDigest c \<noteq> [], ''previous_digest'', JStr (ctPreviousDigest c)),
      (True, ''producer'', JStr (ctProducer c)),
      (True, ''entries'', json_list json_of_Entry (ctEntries c))]"

definition Catalog_Digest :: "Catalog \<Rightarrow> canon_err + string" where
  "Catalog_Digest c = CanonicalDigest (json_of_Catalog c)"

definition Operation_Grant :: "CatOperation \<Rightarrow> string \<Rightarrow> Grant" where
  "Operation_Grant op capability = \<lparr>gID = capability, gParams = coParams op, gParamBounds = [], gConstraints = []\<rparr>"

text \<open>
  \<open>schemedecl_DigestOf\<close> of a declaration: its numbers are kept as literals, which the canonical form reads as the decoder does.
  \<open>DigestOfDeclaration\<close> is empty on an error.
\<close>

definition schemedecl_DigestOf :: "string \<Rightarrow> string option" where
  "schemedecl_DigestOf raw =
     (case parse_json raw of
        None \<Rightarrow> None
      | Some t \<Rightarrow>
          if \<not> Check t then None
          else
            (let digest = (\<lambda>v. case CanonicalJSON v of
                                  Inl e \<Rightarrow> None
                                | Inr enc \<Rightarrow> Some (''sha256:'' @ b64_EncodeToString (Sum256 enc)))
             in case decode_text t of
                  Some (JObj m) \<Rightarrow> digest (JObj (filter (\<lambda>x. fst x \<noteq> ''digest'') m))
                | Some JNull \<Rightarrow> digest JNull
                | _ \<Rightarrow> None))"

definition DigestOfDeclaration :: "string \<Rightarrow> string" where
  "DigestOfDeclaration raw = (case schemedecl_DigestOf raw of None \<Rightarrow> [] | Some digest \<Rightarrow> digest)"

end
