(* ===== verification/Catalog_Delta.thy ===== *)
theory Catalog_Delta
  imports Catalog_Artifacts
begin

text \<open>
  Catalog deltas with their application to a base (\<open>catalog/delta.go\<close>), discovery records (\<open>discovery.go\<close>) and the lookup
  index (\<open>index.go\<close>). A Go map is an association list.
\<close>

subsection \<open>Deltas\<close>

record Delta =
  dlVersion :: string
  dlDomain :: string
  dlCatalogID :: string
  dlBaseGeneration :: int
  dlTargetGeneration :: int
  dlBaseDigest :: string
  dlTargetDigest :: string
  dlIssuedAt :: string
  dlValidUntil :: string
  dlProducer :: string
  dlAdd :: "Entry list"
  dlReplace :: "Entry list"
  dlRemove :: "string list"

definition zero_Delta :: Delta where
  "zero_Delta = \<lparr>dlVersion = [], dlDomain = [], dlCatalogID = [], dlBaseGeneration = 0, dlTargetGeneration = 0,
     dlBaseDigest = [], dlTargetDigest = [], dlIssuedAt = [], dlValidUntil = [], dlProducer = [], dlAdd = [],
     dlReplace = [], dlRemove = []\<rparr>"

definition Delta_fields :: "Delta fields" where
  "Delta_fields =
     [(''@version'', str_field (\<lambda>v r. r\<lparr>dlVersion := v\<rparr>)),
      (''domain'', str_field (\<lambda>v r. r\<lparr>dlDomain := v\<rparr>)),
      (''catalog_id'', str_field (\<lambda>v r. r\<lparr>dlCatalogID := v\<rparr>)),
      (''base_generation'', int_field (\<lambda>v r. r\<lparr>dlBaseGeneration := v\<rparr>)),
      (''target_generation'', int_field (\<lambda>v r. r\<lparr>dlTargetGeneration := v\<rparr>)),
      (''base_digest'', str_field (\<lambda>v r. r\<lparr>dlBaseDigest := v\<rparr>)),
      (''target_digest'', str_field (\<lambda>v r. r\<lparr>dlTargetDigest := v\<rparr>)),
      (''issued_at'', str_field (\<lambda>v r. r\<lparr>dlIssuedAt := v\<rparr>)),
      (''valid_until'', str_field (\<lambda>v r. r\<lparr>dlValidUntil := v\<rparr>)),
      (''producer'', str_field (\<lambda>v r. r\<lparr>dlProducer := v\<rparr>)),
      (''add'', list_field (decode_struct Entry_fields) zero_Entry (\<lambda>v r. r\<lparr>dlAdd := v\<rparr>)),
      (''replace'', list_field (decode_struct Entry_fields) zero_Entry (\<lambda>v r. r\<lparr>dlReplace := v\<rparr>)),
      (''remove'', list_field (str_field (\<lambda>v r. v)) [] (\<lambda>v r. r\<lparr>dlRemove := v\<rparr>))]"

text \<open>One side of the delta names a capability once; \<open>touched\<close> holds the capabilities named before, with their side.\<close>

definition note_capability :: "string \<Rightarrow> string \<Rightarrow> string gomap \<Rightarrow> cat_error option" where
  "note_capability capability side touched = seq_err [
     fail_if (capability = []) (CatFailure CodeDeltaOperation ''%s names an empty capability'' [side]),
     (case map_of touched capability of
        Some previous \<Rightarrow>
          Some (CatFailure CodeDeltaOperation ''%q appears in both %s and %s'' [capability, previous, side])
      | None \<Rightarrow> None)]"

text \<open>The three loops in a row: every item has the capability, its side and the error of its own check.\<close>

fun sides_error :: "string gomap \<Rightarrow> (string \<times> string \<times> cat_error option) list \<Rightarrow> cat_error option" where
  "sides_error touched [] = None"
| "sides_error touched ((capability, side, check) # items) = seq_err [
     check,
     note_capability capability side touched,
     sides_error ((capability, side) # touched) items]"

definition delta_sides :: "Delta \<Rightarrow> (string \<times> string \<times> cat_error option) list" where
  "delta_sides d =
     map (\<lambda>e. (enCapability e, ''add'', Entry_validate e)) (dlAdd d) @
     map (\<lambda>e. (enCapability e, ''replace'', Entry_validate e)) (dlReplace d) @
     map (\<lambda>capability. (capability, ''remove'', None)) (dlRemove d)"

definition Delta_Validate :: "Delta \<Rightarrow> cat_error option" where
  "Delta_Validate d =
     (let bad = CatFailure CodeDeltaShape
      in seq_err [
        fail_if (dlVersion d \<noteq> DeltaVersion) (bad ''@version must be %q'' [DeltaVersion]),
        fail_if (\<not> rmatch nameRe (dlDomain d)) (bad ''domain %q is not a catalog domain'' [dlDomain d]),
        fail_if (\<not> rmatch nameRe (dlCatalogID d)) (bad ''catalog_id %q is not a catalog identity'' [dlCatalogID d]),
        fail_if (dlBaseGeneration d < 1) (bad ''base_generation must be >= 1'' []),
        fail_if (dlTargetGeneration d \<noteq> wrap64 (dlBaseGeneration d + 1))
          (bad ''target_generation must be base_generation + 1'' []),
        fail_if (\<not> rmatch digestRe (dlBaseDigest d) \<or> \<not> rmatch digestRe (dlTargetDigest d))
          (bad ''base_digest and target_digest must be sha256 digests'' []),
        fail_if (\<not> rmatch principalRe (dlProducer d)) (bad ''producer %q is not a principal'' [dlProducer d]),
        window_error CodeDeltaShape (dlIssuedAt d) (dlValidUntil d),
        fail_if (dlAdd d = [] \<and> dlReplace d = [] \<and> dlRemove d = []) (bad ''delta has no effect'' []),
        sides_error [] (delta_sides d)])"

definition ParseDelta :: "string \<Rightarrow> cat_error + Delta" where
  "ParseDelta raw =
     (case cat_decodeClosed Delta_fields zero_Delta raw of
        Inl e \<Rightarrow> Inl (CatFailure CodeDeltaShape ''%s'' [e])
      | Inr d \<Rightarrow> (case Delta_Validate d of Some e \<Rightarrow> Inl e | None \<Rightarrow> Inr d))"

definition Delta_Digest :: "Delta \<Rightarrow> canon_err + string" where
  "Delta_Digest d = CanonicalDigest (struct_json
     [(True, ''@version'', JStr (dlVersion d)),
      (True, ''domain'', JStr (dlDomain d)),
      (True, ''catalog_id'', JStr (dlCatalogID d)),
      (True, ''base_generation'', JInt CInt64 (dlBaseGeneration d)),
      (True, ''target_generation'', JInt CInt64 (dlTargetGeneration d)),
      (True, ''base_digest'', JStr (dlBaseDigest d)),
      (True, ''target_digest'', JStr (dlTargetDigest d)),
      (True, ''issued_at'', JStr (dlIssuedAt d)),
      (True, ''valid_until'', JStr (dlValidUntil d)),
      (True, ''producer'', JStr (dlProducer d)),
      (dlAdd d \<noteq> [], ''add'', JArr (map json_of_Entry (dlAdd d))),
      (dlReplace d \<noteq> [], ''replace'', JArr (map json_of_Entry (dlReplace d))),
      (dlRemove d \<noteq> [], ''remove'', JArr (map JStr (dlRemove d)))])"

subsection \<open>Application\<close>

fun remove_entries :: "string list \<Rightarrow> Entry gomap \<Rightarrow> cat_error + Entry gomap" where
  "remove_entries [] existing = Inr existing"
| "remove_entries (capability # rest) existing =
     (if map_of existing capability = None then
        Inl (CatFailure CodeDeltaOperation ''remove names unknown capability %q'' [capability])
      else remove_entries rest (AList.delete capability existing))"

fun replace_entries :: "Entry list \<Rightarrow> Entry gomap \<Rightarrow> cat_error + Entry gomap" where
  "replace_entries [] existing = Inr existing"
| "replace_entries (e # rest) existing =
     (if map_of existing (enCapability e) = None then
        Inl (CatFailure CodeDeltaOperation ''replace names unknown capability %q'' [enCapability e])
      else replace_entries rest (AList.update (enCapability e) e existing))"

fun add_entries :: "Entry list \<Rightarrow> Entry gomap \<Rightarrow> cat_error + Entry gomap" where
  "add_entries [] existing = Inr existing"
| "add_entries (e # rest) existing =
     (if map_of existing (enCapability e) \<noteq> None then
        Inl (CatFailure CodeDeltaOperation ''add names existing capability %q'' [enCapability e])
      else add_entries rest (AList.update (enCapability e) e existing))"

definition entry_map :: "Entry list \<Rightarrow> Entry gomap" where
  "entry_map es = foldl (\<lambda>m e. AList.update (enCapability e) e m) [] es"

definition apply_edits :: "Delta \<Rightarrow> Entry list \<Rightarrow> cat_error + Entry list" where
  "apply_edits d es =
     (case remove_entries (dlRemove d) (entry_map es) of
        Inl e \<Rightarrow> Inl e
      | Inr removed \<Rightarrow>
          (case replace_entries (dlReplace d) removed of
             Inl e \<Rightarrow> Inl e
           | Inr replaced \<Rightarrow>
               (case add_entries (dlAdd d) replaced of
                  Inl e \<Rightarrow> Inl e
                | Inr added \<Rightarrow> Inr (map snd (sort_key fst added)))))"

definition delta_base_error :: "Catalog \<Rightarrow> Delta \<Rightarrow> string \<Rightarrow> cat_error option" where
  "delta_base_error base d baseDigest = seq_err [
     fail_if (ctDomain base \<noteq> dlDomain d \<or> ctCatalogID base \<noteq> dlCatalogID d)
       (CatFailure CodeDeltaBase ''delta is for %s/%s, base is %s/%s''
          [dlDomain d, dlCatalogID d, ctDomain base, ctCatalogID base]),
     fail_if (ctGeneration base \<noteq> dlBaseGeneration d)
       (CatFailure CodeDeltaBase ''delta base generation %d, catalog is %d'' []),
     fail_if (baseDigest \<noteq> dlBaseDigest d)
       (CatFailure CodeDeltaBase ''delta base digest %s, catalog is %s'' [dlBaseDigest d, baseDigest])]"

definition next_catalog :: "Catalog \<Rightarrow> Delta \<Rightarrow> string \<Rightarrow> Entry list \<Rightarrow> Catalog" where
  "next_catalog base d baseDigest es =
     \<lparr>ctVersion = CatalogVersion, ctDomain = ctDomain base, ctCatalogID = ctCatalogID base,
      ctGeneration = dlTargetGeneration d, ctIssuedAt = dlIssuedAt d, ctValidUntil = dlValidUntil d,
      ctPreviousDigest = baseDigest, ctProducer = ctProducer base, ctEntries = es\<rparr>"

definition Apply :: "Catalog \<Rightarrow> Delta \<Rightarrow> cat_error + Catalog" where
  "Apply base d =
     (case Delta_Validate d of
        Some e \<Rightarrow> Inl e
      | None \<Rightarrow>
          (case Catalog_Digest base of
             Inl e \<Rightarrow> Inl (CatFailure CodeDeltaBase ''%s'' [])
           | Inr baseDigest \<Rightarrow>
               (case delta_base_error base d baseDigest of
                  Some e \<Rightarrow> Inl e
                | None \<Rightarrow>
                    (case apply_edits d (ctEntries base) of
                       Inl e \<Rightarrow> Inl e
                     | Inr es \<Rightarrow>
                         (let nxt = next_catalog base d baseDigest es
                          in case Catalog_Validate nxt of
                               Some e \<Rightarrow> Inl e
                             | None \<Rightarrow>
                                 (case Catalog_Digest nxt of
                                    Inl e \<Rightarrow> Inl (CatFailure CodeDeltaDigest ''%s'' [])
                                  | Inr digest \<Rightarrow>
                                      if digest \<noteq> dlTargetDigest d then
                                        Inl (CatFailure CodeDeltaDigest ''delta target digest %s, applied catalog is %s''
                                          [dlTargetDigest d, digest])
                                      else Inr nxt))))))"

subsection \<open>Discovery records\<close>

record Discovery =
  dsVersion :: string
  dsProvider :: string
  dsCatalogID :: string
  dsCatalogDigest :: string
  dsGeneration :: int
  dsIssuedAt :: string
  dsValidUntil :: string
  dsStatusReference :: string
  dsSchemeDeclarationDigests :: "string list"

definition zero_Discovery :: Discovery where
  "zero_Discovery = \<lparr>dsVersion = [], dsProvider = [], dsCatalogID = [], dsCatalogDigest = [], dsGeneration = 0,
     dsIssuedAt = [], dsValidUntil = [], dsStatusReference = [], dsSchemeDeclarationDigests = []\<rparr>"

definition Discovery_fields :: "Discovery fields" where
  "Discovery_fields =
     [(''@version'', str_field (\<lambda>v r. r\<lparr>dsVersion := v\<rparr>)),
      (''provider'', str_field (\<lambda>v r. r\<lparr>dsProvider := v\<rparr>)),
      (''catalog_id'', str_field (\<lambda>v r. r\<lparr>dsCatalogID := v\<rparr>)),
      (''catalog_digest'', str_field (\<lambda>v r. r\<lparr>dsCatalogDigest := v\<rparr>)),
      (''generation'', int_field (\<lambda>v r. r\<lparr>dsGeneration := v\<rparr>)),
      (''issued_at'', str_field (\<lambda>v r. r\<lparr>dsIssuedAt := v\<rparr>)),
      (''valid_until'', str_field (\<lambda>v r. r\<lparr>dsValidUntil := v\<rparr>)),
      (''status_reference'', str_field (\<lambda>v r. r\<lparr>dsStatusReference := v\<rparr>)),
      (''scheme_declaration_digests'', list_field (str_field (\<lambda>v r. v)) []
         (\<lambda>v r. r\<lparr>dsSchemeDeclarationDigests := v\<rparr>))]"

definition verdictMembers :: "string list" where
  "verdictMembers = [''verdict'', ''authorized'', ''authorised'', ''verified'', ''approved'', ''allowed'', ''trusted'',
     ''accepted'']"

definition Discovery_Validate :: "Discovery \<Rightarrow> cat_error option" where
  "Discovery_Validate d =
     (let bad = CatFailure CodeDiscoveryShape
      in seq_err [
        fail_if (dsVersion d \<noteq> DiscoveryVersion) (bad ''@version must be %q'' [DiscoveryVersion]),
        fail_if (\<not> rmatch nameRe (dsCatalogID d)) (bad ''catalog_id %q is not a catalog identity'' [dsCatalogID d]),
        fail_if (dsProvider d = []) (bad ''provider is required'' []),
        fail_if (trim_space (dsProvider d) \<noteq> dsProvider d \<or> has_blank (dsProvider d))
          (bad ''provider %q is not an identity reference'' [dsProvider d]),
        fail_if (\<not> rmatch digestRe (dsCatalogDigest d)) (bad ''catalog_digest is not a sha256 digest'' []),
        fail_if (dsGeneration d < 1) (bad ''generation must be >= 1'' []),
        window_error CodeDiscoveryShape (dsIssuedAt d) (dsValidUntil d),
        first_err (\<lambda>digest. fail_if (\<not> rmatch digestRe digest)
            (bad ''scheme_declaration_digests contains %q'' [digest])) (dsSchemeDeclarationDigests d)])"

text \<open>The probe decodes the members into a map; null is the nil map.\<close>

definition ParseDiscovery :: "string \<Rightarrow> cat_error + Discovery" where
  "ParseDiscovery raw =
     (case Option.bind (parse_json raw) (\<lambda>t. case t of XObj ms \<Rightarrow> Some ms | XNull \<Rightarrow> Some [] | _ \<Rightarrow> None) of
        None \<Rightarrow> Inl (CatFailure CodeDiscoveryShape ''%s'' [])
      | Some probe \<Rightarrow>
          (case find (\<lambda>member. member \<in> set (map fst probe)) verdictMembers of
             Some member \<Rightarrow> Inl (CatFailure CodeDiscoveryVerdict ''discovery must not carry a %q member'' [member])
           | None \<Rightarrow>
               (case cat_decodeClosed Discovery_fields zero_Discovery raw of
                  Inl e \<Rightarrow> Inl (CatFailure CodeDiscoveryShape ''%s'' [e])
                | Inr d \<Rightarrow> (case Discovery_Validate d of Some e \<Rightarrow> Inl e | None \<Rightarrow> Inr d))))"

definition Discovery_Match :: "Discovery \<Rightarrow> Catalog \<Rightarrow> cat_error option" where
  "Discovery_Match d c =
     (let bad = CatFailure CodeDiscoveryShape
      in case Catalog_Digest c of
           Inl e \<Rightarrow> Some (bad ''%s'' [])
         | Inr digest \<Rightarrow> seq_err [
             fail_if (dsCatalogID d \<noteq> ctCatalogID c) (bad ''discovery names %q, catalog is %q'' [dsCatalogID d, ctCatalogID c]),
             fail_if (dsGeneration d \<noteq> ctGeneration c) (bad ''discovery names generation %d, catalog is %d'' []),
             fail_if (dsCatalogDigest d \<noteq> digest)
               (CatFailure CodeCatalogDigest ''discovery names %s, catalog is %s'' [dsCatalogDigest d, digest]),
             (if dsSchemeDeclarationDigests d = [] then None
              else first_err (\<lambda>entry. fail_if (enDeclarationDigest entry \<notin> set (dsSchemeDeclarationDigests d))
                  (CatFailure CodeDeclarationMismatch ''discovery does not pin declaration %s for %q''
                     [enDeclarationDigest entry, enCapability entry])) (ctEntries c)),
             fail_if (ctEntries c \<noteq> [] \<and> \<not> list_ex (\<lambda>entry. enProvider entry = dsProvider d) (ctEntries c))
               (bad ''discovery provider %q is not present in the catalog entries'' [dsProvider d]),
             (if dsValidUntil d = [] then None
              else
                case (parseTime (dsValidUntil d), parseTime (ctValidUntil c)) of
                  (None, _) \<Rightarrow> Some (bad ''valid_until: %s'' [])
                | (Some until, None) \<Rightarrow> Some (bad ''catalog valid_until: %s'' [])
                | (Some until, Some catalogUntil) \<Rightarrow>
                    fail_if (until < catalogUntil) (bad ''discovery expires before the catalog at %s'' [ctValidUntil c]))])"

definition Discovery_Digest :: "Discovery \<Rightarrow> canon_err + string" where
  "Discovery_Digest d = CanonicalDigest (struct_json
     [(True, ''@version'', JStr (dsVersion d)),
      (True, ''provider'', JStr (dsProvider d)),
      (True, ''catalog_id'', JStr (dsCatalogID d)),
      (True, ''catalog_digest'', JStr (dsCatalogDigest d)),
      (True, ''generation'', JInt CInt64 (dsGeneration d)),
      (True, ''issued_at'', JStr (dsIssuedAt d)),
      (True, ''valid_until'', JStr (dsValidUntil d)),
      (dsStatusReference d \<noteq> [], ''status_reference'', JStr (dsStatusReference d)),
      (dsSchemeDeclarationDigests d \<noteq> [], ''scheme_declaration_digests'', JArr (map JStr (dsSchemeDeclarationDigests d)))])"

subsection \<open>Index\<close>

record Index =
  ixShards :: "nat list list"
  ixByName :: "nat gomap"

definition shard_key :: "string \<Rightarrow> nat" where
  "shard_key capability = (case capability of [] \<Rightarrow> 0 | c # _ \<Rightarrow> of_char c)"

definition index_entry :: "Index \<Rightarrow> nat \<times> Entry \<Rightarrow> Index" where
  "index_entry idx ie =
     (let (i, e) = ie; key = shard_key (enCapability e)
      in if map_of (ixByName idx) (enCapability e) \<noteq> None then idx
         else \<lparr>ixShards = (ixShards idx)[key := ixShards idx ! key @ [i]],
               ixByName = AList.update (enCapability e) i (ixByName idx)\<rparr>)"

definition BuildIndex :: "Catalog \<Rightarrow> Index" where
  "BuildIndex c =
     foldl index_entry \<lparr>ixShards = replicate 256 [], ixByName = []\<rparr> (zip [0 ..< length (ctEntries c)] (ctEntries c))"

text \<open>A nil index is \<open>None\<close>. The result \<open>(Entry, bool)\<close> is an option.\<close>

definition Lookup :: "Index option \<Rightarrow> Catalog \<Rightarrow> string \<Rightarrow> Entry option" where
  "Lookup i c capability =
     (case i of
        None \<Rightarrow> None
      | Some index \<Rightarrow>
          (case map_of (ixByName index) capability of
             None \<Rightarrow> None
           | Some idx \<Rightarrow> if length (ctEntries c) \<le> idx then None else Some (ctEntries c ! idx)))"

definition Shard :: "Index option \<Rightarrow> string \<Rightarrow> nat list" where
  "Shard i capability =
     (case i of
        None \<Rightarrow> []
      | Some index \<Rightarrow> if capability = [] then [] else ixShards index ! of_char (hd capability))"

end
