(* ===== verification/Catalog_Verify.thy ===== *)
theory Catalog_Verify
  imports Catalog_Delta Scheme_Confirm
begin

text \<open>
  The admission of signed catalogs (\<open>catalog/policy.go\<close>, \<open>verify.go\<close>, \<open>signed.go\<close>, \<open>delta_signed.go\<close>, \<open>rotation.go\<close>): the
  deployer's policy and state, the signer's certificate, the checks of a catalog and of a delta, and trust rotation.
  The code outside the repository is the \<open>crypto\<close> of scheme administration. An error returned with a result is the pair of
  both. The iteration order of a Go map only decides which error is reported.
\<close>

subsection \<open>Policy, state, results\<close>

record CatTrustPolicy =
  cpDomain :: string
  cpCatalogID :: string
  cpProducer :: string
  cpSchemes :: "string gomap"   \<comment> \<open>a scheme with the text of its pinned declaration\<close>
  cpMaxStalenessSeconds :: int
  cpMaxStatusStalenessSeconds :: int
  cpRequireStatus :: bool
  cpStatusValues :: "string gomap"
  cpStatusResolver :: "(string \<Rightarrow> string + string) option"
  cpProviderBindings :: "string gomap"
  cpObservedAt :: string

record GenerationRecord =
  grGeneration :: int
  grDigest :: string

record CatState =
  csDomain :: string
  csCatalogID :: string
  csProducer :: string
  csGeneration :: int
  csDigest :: string
  csHistory :: "GenerationRecord list"

text \<open>The reason is the code of the error, its detail is the error itself.\<close>

record Result =
  vrVerdict :: string
  vrReason :: "cat_code option"
  vrDetail :: "cat_error option"
  vrDomain :: string
  vrCatalogID :: string
  vrProducer :: string
  vrGeneration :: int
  vrCatalogDigest :: string
  vrSignerKeyID :: string
  vrSignerCertificateDigest :: string
  vrAICDigest :: string
  vrPolicyDigest :: string
  vrStateDigest :: string
  vrInputsDigest :: string
  vrSignatureVerified :: bool
  vrDeltaVerified :: bool

definition reject_catalog :: Result where
  "reject_catalog = \<lparr>vrVerdict = VerdictReject, vrReason = None, vrDetail = None, vrDomain = [], vrCatalogID = [],
     vrProducer = [], vrGeneration = 0, vrCatalogDigest = [], vrSignerKeyID = [], vrSignerCertificateDigest = [],
     vrAICDigest = [], vrPolicyDigest = [], vrStateDigest = [], vrInputsDigest = [], vrSignatureVerified = False,
     vrDeltaVerified = False\<rparr>"

definition health_values :: "string list" where
  "health_values = [''healthy'', ''unhealthy'', ''degraded'', ''unknown'']"

definition scheme_policy_error :: "string \<times> string \<Rightarrow> cat_error option" where
  "scheme_policy_error nd =
     (case nd of (name, declaration) \<Rightarrow>
        if \<not> rmatch schemeRe name then
          Some (CatFailure CodeSchemeUnsupported ''policy scheme %q is not a scheme id'' [name])
        else
          case ParseDeclaration declaration of
            Inl e \<Rightarrow> Some (CatFailure CodeDeclarationMismatch ''policy declaration for %q: %s'' [name, error_format e])
          | Inr decl \<Rightarrow>
              fail_if (dcScheme decl \<noteq> name)
                (CatFailure CodeDeclarationMismatch ''policy declaration for %q names %q'' [name, dcScheme decl]))"

definition cat_ValidatePolicy :: "CatTrustPolicy \<Rightarrow> cat_error option" where
  "cat_ValidatePolicy p =
     (let bad = CatFailure CodeCatalogShape
      in seq_err [
        fail_if (\<not> rmatch nameRe (cpDomain p)) (bad ''policy.domain %q is not a catalog domain'' [cpDomain p]),
        fail_if (\<not> rmatch nameRe (cpCatalogID p)) (bad ''policy.catalog_id %q is not a catalog identity'' [cpCatalogID p]),
        fail_if (cpProducer p \<noteq> [] \<and> \<not> rmatch principalRe (cpProducer p))
          (bad ''policy.producer %q is not a principal'' [cpProducer p]),
        fail_if (cpSchemes p = []) (CatFailure CodeSchemeUnsupported ''policy supports no schemes'' []),
        first_err scheme_policy_error (cpSchemes p),
        fail_if (cpMaxStalenessSeconds p < 0 \<or> cpMaxStatusStalenessSeconds p < 0)
          (bad ''policy staleness windows must be >= 0'' []),
        fail_if (cpRequireStatus p \<and> cpStatusValues p = [] \<and> Option.is_none (cpStatusResolver p))
          (CatFailure CodeStatusUnavailable
             ''policy.require_status requires explicit status_values or a status resolver'' []),
        first_err (\<lambda>(reference, value). seq_err [
            fail_if (trim_space reference = [] \<or> has_blank reference)
              (bad ''policy.status_values key %q is not a status reference'' [reference]),
            fail_if (value \<notin> set health_values)
              (bad ''policy.status_values[%q] %q is not a known health value'' [reference, value])]) (cpStatusValues p),
        first_err (\<lambda>(provider, producer). seq_err [
            fail_if (trim_space provider = [] \<or> has_blank provider)
              (bad ''policy.provider_bindings key %q is not an identity reference'' [provider]),
            fail_if (\<not> rmatch principalRe producer)
              (bad ''policy.provider_bindings[%q] %q is not a producer principal'' [provider, producer])])
          (cpProviderBindings p),
        fail_if (parseTime (cpObservedAt p) = None) (CatFailure CodeStale ''policy.observed_at: %s'' [])])"

text \<open>The pinned declaration of a scheme and its digest.\<close>

definition pinned_declaration :: "CatTrustPolicy \<Rightarrow> string \<Rightarrow> cat_error + string \<times> string" where
  "pinned_declaration p scheme =
     (case map_of (cpSchemes p) scheme of
        None \<Rightarrow> Inl (CatFailure CodeSchemeUnsupported ''scheme %q is not supported'' [scheme])
      | Some declaration \<Rightarrow>
          (case ParseDeclaration declaration of
             Inl e \<Rightarrow> Inl (CatFailure CodeDeclarationMismatch ''%s'' [error_format e])
           | Inr decl \<Rightarrow>
               if DigestOfDeclaration declaration = [] then
                 Inl (CatFailure CodeDeclarationMismatch ''scheme %q declaration has no digest'' [scheme])
               else Inr (declaration, DigestOfDeclaration declaration)))"

definition policy_domains :: "CatTrustPolicy \<Rightarrow> string \<Rightarrow> string \<Rightarrow> DomainMap" where
  "policy_domains p scheme capability =
     (case map_of (cpSchemes p) scheme of
        None \<Rightarrow> []
      | Some declaration \<Rightarrow>
          (case ParseDeclaration declaration of Inl e \<Rightarrow> [] | Inr decl \<Rightarrow> domainMap decl capability))"

definition PolicyDigest :: "CatTrustPolicy \<Rightarrow> string" where
  "PolicyDigest p =
     (case those (map (\<lambda>(name, raw). map_option (\<lambda>v. (name, struct_json [(True, ''declaration'', v)])) (json_of_raw raw))
             (cpSchemes p)) of
        None \<Rightarrow> []
      | Some schemes \<Rightarrow> digest_or_empty (CanonicalDigest (struct_json
          [(True, ''domain'', JStr (cpDomain p)),
           (True, ''catalog_id'', JStr (cpCatalogID p)),
           (cpProducer p \<noteq> [], ''producer'', JStr (cpProducer p)),
           (True, ''schemes'', if schemes = [] then JNull else JObj schemes),
           (cpMaxStalenessSeconds p \<noteq> 0, ''max_staleness_seconds'', JInt CInt64 (cpMaxStalenessSeconds p)),
           (cpMaxStatusStalenessSeconds p \<noteq> 0, ''max_status_staleness_seconds'',
              JInt CInt64 (cpMaxStatusStalenessSeconds p)),
           (cpRequireStatus p, ''require_status'', JBool (cpRequireStatus p)),
           (cpStatusValues p \<noteq> [], ''status_values'', JObj (map (map_prod id JStr) (cpStatusValues p))),
           (cpProviderBindings p \<noteq> [], ''provider_bindings'', JObj (map (map_prod id JStr) (cpProviderBindings p))),
           (True, ''observed_at'', JStr (cpObservedAt p))])))"

definition json_of_GenerationRecord :: "GenerationRecord \<Rightarrow> json" where
  "json_of_GenerationRecord g = struct_json
     [(True, ''generation'', JInt CInt64 (grGeneration g)), (True, ''digest'', JStr (grDigest g))]"

definition StateDigest :: "CatState \<Rightarrow> string" where
  "StateDigest s = digest_or_empty (CanonicalDigest (struct_json
     [(csDomain s \<noteq> [], ''domain'', JStr (csDomain s)),
      (csCatalogID s \<noteq> [], ''catalog_id'', JStr (csCatalogID s)),
      (csProducer s \<noteq> [], ''producer'', JStr (csProducer s)),
      (True, ''generation'', JInt CInt64 (csGeneration s)),
      (csDigest s \<noteq> [], ''digest'', JStr (csDigest s)),
      (csHistory s \<noteq> [], ''history'', JArr (map json_of_GenerationRecord (csHistory s)))]))"

subsection \<open>The signer\<close>

definition aicExtensionDigest :: "crypto \<Rightarrow> Certificate option \<Rightarrow> string" where
  "aicExtensionDigest cr cert =
     (case cert of
        None \<Rightarrow> []
      | Some c \<Rightarrow>
          (case find (\<lambda>ext. fst ext = OIDAIC cr) (certExtensions c) of None \<Rightarrow> [] | Some ext \<Rightarrow> sha_Digest (snd ext)))"

definition signer_identity :: "Catalog \<Rightarrow> Certificate \<Rightarrow> AdminAIC \<Rightarrow> cat_error option" where
  "signer_identity c cert aic = seq_err [
     fail_if (\<not> names_principal (trim_prefix ''principal:'' (ctProducer c)) aic)
       (CatFailure CatPublisherMismatch ''catalog names %q, AIC names %q'' [ctProducer c, Realm aic @ '':'' @ Identifier aic]),
     fail_if (KeyHash aic = [] \<or> allZero (KeyHash aic))
       (CatFailure CatPublisherKeyBinding ''AIC carries no principal key hash'' []),
     fail_if (KeyHash aic \<noteq> Sum256 (RawSubjectPublicKeyInfo cert))
       (CatFailure CatPublisherKeyBinding ''AIC key hash does not match the certificate key'' [])]"

definition verifySigner ::
  "crypto \<Rightarrow> Catalog \<Rightarrow> Certificate option \<Rightarrow> Certificate option list \<Rightarrow> instant \<Rightarrow> cat_error + AdminAIC" where
  "verifySigner cr c signer roots now =
     (case signer of
        None \<Rightarrow> Inl (CatFailure CatSignatureMissing ''signer certificate is required'' [])
      | Some cert \<Rightarrow>
          if roots = [] then Inl (CatFailure CatSignatureChain ''no trust roots configured'' [])
          else if certKeyUsage cert \<noteq> 0 \<and> even (certKeyUsage cert) then
            Inl (CatFailure CatSignatureChain ''signer certificate key usage does not permit digital signatures'' [])
          else
            case x509_Verify cr cert (root_pool roots) now of
              Some e \<Rightarrow> Inl (CatFailure CatSignatureChain ''%s'' [e])
            | None \<Rightarrow>
                (case ParseAIC cr cert of
                   Inl e \<Rightarrow> Inl (CatFailure CatSignatureNoAIC ''%s'' [e])
                 | Inr None \<Rightarrow> Inl (CatFailure CatSignatureNoAIC ''signer certificate carries no AIC extension'' [])
                 | Inr (Some aic) \<Rightarrow>
                     (case ValidateAIC cr aic of
                        Some e \<Rightarrow> Inl (CatFailure CatSignatureNoAIC ''signer AIC is invalid: %s'' [e])
                      | None \<Rightarrow> (case signer_identity c cert aic of Some e \<Rightarrow> Inl e | None \<Rightarrow> Inr aic))))"

subsection \<open>The checks of a catalog\<close>

definition pin_error :: "CatTrustPolicy \<Rightarrow> Entry \<Rightarrow> cat_error option" where
  "pin_error p entry =
     (case pinned_declaration p (enScheme entry) of
        Inl e \<Rightarrow> Some e
      | Inr (_, digest) \<Rightarrow>
          fail_if (enDeclarationDigest entry \<noteq> digest)
            (CatFailure CodeDeclarationMismatch ''entry %q pins %s, policy pins %s''
               [enCapability entry, enDeclarationDigest entry, digest]))"

definition checkDeclarationPins :: "Catalog \<Rightarrow> CatTrustPolicy \<Rightarrow> cat_error option" where
  "checkDeclarationPins c p = first_err (pin_error p) (ctEntries c)"

definition checkProviderBindings :: "Catalog \<Rightarrow> CatTrustPolicy \<Rightarrow> cat_error option" where
  "checkProviderBindings c p =
     (if cpProviderBindings p = [] then None
      else first_err (\<lambda>entry.
          case map_of (cpProviderBindings p) (enProvider entry) of
            None \<Rightarrow> Some (CatFailure CodeProviderMismatch ''entry %q provider %q has no policy binding''
              [enCapability entry, enProvider entry])
          | Some producer \<Rightarrow>
              fail_if (producer \<noteq> ctProducer c)
                (CatFailure CodeProviderMismatch ''entry %q provider %q is bound to producer %q, catalog producer is %q''
                   [enCapability entry, enProvider entry, producer, ctProducer c])) (ctEntries c))"

definition cat_digestAt :: "CatState \<Rightarrow> int \<Rightarrow> string" where
  "cat_digestAt state generation =
     (if csGeneration state = generation then csDigest state
      else
        case find (\<lambda>r. grGeneration r = generation) (csHistory state) of
          None \<Rightarrow> [] | Some r \<Rightarrow> grDigest r)"

text \<open>The identity a state is bound to, if it is bound.\<close>

definition identity_error :: "CatState \<Rightarrow> Catalog \<Rightarrow> cat_error option" where
  "identity_error s c = seq_err [
     fail_if (csDomain s \<noteq> [] \<and> csDomain s \<noteq> ctDomain c)
       (CatFailure CodeIdentityMismatch ''state domain %q is not the catalog domain %q'' [csDomain s, ctDomain c]),
     fail_if (csCatalogID s \<noteq> [] \<and> csCatalogID s \<noteq> ctCatalogID c)
       (CatFailure CodeIdentityMismatch ''state catalog_id %q is not %q'' [csCatalogID s, ctCatalogID c]),
     fail_if (csProducer s \<noteq> [] \<and> csProducer s \<noteq> ctProducer c)
       (CatFailure CodeIdentityMismatch ''state producer %q is not the catalog producer %q'' [csProducer s, ctProducer c])]"

definition checkGeneration :: "Catalog \<Rightarrow> CatState \<Rightarrow> string \<Rightarrow> cat_error option" where
  "checkGeneration c state digest = seq_err [
     identity_error state c,
     (if csGeneration state = 0 then
        fail_if (ctGeneration c \<noteq> 1)
          (CatFailure CodeBootstrap ''no accepted generation; the first catalog must be generation 1, got %d'' [])
      else
        (let recorded = cat_digestAt state (ctGeneration c)
         in seq_err [
           fail_if (recorded \<noteq> [] \<and> recorded \<noteq> digest)
             (CatFailure CodeFork ''generation %d already holds %s'' [recorded]),
           fail_if (ctGeneration c < csGeneration state)
             (CatFailure CodeRollback ''generation %d is older than the accepted %d'' []),
           (if ctGeneration c = csGeneration state then
              fail_if (digest \<noteq> csDigest state) (CatFailure CodeFork ''generation %d holds %s, not %s'' [csDigest state, digest])
            else seq_err [
              fail_if (ctGeneration c \<noteq> wrap64 (csGeneration state + 1))
                (CatFailure CodeRollback ''generation %d skips %d'' []),
              fail_if (ctPreviousDigest c \<noteq> csDigest state)
                (CatFailure CodePreviousDigest ''previous_digest %q is not the accepted %q''
                   [ctPreviousDigest c, csDigest state])])]))]"

definition cat_clockSkew :: int where "cat_clockSkew = 300000000000"

definition cat_checkFreshness :: "Catalog \<Rightarrow> CatTrustPolicy \<Rightarrow> cat_error option" where
  "cat_checkFreshness c p =
     (case (parseTime (cpObservedAt p), parseTime (ctValidUntil c), parseTime (ctIssuedAt c)) of
        (None, _) \<Rightarrow> Some (CatFailure CodeStale ''policy.observed_at: %s'' [])
      | (Some now, None, _) \<Rightarrow> Some (CatFailure CodeCatalogShape ''valid_until: %s'' [])
      | (Some now, Some until, None) \<Rightarrow> Some (CatFailure CodeCatalogShape ''issued_at: %s'' [])
      | (Some now, Some until, Some issued) \<Rightarrow> seq_err [
          fail_if (now + cat_clockSkew < issued)
            (CatFailure CodeStale ''issued_at %s is in the future of observed_at %s'' [ctIssuedAt c, cpObservedAt p]),
          fail_if (\<not> issued < until)
            (CatFailure CodeCatalogShape ''valid_until %s is not after issued_at %s'' [ctValidUntil c, ctIssuedAt c]),
          fail_if (until < now)
            (CatFailure CodeExpired ''valid_until %s precedes observed_at %s'' [ctValidUntil c, cpObservedAt p]),
          fail_if (0 < cpMaxStalenessSeconds p \<and> seconds_duration (cpMaxStalenessSeconds p) < Sub now issued)
            (CatFailure CodeStale ''catalog is older than %ds'' [])])"

text \<open>The health of a status reference: the resolver's value, unless it is empty, before the pinned one.\<close>

definition resolved_status :: "CatTrustPolicy \<Rightarrow> string \<Rightarrow> string + string option" where
  "resolved_status p reference =
     (case cpStatusResolver p of
        None \<Rightarrow> Inr (map_of (cpStatusValues p) reference)
      | Some resolver \<Rightarrow>
          (case resolver reference of
             Inl e \<Rightarrow> Inl e
           | Inr resolved \<Rightarrow> Inr (if resolved \<noteq> [] then Some resolved else map_of (cpStatusValues p) reference)))"

definition status_error :: "CatTrustPolicy \<Rightarrow> instant \<Rightarrow> Entry \<Rightarrow> cat_error option" where
  "status_error p now entry =
     (let cap = enCapability entry; unavailable = CatFailure CodeStatusUnavailable
      in case enStatus entry of
           None \<Rightarrow> fail_if (cpRequireStatus p) (unavailable ''entry %q has no status reference'' [cap])
         | Some st \<Rightarrow>
             (case parseTime (stCheckedAt st) of
                None \<Rightarrow> Some (CatFailure CodeCatalogShape ''entry %q status.checked_at: %s'' [cap])
              | Some checked \<Rightarrow> seq_err [
                  fail_if (now < checked) (CatFailure CodeStatusStale ''entry %q status is checked in the future'' [cap]),
                  fail_if (0 < cpMaxStatusStalenessSeconds p \<and>
                      seconds_duration (cpMaxStatusStalenessSeconds p) < Sub now checked)
                    (CatFailure CodeStatusStale ''entry %q status is older than %ds'' [cap]),
                  (if \<not> cpRequireStatus p then None
                   else
                     case resolved_status p (stReference st) of
                       Inl e \<Rightarrow> Some (unavailable ''entry %q status resolver: %s'' [cap, e])
                     | Inr None \<Rightarrow>
                         Some (unavailable ''entry %q status reference %q has no resolved value'' [cap, stReference st])
                     | Inr (Some value) \<Rightarrow>
                         fail_if (value \<noteq> ''healthy'') (unavailable ''entry %q status %q is %s'' [cap, stReference st, value]))]))"

definition checkStatus :: "Catalog \<Rightarrow> CatTrustPolicy \<Rightarrow> cat_error option" where
  "checkStatus c p =
     (case parseTime (cpObservedAt p) of
        None \<Rightarrow> Some (CatFailure CodeStale ''policy.observed_at: %s'' [])
      | Some now \<Rightarrow> first_err (status_error p now) (ctEntries c))"

definition entry_capability :: "Entry \<Rightarrow> string" where
  "entry_capability e = trim_prefix (enScheme e @ '':'') (enCapability e)"

definition authority_error :: "crypto \<Rightarrow> CatTrustPolicy \<Rightarrow> AdminAIC \<Rightarrow> Entry \<Rightarrow> cat_error option" where
  "authority_error cr p aic entry =
     (let cap = enCapability entry; grants = grantsFor aic cap; dm = policy_domains p (enScheme entry) (entry_capability entry)
      in if grants = [] then Some (CatFailure CodeEntryOutsideAuthority ''signer holds no grant for %q'' [cap])
         else first_err (\<lambda>op.
           fail_if (\<not> list_ex (\<lambda>g. ContainsWithDomains (ToLower cr) g (Operation_Grant op cap) dm dm = None) grants)
             (CatFailure CodeEntryOutsideAuthority ''entry %q operation %q exceeds the signer grant'' [cap, coOperation op]))
           (enOperations entry))"

definition checkAuthority :: "crypto \<Rightarrow> Catalog \<Rightarrow> CatTrustPolicy \<Rightarrow> AdminAIC \<Rightarrow> cat_error option" where
  "checkAuthority cr c p aic = first_err (authority_error cr p aic) (ctEntries c)"

subsection \<open>Verification\<close>

record Verification =
  vfCatalog :: Catalog
  vfSignerCert :: "Certificate option"
  vfRoots :: "Certificate option list"
  vfPolicy :: CatTrustPolicy
  vfState :: CatState

definition cat_decide :: "crypto \<Rightarrow> Verification \<Rightarrow> string \<Rightarrow> cat_error option" where
  "cat_decide cr v catalogDigest =
     (let c = vfCatalog v; p = vfPolicy v
      in seq_err [
        cat_ValidatePolicy p,
        Catalog_Validate c,
        fail_if (ctDomain c \<noteq> cpDomain p)
          (CatFailure CodeIdentityMismatch ''catalog domain %q is not the policy domain %q'' [ctDomain c, cpDomain p]),
        fail_if (ctCatalogID c \<noteq> cpCatalogID p)
          (CatFailure CodeIdentityMismatch ''catalog_id %q is not the policy catalog %q'' [ctCatalogID c, cpCatalogID p]),
        fail_if (cpProducer p \<noteq> [] \<and> ctProducer c \<noteq> cpProducer p)
          (CatFailure CodeIdentityMismatch ''producer %q is not the policy producer %q'' [ctProducer c, cpProducer p]),
        (case parseTime (cpObservedAt p) of
           None \<Rightarrow> Some (CatFailure CodeStale ''policy.observed_at: %s'' [])
         | Some now \<Rightarrow>
             (case verifySigner cr c (vfSignerCert v) (vfRoots v) now of
                Inl e \<Rightarrow> Some e
              | Inr aic \<Rightarrow> seq_err [
                  checkDeclarationPins c p,
                  checkProviderBindings c p,
                  checkGeneration c (vfState v) catalogDigest,
                  cat_checkFreshness c p,
                  checkStatus c p,
                  checkAuthority cr c p aic]))])"

definition bind_signer :: "crypto \<Rightarrow> Certificate option \<Rightarrow> Result \<Rightarrow> Result" where
  "bind_signer cr signer res =
     (case signer of
        None \<Rightarrow> res
      | Some cert \<Rightarrow> res\<lparr>vrSignerKeyID := KeyID signer, vrSignerCertificateDigest := sha_Digest (certRaw cert),
          vrAICDigest := aicExtensionDigest cr signer\<rparr>)"

definition catalog_result :: "Catalog \<Rightarrow> Result" where
  "catalog_result c = reject_catalog\<lparr>vrDomain := ctDomain c, vrCatalogID := ctCatalogID c, vrProducer := ctProducer c,
     vrGeneration := ctGeneration c\<rparr>"

definition bound_catalog :: "crypto \<Rightarrow> Verification \<Rightarrow> Result" where
  "bound_catalog cr v =
     (let r1 = (catalog_result (vfCatalog v))\<lparr>vrCatalogDigest := digest_or_empty (Catalog_Digest (vfCatalog v))\<rparr>;
          r2 = (bind_signer cr (vfSignerCert v) r1)\<lparr>vrPolicyDigest := PolicyDigest (vfPolicy v),
                 vrStateDigest := StateDigest (vfState v)\<rparr>
      in r2\<lparr>vrInputsDigest := digest_or_empty (CanonicalDigest (JObj
           [(''catalog'', JStr (vrCatalogDigest r2)), (''signer'', JStr (vrSignerKeyID r2)),
            (''signer_certificate'', JStr (vrSignerCertificateDigest r2)), (''aic'', JStr (vrAICDigest r2)),
            (''policy'', JStr (vrPolicyDigest r2)), (''state'', JStr (vrStateDigest r2))]))\<rparr>)"

definition cat_verify :: "crypto \<Rightarrow> Verification \<Rightarrow> Result \<times> cat_error option" where
  "cat_verify cr v =
     (let res = bound_catalog cr v
      in case cat_decide cr v (vrCatalogDigest res) of
           Some e \<Rightarrow> (res\<lparr>vrReason := CatCodeOf e, vrDetail := Some e\<rparr>, Some e)
         | None \<Rightarrow> (res\<lparr>vrVerdict := VerdictAccept\<rparr>, None))"

text \<open>The compatibility stub: it refuses everything.\<close>

definition Verify :: "Verification \<Rightarrow> Result \<times> cat_error option" where
  "Verify v =
     (let e = CatFailure CatSignatureMissing ''Verify does not verify signatures; use VerifySigned'' []
      in ((catalog_result (vfCatalog v))\<lparr>vrReason := CatCodeOf e, vrDetail := Some e\<rparr>, Some e))"

definition reject_with :: "cat_error \<Rightarrow> Result \<times> cat_error option" where
  "reject_with e = (reject_catalog\<lparr>vrReason := CatCodeOf e, vrDetail := Some e\<rparr>, Some e)"

definition VerifySigned ::
  "crypto \<Rightarrow> string \<Rightarrow> string \<Rightarrow> Certificate option list \<Rightarrow> CatTrustPolicy \<Rightarrow> CatState \<Rightarrow> Result \<times> cat_error option" where
  "VerifySigned cr raw signature roots policy state =
     (if maxArtifactBytes < int (length raw) then
        reject_with (CatFailure CodeCatalogShape ''artifact is %d bytes, limit is %d'' [])
      else if signature = [] then
        reject_with (CatFailure CatSignatureMissing ''detached catalogue signature is required'' [])
      else
        case VerifyDetached cr signature raw of
          Inl e \<Rightarrow> reject_with (CatFailure CatSignatureInvalid ''%s'' [e])
        | Inr signer \<Rightarrow>
            (case ParseCatalog raw of
               Inl e \<Rightarrow> reject_with e
             | Inr c \<Rightarrow>
                 (case cat_verify cr \<lparr>vfCatalog = c, vfSignerCert = signer, vfRoots = roots, vfPolicy = policy,
                                      vfState = state\<rparr> of
                    (res, None) \<Rightarrow> (res\<lparr>vrSignatureVerified := True\<rparr>, None)
                  | (res, Some e) \<Rightarrow> (res, Some e))))"

end
