(* ===== verification/Catalog_Signed.thy ===== *)
theory Catalog_Signed
  imports Catalog_Verify
begin

text \<open>
  Signed deltas (\<open>catalog/delta_signed.go\<close>), the rotation of trust anchors (\<open>rotation.go\<close>) and the merge of verified
  directory shards (\<open>compose.go\<close>).
\<close>

subsection \<open>Signed deltas\<close>

definition checkDeltaFreshness :: "Delta \<Rightarrow> CatTrustPolicy \<Rightarrow> cat_error option" where
  "checkDeltaFreshness d p =
     (case (parseTime (cpObservedAt p), parseTime (dlIssuedAt d), parseTime (dlValidUntil d)) of
        (None, _) \<Rightarrow> Some (CatFailure CodeStale ''policy.observed_at: %s'' [])
      | (Some now, None, _) \<Rightarrow> Some (CatFailure CodeDeltaShape ''issued_at: %s'' [])
      | (Some now, Some issued, None) \<Rightarrow> Some (CatFailure CodeDeltaShape ''valid_until: %s'' [])
      | (Some now, Some issued, Some until) \<Rightarrow> seq_err [
          fail_if (now + cat_clockSkew < issued) (CatFailure CodeStale ''delta issued_at %s is in the future'' [dlIssuedAt d]),
          fail_if (until < now) (CatFailure CodeExpired ''delta valid_until %s precedes observed_at'' [dlValidUntil d]),
          fail_if (0 < cpMaxStalenessSeconds p \<and> seconds_duration (cpMaxStalenessSeconds p) < Sub now issued)
            (CatFailure CodeStale ''delta is older than %ds'' [])])"

definition delta_identity :: "Delta \<Rightarrow> Catalog \<Rightarrow> CatTrustPolicy \<Rightarrow> cat_error option" where
  "delta_identity d base policy = seq_err [
     Catalog_Validate base,
     fail_if (dlDomain d \<noteq> ctDomain base \<or> dlCatalogID d \<noteq> ctCatalogID base)
       (CatFailure CodeDeltaBase ''delta is for %s/%s, base is %s/%s''
          [dlDomain d, dlCatalogID d, ctDomain base, ctCatalogID base]),
     fail_if (dlDomain d \<noteq> cpDomain policy \<or> dlCatalogID d \<noteq> cpCatalogID policy)
       (CatFailure CodeIdentityMismatch ''delta is for %s/%s, policy is %s/%s''
          [dlDomain d, dlCatalogID d, cpDomain policy, cpCatalogID policy]),
     fail_if (dlProducer d \<noteq> ctProducer base)
       (CatFailure CodeDeltaBase ''delta producer %q, base producer %q'' [dlProducer d, ctProducer base]),
     fail_if (cpProducer policy \<noteq> [] \<and> dlProducer d \<noteq> cpProducer policy)
       (CatFailure CodeIdentityMismatch ''delta producer %q is not the policy producer %q'' [dlProducer d, cpProducer policy]),
     checkDeltaFreshness d policy]"

text \<open>The checks of the entries a delta brings, then of the whole catalog it produces.\<close>

definition delta_affected :: "crypto \<Rightarrow> CatTrustPolicy \<Rightarrow> AdminAIC \<Rightarrow> Delta \<Rightarrow> cat_error option" where
  "delta_affected cr policy aic d =
     (let affected = dlAdd d @ dlReplace d
      in seq_err [first_err (pin_error policy) affected, checkAuthority cr (zero_Catalog\<lparr>ctEntries := affected\<rparr>) policy aic])"

definition recheck_next :: "crypto \<Rightarrow> CatTrustPolicy \<Rightarrow> AdminAIC \<Rightarrow> Catalog \<Rightarrow> cat_error option" where
  "recheck_next cr policy aic nxt = seq_err [
     checkDeclarationPins nxt policy, checkProviderBindings nxt policy, cat_checkFreshness nxt policy,
     checkStatus nxt policy, checkAuthority cr nxt policy aic]"

definition apply_checked ::
  "crypto \<Rightarrow> Catalog \<Rightarrow> Delta \<Rightarrow> Certificate option \<Rightarrow> Certificate option list \<Rightarrow> CatTrustPolicy \<Rightarrow> cat_error + Catalog" where
  "apply_checked cr base d signer roots policy =
     (case delta_identity d base policy of
        Some e \<Rightarrow> Inl e
      | None \<Rightarrow>
          (case parseTime (cpObservedAt policy) of
             None \<Rightarrow> Inl (CatFailure CodeStale ''policy.observed_at: %s'' [])
           | Some now \<Rightarrow>
               (case verifySigner cr (zero_Catalog\<lparr>ctProducer := dlProducer d\<rparr>) signer roots now of
                  Inl e \<Rightarrow> Inl e
                | Inr aic \<Rightarrow>
                    (case delta_affected cr policy aic d of
                       Some e \<Rightarrow> Inl e
                     | None \<Rightarrow>
                         (case Apply base d of
                            Inl e \<Rightarrow> Inl e
                          | Inr nxt \<Rightarrow>
                              (case recheck_next cr policy aic nxt of Some e \<Rightarrow> Inl e | None \<Rightarrow> Inr nxt))))))"

definition delta_result :: "crypto \<Rightarrow> Delta \<Rightarrow> Certificate option \<Rightarrow> Result \<Rightarrow> Result" where
  "delta_result cr d signer res = bind_signer cr signer
     (res\<lparr>vrDomain := dlDomain d, vrCatalogID := dlCatalogID d, vrProducer := dlProducer d,
          vrGeneration := dlTargetGeneration d\<rparr>)"

definition delta_inputs :: "Result \<Rightarrow> string \<Rightarrow> string \<Rightarrow> string" where
  "delta_inputs res baseDigest deltaDigest = digest_or_empty (CanonicalDigest (JObj
     [(''catalog'', JStr (vrCatalogDigest res)), (''base'', JStr baseDigest), (''delta'', JStr deltaDigest),
      (''signer'', JStr (vrSignerKeyID res)), (''policy'', JStr (vrPolicyDigest res))]))"

definition finish_delta :: "Result \<Rightarrow> Catalog \<Rightarrow> Delta \<Rightarrow> Catalog \<Rightarrow> Result \<times> (cat_error + Catalog)" where
  "finish_delta res base d nxt =
     (case Catalog_Digest nxt of
        Inl e \<Rightarrow> (res\<lparr>vrReason := Some CodeDeltaDigest\<rparr>, Inl (CatPlain ''canonical'' []))
      | Inr digest \<Rightarrow>
          (let res1 = res\<lparr>vrCatalogDigest := digest, vrGeneration := ctGeneration nxt\<rparr>
           in case Delta_Digest d of
                Inl e \<Rightarrow> (res1, Inl (CatPlain ''canonical'' []))
              | Inr deltaDigest \<Rightarrow>
                  (res1\<lparr>vrInputsDigest := delta_inputs res1 (digest_or_empty (Catalog_Digest base)) deltaDigest,
                        vrVerdict := VerdictAccept, vrDeltaVerified := True\<rparr>, Inr nxt)))"

definition VerifySignedDelta ::
  "crypto \<Rightarrow> string \<Rightarrow> string \<Rightarrow> Catalog \<Rightarrow> Certificate option list \<Rightarrow> CatTrustPolicy \<Rightarrow> Result \<times> (cat_error + Catalog)" where
  "VerifySignedDelta cr raw signature base roots policy =
     (let res = catalog_result base; reject = (\<lambda>r e. (r\<lparr>vrReason := CatCodeOf e\<rparr>, Inl e))
      in if maxArtifactBytes < int (length raw) then
           reject res (CatFailure CodeCatalogShape ''artifact is %d bytes, limit is %d'' [])
         else
           case VerifyDetached cr signature raw of
             Inl e \<Rightarrow> reject res (CatFailure CatSignatureInvalid ''%s'' [e])
           | Inr signer \<Rightarrow>
               (case ParseDelta raw of
                  Inl e \<Rightarrow> reject res e
                | Inr d \<Rightarrow>
                    (let res1 = delta_result cr d signer res
                     in case cat_ValidatePolicy policy of
                          Some e \<Rightarrow> reject res1 e
                        | None \<Rightarrow>
                            (let res2 = res1\<lparr>vrPolicyDigest := PolicyDigest policy\<rparr>
                             in case apply_checked cr base d signer roots policy of
                                  Inl e \<Rightarrow> reject res2 e
                                | Inr nxt \<Rightarrow> finish_delta res2 base d nxt))))"

definition delta_head_error :: "Catalog \<Rightarrow> CatState \<Rightarrow> string \<Rightarrow> cat_error option" where
  "delta_head_error base state baseDigest = seq_err [
     fail_if (csDomain state \<noteq> [] \<and> csDomain state \<noteq> ctDomain base)
       (CatFailure CodeIdentityMismatch ''state domain %q is not the base domain %q'' [csDomain state, ctDomain base]),
     fail_if (csCatalogID state \<noteq> [] \<and> csCatalogID state \<noteq> ctCatalogID base)
       (CatFailure CodeIdentityMismatch ''state catalog_id %q is not the base catalog_id %q''
          [csCatalogID state, ctCatalogID base]),
     fail_if (csGeneration state \<noteq> ctGeneration base \<or> csDigest state \<noteq> baseDigest)
       (CatFailure CodeRollback ''base generation %d/%s is not the accepted head %d/%s'' [baseDigest, csDigest state])]"

definition VerifySignedDeltaWithState ::
  "crypto \<Rightarrow> string \<Rightarrow> string \<Rightarrow> Catalog \<Rightarrow> Certificate option list \<Rightarrow> CatTrustPolicy \<Rightarrow> CatState \<Rightarrow>
     Result \<times> (cat_error + Catalog)" where
  "VerifySignedDeltaWithState cr raw signature base roots policy state =
     (if csGeneration state = 0 then
        (reject_catalog\<lparr>vrReason := Some CodeBootstrap\<rparr>,
         Inl (CatFailure CodeBootstrap ''apply-catalog-delta requires an accepted state head'' []))
      else
        case Catalog_Digest base of
          Inl e \<Rightarrow> (reject_catalog\<lparr>vrReason := Some CodeCatalogShape\<rparr>, Inl (CatPlain ''canonical'' []))
        | Inr baseDigest \<Rightarrow>
            (case delta_head_error base state baseDigest of
               Some e \<Rightarrow> (reject_catalog\<lparr>vrReason := CatCodeOf e\<rparr>, Inl e)
             | None \<Rightarrow> VerifySignedDelta cr raw signature base roots policy))"

subsection \<open>Rotation of trust anchors\<close>

record TrustRotation =
  roCurrent :: "Certificate option list"
  roNext :: "Certificate option list"
  roOverlapUntil :: instant
  roRevokedKeys :: "bool gomap"

definition Rotation_Validate :: "TrustRotation \<Rightarrow> cat_error option" where
  "Rotation_Validate r = seq_err [
     fail_if (roCurrent r = [] \<and> roNext r = []) (CatFailure CatSignatureChain ''trust rotation has no roots'' []),
     fail_if (roNext r \<noteq> [] \<and> roOverlapUntil r = zero_time)
       (CatFailure CatSignatureChain ''trust rotation with next roots requires overlap_until'' [])]"

definition RootsAt :: "TrustRotation \<Rightarrow> instant \<Rightarrow> cat_error + Certificate option list" where
  "RootsAt r now =
     (case Rotation_Validate r of
        Some e \<Rightarrow> Inl e
      | None \<Rightarrow>
          if roNext r = [] then Inr (roCurrent r)
          else if now < roOverlapUntil r then Inr (roCurrent r @ roNext r)
          else Inr (roNext r))"

definition Rotation_VerifySigned ::
  "crypto \<Rightarrow> TrustRotation \<Rightarrow> string \<Rightarrow> string \<Rightarrow> CatTrustPolicy \<Rightarrow> CatState \<Rightarrow> Result \<times> (cat_error + Catalog)" where
  "Rotation_VerifySigned cr r raw signature policy state =
     (case parseTime (cpObservedAt policy) of
        None \<Rightarrow> (reject_catalog\<lparr>vrReason := Some CodeStale\<rparr>, Inl (CatFailure CodeStale ''policy.observed_at: %s'' []))
      | Some now \<Rightarrow>
          (case RootsAt r now of
             Inl e \<Rightarrow> (reject_catalog\<lparr>vrReason := CatCodeOf e\<rparr>, Inl e)
           | Inr roots \<Rightarrow>
               (case VerifySigned cr raw signature roots policy state of
                  (res, Some e) \<Rightarrow> (res, Inl e)
                | (res, None) \<Rightarrow>
                    if map_of (roRevokedKeys r) (vrSignerKeyID res) = Some True then
                      (let e = CatFailure CodeKeyRevoked ''catalog signer key %s is revoked'' [vrSignerKeyID res]
                       in (res\<lparr>vrVerdict := VerdictReject, vrReason := CatCodeOf e\<rparr>, Inl e))
                    else (res, ParseCatalog raw))))"

subsection \<open>Directory shards\<close>

record VerifiedSource =
  vsName :: string
  vsCatalog :: Catalog
  vsResult :: Result
  vsVerified :: bool

definition VerifySource ::
  "crypto \<Rightarrow> string \<Rightarrow> string \<Rightarrow> string \<Rightarrow> Certificate option list \<Rightarrow> CatTrustPolicy \<Rightarrow> CatState \<Rightarrow>
     cat_error + VerifiedSource" where
  "VerifySource cr name raw signature roots policy state =
     (if name = [] then Inl (CatFailure CodeShardMissing ''directory source name is required'' [])
      else
        case VerifySigned cr raw signature roots policy state of
          (res, Some e) \<Rightarrow> Inl e
        | (res, None) \<Rightarrow>
            (case ParseCatalog raw of
               Inl e \<Rightarrow> Inl e
             | Inr cat \<Rightarrow> Inr \<lparr>vsName = name, vsCatalog = cat, vsResult = res, vsVerified = True\<rparr>))"

record CompositeCatalog =
  ccDomain :: string
  ccCatalogID :: string
  ccGeneration :: int
  ccEntries :: "Entry list"
  ccSources :: "string list"
  ccSourceDigests :: "string gomap"

definition Composite_Entry :: "CompositeCatalog \<Rightarrow> string \<Rightarrow> Entry option" where
  "Composite_Entry c capability = find (\<lambda>e. enCapability e = capability) (ccEntries c)"

definition sameEntry :: "Entry \<Rightarrow> Entry \<Rightarrow> bool" where
  "sameEntry a b =
     (case (CanonicalJSON (json_of_Entry a), CanonicalJSON (json_of_Entry b)) of
        (Inr ra, Inr rb) \<Rightarrow> ra = rb
      | _ \<Rightarrow> False)"

text \<open>The entries of one shard: \<open>byCapability\<close> holds the entries merged before, \<open>es\<close> the list of the composite.\<close>

fun merge_entries :: "Entry list \<Rightarrow> Entry gomap \<times> Entry list \<Rightarrow> cat_error + Entry gomap \<times> Entry list" where
  "merge_entries [] st = Inr st"
| "merge_entries (e # rest) (byCapability, es) =
     (case map_of byCapability (enCapability e) of
        Some prior \<Rightarrow>
          if \<not> sameEntry prior e then
            Inl (CatFailure CodeDirectoryConflict ''capability %q differs between directory shards'' [enCapability e])
          else merge_entries rest (byCapability, es)
      | None \<Rightarrow> merge_entries rest (AList.update (enCapability e) e byCapability, es @ [e]))"

definition shard_identity :: "CompositeCatalog option \<Rightarrow> VerifiedSource \<Rightarrow> cat_error + CompositeCatalog" where
  "shard_identity out src =
     (let c = vsCatalog src
      in case out of
           None \<Rightarrow> Inr \<lparr>ccDomain = ctDomain c, ccCatalogID = ctCatalogID c, ccGeneration = ctGeneration c, ccEntries = [],
                        ccSources = [], ccSourceDigests = []\<rparr>
         | Some o1 \<Rightarrow>
             if ccDomain o1 \<noteq> ctDomain c \<or> ccCatalogID o1 \<noteq> ctCatalogID c then
               Inl (CatFailure CodeDirectoryConflict ''source %q is %s/%s, expected %s/%s''
                 [vsName src, ctDomain c, ctCatalogID c, ccDomain o1, ccCatalogID o1])
             else if ccGeneration o1 \<noteq> ctGeneration c then
               Inl (CatFailure CodeDirectoryConflict ''source %q generation %d, expected %d'' [vsName src])
             else Inr o1)"

fun merge_shards ::
  "VerifiedSource list \<Rightarrow> string list \<Rightarrow> CompositeCatalog option \<Rightarrow> Entry gomap \<Rightarrow>
     cat_error + string list \<times> CompositeCatalog option" where
  "merge_shards [] seen out byCapability = Inr (seen, out)"
| "merge_shards (src # rest) seen out byCapability =
     (if \<not> vsVerified src then
        Inl (CatFailure CatStateUnverified ''directory source %q is not verified'' [vsName src])
      else if vsName src \<in> set seen then
        Inl (CatFailure CodeShardMissing ''duplicate directory source %q'' [vsName src])
      else
        case shard_identity out src of
          Inl e \<Rightarrow> Inl e
        | Inr o1 \<Rightarrow>
            (case merge_entries (ctEntries (vsCatalog src)) (byCapability, ccEntries o1) of
               Inl e \<Rightarrow> Inl e
             | Inr (byCapability', es) \<Rightarrow>
                 merge_shards rest (vsName src # seen)
                   (Some (o1\<lparr>ccEntries := es, ccSources := ccSources o1 @ [vsName src],
                             ccSourceDigests :=
                               AList.update (vsName src) (vrCatalogDigest (vsResult src)) (ccSourceDigests o1)\<rparr>))
                   byCapability'))"

definition ComposeVerified :: "VerifiedSource list \<Rightarrow> string list \<Rightarrow> cat_error + CompositeCatalog" where
  "ComposeVerified sources required =
     (let missing = (\<lambda>f as. Inl (CatFailure CodeShardMissing f as))
      in case merge_shards sources [] None [] of
           Inl e \<Rightarrow> Inl e
         | Inr (seen, None) \<Rightarrow> missing ''at least one verified directory source is required'' []
         | Inr (seen, Some out) \<Rightarrow>
             (case find (\<lambda>name. name \<notin> set seen) required of
                Some name \<Rightarrow> missing ''required directory source %q is absent'' [name]
              | None \<Rightarrow> Inr (out\<lparr>ccSources := sort (ccSources out), ccEntries := sort_key enCapability (ccEntries out)\<rparr>)))"

end
