(* ===== verification/Catalog_Registry.thy ===== *)
theory Catalog_Registry
  imports Catalog_Signed
begin

text \<open>
  The accepted state of a catalog identity and its transitions (\<open>catalog/policy.go\<close>), its file form (\<open>io.go\<close>), the
  exchange of signed bundles (\<open>exchange.go\<close>) and the cache of fetched ones (\<open>cache.go\<close>). On an error a transition returns
  its receiver unchanged, so the error alone is the outcome. The HTTP client is an argument: it maps a URL to an error or
  to a status and a body.
\<close>

definition zero_CatState :: CatState where
  "zero_CatState = \<lparr>csDomain = [], csCatalogID = [], csProducer = [], csGeneration = 0, csDigest = [], csHistory = []\<rparr>"

subsection \<open>Transitions\<close>

definition advance_generation :: "CatState \<Rightarrow> Catalog \<Rightarrow> string \<Rightarrow> cat_error option" where
  "advance_generation s c digest =
     (if csGeneration s = 0 then seq_err [
        fail_if (csHistory s \<noteq> [] \<or> csDigest s \<noteq> []) (CatFailure CodeFork ''empty state has history or a digest'' []),
        fail_if (ctGeneration c \<noteq> 1)
          (CatFailure CodeBootstrap ''no accepted generation; the first catalog must be generation 1, got %d'' [])]
      else if ctGeneration c < csGeneration s then
        Some (CatFailure CodeRollback ''generation %d is older than the accepted %d'' [])
      else if ctGeneration c = csGeneration s then
        fail_if (digest \<noteq> csDigest s) (CatFailure CodeFork ''generation %d holds %s, not %s'' [csDigest s, digest])
      else seq_err [
        fail_if (ctGeneration c \<noteq> wrap64 (csGeneration s + 1)) (CatFailure CodeRollback ''generation %d skips %d'' []),
        fail_if (ctPreviousDigest c \<noteq> csDigest s)
          (CatFailure CodePreviousDigest ''previous_digest %q is not the accepted %q'' [ctPreviousDigest c, csDigest s])])"

definition add_record :: "GenerationRecord list \<Rightarrow> GenerationRecord \<Rightarrow> GenerationRecord list" where
  "add_record history r =
     (if grGeneration r = 0 \<or> grGeneration r \<in> set (map grGeneration history) then history else history @ [r])"

definition next_history :: "CatState \<Rightarrow> int \<Rightarrow> string \<Rightarrow> GenerationRecord list" where
  "next_history s generation digest =
     sort_key grGeneration (foldl add_record []
       (\<lparr>grGeneration = generation, grDigest = digest\<rparr> # csHistory s @
        [\<lparr>grGeneration = csGeneration s, grDigest = csDigest s\<rparr>]))"

definition cat_advance :: "CatState \<Rightarrow> Catalog \<Rightarrow> Result \<Rightarrow> cat_error + CatState" where
  "cat_advance s c res =
     (case seq_err [Catalog_Validate c, identity_error s c] of
        Some e \<Rightarrow> Inl e
      | None \<Rightarrow>
          (case Catalog_Digest c of
             Inl e \<Rightarrow> Inl (CatPlain ''canonical'' [])
           | Inr digest \<Rightarrow>
               if vrCatalogDigest res \<noteq> digest \<or> vrGeneration res \<noteq> ctGeneration c \<or> vrProducer res \<noteq> ctProducer c then
                 Inl (CatFailure CatStateUnverified ''verification result does not bind this catalog'' [])
               else
                 case advance_generation s c digest of
                   Some e \<Rightarrow> Inl e
                 | None \<Rightarrow>
                     (let recorded = cat_digestAt s (ctGeneration c)
                      in if csGeneration s \<noteq> 0 \<and> ctGeneration c = csGeneration s then Inr s
                         else if recorded \<noteq> [] \<and> recorded \<noteq> digest then
                           Inl (CatFailure CodeFork ''generation %d already holds %s'' [recorded])
                         else Inr \<lparr>csDomain = ctDomain c, csCatalogID = ctCatalogID c, csProducer = ctProducer c,
                                   csGeneration = ctGeneration c, csDigest = digest,
                                   csHistory = next_history s (ctGeneration c) digest\<rparr>)))"

definition cat_Accept :: "CatState \<Rightarrow> Catalog \<Rightarrow> Result \<Rightarrow> cat_error + CatState" where
  "cat_Accept s c res =
     (if \<not> vrSignatureVerified res \<or> vrVerdict res \<noteq> VerdictAccept then
        Inl (CatFailure CatStateUnverified ''state can only be advanced from a VerifySigned accept result'' [])
      else cat_advance s c res)"

definition AcceptDelta :: "CatState \<Rightarrow> Catalog \<Rightarrow> Catalog \<Rightarrow> Result \<Rightarrow> cat_error + CatState" where
  "AcceptDelta s base c res =
     (if \<not> vrDeltaVerified res \<or> vrVerdict res \<noteq> VerdictAccept then
        Inl (CatFailure CatStateUnverified ''state can only be advanced from a verified delta result'' [])
      else
        case Catalog_Digest base of
          Inl e \<Rightarrow> Inl (CatPlain ''canonical'' [])
        | Inr baseDigest \<Rightarrow>
            if csGeneration s = 0 \<or> ctGeneration base \<noteq> csGeneration s \<or> baseDigest \<noteq> csDigest s then
              Inl (CatFailure CodeRollback ''delta base %d/%s is not the accepted head %d/%s'' [baseDigest, csDigest s])
            else cat_advance s c res)"

definition cat_AcceptSigned ::
  "crypto \<Rightarrow> CatState \<Rightarrow> string \<Rightarrow> string \<Rightarrow> Certificate option list \<Rightarrow> CatTrustPolicy \<Rightarrow> Result \<times> (cat_error + CatState)" where
  "cat_AcceptSigned cr s raw signature roots policy =
     (case VerifySigned cr raw signature roots policy s of
        (res, Some e) \<Rightarrow> (res, Inl e)
      | (res, None) \<Rightarrow>
          (case ParseCatalog raw of
             Inl e \<Rightarrow> (res, Inl e)
           | Inr c \<Rightarrow> (res, cat_Accept s c res)))"

subsection \<open>Files\<close>

definition GenerationRecord_fields :: "GenerationRecord fields" where
  "GenerationRecord_fields =
     [(''generation'', int_field (\<lambda>v r. r\<lparr>grGeneration := v\<rparr>)), (''digest'', str_field (\<lambda>v r. r\<lparr>grDigest := v\<rparr>))]"

definition CatState_fields :: "CatState fields" where
  "CatState_fields =
     [(''domain'', str_field (\<lambda>v r. r\<lparr>csDomain := v\<rparr>)),
      (''catalog_id'', str_field (\<lambda>v r. r\<lparr>csCatalogID := v\<rparr>)),
      (''producer'', str_field (\<lambda>v r. r\<lparr>csProducer := v\<rparr>)),
      (''generation'', int_field (\<lambda>v r. r\<lparr>csGeneration := v\<rparr>)),
      (''digest'', str_field (\<lambda>v r. r\<lparr>csDigest := v\<rparr>)),
      (''history'', list_field (decode_struct GenerationRecord_fields) \<lparr>grGeneration = 0, grDigest = []\<rparr>
         (\<lambda>v r. r\<lparr>csHistory := v\<rparr>))]"

text \<open>\<open>LoadState\<close> on the bytes of a file; no file (the empty path) is the zero state.\<close>

definition LoadState :: "string option \<Rightarrow> string + CatState" where
  "LoadState file =
     (case file of
        None \<Rightarrow> Inr zero_CatState
      | Some raw \<Rightarrow>
          if maxArtifactBytes < int (length raw) then Inl ''state is %d bytes, limit is %d''
          else cat_decodeClosed CatState_fields zero_CatState raw)"

definition CanonicalBytes :: "Catalog \<Rightarrow> canon_err + string" where
  "CanonicalBytes c = (case CanonicalJSON (json_of_Catalog c) of Inl e \<Rightarrow> Inl e | Inr raw \<Rightarrow> Inr (raw @ [CHR 0x0A]))"

subsection \<open>Exchange\<close>

record DirectoryBundle =
  dbSnapshot :: string
  dbSnapshotSignature :: string
  dbDelta :: string
  dbDeltaSignature :: string

text \<open>The handler: the body it serves at a path, or not found.\<close>

definition Handler :: "DirectoryBundle \<Rightarrow> string \<Rightarrow> string option" where
  "Handler b path =
     (let body = (if path = ''/catalog'' then dbSnapshot b
                  else if path = ''/catalog.p7s'' then dbSnapshotSignature b
                  else if path = ''/delta'' then dbDelta b
                  else if path = ''/delta.p7s'' then dbDeltaSignature b
                  else [])
      in if body = [] then None else Some body)"

definition fetch_path :: "(string \<Rightarrow> string + int \<times> string) \<Rightarrow> string \<Rightarrow> string \<Rightarrow> cat_error + string" where
  "fetch_path client base path =
     (case client (base @ path) of
        Inl e \<Rightarrow> Inl (CatPlain e [])
      | Inr (status, body) \<Rightarrow>
          if status = 404 then Inr []
          else if status \<noteq> 200 then Inl (CatPlain ''directory %s: HTTP %d'' [path])
          else
            (let raw = take (nat (maxArtifactBytes + 1)) body
             in if maxArtifactBytes < int (length raw) then Inl (CatPlain ''directory %s: response exceeds %d bytes'' [path])
                else Inr raw))"

text \<open>The incomplete bundle that the code returns beside an error is left out.\<close>

definition FetchDirectory :: "(string \<Rightarrow> string + int \<times> string) \<Rightarrow> string \<Rightarrow> cat_error + DirectoryBundle" where
  "FetchDirectory client base =
     (let get = fetch_path client (rev (dropWhile (\<lambda>c. c = CHR ''/'') (rev base)))
      in case map_err get [''/catalog'', ''/catalog.p7s'', ''/delta'', ''/delta.p7s''] of
           Inr [snapshot, signature, delta, deltaSignature] \<Rightarrow>
             if snapshot = [] \<or> signature = [] then
               Inl (CatFailure CodeCatalogShape ''directory has no signed snapshot'' [])
             else Inr \<lparr>dbSnapshot = snapshot, dbSnapshotSignature = signature, dbDelta = delta,
                       dbDeltaSignature = deltaSignature\<rparr>
         | Inr _ \<Rightarrow> Inl (CatPlain [] [])
         | Inl e \<Rightarrow> Inl e)"

record ApplyOutcome =
  aoResult :: Result
  aoCatalog :: "Catalog option"
  aoState :: CatState
  aoUsedDelta :: bool
  aoDeltaError :: "cat_error option"

definition try_delta ::
  "crypto \<Rightarrow> DirectoryBundle \<Rightarrow> Catalog \<Rightarrow> Certificate option list \<Rightarrow> CatTrustPolicy \<Rightarrow> CatState \<Rightarrow>
     cat_error option + ApplyOutcome" where
  "try_delta cr b base roots policy state =
     (if dbDelta b = [] then Inl None
      else
        case VerifySignedDeltaWithState cr (dbDelta b) (dbDeltaSignature b) base roots policy state of
          (res, Inl e) \<Rightarrow> Inl (Some e)
        | (res, Inr nxt) \<Rightarrow>
            (case AcceptDelta state base nxt res of
               Inl e \<Rightarrow> Inl (Some e)
             | Inr advanced \<Rightarrow>
                 Inr \<lparr>aoResult = res, aoCatalog = Some nxt, aoState = advanced, aoUsedDelta = True, aoDeltaError = None\<rparr>))"

definition Bundle_Apply ::
  "crypto \<Rightarrow> DirectoryBundle \<Rightarrow> Catalog \<Rightarrow> Certificate option list \<Rightarrow> CatTrustPolicy \<Rightarrow> CatState \<Rightarrow>
     ApplyOutcome \<times> cat_error option" where
  "Bundle_Apply cr b base roots policy state =
     (case try_delta cr b base roots policy state of
        Inr outcome \<Rightarrow> (outcome, None)
      | Inl deltaErr \<Rightarrow>
          (let outcome = (\<lambda>res cat st. \<lparr>aoResult = res, aoCatalog = cat, aoState = st, aoUsedDelta = False,
                                        aoDeltaError = deltaErr\<rparr>)
           in case VerifySigned cr (dbSnapshot b) (dbSnapshotSignature b) roots policy state of
                (res, Some e) \<Rightarrow> (outcome res None zero_CatState, Some e)
              | (res, None) \<Rightarrow>
                  (case ParseCatalog (dbSnapshot b) of
                     Inl e \<Rightarrow> (outcome res None zero_CatState, Some e)
                   | Inr cat \<Rightarrow>
                       (case cat_Accept state cat res of
                          Inl e \<Rightarrow> (outcome res (Some cat) zero_CatState, Some e)
                        | Inr advanced \<Rightarrow> (outcome res (Some cat) advanced, None)))))"

subsection \<open>Cache\<close>

record DirectoryCache =
  chBundle :: DirectoryBundle
  chFetched :: instant
  chTTL :: int
  chMaxStale :: int

text \<open>The result is the bundle, whether it is cached and whether it is stale; \<open>fetch\<close> is the outcome of the fetch.\<close>

definition Cache_Fetch ::
  "DirectoryCache \<Rightarrow> (cat_error + DirectoryBundle) \<Rightarrow> instant \<Rightarrow>
     (cat_error + DirectoryBundle \<times> bool \<times> bool) \<times> DirectoryCache" where
  "Cache_Fetch c fetch now =
     (if chFetched c \<noteq> zero_time \<and> 0 < chTTL c \<and> Sub now (chFetched c) < chTTL c then (Inr (chBundle c, True, False), c)
      else
        case fetch of
          Inr b \<Rightarrow> (Inr (b, False, False), c\<lparr>chBundle := b, chFetched := now\<rparr>)
        | Inl e \<Rightarrow>
            if chFetched c \<noteq> zero_time \<and> (chMaxStale c = 0 \<or> Sub now (chFetched c) \<le> chMaxStale c) then
              (Inr (chBundle c, True, True), c)
            else (Inl e, c))"

end
