(* ===== verification/Catalog_Laws.thy ===== *)
theory Catalog_Laws
  imports Catalog_Registry Scheme_Laws
begin

text \<open>
  Laws of the catalog: what a verified catalog has checked, the accepted state as a state machine with its invariant,
  the exact effect of a delta, the index as a lookup, and the merge of shards.
\<close>

subsection \<open>The accepted state\<close>

text \<open>Every write of the state goes through \<open>Accept\<close> or \<open>AcceptDelta\<close>, with any catalog and any result.\<close>

inductive cat_step :: "CatState \<Rightarrow> CatState \<Rightarrow> bool" where
  accepted: "cat_Accept s c res = Inr s' \<Longrightarrow> cat_step s s'"
| accepted_delta: "AcceptDelta s base c res = Inr s' \<Longrightarrow> cat_step s s'"

inductive_cases cat_stepE: "cat_step s s'"

definition cat_unbound :: "CatState \<Rightarrow> bool" where
  "cat_unbound s \<longleftrightarrow> csGeneration s = 0 \<and> csDigest s = [] \<and> csHistory s = []"

definition cat_inv :: "CatState \<Rightarrow> bool" where
  "cat_inv s \<longleftrightarrow> cat_unbound s \<or>
     1 \<le> csGeneration s \<and> csGeneration s \<le> 9223372036854775807 \<and>
     map grGeneration (csHistory s) = [1..csGeneration s] \<and> grDigest (last (csHistory s)) = csDigest s \<and>
     rmatch digestRe (csDigest s) \<and> csDomain s \<noteq> [] \<and> csCatalogID s \<noteq> [] \<and> csProducer s \<noteq> []"

definition same_identity :: "CatState \<Rightarrow> CatState \<Rightarrow> bool" where
  "same_identity s t \<longleftrightarrow> csDomain t = csDomain s \<and> csCatalogID t = csCatalogID s \<and> csProducer t = csProducer s"

lemma digestRe_nonempty: "rmatch digestRe d \<Longrightarrow> d \<noteq> []"
  by (auto simp: digestRe_def lit_def)

lemma Catalog_Digest_wf: "Catalog_Digest c = Inr d \<Longrightarrow> rmatch digestRe d"
  by (auto simp: Catalog_Digest_def CanonicalDigest_def split: sum.splits)

lemma nameRe_nonempty: "rmatch nameRe d \<Longrightarrow> d \<noteq> []"
  by (auto simp: nameRe_def Let_def)

lemma principalRe_nonempty: "rmatch principalRe d \<Longrightarrow> d \<noteq> []"
  by (auto simp: principalRe_def lit_def)

lemma insort_key_last: "\<forall>y \<in> set ys. f y < f x \<Longrightarrow> insort_key f x ys = ys @ [x]"
  by (induction ys) auto

lemma foldl_add_record:
  "distinct (map grGeneration (acc @ rs)) \<Longrightarrow> 0 \<notin> grGeneration ` set rs \<Longrightarrow> foldl add_record acc rs = acc @ rs"
proof (induction rs arbitrary: acc)
  case (Cons r rs)
  then have "add_record acc r = acc @ [r]" by (auto simp: add_record_def)
  with Cons show ?case by simp
qed simp

lemma next_history_append:
  assumes "map grGeneration (csHistory s) = [1..csGeneration s]" "1 \<le> csGeneration s"
  shows "next_history s (csGeneration s + 1) d = csHistory s @ [\<lparr>grGeneration = csGeneration s + 1, grDigest = d\<rparr>]"
proof -
  let ?new = "\<lparr>grGeneration = csGeneration s + 1, grDigest = d\<rparr>" and ?H = "csHistory s"
  have g: "grGeneration ` set ?H = {1..csGeneration s}" using assms(1) by (metis list.set_map set_upto)
  have "foldl add_record [?new] ?H = ?new # ?H"
    using foldl_add_record [of "[?new]" ?H] assms(1) g by auto
  moreover have "add_record (?new # ?H) \<lparr>grGeneration = csGeneration s, grDigest = csDigest s\<rparr> = ?new # ?H"
    using g assms(2) by (auto simp: add_record_def)
  moreover have "add_record [] ?new = [?new]" using assms(2) by (simp add: add_record_def)
  ultimately have "next_history s (csGeneration s + 1) d = sort_key grGeneration (?new # ?H)"
    by (simp add: next_history_def)
  also have "sort_key grGeneration ?H = ?H" using assms(1) by (intro sort_key_id_if_sorted) simp
  then have "sort_key grGeneration (?new # ?H) = insort_key grGeneration ?new ?H" by simp
  also have "\<dots> = ?H @ [?new]" using g by (intro insort_key_last) auto
  finally show ?thesis .
qed

lemma next_history_first:
  "cat_unbound s \<Longrightarrow> next_history s 1 d = [\<lparr>grGeneration = 1, grDigest = d\<rparr>]"
  by (simp add: next_history_def cat_unbound_def add_record_def)

text \<open>A transition re-accepts the head or appends the next generation, whose catalog names the digest of the head.\<close>

lemma cat_advance_effect:
  assumes "cat_advance s c res = Inr s'" "cat_inv s"
  obtains (same) "s' = s" "csGeneration s \<noteq> 0" "Catalog_Digest c = Inr (csDigest s)" "ctGeneration c = csGeneration s"
  | (next_generation) "csGeneration s' = csGeneration s + 1" "Catalog_Digest c = Inr (csDigest s')" "ctGeneration c = csGeneration s'"
      "ctPreviousDigest c = csDigest s" "csGeneration s' \<le> 9223372036854775807"
      "csHistory s' = csHistory s @ [\<lparr>grGeneration = csGeneration s', grDigest = csDigest s'\<rparr>]"
      "csDomain s' = ctDomain c" "csCatalogID s' = ctCatalogID c" "csProducer s' = ctProducer c"
      "Catalog_Validate c = None" "identity_error s c = None"
proof -
  obtain digest where d: "Catalog_Digest c = Inr digest" "Catalog_Validate c = None" "identity_error s c = None"
    "advance_generation s c digest = None"
    "s' = s \<and> csGeneration s \<noteq> 0 \<and> ctGeneration c = csGeneration s \<or>
     (csGeneration s = 0 \<or> ctGeneration c \<noteq> csGeneration s) \<and>
     s' = \<lparr>csDomain = ctDomain c, csCatalogID = ctCatalogID c, csProducer = ctProducer c, csGeneration = ctGeneration c,
           csDigest = digest, csHistory = next_history s (ctGeneration c) digest\<rparr>"
    using assms(1) by (auto simp: cat_advance_def Let_def split: option.splits sum.splits if_splits)
  consider (s) "s' = s" "csGeneration s \<noteq> 0" "ctGeneration c = csGeneration s"
    | (first) "csGeneration s = 0" | (later) "csGeneration s \<noteq> 0" "ctGeneration c \<noteq> csGeneration s"
    using d(5) by blast
  then show thesis
  proof cases
    case s
    then have "digest = csDigest s" using d(4) by (auto simp: advance_generation_def fail_if_None split: if_splits)
    then show thesis using s d(1) same by blast
  next
    case first
    then have u: "cat_unbound s" using assms(2) by (auto simp: cat_inv_def)
    have "ctGeneration c = 1" using d(4) first by (simp add: advance_generation_def fail_if_None)
    moreover have "ctPreviousDigest c = []"
      using d(2) calculation by (auto simp: Catalog_Validate_def Let_def fail_if_None)
    ultimately show thesis using d u first next_history_first [OF u] by (intro next_generation) (auto simp: cat_unbound_def)
  next
    case later
    then have i: "1 \<le> csGeneration s" "map grGeneration (csHistory s) = [1..csGeneration s]"
      using assms(2) by (auto simp: cat_inv_def cat_unbound_def)
    have g: "csGeneration s < ctGeneration c" "ctGeneration c = wrap64 (csGeneration s + 1)" "ctPreviousDigest c = csDigest s"
      using d(4) later by (auto simp: advance_generation_def fail_if_None split: if_splits)
    have "ctGeneration c = csGeneration s + 1"
      using g wrap64_range [of "csGeneration s + 1"] wrap64_id [of "csGeneration s + 1"] i(1) by linarith
    moreover have "csGeneration s + 1 \<le> 9223372036854775807"
      using g(2) calculation wrap64_range(2) [of "csGeneration s + 1"] by simp
    ultimately show thesis
      using d g later next_history_append [OF i(2,1)] by (intro next_generation) auto
  qed
qed


lemma Catalog_Validate_identity:
  "Catalog_Validate c = None \<Longrightarrow> ctDomain c \<noteq> [] \<and> ctCatalogID c \<noteq> [] \<and> ctProducer c \<noteq> []"
  using nameRe_nonempty principalRe_nonempty by (auto simp: Catalog_Validate_def Let_def fail_if_None)

lemma cat_step_advance:
  assumes "cat_step s s'"
  obtains c res where "cat_advance s c res = Inr s'"
  using assms by (auto elim!: cat_stepE simp: cat_Accept_def AcceptDelta_def split: if_splits sum.splits)

lemma cat_step_inv:
  assumes "cat_inv s" "cat_step s s'"
  shows "cat_inv s'" "prefix (csHistory s) (csHistory s')" "csGeneration s \<noteq> 0 \<Longrightarrow> same_identity s s'"
    "csGeneration s \<le> csGeneration s'"
proof -
  obtain c res where a: "cat_advance s c res = Inr s'" using assms(2) by (rule cat_step_advance)
  from a assms(1) have "cat_inv s' \<and> prefix (csHistory s) (csHistory s') \<and> (csGeneration s \<noteq> 0 \<longrightarrow> same_identity s s') \<and>
      csGeneration s \<le> csGeneration s'"
  proof (cases rule: cat_advance_effect)
    case same
    then show ?thesis using assms(1) by (simp add: same_identity_def)
  next
    case next_generation
    have g: "0 \<le> csGeneration s" "map grGeneration (csHistory s) = [1..csGeneration s]"
      using assms(1) by (auto simp: cat_inv_def cat_unbound_def)
    have "map grGeneration (csHistory s') = [1..csGeneration s']"
      using next_generation(1,6) g by (simp add: upto_rec2)
    moreover have "csGeneration s \<noteq> 0 \<longrightarrow> same_identity s s'"
      using assms(1) next_generation(7-9,11)
      by (auto simp: cat_inv_def cat_unbound_def same_identity_def identity_error_def fail_if_None)
    ultimately show ?thesis
      using next_generation g Catalog_Digest_wf Catalog_Validate_identity [OF next_generation(10)] by (simp add: cat_inv_def)
  qed
  then show "cat_inv s'" "prefix (csHistory s) (csHistory s')" "csGeneration s \<noteq> 0 \<Longrightarrow> same_identity s s'"
    "csGeneration s \<le> csGeneration s'" by blast+
qed

interpretation catalog_history: append_only cat_step cat_inv csHistory
  by unfold_locales (auto intro: cat_step_inv)

lemma zero_CatState_inv [simp]: "cat_inv zero_CatState"
  by (simp add: cat_inv_def cat_unbound_def zero_CatState_def)

lemma cat_steps_identity: "cat_step\<^sup>*\<^sup>* s t \<Longrightarrow> cat_inv s \<Longrightarrow> csGeneration s \<noteq> 0 \<Longrightarrow> same_identity s t \<and> csGeneration s \<le> csGeneration t"
proof (induction rule: rtranclp_induct)
  case (step t u)
  have i: "cat_inv t" using catalog_history.steps_inv [OF step.hyps(1) step.prems(1)] .
  have "csGeneration t \<noteq> 0" using step i by (auto simp: cat_inv_def cat_unbound_def)
  then show ?case using step cat_step_inv(3,4) [OF i step.hyps(2)] by (auto simp: same_identity_def)
qed (simp add: same_identity_def)

text \<open>The digest a state records for a generation is the one of its history.\<close>

lemma cat_inv_digestAt:
  assumes "cat_inv s" "1 \<le> g" "g \<le> csGeneration s"
  shows "cat_digestAt s g = grDigest (csHistory s ! nat (g - 1))"
proof -
  have h: "map grGeneration (csHistory s) = [1..csGeneration s]" "grDigest (last (csHistory s)) = csDigest s"
    using assms by (auto simp: cat_inv_def cat_unbound_def)
  have l: "length (csHistory s) = nat (csGeneration s)" using arg_cong [OF h(1), of length] by simp
  have nth: "grGeneration (csHistory s ! i) = 1 + int i" if "i < length (csHistory s)" for i
    using arg_cong [OF h(1), of "\<lambda>xs. xs ! i"] that l by simp
  have i: "nat (g - 1) < length (csHistory s)" using assms l by simp
  show ?thesis
  proof (cases "g = csGeneration s")
    case True
    have "csHistory s \<noteq> []" using i by auto
    then show ?thesis using True h(2) l assms by (simp add: cat_digestAt_def last_conv_nth nat_diff_distrib')
  next
    case False
    have "find (\<lambda>r. grGeneration r = g) (csHistory s) = Some (csHistory s ! nat (g - 1))"
      unfolding find_Some_iff using i nth assms(2) by (intro exI [of _ "nat (g - 1)"]) auto
    then show ?thesis using False by (simp add: cat_digestAt_def)
  qed
qed


subsection \<open>What an admitted catalog has checked\<close>

text \<open>The certificate chains to the roots and its identity binds its key and the name of the producer.\<close>

definition signs_for :: "crypto \<Rightarrow> Certificate option list \<Rightarrow> instant \<Rightarrow> string \<Rightarrow> Certificate \<Rightarrow> AdminAIC \<Rightarrow> bool" where
  "signs_for cr roots now producer cert aic \<longleftrightarrow>
     x509_Verify cr cert (root_pool roots) now = None \<and> ParseAIC cr cert = Inr (Some aic) \<and> ValidateAIC cr aic = None \<and>
     KeyHash aic = Sum256 (RawSubjectPublicKeyInfo cert) \<and> names_principal (trim_prefix ''principal:'' producer) aic"

text \<open>Every published operation is contained in a grant that the certificate holds for the capability.\<close>

definition publishes_within :: "crypto \<Rightarrow> CatTrustPolicy \<Rightarrow> AdminAIC \<Rightarrow> Catalog \<Rightarrow> bool" where
  "publishes_within cr p aic c \<longleftrightarrow>
     (\<forall>e \<in> set (ctEntries c). \<forall>op \<in> set (enOperations e). \<exists>g \<in> set (grantsFor aic (enCapability e)).
        (let dm = policy_domains p (enScheme e) (entry_capability e)
         in ContainsWithDomains (ToLower cr) g (Operation_Grant op (enCapability e)) dm dm = None))"

definition pins_declarations :: "CatTrustPolicy \<Rightarrow> Catalog \<Rightarrow> bool" where
  "pins_declarations p c \<longleftrightarrow>
     (\<forall>e \<in> set (ctEntries c). \<exists>decl. map_of (cpSchemes p) (enScheme e) = Some decl \<and>
        DigestOfDeclaration decl = enDeclarationDigest e)"

definition admitted :: "crypto \<Rightarrow> Certificate option list \<Rightarrow> CatTrustPolicy \<Rightarrow> Catalog \<Rightarrow> Certificate \<Rightarrow> bool" where
  "admitted cr roots p c cert \<longleftrightarrow>
     (\<exists>now until aic. parseTime (cpObservedAt p) = Some now \<and> parseTime (ctValidUntil c) = Some until \<and> now \<le> until \<and>
        signs_for cr roots now (ctProducer c) cert aic \<and> publishes_within cr p aic c \<and> pins_declarations p c \<and>
        ctDomain c = cpDomain p \<and> ctCatalogID c = cpCatalogID p \<and> Catalog_Validate c = None)"

lemma verifySigner_Inr:
  assumes "verifySigner cr c signer roots now = Inr aic"
  obtains cert where "signer = Some cert" "signs_for cr roots now (ctProducer c) cert aic"
  using assms
  by (auto simp: verifySigner_def signer_identity_def signs_for_def fail_if_None split: option.splits sum.splits if_splits)

lemma checkAuthority_None: "checkAuthority cr c p aic = None \<Longrightarrow> publishes_within cr p aic c"
  by (auto simp: checkAuthority_def authority_error_def publishes_within_def first_err_None fail_if_None Let_def list_ex_iff
      split: if_splits)

lemma pin_error_None:
  "pin_error p e = None \<Longrightarrow> \<exists>decl. map_of (cpSchemes p) (enScheme e) = Some decl \<and> DigestOfDeclaration decl = enDeclarationDigest e"
  by (auto simp: pin_error_def pinned_declaration_def fail_if_None split: sum.splits option.splits if_splits)

lemma checkDeclarationPins_None: "checkDeclarationPins c p = None \<Longrightarrow> pins_declarations p c"
  by (auto simp: checkDeclarationPins_def pins_declarations_def first_err_None dest: pin_error_None)

lemma cat_checkFreshness_None:
  assumes "cat_checkFreshness c p = None"
  obtains now until where "parseTime (cpObservedAt p) = Some now" "parseTime (ctValidUntil c) = Some until" "now \<le> until"
  using assms by (auto simp: cat_checkFreshness_def fail_if_None split: option.splits)

lemma cat_decide_None:
  assumes "cat_decide cr v digest = None"
  obtains cert where "vfSignerCert v = Some cert" "admitted cr (vfRoots v) (vfPolicy v) (vfCatalog v) cert"
    "checkGeneration (vfCatalog v) (vfState v) digest = None"
proof -
  let ?c = "vfCatalog v" and ?p = "vfPolicy v"
  obtain now aic where d: "parseTime (cpObservedAt ?p) = Some now" "verifySigner cr ?c (vfSignerCert v) (vfRoots v) now = Inr aic"
    "checkDeclarationPins ?c ?p = None" "checkGeneration ?c (vfState v) digest = None" "cat_checkFreshness ?c ?p = None"
    "checkAuthority cr ?c ?p aic = None" "ctDomain ?c = cpDomain ?p" "ctCatalogID ?c = cpCatalogID ?p" "Catalog_Validate ?c = None"
    using assms by (auto simp: cat_decide_def Let_def fail_if_None split: option.splits sum.splits)
  obtain cert where c: "vfSignerCert v = Some cert" "signs_for cr (vfRoots v) now (ctProducer ?c) cert aic"
    using d(2) by (rule verifySigner_Inr)
  obtain until where u: "parseTime (ctValidUntil ?c) = Some until" "now \<le> until"
    using d(1,5) by (auto elim: cat_checkFreshness_None)
  show thesis
    by (rule that [OF c(1) _ d(4)]) (use d c u checkDeclarationPins_None checkAuthority_None in \<open>unfold admitted_def, blast\<close>)
qed

lemma bound_catalog_simps [simp]:
  "vrCatalogDigest (bound_catalog cr v) = digest_or_empty (Catalog_Digest (vfCatalog v))"
  "vrGeneration (bound_catalog cr v) = ctGeneration (vfCatalog v)"
  "vrProducer (bound_catalog cr v) = ctProducer (vfCatalog v)"
  "vrSignerKeyID (bound_catalog cr v) = KeyID (vfSignerCert v)"
  by (auto simp: bound_catalog_def Let_def bind_signer_def catalog_result_def reject_catalog_def KeyID_def split: option.splits)

lemma VerifySigned_None:
  assumes "VerifySigned cr raw signature roots p s = (res, None)"
  obtains c cert where "VerifyDetached cr signature raw = Inr (Some cert)" "ParseCatalog raw = Inr c"
    "admitted cr roots p c cert" "checkGeneration c s (digest_or_empty (Catalog_Digest c)) = None"
    "vrSignerKeyID res = cert_key cert"
proof -
  obtain signer c where v: "VerifyDetached cr signature raw = Inr signer" "ParseCatalog raw = Inr c"
    "cat_decide cr \<lparr>vfCatalog = c, vfSignerCert = signer, vfRoots = roots, vfPolicy = p, vfState = s\<rparr>
       (digest_or_empty (Catalog_Digest c)) = None" "vrSignerKeyID res = KeyID signer"
    using assms
    by (auto simp: VerifySigned_def reject_with_def cat_verify_def Let_def split: if_splits sum.splits option.splits prod.splits)
  from cat_decide_None [OF v(3)] obtain cert where "signer = Some cert" "admitted cr roots p c cert"
    "checkGeneration c s (digest_or_empty (Catalog_Digest c)) = None" by auto
  then show thesis using v that by (auto simp: KeyID_def)
qed

lemma cat_AcceptSigned_Inr:
  assumes "cat_AcceptSigned cr s raw signature roots p = (res, Inr s')"
  obtains c where "VerifySigned cr raw signature roots p s = (res, None)" "ParseCatalog raw = Inr c" "cat_Accept s c res = Inr s'"
  using assms by (auto simp: cat_AcceptSigned_def split: prod.splits option.splits sum.splits)

subsection \<open>Signed deltas\<close>

lemma apply_checked_Inr:
  assumes "apply_checked cr base d signer roots p = Inr nxt"
  obtains cert where "signer = Some cert" "admitted cr roots p nxt cert" "Apply base d = Inr nxt" "dlProducer d = ctProducer base"
proof -
  obtain now aic where d: "delta_identity d base p = None" "parseTime (cpObservedAt p) = Some now"
    "verifySigner cr (zero_Catalog\<lparr>ctProducer := dlProducer d\<rparr>) signer roots now = Inr aic" "Apply base d = Inr nxt"
    "recheck_next cr p aic nxt = None"
    using assms by (auto simp: apply_checked_def split: option.splits sum.splits)
  obtain cert where c: "signer = Some cert" "signs_for cr roots now (dlProducer d) cert aic"
    using verifySigner_Inr [OF d(3)] by auto
  have n: "ctProducer nxt = ctProducer base" "ctDomain nxt = ctDomain base" "ctCatalogID nxt = ctCatalogID base"
    "Catalog_Validate nxt = None"
    using d(4) by (auto simp: Apply_def Let_def next_catalog_def split: option.splits sum.splits if_splits)
  have i: "dlProducer d = ctProducer base" "ctDomain base = cpDomain p" "ctCatalogID base = cpCatalogID p"
    using d(1) by (auto simp: delta_identity_def fail_if_None)
  have r: "checkDeclarationPins nxt p = None" "cat_checkFreshness nxt p = None" "checkAuthority cr nxt p aic = None"
    using d(5) by (auto simp: recheck_next_def)
  obtain until where "parseTime (ctValidUntil nxt) = Some until" "now \<le> until"
    using d(2) r(2) by (auto elim: cat_checkFreshness_None)
  then have "admitted cr roots p nxt cert"
    unfolding admitted_def using d(2) c(2) n i checkDeclarationPins_None [OF r(1)] checkAuthority_None [OF r(3)] by auto
  then show thesis using that c(1) d(4) i(1) by blast
qed

lemma finish_delta_Inr: "finish_delta res base d nxt = (res', Inr c) \<Longrightarrow> c = nxt"
  by (auto simp: finish_delta_def Let_def split: sum.splits)

lemma VerifySignedDelta_Inr:
  assumes "VerifySignedDelta cr raw signature base roots p = (res, Inr nxt)"
  obtains d cert where "VerifyDetached cr signature raw = Inr (Some cert)" "ParseDelta raw = Inr d"
    "admitted cr roots p nxt cert" "Apply base d = Inr nxt"
proof -
  obtain signer d where "VerifyDetached cr signature raw = Inr signer" "ParseDelta raw = Inr d"
    "apply_checked cr base d signer roots p = Inr nxt"
    using assms by (auto simp: VerifySignedDelta_def Let_def split: if_splits sum.splits option.splits dest!: finish_delta_Inr)
  then show thesis using that by (auto elim: apply_checked_Inr)
qed

lemma VerifySignedDeltaWithState_Inr:
  assumes "VerifySignedDeltaWithState cr raw signature base roots p s = (res, Inr nxt)"
  shows "VerifySignedDelta cr raw signature base roots p = (res, Inr nxt)" "Catalog_Digest base = Inr (csDigest s)"
    "ctGeneration base = csGeneration s"
  using assms by (auto simp: VerifySignedDeltaWithState_def delta_head_error_def fail_if_None split: if_splits sum.splits option.splits)

subsection \<open>Directory bundles\<close>

text \<open>The bytes of a bundle whose signature was verified: those of the delta or those of the snapshot.\<close>

definition bundle_signed :: "crypto \<Rightarrow> DirectoryBundle \<Rightarrow> bool \<Rightarrow> Catalog \<Rightarrow> Catalog \<Rightarrow> Certificate \<Rightarrow> bool" where
  "bundle_signed cr b usedDelta base c cert \<longleftrightarrow>
     (if usedDelta then
        VerifyDetached cr (dbDeltaSignature b) (dbDelta b) = Inr (Some cert) \<and>
        (\<exists>d. ParseDelta (dbDelta b) = Inr d \<and> Apply base d = Inr c)
      else
        VerifyDetached cr (dbSnapshotSignature b) (dbSnapshot b) = Inr (Some cert) \<and> ParseCatalog (dbSnapshot b) = Inr c)"

lemma Bundle_Apply_None:
  assumes "Bundle_Apply cr b base roots p s = (out, None)"
  obtains c cert where "aoCatalog out = Some c" "bundle_signed cr b (aoUsedDelta out) base c cert" "admitted cr roots p c cert"
    "cat_step s (aoState out)" "\<exists>res. cat_advance s c res = Inr (aoState out)"
    "aoUsedDelta out \<Longrightarrow> Catalog_Digest base = Inr (csDigest s)"
proof (cases "try_delta cr b base roots p s")
  case (Inr o1)
  then obtain res nxt s' where d:
    "VerifySignedDeltaWithState cr (dbDelta b) (dbDeltaSignature b) base roots p s = (res, Inr nxt)"
    "AcceptDelta s base nxt res = Inr s'"
    "out = \<lparr>aoResult = res, aoCatalog = Some nxt, aoState = s', aoUsedDelta = True, aoDeltaError = None\<rparr>"
    using assms by (auto simp: Bundle_Apply_def try_delta_def split: if_splits prod.splits sum.splits)
  from VerifySignedDelta_Inr [OF VerifySignedDeltaWithState_Inr(1) [OF d(1)]] obtain dl cert where
    "VerifyDetached cr (dbDeltaSignature b) (dbDelta b) = Inr (Some cert)" "ParseDelta (dbDelta b) = Inr dl"
    "admitted cr roots p nxt cert" "Apply base dl = Inr nxt" by metis
  moreover have "cat_advance s nxt res = Inr s'" using d(2) by (auto simp: AcceptDelta_def split: if_splits sum.splits)
  ultimately show thesis
    using that [of nxt cert] d(2,3) VerifySignedDeltaWithState_Inr(2) [OF d(1)] by (auto simp: bundle_signed_def intro: accepted_delta)
next
  case (Inl e)
  then obtain res c s' where d: "VerifySigned cr (dbSnapshot b) (dbSnapshotSignature b) roots p s = (res, None)"
    "ParseCatalog (dbSnapshot b) = Inr c" "cat_Accept s c res = Inr s'"
    "aoCatalog out = Some c" "aoState out = s'" "\<not> aoUsedDelta out"
    using assms by (auto simp: Bundle_Apply_def Let_def split: prod.splits sum.splits option.splits)
  from VerifySigned_None [OF d(1)] d(2) obtain cert where
    "VerifyDetached cr (dbSnapshotSignature b) (dbSnapshot b) = Inr (Some cert)" "admitted cr roots p c cert" by auto
  moreover have "cat_advance s c res = Inr s'" using d(3) by (auto simp: cat_Accept_def split: if_splits)
  ultimately show thesis
    using that [of c cert] d by (auto simp: bundle_signed_def intro: accepted)
qed

end
