(* ===== verification/Catalog_Edits.thy ===== *)
theory Catalog_Edits
  imports Catalog_Laws
begin

text \<open>
  The entries of a catalog as a finite map from capabilities: the index is its lookup, a delta edits it at exactly the
  capabilities it names, and the merge of shards joins such maps.
\<close>

abbreviation find_entry :: "Entry list \<Rightarrow> string \<Rightarrow> Entry option" where
  "find_entry es k \<equiv> find (\<lambda>e. enCapability e = k) es"

abbreviation capabilities :: "Entry list \<Rightarrow> string list" where
  "capabilities es \<equiv> map enCapability es"

abbreviation indexed :: "Catalog \<Rightarrow> string \<Rightarrow> Entry option" where
  "indexed c k \<equiv> Lookup (Some (BuildIndex c)) c k"

subsection \<open>Finding entries\<close>

lemma find_append: "find P (xs @ ys) = (case find P xs of Some x \<Rightarrow> Some x | None \<Rightarrow> find P ys)"
  by (induction xs) auto

lemma find_entry_None: "find_entry es k = None \<longleftrightarrow> k \<notin> set (capabilities es)"
  by (induction es) auto

lemma find_entry_in: "find_entry es k = Some e \<Longrightarrow> e \<in> set es \<and> enCapability e = k"
  by (induction es) (auto split: if_splits)

lemma find_entry_iff: "distinct (capabilities es) \<Longrightarrow> find_entry es k = Some e \<longleftrightarrow> e \<in> set es \<and> enCapability e = k"
  by (induction es) (auto split: if_splits)

lemma find_entry_cong:
  "distinct (capabilities es) \<Longrightarrow> distinct (capabilities fs) \<Longrightarrow> set es = set fs \<Longrightarrow> find_entry es k = find_entry fs k"
proof (cases "find_entry fs k")
  case None
  then have "k \<notin> enCapability ` set es" if "set es = set fs" using that by (simp add: find_entry_None)
  then show "set es = set fs \<Longrightarrow> ?thesis" unfolding None by (simp add: find_entry_None)
next
  case (Some e)
  assume d: "distinct (capabilities es)" "distinct (capabilities fs)" "set es = set fs"
  then have "find_entry es k = Some e" unfolding find_entry_iff [OF d(1)] using find_entry_in [OF Some] by simp
  then show ?thesis using Some by simp
qed

subsection \<open>The index\<close>

lemma map_of_index:
  "map_of (ixByName (foldl index_entry idx ies)) k =
     (case map_of (ixByName idx) k of
        Some i \<Rightarrow> Some i | None \<Rightarrow> map_option fst (find (\<lambda>ie. enCapability (snd ie) = k) ies))"
proof (induction ies arbitrary: idx)
  case (Cons ie ies)
  then show ?case
    by (cases ie) (auto simp: index_entry_def Let_def map_of_AList_update split: option.splits)
qed (simp split: option.splits)

lemma find_zip_snd: "length xs = length ys \<Longrightarrow> map_option snd (find (\<lambda>x. P (snd x)) (zip xs ys)) = find P ys"
  by (induction xs ys rule: list_induct2) auto

text \<open>The index finds what a scan of the entries finds.\<close>

lemma indexed_scan: "indexed c k = find_entry (ctEntries c) k"
proof -
  let ?es = "ctEntries c"
  let ?f = "find (\<lambda>ie. enCapability (snd ie) = k) (zip [0 ..< length ?es] ?es)"
  have b: "map_of (ixByName (BuildIndex c)) k = map_option fst ?f"
    unfolding BuildIndex_def map_of_index by simp
  have s: "map_option snd ?f = find_entry ?es k" by (rule find_zip_snd) simp
  show ?thesis
  proof (cases ?f)
    case None
    then show ?thesis using b s by (simp add: Lookup_def)
  next
    case (Some ie)
    then have "ie \<in> set (zip [0 ..< length ?es] ?es)" using find_SomeD by metis
    then obtain i where "i < length ?es" "ie = (i, ?es ! i)" by (auto simp: set_zip)
    then show ?thesis using b s Some by (simp add: Lookup_def)
  qed
qed

lemma shard_index:
  "length (ixShards idx) = 256 \<Longrightarrow>
   (\<And>k i. map_of (ixByName idx) k = Some i \<Longrightarrow> i \<in> set (ixShards idx ! shard_key k)) \<Longrightarrow>
   map_of (ixByName (foldl index_entry idx ies)) k = Some i \<Longrightarrow>
   i \<in> set (ixShards (foldl index_entry idx ies) ! shard_key k)"
proof (induction ies arbitrary: idx)
  case (Cons ie ies)
  have key: "shard_key s < 256" for s by (cases s) (simp_all add: shard_key_def)
  have "i' \<in> set (ixShards (index_entry idx ie) ! shard_key k')"
    if "map_of (ixByName (index_entry idx ie)) k' = Some i'" for k' i'
    using that Cons.prems(1,2) key [of k'] key [of "enCapability (snd ie)"]
    by (cases ie) (auto simp: index_entry_def Let_def map_of_AList_update nth_list_update split: if_splits)
  moreover have "length (ixShards (index_entry idx ie)) = 256"
    using Cons.prems(1) by (cases ie) (simp add: index_entry_def Let_def)
  ultimately show ?case using Cons.IH [of "index_entry idx ie"] Cons.prems(3) by simp
qed simp

subsection \<open>Edits\<close>

lemma map_of_entry_map:
  "map_of (foldl (\<lambda>m e. AList.update (enCapability e) e m) m es) k =
     (case find_entry (rev es) k of Some e \<Rightarrow> Some e | None \<Rightarrow> map_of m k)"
  by (induction es arbitrary: m) (auto simp: map_of_AList_update find_append split: option.splits)

text \<open>A map of entries is keyed by their capabilities.\<close>

definition keyed :: "Entry gomap \<Rightarrow> bool" where
  "keyed m \<longleftrightarrow> gomap_ok m \<and> (\<forall>k e. map_of m k = Some e \<longrightarrow> k = enCapability e)"

lemma keyed_update: "keyed m \<Longrightarrow> keyed (AList.update (enCapability e) e m)"
  by (auto simp: keyed_def gomap_ok_update map_of_AList_update split: if_splits)

lemma keyed_delete: "keyed m \<Longrightarrow> keyed (AList.delete k m)"
  by (auto simp: keyed_def gomap_ok_def AList.distinct_delete delete_conv' split: if_splits)

lemma keyed_entry_map: "keyed (entry_map es)"
proof -
  have "keyed m \<Longrightarrow> keyed (foldl (\<lambda>m e. AList.update (enCapability e) e m) m es)" for m
  proof (induction es arbitrary: m)
    case (Cons e es)
    show ?case using Cons.IH [OF keyed_update [OF Cons.prems]] by (simp only: foldl_Cons)
  qed simp
  moreover have "keyed []" by (simp add: keyed_def gomap_ok_def)
  ultimately show ?thesis unfolding entry_map_def .
qed

lemma sorted_entries:
  assumes "keyed m"
  shows "capabilities (map snd (sort_key fst m)) = map fst (sort_key fst m)"
    "find_entry (map snd (sort_key fst m)) k = map_of m k"
proof -
  have k: "\<forall>x \<in> set m. fst x = enCapability (snd x)" using assms by (auto simp: keyed_def gomap_ok_def)
  then show c: "capabilities (map snd (sort_key fst m)) = map fst (sort_key fst m)" by simp
  have d: "distinct (map fst (sort_key fst m))" using assms by (simp add: keyed_def gomap_ok_def distinct_map)
  show "find_entry (map snd (sort_key fst m)) k = map_of m k"
  proof (cases "map_of m k")
    case None
    then have "find_entry (map snd (sort_key fst m)) k = None" unfolding find_entry_None c by (simp add: map_of_eq_None_iff)
    then show ?thesis using None by simp
  next
    case (Some e)
    then have "(k, e) \<in> set m" "k = enCapability e" using assms by (auto simp: keyed_def map_of_SomeD)
    then show ?thesis unfolding Some find_entry_iff [OF d [folded c]] by force
  qed
qed

lemma remove_entries_Inr:
  "remove_entries ks m = Inr m' \<Longrightarrow> keyed m \<Longrightarrow> distinct ks \<Longrightarrow>
     keyed m' \<and> (\<forall>k. map_of m' k = (if k \<in> set ks then None else map_of m k)) \<and> (\<forall>k \<in> set ks. map_of m k \<noteq> None)"
proof (induction ks arbitrary: m)
  case (Cons x ks)
  then have "keyed (AList.delete x m)" "remove_entries ks (AList.delete x m) = Inr m'" "map_of m x \<noteq> None"
    by (auto split: if_splits intro: keyed_delete)
  with Cons.IH [OF this(2,1)] Cons.prems(3) show ?case by (auto simp: delete_conv' split: if_splits)
qed simp

lemma replace_entries_Inr:
  "replace_entries es m = Inr m' \<Longrightarrow> keyed m \<Longrightarrow>
     keyed m' \<and> (\<forall>k. map_of m' k = (case find_entry (rev es) k of Some e \<Rightarrow> Some e | None \<Rightarrow> map_of m k)) \<and>
     (\<forall>e \<in> set es. map_of m (enCapability e) \<noteq> None)"
proof (induction es arbitrary: m)
  case (Cons x es)
  then have "keyed (AList.update (enCapability x) x m)" "replace_entries es (AList.update (enCapability x) x m) = Inr m'"
    "map_of m (enCapability x) \<noteq> None" by (auto split: if_splits intro: keyed_update)
  with Cons.IH [OF this(2,1)] show ?case
    by (auto simp: find_append map_of_AList_update split: option.splits if_splits)
qed simp

lemma add_entries_Inr:
  "add_entries es m = Inr m' \<Longrightarrow> keyed m \<Longrightarrow>
     keyed m' \<and> (\<forall>k. map_of m' k = (case find_entry (rev es) k of Some e \<Rightarrow> Some e | None \<Rightarrow> map_of m k)) \<and>
     (\<forall>e \<in> set es. map_of m (enCapability e) = None)"
proof (induction es arbitrary: m)
  case (Cons x es)
  then have a: "keyed (AList.update (enCapability x) x m)" "add_entries es (AList.update (enCapability x) x m) = Inr m'"
    "map_of m (enCapability x) = None" by (auto split: if_splits intro: keyed_update)
  with Cons.IH [OF this(2,1)] show ?case
    by (auto simp: find_append map_of_AList_update split: option.splits if_splits)
qed simp

lemma sides_error_distinct:
  "sides_error touched items = None \<Longrightarrow> distinct (map fst items) \<and> set (map fst items) \<inter> fst ` set touched = {}"
  by (induction touched items rule: sides_error.induct)
    (auto simp: note_capability_def map_of_eq_None_iff split: option.splits)

lemma Delta_Validate_distinct:
  assumes "Delta_Validate d = None"
  shows "distinct (capabilities (dlAdd d) @ capabilities (dlReplace d) @ dlRemove d)"
proof -
  have "sides_error [] (delta_sides d) = None" using assms by (simp add: Delta_Validate_def Let_def)
  from conjunct1 [OF sides_error_distinct [OF this]] show ?thesis by (simp add: delta_sides_def comp_def)
qed

lemma entries_error_distinct: "entries_error seen es = None \<Longrightarrow> distinct (capabilities es) \<and> set (capabilities es) \<inter> set seen = {}"
  by (induction seen es rule: entries_error.induct) (auto simp: fail_if_None)

lemma Catalog_Validate_distinct: "Catalog_Validate c = None \<Longrightarrow> distinct (capabilities (ctEntries c))"
  using entries_error_distinct by (auto simp: Catalog_Validate_def Let_def)

lemma find_entry_rev: "distinct (capabilities es) \<Longrightarrow> find_entry (rev es) k = find_entry es k"
  by (rule find_entry_cong) (simp_all add: rev_map [symmetric])

text \<open>What the edits of a delta make of a catalog without repeated capabilities.\<close>

lemma apply_edits_Inr:
  assumes "apply_edits d es = Inr fs" "distinct (capabilities es)"
    "distinct (capabilities (dlAdd d) @ capabilities (dlReplace d) @ dlRemove d)"
  shows "sorted (capabilities fs)" "distinct (capabilities fs)"
    "find_entry fs k = (if k \<in> set (dlRemove d) then None
       else case find_entry (dlAdd d @ dlReplace d) k of Some e \<Rightarrow> Some e | None \<Rightarrow> find_entry es k)"
    "k \<in> set (dlRemove d) \<or> k \<in> set (capabilities (dlReplace d)) \<Longrightarrow> find_entry es k \<noteq> None"
    "k \<in> set (capabilities (dlAdd d)) \<Longrightarrow> find_entry es k = None"
proof -
  obtain m1 m2 m3 where m: "remove_entries (dlRemove d) (entry_map es) = Inr m1" "replace_entries (dlReplace d) m1 = Inr m2"
    "add_entries (dlAdd d) m2 = Inr m3" "fs = map snd (sort_key fst m3)"
    using assms(1) by (auto simp: apply_edits_def split: sum.splits)
  have e: "map_of (entry_map es) k = find_entry es k" for k
    unfolding entry_map_def map_of_entry_map find_entry_rev [OF assms(2)] by (simp split: option.splits)
  have d: "distinct (capabilities (dlAdd d))" "distinct (capabilities (dlReplace d))" "distinct (dlRemove d)"
    using assms(3) by auto
  note r1 = remove_entries_Inr [OF m(1) keyed_entry_map d(3), unfolded e]
  note r2 = replace_entries_Inr [OF m(2) conjunct1 [OF r1], unfolded find_entry_rev [OF d(2)]]
  note r3 = add_entries_Inr [OF m(3) conjunct1 [OF r2], unfolded find_entry_rev [OF d(1)]]
  have c: "capabilities fs = map fst (sort_key fst m3)" unfolding m(4) by (rule sorted_entries) (use r3 in blast)
  show "sorted (capabilities fs)" "distinct (capabilities fs)"
    unfolding c using r3 by (simp_all add: keyed_def gomap_ok_def distinct_map)
  have x: "k \<in> set (dlRemove d) \<Longrightarrow> find_entry (dlAdd d) k = None \<and> find_entry (dlReplace d) k = None"
    unfolding find_entry_None using assms(3) by auto
  have "find_entry fs k = map_of m3 k" unfolding m(4) by (rule sorted_entries) (use r3 in blast)
  then show "find_entry fs k = (if k \<in> set (dlRemove d) then None
       else case find_entry (dlAdd d @ dlReplace d) k of Some e \<Rightarrow> Some e | None \<Rightarrow> find_entry es k)"
    using r1 r2 r3 x by (auto simp: find_append split: option.splits)
  show "k \<in> set (dlRemove d) \<or> k \<in> set (capabilities (dlReplace d)) \<Longrightarrow> find_entry es k \<noteq> None"
    using r1 r2 by (auto split: if_splits)
  show "k \<in> set (capabilities (dlAdd d)) \<Longrightarrow> find_entry es k = None"
  proof -
    assume a: "k \<in> set (capabilities (dlAdd d))"
    then have "map_of m2 k = None" "k \<notin> set (dlRemove d)" "k \<notin> set (capabilities (dlReplace d))"
      using r3 assms(3) by auto
    then show "find_entry es k = None" using r1 r2 unfolding find_entry_None [symmetric] by auto
  qed
qed

lemma Apply_Inr:
  assumes "Apply base d = Inr nxt"
  obtains baseDigest where "Delta_Validate d = None" "Catalog_Digest base = Inr baseDigest" "baseDigest = dlBaseDigest d"
    "ctGeneration base = dlBaseGeneration d" "apply_edits d (ctEntries base) = Inr (ctEntries nxt)"
    "nxt = next_catalog base d baseDigest (ctEntries nxt)" "Catalog_Validate nxt = None" "Catalog_Digest nxt = Inr (dlTargetDigest d)"
  using assms
  by (auto simp: Apply_def Let_def delta_base_error_def fail_if_None next_catalog_def split: option.splits sum.splits if_splits)

lemma Apply_generation:
  assumes "Apply base d = Inr nxt" "ctGeneration base \<le> 9223372036854775807"
  shows "ctGeneration nxt = ctGeneration base + 1"
proof -
  obtain baseDigest where a: "Delta_Validate d = None" "ctGeneration base = dlBaseGeneration d"
    "nxt = next_catalog base d baseDigest (ctEntries nxt)" "Catalog_Validate nxt = None" using assms(1) by (rule Apply_Inr)
  have "ctGeneration nxt = wrap64 (ctGeneration base + 1)" "1 \<le> ctGeneration base"
    using a by (auto simp: Delta_Validate_def Let_def fail_if_None next_catalog_def dest!: arg_cong [of nxt _ ctGeneration])
  moreover have "1 \<le> ctGeneration nxt" using a(4) by (simp add: Catalog_Validate_def Let_def fail_if_None)
  ultimately show ?thesis
    using assms(2) wrap64_id [of "ctGeneration base + 1"] by (cases "ctGeneration base = 9223372036854775807") (auto simp: wrap64_def)
qed

text \<open>
  Laws of the directory: the merge of verified shards, the exchange of bundles over HTTP, the cache, and the rotation of
  trust anchors.
\<close>

subsection \<open>Shards\<close>

text \<open>An entry of a shard is in the composite, as it is or with the same canonical form.\<close>

definition represents :: "Entry list \<Rightarrow> Entry \<Rightarrow> bool" where
  "represents fs e \<longleftrightarrow> (\<exists>e'. find_entry fs (enCapability e) = Some e' \<and> (e' = e \<or> sameEntry e' e))"

definition agrees :: "Entry gomap \<Rightarrow> Entry list \<Rightarrow> bool" where
  "agrees m fs \<longleftrightarrow> distinct (capabilities fs) \<and> (\<forall>k. map_of m k = find_entry fs k)"

lemma represents_append: "represents fs e \<Longrightarrow> represents (fs @ gs) e"
  by (auto simp: represents_def find_append)

lemma agrees_append:
  "agrees m fs \<Longrightarrow> map_of m (enCapability e) = None \<Longrightarrow> agrees (AList.update (enCapability e) e m) (fs @ [e])"
  using find_entry_None [where es = fs and k = "enCapability e"]
  by (auto simp: agrees_def map_of_AList_update find_append split: option.splits)

lemma merge_entries_Inr:
  "merge_entries es (m, fs) = Inr (m', fs') \<Longrightarrow> agrees m fs \<Longrightarrow>
     agrees m' fs' \<and> (\<exists>gs. fs' = fs @ gs \<and> set gs \<subseteq> set es) \<and> (\<forall>e \<in> set es. represents fs' e)"
proof (induction es arbitrary: m fs)
  case (Cons e es)
  show ?case
  proof (cases "map_of m (enCapability e)")
    case None
    with Cons.prems have "merge_entries es (AList.update (enCapability e) e m, fs @ [e]) = Inr (m', fs')" by simp
    from Cons.IH [OF this agrees_append [OF Cons.prems(2) None]] obtain gs where
      r: "agrees m' fs'" "fs' = (fs @ [e]) @ gs" "set gs \<subseteq> set es" "\<forall>e \<in> set es. represents fs' e" by blast
    have "find_entry fs (enCapability e) = None" using None Cons.prems(2) by (simp add: agrees_def)
    then have "represents (fs @ [e]) e" by (simp add: represents_def find_append)
    then have "represents fs' e" unfolding r(2) by (rule represents_append)
    then show ?thesis using r by auto
  next
    case (Some p)
    with Cons.prems have m: "merge_entries es (m, fs) = Inr (m', fs')" "sameEntry p e" by (auto split: if_splits)
    from Cons.IH [OF m(1) Cons.prems(2)] obtain gs where
      r: "agrees m' fs'" "fs' = fs @ gs" "set gs \<subseteq> set es" "\<forall>e \<in> set es. represents fs' e" by blast
    have "represents fs e" using Some Cons.prems(2) m(2) by (auto simp: represents_def agrees_def)
    then have "represents fs' e" unfolding r(2) by (rule represents_append)
    then show ?thesis using r by auto
  qed
qed simp

text \<open>The composite of the shards merged so far.\<close>

definition joined :: "VerifiedSource list \<Rightarrow> string list \<Rightarrow> CompositeCatalog \<Rightarrow> bool" where
  "joined merged seen out \<longleftrightarrow>
     ccSources out = map vsName merged \<and> distinct (map vsName merged) \<and> set seen = vsName ` set merged \<and>
     (\<forall>src \<in> set merged. vsVerified src \<and> ctDomain (vsCatalog src) = ccDomain out \<and>
        ctCatalogID (vsCatalog src) = ccCatalogID out \<and> ctGeneration (vsCatalog src) = ccGeneration out \<and>
        (\<forall>e \<in> set (ctEntries (vsCatalog src)). represents (ccEntries out) e)) \<and>
     (\<forall>e \<in> set (ccEntries out). \<exists>src \<in> set merged. e \<in> set (ctEntries (vsCatalog src)))"

lemma joined_step:
  assumes "joined merged seen o1" "shard_identity (Some o1) src = Inr o1" "vsVerified src" "vsName src \<notin> set seen"
    "fs = ccEntries o1 @ gs" "set gs \<subseteq> set (ctEntries (vsCatalog src))" "\<forall>e \<in> set (ctEntries (vsCatalog src)). represents fs e"
  shows "joined (merged @ [src]) (vsName src # seen)
    (o1\<lparr>ccEntries := fs, ccSources := ccSources o1 @ [vsName src], ccSourceDigests := ds\<rparr>)"
  using assms represents_append by (fastforce simp: joined_def shard_identity_def Let_def split: if_splits)

lemma merge_shards_Inr:
  assumes "merge_shards srcs seen out m = Inr (seen', Some out')"
    "case out of None \<Rightarrow> merged = [] \<and> seen = [] \<and> m = [] | Some o1 \<Rightarrow> joined merged seen o1 \<and> agrees m (ccEntries o1)"
  shows "joined (merged @ srcs) seen' out' \<and> distinct (capabilities (ccEntries out'))"
  using assms
proof (induction srcs arbitrary: merged seen out m)
  case Nil
  then show ?case by (auto simp: agrees_def)
next
  case (Cons src srcs)
  from Cons.prems(1) obtain o1 m1 fs where s: "vsVerified src" "vsName src \<notin> set seen" "shard_identity out src = Inr o1"
    "merge_entries (ctEntries (vsCatalog src)) (m, ccEntries o1) = Inr (m1, fs)"
    "merge_shards srcs (vsName src # seen)
       (Some (o1\<lparr>ccEntries := fs, ccSources := ccSources o1 @ [vsName src],
          ccSourceDigests := AList.update (vsName src) (vrCatalogDigest (vsResult src)) (ccSourceDigests o1)\<rparr>)) m1 =
       Inr (seen', Some out')"
    by (auto split: if_splits sum.splits)
  have o1: "joined merged seen o1 \<and> agrees m (ccEntries o1)" "shard_identity (Some o1) src = Inr o1"
    using s(3) Cons.prems(2)
    by (auto simp: shard_identity_def Let_def joined_def agrees_def split: option.splits if_splits)
  from merge_entries_Inr [OF s(4) conjunct2 [OF o1(1)]] obtain gs where
    g: "agrees m1 fs" "fs = ccEntries o1 @ gs" "set gs \<subseteq> set (ctEntries (vsCatalog src))"
      "\<forall>e \<in> set (ctEntries (vsCatalog src)). represents fs e" by blast
  have "joined (merged @ [src]) (vsName src # seen) (o1\<lparr>ccEntries := fs, ccSources := ccSources o1 @ [vsName src],
      ccSourceDigests := AList.update (vsName src) (vrCatalogDigest (vsResult src)) (ccSourceDigests o1)\<rparr>)"
    using joined_step [OF conjunct1 [OF o1(1)] o1(2) s(1,2) g(2-4)] .
  then show ?case using Cons.IH [OF s(5), of "merged @ [src]"] g(1) by simp
qed

lemma ComposeVerified_Inr:
  assumes "ComposeVerified sources required = Inr out"
  obtains seen where "joined sources seen (out\<lparr>ccSources := map vsName sources\<rparr>)" "set required \<subseteq> vsName ` set sources"
    "distinct (capabilities (ccEntries out))" "sorted (capabilities (ccEntries out))" "ccSources out = sort (map vsName sources)"
proof -
  obtain seen o1 where o1: "merge_shards sources [] None [] = Inr (seen, Some o1)" "find (\<lambda>name. name \<notin> set seen) required = None"
    "out = o1\<lparr>ccSources := sort (ccSources o1), ccEntries := sort_key enCapability (ccEntries o1)\<rparr>"
    using assms by (auto simp: ComposeVerified_def Let_def split: sum.splits option.splits)
  have j: "joined sources seen o1" "distinct (capabilities (ccEntries o1))"
    using merge_shards_Inr [OF o1(1), of "[]"] by simp_all
  have d: "distinct (capabilities (sort_key enCapability (ccEntries o1)))" using j(2) by (simp add: distinct_map)
  have r: "represents (sort_key enCapability (ccEntries o1)) e \<longleftrightarrow> represents (ccEntries o1) e" for e
    unfolding represents_def find_entry_cong [OF d j(2) set_sort] ..
  have s: "set seen = vsName ` set sources" "ccSources o1 = map vsName sources" using j(1) by (simp_all add: joined_def)
  show thesis
    by (rule that [of seen]) (use j(1) d o1(2,3) s in \<open>auto simp: joined_def r find_None_iff\<close>)
qed

text \<open>
  The digests of the shards are not compared: two catalogs of one generation with different content are merged when they
  agree on their common capabilities.
\<close>

lemma compose_digests_differ:
  "\<exists>a b out. vrCatalogDigest (vsResult a) \<noteq> vrCatalogDigest (vsResult b) \<and> ComposeVerified [a, b] [] = Inr out"
proof -
  let ?src = "\<lambda>n. \<lparr>vsName = n, vsCatalog = zero_Catalog, vsResult = reject_catalog\<lparr>vrCatalogDigest := n\<rparr>, vsVerified = True\<rparr>"
  have "\<exists>out. ComposeVerified [?src ''a'', ?src ''b''] [] = Inr out"
    by (simp add: ComposeVerified_def shard_identity_def zero_Catalog_def)
  moreover have "vrCatalogDigest (vsResult (?src ''a'')) \<noteq> vrCatalogDigest (vsResult (?src ''b''))" by simp
  ultimately show ?thesis by blast
qed

subsection \<open>Exchange\<close>

text \<open>A client that talks to the handler of a bundle.\<close>

definition served :: "DirectoryBundle \<Rightarrow> string \<Rightarrow> string \<Rightarrow> string + int \<times> string" where
  "served b base url =
     (if prefix base url then
        (case Handler b (drop (length base) url) of None \<Rightarrow> Inr (404, ''404 page not found'') | Some body \<Rightarrow> Inr (200, body))
      else Inl ''no route to host'')"

lemma fetch_served:
  assumes "int (length body) \<le> maxArtifactBytes" "Handler b path = (if body = [] then None else Some body)"
  shows "fetch_path (served b base) base path = Inr body"
proof -
  have "take (nat (maxArtifactBytes + 1)) body = body" using assms(1) by (simp add: maxArtifactBytes_def)
  then show ?thesis using assms by (auto simp: fetch_path_def served_def Let_def)
qed

lemma FetchDirectory_served:
  assumes "dbSnapshot b \<noteq> []" "dbSnapshotSignature b \<noteq> []" "base = [] \<or> last base \<noteq> CHR ''/''"
    "\<forall>body \<in> {dbSnapshot b, dbSnapshotSignature b, dbDelta b, dbDeltaSignature b}. int (length body) \<le> maxArtifactBytes"
  shows "FetchDirectory (served b base) base = Inr b"
proof -
  have "rev (dropWhile (\<lambda>c. c = CHR ''/'') (rev base)) = base"
    using assms(3) by (cases base rule: rev_cases) auto
  moreover have "fetch_path (served b base) base ''/catalog'' = Inr (dbSnapshot b)"
    "fetch_path (served b base) base ''/catalog.p7s'' = Inr (dbSnapshotSignature b)"
    "fetch_path (served b base) base ''/delta'' = Inr (dbDelta b)"
    "fetch_path (served b base) base ''/delta.p7s'' = Inr (dbDeltaSignature b)"
    using assms(4) by (auto intro!: fetch_served simp: Handler_def Let_def)
  ultimately show ?thesis using assms(1,2) by (simp add: FetchDirectory_def Let_def)
qed

subsection \<open>Cache\<close>

text \<open>A bundle from the cache is within its time to live, or is served stale after a failed fetch and within that bound.\<close>

lemma Cache_Fetch_age:
  assumes "Cache_Fetch c fetch now = (Inr (b, cached, stale), c')"
  shows "cached \<Longrightarrow> c' = c \<and> b = chBundle c \<and> chFetched c \<noteq> zero_time \<and>
           (if stale then (\<exists>e. fetch = Inl e) \<and> (chMaxStale c = 0 \<or> Sub now (chFetched c) \<le> chMaxStale c)
            else Sub now (chFetched c) < chTTL c)"
    "\<not> cached \<Longrightarrow> fetch = Inr b \<and> \<not> stale \<and> chBundle c' = b \<and> chFetched c' = now"
  using assms by (auto simp: Cache_Fetch_def split: if_splits sum.splits)

subsection \<open>Rotation\<close>

text \<open>Once the overlap is over, only the next anchors verify a signature, and never a revoked key.\<close>

lemma rotation_retires:
  assumes "Rotation_VerifySigned cr r raw signature p s = (res, Inr c)" "parseTime (cpObservedAt p) = Some now"
    "roNext r \<noteq> []" "roOverlapUntil r \<le> now"
  shows "\<exists>cert. VerifyDetached cr signature raw = Inr (Some cert) \<and> admitted cr (roNext r) p c cert \<and>
           map_of (roRevokedKeys r) (cert_key cert) \<noteq> Some True"
proof -
  obtain roots where v: "RootsAt r now = Inr roots" "VerifySigned cr raw signature roots p s = (res, None)"
    "map_of (roRevokedKeys r) (vrSignerKeyID res) \<noteq> Some True" "ParseCatalog raw = Inr c"
    using assms(1,2) by (auto simp: Rotation_VerifySigned_def Let_def split: sum.splits prod.splits option.splits if_splits)
  have "roots = roNext r" using v(1) assms(3,4) by (auto simp: RootsAt_def split: option.splits if_splits)
  then show ?thesis using VerifySigned_None [OF v(2)] v(3,4) by (metis sum.inject(2))
qed

end
