(* ===== verification/Catalog_Example.thy ===== *)
theory Catalog_Example
  imports Catalog_Edits Scheme_Example
begin

text \<open>
  A first catalog, signed and accepted into an empty state, and a delta that adds an entry to it. As in the sample of
  scheme administration the digests stay symbolic.
\<close>

definition list_text :: "string list \<Rightarrow> string" where
  "list_text xs = ''['' @ join_with '','' xs @ '']''"

lemma tokens_brack:
  "tokens (CHR ''['' # rest) = TLBrack # tokens rest" "tokens (CHR '']'' # rest) = TRBrack # tokens rest"
  by (simp_all add: json_space_def next_token_def punct_def)

subsection \<open>The sample\<close>

definition tool_digest :: string where
  "tool_digest = DigestOfDeclaration tool_declaration"

definition run_entry :: Entry where
  "run_entry = \<lparr>enCapability = ''acme/tool-v1:tool:run'', enProvider = ''acme'', enScheme = ''acme/tool-v1'',
     enDeclarationDigest = tool_digest,
     enOperations = [\<lparr>coOperation = ''run'', coParams = Some [(''host'', JStr ''a'')]\<rparr>], enStatus = None\<rparr>"

definition stop_entry :: Entry where
  "stop_entry = \<lparr>enCapability = ''acme/tool-v1:tool:stop'', enProvider = ''acme'', enScheme = ''acme/tool-v1'',
     enDeclarationDigest = tool_digest,
     enOperations = [\<lparr>coOperation = ''stop'', coParams = Some [(''host'', JStr ''a'')]\<rparr>], enStatus = None\<rparr>"

definition sample_catalog :: Catalog where
  "sample_catalog = \<lparr>ctVersion = CatalogVersion, ctDomain = ''acme'', ctCatalogID = ''tools'', ctGeneration = 1,
     ctIssuedAt = ''2026-01-01T00:00:00Z'', ctValidUntil = ''2026-12-31T00:00:00Z'', ctPreviousDigest = [],
     ctProducer = ''principal:alice'', ctEntries = [run_entry]\<rparr>"

definition catalog_text :: string where
  "catalog_text = object_text
     [(''@version'', quoted CatalogVersion), (''generation'', ''1''), (''domain'', quoted ''acme''),
      (''catalog_id'', quoted ''tools''), (''issued_at'', quoted ''2026-01-01T00:00:00Z''),
      (''valid_until'', quoted ''2026-12-31T00:00:00Z''), (''producer'', quoted ''principal:alice''),
      (''entries'', list_text [object_text
         [(''capability'', quoted ''acme/tool-v1:tool:run''), (''provider'', quoted ''acme''),
          (''scheme'', quoted ''acme/tool-v1''), (''scheme_declaration_digest'', quoted tool_digest),
          (''operations'', list_text [object_text [(''operation'', quoted ''run''),
             (''params'', object_text [(''host'', quoted ''a'')])]])]])]"

definition catalog_digest :: string where
  "catalog_digest = sha_Digest (writeCanonicalJSON (json_of_Catalog sample_catalog))"

definition tool_params :: string where
  "tool_params = object_text [(''host'', quoted ''a'')]"

definition tool_grant :: Grant where
  "tool_grant = \<lparr>gID = ''acme/tool-v1:tool:*'', gParams = Some [(''host'', JStr ''a'')], gParamBounds = [], gConstraints = []\<rparr>"

definition catalog_aic :: AdminAIC where
  "catalog_aic = \<lparr>AIC.Capabilities = [\<lparr>FullID = ''acme/tool-v1:tool:*'', CapabilityId = ''tool:*'', Parameters = tool_params\<rparr>],
     AuthorizationConstraints = [], Identifier = ''alice'', Realm = ''acme'', KeyHash = Sum256 ''abc''\<rparr>"

definition catalog_crypto :: crypto where
  "catalog_crypto = sample_crypto\<lparr>ParseAIC := (\<lambda>cert. Inr (Some catalog_aic))\<rparr>"

definition catalog_policy :: CatTrustPolicy where
  "catalog_policy = \<lparr>cpDomain = ''acme'', cpCatalogID = ''tools'', cpProducer = [],
     cpSchemes = [(''acme/tool-v1'', tool_declaration)], cpMaxStalenessSeconds = 0, cpMaxStatusStalenessSeconds = 0,
     cpRequireStatus = False, cpStatusValues = [], cpStatusResolver = None, cpProviderBindings = [],
     cpObservedAt = ''2026-06-01T00:00:00Z''\<rparr>"

lemma tool_digest_sha: obtains enc where "tool_digest = sha_Digest enc"
proof -
  have "case Option.bind (parse_json tool_declaration) (\<lambda>t. if Check t then decode_text t else None) of
      Some (JObj m) \<Rightarrow> canon_ok (JObj (filter (\<lambda>x. fst x \<noteq> ''digest'') m)) | _ \<Rightarrow> False" by code_simp
  then obtain t m where p: "parse_json tool_declaration = Some t" "Check t" "decode_text t = Some (JObj m)"
    "canon_ok (JObj (filter (\<lambda>x. fst x \<noteq> ''digest'') m))"
    by (auto split: option.splits json.splits if_splits simp: bind_eq_Some_conv)
  then show ?thesis
    by (intro that) (simp add: tool_digest_def DigestOfDeclaration_def schemedecl_DigestOf_def CanonicalJSON_Inr [THEN iffD2]
        sha_Digest_def Let_def)
qed

lemma tool_digest_simps [simp]: "plain_text tool_digest" "rmatch digestRe tool_digest" "tool_digest \<noteq> []" "length tool_digest = 50"
  "checkCanonicalString tool_digest = None"
proof -
  obtain enc where e: "tool_digest = sha_Digest enc" by (rule tool_digest_sha)
  show "plain_text tool_digest" "rmatch digestRe tool_digest" "length tool_digest = 50" by (simp_all add: e sha_Digest_length)
  then show "tool_digest \<noteq> []" "checkCanonicalString tool_digest = None" by (auto intro: checkCanonicalString_plain)
qed

lemma catalog_json: "parse_json catalog_text = Some (XObj
     [(''@version'', XStr CatalogVersion), (''generation'', XNum ''1''), (''domain'', XStr ''acme''),
      (''catalog_id'', XStr ''tools''), (''issued_at'', XStr ''2026-01-01T00:00:00Z''),
      (''valid_until'', XStr ''2026-12-31T00:00:00Z''), (''producer'', XStr ''principal:alice''),
      (''entries'', XArr [XObj
         [(''capability'', XStr ''acme/tool-v1:tool:run''), (''provider'', XStr ''acme''),
          (''scheme'', XStr ''acme/tool-v1''), (''scheme_declaration_digest'', XStr tool_digest),
          (''operations'', XArr [XObj [(''operation'', XStr ''run''), (''params'', XObj [(''host'', XStr ''a'')])]])]])])"
proof -
  have p: "list_all plain_text [CatalogVersion, ''@version'', ''generation'', ''domain'', ''acme'', ''catalog_id'', ''tools'',
      ''issued_at'', ''2026-01-01T00:00:00Z'', ''valid_until'', ''2026-12-31T00:00:00Z'', ''producer'', ''principal:alice'',
      ''entries'', ''capability'', ''acme/tool-v1:tool:run'', ''provider'', ''scheme'', ''acme/tool-v1'',
      ''scheme_declaration_digest'', ''operations'', ''operation'', ''run'', ''params'', ''host'', ''a'']" by code_simp
  show ?thesis using p by (simp add: parse_json_def catalog_text_def printed list_text_def tokens_brack del: tokens.simps(2))
qed

lemma catalog_decoded: "cat_decodeClosed Catalog_fields zero_Catalog catalog_text = Inr sample_catalog"
proof -
  have len: "int (length catalog_text) \<le> maxArtifactBytes"
    by (simp add: catalog_text_def object_text_def list_text_def quoted_def maxArtifactBytes_def CatalogVersion_def)
  then show ?thesis
    by (simp add: cat_decodeClosed_def catalog_json Check_def decode_struct_def Catalog_fields_def Entry_fields_def
        CatOperation_fields_def find_field_def str_field_def int_field_def list_field_def map_field_def any_value_def
        atoi_one sample_catalog_def zero_Catalog_def zero_Entry_def run_entry_def)
qed

lemma entries_valid: "Entry_validate run_entry = None" "Entry_validate stop_entry = None"
proof -
  have "rmatch schemeRe ''acme/tool-v1''" "ValidateCapabilityID ''acme/tool-v1:tool:run'' = None"
    "ValidateCapabilityID ''acme/tool-v1:tool:stop'' = None" "trim_space ''acme'' = ''acme''" "\<not> has_blank ''acme''"
    "trim_space ''run'' = ''run''" "trim_space ''stop'' = ''stop''" "ValidateOperationParams [(''host'', JStr ''a'')] = None"
    by code_simp+
  then show "Entry_validate run_entry = None" "Entry_validate stop_entry = None"
    by (simp_all add: Entry_validate_def run_entry_def stop_entry_def Let_def del: rmatch.simps)
qed

lemma catalog_valid: "Catalog_Validate sample_catalog = None"
proof -
  have "rmatch nameRe ''acme''" "rmatch nameRe ''tools''" "rmatch principalRe ''principal:alice''"
    "window_error CodeCatalogShape ''2026-01-01T00:00:00Z'' ''2026-12-31T00:00:00Z'' = None" by code_simp+
  then show ?thesis by (simp add: Catalog_Validate_def sample_catalog_def entries_valid Let_def del: rmatch.simps)
qed

lemma catalog_parsed: "ParseCatalog catalog_text = Inr sample_catalog"
  by (simp add: ParseCatalog_def catalog_decoded catalog_valid)

lemma entry_strings: "list_all (\<lambda>s. checkCanonicalString s = None) [''@version'', ''domain'', ''catalog_id'', ''generation'',
    ''issued_at'', ''valid_until'', ''producer'', ''entries'', ''previous_digest'', ''capability'', ''provider'', ''scheme'',
    ''scheme_declaration_digest'', ''operations'', ''operation'', ''params'', ''host'', ''a'', ''run'', ''stop'', CatalogVersion,
    ''acme'', ''tools'', ''2026-01-01T00:00:00Z'', ''2026-12-31T00:00:00Z'', ''2026-05-01T00:00:00Z'', ''principal:alice'',
    ''acme/tool-v1'', ''acme/tool-v1:tool:run'', ''acme/tool-v1:tool:stop'']"
  by code_simp

lemmas json_forms = json_of_Catalog_def json_of_Entry_def json_of_CatOperation_def json_list_def struct_json_def

lemma catalog_canonical: "Catalog_Digest sample_catalog = Inr catalog_digest"
proof -
  have "canon_ok (json_of_Catalog sample_catalog)"
    using entry_strings
    by (simp add: canon_ok_def json_forms sample_catalog_def run_entry_def validate_strings_simps)
  then show ?thesis by (simp add: Catalog_Digest_def CanonicalDigest_ok catalog_digest_def)
qed

lemma catalog_digest_simps [simp]: "rmatch digestRe catalog_digest" "catalog_digest \<noteq> []" "checkCanonicalString catalog_digest = None"
  by (simp_all add: catalog_digest_def checkCanonicalString_plain digestRe_nonempty)


subsection \<open>The acceptance\<close>

lemma catalog_crypto_simps [simp]:
  "VerifyDetached catalog_crypto ''signature'' raw = Inr (Some sample_cert)"
  "x509_Verify catalog_crypto cert [sample_cert] now = None" "ParseAIC catalog_crypto cert = Inr (Some catalog_aic)"
  "ValidateAIC catalog_crypto aic = None" "ToLower catalog_crypto = (\<lambda>s. s)"
  by (simp_all add: catalog_crypto_def)

lemma catalog_policy_simps:
  "cat_ValidatePolicy catalog_policy = None"
  "map_sum (\<lambda>_. ()) (\<lambda>_. ()) (ParseDeclaration tool_declaration) = Inr ()"
  "policy_domains catalog_policy ''acme/tool-v1'' ''tool:run'' = []"
  by code_simp+

lemma pins: "checkDeclarationPins sample_catalog catalog_policy = None"
proof -
  obtain decl where "ParseDeclaration tool_declaration = Inr decl"
    using catalog_policy_simps(2) by (cases "ParseDeclaration tool_declaration") auto
  then show ?thesis
    using tool_digest_simps(3)
    by (simp add: checkDeclarationPins_def pin_error_def pinned_declaration_def sample_catalog_def run_entry_def
        catalog_policy_def tool_digest_def)
qed

lemma published: "checkAuthority catalog_crypto sample_catalog catalog_policy catalog_aic = None"
proof -
  have g: "grantFromAICCapability \<lparr>FullID = ''acme/tool-v1:tool:*'', CapabilityId = ''tool:*'', Parameters = tool_params\<rparr> = Some tool_grant"
    "coversGrantID ''acme/tool-v1:tool:*'' ''acme/tool-v1:tool:run''"
    "trim_prefix ''acme/tool-v1:'' ''acme/tool-v1:tool:run'' = ''tool:run''"
    "ContainsWithDomains (\<lambda>s. s) tool_grant \<lparr>gID = ''acme/tool-v1:tool:run'', gParams = Some [(''host'', JStr ''a'')],
       gParamBounds = [], gConstraints = []\<rparr> [] [] = None" by code_simp+
  then have "grantsFor catalog_aic ''acme/tool-v1:tool:run'' = [tool_grant]"
    by (simp add: grantsFor_def catalog_aic_def map_filter_def)
  then show ?thesis
    using g catalog_policy_simps(3)
    by (simp add: checkAuthority_def authority_error_def sample_catalog_def run_entry_def entry_capability_def
        Operation_Grant_def Let_def)
qed

lemma signer_ok: "verifySigner catalog_crypto sample_catalog (Some sample_cert) [Some sample_cert] now = Inr catalog_aic"
proof -
  have "Sum256 ''abc'' \<noteq> []" using Sum256_length [of "''abc''"] by (metis list.size(3) zero_neq_numeral)
  moreover have "trim_prefix ''principal:'' ''principal:alice'' = ''alice''" by code_simp
  ultimately have "signer_identity sample_catalog sample_cert catalog_aic = None"
    by (simp add: signer_identity_def catalog_aic_def sample_cert_def sample_catalog_def names_principal_def key_hash_nonzero)
  then show ?thesis by (simp add: verifySigner_def root_pool_def map_filter_def) (simp add: sample_cert_def)
qed

lemma catalog_fresh: "cat_checkFreshness sample_catalog catalog_policy = None" "checkStatus sample_catalog catalog_policy = None"
proof -
  let ?z = "zero_Catalog\<lparr>ctIssuedAt := ''2026-01-01T00:00:00Z'', ctValidUntil := ''2026-12-31T00:00:00Z''\<rparr>"
  have z: "ctIssuedAt ?z = ctIssuedAt sample_catalog" "ctValidUntil ?z = ctValidUntil sample_catalog"
    by (simp_all add: sample_catalog_def)
  have "cat_checkFreshness ?z catalog_policy = None" by code_simp
  then show "cat_checkFreshness sample_catalog catalog_policy = None" unfolding cat_checkFreshness_def z .
  have "parseTime ''2026-06-01T00:00:00Z'' \<noteq> None" by code_simp
  then show "checkStatus sample_catalog catalog_policy = None"
    by (auto simp: checkStatus_def status_error_def sample_catalog_def run_entry_def catalog_policy_def)
qed

abbreviation sample_verification :: Verification where
  "sample_verification \<equiv> \<lparr>vfCatalog = sample_catalog, vfSignerCert = Some sample_cert, vfRoots = [Some sample_cert],
     vfPolicy = catalog_policy, vfState = zero_CatState\<rparr>"

lemma catalog_decided: "cat_decide catalog_crypto sample_verification digest = None"
proof -
  obtain now where "parseTime (cpObservedAt catalog_policy) = Some now"
  proof -
    have "parseTime (cpObservedAt catalog_policy) \<noteq> None" by code_simp
    then show ?thesis by (auto intro: that)
  qed
  moreover have "ctDomain sample_catalog = cpDomain catalog_policy" "ctCatalogID sample_catalog = cpCatalogID catalog_policy"
    "cpProducer catalog_policy = []" "checkProviderBindings sample_catalog catalog_policy = None"
    "checkGeneration sample_catalog zero_CatState digest = None"
    by (simp_all add: sample_catalog_def catalog_policy_def checkProviderBindings_def checkGeneration_def identity_error_def
        zero_CatState_def)
  ultimately show ?thesis
    by (simp add: cat_decide_def catalog_policy_simps(1) catalog_valid signer_ok pins catalog_fresh published)
qed

definition catalog_result1 :: Result where
  "catalog_result1 = (bound_catalog catalog_crypto sample_verification)\<lparr>vrVerdict := VerdictAccept, vrSignatureVerified := True\<rparr>"

lemma catalog_verified:
  "VerifySigned catalog_crypto catalog_text ''signature'' [Some sample_cert] catalog_policy zero_CatState = (catalog_result1, None)"
proof -
  have "int (length catalog_text) \<le> maxArtifactBytes"
    by (simp add: catalog_text_def object_text_def list_text_def quoted_def maxArtifactBytes_def CatalogVersion_def)
  then show ?thesis
    by (simp add: VerifySigned_def catalog_parsed cat_verify_def catalog_decided catalog_result1_def)
qed

definition first_state :: CatState where
  "first_state = \<lparr>csDomain = ''acme'', csCatalogID = ''tools'', csProducer = ''principal:alice'', csGeneration = 1,
     csDigest = catalog_digest, csHistory = [\<lparr>grGeneration = 1, grDigest = catalog_digest\<rparr>]\<rparr>"

lemma catalog_accepted: "cat_Accept zero_CatState sample_catalog catalog_result1 = Inr first_state"
proof -
  have "vrCatalogDigest catalog_result1 = catalog_digest" "vrGeneration catalog_result1 = 1"
    "vrProducer catalog_result1 = ''principal:alice''" "vrSignatureVerified catalog_result1" "vrVerdict catalog_result1 = VerdictAccept"
    by (simp_all add: catalog_result1_def catalog_canonical digest_or_empty_def) (simp_all add: sample_catalog_def)
  moreover have "ctGeneration sample_catalog = 1" "ctProducer sample_catalog = ''principal:alice''"
    "identity_error zero_CatState sample_catalog = None" "advance_generation zero_CatState sample_catalog catalog_digest = None"
    "ctDomain sample_catalog = ''acme''" "ctCatalogID sample_catalog = ''tools''"
    by (simp_all add: sample_catalog_def identity_error_def advance_generation_def zero_CatState_def)
  moreover have "next_history zero_CatState 1 catalog_digest = [\<lparr>grGeneration = 1, grDigest = catalog_digest\<rparr>]"
    by (rule next_history_first) (simp add: cat_unbound_def zero_CatState_def)
  ultimately show ?thesis
    by (simp add: cat_Accept_def cat_advance_def catalog_valid catalog_canonical first_state_def cat_digestAt_def Let_def
        seq_err.simps
        zero_CatState_def [THEN arg_cong, of csGeneration] zero_CatState_def [THEN arg_cong, of csHistory])
qed

subsection \<open>A delta\<close>

definition second_catalog :: Catalog where
  "second_catalog = \<lparr>ctVersion = CatalogVersion, ctDomain = ''acme'', ctCatalogID = ''tools'', ctGeneration = 2,
     ctIssuedAt = ''2026-05-01T00:00:00Z'', ctValidUntil = ''2026-12-31T00:00:00Z'', ctPreviousDigest = catalog_digest,
     ctProducer = ''principal:alice'', ctEntries = [run_entry, stop_entry]\<rparr>"

definition second_digest :: string where
  "second_digest = sha_Digest (writeCanonicalJSON (json_of_Catalog second_catalog))"

definition sample_delta :: Delta where
  "sample_delta = \<lparr>dlVersion = DeltaVersion, dlDomain = ''acme'', dlCatalogID = ''tools'', dlBaseGeneration = 1,
     dlTargetGeneration = 2, dlBaseDigest = catalog_digest, dlTargetDigest = second_digest,
     dlIssuedAt = ''2026-05-01T00:00:00Z'', dlValidUntil = ''2026-12-31T00:00:00Z'', dlProducer = ''principal:alice'',
     dlAdd = [stop_entry], dlReplace = [], dlRemove = []\<rparr>"

lemma second_canonical: "Catalog_Digest second_catalog = Inr second_digest"
proof -
  have "canon_ok (json_of_Catalog second_catalog)"
    using entry_strings
    by (simp add: canon_ok_def json_forms second_catalog_def run_entry_def stop_entry_def validate_strings_simps)
  then show ?thesis by (simp add: Catalog_Digest_def CanonicalDigest_ok second_digest_def)
qed

lemma second_valid: "Catalog_Validate second_catalog = None"
proof -
  have "rmatch nameRe ''acme''" "rmatch nameRe ''tools''" "rmatch principalRe ''principal:alice''"
    "window_error CodeCatalogShape ''2026-05-01T00:00:00Z'' ''2026-12-31T00:00:00Z'' = None" by code_simp+
  moreover have "enCapability run_entry \<noteq> enCapability stop_entry" by (simp add: run_entry_def stop_entry_def)
  ultimately show ?thesis by (simp add: Catalog_Validate_def second_catalog_def entries_valid Let_def del: rmatch.simps)
qed

lemma delta_valid: "Delta_Validate sample_delta = None"
proof -
  have "rmatch nameRe ''acme''" "rmatch nameRe ''tools''" "rmatch principalRe ''principal:alice''"
    "window_error CodeDeltaShape ''2026-05-01T00:00:00Z'' ''2026-12-31T00:00:00Z'' = None" "wrap64 2 = 2" by code_simp+
  moreover have "rmatch digestRe second_digest" by (simp add: second_digest_def)
  moreover have "enCapability stop_entry \<noteq> []" by (simp add: stop_entry_def)
  ultimately show ?thesis
    by (simp add: Delta_Validate_def sample_delta_def delta_sides_def note_capability_def entries_valid Let_def del: rmatch.simps)
qed

lemma delta_applied: "Apply sample_catalog sample_delta = Inr second_catalog"
proof -
  have "enCapability run_entry \<noteq> enCapability stop_entry" "enCapability run_entry < enCapability stop_entry"
  proof -
    have "''acme/tool-v1:tool:run'' < ''acme/tool-v1:tool:stop''" by code_simp
    then show "enCapability run_entry < enCapability stop_entry" by (simp add: run_entry_def stop_entry_def)
    then show "enCapability run_entry \<noteq> enCapability stop_entry" by simp
  qed
  then have "apply_edits sample_delta [run_entry] = Inr [run_entry, stop_entry]"
    by (simp add: apply_edits_def sample_delta_def entry_map_def)
  moreover have "next_catalog sample_catalog sample_delta catalog_digest [run_entry, stop_entry] = second_catalog"
    by (simp add: next_catalog_def sample_catalog_def sample_delta_def second_catalog_def)
  moreover have "ctEntries sample_catalog = [run_entry]" "delta_base_error sample_catalog sample_delta catalog_digest = None"
    "dlTargetDigest sample_delta = second_digest"
    by (simp_all add: sample_catalog_def delta_base_error_def sample_delta_def)
  ultimately show ?thesis
    by (simp add: Apply_def delta_valid catalog_canonical second_canonical second_valid Let_def)
qed

definition second_state :: CatState where
  "second_state = first_state\<lparr>csGeneration := 2, csDigest := second_digest,
     csHistory := [\<lparr>grGeneration = 1, grDigest = catalog_digest\<rparr>, \<lparr>grGeneration = 2, grDigest = second_digest\<rparr>]\<rparr>"

lemma delta_accepted:
  "AcceptDelta first_state sample_catalog second_catalog
     (reject_catalog\<lparr>vrVerdict := VerdictAccept, vrDeltaVerified := True, vrCatalogDigest := second_digest, vrGeneration := 2,
        vrProducer := ''principal:alice''\<rparr>) = Inr second_state"
proof -
  have "next_history first_state (1 + 1) second_digest =
      csHistory first_state @ [\<lparr>grGeneration = csGeneration first_state + 1, grDigest = second_digest\<rparr>]"
    using next_history_append [of first_state] by (simp add: first_state_def)
  moreover have "wrap64 2 = 2" by code_simp
  moreover have "identity_error first_state second_catalog = None" "advance_generation first_state second_catalog second_digest = None"
    using calculation(2) by (simp_all add: identity_error_def first_state_def second_catalog_def advance_generation_def)
  moreover have "cat_digestAt first_state 2 = []" by (simp add: cat_digestAt_def first_state_def)
  ultimately show ?thesis
    by (simp add: AcceptDelta_def catalog_canonical second_canonical cat_advance_def second_valid Let_def seq_err.simps)
      (simp add: first_state_def sample_catalog_def second_catalog_def second_state_def reject_catalog_def)
qed

end
