(* ===== verification/Catalog_Publication.thy ===== *)
theory Catalog_Publication
  imports Catalog_Example
begin

text \<open>
  The properties of the catalog: what an update from a directory has verified, the accepted state over any sequence of
  updates, and the exact effect of a delta.
\<close>


definition sample_bundle :: DirectoryBundle where
  "sample_bundle = \<lparr>dbSnapshot = catalog_text, dbSnapshotSignature = ''signature'', dbDelta = [], dbDeltaSignature = []\<rparr>"

lemma sample_update:
  "Bundle_Apply catalog_crypto sample_bundle zero_Catalog [Some sample_cert] catalog_policy zero_CatState =
     (\<lparr>aoResult = catalog_result1, aoCatalog = Some sample_catalog, aoState = first_state, aoUsedDelta = False,
       aoDeltaError = None\<rparr>, None)"
  by (simp add: Bundle_Apply_def try_delta_def sample_bundle_def catalog_verified catalog_parsed catalog_accepted Let_def)


text \<open>
  C9. The accepted state of a catalog is append-only. Whatever catalogs and results \<open>Accept\<close> and \<open>AcceptDelta\<close> are called
  with, in a state reached from the empty one the history holds the generations from 1 to the head in order, and in every
  state reached later the history is an extension of it, the generation is not smaller, the identity (domain, catalog,
  producer) is the same, and every accepted generation still has its digest: there is no rollback, no gap and no fork.
\<close>

theorem catalog_append_only:
  assumes "cat_step\<^sup>*\<^sup>* zero_CatState s" "cat_step\<^sup>*\<^sup>* s t" "1 \<le> g" "g \<le> csGeneration s"
  shows "map grGeneration (csHistory s) = [1..csGeneration s] \<and> csDigest s = grDigest (last (csHistory s)) \<and>
    prefix (csHistory s) (csHistory t) \<and> csGeneration s \<le> csGeneration t \<and> same_identity s t \<and>
    cat_digestAt t g = cat_digestAt s g \<and> rmatch digestRe (cat_digestAt s (csGeneration s))"
proof -
  have i: "cat_inv s" using catalog_history.steps_inv [OF assms(1) zero_CatState_inv] .
  have j: "cat_inv t" using catalog_history.steps_inv [OF assms(2) i] .
  have h: "map grGeneration (csHistory s) = [1..csGeneration s]" "csDigest s = grDigest (last (csHistory s))"
    "rmatch digestRe (csDigest s)" using i assms(3,4) by (auto simp: cat_inv_def cat_unbound_def)
  have n: "same_identity s t" "csGeneration s \<le> csGeneration t" using cat_steps_identity [OF assms(2) i] assms(3,4) by auto
  have p: "prefix (csHistory s) (csHistory t)" using catalog_history.steps_prefix [OF assms(2) i] .
  have "nat (g - 1) < length (csHistory s)" using arg_cong [OF h(1), of length] assms(3,4) by simp
  then have "csHistory t ! nat (g - 1) = csHistory s ! nat (g - 1)" using p by (auto simp: prefix_def nth_append)
  then have "cat_digestAt t g = cat_digestAt s g"
    using cat_inv_digestAt [OF i assms(3,4)] cat_inv_digestAt [OF j assms(3)] assms(4) n(2) by simp
  then show ?thesis using h n p by (simp add: cat_digestAt_def)
qed

lemma sample_steps: "cat_step\<^sup>*\<^sup>* zero_CatState first_state" "cat_step\<^sup>*\<^sup>* first_state second_state"
  using accepted [OF catalog_accepted] accepted_delta [OF delta_accepted] by blast+

theorem catalog_append_only_witness:
  "map grGeneration (csHistory first_state) = [1] \<and> prefix (csHistory first_state) (csHistory second_state) \<and>
   csGeneration second_state = 2 \<and> same_identity first_state second_state \<and>
   cat_digestAt second_state 1 = cat_digestAt first_state 1"
proof -
  have "csGeneration first_state = 1" "csGeneration second_state = 2" by (simp_all add: first_state_def second_state_def)
  then show ?thesis using catalog_append_only [OF sample_steps, of 1] by simp
qed

text \<open>
  C19. A delta edits a catalog at exactly the capabilities it names. When \<open>Apply\<close> accepts a delta on a valid base, the
  next catalog finds no removed capability, the delta's own entry for an added or replaced capability and the base's
  entry for every other one; what is removed or replaced was there and what is added was not. Its entries are in the
  order of their capabilities without repetition, it has the next generation, names the digest of the base and has the
  digest the delta announced. The lookups are those of the index.
\<close>

theorem Apply_exact:
  assumes "Apply base d = Inr nxt" "Catalog_Validate base = None" "ctGeneration base \<le> 9223372036854775807"
  shows "indexed nxt k = (if k \<in> set (dlRemove d) then None
           else case find_entry (dlAdd d @ dlReplace d) k of Some e \<Rightarrow> Some e | None \<Rightarrow> indexed base k) \<and>
    (k \<in> set (dlRemove d) \<or> k \<in> set (capabilities (dlReplace d)) \<longrightarrow> indexed base k \<noteq> None) \<and>
    (k \<in> set (capabilities (dlAdd d)) \<longrightarrow> indexed base k = None) \<and>
    sorted (capabilities (ctEntries nxt)) \<and> distinct (capabilities (ctEntries nxt)) \<and>
    ctGeneration nxt = ctGeneration base + 1 \<and> Catalog_Digest base = Inr (ctPreviousDigest nxt) \<and>
    Catalog_Digest nxt = Inr (dlTargetDigest d)"
proof -
  obtain baseDigest where a: "Delta_Validate d = None" "Catalog_Digest base = Inr baseDigest"
    "apply_edits d (ctEntries base) = Inr (ctEntries nxt)" "nxt = next_catalog base d baseDigest (ctEntries nxt)"
    "Catalog_Digest nxt = Inr (dlTargetDigest d)"
    by (rule Apply_Inr [OF assms(1)]) (rule that; assumption)
  have "ctPreviousDigest nxt = baseDigest" by (subst a(4)) (simp add: next_catalog_def)
  note e = a(3) Catalog_Validate_distinct [OF assms(2)] Delta_Validate_distinct [OF a(1)]
  show ?thesis
    using apply_edits_Inr(1,2) [OF e] apply_edits_Inr(3-5) [OF e, of k] a(2,5) \<open>ctPreviousDigest nxt = baseDigest\<close>
      Apply_generation [OF assms(1,3)] unfolding indexed_scan by simp
qed

theorem Apply_exact_witness:
  "Apply sample_catalog sample_delta = Inr second_catalog \<and>
   indexed second_catalog ''acme/tool-v1:tool:stop'' = Some stop_entry \<and>
   indexed second_catalog ''acme/tool-v1:tool:run'' = indexed sample_catalog ''acme/tool-v1:tool:run'' \<and>
   indexed sample_catalog ''acme/tool-v1:tool:stop'' = None \<and> ctGeneration second_catalog = 2"
proof -
  have g: "ctGeneration sample_catalog = 1" by (simp add: sample_catalog_def)
  note x = Apply_exact [OF delta_applied catalog_valid, unfolded g]
  have "dlRemove sample_delta = []" "dlReplace sample_delta = []" "dlAdd sample_delta = [stop_entry]"
    "enCapability stop_entry = ''acme/tool-v1:tool:stop''" by (simp_all add: sample_delta_def stop_entry_def)
  then show ?thesis using x [of "''acme/tool-v1:tool:stop''"] x [of "''acme/tool-v1:tool:run''"] delta_applied by simp
qed

end
