(* ===== verification/Scheme_Schema.thy ===== *)
theory Scheme_Schema
  imports Capability_Id Domains Strict_Json
begin

text \<open>
  Scheme definitions and the registry that holds them (\<open>schema.go\<close>, \<open>registry.go\<close>, \<open>validator.go\<close> of the root package):
  the structs of a capability file, identifiers of schemes and capabilities, the coverage test of role grants, and the
  operations of the registry. The lock of the registry is not represented: every operation is one step.
  \<open>params_schema\<close> is a \<open>json.RawMessage\<close>; it is kept as the syntax tree of its bytes.
\<close>

subsection \<open>Structs\<close>

record ParameterDef =
  pdType :: string
  pdDescription :: string
  pdDefault :: json
  pdMin :: json
  pdMax :: json
  pdEnum :: "string list"
  pdRequired :: bool

record CapabilityEntry =
  ceID :: string
  ceDescription :: string
  ceParameters :: "ParameterDef gomap"
  ceParamsSchema :: "jtext option"
  ceSummary :: string
  ceUsage :: string
  ceWhenNot :: string
  ceExamples :: "string list"
  ceRelated :: "string list"

record RoleDef =
  rdDisplayName :: string
  rdProfiles :: "string list"
  rdGrants :: "string list"
  rdOUs :: "string list"

record SchemeDefinition =
  sdSchemeID :: string
  sdName :: string
  sdVersion :: string
  sdDescription :: string
  sdVendor :: string
  sdProduct :: string
  sdAuthor :: string
  sdLicense :: string
  sdHomepage :: string
  sdCapabilities :: "CapabilityEntry list"
  sdRoles :: "RoleDef gomap"

definition zero_ParameterDef :: ParameterDef where
  "zero_ParameterDef =
     \<lparr> pdType = [], pdDescription = [], pdDefault = JNull, pdMin = JNull, pdMax = JNull, pdEnum = [], pdRequired = False \<rparr>"

definition zero_CapabilityEntry :: CapabilityEntry where
  "zero_CapabilityEntry =
     \<lparr> ceID = [], ceDescription = [], ceParameters = [], ceParamsSchema = None, ceSummary = [], ceUsage = [],
       ceWhenNot = [], ceExamples = [], ceRelated = [] \<rparr>"

definition zero_RoleDef :: RoleDef where
  "zero_RoleDef = \<lparr> rdDisplayName = [], rdProfiles = [], rdGrants = [], rdOUs = [] \<rparr>"

definition zero_SchemeDefinition :: SchemeDefinition where
  "zero_SchemeDefinition =
     \<lparr> sdSchemeID = [], sdName = [], sdVersion = [], sdDescription = [], sdVendor = [], sdProduct = [], sdAuthor = [],
       sdLicense = [], sdHomepage = [], sdCapabilities = [], sdRoles = [] \<rparr>"

subsection \<open>Decoding\<close>

text \<open>\<open>json.Unmarshal\<close> into a struct: unlike the strict decoder it skips the members the struct does not have.\<close>

fun lax_members :: "'r fields \<Rightarrow> (string \<times> jtext) list \<Rightarrow> 'r \<Rightarrow> 'r option" where
  "lax_members fs [] r = Some r"
| "lax_members fs ((k, v) # ms) r =
     (case find_field fs k of
        None \<Rightarrow> lax_members fs ms r
      | Some d \<Rightarrow> Option.bind (d v r) (lax_members fs ms))"

definition lax_struct :: "'r fields \<Rightarrow> 'r setter" where
  "lax_struct fs t r = (case t of XNull \<Rightarrow> Some r | XObj ms \<Rightarrow> lax_members fs ms r | _ \<Rightarrow> None)"

definition any_field :: "(json \<Rightarrow> 'r \<Rightarrow> 'r) \<Rightarrow> 'r setter" where
  "any_field upd t r = map_option (\<lambda>v. upd v r) (decode_text t)"

definition str_elem :: "string setter" where
  "str_elem = str_field (\<lambda>s _. s)"

abbreviation strs_field :: "(string list \<Rightarrow> 'r \<Rightarrow> 'r) \<Rightarrow> 'r setter" where
  "strs_field \<equiv> list_field str_elem []"

definition lax_map :: "'a setter \<Rightarrow> 'a \<Rightarrow> ('r \<Rightarrow> 'a gomap) \<Rightarrow> ('a gomap \<Rightarrow> 'r \<Rightarrow> 'r) \<Rightarrow> 'r setter" where
  "lax_map elem zero get upd = map_field elem zero get (\<lambda>m. upd (case m of Some x \<Rightarrow> x | None \<Rightarrow> []))"

definition ParameterDef_fields :: "ParameterDef fields" where
  "ParameterDef_fields =
     [(''type'', str_field (\<lambda>s. pdType_update (\<lambda>_. s))),
      (''description'', str_field (\<lambda>s. pdDescription_update (\<lambda>_. s))),
      (''default'', any_field (\<lambda>v. pdDefault_update (\<lambda>_. v))),
      (''min'', any_field (\<lambda>v. pdMin_update (\<lambda>_. v))),
      (''max'', any_field (\<lambda>v. pdMax_update (\<lambda>_. v))),
      (''enum'', strs_field (\<lambda>xs. pdEnum_update (\<lambda>_. xs))),
      (''required'', bool_field (\<lambda>b. pdRequired_update (\<lambda>_. b)))]"

definition CapabilityEntry_fields :: "CapabilityEntry fields" where
  "CapabilityEntry_fields =
     [(''id'', str_field (\<lambda>s. ceID_update (\<lambda>_. s))),
      (''description'', str_field (\<lambda>s. ceDescription_update (\<lambda>_. s))),
      (''parameters'',
        lax_map (lax_struct ParameterDef_fields) zero_ParameterDef ceParameters (\<lambda>m. ceParameters_update (\<lambda>_. m))),
      (''params_schema'', \<lambda>t r. Some (ceParamsSchema_update (\<lambda>_. Some t) r)),
      (''summary'', str_field (\<lambda>s. ceSummary_update (\<lambda>_. s))),
      (''usage'', str_field (\<lambda>s. ceUsage_update (\<lambda>_. s))),
      (''when_not'', str_field (\<lambda>s. ceWhenNot_update (\<lambda>_. s))),
      (''examples'', strs_field (\<lambda>xs. ceExamples_update (\<lambda>_. xs))),
      (''related'', strs_field (\<lambda>xs. ceRelated_update (\<lambda>_. xs)))]"

definition RoleDef_fields :: "RoleDef fields" where
  "RoleDef_fields =
     [(''display_name'', str_field (\<lambda>s. rdDisplayName_update (\<lambda>_. s))),
      (''profiles'', strs_field (\<lambda>xs. rdProfiles_update (\<lambda>_. xs))),
      (''grants'', strs_field (\<lambda>xs. rdGrants_update (\<lambda>_. xs))),
      (''ous'', strs_field (\<lambda>xs. rdOUs_update (\<lambda>_. xs)))]"

definition SchemeDefinition_fields :: "SchemeDefinition fields" where
  "SchemeDefinition_fields =
     [(''scheme_id'', str_field (\<lambda>s. sdSchemeID_update (\<lambda>_. s))),
      (''name'', str_field (\<lambda>s. sdName_update (\<lambda>_. s))),
      (''version'', str_field (\<lambda>s. sdVersion_update (\<lambda>_. s))),
      (''description'', str_field (\<lambda>s. sdDescription_update (\<lambda>_. s))),
      (''vendor'', str_field (\<lambda>s. sdVendor_update (\<lambda>_. s))),
      (''product'', str_field (\<lambda>s. sdProduct_update (\<lambda>_. s))),
      (''author'', str_field (\<lambda>s. sdAuthor_update (\<lambda>_. s))),
      (''license'', str_field (\<lambda>s. sdLicense_update (\<lambda>_. s))),
      (''homepage'', str_field (\<lambda>s. sdHomepage_update (\<lambda>_. s))),
      (''capabilities'',
        list_field (lax_struct CapabilityEntry_fields) zero_CapabilityEntry (\<lambda>xs. sdCapabilities_update (\<lambda>_. xs))),
      (''roles'', lax_map (lax_struct RoleDef_fields) zero_RoleDef sdRoles (\<lambda>m. sdRoles_update (\<lambda>_. m)))]"

definition Unmarshal_scheme :: "string \<Rightarrow> SchemeDefinition option" where
  "Unmarshal_scheme data =
     Option.bind (parse_json data) (\<lambda>t. lax_struct SchemeDefinition_fields t zero_SchemeDefinition)"

subsection \<open>Identifiers\<close>

definition ParseSchemeID :: "string \<Rightarrow> (string \<times> string) option" where
  "ParseSchemeID schemeID =
     (let (v, rest) = span (\<lambda>c. c = CHR ''/'') schemeID
      in if rest = [] \<or> v = [] \<or> tl rest = [] then None else Some (v, tl rest))"

definition FormatSchemeID :: "string \<Rightarrow> string \<Rightarrow> string" where
  "FormatSchemeID vendor product = vendor @ ''/'' @ product"

definition isAlphaHyphen :: "int \<Rightarrow> bool" where
  "isAlphaHyphen c \<longleftrightarrow> byte_in 97 122 c \<or> byte_in 48 57 c \<or> c = 45"

datatype scheme_error =
    InvalidSchemeFormat | InvalidVendor | InvalidProduct
  | ReadFailed string | ParseFailed string | SchemeIDRequired string | AtPath string scheme_error
  | CapabilityRequired string | WalkFailed string | DuplicateScheme string | DirectoryRequired

definition ValidateSchemeID :: "string \<Rightarrow> scheme_error option" where
  "ValidateSchemeID schemeID =
     (case ParseSchemeID schemeID of
        None \<Rightarrow> Some InvalidSchemeFormat
      | Some (vendor, product) \<Rightarrow>
          seq_err [
            first_err (\<lambda>x. fail_if (\<not> isAlphaHyphen (fst x)) InvalidVendor) (runes (bytes vendor)),
            first_err (\<lambda>x. fail_if (\<not> isAlphaHyphen (fst x)) InvalidProduct) (runes (bytes product))])"

definition FormatCapability :: "string \<Rightarrow> string \<Rightarrow> string" where
  "FormatCapability schemeID capID = schemeID @ '':'' @ capID"

definition ParseCapability :: "string \<Rightarrow> (string \<times> string) option" where
  "ParseCapability s =
     (let (pre, fromSlash) = span (\<lambda>c. c = CHR ''/'') s;
          (mid, fromColon) = span (\<lambda>c. c = CHR '':'') fromSlash
      in if fromSlash = [] then None
         else if fromColon = [] then None
         else Some (pre @ mid, tl fromColon))"

definition ListCapabilities :: "SchemeDefinition \<Rightarrow> string list" where
  "ListCapabilities def = sort (map ceID (sdCapabilities def))"

subsection \<open>Coverage of role grants\<close>

definition MatchCapability :: "string \<Rightarrow> string \<Rightarrow> bool" where
  "MatchCapability cid pattern \<longleftrightarrow>
     cid = pattern \<or>
     (let parts = split_on (CHR '':'') pattern; pre = take (length pattern - 1) pattern
      in \<not> length parts < 2 \<and> last parts = ''*'' \<and> (\<forall>p \<in> set (butlast parts). \<not> contains_sub p ''*'') \<and>
         length pre < length cid \<and> prefix pre cid)"

definition grant_covered :: "string list \<Rightarrow> string \<Rightarrow> bool" where
  "grant_covered ids g \<longleftrightarrow> (\<exists>cid \<in> set ids. MatchCapability cid g)"

datatype role_error =
    EmptyRoleName | EmptyGrants string | UncoveredGrant string string

text \<open>One grant of a role: covered, a warning (a wildcard of another scheme), or an error.\<close>

definition grant_error :: "string list \<Rightarrow> string \<Rightarrow> string \<Rightarrow> role_error option" where
  "grant_error ids role g =
     (if grant_covered ids g \<or> contains_sub g ''*'' then None else Some (UncoveredGrant role g))"

definition role_errors :: "string list \<Rightarrow> string \<times> RoleDef \<Rightarrow> role_error list" where
  "role_errors ids x =
     (case x of (role, rd) \<Rightarrow>
        if role = [] then [EmptyRoleName]
        else if rdGrants rd = [] then [EmptyGrants role]
        else List.map_filter (grant_error ids role) (rdGrants rd))"

definition role_warnings :: "string list \<Rightarrow> string \<times> RoleDef \<Rightarrow> (string \<times> string) list" where
  "role_warnings ids x =
     (case x of (role, rd) \<Rightarrow>
        if role = [] \<or> rdGrants rd = [] then []
        else map (\<lambda>g. (role, g)) (filter (\<lambda>g. \<not> grant_covered ids g \<and> contains_sub g ''*'') (rdGrants rd)))"

definition ValidateSchemeRoles :: "SchemeDefinition option \<Rightarrow> role_error list \<times> (string \<times> string) list" where
  "ValidateSchemeRoles d =
     (case d of
        None \<Rightarrow> ([], [])
      | Some def \<Rightarrow>
          let ids = ListCapabilities def
          in (concat (map (role_errors ids) (sdRoles def)), concat (map (role_warnings ids) (sdRoles def))))"

subsection \<open>The registry\<close>

record SchemeTable =
  schemes :: "SchemeDefinition gomap"

definition NewRegistry :: SchemeTable where
  "NewRegistry = \<lparr> schemes = [] \<rparr>"

definition Register :: "SchemeTable \<Rightarrow> SchemeDefinition \<Rightarrow> scheme_error + SchemeTable" where
  "Register r def =
     (if has_key (schemes r) (sdSchemeID def) then Inl (DuplicateScheme (sdSchemeID def))
      else Inr (r\<lparr>schemes := AList.update (sdSchemeID def) def (schemes r)\<rparr>))"

definition Get :: "SchemeTable \<Rightarrow> string \<Rightarrow> SchemeDefinition option" where
  "Get r schemeID = map_of (schemes r) schemeID"

definition Has :: "SchemeTable \<Rightarrow> string \<Rightarrow> bool" where
  "Has r schemeID = has_key (schemes r) schemeID"

definition find_capability :: "SchemeDefinition \<Rightarrow> string \<Rightarrow> CapabilityEntry option" where
  "find_capability def capID = find (\<lambda>c. ceID c = capID) (sdCapabilities def)"

definition HasCapability :: "SchemeTable \<Rightarrow> string \<Rightarrow> string \<Rightarrow> bool" where
  "HasCapability r schemeID capID =
     (case map_of (schemes r) schemeID of
        None \<Rightarrow> False
      | Some def \<Rightarrow> list_ex (\<lambda>c. ceID c = capID) (sdCapabilities def))"

datatype cap_error = BadFormat | UnknownScheme string | UnknownCapability string string

definition ValidateCapability :: "SchemeTable \<Rightarrow> string \<Rightarrow> cap_error + SchemeDefinition \<times> CapabilityEntry" where
  "ValidateCapability r formatted =
     (case ParseCapability formatted of
        None \<Rightarrow> Inl BadFormat
      | Some (schemeID, capID) \<Rightarrow>
          (case Get r schemeID of
             None \<Rightarrow> Inl (UnknownScheme schemeID)
           | Some def \<Rightarrow>
               (case find_capability def capID of
                  None \<Rightarrow> Inl (UnknownCapability capID schemeID)
                | Some c \<Rightarrow> Inr (def, c))))"

definition SchemeIDs :: "SchemeTable \<Rightarrow> string list" where
  "SchemeIDs r = sort (gokeys (schemes r))"

record ValidationResult =
  vrValid :: bool
  vrErrors :: "(string \<times> cap_error) list"
  vrWarnings :: "string list"
  vrChecked :: int

definition refuse :: "string \<Rightarrow> cap_error \<Rightarrow> ValidationResult \<Rightarrow> ValidationResult" where
  "refuse c e v = v\<lparr>vrValid := False, vrErrors := vrErrors v @ [(c, e)]\<rparr>"

definition check_capability :: "SchemeTable \<Rightarrow> ValidationResult \<Rightarrow> string \<Rightarrow> ValidationResult" where
  "check_capability r v0 c =
     (let v = v0\<lparr>vrChecked := vrChecked v0 + 1\<rparr>
      in case ParseCapability c of
           None \<Rightarrow> refuse c BadFormat v
         | Some (schemeID, capID) \<Rightarrow>
             (case Get r schemeID of
                None \<Rightarrow> refuse c (UnknownScheme schemeID) v
              | Some def \<Rightarrow>
                  if list_ex (\<lambda>e. ceID e = capID) (sdCapabilities def) then v
                  else refuse c (UnknownCapability capID schemeID) v))"

definition ValidateCapabilities :: "SchemeTable \<Rightarrow> string list \<Rightarrow> ValidationResult" where
  "ValidateCapabilities r caps =
     foldl (check_capability r) \<lparr> vrValid = True, vrErrors = [], vrWarnings = [], vrChecked = 0 \<rparr> caps"

text \<open>
  The set operations compare capabilities by \<open>strings.ToLower\<close>; the mapping of letters outside ASCII is the argument \<open>lower\<close>.
\<close>

definition CheckSubset :: "(string \<Rightarrow> string) \<Rightarrow> string list \<Rightarrow> string list \<Rightarrow> string list" where
  "CheckSubset lower declared allowed =
     (let allowedSet = map (ToLower lower) allowed
      in filter (\<lambda>d. ToLower lower d \<notin> set allowedSet) declared)"

definition CheckIntersection :: "(string \<Rightarrow> string) \<Rightarrow> string list \<Rightarrow> string list \<Rightarrow> string list" where
  "CheckIntersection lower setA setB =
     (let setBMap = map (ToLower lower) setB
      in filter (\<lambda>a. ToLower lower a \<in> set setBMap) setA)"

definition FilterByScheme :: "(string \<Rightarrow> string) \<Rightarrow> string list \<Rightarrow> string \<Rightarrow> string list" where
  "FilterByScheme lower caps schemeID =
     (let pre = schemeID @ '':''
      in filter (\<lambda>c. prefix (ToLower lower pre) (ToLower lower c)) caps)"

fun dedup_loop :: "(string \<Rightarrow> string) \<Rightarrow> string set \<Rightarrow> string list \<Rightarrow> string list" where
  "dedup_loop lower seen [] = []"
| "dedup_loop lower seen (c # cs) =
     (if ToLower lower c \<in> seen then dedup_loop lower seen cs
      else c # dedup_loop lower (insert (ToLower lower c) seen) cs)"

definition Deduplicate :: "(string \<Rightarrow> string) \<Rightarrow> string list \<Rightarrow> string list" where
  "Deduplicate lower caps = dedup_loop lower {} caps"

definition ValidateRoles :: "SchemeTable \<Rightarrow> string \<Rightarrow> cap_error + string list" where
  "ValidateRoles r schemeID =
     (case Get r schemeID of
        None \<Rightarrow> Inl (UnknownScheme schemeID)
      | Some def \<Rightarrow>
          let ids = ListCapabilities def
          in Inr (concat (map (\<lambda>(role, rd). map (\<lambda>g. role @ '':'' @ g) (filter (\<lambda>g. \<not> grant_covered ids g) (rdGrants rd)))
                           (sdRoles def))))"

definition RoleGrantCovered :: "SchemeTable \<Rightarrow> string \<Rightarrow> string \<Rightarrow> bool" where
  "RoleGrantCovered r schemeID grant =
     (case Get r schemeID of
        None \<Rightarrow> False
      | Some def \<Rightarrow> grant_covered (ListCapabilities def) grant)"

end
