(* ===== verification/Params_Contract.thy ===== *)
theory Params_Contract
  imports Scheme_Schema Rule_Conditions
begin

text \<open>
  The parameter contract of a capability (\<open>flatparams.go\<close>, \<open>jsonschema.go\<close>, the parameter part of \<open>mincap.go\<close>): flat
  parameter definitions, the JSON Schema subset of \<open>params_schema\<close>, and \<open>ValidateParams\<close>, which chooses between them.

  Errors are values: the codes of \<open>FieldError\<close> and \<open>SchemaError\<close> are kept, the message text is the constructor
  that stands for it (\<open>schemaErrorCode\<close> decides by the beginning of the message, that is by the constructor). A nil map of
  parameters is the empty map; \<open>json.Number\<close>, which no decoder of the sources produces here, is not represented.
\<close>

subsection \<open>Values\<close>

definition asFloat :: "json \<Rightarrow> f64 option" where
  "asFloat v =
     (case v of
        JNum f \<Rightarrow> Some f
      | JInt c i \<Rightarrow> if c = CInt \<or> c = CInt64 then Some (f64_of_int i) else None
      | _ \<Rightarrow> None)"

definition asJSONNumber :: "json \<Rightarrow> f64 option" where
  "asJSONNumber v = asFloat v"

definition mem_obj :: "obj \<Rightarrow> string \<Rightarrow> obj option" where
  "mem_obj m k = (case map_of m k of Some (JObj o') \<Rightarrow> Some o' | _ \<Rightarrow> None)"

definition mem_arr :: "obj \<Rightarrow> string \<Rightarrow> json list option" where
  "mem_arr m k = (case map_of m k of Some (JArr xs) \<Rightarrow> Some xs | _ \<Rightarrow> None)"

definition mem_str :: "obj \<Rightarrow> string \<Rightarrow> string option" where
  "mem_str m k = (case map_of m k of Some (JStr s) \<Rightarrow> Some s | _ \<Rightarrow> None)"

definition mem_num :: "obj \<Rightarrow> string \<Rightarrow> f64 option" where
  "mem_num m k = (case map_of m k of Some (JNum f) \<Rightarrow> Some f | _ \<Rightarrow> None)"

subsection \<open>Schema errors\<close>

datatype schema_error =
    UnsupportedRef string | NoDefs string | RefNotFound string | RefNesting
  | MustEqual json | MustBeOneOf "json list" | WrongType string | UnsupportedType string
  | BelowMinimum f64 | AboveMaximum f64
  | MissingProperty string | AdditionalProperty string | AtProperty string schema_error
  | AtItem nat schema_error | TooFewItems f64 | TooManyItems f64 | DuplicateItem nat
  | NoSchemaMatches "schema_error option" | MustNotMatch

datatype param_code = invalid_params_binding | params_out_of_range | not_in_enum

definition schemaErrorCode :: "schema_error \<Rightarrow> param_code" where
  "schemaErrorCode e =
     (case e of
        MustBeOneOf _ \<Rightarrow> not_in_enum
      | BelowMinimum _ \<Rightarrow> params_out_of_range
      | AboveMaximum _ \<Rightarrow> params_out_of_range
      | _ \<Rightarrow> invalid_params_binding)"

subsection \<open>The schema validator\<close>

definition maxSchemaRefDepth :: int where
  "maxSchemaRefDepth = 100"

definition schemaDefs :: "obj \<Rightarrow> obj option" where
  "schemaDefs schema = mem_obj schema ''$defs''"

definition resolveRef :: "string \<Rightarrow> obj option \<Rightarrow> schema_error + obj" where
  "resolveRef ref defs =
     (if \<not> prefix ''#/$defs/'' ref then Inl (UnsupportedRef ref)
      else
        let name = trim_prefix ''#/$defs/'' ref
        in case defs of
             None \<Rightarrow> Inl (NoDefs ref)
           | Some ds \<Rightarrow> (case mem_obj ds name of None \<Rightarrow> Inl (RefNotFound ref) | Some target \<Rightarrow> Inr target))"

definition checkType :: "string \<Rightarrow> json \<Rightarrow> schema_error option" where
  "checkType t v =
     (if t = ''object'' then fail_if (\<not> (case v of JObj _ \<Rightarrow> True | _ \<Rightarrow> False)) (WrongType t)
      else if t = ''array'' then fail_if (\<not> (case v of JArr _ \<Rightarrow> True | _ \<Rightarrow> False)) (WrongType t)
      else if t = ''string'' then fail_if (\<not> (case v of JStr _ \<Rightarrow> True | _ \<Rightarrow> False)) (WrongType t)
      else if t = ''integer'' then
        fail_if (case asFloat v of None \<Rightarrow> True | Some n \<Rightarrow> \<not> f64_eq (f64_trunc n) n) (WrongType t)
      else if t = ''number'' then fail_if (asFloat v = None) (WrongType t)
      else if t = ''boolean'' then fail_if (\<not> (case v of JBool _ \<Rightarrow> True | _ \<Rightarrow> False)) (WrongType t)
      else Some (UnsupportedType t))"

definition const_error :: "obj \<Rightarrow> json \<Rightarrow> schema_error option" where
  "const_error schema value =
     (case map_of schema ''const'' of
        None \<Rightarrow> None
      | Some c \<Rightarrow> fail_if (\<not> deep_equal c value) (MustEqual c))"

definition enum_keyword_error :: "obj \<Rightarrow> json \<Rightarrow> schema_error option" where
  "enum_keyword_error schema value =
     (case mem_arr schema ''enum'' of
        None \<Rightarrow> None
      | Some e \<Rightarrow> fail_if (\<not> list_ex (\<lambda>cand. deep_equal cand value) e) (MustBeOneOf e))"

definition type_error :: "obj \<Rightarrow> json \<Rightarrow> schema_error option" where
  "type_error schema value = (case mem_str schema ''type'' of None \<Rightarrow> None | Some t \<Rightarrow> checkType t value)"

definition range_error :: "obj \<Rightarrow> json \<Rightarrow> schema_error option" where
  "range_error schema value =
     (case asFloat value of
        None \<Rightarrow> None
      | Some n \<Rightarrow>
          seq_err [
            (case mem_num schema ''minimum'' of None \<Rightarrow> None | Some mn \<Rightarrow> fail_if (f64_less n mn) (BelowMinimum mn)),
            (case mem_num schema ''maximum'' of None \<Rightarrow> None | Some mx \<Rightarrow> fail_if (f64_less mx n) (AboveMaximum mx))])"

definition schema_props :: "obj \<Rightarrow> obj" where
  "schema_props schema = (case mem_obj schema ''properties'' of None \<Rightarrow> [] | Some p \<Rightarrow> p)"

definition required_error :: "obj \<Rightarrow> obj \<Rightarrow> schema_error option" where
  "required_error schema ob =
     (case mem_arr schema ''required'' of
        None \<Rightarrow> None
      | Some req \<Rightarrow>
          first_err (\<lambda>r. let name = (case r of JStr s \<Rightarrow> s | _ \<Rightarrow> []) in fail_if (\<not> has_key ob name) (MissingProperty name)) req)"

definition undeclared_error :: "obj \<Rightarrow> obj \<Rightarrow> schema_error option" where
  "undeclared_error props ob = first_err (\<lambda>x. fail_if (\<not> has_key props (fst x)) (AdditionalProperty (fst x))) ob"

text \<open>\<open>additionalProperties\<close> where it asks for no validation: absent, or a boolean.\<close>

definition closed_error :: "obj \<Rightarrow> obj \<Rightarrow> schema_error option" where
  "closed_error schema ob =
     (let props = schema_props schema
      in case map_of schema ''additionalProperties'' of
           None \<Rightarrow> if props = [] then None else undeclared_error props ob
         | Some (JBool b) \<Rightarrow> if b then None else undeclared_error props ob
         | _ \<Rightarrow> None)"

fun duplicate_from :: "nat \<Rightarrow> json \<Rightarrow> json list \<Rightarrow> nat option" where
  "duplicate_from j x [] = None"
| "duplicate_from j x (y # ys) = (if deep_equal x y then Some j else duplicate_from (j + 1) x ys)"

fun duplicate_item :: "nat \<Rightarrow> json list \<Rightarrow> nat option" where
  "duplicate_item i [] = None"
| "duplicate_item i (x # xs) =
     (case duplicate_from (i + 1) x xs of Some j \<Rightarrow> Some j | None \<Rightarrow> duplicate_item (i + 1) xs)"

definition cardinality_keyword_error :: "obj \<Rightarrow> json list \<Rightarrow> schema_error option" where
  "cardinality_keyword_error schema arr =
     (let n = f64_of_int (int (length arr))
      in seq_err [
        (case mem_num schema ''minItems'' of None \<Rightarrow> None | Some mn \<Rightarrow> fail_if (f64_less n mn) (TooFewItems mn)),
        (case mem_num schema ''maxItems'' of None \<Rightarrow> None | Some mx \<Rightarrow> fail_if (f64_less mx n) (TooManyItems mx)),
        (if map_of schema ''uniqueItems'' = Some (JBool True) then map_option DuplicateItem (duplicate_item 0 arr) else None)])"

text \<open>The loop over \<open>oneOf\<close>: the outcome of each branch that is an object; the first that accepts ends it.\<close>

fun one_of :: "schema_error option option list \<Rightarrow> schema_error option \<Rightarrow> schema_error option" where
  "one_of [] lastErr = Some (NoSchemaMatches lastErr)"
| "one_of (None # rs) lastErr = one_of rs lastErr"
| "one_of (Some None # rs) lastErr = None"
| "one_of (Some (Some e) # rs) lastErr = one_of rs (Some e)"

lemma mem_obj_Some: "mem_obj m k = Some n \<longleftrightarrow> map_of m k = Some (JObj n)"
  by (auto simp: mem_obj_def split: option.splits json.splits)

lemma mem_arr_Some: "mem_arr m k = Some n \<longleftrightarrow> map_of m k = Some (JArr n)"
  by (auto simp: mem_arr_def split: option.splits json.splits)

lemma mem_obj_size: "mem_obj m k = Some n \<Longrightarrow> size (JObj n) < size (JObj m)"
  using json_size_map_of [of m k "JObj n"] by (simp add: mem_obj_Some)

lemma props_size: "(name, JObj sub) \<in> set (schema_props schema) \<Longrightarrow> size (JObj sub) < size (JObj schema)"
proof -
  assume a: "(name, JObj sub) \<in> set (schema_props schema)"
  then obtain p where p: "mem_obj schema ''properties'' = Some p" and in_p: "(name, JObj sub) \<in> set p"
    by (cases "mem_obj schema ''properties''") (auto simp: schema_props_def)
  show ?thesis using json_size_obj [OF in_p] mem_obj_size [OF p] by simp
qed

lemma arr_size: "mem_arr m k = Some xs \<Longrightarrow> x \<in> set xs \<Longrightarrow> size x < size (JObj m)"
  using json_size_map_of [of m k "JArr xs"] size_list_estimation' [of x xs "size x" size]
  by (auto simp: mem_arr_Some)

text \<open>
  \<open>validate\<close>: the recursion ends because every subschema is smaller than its schema, except after a reference, and at most
  \<open>maxSchemaRefDepth\<close> references are followed on one path.
\<close>

function validate :: "obj option \<Rightarrow> int \<Rightarrow> obj \<Rightarrow> json \<Rightarrow> schema_error option" where
  "validate defs depth schema value =
     (case mem_str schema ''$ref'' of
        Some ref \<Rightarrow>
          (case resolveRef ref defs of
             Inl e \<Rightarrow> Some e
           | Inr target \<Rightarrow>
               if maxSchemaRefDepth \<le> depth then Some RefNesting else validate defs (depth + 1) target value)
      | None \<Rightarrow>
          seq_err [
            const_error schema value,
            enum_keyword_error schema value,
            type_error schema value,
            range_error schema value,
            (case value of
               JObj ob \<Rightarrow>
                 seq_err [
                   required_error schema ob,
                   first_err (\<lambda>x.
                       case map_of ob (fst x) of
                         None \<Rightarrow> None
                       | Some pv \<Rightarrow>
                           (case snd x of
                              JObj sub \<Rightarrow> map_option (AtProperty (fst x)) (validate defs (depth + 1) sub pv)
                            | _ \<Rightarrow> None)) (schema_props schema),
                   closed_error schema ob,
                   (case mem_obj schema ''additionalProperties'' of
                      None \<Rightarrow> None
                    | Some apv \<Rightarrow>
                        first_err (\<lambda>x.
                            if has_key (schema_props schema) (fst x) then None
                            else map_option (AtProperty (fst x)) (validate defs (depth + 1) apv (snd x))) ob)]
             | _ \<Rightarrow> None),
            (case value of
               JArr arr \<Rightarrow>
                 seq_err [
                   (case mem_obj schema ''items'' of
                      None \<Rightarrow> None
                    | Some items \<Rightarrow>
                        first_err (\<lambda>x. map_option (AtItem (fst x)) (validate defs (depth + 1) items (snd x)))
                          (enumerate 0 arr)),
                   cardinality_keyword_error schema arr]
             | _ \<Rightarrow> None),
            (case mem_arr schema ''oneOf'' of
               None \<Rightarrow> None
             | Some branches \<Rightarrow>
                 one_of (map (\<lambda>b. case b of JObj sub \<Rightarrow> Some (validate defs (depth + 1) sub value) | _ \<Rightarrow> None) branches) None),
            (case mem_obj schema ''not'' of
               None \<Rightarrow> None
             | Some n \<Rightarrow> fail_if (validate defs (depth + 1) n value = None) MustNotMatch)])"
  by pat_completeness auto
termination
proof (relation "measures [\<lambda>(defs, depth, schema, value). nat (maxSchemaRefDepth - depth),
                           \<lambda>(defs, depth, schema, value). size (JObj schema)]", goal_cases)
  case 1
  show ?case by simp
qed (use mem_obj_size props_size arr_size in \<open>fastforce simp: nat_diff_distrib' maxSchemaRefDepth_def\<close>)+

declare validate.simps [simp del]

subsection \<open>Contracts of a capability\<close>

datatype param_error =
    FieldError string param_code
  | SchemaError param_code schema_error
  | BadParamsSchema
  | MissingRequired string string
  | UnknownParameter string string
  | AtParameter string string param_error
  | CapabilityNotFound string
  | UnknownSchemeID string

definition validateParamsSchema :: "jtext \<Rightarrow> obj \<Rightarrow> param_error option" where
  "validateParamsSchema raw params =
     (case (case raw of XNull \<Rightarrow> Some [] | XObj _ \<Rightarrow> (case decode_text raw of Some (JObj m) \<Rightarrow> Some m | _ \<Rightarrow> None) | _ \<Rightarrow> None) of
        None \<Rightarrow> Some BadParamsSchema
      | Some schema \<Rightarrow>
          map_option (\<lambda>e. SchemaError (schemaErrorCode e) e) (validate (schemaDefs schema) 0 schema (JObj params)))"

definition in_enum :: "ParameterDef \<Rightarrow> string \<Rightarrow> string \<Rightarrow> param_error option" where
  "in_enum pd key s = fail_if (pdEnum pd \<noteq> [] \<and> s \<notin> set (pdEnum pd)) (FieldError key not_in_enum)"

definition validateFlatParamValue :: "ParameterDef \<Rightarrow> string \<Rightarrow> json \<Rightarrow> param_error option" where
  "validateFlatParamValue pd key value =
     (if pdType pd = ''int'' then
        (case asJSONNumber value of
           None \<Rightarrow> Some (FieldError key invalid_params_binding)
         | Some n \<Rightarrow>
             seq_err [
               (case asFloat (pdMin pd) of None \<Rightarrow> None | Some mn \<Rightarrow> fail_if (f64_less n mn) (FieldError key params_out_of_range)),
               (case asFloat (pdMax pd) of None \<Rightarrow> None | Some mx \<Rightarrow> fail_if (f64_less mx n) (FieldError key params_out_of_range))])
      else if pdType pd = ''bool'' then
        (case value of JBool _ \<Rightarrow> None | _ \<Rightarrow> Some (FieldError key invalid_params_binding))
      else if pdType pd = ''string'' then
        (case value of JStr s \<Rightarrow> in_enum pd key s | _ \<Rightarrow> Some (FieldError key invalid_params_binding))
      else if pdType pd = ''list'' then
        (case value of
           JArr arr \<Rightarrow>
             first_err (\<lambda>e. case e of JStr s \<Rightarrow> in_enum pd key s | _ \<Rightarrow> Some (FieldError key invalid_params_binding)) arr
         | _ \<Rightarrow> Some (FieldError key invalid_params_binding))
      else if pdType pd = [] then None
      else Some (FieldError key invalid_params_binding))"

definition validateFlatParamRequired :: "CapabilityEntry \<Rightarrow> obj \<Rightarrow> param_error option" where
  "validateFlatParamRequired entry params =
     first_err (\<lambda>(k, pd). fail_if (pdRequired pd \<and> \<not> has_key params k) (MissingRequired k (ceID entry)))
       (ceParameters entry)"

record CapabilityClaim =
  ccSchemeID :: string
  ccCapability :: string
  ccParameters :: obj
  ccRationale :: string
  ccSchemeVersion :: string

definition validateClaimParams :: "SchemeDefinition \<Rightarrow> CapabilityClaim \<Rightarrow> param_error option" where
  "validateClaimParams def c =
     (case find_capability def (ccCapability c) of
        None \<Rightarrow> fail_if (ccParameters c \<noteq> []) (CapabilityNotFound (ccCapability c))
      | Some entry \<Rightarrow>
          (case ceParamsSchema entry of
             Some raw \<Rightarrow> validateParamsSchema raw (ccParameters c)
           | None \<Rightarrow>
               seq_err [
                 validateFlatParamRequired entry (ccParameters c),
                 first_err (\<lambda>(k, v).
                     case map_of (ceParameters entry) k of
                       None \<Rightarrow> Some (UnknownParameter k (ccCapability c))
                     | Some pd \<Rightarrow> map_option (AtParameter k (ccCapability c)) (validateFlatParamValue pd k v))
                   (ccParameters c)]))"

definition ValidateParams :: "SchemeTable \<Rightarrow> string \<Rightarrow> string \<Rightarrow> obj \<Rightarrow> param_error option" where
  "ValidateParams r scheme capability params =
     (case Get r scheme of
        None \<Rightarrow> Some (UnknownSchemeID scheme)
      | Some def \<Rightarrow>
          validateClaimParams def
            \<lparr> ccSchemeID = scheme, ccCapability = capability, ccParameters = params, ccRationale = [], ccSchemeVersion = [] \<rparr>)"

end
