(* ===== verification/Params_Laws.thy ===== *)
theory Params_Laws
  imports Params_Contract
begin

text \<open>
  Laws of the parameter contract: \<open>reflect.DeepEqual\<close> is an equivalence on decoded values, the verdict of the schema
  validator does not depend on the iteration order of any map, cycles of references are refused, and the flat contract.
\<close>

subsection \<open>Deep equality\<close>

text \<open>
  On well-formed objects deep equality is a relation between the two maps. Decoded values are well-formed and
  finite, so it is an equivalence on them.
\<close>

lemma deep_equal_list: "list_all (\<lambda>(x, y). deep_equal x y) (zip xs ys) \<and> length xs = length ys \<longleftrightarrow> list_all2 deep_equal xs ys"
  by (auto simp: list_all2_iff list_all_iff)

lemma deep_equal_arrD:
  assumes "deep_equal (JArr xs) y"
  obtains ys where "y = JArr ys" and "list_all2 deep_equal xs ys"
  using assms deep_equal_list by (cases y) auto

lemma deep_equal_arr: "deep_equal (JArr xs) (JArr ys) \<longleftrightarrow> list_all2 deep_equal xs ys"
  using deep_equal_list by auto

lemma deep_equal_objD: "deep_equal (JObj m) y \<Longrightarrow> \<exists>n. y = JObj n"
  by (cases y) auto

lemma key_map_of: "k \<in> set (gokeys m) \<longleftrightarrow> map_of m k \<noteq> None"
  by (simp add: map_of_eq_None_iff)

definition map_rel :: "obj \<Rightarrow> obj \<Rightarrow> bool" where
  "map_rel m n \<longleftrightarrow> (\<forall>k. rel_option deep_equal (map_of m k) (map_of n k))"

lemma deep_equal_JObj:
  assumes "gomap_ok m" and "gomap_ok n"
  shows "deep_equal (JObj m) (JObj n) \<longleftrightarrow> map_rel m n"
proof -
  have d: "distinct (gokeys m)" "distinct (gokeys n)" using assms by (simp_all add: gomap_ok_def)
  have sub: "list_all (\<lambda>(k, v). case map_of n k of None \<Rightarrow> False | Some w \<Rightarrow> deep_equal v w) m \<longleftrightarrow>
      (\<forall>k v. map_of m k = Some v \<longrightarrow> (\<exists>w. map_of n k = Some w \<and> deep_equal v w))"
    using d(1) by (force simp: list_all_iff split: option.splits)
  show ?thesis
  proof
    assume "deep_equal (JObj m) (JObj n)"
    then have len: "length m = length n"
      and r: "\<forall>k v. map_of m k = Some v \<longrightarrow> (\<exists>w. map_of n k = Some w \<and> deep_equal v w)"
      by (simp_all add: sub)
    have "set (gokeys m) \<subseteq> set (gokeys n)"
    proof
      fix k
      assume "k \<in> set (gokeys m)"
      then have "map_of m k \<noteq> None" by (rule key_map_of [THEN iffD1])
      then obtain v where "map_of m k = Some v" by blast
      with r obtain w where "map_of n k = Some w" by blast
      then have "map_of n k \<noteq> None" by simp
      then show "k \<in> set (gokeys n)" by (rule key_map_of [THEN iffD2])
    qed
    moreover have "card (set (gokeys m)) = card (set (gokeys n))" using len distinct_card [OF d(1)] distinct_card [OF d(2)] by simp
    ultimately have "set (gokeys m) = set (gokeys n)" by (simp add: card_subset_eq)
    then have none: "map_of m k = None \<longleftrightarrow> map_of n k = None" for k by (simp add: map_of_eq_None_iff)
    have "rel_option deep_equal (map_of m k) (map_of n k)" for k
      using spec [OF r, of k] none [of k] by (cases "map_of m k") auto
    then show "map_rel m n" by (simp add: map_rel_def)
  next
    assume r: "map_rel m n"
    then have "map_of m k = None \<longleftrightarrow> map_of n k = None" for k
      by (metis map_rel_def option.rel_distinct(1) option.rel_distinct(2) not_None_eq)
    then have "set (gokeys m) = set (gokeys n)" unfolding set_eq_iff key_map_of by simp
    then have "length m = length n" using distinct_card [OF d(1)] distinct_card [OF d(2)] by simp
    moreover have "\<exists>w. map_of n k = Some w \<and> deep_equal v w" if "map_of m k = Some v" for k v
      using r [unfolded map_rel_def, rule_format, of k] that by (auto simp: option_rel_Some1)
    ultimately show "deep_equal (JObj m) (JObj n)" by (simp add: sub)
  qed
qed

lemma f64_eq_sym: "f64_eq a b \<longleftrightarrow> f64_eq b a"
  by (cases a; cases b) auto

lemma f64_eq_D: "f64_eq a b \<Longrightarrow> a = b"
  by (cases a; cases b) auto

lemma json_ok_obj: "json_ok (JObj m) \<Longrightarrow> gomap_ok m" "json_ok (JObj m) \<Longrightarrow> map_of m k = Some v \<Longrightarrow> json_ok v"
  by (auto dest!: map_of_SomeD)

lemma deep_equal_sym: "json_ok x \<Longrightarrow> json_ok y \<Longrightarrow> deep_equal x y \<Longrightarrow> deep_equal y x"
proof (induction x arbitrary: y)
  case (JArr xs)
  obtain ys where y: "y = JArr ys" and r: "list_all2 deep_equal xs ys"
    using JArr.prems(3) by (rule deep_equal_arrD)
  have "list_all2 deep_equal ys xs"
    using r JArr y by (auto simp: list_all2_conv_all_nth)
  with y show ?case by (simp only: deep_equal_arr)
next
  case (JObj m)
  obtain n where y: "y = JObj n" using deep_equal_objD [OF JObj.prems(3)] by blast
  have ok: "gomap_ok m" "gomap_ok n" using JObj.prems y by (auto dest: json_ok_obj)
  have r: "map_rel m n" using JObj.prems(3) y deep_equal_JObj [OF ok] by simp
  have "rel_option deep_equal (map_of n k) (map_of m k)" for k
  proof (cases "map_of m k")
    case None
    with r show ?thesis by (metis map_rel_def option.rel_distinct(1) option.rel_intros(1) not_None_eq)
  next
    case (Some v)
    with r obtain w where w: "map_of n k = Some w" "deep_equal v w"
      by (metis map_rel_def option_rel_Some1)
    have "(k, v) \<in> set m" using Some by (rule map_of_SomeD)
    then have "deep_equal w v"
      using JObj.IH [of "(k, v)" v w] json_ok_obj(2) [OF JObj.prems(1) Some] w json_ok_obj(2) [of n k w] JObj.prems(2) y
      by auto
    with w Some show ?thesis by simp
  qed
  then show ?case using y deep_equal_JObj [OF ok(2) ok(1)] by (simp add: map_rel_def)
qed (auto simp: f64_eq_sym split: json.splits)

lemma deep_equal_trans:
  "json_ok x \<Longrightarrow> json_ok y \<Longrightarrow> json_ok z \<Longrightarrow> deep_equal x y \<Longrightarrow> deep_equal y z \<Longrightarrow> deep_equal x z"
proof (induction x arbitrary: y z)
  case (JArr xs)
  obtain ys where y: "y = JArr ys" and r1: "list_all2 deep_equal xs ys"
    using JArr.prems(4) by (rule deep_equal_arrD)
  obtain zs where z: "z = JArr zs" and r2: "list_all2 deep_equal ys zs"
    using JArr.prems(5) unfolding y by (rule deep_equal_arrD)
  note yz = y z and r = r1 r2
  have "list_all2 deep_equal xs zs"
  proof (rule list_all2_all_nthI)
    show len: "length xs = length zs" using list_all2_lengthD [OF r1] list_all2_lengthD [OF r2] by simp
    fix i
    assume i: "i < length xs"
    then have j: "i < length ys" "i < length zs" using list_all2_lengthD [OF r1] len by simp_all
    have ok: "json_ok (xs ! i)" "json_ok (ys ! i)" "json_ok (zs ! i)" using JArr.prems yz i j by auto
    show "deep_equal (xs ! i) (zs ! i)"
      using JArr.IH [OF nth_mem [OF i] ok] list_all2_nthD [OF r1 i] list_all2_nthD [OF r2 j(1)] by blast
  qed
  with yz show ?case by (simp only: deep_equal_arr)
next
  case (JObj m)
  obtain n where y: "y = JObj n" using deep_equal_objD [OF JObj.prems(4)] by blast
  obtain p where z: "z = JObj p" using deep_equal_objD [OF JObj.prems(5) [unfolded y]] by blast
  note yz = y z
  have ok: "gomap_ok m" "gomap_ok n" "gomap_ok p" using JObj.prems yz by (auto dest: json_ok_obj)
  have r: "map_rel m n" "map_rel n p"
    using JObj.prems yz deep_equal_JObj [OF ok(1,2)] deep_equal_JObj [OF ok(2,3)] by simp_all
  have "rel_option deep_equal (map_of m k) (map_of p k)" for k
  proof (cases "map_of m k")
    case None
    with r show ?thesis by (metis map_rel_def option.rel_distinct(1) option.rel_intros(1) not_None_eq)
  next
    case (Some v)
    with r obtain w u where w: "map_of n k = Some w" "deep_equal v w" "map_of p k = Some u" "deep_equal w u"
      by (metis map_rel_def option_rel_Some1)
    have "(k, v) \<in> set m" using Some by (rule map_of_SomeD)
    then have "deep_equal v u"
      using JObj.IH [of "(k, v)" v w u] json_ok_obj(2) [OF JObj.prems(1) Some] w yz
        json_ok_obj(2) [of n k w] json_ok_obj(2) [of p k u] JObj.prems(2,3)
      by auto
    with w Some show ?thesis by simp
  qed
  then show ?case using yz deep_equal_JObj [OF ok(1) ok(3)] by (simp add: map_rel_def)
next
  case (JNum f)
  then show ?case by (cases y; cases z) (auto dest: f64_eq_D)
qed (auto split: json.splits)

subsection \<open>The verdict of a schema does not depend on the order of maps\<close>

abbreviation same_obj :: "obj \<Rightarrow> obj \<Rightarrow> bool" where
  "same_obj m n \<equiv> deep_equal (JObj m) (JObj n)"

definition related :: "json \<Rightarrow> json \<Rightarrow> bool" where
  "related x y \<longleftrightarrow> json_ok x \<and> json_ok y \<and> deep_equal x y"

lemma related_const: "related x x' \<Longrightarrow> related y y' \<Longrightarrow> deep_equal x y \<longleftrightarrow> deep_equal x' y'"
  unfolding related_def by (meson deep_equal_sym deep_equal_trans)

lemma related_lookup:
  assumes "related (JObj m) (JObj n)"
  shows "rel_option related (map_of m k) (map_of n k)"
proof -
  have ok: "json_ok (JObj m)" "json_ok (JObj n)" using assms by (simp_all add: related_def)
  have "map_rel m n"
    using assms deep_equal_JObj [OF ok(1) [THEN json_ok_obj(1)] ok(2) [THEN json_ok_obj(1)]] by (simp add: related_def)
  then have "rel_option deep_equal (map_of m k) (map_of n k)" by (simp add: map_rel_def)
  then show ?thesis
    using json_ok_obj(2) [OF ok(1)] json_ok_obj(2) [OF ok(2)] by (cases "map_of m k"; cases "map_of n k") (auto simp: related_def)
qed

lemma related_arr: "related (JArr xs) y \<longleftrightarrow> (\<exists>ys. y = JArr ys \<and> list_all2 related xs ys)"
proof
  assume a: "related (JArr xs) y"
  then obtain ys where y: "y = JArr ys" and r: "list_all2 deep_equal xs ys"
    unfolding related_def by (metis deep_equal_arrD)
  have "list_all2 related xs ys"
    using r a y by (auto simp: list_all2_conv_all_nth related_def)
  with y show "\<exists>ys. y = JArr ys \<and> list_all2 related xs ys" by blast
next
  assume "\<exists>ys. y = JArr ys \<and> list_all2 related xs ys"
  then obtain ys where y: "y = JArr ys" and r: "list_all2 related xs ys" by blast
  have "list_all2 deep_equal xs ys" using r by (rule list_all2_mono) (simp add: related_def)
  moreover have "json_ok (JArr xs)" "json_ok (JArr ys)"
    using r by (auto simp: in_set_conv_nth list_all2_conv_all_nth related_def)
  ultimately show "related (JArr xs) y" unfolding related_def y deep_equal_arr by blast
qed

lemma related_cases:
  assumes "related x y"
  shows "(\<exists>m n. x = JObj m \<and> y = JObj n) \<or> (\<exists>xs ys. x = JArr xs \<and> y = JArr ys) \<or>
    (y = x \<and> \<not> (\<exists>m. x = JObj m) \<and> \<not> (\<exists>xs. x = JArr xs))"
  using assms unfolding related_def
  by (cases x; cases y) (auto dest: f64_eq_D)

lemma related_members:
  assumes "related (JObj m) (JObj n)"
  shows "mem_str m k = mem_str n k" and "mem_num m k = mem_num n k"
    and "rel_option (\<lambda>a b. related (JObj a) (JObj b)) (mem_obj m k) (mem_obj n k)"
    and "rel_option (list_all2 related) (mem_arr m k) (mem_arr n k)"
proof -
  note l = related_lookup [OF assms, of k]
  show "mem_str m k = mem_str n k" "mem_num m k = mem_num n k"
    using l by (cases "map_of m k"; cases "map_of n k"; auto simp: mem_str_def mem_num_def dest!: related_cases split: json.splits)+
  show "rel_option (\<lambda>a b. related (JObj a) (JObj b)) (mem_obj m k) (mem_obj n k)"
    using l by (cases "map_of m k"; cases "map_of n k") (auto simp: mem_obj_def dest: related_cases split: json.splits)
  show "rel_option (list_all2 related) (mem_arr m k) (mem_arr n k)"
    using l by (cases "map_of m k"; cases "map_of n k")
      (auto simp: mem_arr_def related_arr dest: related_cases split: json.splits)
qed

lemma related_asFloat: "related v v' \<Longrightarrow> asFloat v = asFloat v'"
  by (drule related_cases) (auto simp: asFloat_def)

lemma related_has_key: "related (JObj m) (JObj n) \<Longrightarrow> has_key m k = has_key n k"
  using related_lookup [of m n k] by (cases "map_of m k"; cases "map_of n k") (auto simp: has_key_def)

lemma related_props: "related (JObj s) (JObj s') \<Longrightarrow> related (JObj (schema_props s)) (JObj (schema_props s'))"
  using related_members(3) [of s s' "''properties''"]
  by (cases "mem_obj s ''properties''"; cases "mem_obj s' ''properties''")
    (auto simp: schema_props_def related_def gomap_ok_def)

lemma related_empty: "related (JObj m) (JObj n) \<Longrightarrow> m = [] \<longleftrightarrow> n = []"
  by (cases m; cases n) (auto simp: related_def)

lemma related_const_error:
  assumes "related (JObj s) (JObj s')" and "related v v'"
  shows "const_error s v = None \<longleftrightarrow> const_error s' v' = None"
  using related_lookup [OF assms(1), of "''const''"] related_const [OF _ assms(2)]
  by (cases "map_of s ''const''"; cases "map_of s' ''const''") (auto simp: const_error_def fail_if_None)

lemma related_list_ex:
  assumes "list_all2 related xs ys" and "related v v'"
  shows "list_ex (\<lambda>c. deep_equal c v) xs \<longleftrightarrow> list_ex (\<lambda>c. deep_equal c v') ys"
  using assms(1) by (induction rule: list_all2_induct) (auto simp: related_const [OF _ assms(2)])

lemma related_enum_error:
  assumes "related (JObj s) (JObj s')" and "related v v'"
  shows "enum_keyword_error s v = None \<longleftrightarrow> enum_keyword_error s' v' = None"
  using related_members(4) [OF assms(1), of "''enum''"] related_list_ex [OF _ assms(2)]
  by (cases "mem_arr s ''enum''"; cases "mem_arr s' ''enum''") (auto simp: enum_keyword_error_def fail_if_None)

lemma related_type_error:
  assumes "related (JObj s) (JObj s')" and "related v v'"
  shows "type_error s v = type_error s' v'"
proof -
  have kinds: "(case v of JObj _ \<Rightarrow> True | _ \<Rightarrow> False) = (case v' of JObj _ \<Rightarrow> True | _ \<Rightarrow> False)"
    "(case v of JArr _ \<Rightarrow> True | _ \<Rightarrow> False) = (case v' of JArr _ \<Rightarrow> True | _ \<Rightarrow> False)"
    "(case v of JStr _ \<Rightarrow> True | _ \<Rightarrow> False) = (case v' of JStr _ \<Rightarrow> True | _ \<Rightarrow> False)"
    "(case v of JBool _ \<Rightarrow> True | _ \<Rightarrow> False) = (case v' of JBool _ \<Rightarrow> True | _ \<Rightarrow> False)"
    using related_cases [OF assms(2)] by auto
  have "checkType t v = checkType t v'" for t
    unfolding checkType_def kinds related_asFloat [OF assms(2)] ..
  then show ?thesis unfolding type_error_def related_members(1) [OF assms(1)] by (simp split: option.split)
qed

lemma related_range_error:
  assumes "related (JObj s) (JObj s')" and "related v v'"
  shows "range_error s v = range_error s' v'"
  unfolding range_error_def related_asFloat [OF assms(2)] related_members(2) [OF assms(1)] ..

lemma related_required_error:
  assumes "related (JObj s) (JObj s')" and "related (JObj ob) (JObj ob')"
  shows "required_error s ob = required_error s' ob'"
proof -
  have name: "(case r of JStr s \<Rightarrow> s | _ \<Rightarrow> []) = (case r' of JStr s \<Rightarrow> s | _ \<Rightarrow> [])" if "related r r'" for r r'
    using related_cases [OF that] by auto
  have "first_err (\<lambda>r. let name = (case r of JStr s \<Rightarrow> s | _ \<Rightarrow> []) in fail_if (\<not> has_key ob name) (MissingProperty name)) xs =
      first_err (\<lambda>r. let name = (case r of JStr s \<Rightarrow> s | _ \<Rightarrow> []) in fail_if (\<not> has_key ob' name) (MissingProperty name)) ys"
    if "list_all2 related xs ys" for xs ys
    using that
    by (induction rule: list_all2_induct)
      (simp_all only: first_err.simps Let_def name related_has_key [OF assms(2)])
  then show ?thesis
    using related_members(4) [OF assms(1), of "''required''"]
    by (cases "mem_arr s ''required''"; cases "mem_arr s' ''required''") (simp_all add: required_error_def)
qed

lemma undeclared_None: "undeclared_error props ob = None \<longleftrightarrow> (\<forall>k. has_key ob k \<longrightarrow> has_key props k)"
  by (auto simp: undeclared_error_def first_err_None fail_if_None has_key_iff)

lemma related_closed_error:
  assumes "related (JObj s) (JObj s')" and "related (JObj ob) (JObj ob')"
  shows "closed_error s ob = None \<longleftrightarrow> closed_error s' ob' = None"
proof -
  note p = related_props [OF assms(1)]
  have u: "undeclared_error (schema_props s) ob = None \<longleftrightarrow> undeclared_error (schema_props s') ob' = None"
    by (simp add: undeclared_None related_has_key [OF assms(2)] related_has_key [OF p])
  show ?thesis
    using related_lookup [OF assms(1), of "''additionalProperties''"] u related_empty [OF p]
    by (cases "map_of s ''additionalProperties''"; cases "map_of s' ''additionalProperties''")
      (auto simp: closed_error_def Let_def dest: related_cases split: json.splits)
qed

lemma duplicate_from_None: "duplicate_from j x ys = None \<longleftrightarrow> \<not> list_ex (\<lambda>y. deep_equal x y) ys"
  by (induction ys arbitrary: j) auto

lemma related_duplicates:
  assumes "list_all2 related xs ys"
  shows "duplicate_item i xs = None \<longleftrightarrow> duplicate_item i ys = None"
  using assms
proof (induction arbitrary: i rule: list_all2_induct)
  case (Cons x xs y ys)
  have "list_ex (\<lambda>z. deep_equal x z) xs \<longleftrightarrow> list_ex (\<lambda>z. deep_equal y z) ys"
    using Cons(2) by (induction rule: list_all2_induct) (auto simp: related_const [OF Cons(1)])
  with Cons(3) [of "i + 1"] show ?case
    using duplicate_from_None [of "i + 1" x xs] duplicate_from_None [of "i + 1" y ys]
    by (auto split: option.splits)
qed simp

lemma related_cardinality:
  assumes "related (JObj s) (JObj s')" and "list_all2 related xs ys"
  shows "cardinality_keyword_error s xs = None \<longleftrightarrow> cardinality_keyword_error s' ys = None"
proof -
  have "map_of s ''uniqueItems'' = Some (JBool True) \<longleftrightarrow> map_of s' ''uniqueItems'' = Some (JBool True)"
    using related_lookup [OF assms(1), of "''uniqueItems''"]
    by (cases "map_of s ''uniqueItems''"; cases "map_of s' ''uniqueItems''") (auto dest: related_cases)
  then show ?thesis
    using related_duplicates [OF assms(2)]
    by (auto simp: cardinality_keyword_error_def Let_def related_members(2) [OF assms(1)] list_all2_lengthD [OF assms(2)])
qed

lemma one_of_None: "one_of rs l = None \<longleftrightarrow> Some None \<in> set rs"
  by (induction rs l rule: one_of.induct) auto

lemma enumerate_all: "(\<forall>x \<in> set (enumerate n xs). P (snd x)) \<longleftrightarrow> (\<forall>x \<in> set xs. P x)"
  by (induction xs arbitrary: n) auto

definition verdict :: "obj option \<Rightarrow> int \<Rightarrow> obj \<Rightarrow> json \<Rightarrow> bool" where
  "verdict defs depth schema value \<longleftrightarrow> validate defs depth schema value = None"

text \<open>The keywords as conditions, each over lookups only.\<close>

definition object_verdict :: "obj option \<Rightarrow> int \<Rightarrow> obj \<Rightarrow> obj \<Rightarrow> bool" where
  "object_verdict defs depth schema ob \<longleftrightarrow>
     required_error schema ob = None \<and>
     (\<forall>k sub pv. map_of (schema_props schema) k = Some (JObj sub) \<longrightarrow> map_of ob k = Some pv \<longrightarrow> verdict defs (depth + 1) sub pv) \<and>
     closed_error schema ob = None \<and>
     (\<forall>apv k v. mem_obj schema ''additionalProperties'' = Some apv \<longrightarrow> map_of ob k = Some v \<longrightarrow>
        \<not> has_key (schema_props schema) k \<longrightarrow> verdict defs (depth + 1) apv v)"

definition array_verdict :: "obj option \<Rightarrow> int \<Rightarrow> obj \<Rightarrow> json list \<Rightarrow> bool" where
  "array_verdict defs depth schema arr \<longleftrightarrow>
     (\<forall>items x. mem_obj schema ''items'' = Some items \<longrightarrow> x \<in> set arr \<longrightarrow> verdict defs (depth + 1) items x) \<and>
     cardinality_keyword_error schema arr = None"

lemma validate_verdict:
  assumes "mem_str schema ''$ref'' = None" and ok: "json_ok (JObj schema)" "json_ok value"
  shows "verdict defs depth schema value \<longleftrightarrow>
     const_error schema value = None \<and> enum_keyword_error schema value = None \<and> type_error schema value = None \<and>
     range_error schema value = None \<and>
     (\<forall>ob. value = JObj ob \<longrightarrow> object_verdict defs depth schema ob) \<and>
     (\<forall>arr. value = JArr arr \<longrightarrow> array_verdict defs depth schema arr) \<and>
     (\<forall>bs. mem_arr schema ''oneOf'' = Some bs \<longrightarrow> (\<exists>sub. JObj sub \<in> set bs \<and> verdict defs (depth + 1) sub value)) \<and>
     (\<forall>n. mem_obj schema ''not'' = Some n \<longrightarrow> \<not> verdict defs (depth + 1) n value)"
proof -
  have props: "gomap_ok (schema_props schema)"
  proof (cases "mem_obj schema ''properties''")
    case (Some p)
    then have "json_ok (JObj p)" unfolding mem_obj_Some by (rule json_ok_obj(2) [OF ok(1)])
    with Some show ?thesis by (simp add: schema_props_def)
  qed (simp add: schema_props_def gomap_ok_def)
  have object: "seq_err [
        required_error schema ob,
        first_err (\<lambda>x.
            case map_of ob (fst x) of
              None \<Rightarrow> None
            | Some pv \<Rightarrow>
                (case snd x of
                   JObj sub \<Rightarrow> map_option (AtProperty (fst x)) (validate defs (depth + 1) sub pv)
                 | _ \<Rightarrow> None)) (schema_props schema),
        closed_error schema ob,
        (case mem_obj schema ''additionalProperties'' of
           None \<Rightarrow> None
         | Some apv \<Rightarrow>
             first_err (\<lambda>x.
                 if has_key (schema_props schema) (fst x) then None
                 else map_option (AtProperty (fst x)) (validate defs (depth + 1) apv (snd x))) ob)] = None \<longleftrightarrow>
      object_verdict defs depth schema ob" if "value = JObj ob" for ob
  proof -
    have g: "gomap_ok ob" using ok that by (auto dest: json_ok_obj)
    have extra: "(\<forall>x \<in> set ob. \<not> has_key (schema_props schema) (fst x) \<longrightarrow> validate defs (depth + 1) apv (snd x) = None) \<longleftrightarrow>
        (\<forall>k v. map_of ob k = Some v \<longrightarrow> \<not> has_key (schema_props schema) k \<longrightarrow> validate defs (depth + 1) apv v = None)" for apv
      by (rule gomap_all_iff [OF g])
    show ?thesis
      unfolding object_verdict_def seq_err_Cons_None seq_err.simps(1) simp_thms first_err_None verdict_def
        gomap_all_iff [OF props, where P = "\<lambda>k ps. (case map_of ob k of None \<Rightarrow> None
            | Some pv \<Rightarrow> (case ps of JObj sub \<Rightarrow> map_option (AtProperty k) (validate defs (depth + 1) sub pv) | _ \<Rightarrow> None)) = None"]
      using extra
      by (intro conj_cong refl; auto split: option.splits json.splits simp: first_err_None)
  qed
  have array: "seq_err [
       (case mem_obj schema ''items'' of
          None \<Rightarrow> None
        | Some items \<Rightarrow>
            first_err (\<lambda>x. map_option (AtItem (fst x)) (validate defs (depth + 1) items (snd x))) (enumerate 0 arr)),
       cardinality_keyword_error schema arr] = None \<longleftrightarrow> array_verdict defs depth schema arr" for arr
    using enumerate_all [of 0 arr "\<lambda>x. validate defs (depth + 1) items x = None" for items]
    by (auto simp: array_verdict_def verdict_def first_err_None split: option.splits)
  have branches: "(Some None \<in> set (map (\<lambda>b. case b of JObj sub \<Rightarrow> Some (validate defs (depth + 1) sub value) | _ \<Rightarrow> None) bs)) \<longleftrightarrow>
      (\<exists>sub. JObj sub \<in> set bs \<and> verdict defs (depth + 1) sub value)" for bs
    by (force simp: verdict_def split: json.splits)
  show ?thesis
    unfolding verdict_def [of defs depth schema "value"] validate.simps [of defs depth schema "value"] assms(1) option.case
      seq_err_Cons_None seq_err.simps(1) simp_thms
    using object array branches
    by (intro conj_cong refl; auto simp: one_of_None fail_if_None verdict_def split: json.splits option.splits)
qed

definition rank :: "int \<Rightarrow> obj \<Rightarrow> (nat \<times> nat)" where
  "rank depth schema = (nat (maxSchemaRefDepth - depth), size (JObj schema))"

abbreviation smaller :: "((nat \<times> nat) \<times> (nat \<times> nat)) set" where
  "smaller \<equiv> less_than <*lex*> less_than"

lemma rank_sub: "size (JObj sub) < size (JObj schema) \<Longrightarrow> (rank (depth + 1) sub, rank depth schema) \<in> smaller"
  by (auto simp: rank_def)

definition order_free :: "obj option \<Rightarrow> obj option \<Rightarrow> int \<Rightarrow> obj \<Rightarrow> bool" where
  "order_free defs defs' depth s \<longleftrightarrow>
     (\<forall>s' v v'. related (JObj s) (JObj s') \<longrightarrow> related v v' \<longrightarrow> verdict defs depth s v = verdict defs' depth s' v')"

lemma order_freeD: "order_free defs defs' depth s \<Longrightarrow> related (JObj s) (JObj s') \<Longrightarrow> related v v' \<Longrightarrow>
    verdict defs depth s v = verdict defs' depth s' v'"
  by (simp add: order_free_def)

lemma rel_optionE: "rel_option R x y \<Longrightarrow> (x = None \<Longrightarrow> y = None \<Longrightarrow> P) \<Longrightarrow> (\<And>a b. x = Some a \<Longrightarrow> y = Some b \<Longrightarrow> R a b \<Longrightarrow> P) \<Longrightarrow> P"
  by (cases x; cases y) auto

text \<open>The verdicts of a smaller schema on all related values agree; \<open>lookup_order\<close> lifts this to a lookup in two related maps.\<close>

lemma lookup_order:
  assumes "order_free defs defs' depth a" and "related (JObj a) (JObj b)" and "related (JObj ob) (JObj ob')"
  shows "(\<forall>v. map_of ob k = Some v \<longrightarrow> verdict defs depth a v) = (\<forall>v. map_of ob' k = Some v \<longrightarrow> verdict defs' depth b v)"
  using related_lookup [OF assms(3), of k]
proof (rule rel_optionE)
  fix v v'
  assume "map_of ob k = Some v" and "map_of ob' k = Some v'" and "related v v'"
  then show ?thesis using order_freeD [OF assms(1,2), of v v'] by simp
qed simp

lemma object_order:
  assumes rs: "related (JObj s) (JObj s')" and ro: "related (JObj ob) (JObj ob')"
    and IH: "\<And>sub. size (JObj sub) < size (JObj s) \<Longrightarrow> order_free defs defs' (depth + 1) sub"
  shows "object_verdict defs depth s ob = object_verdict defs' depth s' ob'"
proof -
  have props: "(\<forall>sub. map_of (schema_props s) k = Some (JObj sub) \<longrightarrow>
        (\<forall>pv. map_of ob k = Some pv \<longrightarrow> verdict defs (depth + 1) sub pv)) =
    (\<forall>sub. map_of (schema_props s') k = Some (JObj sub) \<longrightarrow>
        (\<forall>pv. map_of ob' k = Some pv \<longrightarrow> verdict defs' (depth + 1) sub pv))" for k
    using related_lookup [OF related_props [OF rs], of k]
  proof (rule rel_optionE)
    fix a b
    assume a: "map_of (schema_props s) k = Some a" and b: "map_of (schema_props s') k = Some b" and ab: "related a b"
    show ?thesis
    proof (cases "\<exists>sub. a = JObj sub")
      case True
      then obtain sub sub' where sub: "a = JObj sub" "b = JObj sub'" using related_cases [OF ab] by auto
      have "size (JObj sub) < size (JObj s)" using props_size map_of_SomeD [OF a] sub by blast
      from lookup_order [OF IH [OF this] ab [unfolded sub] ro, of k] show ?thesis by (simp add: a b sub)
    next
      case False
      then have "\<not> (\<exists>sub. b = JObj sub)" using related_cases [OF ab] by auto
      with False show ?thesis by (simp add: a b)
    qed
  qed simp
  have extra: "(\<forall>apv. mem_obj s ''additionalProperties'' = Some apv \<longrightarrow>
        (\<forall>v. map_of ob k = Some v \<longrightarrow> \<not> has_key (schema_props s) k \<longrightarrow> verdict defs (depth + 1) apv v)) =
    (\<forall>apv. mem_obj s' ''additionalProperties'' = Some apv \<longrightarrow>
        (\<forall>v. map_of ob' k = Some v \<longrightarrow> \<not> has_key (schema_props s') k \<longrightarrow> verdict defs' (depth + 1) apv v))" for k
    using related_members(3) [OF rs, of "''additionalProperties''"]
  proof (rule rel_optionE)
    fix a b
    assume a: "mem_obj s ''additionalProperties'' = Some a" and b: "mem_obj s' ''additionalProperties'' = Some b"
      and ab: "related (JObj a) (JObj b)"
    from lookup_order [OF IH [OF mem_obj_size [OF a]] ab ro, of k] show ?thesis
      by (auto simp add: a b related_has_key [OF related_props [OF rs]])
  qed simp
  show ?thesis
    unfolding object_verdict_def related_required_error [OF rs ro] related_closed_error [OF rs ro]
    using props extra by blast
qed

lemma array_order:
  assumes rs: "related (JObj s) (JObj s')" and ra: "list_all2 related arr arr'"
    and IH: "\<And>sub. size (JObj sub) < size (JObj s) \<Longrightarrow> order_free defs defs' (depth + 1) sub"
  shows "array_verdict defs depth s arr = array_verdict defs' depth s' arr'"
proof -
  have "(\<forall>items. mem_obj s ''items'' = Some items \<longrightarrow> (\<forall>x \<in> set arr. verdict defs (depth + 1) items x)) =
      (\<forall>items. mem_obj s' ''items'' = Some items \<longrightarrow> (\<forall>x \<in> set arr'. verdict defs' (depth + 1) items x))"
    using related_members(3) [OF rs, of "''items''"]
  proof (rule rel_optionE)
    fix a b
    assume a: "mem_obj s ''items'' = Some a" and b: "mem_obj s' ''items'' = Some b" and ab: "related (JObj a) (JObj b)"
    have "(\<forall>x \<in> set arr. verdict defs (depth + 1) a x) = (\<forall>x \<in> set arr'. verdict defs' (depth + 1) b x)"
      using ra by (induction rule: list_all2_induct) (simp_all add: order_freeD [OF IH [OF mem_obj_size [OF a]] ab])
    then show ?thesis by (simp add: a b)
  qed simp
  then show ?thesis unfolding array_verdict_def related_cardinality [OF rs ra] by blast
qed

lemma branches_order:
  assumes rs: "related (JObj s) (JObj s')" and rv: "related v v'"
    and IH: "\<And>sub. size (JObj sub) < size (JObj s) \<Longrightarrow> order_free defs defs' (depth + 1) sub"
  shows "(\<forall>bs. mem_arr s ''oneOf'' = Some bs \<longrightarrow> (\<exists>sub. JObj sub \<in> set bs \<and> verdict defs (depth + 1) sub v)) =
    (\<forall>bs. mem_arr s' ''oneOf'' = Some bs \<longrightarrow> (\<exists>sub. JObj sub \<in> set bs \<and> verdict defs' (depth + 1) sub v'))"
  using related_members(4) [OF rs, of "''oneOf''"]
proof (rule rel_optionE)
  fix bs bs'
  assume a: "mem_arr s ''oneOf'' = Some bs" and b: "mem_arr s' ''oneOf'' = Some bs'" and ab: "list_all2 related bs bs'"
  have small: "\<forall>x \<in> set bs. size x < size (JObj s)" using arr_size [OF a] by blast
  have "(\<exists>sub. JObj sub \<in> set bs \<and> verdict defs (depth + 1) sub v) = (\<exists>sub. JObj sub \<in> set bs' \<and> verdict defs' (depth + 1) sub v')"
    using ab small
  proof (induction rule: list_all2_induct)
    case (Cons x xs y ys)
    have "(\<exists>sub. x = JObj sub \<and> verdict defs (depth + 1) sub v) = (\<exists>sub. y = JObj sub \<and> verdict defs' (depth + 1) sub v')"
    proof (cases "\<exists>sub. x = JObj sub")
      case True
      then obtain sub sub' where sub: "x = JObj sub" "y = JObj sub'" using related_cases [OF Cons(1)] by auto
      from order_freeD [OF IH [of sub] Cons(1) [unfolded sub] rv] Cons(4) sub show ?thesis by simp
    next
      case False
      then have "\<not> (\<exists>sub. y = JObj sub)" using related_cases [OF Cons(1)] by auto
      with False show ?thesis by simp
    qed
    with Cons(3,4) show ?case by auto
  qed simp
  then show ?thesis by (simp add: a b)
qed simp

lemma not_order:
  assumes rs: "related (JObj s) (JObj s')" and rv: "related v v'"
    and IH: "\<And>sub. size (JObj sub) < size (JObj s) \<Longrightarrow> order_free defs defs' (depth + 1) sub"
  shows "(\<forall>n. mem_obj s ''not'' = Some n \<longrightarrow> \<not> verdict defs (depth + 1) n v) =
    (\<forall>n. mem_obj s' ''not'' = Some n \<longrightarrow> \<not> verdict defs' (depth + 1) n v')"
  using related_members(3) [OF rs, of "''not''"]
proof (rule rel_optionE)
  fix a b
  assume a: "mem_obj s ''not'' = Some a" and b: "mem_obj s' ''not'' = Some b" and ab: "related (JObj a) (JObj b)"
  from order_freeD [OF IH [OF mem_obj_size [OF a]] ab rv] show ?thesis by (simp add: a b)
qed simp

lemma resolveRef_related:
  assumes "rel_option (\<lambda>a b. related (JObj a) (JObj b)) defs defs'"
  shows "rel_sum (=) (\<lambda>a b. related (JObj a) (JObj b)) (resolveRef ref defs) (resolveRef ref defs')"
proof (cases "prefix ''#/$defs/'' ref")
  case True
  show ?thesis using assms
  proof (rule rel_optionE)
    fix ds ds'
    assume d: "defs = Some ds" "defs' = Some ds'" and r: "related (JObj ds) (JObj ds')"
    from related_members(3) [OF r, of "trim_prefix ''#/$defs/'' ref"] show ?thesis
      by (rule rel_optionE) (use True in \<open>simp_all add: resolveRef_def Let_def d\<close>)
  qed (use True in \<open>simp add: resolveRef_def Let_def\<close>)
qed (simp add: resolveRef_def)

lemma validate_order_free:
  assumes "rel_option (\<lambda>a b. related (JObj a) (JObj b)) defs defs'"
  shows "order_free defs defs' depth s"
proof (induction "rank depth s" arbitrary: depth s rule: wf_induct_rule [OF wf_lex_prod [OF wf_less_than wf_less_than]])
  case less: (1 depth s)
  have IH: "order_free defs defs' (depth + 1) sub" if "size (JObj sub) < size (JObj s)" for sub
    by (rule less) (rule rank_sub [OF that])
  show ?case unfolding order_free_def
  proof (intro allI impI)
    fix s' v v'
    assume rs: "related (JObj s) (JObj s')" and rv: "related v v'"
    show "verdict defs depth s v = verdict defs' depth s' v'"
    proof (cases "mem_str s ''$ref''")
      case (Some ref)
      then have ref': "mem_str s' ''$ref'' = Some ref" using related_members(1) [OF rs] by simp
      have r: "rel_sum (=) (\<lambda>a b. related (JObj a) (JObj b)) (resolveRef ref defs) (resolveRef ref defs')"
        using assms by (rule resolveRef_related)
      show ?thesis
      proof (cases "resolveRef ref defs")
        case (Inl e)
        with r show ?thesis
          by (cases "resolveRef ref defs'") (auto simp: verdict_def validate.simps [of _ _ s] validate.simps [of _ _ s'] Some ref')
      next
        case (Inr t)
        with r obtain t' where t: "resolveRef ref defs' = Inr t'" "related (JObj t) (JObj t')"
          by (cases "resolveRef ref defs'") auto
        show ?thesis
        proof (cases "maxSchemaRefDepth \<le> depth")
          case True
          then show ?thesis
            by (simp add: verdict_def validate.simps [of _ _ s] validate.simps [of _ _ s'] Some ref' Inr t)
        next
          case False
          then have "order_free defs defs' (depth + 1) t" by (intro less) (auto simp: rank_def)
          from order_freeD [OF this t(2) rv] False show ?thesis
            by (simp add: verdict_def validate.simps [of _ _ s] validate.simps [of _ _ s'] Some ref' Inr t)
        qed
      qed
    next
      case None
      then have none': "mem_str s' ''$ref'' = None" using related_members(1) [OF rs] by simp
      have ok: "json_ok (JObj s)" "json_ok v" "json_ok (JObj s')" "json_ok v'" using rs rv by (simp_all add: related_def)
      have ob: "(\<forall>ob. v = JObj ob \<longrightarrow> object_verdict defs depth s ob) = (\<forall>ob. v' = JObj ob \<longrightarrow> object_verdict defs' depth s' ob)"
        using related_cases [OF rv] object_order [OF rs _ IH] rv by auto
      have arr: "(\<forall>arr. v = JArr arr \<longrightarrow> array_verdict defs depth s arr) = (\<forall>arr. v' = JArr arr \<longrightarrow> array_verdict defs' depth s' arr)"
        using related_cases [OF rv] array_order [OF rs _ IH] rv by (auto simp: related_arr)
      have br: "(\<forall>bs. mem_arr s ''oneOf'' = Some bs \<longrightarrow> (\<exists>sub. JObj sub \<in> set bs \<and> verdict defs (depth + 1) sub v)) =
          (\<forall>bs. mem_arr s' ''oneOf'' = Some bs \<longrightarrow> (\<exists>sub. JObj sub \<in> set bs \<and> verdict defs' (depth + 1) sub v'))"
        by (rule branches_order [OF rs rv IH])
      have nt: "(\<forall>n. mem_obj s ''not'' = Some n \<longrightarrow> \<not> verdict defs (depth + 1) n v) =
          (\<forall>n. mem_obj s' ''not'' = Some n \<longrightarrow> \<not> verdict defs' (depth + 1) n v')"
        by (rule not_order [OF rs rv IH])
      show ?thesis
        unfolding validate_verdict [OF None ok(1,2)] validate_verdict [OF none' ok(3,4)]
          related_const_error [OF rs rv] related_enum_error [OF rs rv] related_type_error [OF rs rv] related_range_error [OF rs rv]
          ob arr br nt ..
    qed
  qed
qed

subsection \<open>References\<close>

text \<open>
  References that lead only to references: from a set of definitions that is closed under its references, every value is
  refused once the depth is used up. The validator therefore returns, with an error, on every cycle of references.
\<close>

definition ref_closed :: "obj \<Rightarrow> string set \<Rightarrow> bool" where
  "ref_closed ds N \<longleftrightarrow> (\<forall>n \<in> N. \<exists>s m. mem_obj ds n = Some s \<and> m \<in> N \<and> mem_str s ''$ref'' = Some (''#/$defs/'' @ m))"

lemma resolveRef_local: "mem_obj ds n = Some s \<Longrightarrow> resolveRef (''#/$defs/'' @ n) (Some ds) = Inr s"
  by (simp add: resolveRef_def trim_prefix_def)

lemma ref_closed_refused:
  assumes "ref_closed ds N" and "n \<in> N" and "mem_str s ''$ref'' = Some (''#/$defs/'' @ n)"
  shows "validate (Some ds) depth s v = Some RefNesting"
  using assms(2,3)
proof (induction "nat (maxSchemaRefDepth - depth)" arbitrary: depth s n rule: less_induct)
  case less
  obtain t m where t: "mem_obj ds n = Some t" and m: "m \<in> N" "mem_str t ''$ref'' = Some (''#/$defs/'' @ m)"
    using assms(1) less.prems(1) by (auto simp: ref_closed_def)
  have "validate (Some ds) (depth + 1) t v = Some RefNesting" if "\<not> maxSchemaRefDepth \<le> depth"
    by (rule less.hyps [OF _ m]) (use that in simp)
  then show ?case
    unfolding validate.simps [of _ _ s] less.prems(2) option.case resolveRef_local [OF t] sum.case by simp
qed

text \<open>A schema under \<open>not\<close> that cannot be evaluated counts as one that does not match: the value is accepted.\<close>

lemma not_unresolved_accepts:
  assumes "\<not> prefix ''#/$defs/'' ref"
  shows "validate defs depth [(''not'', JObj [(''$ref'', JStr ref)])] value = None"
proof -
  have "validate defs (depth + 1) [(''$ref'', JStr ref)] value = Some (UnsupportedRef ref)"
    using assms by (simp add: validate.simps mem_str_def resolveRef_def)
  moreover have "one_keyword = [(''not'', JObj [(''$ref'', JStr ref)])] \<Longrightarrow> mem_str one_keyword k = None" for one_keyword k
    by (auto simp: mem_str_def split: option.splits json.splits)
  ultimately show ?thesis
    by (simp add: validate.simps [of _ _ "[(''not'', JObj [(''$ref'', JStr ref)])]"] mem_str_def mem_obj_def mem_arr_def mem_num_def
        const_error_def enum_keyword_error_def type_error_def range_error_def required_error_def schema_props_def
        closed_error_def cardinality_keyword_error_def Let_def
        split: json.split option.split)
qed

subsection \<open>The contract of a capability\<close>

definition admits_param :: "ParameterDef \<Rightarrow> json \<Rightarrow> bool" where
  "admits_param pd v \<longleftrightarrow>
     (pdType pd = ''int'' \<and> (\<exists>n. asFloat v = Some n \<and> (\<forall>mn. asFloat (pdMin pd) = Some mn \<longrightarrow> \<not> f64_less n mn) \<and>
        (\<forall>mx. asFloat (pdMax pd) = Some mx \<longrightarrow> \<not> f64_less mx n))) \<or>
     (pdType pd = ''bool'' \<and> (\<exists>b. v = JBool b)) \<or>
     (pdType pd = ''string'' \<and> (\<exists>s. v = JStr s \<and> (pdEnum pd = [] \<or> s \<in> set (pdEnum pd)))) \<or>
     (pdType pd = ''list'' \<and> (\<exists>xs. v = JArr xs \<and> (\<forall>e \<in> set xs. \<exists>s. e = JStr s \<and> (pdEnum pd = [] \<or> s \<in> set (pdEnum pd))))) \<or>
     pdType pd = []"

lemma list_elements:
  "first_err (\<lambda>e. case e of JStr s \<Rightarrow> in_enum pd key s | _ \<Rightarrow> Some (FieldError key invalid_params_binding)) arr = None \<longleftrightarrow>
     (\<forall>e \<in> set arr. \<exists>s. e = JStr s \<and> (pdEnum pd = [] \<or> s \<in> set (pdEnum pd)))"
proof -
  have "(case e of JStr s \<Rightarrow> in_enum pd key s | _ \<Rightarrow> Some (FieldError key invalid_params_binding)) = None \<longleftrightarrow>
      (\<exists>s. e = JStr s \<and> (pdEnum pd = [] \<or> s \<in> set (pdEnum pd)))" for e
    by (cases e) (auto simp: in_enum_def fail_if_None)
  then show ?thesis by (simp add: first_err_None)
qed

lemma validateFlatParamValue_None: "validateFlatParamValue pd key v = None \<longleftrightarrow> admits_param pd v"
proof -
  consider "pdType pd = ''int''" | "pdType pd = ''bool''" | "pdType pd = ''string''" | "pdType pd = ''list''" | "pdType pd = []"
    | "pdType pd \<notin> {''int'', ''bool'', ''string'', ''list'', []}" by blast
  then show ?thesis
  proof cases
    case 1
    then show ?thesis
      by (cases "asFloat v"; cases "asFloat (pdMin pd)"; cases "asFloat (pdMax pd)")
        (auto simp: validateFlatParamValue_def admits_param_def asJSONNumber_def fail_if_None)
  next
    case 4
    then show ?thesis by (cases v) (auto simp: validateFlatParamValue_def admits_param_def list_elements)
  qed (cases v; auto simp: validateFlatParamValue_def admits_param_def in_enum_def fail_if_None)+
qed

definition schema_object :: "jtext \<Rightarrow> obj option" where
  "schema_object raw =
     (case raw of XNull \<Rightarrow> Some [] | XObj _ \<Rightarrow> (case decode_text raw of Some (JObj m) \<Rightarrow> Some m | _ \<Rightarrow> None) | _ \<Rightarrow> None)"

definition contract_admits :: "CapabilityEntry \<Rightarrow> obj \<Rightarrow> bool" where
  "contract_admits entry params \<longleftrightarrow>
     (case ceParamsSchema entry of
        Some raw \<Rightarrow> (\<exists>schema. schema_object raw = Some schema \<and> verdict (schemaDefs schema) 0 schema (JObj params))
      | None \<Rightarrow>
          (\<forall>k pd. map_of (ceParameters entry) k = Some pd \<longrightarrow> pdRequired pd \<longrightarrow> has_key params k) \<and>
          (\<forall>k v. map_of params k = Some v \<longrightarrow> (\<exists>pd. map_of (ceParameters entry) k = Some pd \<and> admits_param pd v)))"

lemma validateClaimParams_None:
  assumes "gomap_ok (ccParameters c)" and "\<And>e. e \<in> set (sdCapabilities def) \<Longrightarrow> gomap_ok (ceParameters e)"
  shows "validateClaimParams def c = None \<longleftrightarrow>
     (case find_capability def (ccCapability c) of
        None \<Rightarrow> ccParameters c = []
      | Some entry \<Rightarrow> contract_admits entry (ccParameters c))"
proof (cases "find_capability def (ccCapability c)")
  case None
  then show ?thesis by (simp add: validateClaimParams_def fail_if_None)
next
  case (Some entry)
  then have ok: "gomap_ok (ceParameters entry)"
    using assms(2) find_SomeD [of _ "sdCapabilities def" entry] by (auto simp: find_capability_def)
  show ?thesis
  proof (cases "ceParamsSchema entry")
    case None
    have "validateFlatParamRequired entry (ccParameters c) = None \<longleftrightarrow>
        (\<forall>k pd. map_of (ceParameters entry) k = Some pd \<longrightarrow> pdRequired pd \<longrightarrow> has_key (ccParameters c) k)"
      using gomap_all_iff [OF ok, where P = "\<lambda>k pd. pdRequired pd \<longrightarrow> has_key (ccParameters c) k"]
      by (auto simp: validateFlatParamRequired_def first_err_None fail_if_None split_beta)
    moreover have "first_err (\<lambda>(k, v).
            case map_of (ceParameters entry) k of
              None \<Rightarrow> Some (UnknownParameter k (ccCapability c))
            | Some pd \<Rightarrow> map_option (AtParameter k (ccCapability c)) (validateFlatParamValue pd k v)) (ccParameters c) = None \<longleftrightarrow>
        (\<forall>k v. map_of (ccParameters c) k = Some v \<longrightarrow> (\<exists>pd. map_of (ceParameters entry) k = Some pd \<and> admits_param pd v))"
      using gomap_all_iff [OF assms(1), where P = "\<lambda>k v. \<exists>pd. map_of (ceParameters entry) k = Some pd \<and> admits_param pd v"]
      by (auto simp: first_err_None split_beta validateFlatParamValue_None split: option.splits)
    ultimately show ?thesis by (simp add: validateClaimParams_def contract_admits_def Some None)
  next
    case (Some raw)
    then show ?thesis
      using \<open>find_capability def (ccCapability c) = Some entry\<close>
      by (auto simp: validateClaimParams_def contract_admits_def validateParamsSchema_def schema_object_def [symmetric] verdict_def
          split: option.splits)
  qed
qed

end
