(* ===== verification/Scheme_Schema_Laws.thy ===== *)
theory Scheme_Schema_Laws
  imports Scheme_Schema
begin

text \<open>
  Laws of scheme definitions and of the registry: identifiers of capabilities round trip through their text, the coverage
  test of role grants agrees with the identifier language of package \<open>semantics\<close>, and the registry keeps its
  definitions under their own identifiers.
\<close>

subsection \<open>Identifiers\<close>

lemma decode_rune_ascii:
  assumes "decode_rune (a # bs) = (r, w)" and "r < 128"
  shows "a = r" and "w = 1"
proof -
  have two: "byte_in 194 223 a \<Longrightarrow> cont_byte b \<Longrightarrow> 128 \<le> (a - 192) * 64 + (b - 128)" for b
    by (auto simp: byte_in_def)
  have three: "byte_in 224 239 a \<Longrightarrow> byte_in (if a = 224 then 160 else 128) (if a = 237 then 159 else 191) b \<Longrightarrow> cont_byte c
      \<Longrightarrow> 128 \<le> (a - 224) * 4096 + (b - 128) * 64 + (c - 128)" for b c
    by (auto simp: byte_in_def split: if_splits)
  have four: "byte_in 240 244 a \<Longrightarrow> byte_in (if a = 240 then 144 else 128) (if a = 244 then 143 else 191) b \<Longrightarrow> cont_byte c
      \<Longrightarrow> cont_byte d \<Longrightarrow> 128 \<le> (a - 240) * 262144 + (b - 128) * 4096 + (c - 128) * 64 + (d - 128)" for b c d
    by (auto simp: byte_in_def split: if_splits)
  have "a < 128"
  proof (rule ccontr)
    assume "\<not> a < 128"
    with assms two three four show False
      by (fastforce simp: decode_rune.simps rune_error_def split: if_splits list.splits)
  qed
  with assms(1) show "a = r" "w = 1" by (simp_all add: decode_rune.simps)
qed

lemma runes_alpha:
  assumes "\<forall>x \<in> set (runes (map of_char s)). isAlphaHyphen (fst x)"
  shows "\<forall>c \<in> set s. isAlphaHyphen (of_char c)"
  using assms
proof (induction s)
  case (Cons c s)
  obtain r w where d: "decode_rune (map of_char (c # s)) = (r, w)" by (cases "decode_rune (map of_char (c # s))")
  with Cons.prems have "isAlphaHyphen r" by auto
  then have "r < 128" by (auto simp: isAlphaHyphen_def byte_in_def)
  with d have "of_char c = r" "w = 1" using decode_rune_ascii by auto
  with d Cons show ?case by simp
qed simp

lemma isAlphaHyphen_chars: "\<not> isAlphaHyphen (of_char (CHR '':''))" "\<not> isAlphaHyphen (of_char (CHR ''/''))"
  by (simp_all add: isAlphaHyphen_def byte_in_def)

lemma ValidateSchemeID_shape:
  assumes "ValidateSchemeID s = None"
  obtains v p where "s = v @ ''/'' @ p" and "v \<noteq> []" and "p \<noteq> []"
    and "CHR '':'' \<notin> set v" and "CHR ''/'' \<notin> set v" and "CHR '':'' \<notin> set p" and "CHR ''/'' \<notin> set p"
proof -
  let ?v = "takeWhile (\<lambda>c. c \<noteq> CHR ''/'') s"
  let ?r = "dropWhile (\<lambda>c. c \<noteq> CHR ''/'') s"
  have parsed: "ParseSchemeID s = Some (?v, tl ?r)" and r: "?r \<noteq> []" and ne: "?v \<noteq> []" "tl ?r \<noteq> []"
    using assms by (auto simp: ValidateSchemeID_def ParseSchemeID_def span_def Let_def split: if_splits)
  from r have "?r = ''/'' @ tl ?r" using hd_dropWhile [OF r] by (cases ?r) auto
  then have s: "s = ?v @ ''/'' @ tl ?r" by (metis takeWhile_dropWhile_id)
  have "\<forall>c \<in> set ?v. isAlphaHyphen (of_char c)" "\<forall>c \<in> set (tl ?r). isAlphaHyphen (of_char c)"
    using assms by (auto simp: ValidateSchemeID_def parsed first_err_None fail_if_None bytes_def intro!: runes_alpha)
  then have "CHR '':'' \<notin> set ?v" "CHR ''/'' \<notin> set ?v" "CHR '':'' \<notin> set (tl ?r)" "CHR ''/'' \<notin> set (tl ?r)"
    using isAlphaHyphen_chars by auto
  with s ne show thesis by (rule that)
qed

lemma takeWhile_until: "c \<notin> set v \<Longrightarrow> takeWhile (\<lambda>x. x \<noteq> c) (v @ c # s) = v \<and> dropWhile (\<lambda>x. x \<noteq> c) (v @ c # s) = c # s"
  by (induction v) auto

lemma ParseCapability_format:
  assumes "ValidateSchemeID sid = None"
  shows "ParseCapability (FormatCapability sid cid) = Some (sid, cid)"
proof -
  obtain v p where s: "sid = v @ ''/'' @ p" and nv: "CHR ''/'' \<notin> set v" and np: "CHR '':'' \<notin> set p"
    using assms by (rule ValidateSchemeID_shape)
  have "CHR '':'' \<notin> set (CHR ''/'' # p)" using np by simp
  from takeWhile_until [OF nv, of "p @ '':'' @ cid"] takeWhile_until [OF this, of cid]
  show ?thesis by (simp add: ParseCapability_def FormatCapability_def span_def s Let_def)
qed

lemma ParseCapability_inverse: "ParseCapability s = Some (sid, cid) \<Longrightarrow> s = FormatCapability sid cid"
proof -
  assume a: "ParseCapability s = Some (sid, cid)"
  let ?f = "dropWhile (\<lambda>c. c \<noteq> CHR ''/'') s"
  let ?g = "dropWhile (\<lambda>c. c \<noteq> CHR '':'') ?f"
  from a have sid: "sid = takeWhile (\<lambda>c. c \<noteq> CHR ''/'') s @ takeWhile (\<lambda>c. c \<noteq> CHR '':'') ?f"
    and cid: "cid = tl ?g" and g: "?g \<noteq> []"
    by (auto simp: ParseCapability_def span_def Let_def split: if_splits)
  from g have "?g = '':'' @ cid" using hd_dropWhile [OF g] cid by (cases ?g) auto
  then show ?thesis unfolding FormatCapability_def sid by (metis append.assoc takeWhile_dropWhile_id)
qed

subsection \<open>Role grants and the identifier language\<close>

lemma split_on_join_append:
  "ps \<noteq> [] \<Longrightarrow> \<forall>p \<in> set ps. c \<notin> set p \<Longrightarrow> split_on c (join_with [c] ps @ c # t) = ps @ split_on c t"
  by (induction "[c]" ps rule: join_with.induct) (auto simp: split_on_append_sep)

lemma join_with_snoc: "ps \<noteq> [] \<Longrightarrow> join_with sep (ps @ [x]) = join_with sep ps @ sep @ x"
  by (induction sep ps rule: join_with.induct) auto

lemma join_with_append_sep: "ps \<noteq> [] \<Longrightarrow> qs \<noteq> [] \<Longrightarrow> join_with sep (ps @ qs) = join_with sep ps @ sep @ join_with sep qs"
proof (induction sep ps rule: join_with.induct)
  case (2 sep x)
  then show ?case by (cases qs) auto
qed auto

lemma prefix_segments:
  assumes "ps \<noteq> []" and "\<forall>p \<in> set ps. c \<notin> set p"
  shows "(\<exists>t. s = join_with [c] ps @ c # t \<and> split_on c t = rest) \<longleftrightarrow> split_on c s = ps @ rest \<and> rest \<noteq> []"
proof
  assume "\<exists>t. s = join_with [c] ps @ c # t \<and> split_on c t = rest"
  with assms show "split_on c s = ps @ rest \<and> rest \<noteq> []"
    by (auto simp: split_on_join_append)
next
  assume r: "split_on c s = ps @ rest \<and> rest \<noteq> []"
  then have nosep: "\<forall>p \<in> set rest. c \<notin> set p" using split_on_no_sep [of _ c s] by auto
  have "s = join_with [c] ps @ c # join_with [c] rest"
    using r assms(1) join_split_on [of c s] by (simp add: join_with_append_sep)
  moreover have "split_on c (join_with [c] rest) = rest" using r nosep by (simp add: split_on_join)
  ultimately show "\<exists>t. s = join_with [c] ps @ c # t \<and> split_on c t = rest" by blast
qed

text \<open>The coverage test, by segments: a trailing wildcard stands for one or more further segments, and not for an empty one.\<close>

lemma MatchCapability_segments:
  "MatchCapability cid g \<longleftrightarrow>
     cid = g \<or> (\<exists>pre rest. segments g = pre @ [''*''] \<and> pre \<noteq> [] \<and> (\<forall>p \<in> set pre. CHR ''*'' \<notin> set p) \<and>
       segments cid = pre @ rest \<and> rest \<noteq> [] \<and> rest \<noteq> [[]])"
proof -
  have step: "(length (take (length g - 1) g) < length cid \<and> prefix (take (length g - 1) g) cid) \<longleftrightarrow>
      (\<exists>rest. segments cid = pre @ rest \<and> rest \<noteq> [] \<and> rest \<noteq> [[]])"
    if g: "segments g = pre @ [''*'']" and ne: "pre \<noteq> []" for pre
  proof -
    let ?j = "join_with '':'' pre @ '':''"
    have "g = join_with '':'' (pre @ [''*''])" using join_split_on [of "CHR '':''" g] g by simp
    then have t: "take (length g - 1) g = ?j" using ne by (simp add: join_with_snoc)
    have nosep: "\<forall>p \<in> set pre. CHR '':'' \<notin> set p" using split_on_no_sep [of _ "CHR '':''" g] g by auto
    have "(length ?j < length cid \<and> prefix ?j cid) \<longleftrightarrow> (\<exists>t. cid = join_with '':'' pre @ CHR '':'' # t \<and> t \<noteq> [])"
      by (auto simp: prefix_def)
    also have "\<dots> \<longleftrightarrow> (\<exists>rest. (\<exists>t. cid = join_with '':'' pre @ CHR '':'' # t \<and> segments t = rest) \<and> rest \<noteq> [[]])"
      by (metis split_on.simps(1) split_on_inj)
    finally show ?thesis unfolding t prefix_segments [OF ne nosep] by blast
  qed
  have parts: "(\<not> length (segments g) < 2 \<and> last (segments g) = ''*'' \<and> (\<forall>p \<in> set (butlast (segments g)). \<not> contains_sub p ''*'')) \<longleftrightarrow>
      (\<exists>pre. segments g = pre @ [''*''] \<and> pre \<noteq> [] \<and> (\<forall>p \<in> set pre. CHR ''*'' \<notin> set p))" (is "?l \<longleftrightarrow> ?r")
  proof
    assume l: ?l
    then have "segments g = butlast (segments g) @ [''*'']"
      by (metis append_butlast_last_id split_on_neq_Nil)
    moreover from this l have "butlast (segments g) \<noteq> []" by (cases "butlast (segments g)") auto
    ultimately show ?r using l by (auto simp: contains_char)
  next
    assume ?r
    then show ?l by (auto simp: contains_char Suc_le_eq)
  qed
  show ?thesis unfolding MatchCapability_def Let_def using step parts by auto
qed


text \<open>
  On valid grant identifiers with an action segment, the coverage test of the registry and \<open>matchID\<close> agree, for every
  identifier whose last segment is not empty.
\<close>

lemma MatchCapability_matchID_aux:
  assumes g: "ValidateCapabilityID g = None" and three: "3 \<le> length (segments g)" and l: "last (segments cid) \<noteq> []"
  shows "MatchCapability cid g \<longleftrightarrow> matchID g cid = None"
proof
  assume "MatchCapability cid g"
  then consider "cid = g"
    | pre rest where "segments g = pre @ [''*'']" "segments cid = pre @ rest" "rest \<noteq> []"
    by (auto simp: MatchCapability_segments)
  then have "covers_id g cid"
  proof cases
    case 1
    then show ?thesis by (simp add: covers_id_def)
  next
    case 2
    with three have "2 \<le> length pre" by simp
    with 2 have "namespaceOf g = namespaceOf cid" by (subst namespaceOf_eq_iff) auto
    with 2 show ?thesis by (auto simp: covers_id_def)
  qed
  then show "matchID g cid = None" by (simp add: matchID_iff_covers [OF g])
next
  assume "matchID g cid = None"
  then consider "segments g = segments cid"
    | pre rest where "segments g = pre @ [''*'']" "segments cid = pre @ rest" "rest \<noteq> []"
    by (auto simp: matchID_iff_covers [OF g] covers_id_def)
  then show "MatchCapability cid g"
  proof cases
    case 1
    then show ?thesis by (auto simp: MatchCapability_def dest: split_on_inj)
  next
    case 2
    have "CHR ''*'' \<notin> set p" if "p \<in> set pre" for p
    proof
      assume star: "CHR ''*'' \<in> set p"
      from that obtain i where i: "i < length pre" "pre ! i = p" by (auto simp: in_set_conv_nth)
      with 2 have "segments g ! i = p" "i < length (segments g)" by (simp_all add: nth_append)
      with ValidateCapabilityID_wildcard [OF g, of i] star have "i = length (segments g) - 1" by simp
      with i 2 show False by simp
    qed
    moreover have "rest \<noteq> [[]]" using 2 l by auto
    moreover have "pre \<noteq> []" using 2 three by auto
    ultimately show ?thesis using 2 unfolding MatchCapability_segments by blast
  qed
qed

subsection \<open>The registry\<close>

definition table_ok :: "SchemeTable \<Rightarrow> bool" where
  "table_ok r \<longleftrightarrow> gomap_ok (schemes r) \<and> (\<forall>x \<in> set (schemes r). fst x = sdSchemeID (snd x))"

lemma NewRegistry_ok: "table_ok NewRegistry"
  by (simp add: table_ok_def NewRegistry_def gomap_ok_def)

lemma update_fresh: "k \<notin> set (gokeys m) \<Longrightarrow> AList.update k v m = m @ [(k, v)]"
  by (induction m) auto

lemma Register_Inr:
  "Register r d = Inr r' \<longleftrightarrow> Get r (sdSchemeID d) = None \<and> r' = r\<lparr>schemes := schemes r @ [(sdSchemeID d, d)]\<rparr>"
  by (auto simp: Register_def Get_def has_key_def map_of_eq_None_iff update_fresh)

lemma Register_ok: "table_ok r \<Longrightarrow> Register r d = Inr r' \<Longrightarrow> table_ok r'"
  by (auto simp: Register_Inr table_ok_def gomap_ok_def Get_def map_of_eq_None_iff)

lemma Register_Get: "Register r d = Inr r' \<Longrightarrow> Get r' k = (if k = sdSchemeID d then Some d else Get r k)"
  by (auto simp: Register_Inr Get_def map_add_def split: option.splits)

lemma Register_duplicate: "Get r (sdSchemeID d) \<noteq> None \<longleftrightarrow> Register r d = Inl (DuplicateScheme (sdSchemeID d))"
  by (auto simp: Register_def Get_def has_key_def)

lemma HasCapability_iff: "HasCapability r sid cid \<longleftrightarrow> (\<exists>d c. Get r sid = Some d \<and> find_capability d cid = Some c)"
proof -
  have "list_ex (\<lambda>c. ceID c = cid) (sdCapabilities d) \<longleftrightarrow> (\<exists>c. find_capability d cid = Some c)" for d
    using find_None_iff [of "\<lambda>c. ceID c = cid" "sdCapabilities d"] by (auto simp: find_capability_def list_ex_iff)
  then show ?thesis by (cases "Get r sid") (auto simp: HasCapability_def Get_def)
qed

lemma check_capability_step:
  "check_capability r v c =
     (case ValidateCapability r c of
        Inl e \<Rightarrow> refuse c e (v\<lparr>vrChecked := vrChecked v + 1\<rparr>)
      | Inr _ \<Rightarrow> v\<lparr>vrChecked := vrChecked v + 1\<rparr>)"
  by (auto simp: check_capability_def ValidateCapability_def find_capability_def Let_def list_ex_iff find_None_iff find_Some_iff
      split: option.splits prod.splits)

text \<open>Checking a list gives one error for every capability that the single check refuses, in order.\<close>

lemma ValidateCapabilities_fold:
  "foldl (check_capability r) v caps =
     v\<lparr>vrValid := vrValid v \<and> (\<forall>c \<in> set caps. \<exists>x. ValidateCapability r c = Inr x),
       vrErrors := vrErrors v @ List.map_filter (\<lambda>c. case ValidateCapability r c of Inl e \<Rightarrow> Some (c, e) | Inr _ \<Rightarrow> None) caps,
       vrChecked := vrChecked v + int (length caps)\<rparr>"
proof (induction caps arbitrary: v)
  case (Cons c caps)
  show ?case
    by (cases "ValidateCapability r c")
      (simp_all add: Cons.IH check_capability_step [of r v c] refuse_def List.map_filter_simps)
qed (simp add: List.map_filter_simps)

lemma dedup_loop_laws:
  "distinct (map (ToLower lower) (dedup_loop lower seen caps)) \<and>
   ToLower lower ` set (dedup_loop lower seen caps) = ToLower lower ` set caps - seen"
  by (induction lower seen caps rule: dedup_loop.induct) auto

end
