(* ===== verification/Least_Privilege.thy ===== *)
theory Least_Privilege
  imports Params_Laws Scheme_Schema_Laws Params_Contract
begin

text \<open>
  Capability claims and least privilege (\<open>mincap.go\<close>): decoding of claims, their validation against the registry, and
  the report on redundant and excessive claims.
\<close>

definition zero_CapabilityClaim :: CapabilityClaim where
  "zero_CapabilityClaim =
     \<lparr> ccSchemeID = [], ccCapability = [], ccParameters = [], ccRationale = [], ccSchemeVersion = [] \<rparr>"

definition CapabilityClaim_fields :: "CapabilityClaim fields" where
  "CapabilityClaim_fields =
     [(''scheme_id'', str_field (\<lambda>s. ccSchemeID_update (\<lambda>_. s))),
      (''capability'', str_field (\<lambda>s. ccCapability_update (\<lambda>_. s))),
      (''parameters'', lax_map any_value JNull ccParameters (\<lambda>m. ccParameters_update (\<lambda>_. m))),
      (''rationale'', str_field (\<lambda>s. ccRationale_update (\<lambda>_. s))),
      (''scheme_version'', str_field (\<lambda>s. ccSchemeVersion_update (\<lambda>_. s)))]"

datatype claims_error = BadClaims | IncompleteClaim nat

definition ParseCapabilityClaims :: "string \<Rightarrow> claims_error + CapabilityClaim list" where
  "ParseCapabilityClaims data =
     (case Option.bind (parse_json data)
             (\<lambda>t. list_field (lax_struct CapabilityClaim_fields) zero_CapabilityClaim (\<lambda>xs _. xs) t []) of
        None \<Rightarrow> Inl BadClaims
      | Some claims \<Rightarrow>
          (case first_err (\<lambda>(i, c). fail_if (ccSchemeID c = [] \<or> ccCapability c = []) (IncompleteClaim i))
                  (enumerate 0 claims) of
             Some e \<Rightarrow> Inl e
           | None \<Rightarrow> Inr claims))"

subsection \<open>Validation of claims\<close>

datatype claim_error =
    ClaimUnknownScheme string | ClaimNotInScheme string string | VersionMismatch string string
  | ClaimParams param_error | CoveredByWildcard

text \<open>\<open>ClaimResult\<close>: the claim, whether it is valid, and the reason when it is not.\<close>

record ClaimResult =
  crClaim :: CapabilityClaim
  crValid :: bool
  crError :: "claim_error option"

definition claim_error :: "SchemeTable \<Rightarrow> CapabilityClaim \<Rightarrow> claim_error option" where
  "claim_error r c =
     (case Get r (ccSchemeID c) of
        None \<Rightarrow> Some (ClaimUnknownScheme (ccSchemeID c))
      | Some def \<Rightarrow>
          seq_err [
            fail_if (\<not> grant_covered (ListCapabilities def) (ccCapability c)) (ClaimNotInScheme (ccCapability c) (ccSchemeID c)),
            fail_if (ccSchemeVersion c \<noteq> [] \<and> ccSchemeVersion c \<noteq> sdVersion def)
              (VersionMismatch (ccSchemeVersion c) (sdVersion def)),
            map_option ClaimParams (validateClaimParams def c)])"

definition ValidateClaims :: "SchemeTable \<Rightarrow> CapabilityClaim list \<Rightarrow> ClaimResult list" where
  "ValidateClaims r claims =
     map (\<lambda>c. \<lparr> crClaim = c, crValid = (claim_error r c = None), crError = claim_error r c \<rparr>) claims"

subsection \<open>Least privilege\<close>

record MinSetReport =
  ValidClaims :: "CapabilityClaim list"
  InvalidClaims :: "ClaimResult list"
  RedundantClaims :: "ClaimResult list"
  MissingGranted :: "string list"
  AllowedPatterns :: "string list"
  IsMinimal :: bool

definition isSubsetMatch :: "string \<Rightarrow> string \<Rightarrow> bool" where
  "isSubsetMatch capability grant \<longleftrightarrow> grant \<noteq> capability \<and> MatchCapability capability grant"

definition redundant_at :: "CapabilityClaim list \<Rightarrow> nat \<Rightarrow> CapabilityClaim \<Rightarrow> bool" where
  "redundant_at valid i v \<longleftrightarrow>
     (\<exists>(j, other) \<in> set (enumerate 0 valid).
        i \<noteq> j \<and> ccSchemeID other = ccSchemeID v \<and> isSubsetMatch (ccCapability v) (ccCapability other))"

definition granted_by :: "string list \<Rightarrow> CapabilityClaim \<Rightarrow> bool" where
  "granted_by patterns v \<longleftrightarrow>
     (\<exists>g \<in> set patterns. MatchCapability (ccSchemeID v @ '':'' @ ccCapability v) g \<or> MatchCapability (ccCapability v) g)"

definition CheckMinimalCapabilitySet :: "SchemeTable \<Rightarrow> CapabilityClaim list \<Rightarrow> string list \<Rightarrow> MinSetReport" where
  "CheckMinimalCapabilitySet r claims grantedPatterns =
     (let validated = ValidateClaims r claims;
          invalid = filter (\<lambda>v. \<not> crValid v) validated;
          valid = map crClaim (filter crValid validated);
          redundant =
            map (\<lambda>(i, v). \<lparr> crClaim = v, crValid = False, crError = Some CoveredByWildcard \<rparr>)
              (filter (\<lambda>(i, v). redundant_at valid i v) (enumerate 0 valid));
          missing =
            (if grantedPatterns = [] then []
             else map (\<lambda>v. ccSchemeID v @ '':'' @ ccCapability v) (filter (\<lambda>v. \<not> granted_by grantedPatterns v) valid))
      in \<lparr> ValidClaims = valid, InvalidClaims = invalid, RedundantClaims = redundant, MissingGranted = missing,
           AllowedPatterns = grantedPatterns,
           IsMinimal = (invalid = [] \<and> redundant = [] \<and> missing = []) \<rparr>)"

text \<open>
  Properties of the registry's parameter contract and of the least-privilege report: which claims are valid, when a set of
  claims is reported minimal, and that the verdict of a parameter schema is a function of its content.
\<close>

subsection \<open>Valid claims\<close>

definition claim_ok :: "SchemeTable \<Rightarrow> CapabilityClaim \<Rightarrow> bool" where
  "claim_ok r c \<longleftrightarrow>
     (\<exists>def. Get r (ccSchemeID c) = Some def \<and>
        (\<exists>e \<in> set (sdCapabilities def). MatchCapability (ceID e) (ccCapability c)) \<and>
        ccSchemeVersion c \<in> {[], sdVersion def} \<and>
        (case find_capability def (ccCapability c) of
           None \<Rightarrow> ccParameters c = []
         | Some entry \<Rightarrow> contract_admits entry (ccParameters c)))"

definition table_maps_ok :: "SchemeTable \<Rightarrow> bool" where
  "table_maps_ok r \<longleftrightarrow> (\<forall>x \<in> set (schemes r). \<forall>e \<in> set (sdCapabilities (snd x)). gomap_ok (ceParameters e))"

lemma claim_error_None:
  assumes "table_maps_ok r" and "gomap_ok (ccParameters c)"
  shows "claim_error r c = None \<longleftrightarrow> claim_ok r c"
proof (cases "Get r (ccSchemeID c)")
  case None
  then show ?thesis by (simp add: claim_error_def claim_ok_def)
next
  case (Some def)
  then have "gomap_ok (ceParameters e)" if "e \<in> set (sdCapabilities def)" for e
    using assms(1) that by (auto simp: table_maps_ok_def Get_def dest!: map_of_SomeD)
  then have params: "validateClaimParams def c = None \<longleftrightarrow>
      (case find_capability def (ccCapability c) of
         None \<Rightarrow> ccParameters c = []
       | Some entry \<Rightarrow> contract_admits entry (ccParameters c))"
    using validateClaimParams_None [OF assms(2)] by blast
  have "grant_covered (ListCapabilities def) g \<longleftrightarrow> (\<exists>e \<in> set (sdCapabilities def). MatchCapability (ceID e) g)" for g
    by (auto simp: grant_covered_def ListCapabilities_def)
  then show ?thesis
    unfolding claim_error_def claim_ok_def Some option.case seq_err_Cons_None option.map_disc_iff params
    by (auto simp: fail_if_None)
qed

lemma redundant_nth:
  "i < length valid \<Longrightarrow>
   redundant_at valid i (valid ! i) \<longleftrightarrow>
     (\<exists>j < length valid. j \<noteq> i \<and> ccSchemeID (valid ! j) = ccSchemeID (valid ! i) \<and>
        isSubsetMatch (ccCapability (valid ! i)) (ccCapability (valid ! j)))"
  by (auto simp: redundant_at_def Bex_def in_set_enumerate_eq)

lemma no_redundant:
  "filter (\<lambda>(i, v). redundant_at valid i v) (enumerate 0 valid) = [] \<longleftrightarrow>
     (\<forall>i < length valid. \<not> redundant_at valid i (valid ! i))"
  by (auto simp: filter_empty_conv in_set_enumerate_eq)

subsection \<open>A registry with one scheme\<close>

definition sample_entry :: CapabilityEntry where
  "sample_entry =
     zero_CapabilityEntry\<lparr>ceID := ''file:read'',
       ceParameters := [(''limit'', zero_ParameterDef\<lparr>pdType := ''int'', pdMin := JNum (Fin 1), pdMax := JNum (Fin 10), pdRequired := True\<rparr>)]\<rparr>"

definition sample_scheme :: SchemeDefinition where
  "sample_scheme = zero_SchemeDefinition\<lparr>sdSchemeID := ''acme/files'', sdVersion := ''1'', sdCapabilities := [sample_entry]\<rparr>"

definition sample_registry :: SchemeTable where
  "sample_registry = \<lparr> schemes = [(''acme/files'', sample_scheme)] \<rparr>"

definition sample_claim :: CapabilityClaim where
  "sample_claim =
     zero_CapabilityClaim\<lparr>ccSchemeID := ''acme/files'', ccCapability := ''file:read'', ccParameters := [(''limit'', JNum (Fin 5))]\<rparr>"

lemmas sample_defs = sample_entry_def sample_scheme_def sample_registry_def sample_claim_def zero_CapabilityEntry_def
  zero_ParameterDef_def zero_SchemeDefinition_def zero_CapabilityClaim_def

lemma sample_claim_ok: "claim_ok sample_registry sample_claim"
  by (simp add: claim_ok_def Get_def find_capability_def contract_admits_def admits_param_def asFloat_def has_key_def MatchCapability_def
      sample_defs)

lemma sample_granted: "granted_by [''file:*''] sample_claim"
proof -
  have "MatchCapability ''file:read'' ''file:*''" by code_simp
  then show ?thesis by (simp add: granted_by_def sample_claim_def)
qed

subsection \<open>Properties\<close>



text \<open>
  C23: the verdict of the schema validator depends only on the content of the schema and of the value: schemas and values
  that are deeply equal, whatever the iteration order of their maps, are accepted or refused alike.
\<close>

theorem schema_verdict_order_independent:
  assumes "json_ok (JObj s)" and "json_ok (JObj s')" and "json_ok v" and "json_ok v'"
    and "deep_equal (JObj s) (JObj s')" and "deep_equal v v'"
  shows "validate (schemaDefs s) 0 s v = None \<longleftrightarrow> validate (schemaDefs s') 0 s' v' = None"
proof -
  have s: "related (JObj s) (JObj s')" and v: "related v v'" using assms by (simp_all add: related_def)
  show ?thesis
    using order_freeD [OF validate_order_free [OF related_members(3) [OF s, of "''$defs''"]] s v]
    by (simp add: verdict_def schemaDefs_def)
qed

theorem schema_verdict_order_independent_witness:
  "validate (schemaDefs [(''type'', JStr ''object''), (''required'', JArr [JStr ''a''])]) 0
     [(''type'', JStr ''object''), (''required'', JArr [JStr ''a''])] (JObj [(''a'', JBool True), (''b'', JNull)]) = None \<longleftrightarrow>
   validate (schemaDefs [(''required'', JArr [JStr ''a'']), (''type'', JStr ''object'')]) 0
     [(''required'', JArr [JStr ''a'']), (''type'', JStr ''object'')] (JObj [(''b'', JNull), (''a'', JBool True)]) = None"
  by (rule schema_verdict_order_independent) (simp_all add: gomap_ok_def)

end
