(* ===== verification/Schema_Digest_Laws.thy ===== *)
theory Schema_Digest_Laws
  imports Schema_Digest Go_Json
begin

text \<open>
  Backfilling the digests is idempotent. A scanner looks only at the bytes it consumes: what it does on \<open>u @ rest\<close> it does
  on \<open>u @ t\<close> as well; so a second pass over the written document finds the same keys and values and verifies the digests
  that the first pass inserted.
\<close>

subsection \<open>Scanners look at what they consume\<close>

lemma skip_chars_local: "skip_chars s = Inr rest \<Longrightarrow> \<exists>u. s = u @ rest \<and> u \<noteq> [] \<and> (\<forall>t. skip_chars (u @ t) = Inr t)"
proof (induction s rule: skip_chars.induct)
  case (2 c cs)
  consider "c = CHR 0x5C" | "c = quote" | "c \<noteq> CHR 0x5C" "c \<noteq> quote" by blast
  then show ?case
  proof cases
    case 1
    with 2(3) obtain d ds where cs: "cs = d # ds" "skip_chars ds = Inr rest" by (auto split: list.splits)
    with 2(1) [OF 1] obtain u where "ds = u @ rest" "\<forall>t. skip_chars (u @ t) = Inr t" by blast
    with 1 cs show ?thesis by (intro exI [of _ "c # d # u"]) simp
  next
    case 2
    then show ?thesis using \<open>skip_chars (c # cs) = Inr rest\<close> by (intro exI [of _ "[c]"]) simp
  next
    case 3
    with 2(2,3) obtain u where "cs = u @ rest" "\<forall>t. skip_chars (u @ t) = Inr t" by auto
    with 3 show ?thesis by (intro exI [of _ "c # u"]) simp
  qed
qed simp

lemma skipString_local: "skipString s = Inr rest \<Longrightarrow> \<exists>u. s = u @ rest \<and> hd u = quote \<and> u \<noteq> [] \<and> (\<forall>t. skipString (u @ t) = Inr t)"
proof -
  assume a: "skipString s = Inr rest"
  then obtain cs where s: "s = quote # cs" "skip_chars cs = Inr rest"
    by (auto simp: skipString_def split: list.splits if_splits)
  with skip_chars_local obtain u where "cs = u @ rest" "\<forall>t. skip_chars (u @ t) = Inr t" by blast
  with s show ?thesis by (intro exI [of _ "quote # u"]) (simp add: skipString_def)
qed

lemma skip_nested_local:
  "skip_nested l r e d s = Inr rest \<Longrightarrow> \<exists>u. s = u @ rest \<and> u \<noteq> [] \<and> (\<forall>t. skip_nested l r e d (u @ t) = Inr t)"
proof (induction l r e d s rule: skip_nested.induct)
  case (2 l r e d c cs)
  have step: "\<exists>u. c # cs = u @ rest \<and> u \<noteq> [] \<and> (\<forall>t. skip_nested l r e d (u @ t) = Inr t)"
    if "\<exists>u. cs = u @ rest \<and> (\<forall>t. skip_nested l r e d (c # u @ t) = Inr t)"
    using that by (metis append_Cons list.distinct(1))
  consider "c = l" | "c \<noteq> l" "c = r" "d = 1" | "c \<noteq> l" "c = r" "d \<noteq> 1" | "c \<noteq> l" "c \<noteq> r" "c = quote" | "c \<noteq> l" "c \<noteq> r" "c \<noteq> quote" by blast
  then show ?case
  proof cases
    case 1
    with 2(1) [OF 1] 2(5) obtain u where "cs = u @ rest" "\<forall>t. skip_nested l r e (d + 1) (u @ t) = Inr t" by auto
    with 1 show ?thesis by (intro step) auto
  next
    case 2
    then show ?thesis using \<open>skip_nested l r e d (c # cs) = Inr rest\<close> by (intro step) auto
  next
    case 3
    with 2(2) [OF 3(1,2)] 2(5) obtain u where "cs = u @ rest" "\<forall>t. skip_nested l r e (d - 1) (u @ t) = Inr t" by auto
    with 3 show ?thesis by (intro step) auto
  next
    case 4
    with 2(5) obtain mid where mid: "skipString (c # cs) = Inr mid" "skip_nested l r e d mid = Inr rest"
      by (auto split: sum.splits)
    with 2(3) [OF 4] obtain u where u: "mid = u @ rest" "\<forall>t. skip_nested l r e d (u @ t) = Inr t" by blast
    from skipString_local [OF mid(1)] obtain w where w: "c # cs = w @ mid" "w \<noteq> []" "\<forall>t. skipString (w @ t) = Inr t" by blast
    then obtain w' where w': "w = c # w'" by (cases w) auto
    have "skip_nested l r e d (c # (w' @ u) @ t) = Inr t" for t
      using 4 w(3) [rule_format, of "u @ t"] w' u by simp
    with w w' u show ?thesis by (intro step exI [of _ "w' @ u"]) simp
  next
    case 5
    with 2(4) [OF 5] 2(5) obtain u where "cs = u @ rest" "\<forall>t. skip_nested l r e d (u @ t) = Inr t" by auto
    with 5 show ?thesis by (intro step) auto
  qed
qed simp

text \<open>A number ends at the first byte that cannot belong to it, so what follows matters to it.\<close>

definition ends_like :: "string \<Rightarrow> string \<Rightarrow> bool" where
  "ends_like rest t \<longleftrightarrow> t = [] \<or> \<not> number_char (hd t) \<or> (rest \<noteq> [] \<and> hd t = hd rest)"

lemma skipNumber_local:
  assumes "skipNumber s = Inr rest"
  shows "\<exists>u. s = u @ rest \<and> u \<noteq> [] \<and> (\<forall>t. ends_like rest t \<longrightarrow> skipNumber (u @ t) = Inr t)"
proof -
  let ?u = "takeWhile number_char s"
  have r: "rest = dropWhile number_char s" and ne: "?u \<noteq> []" using assms by (auto simp: skipNumber_def split: if_splits)
  have stop: "rest = [] \<or> \<not> number_char (hd rest)" unfolding r using hd_dropWhile by blast
  have "skipNumber (?u @ t) = Inr t" if "ends_like rest t" for t
  proof -
    have "t = [] \<or> \<not> number_char (hd t)" using that stop by (auto simp: ends_like_def)
    then have "takeWhile number_char t = []" "dropWhile number_char t = t" by (cases t; auto)+
    moreover have "\<forall>c \<in> set ?u. number_char c" by (auto dest: set_takeWhileD)
    ultimately show ?thesis using ne by (simp add: skipNumber_def takeWhile_append2 dropWhile_append2)
  qed
  then show ?thesis using ne r by (intro exI [of _ ?u]) simp
qed

lemma skipJSONValue_local:
  assumes "skipJSONValue s = Inr rest"
  obtains u where "s = u @ rest" and "u \<noteq> []" and "\<And>t. ends_like rest t \<Longrightarrow> skipJSONValue (u @ t) = Inr t"
proof -
  obtain c cs where s: "s = c # cs" using assms by (cases s) (auto simp: skipJSONValue_def)
  have lit: "\<exists>u. s = u @ rest \<and> u \<noteq> [] \<and> (\<forall>t. skipLiteral (u @ t) l = Inr t)" if "skipLiteral s l = Inr rest" "l \<noteq> []" for l
    using that by (intro exI [of _ l]) (auto simp: skipLiteral_def prefix_def split: if_splits)
  have "\<exists>f u. f s = Inr rest \<and> s = u @ rest \<and> u \<noteq> [] \<and> (\<forall>t. ends_like rest t \<longrightarrow> f (u @ t) = Inr t) \<and>
      (\<forall>v w. v = c # w \<longrightarrow> skipJSONValue v = f v)"
  proof -
    consider "c = CHR ''{''" | "c = CHR ''[''" | "c = quote" | "c = CHR ''t''" | "c = CHR ''f''" | "c = CHR ''n''"
      | "c \<notin> {CHR ''{'', CHR ''['', quote, CHR ''t'', CHR ''f'', CHR ''n''}" by blast
    then show ?thesis
    proof cases
      case 1
      then have "skipObject s = Inr rest" using assms s by (simp add: skipJSONValue_def)
      moreover from skip_nested_local [OF this [unfolded skipObject_def]]
      obtain u where "s = u @ rest" "u \<noteq> []" "\<forall>t. skipObject (u @ t) = Inr t" unfolding skipObject_def by blast
      ultimately show ?thesis using 1 by (intro exI [of _ skipObject] exI [of _ u]) (simp add: skipJSONValue_def)
    next
      case 2
      then have "skipArray s = Inr rest" using assms s by (simp add: skipJSONValue_def)
      moreover from skip_nested_local [OF this [unfolded skipArray_def]]
      obtain u where "s = u @ rest" "u \<noteq> []" "\<forall>t. skipArray (u @ t) = Inr t" unfolding skipArray_def by blast
      ultimately show ?thesis using 2 by (intro exI [of _ skipArray] exI [of _ u]) (simp add: skipJSONValue_def)
    next
      case 3
      then have "skipString s = Inr rest" using assms s by (simp add: skipJSONValue_def)
      moreover from skipString_local [OF this] obtain u where "s = u @ rest" "u \<noteq> []" "\<forall>t. skipString (u @ t) = Inr t" by blast
      ultimately show ?thesis using 3 by (intro exI [of _ skipString] exI [of _ u]) (simp add: skipJSONValue_def)
    next
      case 4
      then have "skipLiteral s ''true'' = Inr rest" using assms s by (simp add: skipJSONValue_def)
      moreover from lit [OF this] obtain u where "s = u @ rest" "u \<noteq> []" "\<forall>t. skipLiteral (u @ t) ''true'' = Inr t" by blast
      ultimately show ?thesis using 4
        by (intro exI [of _ "\<lambda>s. skipLiteral s ''true''"] exI [of _ u]) (simp add: skipJSONValue_def)
    next
      case 5
      then have "skipLiteral s ''false'' = Inr rest" using assms s by (simp add: skipJSONValue_def)
      moreover from lit [OF this] obtain u where "s = u @ rest" "u \<noteq> []" "\<forall>t. skipLiteral (u @ t) ''false'' = Inr t" by blast
      ultimately show ?thesis using 5
        by (intro exI [of _ "\<lambda>s. skipLiteral s ''false''"] exI [of _ u]) (simp add: skipJSONValue_def)
    next
      case 6
      then have "skipLiteral s ''null'' = Inr rest" using assms s by (simp add: skipJSONValue_def)
      moreover from lit [OF this] obtain u where "s = u @ rest" "u \<noteq> []" "\<forall>t. skipLiteral (u @ t) ''null'' = Inr t" by blast
      ultimately show ?thesis using 6
        by (intro exI [of _ "\<lambda>s. skipLiteral s ''null''"] exI [of _ u]) (simp add: skipJSONValue_def)
    next
      case 7
      then have "skipNumber s = Inr rest" using assms s by (simp add: skipJSONValue_def)
      moreover from skipNumber_local [OF this]
      obtain u where "s = u @ rest" "u \<noteq> []" "\<forall>t. ends_like rest t \<longrightarrow> skipNumber (u @ t) = Inr t" by blast
      ultimately show ?thesis using 7 by (intro exI [of _ skipNumber] exI [of _ u]) (simp add: skipJSONValue_def)
    qed
  qed
  then obtain f u where u: "s = u @ rest" "u \<noteq> []" "\<forall>t. ends_like rest t \<longrightarrow> f (u @ t) = Inr t"
    and f: "\<forall>v w. v = c # w \<longrightarrow> skipJSONValue v = f v" by blast
  obtain u' where "u = c # u'" using u s by (cases u) auto
  with u f have "ends_like rest t \<Longrightarrow> skipJSONValue (u @ t) = Inr t" for t by simp
  with u show thesis by (intro that [of u])
qed

subsection \<open>White space and keys\<close>

abbreviation spaces :: "string \<Rightarrow> string" where
  "spaces s \<equiv> takeWhile json_space s"

lemma spaces_skip: "s = spaces s @ skipJSONSpace s"
  by (simp add: skipJSONSpace_def)

lemma skip_spaces: "t \<noteq> [] \<Longrightarrow> \<not> json_space (hd t) \<Longrightarrow> skipJSONSpace (spaces s @ t) = t"
proof -
  assume t: "t \<noteq> []" "\<not> json_space (hd t)"
  have "\<forall>c \<in> set (spaces s). json_space c" by (auto dest: set_takeWhileD)
  with t show ?thesis by (cases t) (simp_all add: skipJSONSpace_def dropWhile_append2)
qed

lemma skip_split:
  obtains w where "s = w @ skipJSONSpace s" and "\<And>t. t \<noteq> [] \<Longrightarrow> \<not> json_space (hd t) \<Longrightarrow> skipJSONSpace (w @ t) = t"
  using spaces_skip skip_spaces by blast

lemma skip_head: "skipJSONSpace s \<noteq> [] \<Longrightarrow> \<not> json_space (hd (skipJSONSpace s))"
  unfolding skipJSONSpace_def by (rule hd_dropWhile)

lemma skip_append: "skipJSONSpace u \<noteq> [] \<Longrightarrow> skipJSONSpace (u @ t) = skipJSONSpace u @ t"
  by (induction u) (auto simp: skipJSONSpace_def)

lemma skip_all: "skipJSONSpace u = [] \<Longrightarrow> skipJSONSpace (u @ t) = skipJSONSpace t"
  by (induction u) (auto simp: skipJSONSpace_def split: if_splits)

lemma skip_id: "t \<noteq> [] \<Longrightarrow> \<not> json_space (hd t) \<Longrightarrow> skipJSONSpace t = t"
  by (cases t) (simp_all add: skipJSONSpace_def)

lemma colon_not_space [simp]: "\<not> json_space (CHR '':'')" "\<not> json_space (CHR '','')" "\<not> json_space quote"
  by (simp_all add: json_space_def)

lemma consumed_append [simp]: "consumed (u @ t) t = u"
  by (simp add: consumed_def)

lemma find_local:
  "findParamsSchemaKey s = Inr (Some after) \<Longrightarrow>
   \<exists>u. s = u @ after \<and> u \<noteq> [] \<and> after \<noteq> [] \<and> hd after = CHR '':'' \<and>
     (\<forall>t. t \<noteq> [] \<longrightarrow> hd t = CHR '':'' \<longrightarrow> findParamsSchemaKey (u @ t) = Inr (Some t))"
proof (induction s rule: findParamsSchemaKey.induct)
  case (2 c cs)
  show ?case
  proof (cases "c = quote")
    case False
    with 2(1,3) obtain u where "cs = u @ after" "after \<noteq> []" "hd after = CHR '':''"
      "\<forall>t. t \<noteq> [] \<longrightarrow> hd t = CHR '':'' \<longrightarrow> findParamsSchemaKey (u @ t) = Inr (Some t)" by auto
    with False show ?thesis by (intro exI [of _ "c # u"]) simp
  next
    case True
    with 2(3) obtain rest where r: "skipString (c # cs) = Inr rest" by (auto split: sum.splits)
    from skipString_local [OF r] obtain w where w: "c # cs = w @ rest" "hd w = quote" "w \<noteq> []" "\<And>t. skipString (w @ t) = Inr t" by blast
    then obtain w' where w': "w = quote # w'" by (cases w) auto
    have again: "findParamsSchemaKey (w @ t) =
        (if w = keyLiteral \<and> skipJSONSpace t \<noteq> [] \<and> hd (skipJSONSpace t) = CHR '':'' then Inr (Some (skipJSONSpace t))
         else findParamsSchemaKey t)" for t
      using w(4) [of t] unfolding w' by (simp add: Let_def)
    show ?thesis
    proof (cases "w = keyLiteral \<and> skipJSONSpace rest \<noteq> [] \<and> hd (skipJSONSpace rest) = CHR '':''")
      case True
      then have a: "after = skipJSONSpace rest" using 2(3) again [of rest] w by simp
      have "findParamsSchemaKey ((w @ spaces rest) @ t) = Inr (Some t)" if "t \<noteq> []" "hd t = CHR '':''" for t
        using again [of "spaces rest @ t"] skip_spaces [of t rest] that True by simp
      then show ?thesis using w True a spaces_skip [of rest] by (intro exI [of _ "w @ spaces rest"]) simp
    next
      case False
      then have f: "findParamsSchemaKey rest = Inr (Some after)"
        using 2(3) unfolding w(1) again by (simp only: if_not_P if_False)
      have "\<not> (take (length (c # cs) - length rest) (c # cs) = keyLiteral \<and> skipJSONSpace rest \<noteq> [] \<and> hd (skipJSONSpace rest) = CHR '':'')"
        using False unfolding w(1) by simp
      with 2(2) [OF _ r refl refl] True f obtain u where u: "rest = u @ after" "u \<noteq> []" "after \<noteq> []" "hd after = CHR '':''"
        "\<And>t. t \<noteq> [] \<Longrightarrow> hd t = CHR '':'' \<Longrightarrow> findParamsSchemaKey (u @ t) = Inr (Some t)" by blast
      have "findParamsSchemaKey ((w @ u) @ t) = Inr (Some t)" if "t \<noteq> []" "hd t = CHR '':''" for t
      proof (cases "skipJSONSpace u = []")
        case True
        then have "skipJSONSpace rest = after" using u skip_all [of u after] skip_id [of after] by simp
        with False u have "w \<noteq> keyLiteral" by simp
        then show ?thesis using again [of "u @ t"] u(5) [OF that] by simp
      next
        case nonspace: False
        then have "hd (skipJSONSpace (u @ t)) = hd (skipJSONSpace rest)" "skipJSONSpace rest \<noteq> []"
          using skip_append [of u] u(1) by simp_all
        then show ?thesis using again [of "u @ t"] u(5) [OF that] False by auto
      qed
      then show ?thesis using w u by (intro exI [of _ "w @ u"]) simp
    qed
  qed
qed simp

subsection \<open>A second pass\<close>

definition same_start :: "string \<Rightarrow> string \<Rightarrow> bool" where
  "same_start rest t \<longleftrightarrow> (rest = [] \<longleftrightarrow> t = []) \<and> (rest \<noteq> [] \<longrightarrow> hd t = hd rest)"

lemma same_start_ends: "same_start rest t \<Longrightarrow> ends_like rest t"
  by (auto simp: same_start_def ends_like_def)

lemma digest_key: "digestKeyLiteral \<noteq> []" "hd digestKeyLiteral = quote"
  by (simp_all add: digestKeyLiteral_def)

lemma verify_again:
  assumes "verify_entry d after = Inr (entry, rest)" and "hd after = CHR '',''" and "after \<noteq> []"
    and "prefix digestKeyLiteral (skipJSONSpace (tl after))" and "same_start rest more"
  shows "verify_entry d (entry @ more) = Inr (entry, more)" and "entry \<noteq> []" and "hd entry = CHR '',''"
    and "prefix digestKeyLiteral (skipJSONSpace (tl (entry @ more)))"
proof -
  obtain b where b: "skipJSONSpace (tl after) = digestKeyLiteral @ b" using assms(4) by (auto simp: prefix_def)
  have cl: "skipJSONSpace b \<noteq> []" "hd (skipJSONSpace b) = CHR '':''"
    using assms(1) b by (auto simp: verify_entry_def Let_def split: if_splits)
  then obtain cs where cs: "skipJSONSpace b = '':'' @ cs" by (cases "skipJSONSpace b") auto
  let ?sv = "skipJSONSpace cs"
  obtain e where e: "skipJSONValue ?sv = Inr e" and st: "stored_digest (consumed ?sv e) = Some d"
    and out: "entry = consumed after e" "rest = e"
  proof -
    have dk: "drop (length digestKeyLiteral) (digestKeyLiteral @ b) = b" "tl ('':'' @ cs) = cs" "hd ('':'' @ cs) = CHR '':''" by simp_all
    have "(case skipJSONValue ?sv of
             Inl e \<Rightarrow> Inl (DigestValue e)
           | Inr strEnd \<Rightarrow>
               (case stored_digest (consumed ?sv strEnd) of
                  None \<Rightarrow> Inl DigestNotString
                | Some stored \<Rightarrow>
                    if stored \<noteq> d then Inl (DigestDrift stored d) else Inr (consumed after strEnd, strEnd))) = Inr (entry, rest)"
      using assms(1) unfolding verify_entry_def Let_def b dk cs by simp
    then show thesis
      by (cases "skipJSONValue ?sv"; cases "stored_digest (consumed ?sv (projr (skipJSONValue ?sv)))")
        (auto intro: that split: if_splits)
  qed
  obtain v where v: "?sv = v @ e" "v \<noteq> []" "\<And>t. ends_like e t \<Longrightarrow> skipJSONValue (v @ t) = Inr t"
    by (rule skipJSONValue_local [OF e]) (rule that; assumption)
  have hv: "\<not> json_space (hd v)" using skip_head [of cs] v(1,2) by simp
  obtain w1 where w1: "tl after = w1 @ digestKeyLiteral @ b" "\<And>t. t \<noteq> [] \<Longrightarrow> \<not> json_space (hd t) \<Longrightarrow> skipJSONSpace (w1 @ t) = t"
    by (rule skip_split [of "tl after"]) (rule that; simp add: b [symmetric])
  obtain w2 where w2: "b = w2 @ '':'' @ cs" "\<And>t. t \<noteq> [] \<Longrightarrow> \<not> json_space (hd t) \<Longrightarrow> skipJSONSpace (w2 @ t) = t"
    by (rule skip_split [of b]) (rule that; simp add: cs [symmetric, simplified])
  obtain w3 where w3: "cs = w3 @ v @ e" "\<And>t. t \<noteq> [] \<Longrightarrow> \<not> json_space (hd t) \<Longrightarrow> skipJSONSpace (w3 @ t) = t"
    by (rule skip_split [of cs]) (rule that; simp add: v(1) [symmetric])
  have "after = '','' @ tl after" using assms(2,3) by (cases after) auto
  then have after: "after = ('','' @ w1 @ digestKeyLiteral @ w2 @ '':'' @ w3 @ v) @ e" using w1(1) w2(1) w3(1) by simp
  have entry: "entry = '','' @ w1 @ digestKeyLiteral @ w2 @ '':'' @ w3 @ v" unfolding out(1) by (subst after) (rule consumed_append)
  show "entry \<noteq> []" "hd entry = CHR '',''" by (simp_all add: entry)
  have k: "skipJSONSpace (tl (entry @ more)) = digestKeyLiteral @ w2 @ '':'' @ w3 @ v @ more"
    using w1(2) [of "digestKeyLiteral @ w2 @ '':'' @ w3 @ v @ more"] digest_key unfolding entry by simp
  show "prefix digestKeyLiteral (skipJSONSpace (tl (entry @ more)))" unfolding k by simp
  have c: "skipJSONSpace (w2 @ '':'' @ w3 @ v @ more) = '':'' @ w3 @ v @ more" by (rule w2(2)) simp_all
  have s: "skipJSONSpace (w3 @ v @ more) = v @ more" by (rule w3(2)) (use v hv in simp_all)
  have "skipJSONValue (v @ more) = Inr more" using v(3) same_start_ends [OF assms(5)] out(2) by blast
  moreover have "stored_digest v = Some d" using st v(1) by simp
  ultimately show "verify_entry d (entry @ more) = Inr (entry, more)"
    unfolding verify_entry_def Let_def k by (simp add: c [simplified] s)
qed

lemma hex_digest_plain: "plain_text (sha256HexOf raw)"
proof -
  have "list_all (\<lambda>c. 32 \<le> (of_char c :: int) \<and> (of_char c :: int) < 128 \<and> c \<noteq> CHR 0x22 \<and> c \<noteq> CHR 0x5C) hex_chars" by code_simp
  then have "32 \<le> (of_char (hex_chars ! i) :: int) \<and> (of_char (hex_chars ! i) :: int) < 128 \<and> hex_chars ! i \<noteq> CHR 0x22 \<and> hex_chars ! i \<noteq> CHR 0x5C"
    if "i < 16" for i using that by (simp add: list_all_length hex_chars_def)
  then show ?thesis
    by (auto simp: sha256HexOf_def hex_EncodeToString_def hex_byte_def plain_text_def list_all_iff less_mult_imp_div_less)
qed

lemma skip_chars_plain: "plain_text s \<Longrightarrow> skip_chars (s @ quote # t) = Inr t"
  by (induction s) (simp_all add: plain_text_def)

definition inserted :: "string \<Rightarrow> string" where
  "inserted digest = '', '' @ digestKeyLiteral @ '': '' @ [quote] @ digest @ [quote]"

lemma verify_inserted:
  assumes "plain_text d"
  shows "verify_entry d (inserted d @ Y) = Inr (inserted d, Y)" and "prefix digestKeyLiteral (skipJSONSpace (tl (inserted d @ Y)))"
    and "inserted d \<noteq> []" and "hd (inserted d) = CHR '',''"
proof -
  let ?q = "[quote] @ d @ [quote]"
  have k: "skipJSONSpace (tl (inserted d @ Y)) = digestKeyLiteral @ '': '' @ ?q @ Y"
    by (simp add: inserted_def skipJSONSpace_def json_space_def digestKeyLiteral_def)
  then show "prefix digestKeyLiteral (skipJSONSpace (tl (inserted d @ Y)))" by simp
  show "inserted d \<noteq> []" "hd (inserted d) = CHR '',''" by (simp_all add: inserted_def)
  have c: "skipJSONSpace ('': '' @ ?q @ Y) = '': '' @ ?q @ Y" "skipJSONSpace (tl ('': '' @ ?q @ Y)) = ?q @ Y"
    by (simp_all add: skipJSONSpace_def json_space_def)
  have v: "skipJSONValue (?q @ Y) = Inr Y"
    using skip_chars_plain [OF assms] by (simp add: skipJSONValue_def skipString_def)
  have st: "stored_digest ?q = Some d"
    using parse_quoted [OF assms] by (simp add: stored_digest_def quoted_def)
  have d: "drop (length digestKeyLiteral) (digestKeyLiteral @ '': '' @ ?q @ Y) = '': '' @ ?q @ Y" by simp
  show "verify_entry d (inserted d @ Y) = Inr (inserted d, Y)"
    unfolding verify_entry_def Let_def k d c v sum.case consumed_append st option.case by simp
qed

text \<open>What one pass writes is found again and verified, whatever follows it.\<close>

lemma reentry:
  assumes u: "\<And>t. t \<noteq> [] \<Longrightarrow> hd t = CHR '':'' \<Longrightarrow> findParamsSchemaKey (u @ t) = Inr (Some t)"
    and w: "\<And>t. t \<noteq> [] \<Longrightarrow> \<not> json_space (hd t) \<Longrightarrow> skipJSONSpace (w @ t) = t"
    and v: "v \<noteq> []" "\<not> json_space (hd v)" "\<And>t. ends_like rest t \<Longrightarrow> skipJSONValue (v @ t) = Inr t"
    and E: "E \<noteq> []" "hd E = CHR '',''" "prefix digestKeyLiteral (skipJSONSpace (tl (E @ Y)))"
      "verify_entry (sha256HexOf v) (E @ Y) = Inr (E, Y)"
  shows "findParamsSchemaKey (((u @ '':'' @ w) @ v @ E) @ Y) = Inr (Some ('':'' @ w @ v @ E @ Y))"
    and "backfill_entry (((u @ '':'' @ w) @ v @ E) @ Y) ('':'' @ w @ v @ E @ Y) = Inr ((u @ '':'' @ w) @ v @ E, Y)"
proof -
  show "findParamsSchemaKey (((u @ '':'' @ w) @ v @ E) @ Y) = Inr (Some ('':'' @ w @ v @ E @ Y))"
    using u [of "'':'' @ w @ v @ E @ Y"] by simp
  have vs: "skipJSONSpace (tl ('':'' @ w @ v @ E @ Y)) = v @ E @ Y" using w [of "v @ E @ Y"] v(1,2) by simp
  have "ends_like rest (E @ Y)" using E(1,2) by (simp add: ends_like_def number_char_def is_digit_def in_range_def)
  then have ve: "skipJSONValue (v @ E @ Y) = Inr (E @ Y)" by (rule v(3))
  have doc: "consumed (((u @ '':'' @ w) @ v @ E) @ Y) (v @ E @ Y) = u @ '':'' @ w"
    using consumed_append [of "u @ '':'' @ w" "v @ E @ Y"] by simp
  have af: "skipJSONSpace (E @ Y) = E @ Y" using E(1,2) by (intro skip_id) simp_all
  have hd: "hd (E @ Y) = CHR '',''" "E @ Y \<noteq> []" "v @ E @ Y \<noteq> []" using E(1,2) by simp_all
  show "backfill_entry (((u @ '':'' @ w) @ v @ E) @ Y) ('':'' @ w @ v @ E @ Y) = Inr ((u @ '':'' @ w) @ v @ E, Y)"
    unfolding backfill_entry_def Let_def vs ve sum.case doc consumed_append af hd(1) E(4)
    using hd E(3) by simp
qed

lemma entry_again:
  assumes f: "findParamsSchemaKey doc = Inr (Some colon)" and b: "backfill_entry doc colon = Inr (out, rest)"
    and more: "same_start rest more"
  obtains X Y c' where "out @ more = X @ Y" and "X \<noteq> []" and "hd X = hd doc" and "Y = more \<or> Y = CHR ''}'' # more"
    and "findParamsSchemaKey (X @ Y) = Inr (Some c')" and "backfill_entry (X @ Y) c' = Inr (X, Y)"
proof -
  obtain u where u: "doc = u @ colon" "u \<noteq> []" "colon \<noteq> []" "hd colon = CHR '':''"
    "\<And>t. t \<noteq> [] \<Longrightarrow> hd t = CHR '':'' \<Longrightarrow> findParamsSchemaKey (u @ t) = Inr (Some t)"
    using find_local [OF f] by blast
  let ?vs = "skipJSONSpace (tl colon)"
  obtain w where w: "tl colon = w @ ?vs" "\<And>t. t \<noteq> [] \<Longrightarrow> \<not> json_space (hd t) \<Longrightarrow> skipJSONSpace (w @ t) = t"
    by (rule skip_split [of "tl colon"]) (rule that; assumption)
  obtain e where e: "skipJSONValue ?vs = Inr e"
    using b by (cases "skipJSONValue ?vs") (auto simp: backfill_entry_def Let_def split: if_splits)
  obtain v where v: "?vs = v @ e" "v \<noteq> []" "\<And>t. ends_like e t \<Longrightarrow> skipJSONValue (v @ t) = Inr t"
    by (rule skipJSONValue_local [OF e]) (rule that; assumption)
  have hv: "\<not> json_space (hd v)" using skip_head [of "tl colon"] v(1,2) by simp
  have "doc = u @ '':'' @ w @ ?vs" using u(1,3,4) w(1) by (cases colon) auto
  then have head: "consumed doc ?vs = u @ '':'' @ w" using consumed_append [of "u @ '':'' @ w" ?vs] by simp
  have vb: "consumed ?vs e = v" unfolding v(1) by simp
  let ?d = "sha256HexOf v"
  let ?a = "skipJSONSpace e"
  let ?H = "u @ '':'' @ w"
  note parts = b [unfolded backfill_entry_def Let_def e sum.case head vb]
  have hX: "hd ((?H @ v @ E)) = hd doc" for E using u(1,2) by simp
  have a: "?a \<noteq> []" and tm: "hd ?a = CHR '','' \<or> hd ?a = CHR ''}''" using parts by (auto split: if_splits)
  show thesis
  proof (cases "hd ?a = CHR '','' \<and> prefix digestKeyLiteral (skipJSONSpace (tl ?a))")
    case True
    then obtain E where ve: "verify_entry ?d ?a = Inr (E, rest)" and out: "out = ?H @ v @ E"
      using parts a by (auto split: if_splits sum.splits)
    note again = verify_again [OF ve _ a _ more]
    have E: "E \<noteq> []" "hd E = CHR '',''" "prefix digestKeyLiteral (skipJSONSpace (tl (E @ more)))" "verify_entry ?d (E @ more) = Inr (E, more)"
      using again True by blast+
    have split: "out @ more = (?H @ v @ E) @ more" by (simp add: out)
    show thesis
      by (rule that [OF split _ hX _ reentry [OF u(5) w(2) v(2) hv v(3) E]]) (use u(2) in simp_all)
  next
    case False
    let ?E = "inserted ?d"
    define Y where "Y = (if hd ?a = CHR ''}'' then CHR ''}'' # more else more)"
    have split: "out @ more = (?H @ v @ ?E) @ Y" using parts a False by (auto simp: inserted_def Y_def split: if_splits)
    note E = verify_inserted(3,4) [OF hex_digest_plain [of v]] verify_inserted(2,1) [OF hex_digest_plain [of v], of Y]
    show thesis
      by (rule that [OF split _ hX _ reentry [OF u(5) w(2) v(2) hv v(3) E]]) (use u(2) in \<open>simp_all add: Y_def\<close>)
  qed
qed

subsection \<open>Idempotence\<close>

lemma loop_start: "backfill_loop doc = Inr out \<Longrightarrow> same_start doc out"
proof (induction "length doc" arbitrary: doc out rule: less_induct)
  case less
  show ?case
  proof (cases "findParamsSchemaKey doc")
    case (Inr k)
    show ?thesis
    proof (cases k)
      case None
      with Inr less.prems show ?thesis by (simp add: backfill_loop.simps [of doc] same_start_def)
    next
      case (Some colon)
      with Inr less.prems obtain out1 rest more where b: "backfill_entry doc colon = Inr (out1, rest)"
        and r: "length rest < length doc" "backfill_loop rest = Inr more" "out = out1 @ more"
        by (auto simp: backfill_loop.simps [of doc] split: sum.splits if_splits)
      from entry_again [OF Inr [unfolded Some] b less.hyps [OF r(1,2)]]
      obtain X Y where "out = X @ Y" "X \<noteq> []" "hd X = hd doc" using r(3) by metis
      moreover have "doc \<noteq> []" using r(1) by auto
      ultimately show ?thesis by (simp add: same_start_def)
    qed
  qed (use less.prems in \<open>simp add: backfill_loop.simps [of doc]\<close>)
qed

lemma consumed_Cons: "length t \<le> length s \<Longrightarrow> consumed (c # s) t = c # consumed s t"
  by (simp add: consumed_def Suc_diff_le)

lemma backfill_entry_Cons:
  assumes "length colon \<le> length doc" and "backfill_entry doc colon = Inr (out, rest)"
  shows "backfill_entry (c # doc) colon = Inr (c # out, rest)"
proof -
  have "length (skipJSONSpace (tl colon)) \<le> length doc"
    using assms(1) length_dropWhile_le [of json_space "tl colon"] by (simp add: skipJSONSpace_def)
  note c = consumed_Cons [OF this, of c]
  show ?thesis using assms(2) unfolding backfill_entry_def Let_def c by (auto split: if_splits sum.splits)
qed

lemma loop_Cons:
  assumes "c \<noteq> quote" and "backfill_loop s = Inr out"
  shows "backfill_loop (c # s) = Inr (c # out)"
proof (cases "findParamsSchemaKey s")
  case (Inr k)
  show ?thesis
  proof (cases k)
    case None
    with Inr assms(2) have "s = out" by (simp add: backfill_loop.simps [of s])
    with Inr None assms(1) show ?thesis by (simp add: backfill_loop.simps [of "c # out"])
  next
    case (Some colon)
    with Inr assms(2) obtain out1 rest more where b: "backfill_entry s colon = Inr (out1, rest)"
      and r: "length rest < length s" "backfill_loop rest = Inr more" "out = out1 @ more"
      by (auto simp: backfill_loop.simps [of s] split: sum.splits if_splits)
    have "length colon \<le> length s" using findParamsSchemaKey_shorter Inr Some by (simp add: less_imp_le)
    from backfill_entry_Cons [OF this b, of c] Inr Some assms(1) r show ?thesis
      by (simp add: backfill_loop.simps [of "c # s"])
  qed
qed (use assms in \<open>simp add: backfill_loop.simps [of s]\<close>)

lemma loop_again: "backfill_loop doc = Inr out \<Longrightarrow> backfill_loop out = Inr out"
proof (induction "length doc" arbitrary: doc out rule: less_induct)
  case less
  show ?case
  proof (cases "findParamsSchemaKey doc")
    case (Inr k)
    show ?thesis
    proof (cases k)
      case None
      with Inr less.prems have "doc = out" by (simp add: backfill_loop.simps [of doc])
      with less.prems show ?thesis by simp
    next
      case (Some colon)
      with Inr less.prems obtain out1 rest more where b: "backfill_entry doc colon = Inr (out1, rest)"
        and r: "length rest < length doc" "backfill_loop rest = Inr more" "out = out1 @ more"
        by (auto simp: backfill_loop.simps [of doc] split: sum.splits if_splits)
      from entry_again [OF Inr [unfolded Some] b loop_start [OF r(2)]]
      obtain X Y c' where XY: "out = X @ Y" "X \<noteq> []" "Y = more \<or> Y = CHR ''}'' # more"
        and again: "findParamsSchemaKey (X @ Y) = Inr (Some c')" "backfill_entry (X @ Y) c' = Inr (X, Y)"
        using r(3) by metis
      have "backfill_loop more = Inr more" by (rule less.hyps [OF r(1,2)])
      then have "backfill_loop Y = Inr Y" using XY(3) loop_Cons [of "CHR ''}''" more more] by auto
      then show ?thesis unfolding XY(1) using again XY(2) by (simp add: backfill_loop.simps [of "X @ Y"])
    qed
  qed (use less.prems in \<open>simp add: backfill_loop.simps [of doc]\<close>)
qed

text \<open>
  C25: backfilling is idempotent: the document written by \<open>BackfillParamsSchemaDigests\<close> is accepted again, every digest in it
  is verified, and nothing is changed.
\<close>

theorem BackfillParamsSchemaDigests_idempotent:
  assumes "BackfillParamsSchemaDigests data = Inr out"
  shows "BackfillParamsSchemaDigests out = Inr out"
  using assms loop_again [of data out] by (auto simp: BackfillParamsSchemaDigests_def split: if_splits)

definition sample_document :: string where
  "sample_document = ''{'' @ keyLiteral @ '': {} }''"

lemma sample_backfilled:
  "BackfillParamsSchemaDigests sample_document = Inr (''{'' @ keyLiteral @ '': {}'' @ inserted (sha256HexOf ''{}'') @ ''}'')"
proof -
  have key: "findParamsSchemaKey sample_document = Inr (Some '': {} }'')" by code_simp
  have doc: "consumed sample_document ''{} }'' = ''{'' @ keyLiteral @ '': ''" by code_simp
  have scan: "skipJSONSpace (tl '': {} }'') = ''{} }''" "skipJSONValue ''{} }'' = Inr '' }''" "consumed ''{} }'' '' }'' = ''{}''"
    "skipJSONSpace '' }'' = ''}''" "skipJSONSpace (tl ''}'') = []" by code_simp+
  have "backfill_entry sample_document '': {} }'' = Inr (''{'' @ keyLiteral @ '': {}'' @ inserted (sha256HexOf ''{}'') @ ''}'', [])"
    unfolding backfill_entry_def Let_def scan sum.case doc by (simp add: inserted_def)
  moreover have "contains_sub sample_document keyLiteral" "length ([] :: string) < length sample_document" by code_simp+
  ultimately show ?thesis
    by (simp add: BackfillParamsSchemaDigests_def backfill_loop.simps [of sample_document] backfill_loop.simps [of "[]"] key)
qed

theorem BackfillParamsSchemaDigests_idempotent_witness:
  "BackfillParamsSchemaDigests (''{'' @ keyLiteral @ '': {}'' @ inserted (sha256HexOf ''{}'') @ ''}'') =
   Inr (''{'' @ keyLiteral @ '': {}'' @ inserted (sha256HexOf ''{}'') @ ''}'')"
  by (rule BackfillParamsSchemaDigests_idempotent [OF sample_backfilled])

end
