(* ===== verification/Registry_Loading.thy ===== *)
theory Registry_Loading
  imports Scheme_Schema_Laws
begin

text \<open>
  Loading of capability files (\<open>LoadScheme\<close> of \<open>schema.go\<close>, \<open>loader.go\<close>) and the generation of role documents
  (\<open>genauthz.go\<close>). The file system is an argument: the bytes of a file, if it can be read, and the list of what
  \<open>filepath.Walk\<close> visits, in its order. Signatures and trust roots are arguments of \<open>GenAuthz\<close>, since PKCS#7 is not in the
  sources; the file it writes is not represented.
\<close>

subsection \<open>Files\<close>

type_synonym files = "string \<Rightarrow> string option"

definition fill_vendor :: "SchemeDefinition \<Rightarrow> SchemeDefinition" where
  "fill_vendor def =
     (if sdVendor def = [] \<or> sdProduct def = [] then
        (case ParseSchemeID (sdSchemeID def) of
           None \<Rightarrow> def
         | Some (v, p) \<Rightarrow>
             def\<lparr>sdVendor := if sdVendor def = [] then v else sdVendor def,
                 sdProduct := if sdProduct def = [] then p else sdProduct def\<rparr>)
      else def)"

definition LoadScheme :: "files \<Rightarrow> string \<Rightarrow> scheme_error + SchemeDefinition" where
  "LoadScheme fs path =
     (case fs path of
        None \<Rightarrow> Inl (ReadFailed path)
      | Some data \<Rightarrow>
          (case Unmarshal_scheme data of
             None \<Rightarrow> Inl (ParseFailed path)
           | Some def \<Rightarrow>
               if sdSchemeID def = [] then Inl (SchemeIDRequired path)
               else
                 case ValidateSchemeID (sdSchemeID def) of
                   Some e \<Rightarrow> Inl (AtPath path e)
                 | None \<Rightarrow> if sdCapabilities def = [] then Inl (CapabilityRequired path) else Inr (fill_vendor def)))"

definition isIgnoredDataPath :: "string \<Rightarrow> bool" where
  "isIgnoredDataPath path \<longleftrightarrow> list_ex (\<lambda>seg. seg \<noteq> [] \<and> hd seg = CHR ''_'') (split_on (CHR ''/'') path)"

definition isVersionFileName :: "string \<Rightarrow> bool" where
  "isVersionFileName base \<longleftrightarrow> 3 \<le> length base \<and> base ! 0 = CHR ''v'' \<and> is_digit (base ! 1)"

text \<open>\<open>filepath.Base\<close> of the path of a file, which has no trailing slash, and \<open>filepath.Ext\<close>.\<close>

definition base_name :: "string \<Rightarrow> string" where
  "base_name path = last (split_on (CHR ''/'') path)"

definition ext_name :: "string \<Rightarrow> string" where
  "ext_name path =
     (let parts = split_on (CHR ''.'') (base_name path)
      in if length parts < 2 then [] else ''.'' @ last parts)"

definition is_scheme_file :: "string \<Rightarrow> bool" where
  "is_scheme_file path \<longleftrightarrow> \<not> isIgnoredDataPath path \<and> ext_name path = ''.json'' \<and> isVersionFileName (base_name path)"

datatype visit = VDir string | VFile string | VError string

text \<open>
  The walk of \<open>LoadAllSchemes\<close>, \<open>LoadFromDir\<close> and \<open>LoadFromFS\<close>: the map of the schemes so far is threaded, a later file
  overwrites an earlier one with the same identifier, and the first error ends the walk.
\<close>

fun load_walk :: "(string \<Rightarrow> scheme_error + SchemeDefinition) \<Rightarrow> visit list \<Rightarrow> SchemeDefinition gomap \<Rightarrow>
    scheme_error + SchemeDefinition gomap" where
  "load_walk load [] m = Inr m"
| "load_walk load (VError p # vs) m = Inl (WalkFailed p)"
| "load_walk load (VDir p # vs) m = load_walk load vs m"
| "load_walk load (VFile p # vs) m =
     (if \<not> is_scheme_file p then load_walk load vs m
      else
        case load p of
          Inl e \<Rightarrow> Inl e
        | Inr def \<Rightarrow> load_walk load vs (AList.update (sdSchemeID def) def m))"

definition LoadFromDir :: "files \<Rightarrow> visit list \<Rightarrow> scheme_error + SchemeDefinition gomap" where
  "LoadFromDir fs walk = load_walk (LoadScheme fs) walk []"

definition LoadAllSchemes :: "files \<Rightarrow> visit list \<Rightarrow> scheme_error + SchemeDefinition gomap" where
  "LoadAllSchemes fs walk = load_walk (LoadScheme fs) walk []"

definition load_embedded_file :: "files \<Rightarrow> string \<Rightarrow> scheme_error + SchemeDefinition" where
  "load_embedded_file fs path =
     (case fs path of
        None \<Rightarrow> Inl (ReadFailed path)
      | Some data \<Rightarrow>
          (case Unmarshal_scheme data of
             None \<Rightarrow> Inl (ParseFailed path)
           | Some def \<Rightarrow>
               if sdSchemeID def = [] then Inl (SchemeIDRequired path)
               else case ValidateSchemeID (sdSchemeID def) of Some e \<Rightarrow> Inl (AtPath path e) | None \<Rightarrow> Inr def))"

definition LoadFromFS :: "files \<Rightarrow> visit list \<Rightarrow> scheme_error + SchemeDefinition gomap" where
  "LoadFromFS fs walk = load_walk (load_embedded_file fs) walk []"

definition LoadFromBoth :: "files \<Rightarrow> (string \<Rightarrow> visit list) \<Rightarrow> string \<Rightarrow> scheme_error + SchemeDefinition gomap" where
  "LoadFromBoth fs walk diskDir = (if diskDir = [] then Inl DirectoryRequired else LoadFromDir fs (walk diskDir))"

fun register_all :: "SchemeTable \<Rightarrow> SchemeDefinition list \<Rightarrow> scheme_error + SchemeTable" where
  "register_all r [] = Inr r"
| "register_all r (d # ds) = (case Register r d of Inl e \<Rightarrow> Inl e | Inr r' \<Rightarrow> register_all r' ds)"

definition NewRegistryFromDisk :: "files \<Rightarrow> (string \<Rightarrow> visit list) \<Rightarrow> string \<Rightarrow> scheme_error + SchemeTable" where
  "NewRegistryFromDisk fs walk dir =
     (case LoadFromDir fs (walk dir) of
        Inl e \<Rightarrow> Inl e
      | Inr loaded \<Rightarrow> register_all NewRegistry (map snd loaded))"

definition NewRegistryFromBoth :: "files \<Rightarrow> (string \<Rightarrow> visit list) \<Rightarrow> string \<Rightarrow> scheme_error + SchemeTable" where
  "NewRegistryFromBoth fs walk diskDir =
     (case LoadFromBoth fs walk diskDir of
        Inl e \<Rightarrow> Inl e
      | Inr loaded \<Rightarrow> register_all NewRegistry (map snd loaded))"

subsection \<open>Role documents\<close>

record AuthzRoleDef =
  arDisplayName :: string
  arProfiles :: "string list"
  arGrants :: "string list"
  arScope :: "string list"

record GatewayNSDef =
  gnDisplayName :: string
  gnPrefix :: string
  gnGrants :: "string list"

record AuthzDocument =
  adVersion :: string
  adRoles :: "AuthzRoleDef gomap"
  adOUMapping :: "string gomap"
  adGatewayNamespaces :: "GatewayNSDef gomap"
  adCapabilityParameters :: "obj gomap"

record GenAuthzConfig =
  gcSchemePaths :: "string list"
  gcVerifySignature :: bool
  gcVerifyRequired :: bool
  gcTrustRootsPEM :: "string list"
  gcVersion :: string
  gcNamespacePrefix :: string

subsubsection \<open>Signatures\<close>

text \<open>
  The checks of \<open>sign.go\<close>. PKCS#7 verification is a package outside the sources, PEM and X.509 are the standard library's:
  they are arguments (\<open>verifyDetached\<close> returns the signer's certificate, \<open>chainOK\<close> is \<open>Certificate.Verify\<close> against a pool of
  roots for code signing).
\<close>

record 'cert pki =
  fileExists :: "string \<Rightarrow> bool"
  pemDecode :: "string \<Rightarrow> (string \<times> string) option"
  parseCertificate :: "string \<Rightarrow> 'cert option"
  verifyDetached :: "string \<Rightarrow> string \<Rightarrow> 'cert option"
  chainOK :: "'cert list \<Rightarrow> 'cert \<Rightarrow> bool"

definition HasSignature :: "'cert pki \<Rightarrow> string \<Rightarrow> bool" where
  "HasSignature k capPath = fileExists k (capPath @ ''.p7s'')"

text \<open>\<open>pem.Decode\<close> returns a rest that is shorter than its input; the test makes the termination of the loop evident.\<close>

function cert_loop :: "'cert pki \<Rightarrow> string \<Rightarrow> 'cert list" where
  "cert_loop k data =
     (if data = [] then []
      else
        case pemDecode k data of
          None \<Rightarrow> []
        | Some (block, rest) \<Rightarrow>
            if length rest < length data then
              (case parseCertificate k block of None \<Rightarrow> cert_loop k rest | Some c \<Rightarrow> c # cert_loop k rest)
            else [])"
  by pat_completeness auto
termination
  by (relation "measure (\<lambda>(k, data). length data)") auto

declare cert_loop.simps [simp del]

definition LoadCertFile :: "'cert pki \<Rightarrow> files \<Rightarrow> string \<Rightarrow> 'cert list option" where
  "LoadCertFile k fs path =
     (case fs path of
        None \<Rightarrow> None
      | Some data \<Rightarrow> (let certs = cert_loop k data in if certs = [] then None else Some certs))"

datatype sign_error =
    ReadCapability | ReadSignature | InvalidPEM | VerifyFailed | NoTrustRoot | ChainFailed

definition VerifyCapabilityPKCS7Cert :: "'cert pki \<Rightarrow> files \<Rightarrow> string \<Rightarrow> 'cert list \<Rightarrow> sign_error + 'cert" where
  "VerifyCapabilityPKCS7Cert k fs capPath trustRoots =
     (case fs capPath of
        None \<Rightarrow> Inl ReadCapability
      | Some capData \<Rightarrow>
          (case fs (capPath @ ''.p7s'') of
             None \<Rightarrow> Inl ReadSignature
           | Some sigPEM \<Rightarrow>
               (case pemDecode k sigPEM of
                  None \<Rightarrow> Inl InvalidPEM
                | Some (block, _) \<Rightarrow>
                    (case verifyDetached k block capData of
                       None \<Rightarrow> Inl VerifyFailed
                     | Some signerCert \<Rightarrow>
                         if trustRoots = [] then Inl NoTrustRoot
                         else if \<not> chainOK k trustRoots signerCert then Inl ChainFailed
                         else Inr signerCert))))"

definition VerifyCapabilityPKCS7 :: "'cert pki \<Rightarrow> files \<Rightarrow> string \<Rightarrow> 'cert list \<Rightarrow> sign_error option" where
  "VerifyCapabilityPKCS7 k fs capPath trustRoots =
     (case VerifyCapabilityPKCS7Cert k fs capPath trustRoots of Inl e \<Rightarrow> Some e | Inr _ \<Rightarrow> None)"

text \<open>\<open>LoadTrustRoots\<close>: a file, or every certificate file under a directory; files that do not load are skipped.\<close>

definition LoadTrustRoots :: "'cert pki \<Rightarrow> files \<Rightarrow> (string \<Rightarrow> bool option) \<Rightarrow> (string \<Rightarrow> visit list) \<Rightarrow> string \<Rightarrow> 'cert list option" where
  "LoadTrustRoots k fs isDir walk path =
     (case isDir path of
        None \<Rightarrow> None
      | Some False \<Rightarrow> LoadCertFile k fs path
      | Some True \<Rightarrow>
          Some (concat (map (\<lambda>v. case v of
                  VFile p \<Rightarrow>
                    if suffix ''.pem'' p \<or> suffix ''.crt'' p then (case LoadCertFile k fs p of None \<Rightarrow> [] | Some cs \<Rightarrow> cs) else []
                | _ \<Rightarrow> []) (walk path))))"

subsubsection \<open>The document\<close>

datatype authz_error =
    NoSchemePaths | LoadFailed string scheme_error | MissingSignature string | BadTrustRoot string
  | BadSignature string sign_error | InvalidRoles string "role_error list"

definition load_roots :: "'cert pki \<Rightarrow> files \<Rightarrow> string list \<Rightarrow> authz_error + 'cert list" where
  "load_roots k fs paths =
     (case map_err (\<lambda>p. case LoadCertFile k fs p of None \<Rightarrow> Inl (BadTrustRoot p) | Some cs \<Rightarrow> Inr cs) paths of
        Inl e \<Rightarrow> Inl e
      | Inr css \<Rightarrow> Inr (concat css))"

definition signature_error :: "'cert pki \<Rightarrow> files \<Rightarrow> GenAuthzConfig \<Rightarrow> string \<Rightarrow> authz_error option" where
  "signature_error k fs cfg p =
     (let hasSig = HasSignature k p
      in seq_err [
        fail_if (gcVerifyRequired cfg \<and> \<not> hasSig) (MissingSignature p),
        (if hasSig \<and> (gcVerifySignature cfg \<or> gcVerifyRequired cfg) then
           (case load_roots k fs (gcTrustRootsPEM cfg) of
              Inl e \<Rightarrow> Some e
            | Inr roots \<Rightarrow> map_option (BadSignature p) (VerifyCapabilityPKCS7 k fs p roots))
         else None)])"

definition cap_defaults :: "CapabilityEntry \<Rightarrow> obj" where
  "cap_defaults c = map (\<lambda>(k, pd). (k, pdDefault pd)) (filter (\<lambda>x. pdDefault (snd x) \<noteq> JNull) (ceParameters c))"

definition collect_defaults :: "SchemeDefinition \<Rightarrow> obj gomap \<Rightarrow> obj gomap" where
  "collect_defaults def m =
     foldl (\<lambda>m c. let params = cap_defaults c in if params = [] then m else AList.update (sdSchemeID def @ '':'' @ ceID c) params m)
       m (sdCapabilities def)"

text \<open>The first pass: every file is loaded, its signature checked, its roles validated and its defaults collected.\<close>

fun gen_pass ::
    "'cert pki \<Rightarrow> files \<Rightarrow> GenAuthzConfig \<Rightarrow> string list \<Rightarrow> obj gomap \<Rightarrow> authz_error + SchemeDefinition list \<times> obj gomap" where
  "gen_pass k fs cfg [] m = Inr ([], m)"
| "gen_pass k fs cfg (p # ps) m =
     (case LoadScheme fs p of
        Inl e \<Rightarrow> Inl (LoadFailed p e)
      | Inr def \<Rightarrow>
          (case signature_error k fs cfg p of
             Some e \<Rightarrow> Inl e
           | None \<Rightarrow>
               let errs = fst (ValidateSchemeRoles (Some def))
               in if errs \<noteq> [] then Inl (InvalidRoles p errs)
                  else
                    case gen_pass k fs cfg ps (collect_defaults def m) of
                      Inl e \<Rightarrow> Inl e
                    | Inr (defs, m') \<Rightarrow> Inr (def # defs, m')))"

definition role_prefix :: "string \<Rightarrow> string option" where
  "role_prefix role =
     (let (pre, rest) = span (\<lambda>c. c = CHR '':'') role
      in if rest = [] \<or> pre = [] then None else Some (pre @ '':''))"

definition ou_mapping :: "RoleDef gomap \<Rightarrow> string gomap" where
  "ou_mapping roles =
     foldl (\<lambda>m (role, rd). foldl (\<lambda>m ou. AList.update ou role m) m (rdOUs rd)) [] roles"

definition gateway_namespace :: "string \<Rightarrow> string \<times> GatewayNSDef" where
  "gateway_namespace pre =
     (pre, \<lparr> gnDisplayName = map char_of [229, 145, 189, 229, 144, 141, 231, 169, 186, 233, 151, 180 :: nat] @ '' '' @ pre,
             gnPrefix = pre, gnGrants = [pre @ ''*''] \<rparr>)"

definition GenAuthz ::
    "'cert pki \<Rightarrow> files \<Rightarrow> GenAuthzConfig \<Rightarrow> authz_error + AuthzDocument" where
  "GenAuthz k fs cfg =
     (if gcSchemePaths cfg = [] then Inl NoSchemePaths
      else
        case gen_pass k fs cfg (gcSchemePaths cfg) [] of
          Inl e \<Rightarrow> Inl e
        | Inr (defs, params) \<Rightarrow>
            let main = hd defs;
                prefixes = List.map_filter role_prefix (concat (map (\<lambda>d. gokeys (sdRoles d)) defs)) @
                  (if gcNamespacePrefix cfg = [] then [] else [gcNamespacePrefix cfg])
            in Inr \<lparr> adVersion = if gcVersion cfg = [] then ''v2'' else gcVersion cfg,
                     adRoles = map (\<lambda>(role, rd). (role, \<lparr> arDisplayName = rdDisplayName rd, arProfiles = rdProfiles rd,
                                  arGrants = rdGrants rd, arScope = [] \<rparr>)) (sdRoles main),
                     adOUMapping = ou_mapping (sdRoles main),
                     adGatewayNamespaces = map gateway_namespace (sorted_set prefixes),
                     adCapabilityParameters = params \<rparr>)"

end
