(* ===== verification/Role_Documents.thy ===== *)
theory Role_Documents
  imports Registry_Loading
begin

text \<open>
  What loading and role generation guarantee: a registry built from disk holds exactly the schemes of the walk, the last of
  each identifier, and a generated role document contains only grants its primary scheme covers, from signed files where
  signatures are required.
\<close>

subsection \<open>Registries from disk\<close>

lemma load_walk_keys:
  "load_walk load vs m = Inr m' \<Longrightarrow> gomap_ok m \<Longrightarrow> (\<forall>x \<in> set m. fst x = sdSchemeID (snd x)) \<Longrightarrow>
   gomap_ok m' \<and> (\<forall>x \<in> set m'. fst x = sdSchemeID (snd x))"
proof (induction load vs m rule: load_walk.induct)
  case (4 load p vs m)
  show ?case
  proof (cases "is_scheme_file p")
    case True
    with 4(3) obtain def where d: "load p = Inr def" "load_walk load vs (AList.update (sdSchemeID def) def m) = Inr m'"
      by (auto split: sum.splits)
    have "\<forall>x \<in> set (AList.update (sdSchemeID def) def m). fst x = sdSchemeID (snd x)"
      using 4(5) by (induction m) auto
    with 4(2) [OF _ d] True gomap_ok_update [OF 4(4)] show ?thesis by simp
  qed (use 4 in simp)
qed auto

lemma register_all_distinct:
  "distinct (map sdSchemeID ds) \<Longrightarrow> \<forall>d \<in> set ds. Get r (sdSchemeID d) = None \<Longrightarrow>
   register_all r ds = Inr (r\<lparr>schemes := schemes r @ map (\<lambda>d. (sdSchemeID d, d)) ds\<rparr>)"
proof (induction ds arbitrary: r)
  case (Cons d ds)
  then have "Register r d = Inr (r\<lparr>schemes := schemes r @ [(sdSchemeID d, d)]\<rparr>)" by (simp add: Register_Inr)
  moreover from this have "\<forall>x \<in> set ds. Get (r\<lparr>schemes := schemes r @ [(sdSchemeID d, d)]\<rparr>) (sdSchemeID x) = None"
    using Cons.prems by (auto simp: Register_Get) (metis image_eqI)
  ultimately show ?case using Cons by simp
qed simp

text \<open>
  The map of \<open>LoadFromDir\<close> has one scheme for each identifier, so registering its values never meets a duplicate: a second
  file with the same identifier replaces the first without an error.
\<close>

lemma NewRegistryFromDisk_exact:
  "NewRegistryFromDisk fs walk dir =
     (case LoadFromDir fs (walk dir) of Inl e \<Rightarrow> Inl e | Inr m \<Rightarrow> Inr \<lparr> schemes = m \<rparr>)"
proof (cases "LoadFromDir fs (walk dir)")
  case (Inr m)
  have ok: "gomap_ok m" "\<forall>x \<in> set m. fst x = sdSchemeID (snd x)"
    using load_walk_keys [of "LoadScheme fs" "walk dir" "[]" m] Inr by (simp_all add: LoadFromDir_def gomap_ok_def)
  then have ids: "map (\<lambda>x. sdSchemeID (snd x)) m = gokeys m" by (simp add: map_eq_conv)
  have "distinct (map sdSchemeID (map snd m))" using ok(1) unfolding gomap_ok_def ids [symmetric] by (simp add: comp_def)
  moreover have "map (\<lambda>d. (sdSchemeID d, d)) (map snd m) = m" using ok(2) by (induction m) auto
  ultimately show ?thesis
    using Inr register_all_distinct [of "map snd m" NewRegistry]
    by (simp add: NewRegistryFromDisk_def NewRegistry_def Get_def)
qed (simp add: NewRegistryFromDisk_def)

subsection \<open>Role documents\<close>

lemma MatchCapability_exact: "CHR ''*'' \<notin> set g \<Longrightarrow> MatchCapability cid g \<longleftrightarrow> cid = g"
proof -
  assume "CHR ''*'' \<notin> set g"
  moreover have "CHR ''*'' \<in> set g" if "segments g = pre @ [''*'']" for pre
  proof -
    have "g = join_with '':'' (pre @ [''*''])" using join_split_on [of "CHR '':''" g] that by simp
    then show ?thesis by (cases "pre = []") (simp_all add: join_with_snoc)
  qed
  ultimately show ?thesis by (auto simp: MatchCapability_segments)
qed

lemma no_role_errors:
  assumes "fst (ValidateSchemeRoles (Some def)) = []" and "(role, rd) \<in> set (sdRoles def)"
  shows "role \<noteq> []" and "rdGrants rd \<noteq> []"
    and "\<And>g. g \<in> set (rdGrants rd) \<Longrightarrow> CHR ''*'' \<notin> set g \<Longrightarrow> g \<in> ceID ` set (sdCapabilities def)"
proof -
  have e: "role_errors (ListCapabilities def) (role, rd) = []"
    using assms by (auto simp: ValidateSchemeRoles_def Let_def)
  then show r: "role \<noteq> []" "rdGrants rd \<noteq> []" by (auto simp: role_errors_def split: if_splits)
  fix g
  assume g: "g \<in> set (rdGrants rd)" "CHR ''*'' \<notin> set g"
  have "List.map_filter (grant_error (ListCapabilities def) role) (rdGrants rd) = []" using e r by (simp add: role_errors_def)
  then have "grant_error (ListCapabilities def) role g = None"
    using g(1) by (auto simp: List.map_filter_def filter_empty_conv)
  with g(2) show "g \<in> ceID ` set (sdCapabilities def)"
    by (auto simp: grant_error_def grant_covered_def ListCapabilities_def contains_char MatchCapability_exact split: if_splits)
qed

lemma gen_pass_Inr:
  "gen_pass k fs cfg ps m = Inr (defs, m') \<Longrightarrow>
   list_all2 (\<lambda>p def. LoadScheme fs p = Inr def \<and> signature_error k fs cfg p = None \<and>
     fst (ValidateSchemeRoles (Some def)) = []) ps defs"
proof (induction k fs cfg ps m arbitrary: defs rule: gen_pass.induct)
  case (2 k fs cfg p ps m)
  then show ?case by (auto simp: Let_def split: sum.splits option.splits if_splits)
qed simp

lemma map_of_ous:
  "map_of (foldl (\<lambda>m ou. AList.update ou role m) m ous) o' = (if o' \<in> set ous then Some role else map_of m o')"
  by (induction ous arbitrary: m) (auto simp: map_of_AList_update)

lemma ou_mapping_declared:
  "map_of (foldl (\<lambda>m (role, rd). foldl (\<lambda>m ou. AList.update ou role m) m (rdOUs rd)) m roles) o' = Some role \<Longrightarrow>
   (\<exists>rd. (role, rd) \<in> set roles \<and> o' \<in> set (rdOUs rd)) \<or> map_of m o' = Some role"
proof (induction roles arbitrary: m)
  case (Cons x roles)
  obtain r rd where x: "x = (r, rd)" by (cases x)
  from Cons.IH Cons.prems show ?case
    by (fastforce simp: x map_of_ous split: if_splits)
qed simp

text \<open>The roles of a document, as its primary scheme declares them.\<close>

definition roles_covered :: "SchemeDefinition \<Rightarrow> AuthzDocument \<Rightarrow> bool" where
  "roles_covered main doc \<longleftrightarrow>
     (\<forall>(role, r) \<in> set (adRoles doc).
        role \<noteq> [] \<and> arGrants r \<noteq> [] \<and> (\<forall>g \<in> set (arGrants r). CHR ''*'' \<in> set g \<or> g \<in> ceID ` set (sdCapabilities main))) \<and>
     (\<forall>ou role. map_of (adOUMapping doc) ou = Some role \<longrightarrow> (\<exists>rd. (role, rd) \<in> set (sdRoles main) \<and> ou \<in> set (rdOUs rd)))"

definition signed_file :: "'cert pki \<Rightarrow> files \<Rightarrow> string list \<Rightarrow> string \<Rightarrow> bool" where
  "signed_file k fs rootPaths p \<longleftrightarrow>
     (\<exists>data sigPEM block rest roots cert.
        fs p = Some data \<and> fs (p @ ''.p7s'') = Some sigPEM \<and> pemDecode k sigPEM = Some (block, rest) \<and>
        load_roots k fs rootPaths = Inr roots \<and> roots \<noteq> [] \<and> verifyDetached k block data = Some cert \<and> chainOK k roots cert)"

lemma signature_error_signed:
  assumes "signature_error k fs cfg p = None" and "gcVerifyRequired cfg"
  shows "signed_file k fs (gcTrustRootsPEM cfg) p"
proof -
  obtain roots where r: "load_roots k fs (gcTrustRootsPEM cfg) = Inr roots" "VerifyCapabilityPKCS7 k fs p roots = None"
    using assms by (auto simp: signature_error_def Let_def fail_if_None split: if_splits sum.splits)
  obtain cert where "VerifyCapabilityPKCS7Cert k fs p roots = Inr cert"
    using r(2) by (cases "VerifyCapabilityPKCS7Cert k fs p roots") (auto simp: VerifyCapabilityPKCS7_def)
  with r(1) show ?thesis
    by (auto simp: VerifyCapabilityPKCS7Cert_def signed_file_def split: option.splits if_splits)
qed

lemma document_roles:
  assumes "fst (ValidateSchemeRoles (Some main)) = []"
    and roles: "adRoles doc = map (\<lambda>(role, rd). (role, \<lparr> arDisplayName = rdDisplayName rd, arProfiles = rdProfiles rd,
      arGrants = rdGrants rd, arScope = [] \<rparr>)) (sdRoles main)" and ous: "adOUMapping doc = ou_mapping (sdRoles main)"
  shows "roles_covered main doc"
  unfolding roles_covered_def
proof (intro conjI ballI allI impI)
  fix x
  assume "x \<in> set (adRoles doc)"
  then obtain role rd where rd: "(role, rd) \<in> set (sdRoles main)" "fst x = role" "arGrants (snd x) = rdGrants rd" by (auto simp: roles)
  from no_role_errors [OF assms(1) rd(1)] rd(2,3) show "case x of (role, r) \<Rightarrow> role \<noteq> [] \<and> arGrants r \<noteq> [] \<and>
      (\<forall>g \<in> set (arGrants r). CHR ''*'' \<in> set g \<or> g \<in> ceID ` set (sdCapabilities main))" by (auto simp: case_prod_beta)
next
  fix ou role
  assume "map_of (adOUMapping doc) ou = Some role"
  then show "\<exists>rd. (role, rd) \<in> set (sdRoles main) \<and> ou \<in> set (rdOUs rd)"
    using ou_mapping_declared [of "[]" "sdRoles main" ou role] by (simp add: ous ou_mapping_def)
qed

text \<open>
  C4: a role document is generated only from roles whose names and grants are not empty and whose grants without a wildcard
  are capabilities of the primary scheme; a unit is mapped only to a role that declares it; and where signatures are
  required, every file of the configuration carries a detached signature over its bytes by a certificate that chains to
  one of the configured trust roots.
\<close>

theorem GenAuthz_sound:
  assumes "GenAuthz k fs cfg = Inr doc"
  shows "(\<exists>main. LoadScheme fs (hd (gcSchemePaths cfg)) = Inr main \<and> roles_covered main doc) \<and>
     (gcVerifyRequired cfg \<longrightarrow> (\<forall>p \<in> set (gcSchemePaths cfg). signed_file k fs (gcTrustRootsPEM cfg) p))"
proof -
  obtain defs params where pass: "gen_pass k fs cfg (gcSchemePaths cfg) [] = Inr (defs, params)" and ne: "gcSchemePaths cfg \<noteq> []"
    using assms by (auto simp: GenAuthz_def split: if_splits sum.splits)
  note all = gen_pass_Inr [OF pass]
  obtain p0 ps where paths: "gcSchemePaths cfg = p0 # ps" using ne by (cases "gcSchemePaths cfg") auto
  then obtain main rest where defs: "defs = main # rest" using all by (cases defs) auto
  have m: "LoadScheme fs p0 = Inr main" "fst (ValidateSchemeRoles (Some main)) = []"
    using all unfolding paths defs by simp_all
  have "adRoles doc = map (\<lambda>(role, rd). (role, \<lparr> arDisplayName = rdDisplayName rd, arProfiles = rdProfiles rd,
      arGrants = rdGrants rd, arScope = [] \<rparr>)) (sdRoles main)" "adOUMapping doc = ou_mapping (sdRoles main)"
    using assms pass unfolding GenAuthz_def defs by (auto simp: Let_def split: if_splits)
  then have "roles_covered main doc" by (rule document_roles [OF m(2)])
  moreover have "signature_error k fs cfg p = None" if "p \<in> set (gcSchemePaths cfg)" for p
    using all that by (auto simp: list_all2_conv_all_nth in_set_conv_nth)
  ultimately show ?thesis using m(1) paths signature_error_signed [of k fs cfg] by auto
qed

subsection \<open>A signed file\<close>

definition sample_text :: string where
  "sample_text = map (\<lambda>c. if c = CHR 0x27 then CHR 0x22 else c)
     (''{'' @ [CHR 0x27] @ ''scheme_id'' @ [CHR 0x27] @ '':'' @ [CHR 0x27] @ ''acme/files'' @ [CHR 0x27] @ '',''
      @ [CHR 0x27] @ ''capabilities'' @ [CHR 0x27] @ '':[{'' @ [CHR 0x27] @ ''id'' @ [CHR 0x27] @ '':'' @ [CHR 0x27] @ ''file:read'' @ [CHR 0x27] @ ''}],''
      @ [CHR 0x27] @ ''roles'' @ [CHR 0x27] @ '':{'' @ [CHR 0x27] @ ''reader'' @ [CHR 0x27] @ '':{''
      @ [CHR 0x27] @ ''grants'' @ [CHR 0x27] @ '':['' @ [CHR 0x27] @ ''file:read'' @ [CHR 0x27] @ ''],''
      @ [CHR 0x27] @ ''ous'' @ [CHR 0x27] @ '':['' @ [CHR 0x27] @ ''ops'' @ [CHR 0x27] @ '']}}}'')"

definition sample_files :: files where
  "sample_files p =
     (if p = ''v1.json'' then Some sample_text
      else if p = ''v1.json.p7s'' then Some ''signature''
      else if p = ''root.pem'' then Some ''root''
      else None)"

definition sample_pki :: "string pki" where
  "sample_pki =
     \<lparr> fileExists = (\<lambda>p. sample_files p \<noteq> None), pemDecode = (\<lambda>data. Some (data, [])), parseCertificate = Some,
       verifyDetached = (\<lambda>block data. if block = ''signature'' \<and> data = sample_text then Some ''signer'' else None),
       chainOK = (\<lambda>roots c. ''root'' \<in> set roots \<and> c = ''signer'') \<rparr>"

definition sample_config :: GenAuthzConfig where
  "sample_config =
     \<lparr> gcSchemePaths = [''v1.json''], gcVerifySignature = True, gcVerifyRequired = True, gcTrustRootsPEM = [''root.pem''],
       gcVersion = [], gcNamespacePrefix = [] \<rparr>"

lemma sample_generated:
  "case GenAuthz sample_pki sample_files sample_config of
     Inr doc \<Rightarrow> adVersion doc = ''v2'' \<and> adOUMapping doc = [(''ops'', ''reader'')]
   | Inl _ \<Rightarrow> False"
  by code_simp

theorem GenAuthz_sound_witness:
  "\<exists>doc main. GenAuthz sample_pki sample_files sample_config = Inr doc \<and> adOUMapping doc = [(''ops'', ''reader'')] \<and>
     LoadScheme sample_files ''v1.json'' = Inr main \<and> roles_covered main doc \<and>
     signed_file sample_pki sample_files [''root.pem''] ''v1.json''"
proof -
  obtain doc where d: "GenAuthz sample_pki sample_files sample_config = Inr doc" "adOUMapping doc = [(''ops'', ''reader'')]"
    using sample_generated by (cases "GenAuthz sample_pki sample_files sample_config") auto
  from GenAuthz_sound [OF d(1)] d show ?thesis by (auto simp: sample_config_def)
qed

end
