(* ===== verification/Evidence_Report.thy ===== *)
theory Evidence_Report
  imports Requirement Scheme_Trust
begin

text \<open>
  Evidence reports (\<open>projection/projector.go\<close>, \<open>typed.go\<close>, \<open>evidence.go\<close>, \<open>derivation.go\<close>, \<open>validate.go\<close>): the results of native
  checks, the profile a report is evaluated against, the comparison of a declared inventory with the results, the lineage from
  artifacts to facts, and the validation of a report. A time is its instant with the zone offset it is written with. An
  empty slice is the nil slice. Of an error the stable code and the format of its message are kept. \<open>order\<close> is the
  iteration order of a Go map that the code builds itself: a rearrangement of its keys.
\<close>

subsection \<open>Codes\<close>

datatype report_code =
    CodeReportShape | CodeReportDigest | CodeReportProfile | CodeReportInventory | CodeReportFactUnbound
  | CodeReportCheckBinding | CodeReportNotApplicable | CodeReportIncomplete | CodeReportSignature | CodeReportVerifier
  | CodeReportStale | CodeReportVerdict | CodeReportPolicy | CodeReportSnapshotMissing | CodeReportSnapshotRollback
  | CodeReportSnapshotFork | CodeReportSnapshotSource | CodeReportDerivation | CodeReportReplayMissing
  | CodeReportReplayMismatch

datatype report_error = ReportError report_code string | PlainError string

fun ReportCodeOf :: "report_error \<Rightarrow> report_code option" where
  "ReportCodeOf (ReportError c f) = Some c"
| "ReportCodeOf (PlainError f) = None"

text \<open>A plain error that is reported under a code.\<close>

definition under :: "report_code \<Rightarrow> string option \<Rightarrow> report_error option" where
  "under c e = map_option (ReportError c) e"

lemma under_None [simp]: "under c e = None \<longleftrightarrow> e = None"
  by (simp add: under_def)

subsection \<open>Time texts\<close>

record ZTime =
  zInstant :: instant
  zOffset :: int

definition utc :: "instant \<Rightarrow> ZTime" where
  "utc t = \<lparr>zInstant = t, zOffset = 0\<rparr>"

definition IsZero :: "ZTime \<Rightarrow> bool" where
  "IsZero t \<longleftrightarrow> zInstant t = zero_time"

text \<open>The date of a day number, the inverse of \<open>civil_days\<close>.\<close>

definition civil_of_days :: "int \<Rightarrow> int \<times> int \<times> int" where
  "civil_of_days n =
     (let z = n + 719468; era = z div 146097; doe = z mod 146097;
          yoe = (doe - doe div 1460 + doe div 36524 - doe div 146096) div 365;
          doy = doe - (365 * yoe + yoe div 4 - yoe div 100);
          mp = (5 * doy + 2) div 153;
          m = (if mp < 10 then mp + 3 else mp - 9)
      in (yoe + era * 400 + (if m \<le> 2 then 1 else 0), m, doy - (153 * mp + 2) div 5 + 1))"

definition pad :: "nat \<Rightarrow> int \<Rightarrow> string" where
  "pad w n =
     (if n < 0 then CHR ''-'' # replicate (w - length (itoa (- n))) (CHR ''0'') @ itoa (- n)
      else replicate (w - length (itoa n)) (CHR ''0'') @ itoa n)"

definition fraction_text :: "int \<Rightarrow> string" where
  "fraction_text ns = (if ns = 0 then [] else CHR ''.'' # rev (dropWhile (\<lambda>c. c = CHR ''0'') (rev (pad 9 ns))))"

definition zone_text :: "int \<Rightarrow> string" where
  "zone_text off =
     (if off = 0 then ''Z''
      else (let zone = \<bar>off\<bar> div 60
            in (if off \<le> - 60 then CHR ''-'' else CHR ''+'') # pad 2 (zone div 60) @ '':'' @ pad 2 (zone mod 60)))"

definition ztime_date :: "ZTime \<Rightarrow> int \<times> int \<times> int" where
  "ztime_date t = civil_of_days ((zInstant t + zOffset t * 1000000000) div 86400000000000)"

text \<open>\<open>Format(time.RFC3339Nano)\<close>, and with \<open>nanos\<close> false \<open>Format(time.RFC3339)\<close>.\<close>

definition ztime_text :: "bool \<Rightarrow> ZTime \<Rightarrow> string" where
  "ztime_text nanos t =
     (let local = zInstant t + zOffset t * 1000000000; s = local div 1000000000 mod 86400; (y, m, d) = ztime_date t
      in pad 4 y @ ''-'' @ pad 2 m @ ''-'' @ pad 2 d @ ''T'' @ pad 2 (s div 3600) @ '':'' @ pad 2 (s mod 3600 div 60) @ '':''
         @ pad 2 (s mod 60) @ (if nanos then fraction_text (local mod 1000000000) else []) @ zone_text (zOffset t))"

text \<open>\<open>MarshalJSON\<close> refuses a year outside 0 to 9999 and a zone of 24 hours or more.\<close>

definition ztime_ok :: "ZTime \<Rightarrow> bool" where
  "ztime_ok t \<longleftrightarrow> 0 \<le> fst (ztime_date t) \<and> fst (ztime_date t) \<le> 9999 \<and> \<bar>zOffset t\<bar> < 86400"

text \<open>
  \<open>UnmarshalJSON\<close>: the strict form of RFC 3339, with two digits of the hour, a point before a fraction, and a zone below 24
  hours with minutes below 60.
\<close>

definition strict_rfc3339 :: "string \<Rightarrow> ZTime option" where
  "strict_rfc3339 s =
     (case parse_rfc3339 s of
        None \<Rightarrow> None
      | Some t \<Rightarrow>
          if s ! 12 = CHR '':'' \<or> s ! 19 = CHR '','' then None
          else if last s = CHR ''Z'' then Some (utc t)
          else
            (let z = drop (length s - 6) s
             in case (in_bounds 0 23 (getnum True (drop 1 z)), in_bounds 0 59 (getnum True (drop 4 z)), parse_zone z) of
                  (Some _, Some _, Some (off, _)) \<Rightarrow> Some \<lparr>zInstant = t, zOffset = off\<rparr>
                | _ \<Rightarrow> None))"

definition time_field :: "(ZTime \<Rightarrow> 'r \<Rightarrow> 'r) \<Rightarrow> 'r setter" where
  "time_field upd t r =
     (case t of XNull \<Rightarrow> Some r | XStr s \<Rightarrow> map_option (\<lambda>z. upd z r) (strict_rfc3339 s) | _ \<Rightarrow> None)"

definition time_ptr_field :: "(ZTime option \<Rightarrow> 'r \<Rightarrow> 'r) \<Rightarrow> 'r setter" where
  "time_ptr_field upd t r =
     (case t of
        XNull \<Rightarrow> Some (upd None r)
      | XStr s \<Rightarrow> map_option (\<lambda>z. upd (Some z) r) (strict_rfc3339 s)
      | _ \<Rightarrow> None)"

subsection \<open>Content digests\<close>

type_synonym content_digest = string

definition digestAlg :: string where "digestAlg = ''sha-256''"

definition lower_hex :: "char \<Rightarrow> bool" where
  "lower_hex c \<longleftrightarrow> is_digit c \<or> in_range (CHR ''a'') (CHR ''f'') c"

definition content_Validate :: "content_digest \<Rightarrow> string option" where
  "content_Validate d = seq_err [
     fail_if (length d \<noteq> length digestAlg + 1 + 64) ''digest %q is not %s:<64 hex>'',
     fail_if (take (length digestAlg + 1) d \<noteq> digestAlg @ '':'') ''digest %q does not name %s'',
     first_err (\<lambda>c. fail_if (\<not> lower_hex c) ''digest %q is not lowercase hex'') (drop (length digestAlg + 1) d)]"

definition ParseDigest :: "string \<Rightarrow> string + content_digest" where
  "ParseDigest raw = (case content_Validate raw of Some e \<Rightarrow> Inl e | None \<Rightarrow> Inr raw)"

definition DigestFromBytes :: "string \<Rightarrow> content_digest" where
  "DigestFromBytes s = digestAlg @ '':'' @ hex_EncodeToString s"

text \<open>A digest that may be absent.\<close>

definition optional_digest :: "content_digest \<Rightarrow> string option" where
  "optional_digest d = (if d = [] then None else content_Validate d)"

subsection \<open>Results of native checks\<close>

definition FreshnessVerdict_Valid :: "string \<Rightarrow> bool" where
  "FreshnessVerdict_Valid v \<longleftrightarrow> v \<in> set [''fresh'', ''cached'', ''stale'']"

record FreshnessDecision =
  fdVerdict :: string
  fdCheckedAt :: "ZTime option"
  fdValidUntil :: "ZTime option"
  fdSnapshotGeneration :: int

definition FreshnessDecision_Validate :: "FreshnessDecision \<Rightarrow> string option" where
  "FreshnessDecision_Validate f = seq_err [
     fail_if (\<not> FreshnessVerdict_Valid (fdVerdict f)) ''freshness verdict %q is not fresh|cached|stale'',
     fail_if (case (fdCheckedAt f, fdValidUntil f) of
                (Some c, Some u) \<Rightarrow> \<not> zInstant c < zInstant u
              | _ \<Rightarrow> False) ''freshness validUntil %s is not after checkedAt %s'']"

definition NativeCheckSuccess :: string where "NativeCheckSuccess = ''success''"
definition NativeCheckFailed :: string where "NativeCheckFailed = ''failed''"
definition NativeCheckUnavailable :: string where "NativeCheckUnavailable = ''unavailable''"
definition NativeCheckNotApplicable :: string where "NativeCheckNotApplicable = ''not_applicable''"

definition NativeCheckOutcome_Valid :: "string \<Rightarrow> bool" where
  "NativeCheckOutcome_Valid v \<longleftrightarrow>
     v \<in> set [NativeCheckSuccess, NativeCheckFailed, NativeCheckUnavailable, NativeCheckNotApplicable]"

record NativeCheckResult =
  ncCheckID :: string
  ncComponentType :: string
  ncEvidenceDigest :: content_digest
  ncOutcome :: string
  ncReason :: string
  ncVerifier :: string
  ncVerifierProfileDigest :: content_digest
  ncTrustSnapshotDigest :: content_digest
  ncStatusSnapshotDigest :: content_digest
  ncStatusSnapshotSource :: string
  ncStatusSnapshotGeneration :: int \<comment> \<open>an \<open>int64\<close>\<close>
  ncVerificationTime :: ZTime
  ncFreshnessDecision :: "FreshnessDecision option"
  ncReplayDigest :: content_digest

definition result_decided :: "NativeCheckResult \<Rightarrow> bool" where
  "result_decided r \<longleftrightarrow> ncOutcome r = NativeCheckSuccess \<or> ncOutcome r = NativeCheckFailed"

definition Result_validate :: "NativeCheckResult \<Rightarrow> string option" where
  "Result_validate r = seq_err [
     fail_if (trim_space (ncCheckID r) = []) ''native check result %d has no checkId'',
     fail_if (trim_space (ncComponentType r) = []) ''native check result %d (%s) has no componentType'',
     fail_if (\<not> NativeCheckOutcome_Valid (ncOutcome r)) ''native check result %d (%s) has unknown outcome %q'',
     content_Validate (ncEvidenceDigest r),
     fail_if (trim_space (ncVerifier r) = []) ''native check result %d (%s) is not attributable to a verifier'',
     content_Validate (ncVerifierProfileDigest r),
     fail_if (IsZero (ncVerificationTime r)) ''native check result %d (%s) has no verification time'',
     optional_digest (ncReplayDigest r),
     fail_if (ncOutcome r \<noteq> NativeCheckSuccess \<and> trim_space (ncReason r) = [])
       (if ncOutcome r = NativeCheckFailed then ''native check result %d (%s) reports failure without a reason''
        else ''native check result %d (%s) reports %s without a reason''),
     (if result_decided r then seq_err [
        content_Validate (ncTrustSnapshotDigest r),
        content_Validate (ncStatusSnapshotDigest r),
        (case ncFreshnessDecision r of
           None \<Rightarrow> Some ''native check result %d (%s) has no freshness decision''
         | Some f \<Rightarrow> seq_err [
             FreshnessDecision_Validate f,
             fail_if (ncOutcome r = NativeCheckSuccess \<and> fdVerdict f \<noteq> ''fresh'' \<and> fdVerdict f \<noteq> ''cached'')
               ''native check result %d (%s) reports success with freshness %q''])]
      else None)]"

subsection \<open>Expectations and their assessment\<close>

record NativeCheckExpectation =
  neCheckID :: string
  neComponentType :: string
  neEvidenceDigest :: content_digest

definition component_key :: "string \<Rightarrow> string \<Rightarrow> content_digest \<Rightarrow> string" where
  "component_key a b d = a @ CHR 0x00 # b @ CHR 0x00 # d"

definition expectation_key :: "NativeCheckExpectation \<Rightarrow> string" where
  "expectation_key e = component_key (neCheckID e) (neComponentType e) (neEvidenceDigest e)"

definition resultKey :: "NativeCheckResult \<Rightarrow> string" where
  "resultKey r = component_key (ncCheckID r) (ncComponentType r) (ncEvidenceDigest r)"

definition Expectation_validate :: "NativeCheckExpectation \<Rightarrow> string option" where
  "Expectation_validate e = seq_err [
     fail_if (neCheckID e = []) ''expectation %d has no checkId'',
     fail_if (neComponentType e = []) ''expectation %d (%s) has no componentType'',
     content_Validate (neEvidenceDigest e)]"

record NativeCheckConflict =
  cfCheckID :: string
  cfComponentType :: string
  cfEvidenceDigest :: content_digest
  cfOutcomes :: "string list"

record NativeCheckAssessment =
  naComplete :: bool
  naMissingExpectations :: "NativeCheckExpectation list"
  naUnexpectedResults :: "NativeCheckResult list"
  naConflictingResults :: "NativeCheckConflict list"

definition outcomes_at :: "string list gomap \<Rightarrow> string \<Rightarrow> string list" where
  "outcomes_at m k = (case map_of m k of Some os \<Rightarrow> os | None \<Rightarrow> [])"

definition add_outcome :: "string list gomap \<Rightarrow> NativeCheckResult \<Rightarrow> string list gomap" where
  "add_outcome m r = AList.update (resultKey r) (List.insert (ncOutcome r) (outcomes_at m (resultKey r))) m"

fun missing_expectations :: "string list gomap \<Rightarrow> string list \<Rightarrow> NativeCheckExpectation list \<Rightarrow> NativeCheckExpectation list" where
  "missing_expectations m seen [] = []"
| "missing_expectations m seen (want # ws) =
     (let key = expectation_key want
      in if key \<in> set seen then want # missing_expectations m seen ws
         else (if outcomes_at m key = [] then [want] else []) @ missing_expectations m (key # seen) ws)"

definition conflictFrom :: "string \<Rightarrow> string list \<Rightarrow> NativeCheckConflict" where
  "conflictFrom key outcomes =
     (case split_on (CHR 0x00) key of
        [a, b, d] \<Rightarrow> \<lparr>cfCheckID = a, cfComponentType = b, cfEvidenceDigest = d, cfOutcomes = sort outcomes\<rparr>
      | _ \<Rightarrow> \<lparr>cfCheckID = [], cfComponentType = [], cfEvidenceDigest = [], cfOutcomes = sort outcomes\<rparr>)"

definition conflicts :: "(string list \<Rightarrow> string list) \<Rightarrow> string list gomap \<Rightarrow> NativeCheckConflict list" where
  "conflicts order m =
     sort_key cfCheckID
       (map (\<lambda>k. conflictFrom k (outcomes_at m k)) (filter (\<lambda>k. 1 < length (outcomes_at m k)) (order (gokeys m))))"

definition AssessNativeChecks ::
  "(string list \<Rightarrow> string list) \<Rightarrow> NativeCheckExpectation list \<Rightarrow> NativeCheckResult list \<Rightarrow> NativeCheckAssessment" where
  "AssessNativeChecks order expected results =
     (let m = foldl add_outcome [] results;
          missing = missing_expectations m [] expected;
          conflicting = conflicts order m;
          unexpected = filter (\<lambda>r. expected \<noteq> [] \<and> resultKey r \<notin> set (map expectation_key expected)) results
      in \<lparr>naComplete = (expected \<noteq> [] \<and> missing = [] \<and> unexpected = [] \<and> conflicting = []),
          naMissingExpectations = missing, naUnexpectedResults = unexpected, naConflictingResults = conflicting\<rparr>)"

fun normalize_from :: "string list \<Rightarrow> NativeCheckResult list \<Rightarrow> string option" where
  "normalize_from seen [] = None"
| "normalize_from seen (r # rs) = seq_err [
     Result_validate r,
     fail_if (resultKey r \<in> set seen) ''projection: native check %q reports two results for component type %q (%s)'',
     normalize_from (resultKey r # seen) rs]"

definition normalizeResults :: "NativeCheckResult list \<Rightarrow> string + NativeCheckResult list" where
  "normalizeResults results = (case normalize_from [] results of Some e \<Rightarrow> Inl e | None \<Rightarrow> Inr results)"

definition requiredChecksComplete :: "string list \<Rightarrow> NativeCheckResult list \<Rightarrow> bool" where
  "requiredChecksComplete required results = (\<forall>c \<in> set required. \<exists>r \<in> set results. ncCheckID r = c)"

definition assessCompleteness ::
  "(string list \<Rightarrow> string list) \<Rightarrow> NativeCheckExpectation list \<Rightarrow> string list \<Rightarrow> NativeCheckResult list \<Rightarrow>
   NativeCheckAssessment \<times> bool" where
  "assessCompleteness order expected requiredChecks results =
     (let assessment = AssessNativeChecks order expected results; complete = requiredChecksComplete requiredChecks results
      in (assessment, if expected \<noteq> [] then complete \<and> naComplete assessment else complete))"

subsection \<open>Profiles\<close>

record Profile =
  pfID :: string
  pfStatusModel :: string
  pfRequiredChecks :: "string list"
  pfExpectations :: "NativeCheckExpectation list"
  pfNotApplicableAuthority :: content_digest
  pfActionMappingDigest :: content_digest
  pfReasonNamespace :: string
  pfReasonRegistryDigest :: content_digest
  pfProfileDigest :: content_digest

definition StatusNone :: string where "StatusNone = ''none''"
definition StatusRequired :: string where "StatusRequired = ''required''"

definition json_of_Expectation :: "NativeCheckExpectation \<Rightarrow> json" where
  "json_of_Expectation e = struct_json
     [(True, ''checkId'', JStr (neCheckID e)),
      (True, ''componentType'', JStr (neComponentType e)),
      (True, ''evidenceDigest'', JStr (neEvidenceDigest e))]"

definition json_of_Profile :: "Profile \<Rightarrow> json" where
  "json_of_Profile p = struct_json
     [(True, ''id'', JStr (pfID p)),
      (True, ''statusModel'', JStr (pfStatusModel p)),
      (pfRequiredChecks p \<noteq> [], ''requiredChecks'', JArr (map JStr (pfRequiredChecks p))),
      (pfExpectations p \<noteq> [], ''expectations'', JArr (map json_of_Expectation (pfExpectations p))),
      (pfNotApplicableAuthority p \<noteq> [], ''notApplicableAuthority'', JStr (pfNotApplicableAuthority p)),
      (pfActionMappingDigest p \<noteq> [], ''actionMappingDigest'', JStr (pfActionMappingDigest p)),
      (pfReasonNamespace p \<noteq> [], ''reasonNamespace'', JStr (pfReasonNamespace p)),
      (pfReasonRegistryDigest p \<noteq> [], ''reasonRegistryDigest'', JStr (pfReasonRegistryDigest p)),
      (pfProfileDigest p \<noteq> [], ''profileDigest'', JStr (pfProfileDigest p))]"

definition Profile_Digest :: "Profile \<Rightarrow> canon_err + content_digest" where
  "Profile_Digest p =
     (case CanonicalJSON (json_of_Profile (p\<lparr>pfProfileDigest := []\<rparr>)) of
        Inl e \<Rightarrow> Inl e
      | Inr raw \<Rightarrow> Inr (DigestFromBytes (Sum256 raw)))"

definition Seal :: "Profile \<Rightarrow> canon_err + Profile" where
  "Seal p = (case Profile_Digest p of Inl e \<Rightarrow> Inl e | Inr d \<Rightarrow> Inr (p\<lparr>pfProfileDigest := d\<rparr>))"

definition reason_char :: "char \<Rightarrow> bool" where
  "reason_char c \<longleftrightarrow> is_lower c \<or> is_digit c"

definition validReasonNamespace :: "string \<Rightarrow> bool" where
  "validReasonNamespace ns =
     (case ns of
        [] \<Rightarrow> False
      | c # cs \<Rightarrow> reason_char c \<and> list_all (\<lambda>d. reason_char d \<or> d = CHR ''.'' \<or> d = CHR ''-'') cs)"

fun required_checks_error :: "string list \<Rightarrow> string list \<Rightarrow> string option" where
  "required_checks_error seen [] = None"
| "required_checks_error seen (c # cs) = seq_err [
     fail_if (c = []) ''profile %q has an empty required check'',
     fail_if (c \<in> set seen) ''profile %q repeats required check %q'',
     required_checks_error (c # seen) cs]"

fun expectations_error :: "string list \<Rightarrow> NativeCheckExpectation list \<Rightarrow> string option" where
  "expectations_error seen [] = None"
| "expectations_error seen (w # ws) = seq_err [
     Expectation_validate w,
     fail_if (expectation_key w \<in> set seen) ''profile %q repeats expectation %q/%q/%s'',
     expectations_error (expectation_key w # seen) ws]"

definition status_model_error :: "Profile \<Rightarrow> string option" where
  "status_model_error p =
     (if pfStatusModel p = StatusNone then
        fail_if (pfRequiredChecks p \<noteq> []) ''profile %q declares statusModel none with required checks''
      else if pfStatusModel p = StatusRequired then
        fail_if (pfRequiredChecks p = []) ''profile %q declares statusModel required without required checks''
      else Some ''profile %q has statusModel %q, want none|required'')"

definition sealed_error :: "Profile \<Rightarrow> string option" where
  "sealed_error p =
     (if pfProfileDigest p = [] then None
      else case Profile_Digest p of
             Inl e \<Rightarrow> Some ''profile %q: %s''
           | Inr want \<Rightarrow> fail_if (want \<noteq> pfProfileDigest p) ''profile %q digest does not match its content'')"

definition Profile_Validate :: "Profile \<Rightarrow> report_error option" where
  "Profile_Validate p = under CodeReportProfile (seq_err [
     fail_if (pfID p = []) ''profile has no id'',
     status_model_error p,
     required_checks_error [] (pfRequiredChecks p),
     fail_if (pfExpectations p = [] \<and> pfStatusModel p = StatusRequired)
       ''profile %q requires status checks without an expectation inventory'',
     expectations_error [] (pfExpectations p),
     fail_if (pfReasonNamespace p \<noteq> [] \<and> \<not> validReasonNamespace (pfReasonNamespace p))
       ''profile %q reasonNamespace %q is not [a-z0-9][a-z0-9.-]*'',
     (if pfReasonRegistryDigest p = [] then None
      else seq_err [
        fail_if (pfReasonNamespace p = []) ''profile %q pins a reason registry without a reasonNamespace'',
        content_Validate (pfReasonRegistryDigest p)]),
     sealed_error p,
     first_err optional_digest [pfNotApplicableAuthority p, pfActionMappingDigest p, pfProfileDigest p]])"

subsection \<open>Reports\<close>

record VerifierIdentity =
  viPrincipal :: string
  viVerifierProfileDigest :: content_digest

definition VerifierIdentity_Validate :: "VerifierIdentity \<Rightarrow> report_error option" where
  "VerifierIdentity_Validate v = under CodeReportVerifier (seq_err [
     fail_if (trim_space (viPrincipal v) = []) ''verifier identity has no principal'',
     fail_if (viVerifierProfileDigest v = []) ''verifier identity has no profile digest'',
     content_Validate (viVerifierProfileDigest v)])"

text \<open>A fact of a report carries the zone its issuance time is written with; \<open>core_fact\<close> is the fct the core evaluates.\<close>

record ReportFact = EvidenceFact +
  issuedZone :: int

definition core_fact :: "ReportFact \<Rightarrow> EvidenceFact" where
  "core_fact f = EvidenceFact.truncate f"

record ProjectedObservation =
  obNativeActionDigest :: string
  obCLCActionID :: string
  obActionType :: string
  obMaterialFields :: "string list"
  obMaterialProfileID :: string
  obMappingProfileDigest :: content_digest

record ProjectedEvidenceRecord =
  erArtifactDigest :: content_digest
  erNativeRecordDigest :: content_digest
  erObservationID :: string
  erFact :: "ReportFact option"
  erFactIndex :: "int option"
  erNativeCheckIDs :: "string list"
  erRelationTupleDigest :: content_digest

record Derivation =
  dvCarrierID :: string
  dvArtifactDigest :: content_digest
  dvVerifierProfileDigest :: content_digest
  dvMappingProfileDigest :: content_digest
  dvFactIndex :: int
  dvFactDigest :: content_digest
  dvNativeCheckIDs :: "string list"

text \<open>The verdict of a report as it is decoded: verdicts are texts.\<close>

record EvaluationView =
  vcConstraint :: string
  vcVerdict :: string
  vcReason :: string

record VerdictView =
  vvRequirementID :: string
  vvDigest :: Digest
  vvVerdict :: string
  vvExpression :: bool
  vvMissingRoles :: "string list"
  vvConstraints :: "EvaluationView list"

fun verdict_text :: "EvidenceVerdict \<Rightarrow> string" where
  "verdict_text EvidenceSatisfied = ''satisfied''"
| "verdict_text EvidenceViolated = ''violated''"
| "verdict_text EvidenceUnknown = ''unknown''"

definition view_of :: "RequirementResult \<Rightarrow> VerdictView" where
  "view_of r = \<lparr>vvRequirementID = resID r, vvDigest = resDigest r, vvVerdict = verdict_text (resVerdict r),
     vvExpression = resExpression r, vvMissingRoles = MissingRoles r,
     vvConstraints = map (\<lambda>e. \<lparr>vcConstraint = evConstraint e, vcVerdict = verdict_text (evVerdict e), vcReason = evReason e\<rparr>)
       (resConstraints r)\<rparr>"

record Report =
  rpVersion :: string
  rpAssurance :: string
  rpProjectorID :: string
  rpProfile :: "Profile option"
  rpVerifier :: "VerifierIdentity option"
  rpAppraisalTime :: "ZTime option"
  rpSourceFormat :: string
  rpMeta :: "string gomap"
  rpRequirement :: "Requirement option"
  rpSourceRequirementDigest :: "Digest option"
  rpProjectedRequirementDigest :: "Digest option"
  rpNativeCheckResults :: "NativeCheckResult list"
  rpNativeCheckAssessment :: "NativeCheckAssessment option"
  rpNativeChecksComplete :: bool
  rpObservation :: "ProjectedObservation option"
  rpEvidenceRecords :: "ProjectedEvidenceRecord list"
  rpDerivations :: "Derivation list"
  rpFacts :: "ReportFact list"
  rpResiduals :: "string list"
  rpRequiredNativeChecks :: "string list"
  rpRequiredCheckIDs :: "string list"
  rpSatisfaction :: "VerdictView option"

definition ReportVersion :: string where "ReportVersion = ''VARWOF-EVIDENCE-REPORT-v1''"

definition AssuranceLevel_Valid :: "string \<Rightarrow> bool" where
  "AssuranceLevel_Valid a \<longleftrightarrow> a \<in> set [''E1'', ''E2'', ''E3'']"

definition assurance_rank :: "string \<Rightarrow> int" where
  "assurance_rank a = (if a = ''E2'' then 2 else if a = ''E3'' then 3 else 1)"

subsection \<open>Lineage and derivations\<close>

definition factKey :: "ReportFact \<Rightarrow> string" where
  "factKey f = factType f @ CHR 0x00 # Subject f @ CHR 0x00 # (if Verified f then ''true'' else ''false'') @ CHR 0x00 #
     ztime_text True (utc (IssuedAt f))"

definition checkIDsBoundToArtifact :: "string list \<Rightarrow> content_digest \<Rightarrow> NativeCheckResult list \<Rightarrow> string option" where
  "checkIDsBoundToArtifact ids artifact results =
     first_err (\<lambda>id. fail_if (\<not> (\<exists>r \<in> set results. ncCheckID r = id \<and> ncEvidenceDigest r = artifact))
       ''check %q has no result over artifact %s'') ids"

text \<open>One record of the lineage: an error, or the fact index it uses.\<close>

definition lineage_step ::
  "ReportFact list \<Rightarrow> NativeCheckResult list \<Rightarrow> int list \<Rightarrow> ProjectedEvidenceRecord \<Rightarrow> report_error option" where
  "lineage_step facts results used record =
     (case (erFact record, erFactIndex record) of
        (None, Some _) \<Rightarrow> Some (ReportError CodeReportFactUnbound ''evidence record %d names a fact index but no fact'')
      | (None, None) \<Rightarrow>
          under CodeReportCheckBinding (checkIDsBoundToArtifact (erNativeCheckIDs record) (erArtifactDigest record) results)
      | (Some _, None) \<Rightarrow> Some (ReportError CodeReportFactUnbound ''evidence record %d names a fact without factIndex'')
      | (Some fct, Some index) \<Rightarrow> seq_err [
          fail_if (index < 0 \<or> int (length facts) \<le> index)
            (ReportError CodeReportFactUnbound ''evidence record %d factIndex %d is out of range''),
          fail_if (index \<in> set used)
            (ReportError CodeReportFactUnbound ''fact %d is bound by more than one evidence record''),
          fail_if (factKey (facts ! nat index) \<noteq> factKey fct)
            (ReportError CodeReportFactUnbound ''evidence record %d fact does not match factIndex %d''),
          fail_if (erNativeCheckIDs record = [])
            (ReportError CodeReportCheckBinding ''evidence record %d has a Fact but no gating check''),
          under CodeReportCheckBinding
            (checkIDsBoundToArtifact (erNativeCheckIDs record) (erArtifactDigest record) results)])"

fun lineage_loop ::
  "ReportFact list \<Rightarrow> NativeCheckResult list \<Rightarrow> int list \<Rightarrow> ProjectedEvidenceRecord list \<Rightarrow> report_error + int list" where
  "lineage_loop facts results used [] = Inr used"
| "lineage_loop facts results used (record # records) =
     (case lineage_step facts results used record of
        Some e \<Rightarrow> Inl e
      | None \<Rightarrow> lineage_loop facts results
          (case (erFact record, erFactIndex record) of (Some _, Some index) \<Rightarrow> index # used | _ \<Rightarrow> used) records)"

definition unused_index :: "int list \<Rightarrow> 'a list \<Rightarrow> bool" where
  "unused_index used xs = list_ex (\<lambda>i. int i \<notin> set used) [0..<length xs]"

definition validateLineage :: "Report \<Rightarrow> NativeCheckResult list \<Rightarrow> report_error option" where
  "validateLineage rep results =
     (case lineage_loop (rpFacts rep) results [] (rpEvidenceRecords rep) of
        Inl e \<Rightarrow> Some e
      | Inr used \<Rightarrow>
          fail_if (unused_index used (rpFacts rep)) (ReportError CodeReportFactUnbound ''fact %d has no lineage record''))"

definition json_of_Fact :: "ReportFact \<Rightarrow> json" where
  "json_of_Fact f = JObj
     [(''Type'', JStr (factType f)),
      (''Subject'', JStr (Subject f)),
      (''IssuedAt'', JStr (ztime_text True \<lparr>zInstant = IssuedAt f, zOffset = issuedZone f\<rparr>)),
      (''Verified'', JBool (Verified f))]"

definition fact_time :: "ReportFact \<Rightarrow> ZTime" where
  "fact_time f = \<lparr>zInstant = IssuedAt f, zOffset = issuedZone f\<rparr>"

definition FactBindingDigest :: "ReportFact \<Rightarrow> content_digest \<Rightarrow> canon_err + content_digest" where
  "FactBindingDigest fct artifact =
     (if \<not> ztime_ok (fact_time fct) then Inl EncoderError
      else case CanonicalJSON (JObj [(''artifact'', JStr artifact), (''fact'', json_of_Fact fct)]) of
             Inl e \<Rightarrow> Inl e
           | Inr raw \<Rightarrow> Inr (DigestFromBytes (Sum256 raw)))"

text \<open>The counts of \<open>seen\<close>: the lists have the same elements with the same multiplicities.\<close>

fun counts_match :: "string list \<Rightarrow> string list \<Rightarrow> bool" where
  "counts_match seen [] = True"
| "counts_match seen (b # bs) = (b \<in> set seen \<and> counts_match (remove1 b seen) bs)"

definition sameStringSet :: "string list \<Rightarrow> string list \<Rightarrow> bool" where
  "sameStringSet a b \<longleftrightarrow> length a = length b \<and> counts_match a b"

fun derivationMatchesRecord :: "ProjectedEvidenceRecord list \<Rightarrow> Derivation \<Rightarrow> string option" where
  "derivationMatchesRecord [] d = Some ''no lineage record for fact index %d''"
| "derivationMatchesRecord (record # records) d =
     (if erFactIndex record \<noteq> Some (dvFactIndex d) then derivationMatchesRecord records d
      else seq_err [
        fail_if (erArtifactDigest record \<noteq> dvArtifactDigest d) ''artifact digest differs from the lineage record'',
        fail_if (dvNativeCheckIDs d \<noteq> [] \<and> \<not> sameStringSet (dvNativeCheckIDs d) (erNativeCheckIDs record))
          ''gating checks differ from the lineage record''])"

definition derivation_error :: "Report \<Rightarrow> int list \<Rightarrow> Derivation \<Rightarrow> string option" where
  "derivation_error rep seen d = seq_err [
     fail_if (dvCarrierID d = []) ''derivation %d has no carrierId'',
     content_Validate (dvArtifactDigest d),
     content_Validate (dvVerifierProfileDigest d),
     optional_digest (dvMappingProfileDigest d),
     fail_if (dvFactIndex d < 0 \<or> int (length (rpFacts rep)) \<le> dvFactIndex d)
       ''derivation %d factIndex %d is out of range'',
     fail_if (dvFactIndex d \<in> set seen) ''fact %d has more than one derivation'',
     (case rpVerifier rep of
        None \<Rightarrow> None
      | Some v \<Rightarrow> fail_if (dvVerifierProfileDigest d \<noteq> viVerifierProfileDigest v)
          ''derivation %d verifier profile differs from the report verifier''),
     (case rpObservation rep of
        None \<Rightarrow> None
      | Some ob \<Rightarrow> fail_if (dvMappingProfileDigest d \<noteq> [] \<and> dvMappingProfileDigest d \<noteq> obMappingProfileDigest ob)
          ''derivation %d mapping profile differs from the report observation''),
     (case FactBindingDigest (rpFacts rep ! nat (dvFactIndex d)) (dvArtifactDigest d) of
        Inl e \<Rightarrow> Some ''derivation %d: %s''
      | Inr want \<Rightarrow> fail_if (dvFactDigest d \<noteq> want) ''derivation %d fact digest does not match the fact and artifact''),
     derivationMatchesRecord (rpEvidenceRecords rep) d]"

fun derivation_loop :: "Report \<Rightarrow> int list \<Rightarrow> Derivation list \<Rightarrow> string + int list" where
  "derivation_loop rep seen [] = Inr seen"
| "derivation_loop rep seen (d # ds) =
     (case derivation_error rep seen d of Some e \<Rightarrow> Inl e | None \<Rightarrow> derivation_loop rep (dvFactIndex d # seen) ds)"

definition validateDerivations :: "Report \<Rightarrow> report_error option" where
  "validateDerivations rep =
     (if rpDerivations rep = [] then None
      else under CodeReportDerivation
        (case derivation_loop rep [] (rpDerivations rep) of
           Inl e \<Rightarrow> Some e
         | Inr seen \<Rightarrow> fail_if (unused_index seen (rpFacts rep)) ''fact %d has no derivation''))"

subsection \<open>Validation\<close>

definition validateAssessment ::
  "(string list \<Rightarrow> string list) \<Rightarrow> Report \<Rightarrow> Profile \<Rightarrow> NativeCheckResult list \<Rightarrow> report_error option" where
  "validateAssessment order rep profile results =
     under CodeReportInventory
       (if pfExpectations profile = [] then
          fail_if (rpNativeCheckAssessment rep \<noteq> None) ''report carries an assessment but profile %q declares no inventory''
        else
          case rpNativeCheckAssessment rep of
            None \<Rightarrow> Some ''report has no assessment for the declared inventory''
          | Some a \<Rightarrow> fail_if (a \<noteq> AssessNativeChecks order (pfExpectations profile) results)
              ''report assessment does not match the declared inventory'')"

definition validateNotApplicableAuthority :: "Profile \<Rightarrow> NativeCheckResult list \<Rightarrow> report_error option" where
  "validateNotApplicableAuthority profile results =
     first_err (\<lambda>r. fail_if (ncOutcome r = NativeCheckNotApplicable \<and>
         (pfNotApplicableAuthority profile = [] \<or> ncVerifierProfileDigest r \<noteq> pfNotApplicableAuthority profile))
       (ReportError CodeReportNotApplicable ''check %q reports not_applicable without profile authority'')) results"

definition reasonCode :: "string \<Rightarrow> string \<Rightarrow> string option" where
  "reasonCode ns reason =
     (let p = ns @ '':''; code = drop (length p) reason
      in if ns = [] \<or> length reason \<le> length p \<or> \<not> prefix p reason then None
         else
           case code of
             [] \<Rightarrow> None
           | c # cs \<Rightarrow>
               if reason_char c \<and>
                  list_all (\<lambda>d. reason_char d \<or> d = CHR ''.'' \<or> d = CHR ''_'' \<or> d = CHR '':'' \<or> d = CHR ''-'') cs
               then Some code else None)"

definition validateReasonCodes :: "Profile \<Rightarrow> NativeCheckResult list \<Rightarrow> report_error option" where
  "validateReasonCodes profile results = under CodeReportProfile
     (first_err (\<lambda>r.
        if ncReason r = [] then None
        else seq_err [
          fail_if (pfReasonNamespace profile = []) ''check %q has reason %q but profile %q declares no reasonNamespace'',
          fail_if (reasonCode (pfReasonNamespace profile) (ncReason r) = None)
            ''check %q reason %q is outside namespace %q'']) results)"

definition result_digests :: "NativeCheckResult \<Rightarrow> content_digest list" where
  "result_digests r =
     [ncEvidenceDigest r, ncVerifierProfileDigest r, ncTrustSnapshotDigest r, ncStatusSnapshotDigest r, ncReplayDigest r]"

definition record_digests_error :: "ProjectedEvidenceRecord \<Rightarrow> string option" where
  "record_digests_error r = seq_err [
     content_Validate (erArtifactDigest r), optional_digest (erNativeRecordDigest r), optional_digest (erRelationTupleDigest r)]"

definition requirement_digest_error :: "Report \<Rightarrow> report_error option" where
  "requirement_digest_error rep =
     (case (rpRequirement rep, rpProjectedRequirementDigest rep) of
        (Some req, Some d) \<Rightarrow>
          (case Requirement_Digest req of
             Inl e \<Rightarrow> Some (ReportError CodeReportShape ''requirement digest: %s'')
           | Inr want \<Rightarrow> fail_if (\<not> Digest_Equal want d)
               (ReportError CodeReportDigest ''projected requirement digest does not match the requirement''))
      | _ \<Rightarrow> None)"

definition verifier_error :: "Report \<Rightarrow> NativeCheckResult list \<Rightarrow> report_error option" where
  "verifier_error rep results =
     (case rpVerifier rep of
        None \<Rightarrow> None
      | Some v \<Rightarrow> seq_err [
          VerifierIdentity_Validate v,
          under CodeReportVerifier (first_err (\<lambda>r. seq_err [
            fail_if (ncVerifier r \<noteq> viPrincipal v) ''check %q names verifier %q, report names %q'',
            fail_if (ncVerifierProfileDigest r \<noteq> viVerifierProfileDigest v)
              ''check %q profile digest does not match the report verifier'']) results)])"

definition observation_identity :: "ProjectedObservation \<Rightarrow> string" where
  "observation_identity ob = (if obNativeActionDigest ob = [] then obCLCActionID ob else obNativeActionDigest ob)"

definition observation_error :: "Report \<Rightarrow> report_error option" where
  "observation_error rep = under CodeReportCheckBinding
     (case rpObservation rep of
        Some ob \<Rightarrow>
          first_err (\<lambda>r. fail_if (erObservationID r \<noteq> [] \<and>
              (observation_identity ob = [] \<or> erObservationID r \<noteq> observation_identity ob))
            ''evidence record %d names observation %q, report observation is %q'') (rpEvidenceRecords rep)
      | None \<Rightarrow>
          first_err (\<lambda>r. fail_if (erObservationID r \<noteq> [])
            ''evidence record %d names observation %q but the report has none'') (rpEvidenceRecords rep))"

definition appraisal_error :: "Report \<Rightarrow> report_error option" where
  "appraisal_error rep = under CodeReportShape
     (case rpAppraisalTime rep of
        None \<Rightarrow> Some ''report has no appraisal time''
      | Some t \<Rightarrow> fail_if (IsZero t) ''report appraisal time is the zero instant'')"

definition ValidateEvidenceReport :: "(string list \<Rightarrow> string list) \<Rightarrow> Report option \<Rightarrow> report_error option" where
  "ValidateEvidenceReport order report =
     (case report of
        None \<Rightarrow> Some (ReportError CodeReportShape ''report is nil'')
      | Some rep \<Rightarrow>
          (let results = rpNativeCheckResults rep
           in seq_err [
             (case rpProfile rep of None \<Rightarrow> None | Some p \<Rightarrow> Profile_Validate p),
             under CodeReportDigest (first_err (\<lambda>r. first_err optional_digest (result_digests r)) results),
             fail_if (rpVersion rep \<noteq> ReportVersion) (ReportError CodeReportShape ''report @version %q is not %q''),
             fail_if (\<not> AssuranceLevel_Valid (rpAssurance rep))
               (ReportError CodeReportShape ''report assurance %q is not E1|E2|E3''),
             under CodeReportShape (normalize_from [] results),
             under CodeReportDigest (first_err record_digests_error (rpEvidenceRecords rep)),
             under CodeReportDigest
               (case rpObservation rep of None \<Rightarrow> None | Some ob \<Rightarrow> optional_digest (obMappingProfileDigest ob)),
             (case rpProfile rep of
                None \<Rightarrow> None
              | Some p \<Rightarrow> seq_err [validateAssessment order rep p results, validateNotApplicableAuthority p results]),
             requirement_digest_error rep,
             (case rpProfile rep of None \<Rightarrow> None | Some p \<Rightarrow> validateReasonCodes p results),
             verifier_error rep results,
             appraisal_error rep,
             observation_error rep,
             (if rpEvidenceRecords rep \<noteq> [] \<or> rpProfile rep \<noteq> None then validateLineage rep results else None),
             validateDerivations rep]))"

end
