(* ===== verification/Report_Lifecycle.thy ===== *)
theory Report_Lifecycle
  imports Evidence_Report
begin

text \<open>
  The deployer's side of an evidence report (\<open>projection/lifecycle.go\<close>, \<open>state.go\<close>, \<open>validate.go\<close>, \<open>evidence.go\<close>): the accepted
  status snapshots, replay evidence, the policy and the final gate, and the assembly of a report. The accepted snapshots
  are a map from coordinates to bindings. The attestation verifier of a policy is an argument, as are the trust anchors.
\<close>

subsection \<open>Accepted snapshots\<close>

record SnapshotBinding =
  sbSource :: string
  sbComponentType :: string
  sbEvidenceDigest :: content_digest
  sbGeneration :: int
  sbDigest :: content_digest

type_synonym SnapshotState = "SnapshotBinding gomap"

definition snapshotKey :: "string \<Rightarrow> string \<Rightarrow> content_digest \<Rightarrow> string" where
  "snapshotKey source componentType evidence = component_key source componentType evidence"

definition binding_key :: "SnapshotBinding \<Rightarrow> string" where
  "binding_key b = snapshotKey (sbSource b) (sbComponentType b) (sbEvidenceDigest b)"

definition NewSnapshotState :: "SnapshotBinding list \<Rightarrow> SnapshotState" where
  "NewSnapshotState bs = foldl (\<lambda>s b. AList.update (binding_key b) b s) [] bs"

definition Bindings :: "SnapshotState \<Rightarrow> SnapshotBinding list" where
  "Bindings s = List.map_filter (map_of s) (sorted_set (gokeys s))"

text \<open>\<open>Inr None\<close> is a result that declares no coordinate.\<close>

definition snapshotBinding :: "NativeCheckResult \<Rightarrow> report_error + SnapshotBinding option" where
  "snapshotBinding r =
     (let hasSource = ncStatusSnapshotSource r \<noteq> []; hasGeneration = ncStatusSnapshotGeneration r \<noteq> 0;
          missing = ReportError CodeReportSnapshotMissing
      in if \<not> hasSource \<and> \<not> hasGeneration then Inr None
         else if \<not> hasSource \<or> \<not> hasGeneration then Inl (missing ''check %q declares only part of the snapshot coordinate'')
         else if ncStatusSnapshotGeneration r < 1 then Inl (missing ''check %q snapshot generation must be >= 1'')
         else
           case content_Validate (ncStatusSnapshotDigest r) of
             Some e \<Rightarrow> Inl (missing ''check %q snapshot digest: %s'')
           | None \<Rightarrow> Inr (Some \<lparr>sbSource = ncStatusSnapshotSource r, sbComponentType = ncComponentType r,
               sbEvidenceDigest = ncEvidenceDigest r, sbGeneration = ncStatusSnapshotGeneration r,
               sbDigest = ncStatusSnapshotDigest r\<rparr>))"

definition snapshot_step :: "SnapshotState \<Rightarrow> NativeCheckResult \<Rightarrow> report_error + SnapshotState" where
  "snapshot_step s r =
     (case snapshotBinding r of
        Inl e \<Rightarrow> Inl e
      | Inr None \<Rightarrow> Inr s
      | Inr (Some declared) \<Rightarrow>
          (case map_of s (binding_key declared) of
             None \<Rightarrow> Inr (AList.update (binding_key declared) declared s)
           | Some previous \<Rightarrow>
               if sbGeneration declared < sbGeneration previous then
                 Inl (ReportError CodeReportSnapshotRollback ''check %q snapshot generation %d is older than the accepted %d'')
               else if sbGeneration declared = sbGeneration previous \<and> sbDigest declared \<noteq> sbDigest previous then
                 Inl (ReportError CodeReportSnapshotFork ''check %q snapshot generation %d already holds %s'')
               else Inr (AList.update (binding_key declared) declared s)))"

fun snapshot_loop :: "SnapshotState \<Rightarrow> NativeCheckResult list \<Rightarrow> report_error + SnapshotState" where
  "snapshot_loop s [] = Inr s"
| "snapshot_loop s (r # rs) = (case snapshot_step s r of Inl e \<Rightarrow> Inl e | Inr s' \<Rightarrow> snapshot_loop s' rs)"

text \<open>\<open>None\<close> is the nil report.\<close>

definition Snapshot_Check :: "SnapshotState \<Rightarrow> Report option \<Rightarrow> report_error + SnapshotState" where
  "Snapshot_Check s report =
     (case report of
        None \<Rightarrow> Inl (ReportError CodeReportShape ''report is nil'')
      | Some rep \<Rightarrow> snapshot_loop s (rpNativeCheckResults rep))"

subsection \<open>The state file\<close>

definition StateVersion :: string where "StateVersion = ''CLC-EVIDENCE-STATE-v1''"

record StateFile =
  sfVersion :: string
  sfSnapshots :: "SnapshotBinding list"

definition MaxReportBytes :: int where "MaxReportBytes = 8388608"

definition json_of_Binding :: "SnapshotBinding \<Rightarrow> json" where
  "json_of_Binding b = struct_json
     [(True, ''source'', JStr (sbSource b)),
      (True, ''componentType'', JStr (sbComponentType b)),
      (True, ''evidenceDigest'', JStr (sbEvidenceDigest b)),
      (True, ''generation'', JInt CInt64 (sbGeneration b)),
      (True, ''digest'', JStr (sbDigest b))]"

definition MarshalSnapshotState :: "SnapshotState \<Rightarrow> canon_err + string" where
  "MarshalSnapshotState s = CanonicalJSON (struct_json
     [(True, ''@version'', JStr StateVersion), (True, ''snapshots'', JArr (map json_of_Binding (Bindings s)))])"

definition SnapshotBinding_fields :: "SnapshotBinding fields" where
  "SnapshotBinding_fields =
     [(''source'', str_field (\<lambda>v r. r\<lparr>sbSource := v\<rparr>)),
      (''componentType'', str_field (\<lambda>v r. r\<lparr>sbComponentType := v\<rparr>)),
      (''evidenceDigest'', str_field (\<lambda>v r. r\<lparr>sbEvidenceDigest := v\<rparr>)),
      (''generation'', int_field (\<lambda>v r. r\<lparr>sbGeneration := v\<rparr>)),
      (''digest'', str_field (\<lambda>v r. r\<lparr>sbDigest := v\<rparr>))]"

definition zero_SnapshotBinding :: SnapshotBinding where
  "zero_SnapshotBinding = \<lparr>sbSource = [], sbComponentType = [], sbEvidenceDigest = [], sbGeneration = 0, sbDigest = []\<rparr>"

definition StateFile_fields :: "StateFile fields" where
  "StateFile_fields =
     [(''@version'', str_field (\<lambda>v r. r\<lparr>sfVersion := v\<rparr>)),
      (''snapshots'', list_field (decode_struct SnapshotBinding_fields) zero_SnapshotBinding (\<lambda>v r. r\<lparr>sfSnapshots := v\<rparr>))]"

text \<open>The decoding that the package repeats: a bounded text, one JSON value without repeated or unknown members.\<close>

definition closed_value :: "'r fields \<Rightarrow> 'r \<Rightarrow> string \<Rightarrow> 'r option" where
  "closed_value fs zero raw =
     (case parse_json raw of
        None \<Rightarrow> None
      | Some t \<Rightarrow> if Check t then decode_struct fs t zero else None)"

definition snapshot_binding_error :: "SnapshotBinding \<Rightarrow> string option" where
  "snapshot_binding_error b = seq_err [
     fail_if (sbSource b = []) ''state snapshot %d has no source'',
     fail_if (sbComponentType b = []) ''state snapshot %d has no componentType'',
     content_Validate (sbEvidenceDigest b),
     fail_if (sbGeneration b < 1) ''state snapshot %d generation must be >= 1'',
     content_Validate (sbDigest b)]"

fun state_loop :: "SnapshotState \<Rightarrow> SnapshotBinding list \<Rightarrow> string + SnapshotState" where
  "state_loop s [] = Inr s"
| "state_loop s (b # bs) =
     (case snapshot_binding_error b of
        Some e \<Rightarrow> Inl e
      | None \<Rightarrow>
          if has_key s (binding_key b) then Inl ''state repeats snapshot coordinate %q''
          else state_loop (AList.update (binding_key b) b s) bs)"

definition ParseSnapshotState :: "string \<Rightarrow> string + SnapshotState" where
  "ParseSnapshotState raw =
     (if MaxReportBytes < int (length raw) then Inl ''state is %d bytes, limit is %d''
      else
        case closed_value StateFile_fields \<lparr>sfVersion = [], sfSnapshots = []\<rparr> raw of
          None \<Rightarrow> Inl ''state: %w''
        | Some file \<Rightarrow>
            if sfVersion file \<noteq> StateVersion then Inl ''state @version %q is not %q''
            else state_loop [] (sfSnapshots file))"

subsection \<open>Replay evidence\<close>

definition ReplayVersion :: string where "ReplayVersion = ''CLC-EVIDENCE-REPLAY-v1''"

record ReplayEvidence =
  reVersion :: string
  reCheckID :: string
  reComponentType :: string
  reEvidenceDigest :: content_digest
  reOutcome :: string
  reVerifier :: string
  reVerifierProfileDigest :: content_digest

definition Replay_Validate :: "ReplayEvidence \<Rightarrow> string option" where
  "Replay_Validate r = seq_err [
     fail_if (reVersion r \<noteq> ReplayVersion) ''replay @version must be %q'',
     fail_if (reCheckID r = [] \<or> reComponentType r = [] \<or> reVerifier r = [])
       ''replay object is missing checkId, componentType or verifier'',
     content_Validate (reEvidenceDigest r),
     content_Validate (reVerifierProfileDigest r),
     fail_if (\<not> NativeCheckOutcome_Valid (reOutcome r)) ''replay outcome %q is not a closed outcome'']"

definition json_of_Replay :: "ReplayEvidence \<Rightarrow> json" where
  "json_of_Replay r = struct_json
     [(True, ''@version'', JStr (reVersion r)),
      (True, ''checkId'', JStr (reCheckID r)),
      (True, ''componentType'', JStr (reComponentType r)),
      (True, ''evidenceDigest'', JStr (reEvidenceDigest r)),
      (True, ''outcome'', JStr (reOutcome r)),
      (True, ''verifier'', JStr (reVerifier r)),
      (True, ''verifierProfileDigest'', JStr (reVerifierProfileDigest r))]"

definition Replay_Digest :: "ReplayEvidence \<Rightarrow> canon_err + content_digest" where
  "Replay_Digest r =
     (case CanonicalJSON (json_of_Replay r) of Inl e \<Rightarrow> Inl e | Inr raw \<Rightarrow> Inr (DigestFromBytes (Sum256 raw)))"

definition ReplayEvidence_fields :: "ReplayEvidence fields" where
  "ReplayEvidence_fields =
     [(''@version'', str_field (\<lambda>v r. r\<lparr>reVersion := v\<rparr>)),
      (''checkId'', str_field (\<lambda>v r. r\<lparr>reCheckID := v\<rparr>)),
      (''componentType'', str_field (\<lambda>v r. r\<lparr>reComponentType := v\<rparr>)),
      (''evidenceDigest'', str_field (\<lambda>v r. r\<lparr>reEvidenceDigest := v\<rparr>)),
      (''outcome'', str_field (\<lambda>v r. r\<lparr>reOutcome := v\<rparr>)),
      (''verifier'', str_field (\<lambda>v r. r\<lparr>reVerifier := v\<rparr>)),
      (''verifierProfileDigest'', str_field (\<lambda>v r. r\<lparr>reVerifierProfileDigest := v\<rparr>))]"

definition zero_ReplayEvidence :: ReplayEvidence where
  "zero_ReplayEvidence = \<lparr>reVersion = [], reCheckID = [], reComponentType = [], reEvidenceDigest = [], reOutcome = [],
     reVerifier = [], reVerifierProfileDigest = []\<rparr>"

text \<open>
  The scan of \<open>jsonstrict.Check\<close> accepts a sequence of values, of which the decoder then reads the first. Every value has a
  token of its own, so the number of tokens is enough fuel.
\<close>

fun stream_values :: "nat \<Rightarrow> jtok list \<Rightarrow> jtext list option" where
  "stream_values 0 ts = (if ts = [] then Some [] else None)"
| "stream_values (Suc n) ts =
     (if ts = [] then Some []
      else case parse_value ts of
             None \<Rightarrow> None
           | Some (v, rest) \<Rightarrow> map_option ((#) v) (stream_values n rest))"

definition first_value :: "'r fields \<Rightarrow> 'r \<Rightarrow> string \<Rightarrow> 'r option" where
  "first_value fs zero raw =
     (let ts = tokens raw
      in case stream_values (length ts) ts of
           Some (v # vs) \<Rightarrow> if list_all Check (v # vs) then decode_struct fs v zero else None
         | _ \<Rightarrow> None)"

definition replayMatchesResult :: "ReplayEvidence \<Rightarrow> NativeCheckResult \<Rightarrow> string option" where
  "replayMatchesResult replay r =
     fail_if (reCheckID replay \<noteq> ncCheckID r \<or> reComponentType replay \<noteq> ncComponentType r \<or>
       reEvidenceDigest replay \<noteq> ncEvidenceDigest r \<or> reOutcome replay \<noteq> ncOutcome r \<or> reVerifier replay \<noteq> ncVerifier r \<or>
       reVerifierProfileDigest replay \<noteq> ncVerifierProfileDigest r) ''replay evidence does not reproduce the result''"

definition replay_error :: "string gomap \<Rightarrow> bool \<Rightarrow> NativeCheckResult \<Rightarrow> report_error option" where
  "replay_error artifacts require r =
     (if ncReplayDigest r = [] then
        fail_if require (ReportError CodeReportReplayMissing ''check %q declares no AEC replay digest'')
      else
        case map_of artifacts (ncReplayDigest r) of
          None \<Rightarrow> Some (ReportError CodeReportReplayMissing ''check %q replay artifact %s is not supplied'')
        | Some raw \<Rightarrow> under CodeReportReplayMismatch (seq_err [
            fail_if (DigestFromBytes (Sum256 raw) \<noteq> ncReplayDigest r) ''check %q replay artifact does not hash to %s'',
            (case first_value ReplayEvidence_fields zero_ReplayEvidence raw of
               None \<Rightarrow> Some ''check %q replay artifact: %s''
             | Some replay \<Rightarrow> seq_err [Replay_Validate replay, replayMatchesResult replay r])]))"

definition ValidateReplayEvidence :: "Report option \<Rightarrow> string gomap \<Rightarrow> bool \<Rightarrow> report_error option" where
  "ValidateReplayEvidence report artifacts require =
     (case report of
        None \<Rightarrow> Some (ReportError CodeReportShape ''report is nil'')
      | Some rep \<Rightarrow> first_err (replay_error artifacts require) (rpNativeCheckResults rep))"

subsection \<open>The policy\<close>

record Attestation =
  atType :: string
  atDigest :: content_digest
  atQuote :: string

record ReportPolicy =
  ppRequireProfile :: bool
  ppRequireComplete :: bool
  ppAllowIncomplete :: bool
  ppRoots :: "Certificate option list"
  ppVerifierPrincipals :: "string list"
  ppProfileDigest :: content_digest
  ppRequirementDigest :: "Digest option"
  ppVerifierProfileDigests :: "content_digest list"
  ppSnapshotSources :: "string list"
  ppReasonRegistries :: "bool gomap gomap"
  ppRequireDerivations :: bool
  ppArtifacts :: "string gomap"
  ppRequireArtifacts :: bool
  ppAttestationVerifier :: "(Attestation \<Rightarrow> content_digest \<Rightarrow> string option) option"
  ppRequireAttestation :: bool
  ppMinAssurance :: string
  ppRequiredCheckIDs :: "string list"
  ppAttestationVerified :: bool
  ppMaxAge :: int \<comment> \<open>durations are an \<open>int64\<close> of nanoseconds\<close>
  ppMaxClockSkew :: int
  ppTimestampRoots :: "Certificate option list"
  ppRequireTimestamp :: bool
  ppTimestampClockSkew :: int
  ppNow :: instant
  ppSnapshots :: "SnapshotState option" \<comment> \<open>\<open>None\<close> is the nil map\<close>
  ppRequireSnapshotBinding :: bool
  ppReplayEvidence :: "string gomap"
  ppRequireReplay :: bool

definition accepted_snapshots :: "ReportPolicy \<Rightarrow> SnapshotState" where
  "accepted_snapshots policy = (case ppSnapshots policy of None \<Rightarrow> [] | Some s \<Rightarrow> s)"

definition snapshot_source_error :: "ReportPolicy \<Rightarrow> NativeCheckResult \<Rightarrow> report_error option" where
  "snapshot_source_error policy r =
     fail_if (ncStatusSnapshotSource r \<noteq> [] \<and> ncStatusSnapshotSource r \<notin> set (ppSnapshotSources policy))
       (ReportError CodeReportSnapshotSource ''check %q snapshot source %q is not allowed'')"

definition coordinate_error :: "NativeCheckResult \<Rightarrow> report_error option" where
  "coordinate_error r =
     (if result_decided r then
        case snapshotBinding r of
          Inl e \<Rightarrow> Some e
        | Inr None \<Rightarrow> Some (ReportError CodeReportSnapshotMissing ''check %q has no snapshot coordinate'')
        | Inr (Some b) \<Rightarrow> None
      else None)"

definition CheckReportLifecycle :: "Report \<Rightarrow> ReportPolicy \<Rightarrow> report_error + SnapshotState" where
  "CheckReportLifecycle rep policy =
     (case seq_err [
        (if ppSnapshotSources policy = [] then None else first_err (snapshot_source_error policy) (rpNativeCheckResults rep)),
        (if ppRequireSnapshotBinding policy then first_err coordinate_error (rpNativeCheckResults rep) else None)] of
        Some e \<Rightarrow> Inl e
      | None \<Rightarrow>
          (case Snapshot_Check (accepted_snapshots policy) (Some rep) of
             Inl e \<Rightarrow> Inl e
           | Inr next_state \<Rightarrow>
               (case ValidateReplayEvidence (Some rep) (ppReplayEvidence policy) (ppRequireReplay policy) of
                  Some e \<Rightarrow> Inl e
                | None \<Rightarrow> Inr next_state)))"

subsection \<open>The final gate\<close>

definition unionStrings :: "string list \<Rightarrow> string list \<Rightarrow> string list" where
  "unionStrings a b = rev (foldl (\<lambda>out v. if v \<in> set out then out else v # out) [] (a @ b))"

definition required_ids :: "Report \<Rightarrow> ReportPolicy \<Rightarrow> string list" where
  "required_ids rep policy =
     (let required = unionStrings (rpRequiredCheckIDs rep) (ppRequiredCheckIDs policy)
      in case rpProfile rep of None \<Rightarrow> required | Some p \<Rightarrow> unionStrings required (pfRequiredChecks p))"

definition checks_complete :: "Report \<Rightarrow> ReportPolicy \<Rightarrow> bool" where
  "checks_complete rep policy \<longleftrightarrow>
     requiredChecksComplete (required_ids rep policy) (rpNativeCheckResults rep) \<and>
     (case rpProfile rep of
        None \<Rightarrow> True
      | Some p \<Rightarrow> pfExpectations p \<noteq> [] \<longrightarrow>
          (case rpNativeCheckAssessment rep of None \<Rightarrow> False | Some a \<Rightarrow> naComplete a))"

definition registry_error :: "Report \<Rightarrow> ReportPolicy \<Rightarrow> string option" where
  "registry_error rep policy =
     (case rpProfile rep of
        None \<Rightarrow> None
      | Some p \<Rightarrow>
          if pfReasonRegistryDigest p = [] then None
          else
            case map_of (ppReasonRegistries policy) (pfReasonRegistryDigest p) of
              None \<Rightarrow> Some ''reason registry is not supplied''
            | Some registry \<Rightarrow>
                first_err (\<lambda>r. fail_if (ncReason r \<noteq> [] \<and>
                    (case reasonCode (pfReasonNamespace p) (ncReason r) of
                       None \<Rightarrow> True
                     | Some code \<Rightarrow> map_of registry code \<noteq> Some True))
                  ''reason %q is not in the pinned registry'') (rpNativeCheckResults rep))"

definition artifact_error :: "ReportPolicy \<Rightarrow> Derivation \<Rightarrow> string option" where
  "artifact_error policy d =
     (case map_of (ppArtifacts policy) (dvArtifactDigest d) of
        None \<Rightarrow> fail_if (ppRequireArtifacts policy) ''artifact %s is not supplied''
      | Some raw \<Rightarrow> fail_if (DigestFromBytes (Sum256 raw) \<noteq> dvArtifactDigest d) ''artifact %s does not hash to its digest'')"

definition profile_pin_error :: "Report \<Rightarrow> ReportPolicy \<Rightarrow> string option" where
  "profile_pin_error rep policy =
     fail_if (ppProfileDigest policy \<noteq> [] \<and>
       (case rpProfile rep of None \<Rightarrow> True | Some p \<Rightarrow> pfProfileDigest p \<noteq> ppProfileDigest policy))
       ''report profile digest is not the pinned profile''"

definition requirement_pin_error :: "Report \<Rightarrow> ReportPolicy \<Rightarrow> string option" where
  "requirement_pin_error rep policy =
     fail_if (case ppRequirementDigest policy of
         None \<Rightarrow> False
       | Some want \<Rightarrow>
           (case rpProjectedRequirementDigest rep of None \<Rightarrow> True | Some d \<Rightarrow> \<not> Digest_Equal d want))
       ''report requirement digest is not the pinned requirement''"

definition assurance_error :: "Report \<Rightarrow> ReportPolicy \<Rightarrow> string option" where
  "assurance_error rep policy = seq_err [
     fail_if (2 \<le> assurance_rank (rpAssurance rep) \<and> rpDerivations rep = []) ''assurance %s requires derivation records'',
     fail_if (rpAssurance rep = ''E3'' \<and> \<not> ppAttestationVerified policy)
       ''assurance E3 requires a verified attestation or replay'',
     fail_if (ppMinAssurance policy \<noteq> [] \<and> assurance_rank (rpAssurance rep) < assurance_rank (ppMinAssurance policy))
       ''report assurance %s is below the required %s'',
     fail_if (ppRequireDerivations policy \<and> rpDerivations rep = []) ''report carries no derivation records'',
     first_err (artifact_error policy) (rpDerivations rep),
     fail_if (ppVerifierProfileDigests policy \<noteq> [] \<and>
         (case rpVerifier rep of
            None \<Rightarrow> True
          | Some v \<Rightarrow> viVerifierProfileDigest v \<notin> set (ppVerifierProfileDigests policy)))
       ''verifier profile is not in the allowlist'']"

definition completeness_error :: "Report \<Rightarrow> ReportPolicy \<Rightarrow> string option" where
  "completeness_error rep policy = seq_err [
     fail_if ((case rpProfile rep of None \<Rightarrow> False | Some p \<Rightarrow> pfStatusModel p = StatusRequired) \<and> \<not> rpNativeChecksComplete rep)
       ''profile %q requires native checks but the report is incomplete'',
     fail_if (\<not> rpNativeChecksComplete rep \<and> \<not> ppAllowIncomplete policy) ''native checks are incomplete'']"

definition lifecycle_asked :: "ReportPolicy \<Rightarrow> bool" where
  "lifecycle_asked policy \<longleftrightarrow> ppSnapshots policy \<noteq> None \<or> ppReplayEvidence policy \<noteq> [] \<or> ppSnapshotSources policy \<noteq> [] \<or>
     ppRequireSnapshotBinding policy \<or> ppRequireReplay policy"

definition VerifyEvidenceReport :: "(string list \<Rightarrow> string list) \<Rightarrow> Report \<Rightarrow> ReportPolicy \<Rightarrow> report_error option" where
  "VerifyEvidenceReport order rep policy = seq_err [
     ValidateEvidenceReport order (Some rep),
     fail_if (ppMinAssurance policy \<noteq> [] \<and> \<not> AssuranceLevel_Valid (ppMinAssurance policy))
       (ReportError CodeReportPolicy ''deployer minimum assurance %q is not E1|E2|E3''),
     fail_if (ppRequireProfile policy \<and> rpProfile rep = None)
       (ReportError CodeReportProfile ''report does not embed a profile''),
     fail_if (checks_complete rep policy \<noteq> rpNativeChecksComplete rep)
       (ReportError CodeReportIncomplete ''nativeChecksComplete does not match the declared checks and results''),
     under CodeReportPolicy (profile_pin_error rep policy),
     under CodeReportPolicy (requirement_pin_error rep policy),
     under CodeReportPolicy (registry_error rep policy),
     under CodeReportPolicy (assurance_error rep policy),
     under CodeReportIncomplete (completeness_error rep policy),
     (if lifecycle_asked policy then
        case CheckReportLifecycle rep policy of Inl e \<Rightarrow> Some e | Inr _ \<Rightarrow> None
      else None)]"

subsection \<open>Assembly of a report\<close>

record EvidenceInputs =
  inProjectorID :: string
  inSourceFormat :: string
  inMeta :: "string gomap"
  inRequirement :: "Requirement option"
  inSourceRequirementDigest :: "Digest option"
  inProjectedRequirementDigest :: "Digest option"
  inRequiredNativeChecks :: "string list"
  inRequiredCheckIDs :: "string list"
  inExpectations :: "NativeCheckExpectation list"
  inResults :: "NativeCheckResult list"
  inProfile :: "Profile option"
  inVerifier :: "VerifierIdentity option"
  inAssurance :: string
  inCarrierID :: string
  inRoleMap :: "string gomap"
  inFacts :: "ReportFact list option" \<comment> \<open>\<open>None\<close> is the nil slice\<close>
  inObservation :: "ProjectedObservation option"
  inEvidenceRecords :: "ProjectedEvidenceRecord list"
  inResiduals :: "string list"
  inNow :: ZTime

definition sameExpectations :: "NativeCheckExpectation list \<Rightarrow> NativeCheckExpectation list \<Rightarrow> bool" where
  "sameExpectations a b \<longleftrightarrow> sameStringSet (map expectation_key a) (map expectation_key b)"

fun unique_from :: "string \<Rightarrow> int \<Rightarrow> int option \<Rightarrow> ReportFact list \<Rightarrow> string + int" where
  "unique_from key i found [] = (case found of None \<Rightarrow> Inl ''fact is not present in the report'' | Some n \<Rightarrow> Inr n)"
| "unique_from key i found (f # fs) =
     (if factKey f \<noteq> key then unique_from key (i + 1) found fs
      else if found \<noteq> None then Inl ''fact value appears more than once; set factIndex explicitly''
      else unique_from key (i + 1) (Some i) fs)"

definition uniqueFactIndex :: "ReportFact list \<Rightarrow> ReportFact \<Rightarrow> string + int" where
  "uniqueFactIndex facts fct = unique_from (factKey fct) 0 None facts"

definition index_record :: "ReportFact list \<Rightarrow> ProjectedEvidenceRecord \<Rightarrow> report_error + ProjectedEvidenceRecord" where
  "index_record facts record =
     (case (erFact record, erFactIndex record) of
        (Some fct, None) \<Rightarrow>
          (case uniqueFactIndex facts fct of
             Inl e \<Rightarrow> Inl (ReportError CodeReportFactUnbound ''evidence record %d: %s'')
           | Inr i \<Rightarrow> Inr (record\<lparr>erFactIndex := Some i\<rparr>))
      | _ \<Rightarrow> Inr record)"

definition derive :: "EvidenceInputs \<Rightarrow> content_digest \<Rightarrow> ProjectedEvidenceRecord \<Rightarrow> report_error + Derivation list" where
  "derive inp verifierProfile record =
     (case (erFact record, erFactIndex record) of
        (Some fct, Some index) \<Rightarrow>
          (case FactBindingDigest fct (erArtifactDigest record) of
             Inl e \<Rightarrow> Inl (ReportError CodeReportDerivation ''evidence record %d: %s'')
           | Inr binding \<Rightarrow> Inr [\<lparr>dvCarrierID = inCarrierID inp, dvArtifactDigest = erArtifactDigest record,
               dvVerifierProfileDigest = verifierProfile,
               dvMappingProfileDigest = (case inObservation inp of None \<Rightarrow> [] | Some ob \<Rightarrow> obMappingProfileDigest ob),
               dvFactIndex = index, dvFactDigest = binding, dvNativeCheckIDs = erNativeCheckIDs record\<rparr>])
      | _ \<Rightarrow> Inr [])"

definition build_derivations :: "EvidenceInputs \<Rightarrow> ProjectedEvidenceRecord list \<Rightarrow> report_error + Derivation list" where
  "build_derivations inp records =
     (if inCarrierID inp = [] then Inr []
      else
        case inVerifier inp of
          None \<Rightarrow> Inl (ReportError CodeReportDerivation ''carrierId requires a verifier profile digest'')
        | Some v \<Rightarrow>
            if viVerifierProfileDigest v = [] then
              Inl (ReportError CodeReportDerivation ''carrierId requires a verifier profile digest'')
            else
              (case map_err (derive inp (viVerifierProfileDigest v)) records of
                 Inl e \<Rightarrow> Inl e
               | Inr ds \<Rightarrow> Inr (concat ds)))"

text \<open>The requirement over the facts at the appraisal instant; \<open>None\<close> when nothing asks for an evaluation.\<close>

definition evaluate_facts :: "Requirement option \<Rightarrow> ReportFact list option \<Rightarrow> bool \<Rightarrow> instant \<Rightarrow> report_error + VerdictView option" where
  "evaluate_facts req facts forced now =
     (case req of
        None \<Rightarrow> Inr None
      | Some r \<Rightarrow>
          if facts = None \<and> \<not> forced then Inr None
          else
            case EvaluateRequirement r (map core_fact (case facts of None \<Rightarrow> [] | Some fs \<Rightarrow> fs))
                   \<lparr>Now = now, Initiator = [], Executor = []\<rparr> of
              Inl e \<Rightarrow> Inl (PlainError ''projection: evaluate projected requirement: %w'')
            | Inr sat \<Rightarrow> Inr (Some (view_of sat)))"

text \<open>The inventory and the required checks after the profile is merged in.\<close>

definition merge_profile ::
  "EvidenceInputs \<Rightarrow> report_error + string list \<times> string list \<times> NativeCheckExpectation list" where
  "merge_profile inp =
     (case inProfile inp of
        None \<Rightarrow> Inr (inRequiredNativeChecks inp, inRequiredCheckIDs inp, inExpectations inp)
      | Some p \<Rightarrow>
          (case Profile_Validate p of
             Some e \<Rightarrow> Inl e
           | None \<Rightarrow>
               if inExpectations inp \<noteq> [] \<and> \<not> sameExpectations (inExpectations inp) (pfExpectations p) then
                 Inl (ReportError CodeReportProfile ''expectation inventory differs from profile %q'')
               else Inr
                 (if inRequiredNativeChecks inp = [] then pfRequiredChecks p else inRequiredNativeChecks inp,
                  unionStrings (inRequiredCheckIDs inp) (pfRequiredChecks p),
                  if inExpectations inp = [] then pfExpectations p else inExpectations inp)))"

definition claimed_assurance :: "EvidenceInputs \<Rightarrow> Derivation list \<Rightarrow> string" where
  "claimed_assurance inp ds = (if inAssurance inp \<noteq> [] then inAssurance inp else if ds \<noteq> [] then ''E2'' else ''E1'')"

definition finish_report ::
  "(string list \<Rightarrow> string list) \<Rightarrow> EvidenceInputs \<Rightarrow> ZTime \<Rightarrow> string list \<times> string list \<times> NativeCheckExpectation list \<Rightarrow>
   VerdictView option \<Rightarrow> ProjectedEvidenceRecord list \<Rightarrow> Derivation list \<Rightarrow> report_error + Report" where
  "finish_report order inp now merged sat records ds =
     (let (display, ids, expectations) = merged;
          (assessment, complete) = assessCompleteness order expectations ids (inResults inp);
          rep = \<lparr>rpVersion = ReportVersion, rpAssurance = claimed_assurance inp ds, rpProjectorID = inProjectorID inp,
            rpProfile = inProfile inp, rpVerifier = inVerifier inp, rpAppraisalTime = Some now,
            rpSourceFormat = inSourceFormat inp, rpMeta = inMeta inp, rpRequirement = inRequirement inp,
            rpSourceRequirementDigest = inSourceRequirementDigest inp,
            rpProjectedRequirementDigest = inProjectedRequirementDigest inp, rpNativeCheckResults = inResults inp,
            rpNativeCheckAssessment = (if expectations = [] then None else Some assessment),
            rpNativeChecksComplete = complete, rpObservation = inObservation inp, rpEvidenceRecords = records,
            rpDerivations = ds, rpFacts = (case inFacts inp of None \<Rightarrow> [] | Some fs \<Rightarrow> fs), rpResiduals = inResiduals inp,
            rpRequiredNativeChecks = display, rpRequiredCheckIDs = ids, rpSatisfaction = sat\<rparr>
      in case seq_err [
           fail_if (\<not> AssuranceLevel_Valid (claimed_assurance inp ds))
             (ReportError CodeReportShape ''assurance %q is not E1|E2|E3''),
           fail_if (2 \<le> assurance_rank (claimed_assurance inp ds) \<and> ds = [])
             (ReportError CodeReportPolicy ''assurance %s requires derivation records''),
           ValidateEvidenceReport order (Some rep)] of
           Some e \<Rightarrow> Inl e
         | None \<Rightarrow> Inr rep)"

definition BuildEvidenceReport ::
  "(string list \<Rightarrow> string list) \<Rightarrow> instant \<Rightarrow> EvidenceInputs \<Rightarrow> report_error + Report" where
  "BuildEvidenceReport order clock inp =
     (let now = (if IsZero (inNow inp) then utc clock else inNow inp)
      in case normalizeResults (inResults inp) of
           Inl e \<Rightarrow> Inl (PlainError e)
         | Inr results \<Rightarrow>
             (case merge_profile inp of
                Inl e \<Rightarrow> Inl e
              | Inr merged \<Rightarrow>
                  (case under CodeReportShape (first_err Expectation_validate (snd (snd merged))) of
                     Some e \<Rightarrow> Inl e
                   | None \<Rightarrow>
                       (case evaluate_facts (inRequirement inp) (inFacts inp) (results \<noteq> []) (zInstant now) of
                          Inl e \<Rightarrow> Inl e
                        | Inr sat \<Rightarrow>
                            (case map_err (index_record (case inFacts inp of None \<Rightarrow> [] | Some fs \<Rightarrow> fs))
                                    (inEvidenceRecords inp) of
                               Inl e \<Rightarrow> Inl e
                             | Inr records \<Rightarrow>
                                 (case build_derivations inp records of
                                    Inl e \<Rightarrow> Inl e
                                  | Inr ds \<Rightarrow> finish_report order inp now merged sat records ds))))))"

end
