(* ===== verification/Report_Signed.thy ===== *)
theory Report_Signed
  imports Report_Lifecycle Catalog_Artifacts
begin

text \<open>
  Signed evidence reports (\<open>projection/envelope.go\<close>, \<open>timestamp.go\<close>, \<open>attestation.go\<close>, \<open>reportauth.go\<close>, and \<open>PAE\<close> of
  \<open>semantics/envelope.go\<close>): the JSON form of a report and its closed decoder, the envelope, the timestamp and the attestation,
  and the verification of a sr report. \<open>report_crypto\<close> adds to \<open>crypto\<close> the chain verification for the timestamping
  usage, the validity period of a certificate and \<open>pkcs7.BuildSignedData\<close> with the signer's key. \<open>clock\<close> is the wall clock. The bytes of a digest that are empty are nil.
\<close>

record report_crypto = crypto +
  VerifyTimeStamping :: "Certificate \<Rightarrow> Certificate list \<Rightarrow> instant \<Rightarrow> string option"
  Validity :: "Certificate \<Rightarrow> instant \<times> instant"
  BuildSignedData :: "string \<Rightarrow> Certificate \<Rightarrow> string + string"

subsection \<open>The JSON form of a report\<close>

definition json_of_Freshness :: "FreshnessDecision \<Rightarrow> json" where
  "json_of_Freshness f = struct_json
     [(True, ''verdict'', JStr (fdVerdict f)),
      (fdCheckedAt f \<noteq> None, ''checkedAt'', JStr (ztime_text True (the (fdCheckedAt f)))),
      (fdValidUntil f \<noteq> None, ''validUntil'', JStr (ztime_text True (the (fdValidUntil f)))),
      (fdSnapshotGeneration f \<noteq> 0, ''snapshotGeneration'', JInt CInt64 (fdSnapshotGeneration f))]"

definition json_of_Result :: "NativeCheckResult \<Rightarrow> json" where
  "json_of_Result r = struct_json
     [(True, ''checkId'', JStr (ncCheckID r)),
      (True, ''componentType'', JStr (ncComponentType r)),
      (ncEvidenceDigest r \<noteq> [], ''evidenceDigest'', JStr (ncEvidenceDigest r)),
      (True, ''outcome'', JStr (ncOutcome r)),
      (ncReason r \<noteq> [], ''reason'', JStr (ncReason r)),
      (ncVerifier r \<noteq> [], ''verifier'', JStr (ncVerifier r)),
      (ncVerifierProfileDigest r \<noteq> [], ''verifierProfileDigest'', JStr (ncVerifierProfileDigest r)),
      (ncTrustSnapshotDigest r \<noteq> [], ''trustSnapshotDigest'', JStr (ncTrustSnapshotDigest r)),
      (ncStatusSnapshotDigest r \<noteq> [], ''statusSnapshotDigest'', JStr (ncStatusSnapshotDigest r)),
      (ncStatusSnapshotSource r \<noteq> [], ''statusSnapshotSource'', JStr (ncStatusSnapshotSource r)),
      (ncStatusSnapshotGeneration r \<noteq> 0, ''statusSnapshotGeneration'', JInt CInt64 (ncStatusSnapshotGeneration r)),
      (True, ''verificationTime'', JStr (ztime_text True (ncVerificationTime r))),
      (ncFreshnessDecision r \<noteq> None, ''freshnessDecision'', json_of_Freshness (the (ncFreshnessDecision r))),
      (ncReplayDigest r \<noteq> [], ''replayDigest'', JStr (ncReplayDigest r))]"

definition json_of_Conflict :: "NativeCheckConflict \<Rightarrow> json" where
  "json_of_Conflict c = struct_json
     [(True, ''checkId'', JStr (cfCheckID c)),
      (True, ''componentType'', JStr (cfComponentType c)),
      (cfEvidenceDigest c \<noteq> [], ''evidenceDigest'', JStr (cfEvidenceDigest c)),
      (True, ''outcomes'', if cfOutcomes c = [] then JNull else JArr (map JStr (cfOutcomes c)))]"

definition json_of_Assessment :: "NativeCheckAssessment \<Rightarrow> json" where
  "json_of_Assessment a = struct_json
     [(True, ''complete'', JBool (naComplete a)),
      (naMissingExpectations a \<noteq> [], ''missingExpectations'', JArr (map json_of_Expectation (naMissingExpectations a))),
      (naUnexpectedResults a \<noteq> [], ''unexpectedResults'', JArr (map json_of_Result (naUnexpectedResults a))),
      (naConflictingResults a \<noteq> [], ''conflictingResults'', JArr (map json_of_Conflict (naConflictingResults a)))]"

definition json_of_Observation :: "ProjectedObservation \<Rightarrow> json" where
  "json_of_Observation ob = struct_json
     [(obNativeActionDigest ob \<noteq> [], ''nativeActionDigest'', JStr (obNativeActionDigest ob)),
      (obCLCActionID ob \<noteq> [], ''clcActionId'', JStr (obCLCActionID ob)),
      (obActionType ob \<noteq> [], ''actionType'', JStr (obActionType ob)),
      (obMaterialFields ob \<noteq> [], ''materialFields'', JArr (map JStr (obMaterialFields ob))),
      (obMaterialProfileID ob \<noteq> [], ''materialProfileId'', JStr (obMaterialProfileID ob)),
      (obMappingProfileDigest ob \<noteq> [], ''mappingProfileDigest'', JStr (obMappingProfileDigest ob))]"

definition json_of_Record :: "ProjectedEvidenceRecord \<Rightarrow> json" where
  "json_of_Record r = struct_json
     [(True, ''artifactDigest'', JStr (erArtifactDigest r)),
      (erNativeRecordDigest r \<noteq> [], ''nativeRecordDigest'', JStr (erNativeRecordDigest r)),
      (erObservationID r \<noteq> [], ''observationId'', JStr (erObservationID r)),
      (erFact r \<noteq> None, ''fact'', json_of_Fact (the (erFact r))),
      (erFactIndex r \<noteq> None, ''factIndex'', JInt CInt (the (erFactIndex r))),
      (erNativeCheckIDs r \<noteq> [], ''nativeCheckIds'', JArr (map JStr (erNativeCheckIDs r))),
      (erRelationTupleDigest r \<noteq> [], ''relationTupleDigest'', JStr (erRelationTupleDigest r))]"

definition json_of_Derivation :: "Derivation \<Rightarrow> json" where
  "json_of_Derivation d = struct_json
     [(True, ''carrierId'', JStr (dvCarrierID d)),
      (True, ''artifactDigest'', JStr (dvArtifactDigest d)),
      (True, ''verifierProfileDigest'', JStr (dvVerifierProfileDigest d)),
      (dvMappingProfileDigest d \<noteq> [], ''mappingProfileDigest'', JStr (dvMappingProfileDigest d)),
      (True, ''factIndex'', JInt CInt (dvFactIndex d)),
      (True, ''factDigest'', JStr (dvFactDigest d)),
      (dvNativeCheckIDs d \<noteq> [], ''nativeCheckIds'', JArr (map JStr (dvNativeCheckIDs d)))]"

definition json_of_Digest :: "Digest \<Rightarrow> json" where
  "json_of_Digest d = struct_json
     [(True, ''alg'', JStr (Alg d)),
      (True, ''value'', if DValue d = [] then JNull else JStr (std_EncodeToString (DValue d)))]"

definition json_of_Evaluation :: "EvaluationView \<Rightarrow> json" where
  "json_of_Evaluation e = struct_json
     [(True, ''constraint'', JStr (vcConstraint e)),
      (True, ''verdict'', JStr (vcVerdict e)),
      (vcReason e \<noteq> [], ''reason'', JStr (vcReason e))]"

definition json_of_Verdict :: "VerdictView \<Rightarrow> json" where
  "json_of_Verdict v = struct_json
     [(True, ''requirement_id'', JStr (vvRequirementID v)),
      (True, ''digest'', json_of_Digest (vvDigest v)),
      (True, ''verdict'', JStr (vvVerdict v)),
      (True, ''expression'', JBool (vvExpression v)),
      (vvMissingRoles v \<noteq> [], ''missing_roles'', JArr (map JStr (vvMissingRoles v))),
      (vvConstraints v \<noteq> [], ''constraints'', JArr (map json_of_Evaluation (vvConstraints v)))]"

definition json_of_Verifier :: "VerifierIdentity \<Rightarrow> json" where
  "json_of_Verifier v = struct_json
     [(True, ''principal'', JStr (viPrincipal v)),
      (viVerifierProfileDigest v \<noteq> [], ''verifierProfileDigest'', JStr (viVerifierProfileDigest v))]"

definition json_of_Report :: "Report \<Rightarrow> json" where
  "json_of_Report r = struct_json
     [(True, ''@version'', JStr (rpVersion r)),
      (True, ''assurance'', JStr (rpAssurance r)),
      (True, ''projectorId'', JStr (rpProjectorID r)),
      (rpProfile r \<noteq> None, ''profile'', json_of_Profile (the (rpProfile r))),
      (rpVerifier r \<noteq> None, ''verifier'', json_of_Verifier (the (rpVerifier r))),
      (rpAppraisalTime r \<noteq> None, ''appraisalTime'', JStr (ztime_text True (the (rpAppraisalTime r)))),
      (rpSourceFormat r \<noteq> [], ''sourceFormat'', JStr (rpSourceFormat r)),
      (rpMeta r \<noteq> [], ''meta'', JObj (map (\<lambda>(k, v). (k, JStr v)) (rpMeta r))),
      (rpRequirement r \<noteq> None, ''requirement'', json_of_Requirement (the (rpRequirement r))),
      (rpSourceRequirementDigest r \<noteq> None, ''sourceRequirementDigest'', json_of_Digest (the (rpSourceRequirementDigest r))),
      (rpProjectedRequirementDigest r \<noteq> None, ''projectedRequirementDigest'',
         json_of_Digest (the (rpProjectedRequirementDigest r))),
      (rpNativeCheckResults r \<noteq> [], ''nativeCheckResults'', JArr (map json_of_Result (rpNativeCheckResults r))),
      (rpNativeCheckAssessment r \<noteq> None, ''nativeCheckAssessment'', json_of_Assessment (the (rpNativeCheckAssessment r))),
      (True, ''nativeChecksComplete'', JBool (rpNativeChecksComplete r)),
      (rpObservation r \<noteq> None, ''observation'', json_of_Observation (the (rpObservation r))),
      (rpEvidenceRecords r \<noteq> [], ''evidenceRecords'', JArr (map json_of_Record (rpEvidenceRecords r))),
      (rpDerivations r \<noteq> [], ''derivations'', JArr (map json_of_Derivation (rpDerivations r))),
      (rpFacts r \<noteq> [], ''facts'', JArr (map json_of_Fact (rpFacts r))),
      (rpResiduals r \<noteq> [], ''residuals'', JArr (map JStr (rpResiduals r))),
      (rpRequiredNativeChecks r \<noteq> [], ''requiredNativeChecks'', JArr (map JStr (rpRequiredNativeChecks r))),
      (rpRequiredCheckIDs r \<noteq> [], ''requiredCheckIds'', JArr (map JStr (rpRequiredCheckIDs r))),
      (rpSatisfaction r \<noteq> None, ''satisfaction'', json_of_Verdict (the (rpSatisfaction r)))]"

text \<open>The times that are written, each of which the encoder may refuse.\<close>

definition result_times :: "NativeCheckResult \<Rightarrow> ZTime list" where
  "result_times r = ncVerificationTime r #
     (case ncFreshnessDecision r of
        None \<Rightarrow> []
      | Some f \<Rightarrow> List.map_filter (\<lambda>t. t) [fdCheckedAt f, fdValidUntil f])"

definition report_times :: "Report \<Rightarrow> ZTime list" where
  "report_times r =
     List.map_filter (\<lambda>t. t) [rpAppraisalTime r] @ concat (map result_times (rpNativeCheckResults r))
     @ (case rpNativeCheckAssessment r of None \<Rightarrow> [] | Some a \<Rightarrow> concat (map result_times (naUnexpectedResults a)))
     @ map fact_time (List.map_filter erFact (rpEvidenceRecords r)) @ map fact_time (rpFacts r)"

definition canonical_report :: "Report \<Rightarrow> canon_err + string" where
  "canonical_report r = (if list_all ztime_ok (report_times r) then CanonicalJSON (json_of_Report r) else Inl EncoderError)"

subsection \<open>The decoder of a report\<close>

definition string_list_field :: "(string list \<Rightarrow> 'r \<Rightarrow> 'r) \<Rightarrow> 'r setter" where
  "string_list_field upd = list_field (str_field (\<lambda>v r. v)) [] upd"

definition Freshness_fields :: "FreshnessDecision fields" where
  "Freshness_fields =
     [(''verdict'', str_field (\<lambda>v r. r\<lparr>fdVerdict := v\<rparr>)),
      (''checkedAt'', time_ptr_field (\<lambda>v r. r\<lparr>fdCheckedAt := v\<rparr>)),
      (''validUntil'', time_ptr_field (\<lambda>v r. r\<lparr>fdValidUntil := v\<rparr>)),
      (''snapshotGeneration'', int_field (\<lambda>v r. r\<lparr>fdSnapshotGeneration := v\<rparr>))]"

definition zero_Freshness :: FreshnessDecision where
  "zero_Freshness = \<lparr>fdVerdict = [], fdCheckedAt = None, fdValidUntil = None, fdSnapshotGeneration = 0\<rparr>"

definition Result_fields :: "NativeCheckResult fields" where
  "Result_fields =
     [(''checkId'', str_field (\<lambda>v r. r\<lparr>ncCheckID := v\<rparr>)),
      (''componentType'', str_field (\<lambda>v r. r\<lparr>ncComponentType := v\<rparr>)),
      (''evidenceDigest'', str_field (\<lambda>v r. r\<lparr>ncEvidenceDigest := v\<rparr>)),
      (''outcome'', str_field (\<lambda>v r. r\<lparr>ncOutcome := v\<rparr>)),
      (''reason'', str_field (\<lambda>v r. r\<lparr>ncReason := v\<rparr>)),
      (''verifier'', str_field (\<lambda>v r. r\<lparr>ncVerifier := v\<rparr>)),
      (''verifierProfileDigest'', str_field (\<lambda>v r. r\<lparr>ncVerifierProfileDigest := v\<rparr>)),
      (''trustSnapshotDigest'', str_field (\<lambda>v r. r\<lparr>ncTrustSnapshotDigest := v\<rparr>)),
      (''statusSnapshotDigest'', str_field (\<lambda>v r. r\<lparr>ncStatusSnapshotDigest := v\<rparr>)),
      (''statusSnapshotSource'', str_field (\<lambda>v r. r\<lparr>ncStatusSnapshotSource := v\<rparr>)),
      (''statusSnapshotGeneration'', int_field (\<lambda>v r. r\<lparr>ncStatusSnapshotGeneration := v\<rparr>)),
      (''verificationTime'', time_field (\<lambda>v r. r\<lparr>ncVerificationTime := v\<rparr>)),
      (''freshnessDecision'', struct_ptr_field Freshness_fields zero_Freshness ncFreshnessDecision
         (\<lambda>v r. r\<lparr>ncFreshnessDecision := v\<rparr>)),
      (''replayDigest'', str_field (\<lambda>v r. r\<lparr>ncReplayDigest := v\<rparr>))]"

definition zero_Result :: NativeCheckResult where
  "zero_Result = \<lparr>ncCheckID = [], ncComponentType = [], ncEvidenceDigest = [], ncOutcome = [], ncReason = [], ncVerifier = [],
     ncVerifierProfileDigest = [], ncTrustSnapshotDigest = [], ncStatusSnapshotDigest = [], ncStatusSnapshotSource = [],
     ncStatusSnapshotGeneration = 0, ncVerificationTime = utc zero_time, ncFreshnessDecision = None, ncReplayDigest = []\<rparr>"

definition Expectation_fields :: "NativeCheckExpectation fields" where
  "Expectation_fields =
     [(''checkId'', str_field (\<lambda>v r. r\<lparr>neCheckID := v\<rparr>)),
      (''componentType'', str_field (\<lambda>v r. r\<lparr>neComponentType := v\<rparr>)),
      (''evidenceDigest'', str_field (\<lambda>v r. r\<lparr>neEvidenceDigest := v\<rparr>))]"

definition zero_Expectation :: NativeCheckExpectation where
  "zero_Expectation = \<lparr>neCheckID = [], neComponentType = [], neEvidenceDigest = []\<rparr>"

definition Conflict_fields :: "NativeCheckConflict fields" where
  "Conflict_fields =
     [(''checkId'', str_field (\<lambda>v r. r\<lparr>cfCheckID := v\<rparr>)),
      (''componentType'', str_field (\<lambda>v r. r\<lparr>cfComponentType := v\<rparr>)),
      (''evidenceDigest'', str_field (\<lambda>v r. r\<lparr>cfEvidenceDigest := v\<rparr>)),
      (''outcomes'', string_list_field (\<lambda>v r. r\<lparr>cfOutcomes := v\<rparr>))]"

definition Assessment_fields :: "NativeCheckAssessment fields" where
  "Assessment_fields =
     [(''complete'', bool_field (\<lambda>v r. r\<lparr>naComplete := v\<rparr>)),
      (''missingExpectations'', list_field (decode_struct Expectation_fields) zero_Expectation
         (\<lambda>v r. r\<lparr>naMissingExpectations := v\<rparr>)),
      (''unexpectedResults'', list_field (decode_struct Result_fields) zero_Result (\<lambda>v r. r\<lparr>naUnexpectedResults := v\<rparr>)),
      (''conflictingResults'', list_field (decode_struct Conflict_fields)
         \<lparr>cfCheckID = [], cfComponentType = [], cfEvidenceDigest = [], cfOutcomes = []\<rparr>
         (\<lambda>v r. r\<lparr>naConflictingResults := v\<rparr>))]"

definition Profile_fields :: "Profile fields" where
  "Profile_fields =
     [(''id'', str_field (\<lambda>v r. r\<lparr>pfID := v\<rparr>)),
      (''statusModel'', str_field (\<lambda>v r. r\<lparr>pfStatusModel := v\<rparr>)),
      (''requiredChecks'', string_list_field (\<lambda>v r. r\<lparr>pfRequiredChecks := v\<rparr>)),
      (''expectations'', list_field (decode_struct Expectation_fields) zero_Expectation (\<lambda>v r. r\<lparr>pfExpectations := v\<rparr>)),
      (''notApplicableAuthority'', str_field (\<lambda>v r. r\<lparr>pfNotApplicableAuthority := v\<rparr>)),
      (''actionMappingDigest'', str_field (\<lambda>v r. r\<lparr>pfActionMappingDigest := v\<rparr>)),
      (''reasonNamespace'', str_field (\<lambda>v r. r\<lparr>pfReasonNamespace := v\<rparr>)),
      (''reasonRegistryDigest'', str_field (\<lambda>v r. r\<lparr>pfReasonRegistryDigest := v\<rparr>)),
      (''profileDigest'', str_field (\<lambda>v r. r\<lparr>pfProfileDigest := v\<rparr>))]"

definition zero_Profile :: Profile where
  "zero_Profile = \<lparr>pfID = [], pfStatusModel = [], pfRequiredChecks = [], pfExpectations = [], pfNotApplicableAuthority = [],
     pfActionMappingDigest = [], pfReasonNamespace = [], pfReasonRegistryDigest = [], pfProfileDigest = []\<rparr>"

definition Fact_fields :: "ReportFact fields" where
  "Fact_fields =
     [(''Type'', str_field (\<lambda>v r. r\<lparr>factType := v\<rparr>)),
      (''Subject'', str_field (\<lambda>v r. r\<lparr>Subject := v\<rparr>)),
      (''IssuedAt'', time_field (\<lambda>v r. r\<lparr>IssuedAt := zInstant v, issuedZone := zOffset v\<rparr>)),
      (''Verified'', bool_field (\<lambda>v r. r\<lparr>Verified := v\<rparr>))]"

definition zero_Fact :: ReportFact where
  "zero_Fact = \<lparr>factType = [], Subject = [], IssuedAt = zero_time, Verified = False, issuedZone = 0\<rparr>"

definition Observation_fields :: "ProjectedObservation fields" where
  "Observation_fields =
     [(''nativeActionDigest'', str_field (\<lambda>v r. r\<lparr>obNativeActionDigest := v\<rparr>)),
      (''clcActionId'', str_field (\<lambda>v r. r\<lparr>obCLCActionID := v\<rparr>)),
      (''actionType'', str_field (\<lambda>v r. r\<lparr>obActionType := v\<rparr>)),
      (''materialFields'', string_list_field (\<lambda>v r. r\<lparr>obMaterialFields := v\<rparr>)),
      (''materialProfileId'', str_field (\<lambda>v r. r\<lparr>obMaterialProfileID := v\<rparr>)),
      (''mappingProfileDigest'', str_field (\<lambda>v r. r\<lparr>obMappingProfileDigest := v\<rparr>))]"

definition Record_fields :: "ProjectedEvidenceRecord fields" where
  "Record_fields =
     [(''artifactDigest'', str_field (\<lambda>v r. r\<lparr>erArtifactDigest := v\<rparr>)),
      (''nativeRecordDigest'', str_field (\<lambda>v r. r\<lparr>erNativeRecordDigest := v\<rparr>)),
      (''observationId'', str_field (\<lambda>v r. r\<lparr>erObservationID := v\<rparr>)),
      (''fact'', struct_ptr_field Fact_fields zero_Fact erFact (\<lambda>v r. r\<lparr>erFact := v\<rparr>)),
      (''factIndex'', int_ptr_field (\<lambda>v r. r\<lparr>erFactIndex := v\<rparr>)),
      (''nativeCheckIds'', string_list_field (\<lambda>v r. r\<lparr>erNativeCheckIDs := v\<rparr>)),
      (''relationTupleDigest'', str_field (\<lambda>v r. r\<lparr>erRelationTupleDigest := v\<rparr>))]"

definition zero_Record :: ProjectedEvidenceRecord where
  "zero_Record = \<lparr>erArtifactDigest = [], erNativeRecordDigest = [], erObservationID = [], erFact = None, erFactIndex = None,
     erNativeCheckIDs = [], erRelationTupleDigest = []\<rparr>"

definition Derivation_fields :: "Derivation fields" where
  "Derivation_fields =
     [(''carrierId'', str_field (\<lambda>v r. r\<lparr>dvCarrierID := v\<rparr>)),
      (''artifactDigest'', str_field (\<lambda>v r. r\<lparr>dvArtifactDigest := v\<rparr>)),
      (''verifierProfileDigest'', str_field (\<lambda>v r. r\<lparr>dvVerifierProfileDigest := v\<rparr>)),
      (''mappingProfileDigest'', str_field (\<lambda>v r. r\<lparr>dvMappingProfileDigest := v\<rparr>)),
      (''factIndex'', int_field (\<lambda>v r. r\<lparr>dvFactIndex := v\<rparr>)),
      (''factDigest'', str_field (\<lambda>v r. r\<lparr>dvFactDigest := v\<rparr>)),
      (''nativeCheckIds'', string_list_field (\<lambda>v r. r\<lparr>dvNativeCheckIDs := v\<rparr>))]"

definition zero_Derivation :: Derivation where
  "zero_Derivation = \<lparr>dvCarrierID = [], dvArtifactDigest = [], dvVerifierProfileDigest = [], dvMappingProfileDigest = [],
     dvFactIndex = 0, dvFactDigest = [], dvNativeCheckIDs = []\<rparr>"

definition Digest_fields :: "Digest fields" where
  "Digest_fields =
     [(''alg'', str_field (\<lambda>v r. r\<lparr>Alg := v\<rparr>)), (''value'', bytes_field (\<lambda>v r. r\<lparr>DValue := v\<rparr>))]"

definition zero_Digest :: Digest where
  "zero_Digest = \<lparr>Alg = [], DValue = []\<rparr>"

definition Evaluation_fields :: "EvaluationView fields" where
  "Evaluation_fields =
     [(''constraint'', str_field (\<lambda>v r. r\<lparr>vcConstraint := v\<rparr>)),
      (''verdict'', str_field (\<lambda>v r. r\<lparr>vcVerdict := v\<rparr>)),
      (''reason'', str_field (\<lambda>v r. r\<lparr>vcReason := v\<rparr>))]"

definition Verdict_fields :: "VerdictView fields" where
  "Verdict_fields =
     [(''requirement_id'', str_field (\<lambda>v r. r\<lparr>vvRequirementID := v\<rparr>)),
      (''digest'', struct_field Digest_fields vvDigest (\<lambda>v r. r\<lparr>vvDigest := v\<rparr>)),
      (''verdict'', str_field (\<lambda>v r. r\<lparr>vvVerdict := v\<rparr>)),
      (''expression'', bool_field (\<lambda>v r. r\<lparr>vvExpression := v\<rparr>)),
      (''missing_roles'', string_list_field (\<lambda>v r. r\<lparr>vvMissingRoles := v\<rparr>)),
      (''constraints'', list_field (decode_struct Evaluation_fields) \<lparr>vcConstraint = [], vcVerdict = [], vcReason = []\<rparr>
         (\<lambda>v r. r\<lparr>vvConstraints := v\<rparr>))]"

definition zero_Verdict :: VerdictView where
  "zero_Verdict = \<lparr>vvRequirementID = [], vvDigest = zero_Digest, vvVerdict = [], vvExpression = False, vvMissingRoles = [],
     vvConstraints = []\<rparr>"

definition RequirementConstraint_fields :: "RequirementConstraint fields" where
  "RequirementConstraint_fields =
     [(''role'', str_field (\<lambda>v r. r\<lparr>rcRole := v\<rparr>)), (''constraint'', str_field (\<lambda>v r. r\<lparr>rcConstraint := v\<rparr>))]"

definition Requirement_fields :: "Requirement fields" where
  "Requirement_fields =
     [(''@version'', str_field (\<lambda>v r. r\<lparr>rqVersion := v\<rparr>)),
      (''requirement_id'', str_field (\<lambda>v r. r\<lparr>rqID := v\<rparr>)),
      (''purpose'', str_field (\<lambda>v r. r\<lparr>rqPurpose := v\<rparr>)),
      (''expression'', str_field (\<lambda>v r. r\<lparr>rqExpression := v\<rparr>)),
      (''constraints'', list_field (decode_struct RequirementConstraint_fields) \<lparr>rcRole = [], rcConstraint = []\<rparr>
         (\<lambda>v r. r\<lparr>rqConstraints := v\<rparr>))]"

definition zero_Requirement :: Requirement where
  "zero_Requirement = \<lparr>rqVersion = [], rqID = [], rqPurpose = [], rqExpression = [], rqConstraints = []\<rparr>"

definition Verifier_fields :: "VerifierIdentity fields" where
  "Verifier_fields =
     [(''principal'', str_field (\<lambda>v r. r\<lparr>viPrincipal := v\<rparr>)),
      (''verifierProfileDigest'', str_field (\<lambda>v r. r\<lparr>viVerifierProfileDigest := v\<rparr>))]"

definition Report_fields :: "Report fields" where
  "Report_fields =
     [(''@version'', str_field (\<lambda>v r. r\<lparr>rpVersion := v\<rparr>)),
      (''assurance'', str_field (\<lambda>v r. r\<lparr>rpAssurance := v\<rparr>)),
      (''projectorId'', str_field (\<lambda>v r. r\<lparr>rpProjectorID := v\<rparr>)),
      (''profile'', struct_ptr_field Profile_fields zero_Profile rpProfile (\<lambda>v r. r\<lparr>rpProfile := v\<rparr>)),
      (''verifier'', struct_ptr_field Verifier_fields \<lparr>viPrincipal = [], viVerifierProfileDigest = []\<rparr> rpVerifier
         (\<lambda>v r. r\<lparr>rpVerifier := v\<rparr>)),
      (''appraisalTime'', time_ptr_field (\<lambda>v r. r\<lparr>rpAppraisalTime := v\<rparr>)),
      (''sourceFormat'', str_field (\<lambda>v r. r\<lparr>rpSourceFormat := v\<rparr>)),
      (''meta'', map_field (str_field (\<lambda>v r. v)) [] rpMeta
         (\<lambda>v r. r\<lparr>rpMeta := (case v of None \<Rightarrow> [] | Some m \<Rightarrow> m)\<rparr>)),
      (''requirement'', struct_ptr_field Requirement_fields zero_Requirement rpRequirement (\<lambda>v r. r\<lparr>rpRequirement := v\<rparr>)),
      (''sourceRequirementDigest'', struct_ptr_field Digest_fields zero_Digest rpSourceRequirementDigest
         (\<lambda>v r. r\<lparr>rpSourceRequirementDigest := v\<rparr>)),
      (''projectedRequirementDigest'', struct_ptr_field Digest_fields zero_Digest rpProjectedRequirementDigest
         (\<lambda>v r. r\<lparr>rpProjectedRequirementDigest := v\<rparr>)),
      (''nativeCheckResults'', list_field (decode_struct Result_fields) zero_Result (\<lambda>v r. r\<lparr>rpNativeCheckResults := v\<rparr>)),
      (''nativeCheckAssessment'', struct_ptr_field Assessment_fields
         \<lparr>naComplete = False, naMissingExpectations = [], naUnexpectedResults = [], naConflictingResults = []\<rparr>
         rpNativeCheckAssessment (\<lambda>v r. r\<lparr>rpNativeCheckAssessment := v\<rparr>)),
      (''nativeChecksComplete'', bool_field (\<lambda>v r. r\<lparr>rpNativeChecksComplete := v\<rparr>)),
      (''observation'', struct_ptr_field Observation_fields
         \<lparr>obNativeActionDigest = [], obCLCActionID = [], obActionType = [], obMaterialFields = [], obMaterialProfileID = [],
          obMappingProfileDigest = []\<rparr> rpObservation (\<lambda>v r. r\<lparr>rpObservation := v\<rparr>)),
      (''evidenceRecords'', list_field (decode_struct Record_fields) zero_Record (\<lambda>v r. r\<lparr>rpEvidenceRecords := v\<rparr>)),
      (''derivations'', list_field (decode_struct Derivation_fields) zero_Derivation (\<lambda>v r. r\<lparr>rpDerivations := v\<rparr>)),
      (''facts'', list_field (decode_struct Fact_fields) zero_Fact (\<lambda>v r. r\<lparr>rpFacts := v\<rparr>)),
      (''residuals'', string_list_field (\<lambda>v r. r\<lparr>rpResiduals := v\<rparr>)),
      (''requiredNativeChecks'', string_list_field (\<lambda>v r. r\<lparr>rpRequiredNativeChecks := v\<rparr>)),
      (''requiredCheckIds'', string_list_field (\<lambda>v r. r\<lparr>rpRequiredCheckIDs := v\<rparr>)),
      (''satisfaction'', struct_ptr_field Verdict_fields zero_Verdict rpSatisfaction (\<lambda>v r. r\<lparr>rpSatisfaction := v\<rparr>))]"

definition zero_Report :: Report where
  "zero_Report = \<lparr>rpVersion = [], rpAssurance = [], rpProjectorID = [], rpProfile = None, rpVerifier = None,
     rpAppraisalTime = None, rpSourceFormat = [], rpMeta = [], rpRequirement = None, rpSourceRequirementDigest = None,
     rpProjectedRequirementDigest = None, rpNativeCheckResults = [], rpNativeCheckAssessment = None,
     rpNativeChecksComplete = False, rpObservation = None, rpEvidenceRecords = [], rpDerivations = [], rpFacts = [],
     rpResiduals = [], rpRequiredNativeChecks = [], rpRequiredCheckIDs = [], rpSatisfaction = None\<rparr>"

definition decodeSignedReport :: "string \<Rightarrow> report_error + Report" where
  "decodeSignedReport payload =
     (if MaxReportBytes < int (length payload) then Inl (ReportError CodeReportShape ''payload is %d bytes, limit is %d'')
      else
        case closed_value Report_fields zero_Report payload of
          None \<Rightarrow> Inl (ReportError CodeReportShape ''payload: %s'')
        | Some rep \<Rightarrow> Inr rep)"

subsection \<open>Envelopes\<close>

definition MaxEnvelopeSignatures :: int where "MaxEnvelopeSignatures = 64"
definition MaxSignatureBytes :: int where "MaxSignatureBytes = 65536"
definition ReportPayloadType :: string where "ReportPayloadType = ''application/vnd.varwof.evidence-report-v1+json''"

record Signature =
  sgKeyID :: string
  sgSig :: string

record Envelope =
  evPayloadType :: string
  evPayload :: string
  evSignatures :: "Signature list"

definition writeLengthPrefixed :: "string \<Rightarrow> string" where
  "writeLengthPrefixed v = '' '' @ itoa (int (length v)) @ '' '' @ v"

definition PAE :: "string \<Rightarrow> string \<Rightarrow> string" where
  "PAE payloadType payload = ''DSSEv1'' @ writeLengthPrefixed payloadType @ writeLengthPrefixed payload"

definition decodeBase64URL :: "string \<Rightarrow> string + string" where
  "decodeBase64URL v =
     (case b64_DecodeString v of
        None \<Rightarrow> Inl ''%s is not unpadded base64url: %w''
      | Some raw \<Rightarrow> if b64_EncodeToString raw \<noteq> v then Inl ''%s is not canonical base64url'' else Inr raw)"

definition signature_bytes :: "Signature \<Rightarrow> string + string" where
  "signature_bytes s =
     (case decodeBase64URL (sgSig s) of
        Inl e \<Rightarrow> Inl e
      | Inr raw \<Rightarrow> if MaxSignatureBytes < int (length raw) then Inl ''signature %d is %d bytes, limit is %d'' else Inr raw)"

definition EnvelopeBytes :: "Envelope option \<Rightarrow> string + string \<times> string list" where
  "EnvelopeBytes env =
     (case env of
        None \<Rightarrow> Inl ''envelope is nil''
      | Some e \<Rightarrow>
          if MaxEnvelopeSignatures < int (length (evSignatures e)) then Inl ''envelope has %d signatures, limit is %d''
          else
            case decodeBase64URL (evPayload e) of
              Inl err \<Rightarrow> Inl err
            | Inr payload \<Rightarrow>
                if MaxReportBytes < int (length payload) then Inl ''payload is %d bytes, limit is %d''
                else
                  (case map_err signature_bytes (evSignatures e) of
                     Inl err \<Rightarrow> Inl err
                   | Inr sigs \<Rightarrow> Inr (payload, sigs)))"

definition Envelope_fields :: "Envelope fields" where
  "Envelope_fields =
     [(''payloadType'', str_field (\<lambda>v r. r\<lparr>evPayloadType := v\<rparr>)),
      (''payload'', str_field (\<lambda>v r. r\<lparr>evPayload := v\<rparr>)),
      (''signatures'', list_field
         (decode_struct [(''keyid'', str_field (\<lambda>v r. r\<lparr>sgKeyID := v\<rparr>)), (''sig'', str_field (\<lambda>v r. r\<lparr>sgSig := v\<rparr>))])
         \<lparr>sgKeyID = [], sgSig = []\<rparr> (\<lambda>v r. r\<lparr>evSignatures := v\<rparr>))]"

text \<open>One call of the decoder: what follows the first value is not looked at, and repeated members are not refused.\<close>

definition DecodeEnvelope :: "string \<Rightarrow> string + Envelope" where
  "DecodeEnvelope raw =
     (if 3 * MaxReportBytes < int (length raw) then Inl ''envelope JSON is %d bytes, limit is %d''
      else
        case parse_value (tokens raw) of
          None \<Rightarrow> Inl ''envelope: %w''
        | Some (v, _) \<Rightarrow>
            (case decode_struct Envelope_fields v \<lparr>evPayloadType = [], evPayload = [], evSignatures = []\<rparr> of
               None \<Rightarrow> Inl ''envelope: %w''
             | Some env \<Rightarrow> map_sum id (\<lambda>_. env) (EnvelopeBytes (Some env))))"

definition EnvelopeDigest :: "Envelope option \<Rightarrow> string + content_digest" where
  "EnvelopeDigest env =
     (case EnvelopeBytes env of
        Inl e \<Rightarrow> Inl e
      | Inr (payload, _) \<Rightarrow> Inr (DigestFromBytes (Sum256 (PAE (case env of None \<Rightarrow> [] | Some e \<Rightarrow> evPayloadType e) payload))))"

subsection \<open>Timestamps\<close>

record TimestampAssertion =
  taDigest :: content_digest
  taTime :: ZTime
  taToken :: string

definition timestampBytes :: "content_digest \<Rightarrow> ZTime \<Rightarrow> canon_err + string" where
  "timestampBytes digest t = CanonicalJSON (JObj
     [(''digest'', JStr digest), (''time'', JStr (ztime_text False (utc (zInstant t))))])"

text \<open>\<open>base64.RawURLEncoding.EncodedLen\<close>.\<close>

definition EncodedLen :: "int \<Rightarrow> int" where
  "EncodedLen n = n div 3 * 4 + (n mod 3 * 8 + 5) div 6"

definition timestamp_signer_error ::
  "report_crypto \<Rightarrow> TimestampAssertion \<Rightarrow> string \<Rightarrow> string \<Rightarrow> Certificate option list \<Rightarrow> instant \<Rightarrow> int \<Rightarrow> string option" where
  "timestamp_signer_error cr a token body roots now skew =
     (case VerifyDetached cr token body of
        Inl e \<Rightarrow> Some ''timestamp signature: %s''
      | Inr None \<Rightarrow> Some ''timestamp signature recovered no certificate''
      | Inr (Some cert) \<Rightarrow> seq_err [
          fail_if (VerifyTimeStamping cr cert (root_pool roots) now \<noteq> None) ''timestamp signer chain: %s'',
          fail_if (zInstant (taTime a) < fst (Validity cr cert) \<or> snd (Validity cr cert) < zInstant (taTime a))
            ''timestamp %s is outside the signer certificate validity'',
          fail_if (now + skew < zInstant (taTime a)) ''timestamp %s is in the future''])"

definition verifyTimestamp ::
  "report_crypto \<Rightarrow> TimestampAssertion option \<Rightarrow> Envelope option \<Rightarrow> Certificate option list \<Rightarrow> instant \<Rightarrow> int \<Rightarrow> report_error option" where
  "verifyTimestamp cr assertion env roots now skew =
     (case assertion of
        None \<Rightarrow> Some (ReportError CodeReportStale ''timestamp assertion is required'')
      | Some a \<Rightarrow>
          (case EnvelopeDigest env of
             Inl e \<Rightarrow> Some (ReportError CodeReportShape e)
           | Inr want \<Rightarrow> under CodeReportStale (seq_err [
               fail_if (taDigest a \<noteq> want) ''timestamp digest does not match the report payload'',
               fail_if (roots = []) ''no timestamp trust roots configured'',
               (case timestampBytes (taDigest a) (taTime a) of
                  Inl e \<Rightarrow> Some ''timestamp body: %s''
                | Inr body \<Rightarrow>
                    if EncodedLen MaxSignatureBytes < int (length (taToken a)) then Some ''timestamp token is too large''
                    else
                      case decodeBase64URL (taToken a) of
                        Inl e \<Rightarrow> Some e
                      | Inr token \<Rightarrow> timestamp_signer_error cr a token body roots now skew)])))"

subsection \<open>Signers\<close>

definition verifyReportCertificate ::
  "report_crypto \<Rightarrow> Certificate \<Rightarrow> Certificate option list \<Rightarrow> instant \<Rightarrow> string option" where
  "verifyReportCertificate cr cert roots now = seq_err [
     fail_if (roots = []) ''no trust roots configured'',
     fail_if (x509_Verify cr cert (root_pool roots) now \<noteq> None) ''certificate chain: %w'']"

definition certificateIdentity :: "report_crypto \<Rightarrow> Certificate \<Rightarrow> string + AdminAIC" where
  "certificateIdentity cr cert =
     (case ParseAIC cr cert of
        Inl e \<Rightarrow> Inl ''parse AIC: %s''
      | Inr None \<Rightarrow> Inl ''certificate carries no AIC''
      | Inr (Some aic) \<Rightarrow>
          if ValidateAIC cr aic \<noteq> None then Inl ''invalid AIC: %s''
          else if KeyHash aic = [] \<or> allZero (KeyHash aic) then Inl ''AIC carries no principal key hash''
          else if KeyHash aic \<noteq> mustKeyHash cert then Inl ''AIC key hash does not match the certificate key''
          else Inr aic)"

definition principalMatches :: "string \<Rightarrow> AdminAIC \<Rightarrow> bool" where
  "principalMatches declared aic = names_principal (trim_prefix ''principal:'' declared) aic"

definition principalAllowed :: "string list \<Rightarrow> AdminAIC \<Rightarrow> bool" where
  "principalAllowed allowed aic = list_ex (\<lambda>entry. principalMatches entry aic) allowed"

definition report_signer ::
  "report_crypto \<Rightarrow> ReportPolicy \<Rightarrow> instant \<Rightarrow> string \<Rightarrow> string \<Rightarrow> report_error + AdminAIC" where
  "report_signer cr policy now pae sig =
     (case VerifyDetached cr sig pae of
        Inl e \<Rightarrow> Inl (ReportError CodeReportSignature ''signature %d: %s'')
      | Inr None \<Rightarrow> Inl (ReportError CodeReportSignature ''signature %d recovered no certificate'')
      | Inr (Some cert) \<Rightarrow>
          (case verifyReportCertificate cr cert (ppRoots policy) now of
             Some e \<Rightarrow> Inl (ReportError CodeReportSignature e)
           | None \<Rightarrow>
               (case certificateIdentity cr cert of
                  Inl e \<Rightarrow> Inl (ReportError CodeReportSignature e)
                | Inr aic \<Rightarrow>
                    if ppVerifierPrincipals policy \<noteq> [] \<and> \<not> principalAllowed (ppVerifierPrincipals policy) aic then
                      Inl (ReportError CodeReportPolicy ''signature %d signer is not an allowed verifier'')
                    else Inr aic)))"

subsection \<open>Verification of a signed report\<close>

definition reportClockSkew :: int where "reportClockSkew = 300000000000"

definition checkReportAge :: "Report \<Rightarrow> ReportPolicy \<Rightarrow> instant \<Rightarrow> instant \<Rightarrow> report_error option" where
  "checkReportAge rep policy now anchor =
     (case rpAppraisalTime rep of
        None \<Rightarrow> Some (ReportError CodeReportShape ''report has no appraisal time'')
      | Some t \<Rightarrow>
          (let skew = (if 0 < ppMaxClockSkew policy then ppMaxClockSkew policy else reportClockSkew);
               reference = (if anchor \<noteq> zero_time then anchor else zInstant t)
           in under CodeReportStale (seq_err [
                fail_if (now + skew < zInstant t) ''report appraisal time %s is outside the clock-skew window'',
                fail_if (0 < ppMaxAge policy \<and> ppMaxAge policy < Sub now reference) ''report is older than %s''])))"

definition recomputeSatisfaction :: "Report \<Rightarrow> report_error option" where
  "recomputeSatisfaction rep =
     (case (rpRequirement rep, rpSatisfaction rep) of
        (None, None) \<Rightarrow> None
      | (None, Some _) \<Rightarrow> Some (ReportError CodeReportVerdict ''report carries a verdict without a requirement'')
      | (Some _, None) \<Rightarrow> Some (ReportError CodeReportVerdict ''report has a requirement but no verdict'')
      | (Some req, Some sat) \<Rightarrow>
          (case EvaluateRequirement req (map core_fact (rpFacts rep))
                  \<lparr>Now = (case rpAppraisalTime rep of None \<Rightarrow> zero_time | Some t \<Rightarrow> zInstant t), Initiator = [], Executor = []\<rparr> of
             Inl e \<Rightarrow> Some (ReportError CodeReportShape ''re-evaluate requirement: %s'')
           | Inr got \<Rightarrow> fail_if (view_of got \<noteq> sat)
               (ReportError CodeReportVerdict ''recomputed verdict does not match the report'')))"

definition signed_report_error :: "Report \<Rightarrow> string \<Rightarrow> ReportPolicy \<Rightarrow> AdminAIC list \<Rightarrow> report_error option" where
  "signed_report_error rep payload policy signers = seq_err [
     fail_if (canonical_report rep \<noteq> Inr payload)
       (ReportError CodeReportShape ''signed payload is not the canonical report form''),
     fail_if (rpVerifier rep = None) (ReportError CodeReportVerifier ''report has no verifier identity''),
     (case rpProfile rep of
        None \<Rightarrow> None
      | Some p \<Rightarrow> seq_err [
          fail_if (pfProfileDigest p = []) (ReportError CodeReportProfile
            ''embedded profile is not sealed (missing content-derived digest)''),
          fail_if (ppProfileDigest policy = []) (ReportError CodeReportPolicy
            ''report embeds a profile but the policy pins no ProfileDigest'')]),
     fail_if (rpRequirement rep \<noteq> None \<and> ppRequirementDigest policy = None)
       (ReportError CodeReportPolicy ''report carries a requirement but the policy pins no RequirementDigest''),
     first_err (\<lambda>aic. fail_if (\<not> principalMatches (case rpVerifier rep of None \<Rightarrow> [] | Some v \<Rightarrow> viPrincipal v) aic)
       (ReportError CodeReportVerifier ''signature %d signer %s:%s is not the report verifier %q'')) signers]"

definition anchor_error :: "Report \<Rightarrow> instant \<Rightarrow> int \<Rightarrow> report_error option" where
  "anchor_error rep anchor skew =
     (let t = (case rpAppraisalTime rep of None \<Rightarrow> zero_time | Some t \<Rightarrow> zInstant t)
      in fail_if (anchor \<noteq> zero_time \<and> (anchor + skew < t \<or> skew < Sub anchor t))
           (ReportError CodeReportStale ''report appraisal time and timestamp are more than %s apart''))"

definition VerifySignedEvidenceReportAt ::
  "(string list \<Rightarrow> string list) \<Rightarrow> report_crypto \<Rightarrow> instant \<Rightarrow> Envelope option \<Rightarrow> TimestampAssertion option \<Rightarrow> ReportPolicy \<Rightarrow>
   report_error + Report \<times> SnapshotState" where
  "VerifySignedEvidenceReportAt order cr clock env assertion policy =
     (case env of
        None \<Rightarrow> Inl (ReportError CodeReportShape ''envelope is nil'')
      | Some e \<Rightarrow>
          if evPayloadType e \<noteq> ReportPayloadType then Inl (ReportError CodeReportShape ''payload type %q is not %q'')
          else
            case EnvelopeBytes env of
              Inl m \<Rightarrow> Inl (ReportError CodeReportShape m)
            | Inr (payload, signatures) \<Rightarrow>
                if payload = [] then Inl (ReportError CodeReportShape ''envelope has no payload'')
                else if signatures = [] then Inl (ReportError CodeReportSignature ''envelope has no signatures'')
                else
                  (let now = (if ppNow policy = zero_time then clock else ppNow policy);
                       skew = (if 0 < ppTimestampClockSkew policy then ppTimestampClockSkew policy else reportClockSkew);
                       stamped = (assertion \<noteq> None \<or> ppRequireTimestamp policy);
                       anchor = (case assertion of None \<Rightarrow> zero_time | Some a \<Rightarrow> zInstant (taTime a))
                   in case (if stamped then verifyTimestamp cr assertion env (ppTimestampRoots policy) now skew else None) of
                        Some x \<Rightarrow> Inl x
                      | None \<Rightarrow>
                          (case map_err (report_signer cr policy now (PAE ReportPayloadType payload)) signatures of
                             Inl x \<Rightarrow> Inl x
                           | Inr signers \<Rightarrow>
                               (case decodeSignedReport payload of
                                  Inl x \<Rightarrow> Inl x
                                | Inr rep \<Rightarrow>
                                    (case seq_err [
                                       signed_report_error rep payload policy signers,
                                       VerifyEvidenceReport order rep policy,
                                       under CodeReportPolicy (profile_pin_error rep policy),
                                       anchor_error rep anchor skew,
                                       checkReportAge rep policy now anchor,
                                       recomputeSatisfaction rep] of
                                       Some x \<Rightarrow> Inl x
                                     | None \<Rightarrow>
                                         (case CheckReportLifecycle rep policy of
                                            Inl x \<Rightarrow> Inl x
                                          | Inr next_state \<Rightarrow> Inr (rep, next_state)))))))"

definition VerifySignedEvidenceReport ::
  "(string list \<Rightarrow> string list) \<Rightarrow> report_crypto \<Rightarrow> instant \<Rightarrow> Envelope option \<Rightarrow> ReportPolicy \<Rightarrow> report_error + Report \<times> SnapshotState" where
  "VerifySignedEvidenceReport order cr clock env policy = VerifySignedEvidenceReportAt order cr clock env None policy"

subsection \<open>Attested reports\<close>

record SignedReport =
  srEnvelope :: "Envelope option"
  srTimestamp :: "TimestampAssertion option"
  srAttestation :: "Attestation option"

text \<open>The attestation of a report: an error, or whether the policy counts it as verified.\<close>

definition check_attestation :: "SignedReport \<Rightarrow> content_digest \<Rightarrow> ReportPolicy \<Rightarrow> string + ReportPolicy" where
  "check_attestation sr digest policy =
     (case srAttestation sr of
        Some a \<Rightarrow>
          if atDigest a \<noteq> digest then Inl ''attestation digest does not match the signed payload''
          else
            (case ppAttestationVerifier policy of
               None \<Rightarrow> Inl ''no attestation verifier configured''
             | Some verify \<Rightarrow>
                 if verify a digest \<noteq> None then Inl ''attestation: %s''
                 else Inr (policy\<lparr>ppAttestationVerified := True\<rparr>))
      | None \<Rightarrow> if ppRequireAttestation policy then Inl ''report has no attestation'' else Inr policy)"

definition VerifySignedReport ::
  "(string list \<Rightarrow> string list) \<Rightarrow> report_crypto \<Rightarrow> instant \<Rightarrow> SignedReport option \<Rightarrow> ReportPolicy \<Rightarrow>
   report_error + Report \<times> SnapshotState" where
  "VerifySignedReport order cr clock sr policy =
     (case sr of
        None \<Rightarrow> Inl (ReportError CodeReportShape ''signed report has no envelope'')
      | Some s \<Rightarrow>
          if srEnvelope s = None then Inl (ReportError CodeReportShape ''signed report has no envelope'')
          else
            case EnvelopeDigest (srEnvelope s) of
              Inl e \<Rightarrow> Inl (ReportError CodeReportShape e)
            | Inr digest \<Rightarrow>
                (case check_attestation s digest policy of
                   Inl e \<Rightarrow> Inl (ReportError CodeReportPolicy e)
                 | Inr policy' \<Rightarrow> VerifySignedEvidenceReportAt order cr clock (srEnvelope s) (srTimestamp s) policy'))"

definition DecodeAttestationQuote :: "Attestation \<Rightarrow> string + string" where
  "DecodeAttestationQuote a =
     (if EncodedLen 1048576 < int (length (atQuote a)) then Inl ''attestation quote is too large'' else decodeBase64URL (atQuote a))"

subsection \<open>Signing\<close>

text \<open>The requirement digest is filled in before a report is signed.\<close>

definition with_requirement_digest :: "Report \<Rightarrow> report_error + Report" where
  "with_requirement_digest rep =
     (case (rpRequirement rep, rpProjectedRequirementDigest rep) of
        (Some req, None) \<Rightarrow>
          (case Requirement_Digest req of
             Inl e \<Rightarrow> Inl (ReportError CodeReportShape ''requirement digest: %s'')
           | Inr d \<Rightarrow> Inr (rep\<lparr>rpProjectedRequirementDigest := Some d\<rparr>))
      | _ \<Rightarrow> Inr rep)"

definition signed_envelope :: "report_crypto \<Rightarrow> Certificate \<Rightarrow> string \<Rightarrow> report_error + Envelope" where
  "signed_envelope cr cert payload =
     (case BuildSignedData cr (PAE ReportPayloadType payload) cert of
        Inl e \<Rightarrow> Inl (ReportError CodeReportSignature ''sign report: %s'')
      | Inr der \<Rightarrow> Inr \<lparr>evPayloadType = ReportPayloadType, evPayload = b64_EncodeToString payload,
          evSignatures = [\<lparr>sgKeyID = b64_EncodeToString (mustKeyHash cert), sgSig = b64_EncodeToString der\<rparr>]\<rparr>)"

text \<open>A nil argument is \<open>None\<close>; the result holds the report as it was sr.\<close>

definition SignEvidenceReport ::
  "(string list \<Rightarrow> string list) \<Rightarrow> report_crypto \<Rightarrow> Report option \<Rightarrow> Certificate option \<Rightarrow> report_error + Report \<times> Envelope" where
  "SignEvidenceReport order cr report signer =
     (case (report, signer) of
        (Some rep0, Some cert) \<Rightarrow>
          (case with_requirement_digest rep0 of
             Inl e \<Rightarrow> Inl e
           | Inr rep \<Rightarrow>
               (case rpVerifier rep of
                  None \<Rightarrow> Inl (ReportError CodeReportVerifier ''report has no verifier identity'')
                | Some v \<Rightarrow>
                    (case ValidateEvidenceReport order (Some rep) of
                       Some e \<Rightarrow> Inl e
                     | None \<Rightarrow>
                         (case certificateIdentity cr cert of
                            Inl e \<Rightarrow> Inl (ReportError CodeReportVerifier e)
                          | Inr aic \<Rightarrow>
                              if \<not> principalMatches (viPrincipal v) aic then
                                Inl (ReportError CodeReportVerifier ''signing certificate names %s:%s, report names %q'')
                              else
                                (case canonical_report rep of
                                   Inl e \<Rightarrow> Inl (ReportError CodeReportShape ''canonical report: %s'')
                                 | Inr payload \<Rightarrow> map_sum id (Pair rep) (signed_envelope cr cert payload))))))
      | _ \<Rightarrow> Inl (ReportError CodeReportSignature ''report, certificate and signer are required''))"

definition NewTimestampAssertion ::
  "report_crypto \<Rightarrow> Envelope option \<Rightarrow> ZTime \<Rightarrow> Certificate \<Rightarrow> report_error + TimestampAssertion" where
  "NewTimestampAssertion cr env t cert =
     (case EnvelopeDigest env of
        Inl e \<Rightarrow> Inl (PlainError e)
      | Inr digest \<Rightarrow>
          (case timestampBytes digest t of
             Inl e \<Rightarrow> Inl (PlainError ''canonical'')
           | Inr body \<Rightarrow>
               (case BuildSignedData cr body cert of
                  Inl e \<Rightarrow> Inl (ReportError CodeReportSignature ''sign timestamp: %s'')
                | Inr der \<Rightarrow> Inr \<lparr>taDigest = digest, taTime = utc (zInstant t), taToken = b64_EncodeToString der\<rparr>)))"

end
