(* ===== verification/Report_Laws.thy ===== *)
theory Report_Laws
  imports Report_Signed
begin

text \<open>
  What the checks of an evidence report establish: when the assessment of an inventory is complete, the lineage as a
  bijection between facts and evidence records, the accepted snapshots as a state that only advances, and the parts of a
  verified signed report.
\<close>

subsection \<open>The assessment of an inventory\<close>

lemma outcomes_at_add:
  "outcomes_at (add_outcome m r) k =
     (if k = resultKey r then List.insert (ncOutcome r) (outcomes_at m k) else outcomes_at m k)"
  by (auto simp: add_outcome_def outcomes_at_def update_conv')

lemma outcomes_fold:
  "set (outcomes_at (foldl add_outcome m rs) k) = set (outcomes_at m k) \<union> {ncOutcome r |r. r \<in> set rs \<and> resultKey r = k}"
proof (induction rs arbitrary: m)
  case (Cons r rs)
  show ?case by (auto simp: Cons.IH outcomes_at_add)
qed simp

lemma outcomes_unique:
  assumes "distinct (map resultKey rs)"
  shows "length (outcomes_at (foldl add_outcome [] rs) k) \<le> 1"
proof -
  have "length (outcomes_at (foldl add_outcome m rs) k) \<le> 1"
    if "length (outcomes_at m k) \<le> 1" "k \<in> set (map resultKey rs) \<longrightarrow> outcomes_at m k = []" for m
    using assms that
  proof (induction rs arbitrary: m)
    case (Cons r rs)
    have "length (outcomes_at (foldl add_outcome (add_outcome m r) rs) k) \<le> 1"
      by (rule Cons.IH) (use Cons.prems in \<open>auto simp: outcomes_at_add\<close>)
    then show ?case by simp
  qed simp
  then show ?thesis by (simp add: outcomes_at_def)
qed

lemma no_conflicts: "distinct (map resultKey rs) \<Longrightarrow> conflicts order (foldl add_outcome [] rs) = []"
  using outcomes_unique [of rs] by (simp add: conflicts_def not_less [symmetric])

lemma outcomes_empty: "outcomes_at (foldl add_outcome [] rs) k = [] \<longleftrightarrow> k \<notin> set (map resultKey rs)"
proof -
  have "set (outcomes_at (foldl add_outcome [] rs) k) = {} \<longleftrightarrow> k \<notin> set (map resultKey rs)"
    unfolding outcomes_fold by (auto simp: outcomes_at_def)
  then show ?thesis by simp
qed

lemma missing_none:
  "missing_expectations m seen ws = [] \<longleftrightarrow>
     distinct (map expectation_key ws) \<and> set (map expectation_key ws) \<inter> set seen = {} \<and>
     (\<forall>w \<in> set ws. outcomes_at m (expectation_key w) \<noteq> [])"
  by (induction ws arbitrary: seen) (auto simp: Let_def)

lemma normalize_from_None:
  "normalize_from seen rs = None \<longleftrightarrow>
     (\<forall>r \<in> set rs. Result_validate r = None) \<and> distinct (map resultKey rs) \<and> set (map resultKey rs) \<inter> set seen = {}"
  by (induction rs arbitrary: seen) (auto simp: fail_if_None)

text \<open>
  For results without two entries for one component the assessment is complete exactly when the inventory is not empty, has
  no repetition, and names exactly the reported components; it does not depend on the iteration order of the map.
\<close>

lemma assessment_exact:
  assumes "distinct (map resultKey rs)"
  shows "naComplete (AssessNativeChecks order ws rs) \<longleftrightarrow>
           ws \<noteq> [] \<and> distinct (map expectation_key ws) \<and> set (map expectation_key ws) = set (map resultKey rs)"
proof -
  have u: "filter (\<lambda>r. ws \<noteq> [] \<and> resultKey r \<notin> set (map expectation_key ws)) rs = [] \<longleftrightarrow>
      ws = [] \<or> set (map resultKey rs) \<subseteq> set (map expectation_key ws)"
    by (auto simp: filter_empty_conv)
  show ?thesis
    unfolding AssessNativeChecks_def Let_def NativeCheckAssessment.simps u no_conflicts [OF assms] missing_none outcomes_empty
    by auto
qed

lemma assessment_order:
  "distinct (map resultKey rs) \<Longrightarrow> AssessNativeChecks order ws rs = AssessNativeChecks order' ws rs"
  by (simp add: AssessNativeChecks_def no_conflicts)

subsection \<open>Lineage\<close>

text \<open>
  A record that names a fact names its index in the report, the fact there has the same key, and at least one check gates
  it; a record without a fact has no index; every check that a record names has a result over the artifact of the record.
\<close>

definition record_ok :: "ReportFact list \<Rightarrow> NativeCheckResult list \<Rightarrow> ProjectedEvidenceRecord \<Rightarrow> bool" where
  "record_ok facts results rec \<longleftrightarrow>
     (case (erFact rec, erFactIndex rec) of
        (None, None) \<Rightarrow> True
      | (Some f, Some i) \<Rightarrow> 0 \<le> i \<and> i < int (length facts) \<and> factKey (facts ! nat i) = factKey f \<and> erNativeCheckIDs rec \<noteq> []
      | _ \<Rightarrow> False) \<and>
     (\<forall>c \<in> set (erNativeCheckIDs rec). \<exists>r \<in> set results. ncCheckID r = c \<and> ncEvidenceDigest r = erArtifactDigest rec)"

definition fact_indices :: "ProjectedEvidenceRecord list \<Rightarrow> int list" where
  "fact_indices recs = List.map_filter erFactIndex recs"

lemma fact_indices_simps [simp]:
  "fact_indices [] = []"
  "fact_indices (rec # recs) = (case erFactIndex rec of None \<Rightarrow> fact_indices recs | Some i \<Rightarrow> i # fact_indices recs)"
  by (simp_all add: fact_indices_def split: option.split)

lemma lineage_step_None:
  "lineage_step facts results used rec = None \<longleftrightarrow>
     record_ok facts results rec \<and> (\<forall>i. erFactIndex rec = Some i \<longrightarrow> i \<notin> set used)"
  by (cases "erFact rec"; cases "erFactIndex rec")
    (auto simp: lineage_step_def record_ok_def checkIDsBoundToArtifact_def first_err_None fail_if_None)

lemma lineage_loop_Inr:
  "lineage_loop facts results used recs = Inr used' \<longleftrightarrow>
     (\<forall>rec \<in> set recs. record_ok facts results rec) \<and> distinct (fact_indices recs) \<and>
     set (fact_indices recs) \<inter> set used = {} \<and> used' = rev (fact_indices recs) @ used"
proof (induction recs arbitrary: used)
  case (Cons rec recs)
  show ?case
  proof (cases "lineage_step facts results used rec")
    case None
    then have ok: "record_ok facts results rec" "\<And>i. erFactIndex rec = Some i \<Longrightarrow> i \<notin> set used"
      by (simp_all add: lineage_step_None)
    show ?thesis
    proof (cases "erFactIndex rec")
      case None
      then have "erFact rec = None" using ok(1) by (auto simp: record_ok_def split: option.splits)
      with None ok \<open>lineage_step facts results used rec = None\<close> show ?thesis by (simp add: Cons.IH)
    next
      case (Some i)
      then obtain f where "erFact rec = Some f" using ok(1) by (auto simp: record_ok_def split: option.splits)
      with Some ok \<open>lineage_step facts results used rec = None\<close> show ?thesis by (auto simp: Cons.IH)
    qed
  next
    case (Some e)
    then have "\<not> (record_ok facts results rec \<and> (\<forall>i. erFactIndex rec = Some i \<longrightarrow> i \<notin> set used))"
      using lineage_step_None [of facts results used rec] by simp
    with Some show ?thesis by (auto split: option.splits)
  qed
qed auto

lemma unused_index_iff: "unused_index used xs \<longleftrightarrow> \<not> {0..<int (length xs)} \<subseteq> set used"
proof -
  have "{0..<int (length xs)} = int ` {0..<length xs}" by (simp add: image_int_atLeastLessThan)
  then show ?thesis by (auto simp: unused_index_def list_ex_iff)
qed

lemma indices_bounded:
  "\<forall>rec \<in> set recs. record_ok facts results rec \<Longrightarrow> set (fact_indices recs) \<subseteq> {0..<int (length facts)}"
proof (induction recs)
  case (Cons rec recs)
  then have "\<And>i. erFactIndex rec = Some i \<Longrightarrow> 0 \<le> i \<and> i < int (length facts)"
    by (auto simp: record_ok_def split: option.splits)
  with Cons show ?case by (cases "erFactIndex rec") auto
qed simp

lemma validateLineage_None:
  "validateLineage rep results = None \<longleftrightarrow>
     (\<forall>rec \<in> set (rpEvidenceRecords rep). record_ok (rpFacts rep) results rec) \<and>
     distinct (fact_indices (rpEvidenceRecords rep)) \<and>
     set (fact_indices (rpEvidenceRecords rep)) = {0..<int (length (rpFacts rep))}"
proof (cases "lineage_loop (rpFacts rep) results [] (rpEvidenceRecords rep)")
  case (Inl e)
  then have "\<not> ((\<forall>rec \<in> set (rpEvidenceRecords rep). record_ok (rpFacts rep) results rec) \<and>
      distinct (fact_indices (rpEvidenceRecords rep)))"
    using lineage_loop_Inr [of "rpFacts rep" results "[]" "rpEvidenceRecords rep"] by auto
  with Inl show ?thesis by (auto simp: validateLineage_def)
next
  case (Inr used)
  then have u: "\<forall>rec \<in> set (rpEvidenceRecords rep). record_ok (rpFacts rep) results rec"
      "distinct (fact_indices (rpEvidenceRecords rep))" "used = rev (fact_indices (rpEvidenceRecords rep))"
    unfolding lineage_loop_Inr by auto
  with Inr indices_bounded [OF u(1)] show ?thesis
    by (auto simp: validateLineage_def fail_if_None unused_index_iff)
qed

subsection \<open>Accepted snapshots only advance\<close>

locale advancing =
  fixes step :: "'s \<Rightarrow> 's \<Rightarrow> bool"
    and inv :: "'s \<Rightarrow> bool"
    and later :: "'s \<Rightarrow> 's \<Rightarrow> bool"
  assumes step_inv: "inv s \<Longrightarrow> step s t \<Longrightarrow> inv t"
    and step_later: "inv s \<Longrightarrow> step s t \<Longrightarrow> later s t"
    and later_refl: "later s s"
    and later_trans: "later s t \<Longrightarrow> later t u \<Longrightarrow> later s u"
begin

lemma steps_inv: "step\<^sup>*\<^sup>* s t \<Longrightarrow> inv s \<Longrightarrow> inv t"
  by (induction rule: rtranclp_induct) (auto intro: step_inv)

theorem steps_later: "step\<^sup>*\<^sup>* s t \<Longrightarrow> inv s \<Longrightarrow> later s t"
proof (induction rule: rtranclp_induct)
  case (step t u)
  then show ?case using step_later [OF steps_inv [OF step.hyps(1)]] by (blast intro: later_trans)
qed (rule later_refl)

end

definition snapshots_ok :: "SnapshotState \<Rightarrow> bool" where
  "snapshots_ok s \<longleftrightarrow>
     (\<forall>k b. map_of s k = Some b \<longrightarrow>
        binding_key b = k \<and> sbSource b \<noteq> [] \<and> 1 \<le> sbGeneration b \<and> content_Validate (sbDigest b) = None)"

definition ahead :: "SnapshotState \<Rightarrow> SnapshotState \<Rightarrow> bool" where
  "ahead s t \<longleftrightarrow>
     (\<forall>k b. map_of s k = Some b \<longrightarrow>
        (\<exists>c. map_of t k = Some c \<and> sbGeneration b \<le> sbGeneration c \<and>
             (sbGeneration b = sbGeneration c \<longrightarrow> sbDigest b = sbDigest c)))"

lemma ahead_refl: "ahead s s"
  by (simp add: ahead_def)

lemma ahead_trans: "ahead s t \<Longrightarrow> ahead t u \<Longrightarrow> ahead s u"
proof (unfold ahead_def, intro allI impI)
  fix k b assume *: "\<forall>k b. map_of s k = Some b \<longrightarrow> (\<exists>c. map_of t k = Some c \<and> sbGeneration b \<le> sbGeneration c \<and>
      (sbGeneration b = sbGeneration c \<longrightarrow> sbDigest b = sbDigest c))"
    "\<forall>k b. map_of t k = Some b \<longrightarrow> (\<exists>c. map_of u k = Some c \<and> sbGeneration b \<le> sbGeneration c \<and>
      (sbGeneration b = sbGeneration c \<longrightarrow> sbDigest b = sbDigest c))" "map_of s k = Some b"
  then obtain c where c: "map_of t k = Some c" "sbGeneration b \<le> sbGeneration c"
    "sbGeneration b = sbGeneration c \<longrightarrow> sbDigest b = sbDigest c" by blast
  with *(2) obtain d where "map_of u k = Some d" "sbGeneration c \<le> sbGeneration d"
    "sbGeneration c = sbGeneration d \<longrightarrow> sbDigest c = sbDigest d" by blast
  with c show "\<exists>c. map_of u k = Some c \<and> sbGeneration b \<le> sbGeneration c \<and>
      (sbGeneration b = sbGeneration c \<longrightarrow> sbDigest b = sbDigest c)" by auto
qed

lemma snapshotBinding_Some:
  "snapshotBinding r = Inr (Some b) \<Longrightarrow>
     sbSource b \<noteq> [] \<and> 1 \<le> sbGeneration b \<and> content_Validate (sbDigest b) = None"
  by (auto simp: snapshotBinding_def Let_def split: if_splits option.splits)

lemma snapshot_step_effect:
  assumes "snapshot_step s r = Inr t"
  shows "ahead s t \<and> (snapshots_ok s \<longrightarrow> snapshots_ok t)"
proof (cases "snapshotBinding r")
  case (Inl e)
  with assms show ?thesis by (simp add: snapshot_step_def)
next
  case (Inr d)
  show ?thesis
  proof (cases d)
    case None
    with Inr assms show ?thesis by (simp add: snapshot_step_def ahead_refl)
  next
    case (Some b)
    with Inr assms have t: "t = AList.update (binding_key b) b s"
      "\<And>p. map_of s (binding_key b) = Some p \<Longrightarrow> sbGeneration p \<le> sbGeneration b \<and>
         (sbGeneration p = sbGeneration b \<longrightarrow> sbDigest p = sbDigest b)"
      by (auto simp: snapshot_step_def split: option.splits if_splits)
    have "snapshots_ok t" if "snapshots_ok s"
      using that snapshotBinding_Some [of r b] Inr Some by (auto simp: snapshots_ok_def t(1) update_conv')
    moreover have "ahead s t" using t(2) by (auto simp: ahead_def t(1) update_conv')
    ultimately show ?thesis by blast
  qed
qed

lemma snapshot_loop_effect: "snapshot_loop s rs = Inr t \<Longrightarrow> ahead s t \<and> (snapshots_ok s \<longrightarrow> snapshots_ok t)"
proof (induction rs arbitrary: s)
  case (Cons r rs)
  then obtain u where u: "snapshot_step s r = Inr u" "snapshot_loop u rs = Inr t" by (auto split: sum.splits)
  then show ?case using Cons.IH [OF u(2)] snapshot_step_effect [OF u(1)] by (blast intro: ahead_trans)
qed (simp add: ahead_refl)

lemma lifecycle_Inr:
  assumes "CheckReportLifecycle rep policy = Inr t"
  shows "snapshot_loop (accepted_snapshots policy) (rpNativeCheckResults rep) = Inr t"
    and "\<forall>r \<in> set (rpNativeCheckResults rep). replay_error (ppReplayEvidence policy) (ppRequireReplay policy) r = None"
    and "ppSnapshotSources policy \<noteq> [] \<Longrightarrow>
           \<forall>r \<in> set (rpNativeCheckResults rep). ncStatusSnapshotSource r \<in> insert [] (set (ppSnapshotSources policy))"
  using assms
  by (auto simp: CheckReportLifecycle_def Snapshot_Check_def ValidateReplayEvidence_def first_err_None snapshot_source_error_def fail_if_None
      split: option.splits sum.splits if_splits)

text \<open>Restored states satisfy the invariant.\<close>

lemma state_loop_ok: "state_loop s bs = Inr t \<Longrightarrow> snapshots_ok s \<Longrightarrow> snapshots_ok t"
proof (induction bs arbitrary: s)
  case (Cons b bs)
  then have b: "snapshot_binding_error b = None" "state_loop (AList.update (binding_key b) b s) bs = Inr t"
    by (auto split: option.splits if_splits)
  have "snapshots_ok (AList.update (binding_key b) b s)"
    using Cons.prems(2) b(1) by (auto simp: snapshots_ok_def update_conv' snapshot_binding_error_def fail_if_None)
  with b(2) show ?case by (rule Cons.IH)
qed simp

lemma ParseSnapshotState_ok: "ParseSnapshotState raw = Inr s \<Longrightarrow> snapshots_ok s"
proof -
  assume "ParseSnapshotState raw = Inr s"
  then obtain bs where "state_loop [] bs = Inr s" by (auto simp: ParseSnapshotState_def split: if_splits option.splits)
  then show ?thesis by (rule state_loop_ok) (simp add: snapshots_ok_def)
qed

subsection \<open>Verified reports\<close>

lemma set_unionStrings [simp]: "set (unionStrings a b) = set a \<union> set b"
proof -
  have "set (foldl (\<lambda>out v. if v \<in> set out then out else v # out) acc xs) = set acc \<union> set xs" for acc xs :: "string list"
    by (induction xs arbitrary: acc) auto
  then show ?thesis by (simp add: unionStrings_def)
qed

text \<open>Every required check has a result, and the results are exactly those of the declared inventory.\<close>

definition checks_reported :: "Report \<Rightarrow> ReportPolicy \<Rightarrow> bool" where
  "checks_reported rep policy \<longleftrightarrow>
     (\<forall>c \<in> set (rpRequiredCheckIDs rep) \<union> set (ppRequiredCheckIDs policy). \<exists>r \<in> set (rpNativeCheckResults rep). ncCheckID r = c) \<and>
     (\<forall>p. rpProfile rep = Some p \<longrightarrow>
        (\<forall>c \<in> set (pfRequiredChecks p). \<exists>r \<in> set (rpNativeCheckResults rep). ncCheckID r = c) \<and>
        (pfExpectations p \<noteq> [] \<longrightarrow>
           set (map expectation_key (pfExpectations p)) = set (map resultKey (rpNativeCheckResults rep))))"

text \<open>An embedded profile is the pinned one, by its content.\<close>

definition profile_pinned :: "Report \<Rightarrow> ReportPolicy \<Rightarrow> bool" where
  "profile_pinned rep policy \<longleftrightarrow> (\<forall>p. rpProfile rep = Some p \<longrightarrow> Profile_Digest p = Inr (ppProfileDigest policy))"

text \<open>The requirement is the pinned one and the verdict is its evaluation over the facts at the appraisal instant.\<close>

definition verdict_recomputed :: "Report \<Rightarrow> ReportPolicy \<Rightarrow> bool" where
  "verdict_recomputed rep policy \<longleftrightarrow>
     (case rpRequirement rep of
        None \<Rightarrow> rpSatisfaction rep = None
      | Some req \<Rightarrow>
          (\<exists>d t res. ppRequirementDigest policy = Some d \<and> Requirement_Digest req = Inr d \<and> rpAppraisalTime rep = Some t \<and>
             EvaluateRequirement req (map core_fact (rpFacts rep)) \<lparr>Now = zInstant t, Initiator = [], Executor = []\<rparr> = Inr res \<and>
             rpSatisfaction rep = Some (view_of res)))"

text \<open>A signature over the payload by a key that is bound to the principal and whose certificate chains to the roots.\<close>

definition signed_for :: "report_crypto \<Rightarrow> ReportPolicy \<Rightarrow> instant \<Rightarrow> string \<Rightarrow> string \<Rightarrow> string \<Rightarrow> bool" where
  "signed_for cr policy now payload who sig \<longleftrightarrow>
     (\<exists>cert aic. VerifyDetached cr sig (PAE ReportPayloadType payload) = Inr (Some cert) \<and> ppRoots policy \<noteq> [] \<and>
        x509_Verify cr cert (root_pool (ppRoots policy)) now = None \<and> ParseAIC cr cert = Inr (Some aic) \<and>
        ValidateAIC cr aic = None \<and> KeyHash aic = Sum256 (RawSubjectPublicKeyInfo cert) \<and>
        (ppVerifierPrincipals policy = [] \<or> principalAllowed (ppVerifierPrincipals policy) aic) \<and>
        principalMatches who aic)"

lemma ValidateEvidenceReport_parts:
  assumes "ValidateEvidenceReport order (Some rep) = None"
  shows "\<And>p. rpProfile rep = Some p \<Longrightarrow> Profile_Validate p = None"
    and "\<forall>r \<in> set (rpNativeCheckResults rep). Result_validate r = None"
    and "distinct (map resultKey (rpNativeCheckResults rep))"
    and "\<And>p. rpProfile rep = Some p \<Longrightarrow> validateAssessment order rep p (rpNativeCheckResults rep) = None"
    and "requirement_digest_error rep = None"
    and "\<exists>t. rpAppraisalTime rep = Some t"
    and "rpEvidenceRecords rep \<noteq> [] \<or> rpProfile rep \<noteq> None \<Longrightarrow> validateLineage rep (rpNativeCheckResults rep) = None"
    and "validateDerivations rep = None"
  using assms
  by (auto simp: ValidateEvidenceReport_def Let_def normalize_from_None appraisal_error_def split: option.splits if_splits)

lemma assessment_reported:
  assumes "validateAssessment order rep p rs = None" "pfExpectations p \<noteq> []" "distinct (map resultKey rs)"
    "rpNativeCheckAssessment rep = Some a" "naComplete a"
  shows "set (map expectation_key (pfExpectations p)) = set (map resultKey rs)"
  using assms assessment_exact [OF assms(3), of order "pfExpectations p"]
  by (auto simp: validateAssessment_def fail_if_None)

lemma VerifyEvidenceReport_parts:
  assumes "VerifyEvidenceReport order rep policy = None"
  shows "ValidateEvidenceReport order (Some rep) = None"
    and "rpNativeChecksComplete rep = checks_complete rep policy"
    and "profile_pin_error rep policy = None"
    and "requirement_pin_error rep policy = None"
    and "rpNativeChecksComplete rep \<or> ppAllowIncomplete policy"
    and "rpProfile rep = Some p \<Longrightarrow> pfStatusModel p = StatusRequired \<Longrightarrow> rpNativeChecksComplete rep"
    and "assurance_error rep policy = None"
  using assms by (auto simp: VerifyEvidenceReport_def fail_if_None completeness_error_def)

lemma complete_reported:
  assumes "VerifyEvidenceReport order rep policy = None" "rpNativeChecksComplete rep"
  shows "checks_reported rep policy"
proof -
  note v = VerifyEvidenceReport_parts [OF assms(1)]
  have c: "checks_complete rep policy" using v(2) assms(2) by simp
  then have r: "\<forall>c \<in> set (required_ids rep policy). \<exists>r \<in> set (rpNativeCheckResults rep). ncCheckID r = c"
    by (simp add: checks_complete_def requiredChecksComplete_def)
  have "set (map expectation_key (pfExpectations p)) = set (map resultKey (rpNativeCheckResults rep))"
    if "rpProfile rep = Some p" "pfExpectations p \<noteq> []" for p
  proof -
    note p = that
    obtain a where "rpNativeCheckAssessment rep = Some a" "naComplete a"
      using c p by (auto simp: checks_complete_def split: option.splits)
    then show ?thesis
      using assessment_reported [OF _ p(2)] ValidateEvidenceReport_parts(3,4) [OF v(1)] p(1) by blast
  qed
  then show ?thesis using r
    by (auto simp: checks_reported_def required_ids_def Let_def split: option.splits)
qed

lemma pinned_profile:
  assumes "VerifyEvidenceReport order rep policy = None" "ppProfileDigest policy \<noteq> [] \<or> rpProfile rep = None"
  shows "profile_pinned rep policy"
proof (unfold profile_pinned_def, intro allI impI)
  fix p assume p: "rpProfile rep = Some p"
  note v = VerifyEvidenceReport_parts [OF assms(1)]
  have "pfProfileDigest p = ppProfileDigest policy" "ppProfileDigest policy \<noteq> []"
    using v(3) assms(2) p by (auto simp: profile_pin_error_def fail_if_None)
  moreover have "sealed_error p = None"
    using ValidateEvidenceReport_parts(1) [OF v(1) p] by (simp add: Profile_Validate_def)
  ultimately show "Profile_Digest p = Inr (ppProfileDigest policy)"
    by (auto simp: sealed_error_def fail_if_None split: sum.splits)
qed

lemma recomputed:
  assumes "VerifyEvidenceReport order rep policy = None" "recomputeSatisfaction rep = None"
    "rpRequirement rep \<noteq> None \<longrightarrow> ppRequirementDigest policy \<noteq> None"
  shows "verdict_recomputed rep policy"
proof (cases "rpRequirement rep")
  case None
  then show ?thesis using assms(2) by (auto simp: verdict_recomputed_def recomputeSatisfaction_def split: option.splits)
next
  case (Some req)
  note v = VerifyEvidenceReport_parts [OF assms(1)]
  obtain t where t: "rpAppraisalTime rep = Some t" using ValidateEvidenceReport_parts(6) [OF v(1)] by blast
  obtain d where d: "ppRequirementDigest policy = Some d" using assms(3) Some by auto
  then have "rpProjectedRequirementDigest rep = Some d"
    using v(4) by (auto simp: requirement_pin_error_def fail_if_None split: option.splits)
  then have "Requirement_Digest req = Inr d"
    using ValidateEvidenceReport_parts(5) [OF v(1)] Some by (auto simp: requirement_digest_error_def fail_if_None split: sum.splits)
  moreover obtain res where "EvaluateRequirement req (map core_fact (rpFacts rep))
      \<lparr>Now = zInstant t, Initiator = [], Executor = []\<rparr> = Inr res" "rpSatisfaction rep = Some (view_of res)"
    using assms(2) Some t by (auto simp: recomputeSatisfaction_def fail_if_None split: option.splits sum.splits)
  ultimately show ?thesis using Some t d by (auto simp: verdict_recomputed_def)
qed

lemma report_signer_Inr:
  assumes "report_signer cr policy now (PAE ReportPayloadType payload) sig = Inr aic" "principalMatches who aic"
  shows "signed_for cr policy now payload who sig"
proof -
  obtain cert where c: "VerifyDetached cr sig (PAE ReportPayloadType payload) = Inr (Some cert)"
    "verifyReportCertificate cr cert (ppRoots policy) now = None" "certificateIdentity cr cert = Inr aic"
    "ppVerifierPrincipals policy = [] \<or> principalAllowed (ppVerifierPrincipals policy) aic"
    using assms(1) by (auto simp: report_signer_def split: sum.splits option.splits if_splits)
  have "ParseAIC cr cert = Inr (Some aic)" "ValidateAIC cr aic = None" "KeyHash aic = Sum256 (RawSubjectPublicKeyInfo cert)"
    using c(3) by (auto simp: certificateIdentity_def mustKeyHash_def sha256Bytes_def split: sum.splits option.splits if_splits)
  then show ?thesis using c assms(2) by (auto simp: signed_for_def verifyReportCertificate_def fail_if_None)
qed

text \<open>The instant a report is verified at.\<close>

definition verification_instant :: "instant \<Rightarrow> ReportPolicy \<Rightarrow> instant" where
  "verification_instant clock policy = (if ppNow policy = zero_time then clock else ppNow policy)"

lemma signed_report_checks:
  assumes "VerifySignedEvidenceReportAt order cr clock env assertion policy = Inr (rep, t)"
  obtains payload sigs signers v where
    "EnvelopeBytes env = Inr (payload, sigs)" "sigs \<noteq> []"
    "map_err (report_signer cr policy (verification_instant clock policy) (PAE ReportPayloadType payload)) sigs = Inr signers"
    "signed_report_error rep payload policy signers = None" "rpVerifier rep = Some v"
    "VerifyEvidenceReport order rep policy = None"
    "checkReportAge rep policy (verification_instant clock policy)
       (case assertion of None \<Rightarrow> zero_time | Some a \<Rightarrow> zInstant (taTime a)) = None"
    "recomputeSatisfaction rep = None" "CheckReportLifecycle rep policy = Inr t"
proof -
  obtain payload sigs signers where
    "EnvelopeBytes env = Inr (payload, sigs)" "sigs \<noteq> []"
    "map_err (report_signer cr policy (verification_instant clock policy) (PAE ReportPayloadType payload)) sigs = Inr signers"
    and r: "signed_report_error rep payload policy signers = None"
    "VerifyEvidenceReport order rep policy = None"
    "checkReportAge rep policy (verification_instant clock policy)
       (case assertion of None \<Rightarrow> zero_time | Some a \<Rightarrow> zInstant (taTime a)) = None"
    "recomputeSatisfaction rep = None" "CheckReportLifecycle rep policy = Inr t"
    using assms unfolding VerifySignedEvidenceReportAt_def verification_instant_def Let_def
    by (auto split: option.splits if_splits sum.splits)
  moreover obtain v where "rpVerifier rep = Some v"
    using r(1) by (auto simp: signed_report_error_def fail_if_None)
  ultimately show ?thesis using that by blast
qed

lemma signers_signed:
  "map_err (report_signer cr policy now (PAE ReportPayloadType payload)) sigs = Inr signers \<Longrightarrow>
     \<forall>aic \<in> set signers. principalMatches who aic \<Longrightarrow> \<forall>sig \<in> set sigs. signed_for cr policy now payload who sig"
proof (induction sigs arbitrary: signers)
  case (Cons sig sigs)
  then obtain aic rest where "report_signer cr policy now (PAE ReportPayloadType payload) sig = Inr aic"
    "map_err (report_signer cr policy now (PAE ReportPayloadType payload)) sigs = Inr rest" "signers = aic # rest"
    by (auto split: sum.splits)
  with Cons show ?case by (auto intro: report_signer_Inr)
qed simp

text \<open>An attestation of the envelope that the deployer's verifier accepts.\<close>

definition attested :: "SignedReport \<Rightarrow> ReportPolicy \<Rightarrow> bool" where
  "attested sr policy \<longleftrightarrow>
     (\<exists>a verify. srAttestation sr = Some a \<and> EnvelopeDigest (srEnvelope sr) = Inr (atDigest a) \<and>
        ppAttestationVerifier policy = Some verify \<and> verify a (atDigest a) = None)"

text \<open>The flag that records a verified attestation is all that \<open>VerifySignedReport\<close> changes in the policy.\<close>

lemma same_policy:
  assumes "policy' = policy\<lparr>ppAttestationVerified := b\<rparr>"
  shows "signed_for cr policy' now payload who sig = signed_for cr policy now payload who sig"
    and "verification_instant clock policy' = verification_instant clock policy"
    and "profile_pinned rep policy' = profile_pinned rep policy"
    and "verdict_recomputed rep policy' = verdict_recomputed rep policy"
    and "checks_reported rep policy' = checks_reported rep policy"
    and "ppAllowIncomplete policy' = ppAllowIncomplete policy"
    and "ppMaxClockSkew policy' = ppMaxClockSkew policy" and "ppMaxAge policy' = ppMaxAge policy"
  by (simp_all add: assms signed_for_def verification_instant_def profile_pinned_def verdict_recomputed_def checks_reported_def
      split: option.split)

lemma report_age:
  assumes "checkReportAge rep policy now anchor = None" "rpAppraisalTime rep = Some t"
  shows "zInstant t \<le> now + (if 0 < ppMaxClockSkew policy then ppMaxClockSkew policy else reportClockSkew) \<and>
     (0 < ppMaxAge policy \<and> anchor = zero_time \<longrightarrow> Sub now (zInstant t) \<le> ppMaxAge policy)"
  using assms by (auto simp: checkReportAge_def Let_def fail_if_None not_less)

subsection \<open>Facts, records and derivations\<close>

lemma fact_indices_mem: "i \<in> set (fact_indices recs) \<longleftrightarrow> (\<exists>rec \<in> set recs. erFactIndex rec = Some i)"
  by (induction recs) (auto split: option.splits)

lemma fact_indices_unique:
  "distinct (fact_indices recs) \<Longrightarrow> rec \<in> set recs \<Longrightarrow> rec' \<in> set recs \<Longrightarrow> erFactIndex rec = Some i \<Longrightarrow>
     erFactIndex rec' = Some i \<Longrightarrow> rec = rec'"
  by (induction recs) (auto simp: fact_indices_mem split: option.splits)

lemma derivation_loop_Inr:
  "derivation_loop rep seen ds = Inr used \<Longrightarrow>
     set used = set seen \<union> dvFactIndex ` set ds \<and> (\<forall>d \<in> set ds. \<exists>seen'. derivation_error rep seen' d = None)"
  by (induction ds arbitrary: seen) (fastforce split: option.splits)+

lemma derivationMatchesRecord_None:
  assumes "derivationMatchesRecord recs d = None"
  obtains rec where "rec \<in> set recs" "erFactIndex rec = Some (dvFactIndex d)" "erArtifactDigest rec = dvArtifactDigest d"
  using assms by (induction recs) (auto simp: fail_if_None split: if_splits)

lemma derivation_bound:
  assumes "validateDerivations rep = None" "rpDerivations rep \<noteq> []" "i < length (rpFacts rep)"
  obtains d rec where "d \<in> set (rpDerivations rep)" "dvFactIndex d = int i"
    "FactBindingDigest (rpFacts rep ! i) (dvArtifactDigest d) = Inr (dvFactDigest d)"
    "rec \<in> set (rpEvidenceRecords rep)" "erFactIndex rec = Some (int i)" "erArtifactDigest rec = dvArtifactDigest d"
proof -
  obtain used where u: "derivation_loop rep [] (rpDerivations rep) = Inr used" "\<not> unused_index used (rpFacts rep)"
    using assms(1,2) by (auto simp: validateDerivations_def fail_if_None split: sum.splits)
  then have "int i \<in> dvFactIndex ` set (rpDerivations rep)"
    using derivation_loop_Inr [OF u(1)] assms(3) by (auto simp: unused_index_iff)
  then obtain d where d: "d \<in> set (rpDerivations rep)" "dvFactIndex d = int i" by auto
  then obtain seen where "derivation_error rep seen d = None" using derivation_loop_Inr [OF u(1)] by blast
  then have e: "FactBindingDigest (rpFacts rep ! i) (dvArtifactDigest d) = Inr (dvFactDigest d)"
    "derivationMatchesRecord (rpEvidenceRecords rep) d = None"
    using d(2) by (auto simp: derivation_error_def fail_if_None split: sum.splits)
  obtain rec where "rec \<in> set (rpEvidenceRecords rep)" "erFactIndex rec = Some (dvFactIndex d)"
    "erArtifactDigest rec = dvArtifactDigest d" by (rule derivationMatchesRecord_None [OF e(2)])
  then show ?thesis using that d e(1) by metis
qed
end
