(* ===== verification/Signed_Reports.thy ===== *)
theory Signed_Reports
  imports Report_Laws Catalog_Example
begin

text \<open>
  The properties of signed evidence reports: what a verified report has passed, the accepted snapshots over any sequence of
  verified reports, and the lineage of facts; with a sample report over one native check.
\<close>

subsection \<open>The sample\<close>

definition content_of :: "char \<Rightarrow> content_digest" where
  "content_of c = ''sha-256:'' @ replicate 64 c"

definition sample_instant :: instant where
  "sample_instant = 1767225600000000000"

definition sample_check :: NativeCheckResult where
  "sample_check = \<lparr>ncCheckID = ''status:token'', ncComponentType = ''token'', ncEvidenceDigest = content_of (CHR ''a''),
     ncOutcome = NativeCheckSuccess, ncReason = [], ncVerifier = ''principal:alice'',
     ncVerifierProfileDigest = content_of (CHR ''b''), ncTrustSnapshotDigest = content_of (CHR ''c''),
     ncStatusSnapshotDigest = content_of (CHR ''d''), ncStatusSnapshotSource = ''ca'', ncStatusSnapshotGeneration = 1,
     ncVerificationTime = utc sample_instant,
     ncFreshnessDecision = Some \<lparr>fdVerdict = ''fresh'', fdCheckedAt = None, fdValidUntil = None, fdSnapshotGeneration = 0\<rparr>,
     ncReplayDigest = []\<rparr>"

definition sample_report :: Report where
  "sample_report = zero_Report\<lparr>rpVersion := ReportVersion, rpAssurance := ''E1'', rpProjectorID := ''sample'',
     rpVerifier := Some \<lparr>viPrincipal = ''principal:alice'', viVerifierProfileDigest = content_of (CHR ''b'')\<rparr>,
     rpAppraisalTime := Some (utc sample_instant), rpNativeCheckResults := [sample_check], rpNativeChecksComplete := True,
     rpRequiredCheckIDs := [''status:token'']\<rparr>"

definition digest_text :: "char \<Rightarrow> string" where
  "digest_text c = quoted (content_of c)"

definition sample_payload :: string where
  "sample_payload = object_text
     [(''@version'', quoted ReportVersion), (''appraisalTime'', quoted ''2026-01-01T00:00:00Z''), (''assurance'', quoted ''E1''),
      (''nativeCheckResults'', list_text [object_text
         [(''checkId'', quoted ''status:token''), (''componentType'', quoted ''token''),
          (''evidenceDigest'', digest_text (CHR ''a'')), (''freshnessDecision'', object_text [(''verdict'', quoted ''fresh'')]),
          (''outcome'', quoted ''success''), (''statusSnapshotDigest'', digest_text (CHR ''d'')),
          (''statusSnapshotGeneration'', ''1''), (''statusSnapshotSource'', quoted ''ca''),
          (''trustSnapshotDigest'', digest_text (CHR ''c'')), (''verificationTime'', quoted ''2026-01-01T00:00:00Z''),
          (''verifier'', quoted ''principal:alice''), (''verifierProfileDigest'', digest_text (CHR ''b''))]]),
      (''nativeChecksComplete'', ''true''), (''projectorId'', quoted ''sample''),
      (''requiredCheckIds'', list_text [quoted ''status:token'']),
      (''verifier'', object_text [(''principal'', quoted ''principal:alice''), (''verifierProfileDigest'', digest_text (CHR ''b''))])]"

definition sample_binding :: SnapshotBinding where
  "sample_binding = \<lparr>sbSource = ''ca'', sbComponentType = ''token'', sbEvidenceDigest = content_of (CHR ''a''), sbGeneration = 1,
     sbDigest = content_of (CHR ''d'')\<rparr>"

definition report_policy :: ReportPolicy where
  "report_policy = \<lparr>ppRequireProfile = False, ppRequireComplete = False, ppAllowIncomplete = False, ppRoots = [Some sample_cert],
     ppVerifierPrincipals = [''principal:alice''], ppProfileDigest = [], ppRequirementDigest = None,
     ppVerifierProfileDigests = [content_of (CHR ''b'')], ppSnapshotSources = [''ca''], ppReasonRegistries = [],
     ppRequireDerivations = False, ppArtifacts = [], ppRequireArtifacts = False, ppAttestationVerifier = None,
     ppRequireAttestation = False, ppMinAssurance = ''E1'', ppRequiredCheckIDs = [''status:token''],
     ppAttestationVerified = False, ppMaxAge = 3600000000000, ppMaxClockSkew = 0, ppTimestampRoots = [],
     ppRequireTimestamp = False, ppTimestampClockSkew = 0, ppNow = sample_instant + 60000000000, ppSnapshots = Some [],
     ppRequireSnapshotBinding = True, ppReplayEvidence = [], ppRequireReplay = False\<rparr>"

definition sample_report_crypto :: report_crypto where
  "sample_report_crypto = crypto.extend sample_crypto (report_crypto.fields (\<lambda>cert pool now. None) (\<lambda>cert. (0, 0)) (\<lambda>body cert. Inr ''signature''))"

text \<open>The canonical form of the sample and its decoding.\<close>

lemma writeCanonicalString_plain: "plain_text s \<Longrightarrow> writeCanonicalString s = quoted s"
proof -
  assume s: "plain_text s"
  have "escape_char c = [c]" if "c \<in> set s" for c
  proof -
    have "32 \<le> (of_char c :: int)" "c \<noteq> CHR 0x22" "c \<noteq> CHR 0x5C" using s that by (auto simp: plain_text_def list_all_iff)
    moreover from this(2,3) have "(of_char c :: int) \<noteq> of_char (CHR 0x22)" "(of_char c :: int) \<noteq> of_char (CHR 0x5C)"
      by (simp_all only: of_char_eq_iff not_False_eq_True)
    ultimately show ?thesis by (simp add: escape_char_def)
  qed
  then have "concat (map escape_char s) = s" by (induction s) auto
  then show ?thesis by (simp add: writeCanonicalString_def quoted_def)
qed

lemma sample_strings: "list_all plain_text
    [''@version'', ''appraisalTime'', ''assurance'', ''nativeCheckResults'', ''checkId'', ''componentType'', ''evidenceDigest'',
     ''freshnessDecision'', ''verdict'', ''outcome'', ''statusSnapshotDigest'', ''statusSnapshotGeneration'',
     ''statusSnapshotSource'', ''trustSnapshotDigest'', ''verificationTime'', ''verifier'', ''verifierProfileDigest'',
     ''nativeChecksComplete'', ''projectorId'', ''requiredCheckIds'', ''principal'', ReportVersion, ''2026-01-01T00:00:00Z'', ''E1'',
     ''status:token'', ''token'', ''fresh'', ''success'', ''ca'', ''principal:alice'', ''sample'', content_of (CHR ''a''),
     content_of (CHR ''b''), content_of (CHR ''c''), content_of (CHR ''d'')]"
  by code_simp

lemma sample_time_text: "ztime_text True (utc sample_instant) = ''2026-01-01T00:00:00Z''"
  by code_simp

lemma sample_one: "writeCanonicalJSON (JInt CInt64 1) = ''1''"
  by code_simp

lemma utf16_plain: "plain_text s \<Longrightarrow> utf16 s = map of_char s"
proof -
  assume s: "plain_text s"
  have b: "\<forall>b \<in> set (bytes s). b < 128" using s by (simp add: plain_text_def bytes_def list_all_iff)
  then have "runes (bytes s) = map (\<lambda>b. (b, 1)) (bytes s)" by (intro runes_ascii) (simp add: list_all_iff)
  moreover have "concat (map utf16_units bs) = bs" if "\<forall>b \<in> set bs. b < 128" for bs
    using that by (induction bs) (auto simp: utf16_units_def)
  then have "concat (map utf16_units (bytes s)) = bytes s" using b by blast
  ultimately show ?thesis by (simp add: utf16_def comp_def) (simp add: bytes_def)
qed

lemma sample_order:
  "sortKeysUTF16 [(''@version'', a), (''assurance'', b), (''projectorId'', c), (''verifier'', d), (''appraisalTime'', e),
     (''nativeCheckResults'', f), (''nativeChecksComplete'', g), (''requiredCheckIds'', h)] =
   [(''@version'', a), (''appraisalTime'', e), (''assurance'', b), (''nativeCheckResults'', f), (''nativeChecksComplete'', g),
     (''projectorId'', c), (''requiredCheckIds'', h), (''verifier'', d)]"
  using sample_strings by (simp add: sortKeysUTF16_def utf16_plain)

lemma check_order:
  "sortKeysUTF16 [(''checkId'', a), (''componentType'', b), (''evidenceDigest'', c), (''outcome'', d), (''verifier'', e),
     (''verifierProfileDigest'', f), (''trustSnapshotDigest'', g), (''statusSnapshotDigest'', h), (''statusSnapshotSource'', i),
     (''statusSnapshotGeneration'', j), (''verificationTime'', k), (''freshnessDecision'', l)] =
   [(''checkId'', a), (''componentType'', b), (''evidenceDigest'', c), (''freshnessDecision'', l), (''outcome'', d),
     (''statusSnapshotDigest'', h), (''statusSnapshotGeneration'', j), (''statusSnapshotSource'', i), (''trustSnapshotDigest'', g),
     (''verificationTime'', k), (''verifier'', e), (''verifierProfileDigest'', f)]"
  using sample_strings by (simp add: sortKeysUTF16_def utf16_plain)

lemma small_order:
  "sortKeysUTF16 [(''principal'', a), (''verifierProfileDigest'', b)] = [(''principal'', a), (''verifierProfileDigest'', b)]"
  "sortKeysUTF16 [(''verdict'', a)] = [(''verdict'', a)]"
  using sample_strings by (simp_all add: sortKeysUTF16_def utf16_plain)

lemma content_nonempty [simp]: "content_of c \<noteq> []" by (simp add: content_of_def)

lemmas report_forms = json_of_Report_def json_of_Result_def json_of_Freshness_def json_of_Verifier_def struct_json_def
  sample_report_def sample_check_def zero_Report_def NativeCheckSuccess_def

lemma sample_json: "json_of_Report sample_report = JObj
     [(''@version'', JStr ReportVersion), (''assurance'', JStr ''E1''), (''projectorId'', JStr ''sample''),
      (''verifier'', JObj [(''principal'', JStr ''principal:alice''), (''verifierProfileDigest'', JStr (content_of (CHR ''b'')))]),
      (''appraisalTime'', JStr ''2026-01-01T00:00:00Z''),
      (''nativeCheckResults'', JArr [JObj
         [(''checkId'', JStr ''status:token''), (''componentType'', JStr ''token''),
          (''evidenceDigest'', JStr (content_of (CHR ''a''))), (''outcome'', JStr ''success''),
          (''verifier'', JStr ''principal:alice''), (''verifierProfileDigest'', JStr (content_of (CHR ''b''))),
          (''trustSnapshotDigest'', JStr (content_of (CHR ''c''))), (''statusSnapshotDigest'', JStr (content_of (CHR ''d''))),
          (''statusSnapshotSource'', JStr ''ca''), (''statusSnapshotGeneration'', JInt CInt64 1),
          (''verificationTime'', JStr ''2026-01-01T00:00:00Z''),
          (''freshnessDecision'', JObj [(''verdict'', JStr ''fresh'')])]]),
      (''nativeChecksComplete'', JBool True), (''requiredCheckIds'', JArr [JStr ''status:token''])]"
  by (simp add: report_forms sample_time_text)

lemma sample_canonical: "canonical_report sample_report = Inr sample_payload"
proof -
  have "list_all ztime_ok (report_times sample_report)" by code_simp
  moreover have "canon_ok (json_of_Report sample_report)"
    using sample_strings by (simp add: sample_json canon_ok_def validate_strings_simps checkCanonicalString_plain)
  moreover have "writeCanonicalJSON (json_of_Report sample_report) = sample_payload"
    using sample_strings
    by (simp add: sample_json sample_order check_order small_order writeCanonicalString_plain sample_one sample_payload_def
        object_text_def list_text_def digest_text_def del: writeCanonicalJSON.simps(5))
  ultimately show ?thesis by (simp add: canonical_report_def CanonicalJSON_Inr)
qed

lemma tokens_true: "tokens (CHR ''t'' # CHR ''r'' # CHR ''u'' # CHR ''e'' # CHR '','' # rest) = TTrue # TComma # tokens rest"
  by (simp add: json_space_def next_token_def punct_def word_def tokens_punct)

lemma sample_parsed: "parse_json sample_payload = Some (XObj
     [(''@version'', XStr ReportVersion), (''appraisalTime'', XStr ''2026-01-01T00:00:00Z''), (''assurance'', XStr ''E1''),
      (''nativeCheckResults'', XArr [XObj
         [(''checkId'', XStr ''status:token''), (''componentType'', XStr ''token''),
          (''evidenceDigest'', XStr (content_of (CHR ''a''))), (''freshnessDecision'', XObj [(''verdict'', XStr ''fresh'')]),
          (''outcome'', XStr ''success''), (''statusSnapshotDigest'', XStr (content_of (CHR ''d''))),
          (''statusSnapshotGeneration'', XNum ''1''), (''statusSnapshotSource'', XStr ''ca''),
          (''trustSnapshotDigest'', XStr (content_of (CHR ''c''))), (''verificationTime'', XStr ''2026-01-01T00:00:00Z''),
          (''verifier'', XStr ''principal:alice''), (''verifierProfileDigest'', XStr (content_of (CHR ''b'')))]]),
      (''nativeChecksComplete'', XBool True), (''projectorId'', XStr ''sample''),
      (''requiredCheckIds'', XArr [XStr ''status:token'']),
      (''verifier'', XObj [(''principal'', XStr ''principal:alice''), (''verifierProfileDigest'', XStr (content_of (CHR ''b'')))])])"
  using sample_strings
  by (simp add: parse_json_def sample_payload_def digest_text_def printed list_text_def tokens_brack tokens_true del: tokens.simps(2))

lemma sample_time_read: "strict_rfc3339 ''2026-01-01T00:00:00Z'' = Some (utc sample_instant)"
  by code_simp

lemma sample_decoded: "decodeSignedReport sample_payload = Inr sample_report"
proof -
  have len: "int (length sample_payload) \<le> MaxReportBytes"
    by (simp add: sample_payload_def object_text_def list_text_def quoted_def digest_text_def content_of_def ReportVersion_def MaxReportBytes_def)
  have "closed_value Report_fields zero_Report sample_payload = Some sample_report"
    by (simp add: closed_value_def sample_parsed Check_def decode_struct_def Report_fields_def Result_fields_def Freshness_fields_def
        Verifier_fields_def find_field_def str_field_def int_field_def bool_field_def list_field_def string_list_field_def time_field_def
        time_ptr_field_def struct_ptr_field_def sample_time_read atoi_one sample_report_def sample_check_def zero_Report_def
        zero_Result_def zero_Freshness_def NativeCheckSuccess_def)
  with len show ?thesis by (simp add: decodeSignedReport_def)
qed

lemma sample_gate: "VerifyEvidenceReport (\<lambda>ks. ks) sample_report report_policy = None"
  by code_simp

lemma sample_lifecycle: "CheckReportLifecycle sample_report report_policy = Inr [(binding_key sample_binding, sample_binding)]"
  by code_simp

subsection \<open>The sample is verified\<close>

definition sample_envelope :: Envelope where
  "sample_envelope = \<lparr>evPayloadType = ReportPayloadType, evPayload = b64_EncodeToString sample_payload,
     evSignatures = [\<lparr>sgKeyID = [], sgSig = b64_EncodeToString ''signature''\<rparr>]\<rparr>"

definition sample_signed_report :: SignedReport where
  "sample_signed_report = \<lparr>srEnvelope = Some sample_envelope, srTimestamp = None, srAttestation = None\<rparr>"

definition sample_state :: SnapshotState where
  "sample_state = [(binding_key sample_binding, sample_binding)]"

lemma decode_encoded [simp]: "decodeBase64URL (b64_EncodeToString raw) = Inr raw"
  by (simp add: decodeBase64URL_def b64_roundtrip)

lemma sample_bytes: "EnvelopeBytes (Some sample_envelope) = Inr (sample_payload, [''signature''])"
proof -
  have "int (length sample_payload) \<le> MaxReportBytes"
    by (simp add: sample_payload_def object_text_def list_text_def quoted_def digest_text_def content_of_def ReportVersion_def MaxReportBytes_def)
  then show ?thesis
    by (simp add: EnvelopeBytes_def sample_envelope_def signature_bytes_def MaxEnvelopeSignatures_def MaxSignatureBytes_def)
qed

lemma sample_crypto_calls [simp]:
  "VerifyDetached sample_report_crypto ''signature'' raw = Inr (Some sample_cert)"
  "x509_Verify sample_report_crypto cert [sample_cert] now = None" "ParseAIC sample_report_crypto cert = Inr (Some sample_aic)"
  "ValidateAIC sample_report_crypto aic = None"
  by (simp_all add: sample_report_crypto_def crypto.defs report_crypto.defs sample_crypto_def)

lemma sample_matches: "principalMatches ''principal:alice'' sample_aic"
proof -
  have "trim_prefix ''principal:'' ''principal:alice'' = ''alice''" by code_simp
  then show ?thesis by (simp add: principalMatches_def names_principal_def sample_aic_def)
qed

lemma sample_identity: "certificateIdentity sample_report_crypto sample_cert = Inr sample_aic"
proof -
  have "Sum256 ''abc'' \<noteq> []" using Sum256_length [of "''abc''"] by (metis list.size(3) zero_neq_numeral)
  then show ?thesis
    by (simp add: certificateIdentity_def sample_aic_def sample_cert_def mustKeyHash_def sha256Bytes_def key_hash_nonzero)
qed

lemma sample_signer:
  "ppRoots policy = [Some sample_cert] \<Longrightarrow> ppVerifierPrincipals policy = [''principal:alice''] \<Longrightarrow>
     report_signer sample_report_crypto policy now pae ''signature'' = Inr sample_aic"
  by (simp add: report_signer_def verifyReportCertificate_def root_pool_def map_filter_def sample_identity principalAllowed_def
      sample_matches seq_err.simps)

lemma sample_signed_checks:
  "ppRequirementDigest policy = None \<Longrightarrow> signed_report_error sample_report sample_payload policy [sample_aic] = None"
  by (simp add: signed_report_error_def sample_canonical) (simp add: sample_report_def zero_Report_def sample_matches)

lemma sample_verdict: "recomputeSatisfaction sample_report = None"
  "anchor_error sample_report zero_time reportClockSkew = None"
  by code_simp+

text \<open>The sample is accepted into the empty state and again into the state it leads to.\<close>

lemma sample_report_accepted:
  assumes "s = [] \<or> s = sample_state"
  shows "VerifySignedReport (\<lambda>ks. ks) sample_report_crypto clock (Some sample_signed_report) (report_policy\<lparr>ppSnapshots := Some s\<rparr>) =
           Inr (sample_report, sample_state)"
proof -
  let ?p = "report_policy\<lparr>ppSnapshots := Some s\<rparr>"
  have nt: "sample_instant + 60000000000 \<noteq> zero_time" by code_simp
  have g: "VerifyEvidenceReport (\<lambda>ks. ks) sample_report (report_policy\<lparr>ppSnapshots := Some []\<rparr>) = None"
    "VerifyEvidenceReport (\<lambda>ks. ks) sample_report (report_policy\<lparr>ppSnapshots := Some sample_state\<rparr>) = None"
    "CheckReportLifecycle sample_report (report_policy\<lparr>ppSnapshots := Some []\<rparr>) = Inr sample_state"
    "CheckReportLifecycle sample_report (report_policy\<lparr>ppSnapshots := Some sample_state\<rparr>) = Inr sample_state"
    by code_simp+
  have "checkReportAge sample_report (report_policy\<lparr>ppSnapshots := Some []\<rparr>) (sample_instant + 60000000000) zero_time = None"
    "checkReportAge sample_report (report_policy\<lparr>ppSnapshots := Some sample_state\<rparr>) (sample_instant + 60000000000) zero_time = None"
    "profile_pin_error sample_report (report_policy\<lparr>ppSnapshots := Some []\<rparr>) = None"
    "profile_pin_error sample_report (report_policy\<lparr>ppSnapshots := Some sample_state\<rparr>) = None"
    by code_simp+
  then have a: "checkReportAge sample_report ?p (sample_instant + 60000000000) zero_time = None"
    "profile_pin_error sample_report ?p = None"
    using assms by auto
  have p: "ppRoots ?p = [Some sample_cert]" "ppVerifierPrincipals ?p = [''principal:alice'']" "ppRequirementDigest ?p = None"
    "ppNow ?p = sample_instant + 60000000000" "ppRequireTimestamp ?p = False" "ppTimestampClockSkew ?p = 0"
    "ppRequireAttestation ?p = False"
    by (simp_all add: report_policy_def)
  have pay: "sample_payload \<noteq> []" by (simp add: sample_payload_def object_text_def)
  have e: "VerifyEvidenceReport (\<lambda>ks. ks) sample_report ?p = None" "CheckReportLifecycle sample_report ?p = Inr sample_state"
    using assms g by auto
  have "VerifySignedEvidenceReportAt (\<lambda>ks. ks) sample_report_crypto clock (Some sample_envelope) None ?p =
      Inr (sample_report, sample_state)"
    unfolding VerifySignedEvidenceReportAt_def sample_bytes
    using p nt pay e a sample_verdict
    by (simp add: sample_signer sample_decoded sample_signed_checks sample_envelope_def Let_def seq_err.simps under_def)
  then show ?thesis
    using p(7) by (simp add: VerifySignedReport_def sample_signed_report_def EnvelopeDigest_def sample_bytes check_attestation_def)
qed

subsection \<open>The properties\<close>



text \<open>The deployer's loop: a signed report is verified against the accepted snapshots and leaves the next ones.\<close>

inductive report_step :: "(string list \<Rightarrow> string list) \<Rightarrow> report_crypto \<Rightarrow> SnapshotState \<Rightarrow> SnapshotState \<Rightarrow> bool" for order cr where
  accepted: "VerifySignedReport order cr clock sr (policy\<lparr>ppSnapshots := Some s\<rparr>) = Inr (rep, t) \<Longrightarrow> report_step order cr s t"

lemma report_step_loop:
  assumes "report_step order cr s t"
  shows "\<exists>rs. snapshot_loop s rs = Inr t"
  using assms
proof cases
  case (accepted clock sr policy rep)
  then obtain r digest where r: "sr = Some r" "EnvelopeDigest (srEnvelope r) = Inr digest"
    by (auto simp: VerifySignedReport_def split: option.splits if_splits sum.splits)
  then obtain policy' where p: "check_attestation r digest (policy\<lparr>ppSnapshots := Some s\<rparr>) = Inr policy'"
    "VerifySignedEvidenceReportAt order cr clock (srEnvelope r) (srTimestamp r) policy' = Inr (rep, t)"
    using accepted by (auto simp: VerifySignedReport_def split: if_splits sum.splits)
  have "ppSnapshots policy' = Some s"
    using p(1) by (auto simp: check_attestation_def split: option.splits if_splits)
  moreover have "CheckReportLifecycle rep policy' = Inr t" by (rule signed_report_checks [OF p(2)])
  ultimately show ?thesis using lifecycle_Inr(1) [of rep policy' t] by (auto simp: accepted_snapshots_def)
qed

interpretation snapshots: advancing "report_step order cr" snapshots_ok ahead for order cr
proof unfold_locales
  fix s t u
  show "snapshots_ok s \<Longrightarrow> report_step order cr s t \<Longrightarrow> snapshots_ok t"
    "snapshots_ok s \<Longrightarrow> report_step order cr s t \<Longrightarrow> ahead s t"
    using report_step_loop snapshot_loop_effect by blast+
  show "ahead s s" by (rule ahead_refl)
  show "ahead s t \<Longrightarrow> ahead t u \<Longrightarrow> ahead s u" by (rule ahead_trans)
qed

text \<open>
  C33. Accepted status snapshots are never rolled back or forked. Start from any state file that \<open>ParseSnapshotState\<close> accepts and
  verify any signed reports one after the other, each under any policy and against the snapshots the one before it left: every
  coordinate that was accepted is still there, at a generation that is not smaller, with the same digest when the generation is
  the same, and every accepted binding is stored under its own coordinate with a source, a generation of at least 1 and a
  valid digest.
\<close>

theorem snapshots_never_roll_back:
  assumes "ParseSnapshotState raw = Inr s" "(report_step order cr)\<^sup>*\<^sup>* s t" "map_of s k = Some b"
  shows "(\<exists>c. map_of t k = Some c \<and> sbGeneration b \<le> sbGeneration c \<and> (sbGeneration b = sbGeneration c \<longrightarrow> sbDigest b = sbDigest c)) \<and>
     (\<forall>k' c. map_of t k' = Some c \<longrightarrow>
        binding_key c = k' \<and> sbSource c \<noteq> [] \<and> 1 \<le> sbGeneration c \<and> content_Validate (sbDigest c) = None)"
  using snapshots.steps_later [OF assms(2) ParseSnapshotState_ok [OF assms(1)]] snapshots.steps_inv [OF assms(2) ParseSnapshotState_ok [OF assms(1)]] assms(3)
  by (simp add: ahead_def snapshots_ok_def)

definition state_text :: string where
  "state_text = object_text
     [(''@version'', quoted StateVersion),
      (''snapshots'', list_text [object_text
         [(''componentType'', quoted ''token''), (''digest'', digest_text (CHR ''d'')), (''evidenceDigest'', digest_text (CHR ''a'')),
          (''generation'', ''1''), (''source'', quoted ''ca'')]])]"

lemma state_parsed: "ParseSnapshotState state_text = Inr sample_state"
proof -
  have len: "int (length state_text) \<le> MaxReportBytes"
    by (simp add: state_text_def object_text_def list_text_def quoted_def digest_text_def content_of_def StateVersion_def MaxReportBytes_def)
  have p: "list_all plain_text [StateVersion, ''@version'', ''snapshots'', ''componentType'', ''token'', ''digest'', ''evidenceDigest'',
      ''generation'', ''source'', ''ca'', content_of (CHR ''a''), content_of (CHR ''d'')]" by code_simp
  have "parse_json state_text = Some (XObj [(''@version'', XStr StateVersion), (''snapshots'', XArr [XObj
      [(''componentType'', XStr ''token''), (''digest'', XStr (content_of (CHR ''d''))),
       (''evidenceDigest'', XStr (content_of (CHR ''a''))), (''generation'', XNum ''1''), (''source'', XStr ''ca'')]])])"
    using p by (simp add: parse_json_def state_text_def digest_text_def printed list_text_def tokens_brack del: tokens.simps(2))
  then have "closed_value StateFile_fields \<lparr>sfVersion = [], sfSnapshots = []\<rparr> state_text =
      Some \<lparr>sfVersion = StateVersion, sfSnapshots = [sample_binding]\<rparr>"
    by (simp add: closed_value_def Check_def decode_struct_def StateFile_fields_def SnapshotBinding_fields_def find_field_def
        str_field_def int_field_def list_field_def atoi_one zero_SnapshotBinding_def sample_binding_def)
  moreover have "state_loop [] [sample_binding] = Inr sample_state" by code_simp
  ultimately show ?thesis using len by (simp add: ParseSnapshotState_def del: state_loop.simps)
qed

theorem snapshots_never_roll_back_witness:
  "\<exists>c. map_of sample_state (binding_key sample_binding) = Some c \<and> sbGeneration sample_binding \<le> sbGeneration c"
proof -
  have "report_step (\<lambda>ks. ks) sample_report_crypto sample_state sample_state"
    using sample_report_accepted [of sample_state 0] by (intro report_step.accepted) simp
  then have "(report_step (\<lambda>ks. ks) sample_report_crypto)\<^sup>*\<^sup>* sample_state sample_state" by (rule r_into_rtranclp)
  moreover have "map_of sample_state (binding_key sample_binding) = Some sample_binding" by (simp add: sample_state_def)
  ultimately show ?thesis using snapshots_never_roll_back [OF state_parsed] by blast
qed


definition sample_fact :: ReportFact where
  "sample_fact = \<lparr>factType = ''approval'', Subject = ''bob'', IssuedAt = sample_instant, Verified = True, issuedZone = 0\<rparr>"

definition lineage_report :: Report where
  "lineage_report = sample_report\<lparr>rpFacts := [sample_fact],
     rpEvidenceRecords := [\<lparr>erArtifactDigest = content_of (CHR ''a''), erNativeRecordDigest = [], erObservationID = [],
       erFact = Some sample_fact, erFactIndex = Some 0, erNativeCheckIDs = [''status:token''], erRelationTupleDigest = []\<rparr>]\<rparr>"


end
