(* ===== verification/Spec2Isabelle.thy ===== *)
theory Spec2Isabelle
  imports Consumers Authorization Delegation Sufficiency Domains Rule_Execution Database_Params
    Rule_Signer Scheme_Publication Catalog_Publication Least_Privilege Schema_Digest_Laws Role_Documents
    Signed_Reports
begin

text \<open>
  Verification of the capability language of \<^emph>\<open>register\<close>: package \<open>semantics\<close> (what a grant entails, how grants
  are delegated, intersected and decided, what a decision still owes, which evidence a relying party asks for), the rule
  executor of package \<open>ruleexec\<close>, the scheme administration of package \<open>schemeadmin\<close>, the capability catalog of
  package \<open>catalog\<close>, the evidence reports of package \<open>projection\<close>, and the root package (scheme definitions, parameter contracts, least privilege,
  role documents).

  \<^bold>\<open>The program.\<close> A \<^emph>\<open>grant\<close> names a capability identifier, parameters, extended parameter bounds and
  constraints; an \<^emph>\<open>operation\<close> names an identifier and parameters. \<open>Entails\<close> compares the two, \<open>Contains\<close>
  compares two grants (delegation), \<open>Intersect\<close> computes what several sources agree on, \<open>AuthorizeSet\<close> decides
  an operation over a set of grants and evaluates their constraints, and returns allow, deny, or allow with the
  constraints that are left to the consumer. The consumer combines decisions, discharges or resolves the
  obligations, and may ask for evidence: requirements over verified facts, challenges that name what is missing,
  action identities and source chains. A signed rule adds conditions on the request and a small workflow, which the
  executor runs under a budget after the authorization. Capability schemes are published as signed packages: a deployer confirms
  each package and its transition against a trust policy and a local registry, and advances the registry. Published
  capabilities are listed in signed catalogs, whose generations a deployer follows by snapshots and deltas: it verifies them
  against its policy, the declarations it pins and the signer's own grants, and advances an accepted state. A service loads the scheme
  definitions and the role documents of its deployment into a registry, which validates the capabilities and the parameters of requests
  and turns the signed roles into authorization records. A verifier of foreign evidence assembles what it checked into an evidence report
  and signs it; a relying party verifies the signature, recomputes the verdict, and follows the status snapshots the report names.

  \<^bold>\<open>Go in HOL.\<close> The \<open>Go_\<close> theories hold what the sources use of the language and its standard library.
  \<^item> \<open>Go_Prelude\<close>: error values (\<open>None\<close> is the nil error, \<open>seq_err\<close> a sequence of early returns, \<open>first_err\<close> a loop
    with one), maps as association lists with distinct keys whose order is the iteration order, strings and bytes as char lists.
  \<^item> \<open>Go_Regexp\<close> (anchored expressions by derivatives), \<open>Go_Float\<close> (binary64 with exact rational values, rounding,
    infinities and NaN), \<open>Go_Strconv\<close>, \<open>Go_Json\<close> (the tokens of a text and their decoding, and \<open>ParseFloat\<close>),
    \<open>Go_Value\<close> (what decoding leaves in an \<open>any\<close>), \<open>Go_Time\<close> (RFC 3339, instants in nanoseconds, durations at
    their 64 bits), \<open>Go_Sha256\<close> (SHA-256 on 32-bit words, hexadecimal and base64url texts, and a known answer), \<open>Strict_Json\<close> (JSON decoded into structs without unknown members, and the duplicate scan of \<open>internal/jsonstrict\<close>).
  \<^item> \<open>Contracts\<close>: the promises of the components as locales, \<open>narrowing\<close> (a child that is accepted admits no
    more than its parent, hence chains) and \<open>meeting\<close> (a meet admits only what both sides admit, hence folds).
    Identifiers, values, bounds, grants and string domains interpret \<open>narrowing\<close>; bounds and grants interpret
    \<open>meeting\<close>; \<open>append_only\<close> (steps keep an invariant and extend a log) is interpreted by the scheme registry and by the catalog state, and
    \<open>advancing\<close> of \<open>Report_Laws\<close> (steps keep an invariant and never go back in an order) by the accepted snapshots.

  \<^bold>\<open>Components of \<open>semantics\<close>.\<close>
  \<^item> \<open>Errors\<close>: the sentinel errors. \<open>Capability_Id\<close>: \<open>ValidateCapabilityID\<close>, namespaces, \<open>matchID\<close>, revisions; C1.
  \<^item> \<open>Canonical\<close>, \<open>Canonical_Laws\<close> (\<open>canonical.go\<close>): the RFC 8785 form and what it determines.
  \<^item> \<open>Params\<close>: the boundary checks on decoded parameters, \<open>valueSubset\<close>, \<open>paramsSubset\<close>, \<open>ConstraintWithin\<close>.
    \<open>Raw_Params\<close>: the same boundary on JSON text (\<open>ValidateRawParams\<close>).
  \<^item> \<open>Param_Bounds\<close> (\<open>parambounds.go\<close>) with \<open>Bound_Laws\<close> (containment of bounds is sound for requests) and
    \<open>Bound_Meet\<close> (the meet admits only what both sides admit and is well-formed).
  \<^item> \<open>Grants\<close> with \<open>Grant_Laws\<close> and \<open>Intersect_Laws\<close>; the properties C3 to C7 are in \<open>Delegation\<close>.
  \<^item> \<open>Constraints\<close>, \<open>Authorize\<close> (\<open>AuthorizeSet\<close>, \<open>authorizechain.go\<close>, \<open>constraintunion.go\<close>) with \<open>Authorize_Laws\<close>; C8, C10 and C12 in
    \<open>Authorization\<close>.
  \<^item> \<open>Decisions\<close> (\<open>obligations.go\<close>, \<open>combine.go\<close>, \<open>resolve.go\<close>) with \<open>Decision_Laws\<close>; C13, C14, C16 and C17 in \<open>Consumers\<close>.
  \<^item> \<open>Digests\<close>, \<open>Evidence\<close> (\<open>evidence.go\<close>, \<open>context.go\<close>), \<open>Requirement\<close> (\<open>requirement.go\<close>) with \<open>Requirement_Laws\<close>,
    \<open>Action_Match\<close> (\<open>match.go\<close>), \<open>Challenge\<close> (\<open>challenge.go\<close>), \<open>Sources\<close> (\<open>sources.go\<close>); C18, C20, C22, C24, C27 and C28 in \<open>Sufficiency\<close>.
  \<^item> \<open>Domains\<close> (\<open>domains.go\<close>); C29 and C30.

  \<^bold>\<open>Components of \<open>ruleexec\<close>.\<close>
  \<^item> \<open>Rule_Conditions\<close> (\<open>budget.go\<close>, \<open>defaults.go\<close>, \<open>condition.go\<close>): the budget as a record that every evaluation
    threads, the conditions, and the budget-free meaning \<open>cond_sem\<close>; \<open>Rule_Condition_Laws\<close>: the evaluation refines it.
  \<^item> \<open>Rule_Flow\<close> (\<open>structure.go\<close>, \<open>flow.go\<close>, \<open>executor.go\<close>): structural checks, static bound, flows and decisions, with
    the gateway's handler and its state as arguments; \<open>Rule_Flow_Laws\<close>: what a run spends, which operations it asks
    for, that it does not panic, which budgets suffice. C31, C32 and C34 to C36 in \<open>Rule_Execution\<close>.
  \<^item> \<open>Rule_Sql\<close> (\<open>sqlgen.go\<close>): the statement generator, a reader for the quoting rule of MySQL, and C37; \<open>Database_Params\<close>
    (\<open>params_validate.go\<close> of the root package): the contract of the database scheme, and C38 on the two together.
  \<^item> \<open>Rule_Signer\<close> (\<open>signer_grant.go\<close>): the publication boundary of rules, and C39.

  \<^bold>\<open>Components of \<open>schemeadmin\<close>.\<close>
  \<^item> \<open>Scheme_Artifacts\<close> (\<open>schemeadmin.go\<close>, \<open>package.go\<close>, \<open>transition.go\<close>): codes, grammars, digests, the two signed artifacts with
    their decoders and validation, management operations, revisions. \<open>Scheme_Declaration\<close> (\<open>internal/schemedecl\<close>): declared
    domains and the payload of a package.
  \<^item> \<open>Scheme_Trust\<close> (\<open>policy.go\<close>, parts of \<open>confirm.go\<close> and \<open>state.go\<close>): trust policy, registry state, certificates, grants of a
    certificate, tombstones. \<open>Scheme_Confirm\<close> (\<open>confirm.go\<close>, \<open>approval.go\<close>, \<open>signed.go\<close>, \<open>delegation.go\<close>): the confirmation and the delegation.
    \<open>Scheme_Registry\<close> (\<open>state.go\<close>): \<open>Accept\<close>, \<open>AcceptSigned\<close>, persisted states.
  \<^item> \<open>Scheme_Laws\<close>: what an accepted confirmation has checked, the registry as a state machine (\<open>registry_step\<close>) with its
    invariant; \<open>Scheme_Example\<close>: a first package confirmed and accepted; C11 and C40 in \<open>Scheme_Publication\<close>.

  \<^bold>\<open>Components of \<open>catalog\<close>.\<close>
  \<^item> \<open>Catalog_Artifacts\<close> (\<open>catalog.go\<close>): codes, closed decoding, catalogs and their entries, validation, digests.
    \<open>Catalog_Delta\<close> (\<open>delta.go\<close>, \<open>discovery.go\<close>, \<open>index.go\<close>): deltas and their application, discovery records, the index.
  \<^item> \<open>Catalog_Verify\<close> (\<open>policy.go\<close>, \<open>verify.go\<close>, \<open>signed.go\<close>): the policy, the signer, the checks of a catalog and
    \<open>VerifySigned\<close>. \<open>Catalog_Signed\<close> (\<open>delta_signed.go\<close>, \<open>rotation.go\<close>, \<open>compose.go\<close>): signed deltas, rotation of the roots,
    merging of shards. \<open>Catalog_Registry\<close> (\<open>policy.go\<close>, \<open>io.go\<close>, \<open>exchange.go\<close>, \<open>cache.go\<close>): the accepted state, bundles, the
    cache. The functions that schemeadmin and catalog both have (the grants of a certificate, digests) are modelled once.
  \<^item> \<open>Catalog_Laws\<close>: the state machine \<open>cat_step\<close> with its invariant and what an admitted catalog has checked; \<open>Catalog_Edits\<close>:
    the index is a lookup and what the edits of a delta do, merged shards represent every entry, fetching
    from a handler returns the bundle, the age of cached bundles, retired roots; \<open>Catalog_Example\<close>: a catalog and a delta
    accepted one after the other; C2, C9 and C19 in \<open>Catalog_Publication\<close>.

  \<^bold>\<open>Components of the root package.\<close>
  \<^item> \<open>Scheme_Schema\<close> (\<open>schema.go\<close>, \<open>registry.go\<close>, \<open>validator.go\<close>): the definition of a scheme, capability texts, the matching of
    patterns, the registry of definitions and its validation of roles; \<open>Scheme_Schema_Laws\<close>: matching by segments, its relation to
    \<open>matchID\<close>, the round trip of capability texts, and what \<open>Register\<close> and lookups do.
  \<^item> \<open>Params_Contract\<close> (\<open>flatparams.go\<close>, \<open>jsonschema.go\<close>, and the validation of claims): flat contracts and the subset of JSON Schema the program
    supports; \<open>Params_Laws\<close>: the verdict does not depend on the order of a map, references are refused, and what an accepted value has passed.
  \<^item> \<open>Least_Privilege\<close> (\<open>mincap.go\<close>): claims against the required capabilities; C21 and C23.
  \<^item> \<open>Schema_Digest\<close> (\<open>schema_digest.go\<close>): the digest of a parameter schema and the edit of a scheme file that adds it;
    C25 in \<open>Schema_Digest_Laws\<close>.
  \<^item> \<open>Registry_Loading\<close> (\<open>loader.go\<close>, \<open>genauthz.go\<close>, the verifying half of \<open>sign.go\<close>): loading of schemes and signed roles, and the
    records that are generated from them; C4 in \<open>Role_Documents\<close>.

  \<^bold>\<open>Components of \<open>projection\<close>.\<close>
  \<^item> \<open>Evidence_Report\<close> (\<open>typed.go\<close>, \<open>projector.go\<close>, \<open>evidence.go\<close>, \<open>derivation.go\<close>, \<open>validate.go\<close>): instants with their zone and their
    texts, content digests, native check results and their assessment, profiles, the report and its validation. The argument \<open>order\<close> is the
    iteration order of a map.
  \<^item> \<open>Report_Lifecycle\<close> (\<open>lifecycle.go\<close>, \<open>state.go\<close>, \<open>evidence.go\<close>, \<open>report.go\<close>): accepted status snapshots and their file, replay evidence,
    the policy of a relying party, and the assembly of a report. A stream of replay records is read value by value, with the number of tokens as fuel
    (every value takes at least one).
  \<^item> \<open>Report_Signed\<close> (\<open>reportauth.go\<close>, \<open>envelope.go\<close>, \<open>timestamp.go\<close>, \<open>attestation.go\<close>): the JSON form of a report and its closed decoder, the
    envelope with its pre-authentication encoding, time stamps, the signer's certificate, verification and signing.
  \<^item> \<open>Report_Laws\<close>: what an accepted lineage, snapshot, assessment and signature have passed; C15, C26 and C33 in \<open>Signed_Reports\<close>, with a signed report
    that is accepted.

  \<^bold>\<open>What the properties show.\<close> Entailment is exact (C1, C3); authorization records come only from role documents that were validated and verified (C4); delegation never widens, with the side conditions that are
  needed and concrete grants for the shapes outside them (C5, C6, C7); the intersection keeps to every source
  (C8); the decision function refines its specification, also along a chain (C10, C12); consumers see well-shaped decisions, and combining, discharging and resolving keep
  denials and obligations (C13, C14, C16, C17). Requirement expressions print and parse back (C18), satisfaction is exact (C20), freshness is exact up to the
  wrap-around of durations (C22), a refusal can always be turned into a challenge (C24), accepted source chains are acyclic and the walk on them ends
  (C27, C28). Declared string domains are enforced and compose, the aggregation over them depends on the order of
  the grants (C29, C30). A rule decision is sound, refines the meaning of its conditions,
  keeps its budget in order, runs each operation at most once, and uses up a shared budget (C31, C32, C34 to C36).
  Generated SQL has no injection and stays within the contract's allowlists (C37, C38), and a rule is published only
  within the authority of its signer (C39). A scheme registry is advanced only by packages that their publishers signed within the
  root authority and with the required quorums (C11), and it never forks, rewrites its history or loses a revocation (C40).
  A claimed set of capabilities is accepted exactly when it covers what is required and nothing more (C21), the verdict on parameters
  does not depend on the order of members (C23), and adding the digests of parameter schemas to a file is idempotent (C25).
  An update from a catalog directory admits only signed catalogs within the signer's grants and moves the state by at most one
  generation (C2), no sequence of updates rolls a catalog state back or forks it (C9), and a delta changes exactly the
  capabilities it names (C19). An accepted signed report was signed under a certificate of an allowed principal, passed the policy, and has the
  verdict that its own facts give (C15); the snapshots a relying party accepts never go back (C33); and every fact of a report stems from one
  record, whose checks are bound to the artifact (C26).

  \<^bold>\<open>Termination and bounds.\<close> Every definition is total. Recursion over JSON values, expressions, conditions and flows is
  structural or has a measure; the depth-first search of \<open>detectCycle\<close> and the walk of \<open>StandingOn\<close> carry as fuel the number
  of nodes, and the theorems show that it is never used up on the inputs they are called with.
  The schema validator descends into schema and value together, and its measure is proved. The numeric limits
  (64 KiB of parameters, depth 32, 64 expression nodes, 10000 steps and so on) are the constants of the sources.

  \<^bold>\<open>Arguments of the model.\<close> The clock, the understanding of extension constraints by a handler, Unicode lower casing, action
  projectors, the operation handler of the gateway, the parser of certificate extensions, the resolver of status references, the HTTP
  client of a directory and, for scheme administration and the catalog, the verification of PKCS#7 signatures and of X.509 chains (the record \<open>crypto\<close>), and for the root package the
  directory listing, the file reads and the decoding of certificates (the record \<open>pki\<close>), and for reports the chains of time stampers, the
  validity of a certificate and the production of a signature (the record \<open>report_crypto\<close>) are arguments of the definitions that use them.

  \<^bold>\<open>Not modelled.\<close> Decoding of JSON into the remaining Go structures (\<open>ParseRequirement\<close>, \<open>LoadRule\<close>, the raw contract of a query), the messages of
  wrapped errors, decision records and envelopes, the publication and loading of rule files, the signing half
  of \<open>sign.go\<close>, generated documentation, the decoder of a catalog policy file, the projectors that read foreign
  artifact formats and the registry of projectors, \<open>DecodeSignedReport\<close>; X.509 and PKCS#7, the file system,
  HTTP and the command-line programs are outside the model.
\<close>

end
